(* ===== verification/Prelude.thy ===== *)
theory Prelude
  imports Main
begin

text \<open>
  Shared vocabulary of the development: identifiers and instants, the exceptions the services
  raise, the shape of a handler (explicit state passing, the outcome a sum), the
  control structures of the TypeScript source that handlers are written with (a guard that
  throws, try/finally, a database transaction), and the lemma collections the component
  theories extend.
\<close>

section \<open>Identifiers, instants, exceptions\<close>

text \<open>
  Every primary key is a Postgres \<open>uuid\<close>. The program only compares ids for equality, so an id
  is an opaque token, drawn from a supply when a row is inserted. A \<open>Date\<close> is its number of
  milliseconds since the epoch.
\<close>

type_synonym uuid = nat
type_synonym date = int

text \<open>
  The NestJS exception classes the services throw, with the fixed part of their message, and
  the errors Postgres raises (a violated constraint, a value out of a column's range), which
  the exception filter turns into a 400, a 409 or a 500.
\<close>

datatype exn =
    BadRequestException string
  | UnauthorizedException string
  | ForbiddenException string
  | NotFoundException string
  | ConflictException string
  | ServiceUnavailableException string
  | QueryFailedError string
  | GatewayError string
  | SessionCompromisedError

text \<open>
  The error code Postgres reports for a refused statement, by the constraint or column this
  development names it after: a unique index, an enum label or integer that does not parse, a
  number out of the column's range, a malformed date.
\<close>

definition pg_code :: "string \<Rightarrow> string" where
  "pg_code c =
     (if c \<in> {''users unique'', ''drivers unique'', ''vehicles unique'', ''uq_ledger_ride_type'',
        ''tokenHash''} then ''23505''
      else if c = ''vehicles'' then ''22P02''
      else if c = ''numeric field overflow'' then ''22003'' else ''22007'')"

text \<open>The status the exception filter answers with.\<close>

fun http_status :: "exn \<Rightarrow> nat" where
  "http_status (BadRequestException _) = 400"
| "http_status (UnauthorizedException _) = 401"
| "http_status (ForbiddenException _) = 403"
| "http_status (NotFoundException _) = 404"
| "http_status (ConflictException _) = 409"
| "http_status (ServiceUnavailableException _) = 503"
| "http_status (QueryFailedError c) =
     (if pg_code c = ''23505'' then 409 else if pg_code c = ''22P02'' then 400 else 500)"
| "http_status (GatewayError _) = 500"
| "http_status SessionCompromisedError = 500"

type_synonym 'a outcome = "exn + 'a"

section \<open>Handlers\<close>

text \<open>
  An async method of a service is a function from the state of the world to its outcome and
  the new state. A throw does not undo the writes made before it, so the state is returned on
  the error path as well.
\<close>

type_synonym ('s, 'a) handler = "'s \<Rightarrow> 'a outcome \<times> 's"

definition returns :: "'a \<Rightarrow> ('s, 'a) handler" where
  "returns x s = (Inr x, s)"

definition throws :: "exn \<Rightarrow> ('s, 'a) handler" where
  "throws e s = (Inl e, s)"

text \<open>\<open>await m\<close> followed by the rest of the method: a throw of \<open>m\<close> skips the rest.\<close>

definition andThen :: "('s, 'a) handler \<Rightarrow> ('a \<Rightarrow> ('s, 'b) handler) \<Rightarrow> ('s, 'b) handler" where
  "andThen m k s = (case m s of (Inl e, s') \<Rightarrow> (Inl e, s') | (Inr x, s') \<Rightarrow> k x s')"

text \<open>\<open>if (c) throw e;\<close>\<close>

definition throwIf :: "bool \<Rightarrow> exn \<Rightarrow> ('s, 'a) handler \<Rightarrow> ('s, 'a) handler" where
  "throwIf c e k s = (if c then (Inl e, s) else k s)"

text \<open>\<open>const x = o; if (!x) throw e;\<close>\<close>

definition orThrow :: "'a option \<Rightarrow> exn \<Rightarrow> ('a \<Rightarrow> ('s, 'b) handler) \<Rightarrow> ('s, 'b) handler" where
  "orThrow x e k s = (case x of None \<Rightarrow> (Inl e, s) | Some y \<Rightarrow> k y s)"

text \<open>\<open>try { m } finally { f }\<close>, for a finaliser that itself does not throw.\<close>

definition tryFinally :: "('s, 'a) handler \<Rightarrow> ('s \<Rightarrow> 's) \<Rightarrow> ('s, 'a) handler" where
  "tryFinally m f s = (case m s of (r, s') \<Rightarrow> (r, f s'))"

text \<open>\<open>try { m } catch (e) { f; throw e; }\<close>\<close>

definition tryRethrow :: "('s, 'a) handler \<Rightarrow> ('s \<Rightarrow> 's) \<Rightarrow> ('s, 'a) handler" where
  "tryRethrow m f s = (case m s of (Inl e, s') \<Rightarrow> (Inl e, f s') | (Inr x, s') \<Rightarrow> (Inr x, s'))"

text \<open>
  \<open>manager.transaction(async manager => ...)\<close>: a throw inside rolls every write of the body
  back. The bodies in the source only touch the database.
\<close>

definition transaction :: "('s, 'a) handler \<Rightarrow> ('s, 'a) handler" where
  "transaction m s = (case m s of (Inl e, _) \<Rightarrow> (Inl e, s) | (Inr x, s') \<Rightarrow> (Inr x, s'))"

lemmas handler_defs = returns_def throws_def andThen_def throwIf_def orThrow_def
  tryFinally_def tryRethrow_def transaction_def

section \<open>Lemma collections\<close>

named_theorems exact_num \<open>double arithmetic that is exact on amounts with two decimals\<close>
named_theorems repo_laws \<open>what a lookup in a table returns after a write\<close>
named_theorems wf_intros \<open>preservation of the invariants by the operations\<close>

section \<open>Reasoning about handlers\<close>

lemma transaction_Inl_iff: "transaction m s = (Inl e, s') \<longleftrightarrow> fst (m s) = Inl e \<and> s' = s"
  by (auto simp: transaction_def split: prod.splits sum.splits)

lemma transaction_Inr_iff: "transaction m s = (Inr x, s') \<longleftrightarrow> m s = (Inr x, s')"
  by (auto simp: transaction_def split: prod.splits sum.splits)

lemma tryFinally_iff: "tryFinally m f s = (r, s') \<longleftrightarrow> (\<exists>t. m s = (r, t) \<and> s' = f t)"
  by (auto simp: tryFinally_def split: prod.splits)

lemma andThen_Inr_iff:
  "andThen m k s = (Inr y, s') \<longleftrightarrow> (\<exists>x t. m s = (Inr x, t) \<and> k x t = (Inr y, s'))"
  by (auto simp: andThen_def split: prod.splits sum.splits)

lemma throwIf_Inr_iff: "throwIf c e k s = (Inr y, s') \<longleftrightarrow> \<not> c \<and> k s = (Inr y, s')"
  by (auto simp: throwIf_def)

lemma orThrow_Inr_iff:
  "orThrow x e k s = (Inr y, s') \<longleftrightarrow> (\<exists>z. x = Some z \<and> k z s = (Inr y, s'))"
  by (auto simp: orThrow_def split: option.splits)

lemma returns_iff: "returns x s = (r, s') \<longleftrightarrow> r = Inr x \<and> s' = s"
  by (auto simp: returns_def)

lemma throws_iff: "throws e s = (r, s') \<longleftrightarrow> r = Inl e \<and> s' = s"
  by (auto simp: throws_def)

text \<open>Successful runs only: the rewriting that turns a run into its guards and its writes.\<close>

lemmas success_iffs = transaction_Inr_iff tryFinally_iff andThen_Inr_iff throwIf_Inr_iff
  orThrow_Inr_iff returns_iff throws_iff

lemma run_Inr: "\<not> isl (fst r) \<Longrightarrow> \<exists>x. r = (Inr x, snd r)" for r :: "'a outcome \<times> 's"
  by (cases r; cases "fst r") auto

text \<open>
  An invariant of the state that every step keeps is kept by the control structures.
\<close>

definition keeps :: "('s \<Rightarrow> bool) \<Rightarrow> ('s, 'a) handler \<Rightarrow> bool" where
  "keeps I m \<longleftrightarrow> (\<forall>s. I s \<longrightarrow> I (snd (m s)))"

lemma keepsD: "keeps I m \<Longrightarrow> I s \<Longrightarrow> m s = (r, s') \<Longrightarrow> I s'"
  by (metis keeps_def snd_conv)

lemma keeps_returns [wf_intros]: "keeps I (returns x)"
  by (simp add: keeps_def returns_def)

lemma keeps_throws [wf_intros]: "keeps I (throws e)"
  by (simp add: keeps_def throws_def)

lemma keeps_throwIf [wf_intros]: "(\<not> c \<Longrightarrow> keeps I k) \<Longrightarrow> keeps I (throwIf c e k)"
  by (auto simp: keeps_def throwIf_def)

lemma keeps_orThrow [wf_intros]: "(\<And>y. x = Some y \<Longrightarrow> keeps I (k y)) \<Longrightarrow> keeps I (orThrow x e k)"
  by (auto simp: keeps_def orThrow_def split: option.splits)

lemma keeps_andThen [wf_intros]:
  "keeps I m \<Longrightarrow> (\<And>x. keeps I (k x)) \<Longrightarrow> keeps I (andThen m k)"
  by (fastforce simp: keeps_def andThen_def split: prod.splits sum.splits)

lemma keeps_tryFinally [wf_intros]:
  "keeps I m \<Longrightarrow> (\<And>s. I s \<Longrightarrow> I (f s)) \<Longrightarrow> keeps I (tryFinally m f)"
  by (fastforce simp: keeps_def tryFinally_def split: prod.splits)

lemma keeps_tryRethrow [wf_intros]:
  "keeps I m \<Longrightarrow> (\<And>s. I s \<Longrightarrow> I (f s)) \<Longrightarrow> keeps I (tryRethrow m f)"
  by (fastforce simp: keeps_def tryRethrow_def split: prod.splits sum.splits)

lemma keeps_transaction [wf_intros]: "keeps I m \<Longrightarrow> keeps I (transaction m)"
  by (fastforce simp: keeps_def transaction_def split: prod.splits sum.splits)

section \<open>Lists\<close>

lemma find_map_cong:
  "(\<And>x. P (f x) = P x) \<Longrightarrow> find P (map f xs) = map_option f (find P xs)"
  by (induction xs) auto

lemma find_append: "find P (xs @ ys) = (case find P xs of None \<Rightarrow> find P ys | Some x \<Rightarrow> Some x)"
  by (induction xs) auto

lemma find_SomeD: "find P xs = Some x \<Longrightarrow> x \<in> set xs \<and> P x"
  by (induction xs) (auto split: if_splits)

lemma find_NoneD: "find P xs = None \<Longrightarrow> x \<in> set xs \<Longrightarrow> \<not> P x"
  by (induction xs) (auto split: if_splits)

lemma list_all2_memD: "list_all2 P xs ys \<Longrightarrow> y \<in> set ys \<Longrightarrow> \<exists>x\<in>set xs. P x y"
  by (induction rule: list_all2_induct) auto

lemma sum_list_filter_append:
  "sum_list (map f (filter P (xs @ ys))) =
   sum_list (map f (filter P xs)) + (sum_list (map f (filter P ys)) :: 'a::comm_monoid_add)"
  by simp

end
