(* ===== verification/JsNumber.thy ===== *)
theory JsNumber
  imports Prelude Complex_Main "HOL-Library.Log_Nat"
begin

text \<open>
  The numbers of the program. A JavaScript number is an IEEE-754 double; a finite double is
  modelled by the rational it denotes and every operation rounds its exact result to the
  nearest double, ties to even. Not-a-number, the infinities and signed zero do not arise (the
  DTOs reject them, the columns cannot hold them) and the exponent range is not bounded (every
  amount lies far inside it). A \<open>decimal(p,2)\<close> column is the integer number of its hundredths.

  The lemmas bound the rounding error and show that the computations on amounts with two
  decimals are exact to the hundredth.
\<close>

section \<open>Rounding to the nearest double\<close>

text \<open>A rational rounded to an integer, ties to even.\<close>

definition round_even :: "rat \<Rightarrow> int" where
  "round_even y =
     (let f = \<lfloor>y\<rfloor>; r = y - of_int f
      in if r < 1/2 then f else if 1/2 < r then f + 1 else if even f then f else f + 1)"

text \<open>
  The exponent of the unit in the last place: \<open>2 powi ulp_exp x\<close> times an integer between
  \<open>2 ^ 52\<close> and \<open>2 ^ 53\<close> (53 significant bits).
\<close>

definition ulp_exp :: "rat \<Rightarrow> int" where
  "ulp_exp x =
     (case quotient_of \<bar>x\<bar> of (a, b) \<Rightarrow>
        let t = bitlen a - bitlen b
        in (if \<bar>x\<bar> < 2 powi t then t - 1 else t) - 52)"

definition fl :: "rat \<Rightarrow> rat" where
  "fl x = (if x = 0 then 0
           else let u = 2 powi ulp_exp x in of_int (round_even (x / u)) * u)"

type_synonym num = rat

text \<open>The operators \<open>+\<close>, \<open>-\<close>, \<open>*\<close> and \<open>/\<close>, and a decimal literal of the source.\<close>

definition js_add :: "num \<Rightarrow> num \<Rightarrow> num" where
  "js_add a b = fl (a + b)"

definition js_sub :: "num \<Rightarrow> num \<Rightarrow> num" where
  "js_sub a b = fl (a - b)"

definition js_mul :: "num \<Rightarrow> num \<Rightarrow> num" where
  "js_mul a b = fl (a * b)"

definition js_div :: "num \<Rightarrow> num \<Rightarrow> num" where
  "js_div a b = fl (a / b)"

definition js_lit :: "rat \<Rightarrow> num" where
  "js_lit q = fl q"

text \<open>
  \<open>Math.floor\<close>, and \<open>Math.round\<close>, which rounds a tie towards positive infinity. Both return
  the exact integer.
\<close>

definition js_floor :: "num \<Rightarrow> int" where
  "js_floor x = \<lfloor>x\<rfloor>"

definition js_round :: "num \<Rightarrow> int" where
  "js_round x = \<lfloor>x + 1/2\<rfloor>"

section \<open>Decimal columns\<close>

text \<open>
  \<open>Number(column)\<close>: \<open>pg\<close> returns a \<open>decimal\<close> as the string of its value, and \<open>Number\<close> of that
  string is the nearest double.
\<close>

type_synonym dec2 = int

definition num_of_dec :: "dec2 \<Rightarrow> num" where
  "num_of_dec k = fl (of_int k / 100)"

text \<open>
  A number written to a \<open>decimal(p,2)\<close> column is sent as the string \<open>Number.prototype.toString\<close>
  prints: the decimal with the fewest digits that reads back as the same double. Postgres
  rounds that decimal to two places, ties away from zero, and refuses a value of more than
  \<open>p\<close> digits. Twenty-five fractional digits are enough to print any double above one
  millionth (17 significant digits); below that the model takes the exact value.
\<close>

fun shortest_decimal :: "nat \<Rightarrow> nat \<Rightarrow> num \<Rightarrow> rat" where
  "shortest_decimal 0 d x = x"
| "shortest_decimal (Suc n) d x =
     (let q = of_int (round_even (x * 10 ^ d)) / 10 ^ d
      in if fl q = x then q else shortest_decimal n (Suc d) x)"

definition js_to_decimal :: "num \<Rightarrow> rat" where
  "js_to_decimal x = shortest_decimal 25 0 x"

definition round_half_away :: "rat \<Rightarrow> int" where
  "round_half_away q = (if 0 \<le> q then \<lfloor>q + 1/2\<rfloor> else - \<lfloor>1/2 - q\<rfloor>)"

definition dec_of_num :: "num \<Rightarrow> dec2" where
  "dec_of_num x = round_half_away (js_to_decimal x * 100)"

definition fits_decimal :: "nat \<Rightarrow> dec2 \<Rightarrow> bool" where
  "fits_decimal p k \<longleftrightarrow> \<bar>k\<bar> < 10 ^ p"

definition store_decimal :: "nat \<Rightarrow> num \<Rightarrow> dec2 outcome" where
  "store_decimal p x =
     (let k = dec_of_num x
      in if fits_decimal p k then Inr k else Inl (QueryFailedError ''numeric field overflow''))"

section \<open>Error bounds\<close>

lemma round_even_error: "\<bar>of_int (round_even y) - y\<bar> \<le> 1/2"
  using floor_correct [of y] by (auto simp: round_even_def Let_def abs_le_iff)

lemma round_even_eq: "\<bar>y - of_int m\<bar> < 1/2 \<Longrightarrow> round_even y = m"
proof -
  assume a: "\<bar>y - of_int m\<bar> < 1/2"
  have "\<bar>(of_int (round_even y) :: rat) - of_int m\<bar> < 1"
    using a round_even_error [of y] by linarith
  then have "\<bar>of_int (round_even y - m)\<bar> < (1::rat)" by simp
  then show ?thesis by linarith
qed

lemma bitlen_pos_bounds:
  assumes "0 < a"
  shows "2 powi (bitlen a - 1) \<le> (of_int a :: rat)" "(of_int a :: rat) < 2 powi bitlen a"
proof -
  have *: "2 ^ nat (bitlen a - 1) \<le> a \<and> a < 2 ^ nat (bitlen a)"
    using bitlen_bounds [OF assms] .
  have p: "0 < bitlen a" using assms bitlen_nonneg[of a] bitlen_eq_zero_iff[of a] by linarith
  have "(2::rat) powi (bitlen a - 1) = of_int (2 ^ nat (bitlen a - 1))"
    using p by (simp add: power_int_def)
  also have "\<dots> \<le> of_int a" using * by linarith
  finally show "2 powi (bitlen a - 1) \<le> (of_int a :: rat)" .
  have "(of_int a :: rat) < of_int (2 ^ nat (bitlen a))" using * by (simp only: of_int_less_iff)
  also have "\<dots> = 2 powi bitlen a" using p by (simp add: power_int_def)
  finally show "(of_int a :: rat) < 2 powi bitlen a" .
qed

lemma ulp_lower:
  assumes "x \<noteq> 0"
  shows "2 powi (ulp_exp x + 52) \<le> \<bar>x\<bar>" "\<bar>x\<bar> < 2 powi (ulp_exp x + 53)"
proof -
  obtain a b where q: "quotient_of \<bar>x\<bar> = (a, b)" by force
  have b: "0 < b" using quotient_of_denom_pos [OF q] .
  have x: "\<bar>x\<bar> = of_int a / of_int b" using quotient_of_div [OF q] .
  have a: "0 < a" using x b assms
    by (metis abs_eq_0 divide_eq_0_iff divide_le_0_iff abs_le_zero_iff of_int_0_less_iff of_int_0_le_iff not_less of_int_le_0_iff linorder_neqE)
  define t where "t = bitlen a - bitlen b"
  have lo: "2 powi (t - 1) \<le> \<bar>x\<bar>"
  proof -
    have "2 powi (t - 1) * of_int b \<le> 2 powi (t - 1) * (2 powi bitlen b :: rat)"
      using bitlen_pos_bounds(2) [OF b] by (intro mult_left_mono) auto
    also have "\<dots> = 2 powi (bitlen a - 1)"
      by (simp add: t_def flip: power_int_add)
    also have "\<dots> \<le> of_int a" by (rule bitlen_pos_bounds(1) [OF a])
    finally show ?thesis using b by (simp add: x field_simps)
  qed
  have hi: "\<bar>x\<bar> < 2 powi (t + 1)"
  proof -
    have "of_int a < (2 powi bitlen a :: rat)" by (rule bitlen_pos_bounds(2) [OF a])
    also have "\<dots> = 2 powi (t + 1) * 2 powi (bitlen b - 1)"
      by (simp add: t_def flip: power_int_add)
    also have "\<dots> \<le> 2 powi (t + 1) * of_int b"
      using bitlen_pos_bounds(1) [OF b] by (intro mult_left_mono) auto
    finally show ?thesis using b by (simp add: x field_simps)
  qed
  have e: "ulp_exp x + 52 = (if \<bar>x\<bar> < 2 powi t then t - 1 else t)"
    by (simp add: ulp_exp_def q t_def)
  have e3: "ulp_exp x + 53 = (if \<bar>x\<bar> < 2 powi t then t else t + 1)"
    using e by (simp split: if_splits)
  show "2 powi (ulp_exp x + 52) \<le> \<bar>x\<bar>" using lo by (simp add: e)
  show "\<bar>x\<bar> < 2 powi (ulp_exp x + 53)" using hi by (simp add: e3)
qed

lemma fl_0 [simp]: "fl 0 = 0" by (simp add: fl_def)

lemma fl_error: "\<bar>fl x - x\<bar> \<le> \<bar>x\<bar> / 2 ^ 53"
proof (cases "x = 0")
  case False
  define u :: rat where "u = 2 powi ulp_exp x"
  have u: "0 < u" by (simp add: u_def)
  have "fl x - x = (of_int (round_even (x / u)) - x / u) * u"
    using u False by (simp add: fl_def Let_def u_def left_diff_distrib)
  then have "\<bar>fl x - x\<bar> = \<bar>of_int (round_even (x / u)) - x / u\<bar> * u"
    using u by (simp add: abs_mult)
  also have "\<dots> \<le> 1/2 * u" using round_even_error u by (intro mult_right_mono) auto
  finally have 1: "\<bar>fl x - x\<bar> \<le> u / 2" by simp
  have "u * 2 ^ 52 \<le> \<bar>x\<bar>" using ulp_lower(1) [OF False] by (simp add: u_def power_int_add)
  with 1 show ?thesis by simp
qed simp

lemma fl_snap:
  assumes "\<bar>x - of_int m\<bar> < \<bar>x\<bar> / 2 ^ 54" "\<bar>x\<bar> < 2 ^ 52"
  shows "fl x = of_int m"
proof (cases "x = 0")
  case False
  define e where "e = ulp_exp x"
  define u :: rat where "u = 2 powi e"
  have u: "0 < u" by (simp add: u_def)
  have "(2::rat) powi (e + 52) < 2 powi 52"
    using ulp_lower(1) [OF False] assms(2) by (simp add: e_def)
  then have e: "e \<le> 0" using power_int_increasing [of 52 "e + 52" "2::rat"] by linarith
  define n where "n = m * 2 ^ nat (- e)"
  have n: "of_int m = of_int n * u"
    using e by (simp add: n_def u_def power_int_def power_one_over)
  have hi: "\<bar>x\<bar> < u * 2 ^ 53"
    using ulp_lower(2) [OF False] by (simp add: u_def e_def power_int_add)
  have "\<bar>x / u - of_int n\<bar> * u = \<bar>x - of_int m\<bar>"
    using u by (simp add: n left_diff_distrib abs_mult_pos)
  also have "\<dots> < 1/2 * u" using assms(1) hi by simp
  finally have "\<bar>x / u - of_int n\<bar> < 1/2" using u by simp
  then have "round_even (x / u) = n" by (rule round_even_eq)
  then show ?thesis using False n by (simp add: fl_def Let_def u_def e_def)
qed (use assms in simp)
lemma fl_of_int: "\<bar>m\<bar> < 2 ^ 52 \<Longrightarrow> fl (of_int m) = of_int m"
proof (cases "m = 0")
  case False
  assume "\<bar>m\<bar> < 2 ^ 52"
  then have "of_int \<bar>m\<bar> < (of_int (2 ^ 52) :: rat)" by (simp only: of_int_less_iff)
  then show ?thesis using False by (intro fl_snap) auto
qed simp

lemma abs_scale_diff: "0 < c \<Longrightarrow> \<bar>c * x - c * y\<bar> = c * \<bar>x - y\<bar>" for c x y :: rat
  by (simp add: abs_mult flip: right_diff_distrib)

lemma fl_bounds:
  shows "\<bar>fl x\<bar> \<le> \<bar>x\<bar> * (1 + 1 / 2 ^ 53)" and "\<bar>x\<bar> * (1 - 1 / 2 ^ 53) \<le> \<bar>fl x\<bar>"
proof -
  have "\<bar>fl x\<bar> \<le> \<bar>x\<bar> + \<bar>x\<bar> / 2 ^ 53" and "\<bar>x\<bar> - \<bar>x\<bar> / 2 ^ 53 \<le> \<bar>fl x\<bar>"
    using fl_error [of x] by linarith+
  then show "\<bar>fl x\<bar> \<le> \<bar>x\<bar> * (1 + 1 / 2 ^ 53)" and "\<bar>x\<bar> * (1 - 1 / 2 ^ 53) \<le> \<bar>fl x\<bar>"
    by (simp_all add: field_simps)
qed

lemma js_round_eq: "\<bar>x - of_int k\<bar> < 1/2 \<Longrightarrow> js_round x = k"
  unfolding js_round_def by linarith

lemma round_half_away_eq:
  assumes "\<bar>q - of_int k\<bar> < 1/2"
  shows "round_half_away q = k"
proof -
  have "\<lfloor>q + 1/2\<rfloor> = k" and "\<lfloor>1/2 - q\<rfloor> = - k"
    using assms by (intro floor_unique; simp; linarith)+
  then show ?thesis by (simp add: round_half_away_def)
qed

lemma shortest_decimal_reads_back:
  "shortest_decimal n d x = x \<or> fl (shortest_decimal n d x) = x"
  by (induction n arbitrary: d) (auto simp: Let_def)

lemma js_to_decimal_error: "\<bar>js_to_decimal x - x\<bar> \<le> \<bar>x\<bar> / 2 ^ 52"
proof -
  define q where "q = js_to_decimal x"
  have "q = x \<or> fl q = x"
    using shortest_decimal_reads_back [of 25 0 x] by (simp add: q_def js_to_decimal_def)
  then have "\<bar>q - x\<bar> \<le> \<bar>x\<bar> / 2 ^ 52"
  proof
    assume f: "fl q = x"
    then have "\<bar>x - q\<bar> \<le> \<bar>q\<bar> / 2 ^ 53" and "\<bar>q\<bar> * (1 - 1 / 2 ^ 53) \<le> \<bar>x\<bar>"
      using fl_error [of q] fl_bounds(2) [of q] by auto
    then show ?thesis by (simp add: abs_minus_commute field_simps)
  qed simp
  then show ?thesis by (simp add: q_def)
qed

section \<open>Amounts with two decimals\<close>

text \<open>
  \<open>x\<close> is a double within \<open>\<epsilon>\<close> hundredths of \<open>k\<close> hundredths.
\<close>

definition near :: "rat \<Rightarrow> num \<Rightarrow> dec2 \<Rightarrow> bool" where
  "near \<epsilon> x k \<longleftrightarrow> \<bar>100 * x - of_int k\<bar> \<le> \<epsilon>"

lemma near_mono: "near a x k \<Longrightarrow> a \<le> b \<Longrightarrow> near b x k"
  by (simp add: near_def)

lemma near_fl:
  assumes "near a x k" and "\<bar>k\<bar> \<le> 10 ^ 13" and "a \<le> 1"
  shows "near (a + 1 / 500) (fl x) k"
proof -
  have k: "\<bar>of_int k :: rat\<bar> \<le> 10 ^ 13"
    using assms(2) by (simp flip: of_int_abs)
  then have "\<bar>100 * x\<bar> \<le> 10 ^ 13 + 1" using assms(1,3) unfolding near_def by linarith
  then have "\<bar>100 * fl x - 100 * x\<bar> \<le> 1 / 500"
    using fl_error [of x] by (simp add: abs_scale_diff abs_mult)
  then show ?thesis using assms(1) unfolding near_def by linarith
qed

lemma num_of_dec_near: "\<bar>k\<bar> \<le> 10 ^ 13 \<Longrightarrow> near (1 / 500) (num_of_dec k) k"
  using near_fl [of 0 "of_int k / 100" k] by (simp add: num_of_dec_def near_def)

lemma near_add:
  assumes "near a x j" "near b y k" "\<bar>j + k\<bar> \<le> 10 ^ 13" "a + b \<le> 1"
  shows "near (a + b + 1 / 500) (js_add x y) (j + k)"
proof -
  have "near (a + b) (x + y) (j + k)"
    using assms(1,2) unfolding near_def of_int_add distrib_left by linarith
  then show ?thesis using near_fl assms(3,4) unfolding js_add_def by blast
qed

lemma near_sub:
  assumes "near a x j" "near b y k" "\<bar>j - k\<bar> \<le> 10 ^ 13" "a + b \<le> 1"
  shows "near (a + b + 1 / 500) (js_sub x y) (j - k)"
proof -
  have "near (a + b) (x - y) (j - k)"
    using assms(1,2) unfolding near_def of_int_diff right_diff_distrib by linarith
  then show ?thesis using near_fl assms(3,4) unfolding js_sub_def by blast
qed

lemma dec_of_num_near:
  assumes "near (1/4) x k" "\<bar>k\<bar> \<le> 10 ^ 13"
  shows "dec_of_num x = k"
proof -
  have k: "\<bar>of_int k :: rat\<bar> \<le> 10 ^ 13"
    using assms(2) by (simp flip: of_int_abs)
  then have "\<bar>100 * x\<bar> \<le> 10 ^ 13 + 1" using assms(1) unfolding near_def by linarith
  then have "\<bar>100 * js_to_decimal x - 100 * x\<bar> \<le> 1 / 100"
    using js_to_decimal_error [of x] by (simp add: abs_scale_diff abs_mult)
  then have "\<bar>js_to_decimal x * 100 - of_int k\<bar> < 1/2"
    using assms(1) unfolding near_def mult.commute [of "js_to_decimal x"] by linarith
  then show ?thesis unfolding dec_of_num_def by (rule round_half_away_eq)
qed

text \<open>A stored amount reads back as itself.\<close>

lemma dec_of_num_of_dec [exact_num]: "\<bar>k\<bar> \<le> 10 ^ 13 \<Longrightarrow> dec_of_num (num_of_dec k) = k"
  by (rule dec_of_num_near) (auto intro: near_mono [OF num_of_dec_near])

text \<open>The sum of two stored amounts is stored as their exact sum.\<close>

lemma dec_of_js_add [exact_num]:
  assumes "\<bar>j\<bar> \<le> 10 ^ 13" "\<bar>k\<bar> \<le> 10 ^ 13" "\<bar>j + k\<bar> \<le> 10 ^ 13"
  shows "dec_of_num (js_add (num_of_dec j) (num_of_dec k)) = j + k"
  by (rule dec_of_num_near [OF near_mono [OF near_add [OF num_of_dec_near num_of_dec_near]]])
    (use assms in auto)

text \<open>Comparing two amounts compares their hundredths.\<close>

lemma near_less_iff:
  assumes "near (1/4) x j" "near (1/4) y k" "j \<noteq> k"
  shows "x < y \<longleftrightarrow> j < k"
proof -
  have "j + 1 \<le> k \<or> k + 1 \<le> j" using assms(3) by auto
  then have "of_int (j + 1) \<le> (of_int k :: rat) \<or> of_int (k + 1) \<le> (of_int j :: rat)"
    by (simp only: of_int_le_iff)
  then show ?thesis
    using assms(1,2) \<open>j + 1 \<le> k \<or> k + 1 \<le> j\<close> unfolding near_def of_int_add of_int_1 by linarith
qed

lemma num_of_dec_less_iff [exact_num]:
  assumes "\<bar>j\<bar> \<le> 10 ^ 13" "\<bar>k\<bar> \<le> 10 ^ 13"
  shows "num_of_dec j < num_of_dec k \<longleftrightarrow> j < k"
proof (cases "j = k")
  case False
  show ?thesis
    by (rule near_less_iff [OF near_mono [OF num_of_dec_near] near_mono [OF num_of_dec_near]])
      (use assms False in auto)
qed simp

lemma store_decimal_ok:
  "store_decimal p x = Inr k \<longleftrightarrow> dec_of_num x = k \<and> fits_decimal p k"
  by (auto simp: store_decimal_def Let_def)

lemma fits_decimal_10: "fits_decimal 10 k \<Longrightarrow> \<bar>k\<bar> \<le> 10 ^ 13"
  by (simp add: fits_decimal_def)

lemma fits_decimal_12: "fits_decimal 12 k \<Longrightarrow> \<bar>k\<bar> \<le> 10 ^ 13"
  by (simp add: fits_decimal_def)

end
