(* ===== verification/JsString.thy ===== *)
theory JsString
  imports JsNumber
begin

text \<open>
  The string functions of the JavaScript library that the sources use, on ASCII strings:
  \<open>trim\<close>, \<open>toLowerCase\<close>, \<open>includes\<close>, \<open>padStart\<close>, \<open>split\<close>, \<open>join\<close>, the decimal rendering of a
  natural number and \<open>Number(string)\<close>. Strings are lists of ASCII characters, on which UTF-16
  code units, UTF-8 bytes and characters coincide.
\<close>

section \<open>Case and white space\<close>

definition is_ws :: "char \<Rightarrow> bool" where
  "is_ws c \<longleftrightarrow> of_char c \<in> {9, 10, 11, 12, 13, 32 :: nat}"

definition js_trim :: "string \<Rightarrow> string" where
  "js_trim s = rev (dropWhile is_ws (rev (dropWhile is_ws s)))"

definition lower_char :: "char \<Rightarrow> char" where
  "lower_char c =
     (let n = of_char c :: nat in if 65 \<le> n \<and> n \<le> 90 then char_of (n + 32) else c)"

definition js_lower :: "string \<Rightarrow> string" where
  "js_lower s = map lower_char s"

fun js_includes :: "string \<Rightarrow> string \<Rightarrow> bool" where
  "js_includes [] p \<longleftrightarrow> p = []"
| "js_includes (c # s) p \<longleftrightarrow> take (length p) (c # s) = p \<or> js_includes s p"

section \<open>Numbers as text\<close>

fun digit_char :: "nat \<Rightarrow> char" where
  "digit_char d = char_of (48 + d)"

fun js_of_nat :: "nat \<Rightarrow> string" where
  "js_of_nat n = (if n < 10 then [digit_char n] else js_of_nat (n div 10) @ [digit_char (n mod 10)])"

declare js_of_nat.simps [simp del]

definition is_digit :: "char \<Rightarrow> bool" where
  "is_digit c \<longleftrightarrow> 48 \<le> (of_char c :: nat) \<and> (of_char c :: nat) \<le> 57"

definition digits_value :: "string \<Rightarrow> nat" where
  "digits_value s = foldl (\<lambda>n c. 10 * n + (of_char c - 48)) 0 s"

text \<open>
  \<open>Number(text)\<close> for decimal literals: white space around it is ignored, the empty text is zero;
  \<open>None\<close> stands for \<open>NaN\<close> and the infinities, which every caller treats alike. The prefixes
  \<open>0x\<close>, \<open>0o\<close> and \<open>0b\<close> are read as well.
\<close>

definition after_sign :: "string \<Rightarrow> bool \<times> string" where
  "after_sign t = (if take 1 t = ''-'' then (True, tl t) else if take 1 t = ''+'' then (False, tl t)
     else (False, t))"

definition parse_exponent :: "string \<Rightarrow> int option" where
  "parse_exponent t =
     (if t = [] then Some 0
      else if take 1 t \<noteq> ''e'' \<and> take 1 t \<noteq> ''E'' then None
      else case after_sign (tl t) of (neg, ds) \<Rightarrow>
        if ds \<noteq> [] \<and> list_all is_digit ds
        then Some (if neg then - int (digits_value ds) else int (digits_value ds)) else None)"

definition parse_unsigned :: "string \<Rightarrow> rat option" where
  "parse_unsigned t =
     (let ip = takeWhile is_digit t; r = dropWhile is_digit t;
          fp = (if take 1 r = ''.'' then takeWhile is_digit (tl r) else []);
          r' = (if take 1 r = ''.'' then dropWhile is_digit (tl r) else r)
      in if ip @ fp = [] then None
         else map_option (\<lambda>e. of_nat (digits_value (ip @ fp)) * 10 powi (e - int (length fp)))
                (parse_exponent r'))"

definition radix_digit :: "char \<Rightarrow> nat" where
  "radix_digit c =
     (let n = of_char (lower_char c) :: nat
      in if is_digit c then n - 48 else if 97 \<le> n \<and> n \<le> 122 then n - 87 else 99)"

definition parse_radix :: "nat \<Rightarrow> string \<Rightarrow> rat option" where
  "parse_radix b t =
     (if t \<noteq> [] \<and> list_all (\<lambda>c. radix_digit c < b) t
      then Some (of_nat (foldl (\<lambda>n c. b * n + radix_digit c) 0 t)) else None)"

definition parse_number :: "string \<Rightarrow> rat option" where
  "parse_number t =
     (if t = [] then Some 0
      else let pre = js_lower (take 2 t)
      in if pre = ''0x'' then parse_radix 16 (drop 2 t)
         else if pre = ''0o'' then parse_radix 8 (drop 2 t)
         else if pre = ''0b'' then parse_radix 2 (drop 2 t)
         else case after_sign t of (neg, u) \<Rightarrow>
           map_option (\<lambda>v. if neg then - v else v) (parse_unsigned u))"

definition js_Number :: "string \<Rightarrow> num option" where
  "js_Number s =
     (case map_option fl (parse_number (js_trim s)) of
        None \<Rightarrow> None
      | Some x \<Rightarrow> if \<bar>x\<bar> < 2 ^ 1024 then Some x else None)"

section \<open>Round trips\<close>

lemma of_char_digit: "d < 10 \<Longrightarrow> of_char (digit_char d) = (48 + d :: nat)"
  by simp

lemma js_of_nat_digits: "list_all is_digit (js_of_nat n)"
proof (induction n rule: js_of_nat.induct)
  case (1 n)
  have "is_digit (digit_char d)" if "d < 10" for d using that by (simp add: is_digit_def)
  then show ?case using 1 by (subst js_of_nat.simps) simp
qed

lemma digits_value_snoc: "digits_value (s @ [c]) = 10 * digits_value s + (of_char c - 48)"
  by (simp add: digits_value_def)

lemma digits_value_js_of_nat: "digits_value (js_of_nat n) = n"
proof (induction n rule: js_of_nat.induct)
  case (1 n)
  show ?case
  proof (cases "n < 10")
    case True
    then show ?thesis by (subst js_of_nat.simps) (simp add: digits_value_def)
  next
    case False
    then show ?thesis using 1 by (subst js_of_nat.simps) (simp add: digits_value_snoc)
  qed
qed

lemma js_of_nat_not_Nil: "js_of_nat n \<noteq> []"
  by (subst js_of_nat.simps) simp

lemma length_js_of_nat: "10 ^ k \<le> n \<Longrightarrow> n < 10 ^ Suc k \<Longrightarrow> length (js_of_nat n) = Suc k"
proof (induction k arbitrary: n)
  case 0
  then show ?case by (subst js_of_nat.simps) simp
next
  case (Suc k)
  have "10 ^ k \<le> n div 10" "n div 10 < 10 ^ Suc k" "\<not> n < 10"
    using Suc.prems by (auto simp: less_mult_imp_div_less div_le_mono [of "10 * 10 ^ k" n 10, simplified])
      (use one_le_power [of "10::nat" k] in linarith)
  then show ?case using Suc.IH by (subst js_of_nat.simps) simp
qed

text \<open>The text of a natural number reads back as that number.\<close>

lemma is_digit_not: "is_digit c \<Longrightarrow> \<not> is_ws c \<and> c \<noteq> CHR ''-'' \<and> c \<noteq> CHR ''+'' \<and> lower_char c = c"
  by (auto simp: is_digit_def is_ws_def lower_char_def)

lemma js_trim_digits: "list_all is_digit s \<Longrightarrow> js_trim s = s"
proof -
  assume d: "list_all is_digit s"
  have "dropWhile is_ws t = t" if "list_all is_digit t" for t
    using that is_digit_not by (cases t) auto
  then show ?thesis using d by (simp add: js_trim_def)
qed

lemma parse_unsigned_digits:
  assumes "list_all is_digit s" "s \<noteq> []"
  shows "parse_unsigned s = Some (of_nat (digits_value s))"
proof -
  have "takeWhile is_digit s = s" "dropWhile is_digit s = []"
    using assms(1) by (auto simp: list_all_iff takeWhile_eq_all_conv dropWhile_eq_Nil_conv)
  note split = this
  show ?thesis unfolding parse_unsigned_def Let_def split
    using assms(2) by (simp add: parse_exponent_def)
qed

lemma parse_number_digits:
  assumes "list_all is_digit s" "s \<noteq> []"
  shows "parse_number s = Some (of_nat (digits_value s))"
proof -
  obtain c r where s: "s = c # r" using assms(2) by (cases s) auto
  then have c: "is_digit c" "list_all is_digit r" using assms(1) by simp_all
  have "\<not> is_digit CHR ''x''" "\<not> is_digit CHR ''o''" "\<not> is_digit CHR ''b''"
    by (simp_all add: is_digit_def)
  then have "js_lower (take 2 s) \<notin> {''0x'', ''0o'', ''0b''}"
    using c is_digit_not by (cases r) (auto simp: s js_lower_def)
  moreover have "after_sign s = (False, s)"
    using is_digit_not [OF c(1)] by (simp add: after_sign_def s)
  ultimately show ?thesis
    using parse_unsigned_digits [OF assms] assms(2) by (simp add: parse_number_def Let_def)
qed

lemma js_Number_digits:
  assumes "list_all is_digit s" "s \<noteq> []" "digits_value s < 2 ^ 52"
  shows "js_Number s = Some (of_nat (digits_value s))"
proof -
  have "fl (of_int (int (digits_value s))) = of_int (int (digits_value s))"
    by (rule fl_of_int) (use assms(3) in simp)
  then have f: "fl (of_nat (digits_value s)) = of_nat (digits_value s)" by simp
  have "(of_nat (digits_value s) :: rat) < of_nat (2 ^ 52)" using assms(3) by (simp only: of_nat_less_iff)
  also have "\<dots> \<le> 2 ^ 1024" by simp
  finally show ?thesis
    by (simp add: js_Number_def js_trim_digits [OF assms(1)] parse_number_digits [OF assms(1,2)] f)
qed

lemma js_Number_js_of_nat: "n < 2 ^ 52 \<Longrightarrow> js_Number (js_of_nat n) = Some (of_nat n)"
  using js_Number_digits [OF js_of_nat_digits js_of_nat_not_Nil] by (simp add: digits_value_js_of_nat)

end
