(* ===== verification/Money.thy ===== *)
theory Money
  imports JsNumber
begin

text \<open>
  The fare split, \<open>src/common/utils/money.util.ts\<close>: conversions between Naira and kobo and
  the 95/4/1 split of a fare, in the double arithmetic the code uses. The lemmas show that the
  two floating-point products have exactly the floor of the rational product, so that the
  split is \<open>95 * n div 100\<close> and \<open>n div 100\<close> with the remainder to the platform.
\<close>

section \<open>The utilities\<close>

definition DRIVER_SHARE :: num where
  "DRIVER_SHARE = js_lit (95/100)"

definition PLATFORM_SHARE :: num where
  "PLATFORM_SHARE = js_lit (4/100)"

definition RIDER_CASHBACK_SHARE :: num where
  "RIDER_CASHBACK_SHARE = js_lit (1/100)"

definition toKobo :: "num \<Rightarrow> num" where
  "toKobo naira = of_int (js_round (js_mul naira 100))"

definition toNaira :: "num \<Rightarrow> num" where
  "toNaira kobo = js_div kobo 100"

record FareSplitKobo =
  totalKobo :: num
  driverKobo :: num
  platformKobo :: num
  riderKobo :: num

definition splitFareKobo :: "num \<Rightarrow> FareSplitKobo" where
  "splitFareKobo finalFareNaira =
     (let total = toKobo finalFareNaira;
          driver = of_int (js_floor (js_mul total DRIVER_SHARE));
          rider = of_int (js_floor (js_mul total RIDER_CASHBACK_SHARE));
          platform = js_sub (js_sub total driver) rider
      in \<lparr>totalKobo = total, driverKobo = driver, platformKobo = platform, riderKobo = rider\<rparr>)"

record FareSplitNaira =
  totalFare :: num
  driverEarning :: num
  platformCommission :: num
  riderCashback :: num

definition splitFareNaira :: "num \<Rightarrow> FareSplitNaira" where
  "splitFareNaira finalFareNaira =
     (let split = splitFareKobo finalFareNaira
      in \<lparr>totalFare = toNaira (totalKobo split), driverEarning = toNaira (driverKobo split),
          platformCommission = toNaira (platformKobo split),
          riderCashback = toNaira (riderKobo split)\<rparr>)"

section \<open>Exactness\<close>

lemma toNaira_of_int: "toNaira (of_int k) = num_of_dec k"
  by (simp add: toNaira_def js_div_def num_of_dec_def)

lemma toKobo_near:
  assumes "near (1/4) x k" "\<bar>k\<bar> \<le> 10 ^ 13"
  shows "toKobo x = of_int k"
proof -
  have k: "\<bar>of_int k :: rat\<bar> \<le> 10 ^ 13" using assms(2) by (simp flip: of_int_abs)
  then have "\<bar>x * 100\<bar> \<le> 10 ^ 13 + 1"
    using assms(1) unfolding near_def mult.commute [of x] by linarith
  then have "\<bar>fl (x * 100) - x * 100\<bar> \<le> 1 / 100" using fl_error [of "x * 100"] by simp
  then have "\<bar>fl (x * 100) - of_int k\<bar> < 1/2"
    using assms(1) unfolding near_def mult.commute [of 100] by linarith
  then show ?thesis by (simp add: toKobo_def js_mul_def js_round_eq)
qed

lemma toKobo_num_of_dec: "\<bar>k\<bar> \<le> 10 ^ 13 \<Longrightarrow> toKobo (num_of_dec k) = of_int k"
  by (auto intro!: toKobo_near near_mono [OF num_of_dec_near])

lemma store_decimal_of_dec:
  assumes "\<bar>k\<bar> \<le> 10 ^ 13"
  shows "store_decimal p (num_of_dec k) =
    (if fits_decimal p k then Inr k else Inl (QueryFailedError ''numeric field overflow''))"
  using assms by (simp add: store_decimal_def Let_def dec_of_num_of_dec)

lemma store_decimal_sum:
  assumes "\<bar>b\<bar> \<le> 10 ^ 12" "\<bar>k\<bar> \<le> 10 ^ 12"
  shows "store_decimal p (js_add (num_of_dec b) (toNaira (of_int k))) =
    (if fits_decimal p (b + k) then Inr (b + k)
     else Inl (QueryFailedError ''numeric field overflow''))"
  using assms by (simp add: store_decimal_def Let_def toNaira_of_int dec_of_js_add)

lemma js_sub_of_int: "\<bar>a - b\<bar> < 2 ^ 52 \<Longrightarrow> js_sub (of_int a) (of_int b) = of_int (a - b)"
  using fl_of_int [of "a - b"] by (simp add: js_sub_def)

lemma js_add_of_int: "\<bar>a + b\<bar> < 2 ^ 52 \<Longrightarrow> js_add (of_int a) (of_int b) = of_int (a + b)"
  using fl_of_int [of "a + b"] by (simp add: js_add_def)

lemma near_minus: "near e x k \<Longrightarrow> near e (- x) (- k)"
  unfolding near_def by (simp add: abs_minus_commute)

lemma toKobo_minus: "\<bar>k\<bar> \<le> 10 ^ 13 \<Longrightarrow> toKobo (- num_of_dec k) = of_int (- k)"
  by (rule toKobo_near [OF near_minus [OF near_mono [OF num_of_dec_near]]]) auto

lemma store_decimal_minus:
  assumes "\<bar>k\<bar> \<le> 10 ^ 13"
  shows "store_decimal p (- num_of_dec k) =
    (if fits_decimal p (- k) then Inr (- k) else Inl (QueryFailedError ''numeric field overflow''))"
proof -
  have "dec_of_num (- num_of_dec k) = - k"
    by (rule dec_of_num_near [OF near_minus [OF near_mono [OF num_of_dec_near]]]) (use assms in auto)
  then show ?thesis by (simp add: store_decimal_def Let_def)
qed

text \<open>
  The floor of a product with the double nearest to \<open>p/100\<close>: an exact multiple is recovered
  by the rounding of the product, a non-multiple is at least a hundredth away from an integer.
\<close>

lemma floor_share:
  fixes c :: rat and n p :: int
  assumes c: "\<bar>c - of_int p / 100\<bar> < c / 2 ^ 54" "0 < c" "c < 1"
    and n: "0 \<le> n" "n \<le> 10 ^ 12"
  shows "js_floor (js_mul (of_int n) c) = p * n div 100"
proof (cases "n = 0")
  case False
  define x where "x = of_int n * c"
  have nq: "0 < (of_int n :: rat)" "(of_int n :: rat) \<le> 10 ^ 12"
    using n False by (simp, metis of_int_le_iff of_int_numeral of_int_power)
  have x: "0 < x" "x \<le> 10 ^ 12"
    using nq c by (auto simp: x_def intro: order_trans [OF mult_left_mono, of c 1])
  have "\<bar>x - of_int (p * n) / 100\<bar> = of_int n * \<bar>c - of_int p / 100\<bar>"
    using nq by (simp add: x_def mult.commute flip: abs_scale_diff)
  then have err: "\<bar>x - of_int (p * n) / 100\<bar> < x / 2 ^ 54"
    using c nq by (simp add: x_def)
  show ?thesis
  proof (cases "100 dvd p * n")
    case True
    then have "of_int (p * n) / 100 = (of_int (p * n div 100) :: rat)"
      by (metis dvd_def nonzero_mult_div_cancel_left of_int_mult of_int_numeral
          zero_neq_numeral)
    then have "fl x = of_int (p * n div 100)" using err x by (intro fl_snap) auto
    then show ?thesis by (simp add: js_floor_def js_mul_def x_def)
  next
    case False
    let ?d = "p * n div 100" and ?r = "p * n mod 100"
    have "?r \<noteq> 0" using False by (simp add: dvd_eq_mod_eq_0)
    then have "1 \<le> ?r" "?r \<le> 99"
      using pos_mod_sign [of 100 "p * n"] pos_mod_bound [of 100 "p * n"] by linarith+
    then have r: "1 \<le> (of_int ?r :: rat)" "(of_int ?r :: rat) \<le> 99" by simp_all
    have "p * n = 100 * ?d + ?r" by simp
    then have "(of_int (p * n) :: rat) = 100 * of_int ?d + of_int ?r"
      by (metis of_int_add of_int_mult of_int_numeral)
    then have "of_int (p * n) / 100 = of_int ?d + of_int ?r / (100 :: rat)" by simp
    moreover have "x / 2 ^ 54 < 1 / 2000" "x / 2 ^ 53 < 1 / 2000" using x by simp_all
    then have "\<bar>fl x - of_int (p * n) / 100\<bar> < 1 / 1000"
      using err fl_error [of x] unfolding abs_of_pos [OF x(1)] by linarith
    ultimately have "of_int ?d \<le> fl x" "fl x < of_int ?d + 1" using r by linarith+
    then have "\<lfloor>fl x\<rfloor> = ?d" by (simp add: floor_eq_iff)
    then show ?thesis by (simp add: js_floor_def js_mul_def x_def)
  qed
qed (simp add: js_mul_def js_floor_def)

lemma floor_driver_share:
  assumes "0 \<le> n" "n \<le> 10 ^ 12"
  shows "js_floor (js_mul (of_int n) DRIVER_SHARE) = 95 * n div 100"
proof (rule floor_share)
  show "\<bar>DRIVER_SHARE - of_int 95 / 100\<bar> < DRIVER_SHARE / 2 ^ 54" by code_simp
  show "0 < DRIVER_SHARE" "DRIVER_SHARE < 1" by code_simp+
qed (use assms in auto)

lemma floor_rider_share:
  assumes "0 \<le> n" "n \<le> 10 ^ 12"
  shows "js_floor (js_mul (of_int n) RIDER_CASHBACK_SHARE) = n div 100"
proof -
  have "js_floor (js_mul (of_int n) RIDER_CASHBACK_SHARE) = 1 * n div 100"
  proof (rule floor_share)
    show "\<bar>RIDER_CASHBACK_SHARE - of_int 1 / 100\<bar> < RIDER_CASHBACK_SHARE / 2 ^ 54" by code_simp
    show "0 < RIDER_CASHBACK_SHARE" "RIDER_CASHBACK_SHARE < 1" by code_simp+
  qed (use assms in auto)
  then show ?thesis by simp
qed

text \<open>
  The shares the code computes, as kobo, and their exact values on a fare that is not negative.
\<close>

definition driver_part :: "int \<Rightarrow> int" where
  "driver_part n = js_floor (js_mul (of_int n) DRIVER_SHARE)"

definition rider_part :: "int \<Rightarrow> int" where
  "rider_part n = js_floor (js_mul (of_int n) RIDER_CASHBACK_SHARE)"

definition platform_part :: "int \<Rightarrow> int" where
  "platform_part n = n - driver_part n - rider_part n"

lemma floor_part_bound:
  fixes c :: rat
  assumes "0 < c" "c \<le> 96/100"
  shows "\<bar>js_floor (js_mul (of_int n) c)\<bar> \<le> \<bar>n\<bar> + 1"
proof -
  let ?y = "fl (of_int n * c)"
  have "\<bar>of_int n * c\<bar> \<le> \<bar>of_int n\<bar> * (96/100)"
    using assms mult_left_mono [of c "96/100" "\<bar>of_int n\<bar>"] by (simp add: abs_mult)
  then have "\<bar>?y\<bar> \<le> \<bar>of_int n\<bar> * (96/100) * (1 + 1 / 2 ^ 53)"
    using fl_bounds(1) [of "of_int n * c"] mult_right_mono by fastforce
  also have "\<dots> \<le> \<bar>of_int n\<bar>" by simp
  finally have "\<bar>?y\<bar> \<le> of_int \<bar>n\<bar>" by simp
  then have "- of_int (\<bar>n\<bar> + 1) < ?y" "?y < of_int (\<bar>n\<bar> + 1) + 1" by auto
  then have "\<bar>\<lfloor>?y\<rfloor>\<bar> \<le> \<bar>n\<bar> + 1" by linarith
  then show ?thesis by (simp add: js_floor_def js_mul_def)
qed

lemma part_bounds:
  "\<bar>driver_part n\<bar> \<le> \<bar>n\<bar> + 1" "\<bar>rider_part n\<bar> \<le> \<bar>n\<bar> + 1" "\<bar>platform_part n\<bar> \<le> 3 * \<bar>n\<bar> + 2"
proof -
  have "0 < DRIVER_SHARE" "DRIVER_SHARE \<le> 96/100" by code_simp+
  then show 1: "\<bar>driver_part n\<bar> \<le> \<bar>n\<bar> + 1"
    unfolding driver_part_def by (rule floor_part_bound)
  have "0 < RIDER_CASHBACK_SHARE" "RIDER_CASHBACK_SHARE \<le> 96/100" by code_simp+
  then show 2: "\<bar>rider_part n\<bar> \<le> \<bar>n\<bar> + 1"
    unfolding rider_part_def by (rule floor_part_bound)
  show "\<bar>platform_part n\<bar> \<le> 3 * \<bar>n\<bar> + 2"
    using 1 2 unfolding platform_part_def by linarith
qed

lemma splitFareKobo_parts:
  assumes "\<bar>n\<bar> \<le> 10 ^ 12"
  shows "splitFareKobo (num_of_dec n) =
    \<lparr>totalKobo = of_int n, driverKobo = of_int (driver_part n),
     platformKobo = of_int (platform_part n), riderKobo = of_int (rider_part n)\<rparr>"
proof -
  have "js_sub (js_sub (of_int n) (of_int (driver_part n))) (of_int (rider_part n)) =
      of_int (platform_part n)"
    using assms part_bounds [of n] js_sub_of_int [of n "driver_part n"]
      js_sub_of_int [of "n - driver_part n" "rider_part n"]
    unfolding platform_part_def by simp
  then show ?thesis
    using assms
    by (simp add: splitFareKobo_def Let_def toKobo_num_of_dec flip: driver_part_def rider_part_def)
qed

lemma parts_exact:
  assumes "0 \<le> n" "n \<le> 10 ^ 12"
  shows "driver_part n = 95 * n div 100" "rider_part n = n div 100"
    "platform_part n = n - 95 * n div 100 - n div 100"
  using floor_driver_share [OF assms] floor_rider_share [OF assms]
  by (simp_all add: driver_part_def rider_part_def platform_part_def)

lemma parts_nonneg:
  assumes "0 \<le> n" "n \<le> 10 ^ 12"
  shows "0 \<le> driver_part n" "0 \<le> rider_part n" "0 \<le> platform_part n"
proof -
  have "100 * (95 * n div 100) \<le> 95 * n" "100 * (n div 100) \<le> n"
    using mult_div_mod_eq [of 100 "95 * n"] mult_div_mod_eq [of 100 n]
      pos_mod_sign [of 100 "95 * n"] pos_mod_sign [of 100 n] by linarith+
  moreover have "0 \<le> 95 * n div 100" "0 \<le> n div 100"
    using assms by (simp_all add: pos_imp_zdiv_nonneg_iff)
  ultimately show "0 \<le> driver_part n" "0 \<le> rider_part n" "0 \<le> platform_part n"
    using assms(1) unfolding parts_exact [OF assms] by linarith+
qed

text \<open>C15: the split of a fare of \<open>n\<close> kobo, for every fare up to ten billion Naira: in spite of
  the floating-point products the driver gets exactly \<open>95 n div 100\<close>, the rider exactly
  \<open>n div 100\<close>, the platform what is left; no part is negative and the parts sum to the fare.\<close>

theorem splitFareKobo_exact:
  assumes "0 \<le> n" "n \<le> 10 ^ 12"
  shows "splitFareKobo (num_of_dec n) =
      \<lparr>totalKobo = of_int n, driverKobo = of_int (95 * n div 100),
       platformKobo = of_int (n - 95 * n div 100 - n div 100), riderKobo = of_int (n div 100)\<rparr>
    \<and> 0 \<le> n - 95 * n div 100 - n div 100"
  using assms splitFareKobo_parts [of n] parts_exact [OF assms] parts_nonneg [OF assms]
  by simp

theorem splitFareKobo_exact_witness:
  "splitFareKobo (num_of_dec 500000) =
     \<lparr>totalKobo = of_int 500000, driverKobo = of_int 475000,
      platformKobo = of_int 20000, riderKobo = of_int 5000\<rparr>"
  using splitFareKobo_exact [of 500000] by simp

text \<open>Every amount a \<open>decimal(10,2)\<close> or \<open>decimal(12,2)\<close> column holds survives the
  conversion to kobo and back, and the Naira written back to the column is the amount.\<close>

theorem kobo_roundtrip:
  assumes "\<bar>k\<bar> \<le> 10 ^ 13"
  shows "toKobo (num_of_dec k) = of_int k \<and> toNaira (toKobo (num_of_dec k)) = num_of_dec k \<and>
    dec_of_num (toNaira (of_int k)) = k"
  using assms by (simp add: toKobo_num_of_dec toNaira_of_int dec_of_num_of_dec)

theorem kobo_roundtrip_witness:
  "toKobo (num_of_dec 35) = 35 \<and> dec_of_num (toNaira (of_int 35)) = 35"
  using kobo_roundtrip [of 35] by simp

end
