(* ===== verification/Domain.thy ===== *)
theory Domain
  imports Money
begin

text \<open>
  The data of the program: the enums and entities of \<open>src/**/entities/*.entity.ts\<close> with every
  column (relations are the foreign keys; \<open>updatedAt\<close>, which nothing reads, is left out), the
  Redis keys and values, the domain events and queued jobs, and the state \<open>sys\<close> of the whole
  backend: the tables, Redis, the emitted events, the queues, the clock and the id supply.
\<close>

section \<open>Enums\<close>

datatype Role = USER | DRIVER | ADMIN

datatype RideStatus = REQUESTED | ACCEPTED | ARRIVED | IN_PROGRESS | COMPLETED | CANCELLED

datatype RideCategory = PRIVATE | SHARED | OKADA | CAR

datatype RideOriginChannel = APP | WHATSAPP | VOICE

datatype VehicleType = V_KEKE | V_BIKE | V_CAR | V_COURIER

datatype VerificationStatus = VS_PENDING | VS_APPROVED | VS_REJECTED

datatype LedgerEntryType =
    RIDE_FARE_DRIVER
  | RIDE_FARE_PLATFORM
  | RIDE_FARE_RIDER_CASHBACK
  | DRIVER_FUEL_SUPPORT_MFB
  | DRIVER_PAYOUT_LINKPAY

datatype StakeholderType = S_DRIVER | S_RIDER | S_PLATFORM

datatype LedgerEntryStatus = L_PENDING | L_COMPLETED | L_FAILED | L_REVERSED

datatype EmergencyTriggeredBy = BY_RIDER | BY_DRIVER

datatype EmergencyStatus = E_ACTIVE | E_RESOLVED | E_FALSE_ALARM

datatype RateeType = RATEE_USER | RATEE_DRIVER

text \<open>
  The documented flow of a ride, requested to accepted to arrived to in progress to completed,
  with cancellation at the end, as the order of the statuses.
\<close>

fun status_rank :: "RideStatus \<Rightarrow> nat" where
  "status_rank REQUESTED = 0"
| "status_rank ACCEPTED = 1"
| "status_rank ARRIVED = 2"
| "status_rank IN_PROGRESS = 3"
| "status_rank COMPLETED = 4"
| "status_rank CANCELLED = 5"

lemma status_rank_inject: "status_rank a = status_rank b \<Longrightarrow> a = b"
  by (cases a; cases b) simp_all

instantiation RideStatus :: linorder
begin

definition less_eq_RideStatus :: "RideStatus \<Rightarrow> RideStatus \<Rightarrow> bool" where
  "less_eq_RideStatus a b \<longleftrightarrow> status_rank a \<le> status_rank b"

definition less_RideStatus :: "RideStatus \<Rightarrow> RideStatus \<Rightarrow> bool" where
  "less_RideStatus a b \<longleftrightarrow> status_rank a < status_rank b"

instance
  by standard
    (auto simp: less_eq_RideStatus_def less_RideStatus_def intro: status_rank_inject)

end

section \<open>JSON columns\<close>

datatype json = JNull | JBool bool | JNum num | JStr string | JObj "(string \<times> json) list"

record Location =
  l_address :: string
  l_lat :: num
  l_lng :: num

record IncidentLocation =
  il_lat :: num
  il_lng :: num
  il_address :: "string option"

section \<open>Entities\<close>

record User =
  u_id :: uuid
  u_name :: string
  u_email :: string
  u_phone :: "string option"
  u_password :: "string option"
  u_provider :: "string option"
  u_providerId :: "string option"
  u_privyDid :: "string option"
  u_walletAddressEvm :: "string option"
  u_walletAddressSolana :: "string option"
  u_walletAddressTron :: "string option"
  u_otpCode :: "string option"
  u_otpExpiry :: "date option"
  u_isVerified :: bool
  u_role :: Role
  u_ratingAverage :: dec2
  u_totalRides :: int
  u_cashbackBalance :: dec2
  u_isBlocked :: bool
  u_createdAt :: date

record Driver =
  d_id :: uuid
  d_name :: string
  d_phone :: string
  d_email :: string
  d_password :: "string option"
  d_licenseNumber :: string
  d_licenseExpiry :: date
  d_role :: Role
  d_verificationStatus :: VerificationStatus
  d_isOnline :: bool
  d_isActive :: bool
  d_ratingAverage :: dec2
  d_totalCompletedRides :: int
  d_walletBalance :: dec2
  d_privyDid :: "string option"
  d_walletAddressEvm :: "string option"
  d_otpCode :: "string option"
  d_otpExpiry :: "date option"
  d_createdAt :: date

record Vehicle =
  v_id :: uuid
  v_driverId :: uuid
  v_type :: VehicleType
  v_plateNumber :: string
  v_color :: string
  v_model :: string
  v_year :: int
  v_isActive :: bool
  v_createdAt :: date

record Ride =
  r_id :: uuid
  r_userId :: uuid
  r_driverId :: "uuid option"
  r_vehicleId :: "uuid option"
  r_pickup :: Location
  r_dropoff :: Location
  r_distanceKm :: "dec2 option"
  r_category :: RideCategory
  r_estimatedFare :: "dec2 option"
  r_finalFare :: "dec2 option"
  r_status :: RideStatus
  r_originChannel :: RideOriginChannel
  r_cancellationReason :: "string option"
  r_requestedAt :: date
  r_acceptedAt :: "date option"
  r_startedAt :: "date option"
  r_completedAt :: "date option"
  r_createdAt :: date

record LedgerEntry =
  le_id :: uuid
  le_rideId :: "uuid option"
  le_type :: LedgerEntryType
  le_stakeholderType :: StakeholderType
  le_stakeholderId :: "uuid option"
  le_amount :: dec2
  le_currency :: string
  le_status :: LedgerEntryStatus
  le_providerReference :: "string option"
  le_metadata :: "json option"
  le_createdAt :: date

record Rating =
  rt_id :: uuid
  rt_rideId :: uuid
  rt_raterId :: uuid
  rt_rateeId :: uuid
  rt_rateeType :: RateeType
  rt_rating :: int
  rt_comment :: "string option"
  rt_createdAt :: date

record EmergencyIncident =
  ei_id :: uuid
  ei_rideId :: uuid
  ei_triggeredBy :: EmergencyTriggeredBy
  ei_triggeredById :: uuid
  ei_location :: "IncidentLocation option"
  ei_note :: "string option"
  ei_status :: EmergencyStatus
  ei_resolutionNote :: "string option"
  ei_resolvedAt :: "date option"
  ei_createdAt :: date

record RefreshToken =
  t_id :: uuid
  t_tokenHash :: string
  t_familyId :: uuid
  t_subjectId :: uuid
  t_subjectType :: Role
  t_expiresAt :: date
  t_revokedAt :: "date option"
  t_revokedReason :: "string option"
  t_userAgent :: "string option"
  t_ipAddress :: "string option"
  t_createdAt :: date

section \<open>Redis, events, jobs\<close>

text \<open>
  The keys of \<open>src/redis/redis.constants.ts\<close>. A key is a prefix with its arguments, so two
  keys are equal exactly when prefix and arguments are.
\<close>

datatype rkey =
    RIDE_LOCK uuid
  | USER_RIDE_IDEMPOTENCY uuid num num
  | DRIVER_ACTIVE uuid
  | DRIVER_ACTIVE_RIDE uuid
  | WALLET_FUEL_LOCK uuid
  | WALLET_PAYOUT_LOCK uuid

datatype rval = RText string | RId uuid

text \<open>\<open>src/websocket/events/ride-events.constants.ts\<close>: the topics with their payloads.\<close>

record DriverLocationEvent =
  dle_driverId :: uuid
  dle_rideId :: uuid
  dle_latitude :: num
  dle_longitude :: num
  dle_updatedAt :: date

record EmergencyEvent =
  ee_incidentId :: uuid
  ee_rideId :: uuid
  ee_triggeredBy :: EmergencyTriggeredBy
  ee_triggeredById :: uuid
  ee_location :: "IncidentLocation option"
  ee_createdAt :: date
  ee_userId :: uuid
  ee_driverId :: "uuid option"

datatype event =
    RideRequested Ride
  | RideAccepted Ride
  | RideArrived Ride
  | RideStarted Ride
  | RideCompleted Ride FareSplitNaira
  | RideCancelled Ride
  | DriverLocationUpdated DriverLocationEvent
  | EmergencyTriggered EmergencyEvent

text \<open>
  The jobs of the \<open>email\<close> queue (\<open>src/common/services/email.service.ts\<close>) and of the
  \<open>emergency-webhooks\<close> queue (\<open>webhook.service.ts\<close>).
\<close>

datatype job =
    SendOtp string string string
  | SendWelcome string string
  | SendForgotPassword string string string
  | TriggerEmergencyProtocol EmergencyEvent Location Location
  | BroadcastLocation EmergencyEvent Location Location

section \<open>The state of the backend\<close>

record sys =
  users :: "User list"
  drivers :: "Driver list"
  vehicles :: "Vehicle list"
  rides :: "Ride list"
  ledger :: "LedgerEntry list"
  ratings :: "Rating list"
  incidents :: "EmergencyIncident list"
  refreshTokens :: "RefreshToken list"
  redis :: "rkey \<rightharpoonup> (rval \<times> date option)"
  geo :: "uuid \<rightharpoonup> (num \<times> num)"
  events :: "event list"
  jobs :: "job list"
  now :: date
  nextId :: uuid

definition emit :: "event \<Rightarrow> sys \<Rightarrow> sys" where
  "emit ev s = s\<lparr>events := events s @ [ev]\<rparr>"

definition enqueue :: "job \<Rightarrow> sys \<Rightarrow> sys" where
  "enqueue j s = s\<lparr>jobs := jobs s @ [j]\<rparr>"

text \<open>\<open>randomUUID()\<close> and the key Postgres generates for an inserted row.\<close>

definition freshId :: "sys \<Rightarrow> uuid \<times> sys" where
  "freshId s = (nextId s, s\<lparr>nextId := Suc (nextId s)\<rparr>)"

end
