(* ===== verification/Repository.thy ===== *)
theory Repository
  imports Domain
begin

text \<open>
  The TypeORM repositories as operations on the tables of \<open>sys\<close>. \<open>findOne\<close> by primary key is a
  lookup, \<open>save\<close> overwrites the row of the same key or inserts it, an insert checks the unique
  indexes the entities declare. The locale \<open>repository\<close> is what the services rely on; its
  lemmas are proved once and interpreted for every entity.
\<close>

section \<open>Tables\<close>

definition tbl_find :: "('e \<Rightarrow> uuid) \<Rightarrow> uuid \<Rightarrow> 'e list \<Rightarrow> 'e option" where
  "tbl_find idf i t = find (\<lambda>x. idf x = i) t"

definition tbl_save :: "('e \<Rightarrow> uuid) \<Rightarrow> 'e \<Rightarrow> 'e list \<Rightarrow> 'e list" where
  "tbl_save idf x t =
     (if idf x \<in> set (map idf t) then map (\<lambda>y. if idf y = idf x then x else y) t else t @ [x])"

text \<open>\<open>UPDATE ... SET ... WHERE\<close> and \<open>DELETE ... WHERE\<close>.\<close>

definition tbl_update :: "('e \<Rightarrow> bool) \<Rightarrow> ('e \<Rightarrow> 'e) \<Rightarrow> 'e list \<Rightarrow> 'e list" where
  "tbl_update P f t = map (\<lambda>x. if P x then f x else x) t"

definition tbl_delete :: "('e \<Rightarrow> bool) \<Rightarrow> 'e list \<Rightarrow> 'e list" where
  "tbl_delete P t = filter (\<lambda>x. \<not> P x) t"

text \<open>
  \<open>ORDER BY column ASC/DESC\<close>. Rows that tie on the column keep (for DESC: reverse) their
  insertion order; Postgres leaves that order open.
\<close>

definition order_asc :: "('e \<Rightarrow> int) \<Rightarrow> 'e list \<Rightarrow> 'e list" where
  "order_asc c t = sort_key c t"

definition order_desc :: "('e \<Rightarrow> int) \<Rightarrow> 'e list \<Rightarrow> 'e list" where
  "order_desc c t = rev (sort_key c t)"

text \<open>\<open>skip\<close> and \<open>take\<close>.\<close>

definition page :: "nat \<Rightarrow> nat \<Rightarrow> 'e list \<Rightarrow> 'e list" where
  "page skip' take' t = take take' (drop skip' t)"

lemma set_order_desc [simp]: "set (order_desc c t) = set t"
  by (simp add: order_desc_def)

lemma set_order_asc [simp]: "set (order_asc c t) = set t"
  by (simp add: order_asc_def)

lemma set_page: "set (page a b t) \<subseteq> set t"
  by (auto simp: page_def dest: in_set_takeD in_set_dropD)

lemma length_page: "length (page a b t) = min b (length t - a)"
  by (simp add: page_def min.commute)

section \<open>The interface\<close>

locale repository =
  fixes rows :: "'s \<Rightarrow> 'e list"
    and ident :: "'e \<Rightarrow> uuid"
    and findById :: "uuid \<Rightarrow> 's \<Rightarrow> 'e option"
    and save :: "'e \<Rightarrow> 's \<Rightarrow> 's"
  assumes findById_rows: "findById i s = find (\<lambda>x. ident x = i) (rows s)"
    and save_update: "ident e \<in> ident ` set (rows s) \<Longrightarrow>
      rows (save e s) = map (\<lambda>y. if ident y = ident e then e else y) (rows s)"
    and save_insert: "ident e \<notin> ident ` set (rows s) \<Longrightarrow> rows (save e s) = rows s @ [e]"
begin

lemma findById_SomeD: "findById i s = Some e \<Longrightarrow> e \<in> set (rows s) \<and> ident e = i"
  by (auto simp: findById_rows dest: find_SomeD)

lemma findById_ident: "findById i s = Some e \<Longrightarrow> i \<in> ident ` set (rows s)"
  using findById_SomeD by fastforce

lemma findById_member:
  assumes "distinct (map ident (rows s))" "e \<in> set (rows s)"
  shows "findById (ident e) s = Some e"
proof -
  have "find (\<lambda>x. ident x = ident e) t = Some e"
    if "distinct (map ident t)" "e \<in> set t" for t
    using that by (induction t) (auto simp: image_iff)
  then show ?thesis using assms by (simp add: findById_rows)
qed

lemma findById_save_same: "findById (ident e) (save e s) = Some e"
proof -
  have "find (\<lambda>x. ident x = ident e) (map (\<lambda>y. if ident y = ident e then e else y) t) = Some e"
    if "ident e \<in> ident ` set t" for t
    using that by (induction t) auto
  moreover have "find (\<lambda>x. ident x = ident e) t = None" if "ident e \<notin> ident ` set t" for t
    using that by (induction t) auto
  ultimately show ?thesis
    by (cases "ident e \<in> ident ` set (rows s)")
      (simp_all add: findById_rows save_update save_insert find_append)
qed

lemma findById_save_other:
  assumes "ident e \<noteq> i"
  shows "findById i (save e s) = findById i s"
proof -
  have "find (\<lambda>x. ident x = i) (map (\<lambda>y. if ident y = ident e then e else y) t) =
      find (\<lambda>x. ident x = i) t" for t
    using assms by (induction t) auto
  then show ?thesis
    using assms
    by (cases "ident e \<in> ident ` set (rows s)")
      (simp_all add: findById_rows save_update save_insert find_append split: option.split)
qed

lemma in_rows_save:
  assumes "x \<in> set (rows (save e s))"
  shows "x = e \<or> (x \<in> set (rows s) \<and> ident x \<noteq> ident e)"
  using assms
  by (cases "ident e \<in> ident ` set (rows s)")
    (auto simp: save_update save_insert image_iff split: if_splits)

lemma rows_save_all: "(\<forall>x\<in>set (rows s). P x) \<Longrightarrow> P e \<Longrightarrow> \<forall>x\<in>set (rows (save e s)). P x"
  by (auto dest: in_rows_save)

lemma idents_save:
  assumes "findById (ident e) s \<noteq> None"
  shows "map ident (rows (save e s)) = map ident (rows s)"
proof -
  have "ident e \<in> ident ` set (rows s)"
    using assms by (auto dest: findById_ident)
  then show ?thesis by (simp add: save_update)
qed

lemma rows_save_distinct:
  assumes "distinct (map ident (rows s))"
  shows "distinct (map ident (rows (save e s)))"
proof (cases "ident e \<in> ident ` set (rows s)")
  case True
  then have "map ident (rows (save e s)) = map ident (rows s)" by (simp add: save_update)
  then show ?thesis using assms by simp
next
  case False
  then show ?thesis using assms by (auto simp: save_insert)
qed

text \<open>
  What a write does to a total over the table: the old row's share is replaced by the new
  one's.
\<close>

lemma sum_rows_save:
  fixes f :: "'e \<Rightarrow> int"
  assumes "distinct (map ident (rows s))" "findById (ident e) s = Some old"
  shows "sum_list (map f (rows (save e s))) = sum_list (map f (rows s)) - f old + f e"
proof -
  have *: "sum_list (map f (map (\<lambda>y. if ident y = ident e then e else y) t)) =
      sum_list (map f t) - f old + f e"
    if "distinct (map ident t)" "old \<in> set t" "ident old = ident e" for t
    using that
  proof (induction t)
    case (Cons x t)
    show ?case
    proof (cases "ident x = ident e")
      case True
      then have "x = old" and "\<forall>y\<in>set t. ident y \<noteq> ident e"
        using Cons.prems by (auto simp: image_iff)
      moreover have "map (\<lambda>y. if ident y = ident e then e else y) t = t"
        by (rule map_idI) (simp add: \<open>\<forall>y\<in>set t. ident y \<noteq> ident e\<close>)
      ultimately show ?thesis using True by simp
    next
      case False
      then show ?thesis using Cons by auto
    qed
  qed simp
  have "old \<in> set (rows s)" "ident old = ident e" "ident e \<in> ident ` set (rows s)"
    using findById_SomeD [OF assms(2)] findById_ident [OF assms(2)] by auto
  then show ?thesis unfolding save_update [OF \<open>ident e \<in> _\<close>] using * [OF assms(1)] by blast
qed

end

section \<open>The tables of the backend\<close>

definition findUser :: "uuid \<Rightarrow> sys \<Rightarrow> User option" where
  "findUser i s = tbl_find u_id i (users s)"

definition saveUser :: "User \<Rightarrow> sys \<Rightarrow> sys" where
  "saveUser x s = s\<lparr>users := tbl_save u_id x (users s)\<rparr>"

definition findDriver :: "uuid \<Rightarrow> sys \<Rightarrow> Driver option" where
  "findDriver i s = tbl_find d_id i (drivers s)"

definition saveDriver :: "Driver \<Rightarrow> sys \<Rightarrow> sys" where
  "saveDriver x s = s\<lparr>drivers := tbl_save d_id x (drivers s)\<rparr>"

definition findVehicle :: "uuid \<Rightarrow> sys \<Rightarrow> Vehicle option" where
  "findVehicle i s = tbl_find v_id i (vehicles s)"

definition saveVehicle :: "Vehicle \<Rightarrow> sys \<Rightarrow> sys" where
  "saveVehicle x s = s\<lparr>vehicles := tbl_save v_id x (vehicles s)\<rparr>"

definition findRide :: "uuid \<Rightarrow> sys \<Rightarrow> Ride option" where
  "findRide i s = tbl_find r_id i (rides s)"

definition saveRide :: "Ride \<Rightarrow> sys \<Rightarrow> sys" where
  "saveRide x s = s\<lparr>rides := tbl_save r_id x (rides s)\<rparr>"

definition findLedgerEntry :: "uuid \<Rightarrow> sys \<Rightarrow> LedgerEntry option" where
  "findLedgerEntry i s = tbl_find le_id i (ledger s)"

definition saveLedgerEntry :: "LedgerEntry \<Rightarrow> sys \<Rightarrow> sys" where
  "saveLedgerEntry x s = s\<lparr>ledger := tbl_save le_id x (ledger s)\<rparr>"

definition findIncident :: "uuid \<Rightarrow> sys \<Rightarrow> EmergencyIncident option" where
  "findIncident i s = tbl_find ei_id i (incidents s)"

definition saveIncident :: "EmergencyIncident \<Rightarrow> sys \<Rightarrow> sys" where
  "saveIncident x s = s\<lparr>incidents := tbl_save ei_id x (incidents s)\<rparr>"

definition findToken :: "uuid \<Rightarrow> sys \<Rightarrow> RefreshToken option" where
  "findToken i s = tbl_find t_id i (refreshTokens s)"

definition saveToken :: "RefreshToken \<Rightarrow> sys \<Rightarrow> sys" where
  "saveToken x s = s\<lparr>refreshTokens := tbl_save t_id x (refreshTokens s)\<rparr>"

lemmas find_row_defs = findUser_def findDriver_def findVehicle_def findRide_def
  findLedgerEntry_def findIncident_def findToken_def

lemmas save_row_defs = saveUser_def saveDriver_def saveVehicle_def saveRide_def
  saveLedgerEntry_def saveIncident_def saveToken_def

interpretation userRepo: repository users u_id findUser saveUser
  by unfold_locales (auto simp: findUser_def saveUser_def tbl_find_def tbl_save_def)

interpretation driverRepo: repository drivers d_id findDriver saveDriver
  by unfold_locales (auto simp: findDriver_def saveDriver_def tbl_find_def tbl_save_def)

interpretation vehicleRepo: repository vehicles v_id findVehicle saveVehicle
  by unfold_locales (auto simp: findVehicle_def saveVehicle_def tbl_find_def tbl_save_def)

interpretation rideRepo: repository rides r_id findRide saveRide
  by unfold_locales (auto simp: findRide_def saveRide_def tbl_find_def tbl_save_def)

interpretation ledgerRepo: repository ledger le_id findLedgerEntry saveLedgerEntry
  by unfold_locales (auto simp: findLedgerEntry_def saveLedgerEntry_def tbl_find_def tbl_save_def)

interpretation incidentRepo: repository incidents ei_id findIncident saveIncident
  by unfold_locales (auto simp: findIncident_def saveIncident_def tbl_find_def tbl_save_def)

interpretation tokenRepo: repository refreshTokens t_id findToken saveToken
  by unfold_locales (auto simp: findToken_def saveToken_def tbl_find_def tbl_save_def)

text \<open>A write touches its own table and nothing else.\<close>

lemma saveUser_frame [simp]:
  "drivers (saveUser x s) = drivers s" "vehicles (saveUser x s) = vehicles s"
  "rides (saveUser x s) = rides s" "ledger (saveUser x s) = ledger s"
  "ratings (saveUser x s) = ratings s" "incidents (saveUser x s) = incidents s"
  "refreshTokens (saveUser x s) = refreshTokens s" "redis (saveUser x s) = redis s"
  "geo (saveUser x s) = geo s" "events (saveUser x s) = events s" "jobs (saveUser x s) = jobs s"
  "now (saveUser x s) = now s" "nextId (saveUser x s) = nextId s"
  by (simp_all add: saveUser_def)

lemma saveDriver_frame [simp]:
  "users (saveDriver x s) = users s" "vehicles (saveDriver x s) = vehicles s"
  "rides (saveDriver x s) = rides s" "ledger (saveDriver x s) = ledger s"
  "ratings (saveDriver x s) = ratings s" "incidents (saveDriver x s) = incidents s"
  "refreshTokens (saveDriver x s) = refreshTokens s" "redis (saveDriver x s) = redis s"
  "geo (saveDriver x s) = geo s" "events (saveDriver x s) = events s"
  "jobs (saveDriver x s) = jobs s"
  "now (saveDriver x s) = now s" "nextId (saveDriver x s) = nextId s"
  by (simp_all add: saveDriver_def)

lemma saveRide_frame [simp]:
  "users (saveRide x s) = users s" "drivers (saveRide x s) = drivers s"
  "vehicles (saveRide x s) = vehicles s" "ledger (saveRide x s) = ledger s"
  "ratings (saveRide x s) = ratings s" "incidents (saveRide x s) = incidents s"
  "refreshTokens (saveRide x s) = refreshTokens s" "redis (saveRide x s) = redis s"
  "geo (saveRide x s) = geo s" "events (saveRide x s) = events s" "jobs (saveRide x s) = jobs s"
  "now (saveRide x s) = now s" "nextId (saveRide x s) = nextId s"
  by (simp_all add: saveRide_def)

lemma saveVehicle_frame [simp]:
  "users (saveVehicle x s) = users s" "drivers (saveVehicle x s) = drivers s"
  "rides (saveVehicle x s) = rides s" "ledger (saveVehicle x s) = ledger s"
  "refreshTokens (saveVehicle x s) = refreshTokens s" "redis (saveVehicle x s) = redis s"
  "now (saveVehicle x s) = now s" "nextId (saveVehicle x s) = nextId s"
  by (simp_all add: saveVehicle_def)

lemma saveToken_frame [simp]:
  "users (saveToken x s) = users s" "drivers (saveToken x s) = drivers s"
  "vehicles (saveToken x s) = vehicles s" "rides (saveToken x s) = rides s"
  "ledger (saveToken x s) = ledger s" "redis (saveToken x s) = redis s"
  "now (saveToken x s) = now s" "nextId (saveToken x s) = nextId s"
  by (simp_all add: saveToken_def)

lemma emit_frame [simp]:
  "users (emit ev s) = users s" "drivers (emit ev s) = drivers s"
  "vehicles (emit ev s) = vehicles s" "rides (emit ev s) = rides s"
  "ledger (emit ev s) = ledger s" "ratings (emit ev s) = ratings s"
  "incidents (emit ev s) = incidents s" "refreshTokens (emit ev s) = refreshTokens s"
  "redis (emit ev s) = redis s" "geo (emit ev s) = geo s" "jobs (emit ev s) = jobs s"
  "now (emit ev s) = now s" "nextId (emit ev s) = nextId s" "events (emit ev s) = events s @ [ev]"
  by (simp_all add: emit_def)

lemma freshId_frame [simp]:
  "users (snd (freshId s)) = users s" "drivers (snd (freshId s)) = drivers s"
  "rides (snd (freshId s)) = rides s" "ledger (snd (freshId s)) = ledger s"
  "vehicles (snd (freshId s)) = vehicles s"
  "redis (snd (freshId s)) = redis s" "now (snd (freshId s)) = now s"
  "events (snd (freshId s)) = events s" "refreshTokens (snd (freshId s)) = refreshTokens s"
  "nextId (snd (freshId s)) = Suc (nextId s)" "fst (freshId s) = nextId s"
  by (simp_all add: freshId_def)

lemma find_cong_frame [simp]:
  "findRide i (saveDriver d s) = findRide i s" "findRide i (saveUser u s) = findRide i s"
  "findRide i (emit ev s) = findRide i s"
  "findDriver i (saveRide r s) = findDriver i s" "findDriver i (saveUser u s) = findDriver i s"
  "findDriver i (emit ev s) = findDriver i s"
  "findUser i (saveRide r s) = findUser i s" "findUser i (saveDriver d s) = findUser i s"
  "findUser i (emit ev s) = findUser i s"
  "findVehicle i (saveRide r s) = findVehicle i s" "findVehicle i (emit ev s) = findVehicle i s"
  by (simp_all add: find_row_defs)

end
