(* ===== verification/RedisStore.thy ===== *)
theory RedisStore
  imports Repository
begin

text \<open>
  The Redis commands the services use, on \<open>redis :: rkey \<rightharpoonup> (value \<times> expiry)\<close>: a key is live
  until its expiry instant. \<open>SET key value EX n NX\<close> sets the key only when no live key is there;
  it is the lock of rides and wallets and the idempotency mark of a booking. The locale
  \<open>lock_service\<close> is the contract of a lock with a time to live.
\<close>

definition live :: "date \<Rightarrow> (rval \<times> date option) option \<Rightarrow> bool" where
  "live t e = (case e of None \<Rightarrow> False | Some (_, None) \<Rightarrow> True | Some (_, Some x) \<Rightarrow> t < x)"

definition redis_get :: "rkey \<Rightarrow> sys \<Rightarrow> rval option" where
  "redis_get k s =
     (if live (now s) (redis s k) then map_option fst (redis s k) else None)"

text \<open>\<open>redis.set(key, value, 'EX', seconds)\<close>\<close>

definition redis_set_ex :: "rkey \<Rightarrow> rval \<Rightarrow> int \<Rightarrow> sys \<Rightarrow> sys" where
  "redis_set_ex k v secs s = s\<lparr>redis := (redis s)(k \<mapsto> (v, Some (now s + 1000 * secs)))\<rparr>"

text \<open>\<open>redis.set(key, value, 'EX', seconds, 'NX')\<close>: true for \<open>OK\<close>, false for \<open>null\<close>.\<close>

definition redis_set_nx :: "rkey \<Rightarrow> rval \<Rightarrow> int \<Rightarrow> sys \<Rightarrow> bool \<times> sys" where
  "redis_set_nx k v secs s =
     (if live (now s) (redis s k) then (False, s) else (True, redis_set_ex k v secs s))"

definition redis_del :: "rkey \<Rightarrow> sys \<Rightarrow> sys" where
  "redis_del k s = s\<lparr>redis := (redis s)(k := None)\<rparr>"

text \<open>The clock, for reasoning about expiry: time passes while nothing else happens.\<close>

definition tick :: "int \<Rightarrow> sys \<Rightarrow> sys" where
  "tick ms s = s\<lparr>now := now s + ms\<rparr>"

lemmas redis_defs = redis_get_def redis_set_ex_def redis_set_nx_def redis_del_def live_def

section \<open>Frames\<close>

lemma redis_set_ex_frame [simp]:
  "users (redis_set_ex k v n s) = users s" "drivers (redis_set_ex k v n s) = drivers s"
  "vehicles (redis_set_ex k v n s) = vehicles s" "rides (redis_set_ex k v n s) = rides s"
  "ledger (redis_set_ex k v n s) = ledger s" "ratings (redis_set_ex k v n s) = ratings s"
  "incidents (redis_set_ex k v n s) = incidents s"
  "refreshTokens (redis_set_ex k v n s) = refreshTokens s" "geo (redis_set_ex k v n s) = geo s"
  "events (redis_set_ex k v n s) = events s" "jobs (redis_set_ex k v n s) = jobs s"
  "now (redis_set_ex k v n s) = now s" "nextId (redis_set_ex k v n s) = nextId s"
  by (simp_all add: redis_set_ex_def)

lemma redis_del_frame [simp]:
  "users (redis_del k s) = users s" "drivers (redis_del k s) = drivers s"
  "vehicles (redis_del k s) = vehicles s" "rides (redis_del k s) = rides s"
  "ledger (redis_del k s) = ledger s" "ratings (redis_del k s) = ratings s"
  "incidents (redis_del k s) = incidents s"
  "refreshTokens (redis_del k s) = refreshTokens s" "geo (redis_del k s) = geo s"
  "events (redis_del k s) = events s" "jobs (redis_del k s) = jobs s"
  "now (redis_del k s) = now s" "nextId (redis_del k s) = nextId s"
  by (simp_all add: redis_del_def)

lemma find_redis_frame [simp]:
  "findRide i (redis_set_ex k v n s) = findRide i s" "findRide i (redis_del k s) = findRide i s"
  "findDriver i (redis_set_ex k v n s) = findDriver i s"
  "findDriver i (redis_del k s) = findDriver i s"
  "findUser i (redis_set_ex k v n s) = findUser i s" "findUser i (redis_del k s) = findUser i s"
  "findVehicle i (redis_set_ex k v n s) = findVehicle i s"
  "findVehicle i (redis_del k s) = findVehicle i s"
  by (simp_all add: find_row_defs)

section \<open>The lock contract\<close>

text \<open>
  \<open>held\<close>: somebody holds the lock now. \<open>advance\<close> lets time pass. What the laws promise: an
  acquire succeeds exactly when the lock is free, it is then held for every instant before the
  time to live is over and free from then on unless somebody releases it; a release frees
  it, whoever calls it; and locks of other names are not touched.
\<close>

locale lock_service =
  fixes held :: "'k \<Rightarrow> 's \<Rightarrow> bool"
    and acquire :: "'k \<Rightarrow> int \<Rightarrow> 's \<Rightarrow> bool \<times> 's"
    and release :: "'k \<Rightarrow> 's \<Rightarrow> 's"
    and advance :: "int \<Rightarrow> 's \<Rightarrow> 's"
  assumes acquire_iff: "fst (acquire k n s) \<longleftrightarrow> \<not> held k s"
    and acquire_fail: "held k s \<Longrightarrow> snd (acquire k n s) = s"
    and acquire_held: "\<not> held k s \<Longrightarrow>
      held k (advance ms (snd (acquire k n s))) \<longleftrightarrow> ms < 1000 * n"
    and acquire_other: "j \<noteq> k \<Longrightarrow> held j (snd (acquire k n s)) = held j s"
    and release_free: "\<not> held k (release k s)"
    and release_other: "j \<noteq> k \<Longrightarrow> held j (release k s) = held j s"
    and advance_zero: "advance 0 s = s"
begin

lemma acquire_acquires:
  assumes "fst (acquire k n s)" "0 < n"
  shows "held k (snd (acquire k n s))"
  using assms acquire_held [of k s 0 n] by (simp add: acquire_iff advance_zero)

lemma mutual_exclusion:
  assumes "fst (acquire k n s)" "ms < 1000 * n"
  shows "\<not> fst (acquire k m (advance ms (snd (acquire k n s))))"
  using assms by (simp add: acquire_iff acquire_held)

lemma expiry_frees:
  assumes "fst (acquire k n s)" "1000 * n \<le> ms"
  shows "fst (acquire k m (advance ms (snd (acquire k n s))))"
  using assms by (simp add: acquire_iff acquire_held)

lemma release_reacquire: "fst (acquire k n (release k s))"
  by (simp add: acquire_iff release_free)

end

interpretation redisLock: lock_service
  "\<lambda>k s. live (now s) (redis s k)" "\<lambda>k n s. redis_set_nx k v n s" redis_del tick
  for v
  by unfold_locales
    (auto simp: redis_set_nx_def redis_set_ex_def redis_del_def live_def tick_def
      split: option.splits)

lemma redis_set_nx_cases:
  "redis_set_nx k v n s = (ok, s') \<longleftrightarrow>
   (if live (now s) (redis s k) then \<not> ok \<and> s' = s else ok \<and> s' = redis_set_ex k v n s)"
  by (auto simp: redis_set_nx_def)

lemma redis_get_set_ex [repo_laws]:
  "0 < n \<Longrightarrow> redis_get k (redis_set_ex k v n s) = Some v"
  "j \<noteq> k \<Longrightarrow> redis_get j (redis_set_ex k v n s) = redis_get j s"
  by (simp_all add: redis_defs)

lemma redis_get_del [repo_laws]:
  "redis_get k (redis_del k s) = None"
  "j \<noteq> k \<Longrightarrow> redis_get j (redis_del k s) = redis_get j s"
  by (simp_all add: redis_defs)

end
