(* ===== verification/Samples.thy ===== *)
theory Samples
  imports RedisStore
begin

text \<open>
  A small concrete state of the backend for the witnesses: one rider, one approved driver with a
  keke, one ride, nothing in the ledger, Redis empty.
\<close>

definition demoUser :: User where
  "demoUser = \<lparr>u_id = 1, u_name = ''Ada'', u_email = ''ada@x.ng'', u_phone = None,
     u_password = None, u_provider = None, u_providerId = None, u_privyDid = None,
     u_walletAddressEvm = None, u_walletAddressSolana = None, u_walletAddressTron = None,
     u_otpCode = None, u_otpExpiry = None, u_isVerified = True, u_role = USER,
     u_ratingAverage = 0, u_totalRides = 0, u_cashbackBalance = 0, u_isBlocked = False,
     u_createdAt = 0\<rparr>"

definition demoDriver :: Driver where
  "demoDriver = \<lparr>d_id = 2, d_name = ''Bola'', d_phone = ''0801'', d_email = ''bola@x.ng'',
     d_password = None, d_licenseNumber = ''L1'', d_licenseExpiry = 0, d_role = DRIVER,
     d_verificationStatus = VS_APPROVED, d_isOnline = True, d_isActive = True,
     d_ratingAverage = 0, d_totalCompletedRides = 0, d_walletBalance = 0, d_privyDid = None,
     d_walletAddressEvm = None, d_otpCode = None, d_otpExpiry = None, d_createdAt = 0\<rparr>"

definition demoVehicle :: Vehicle where
  "demoVehicle = \<lparr>v_id = 3, v_driverId = 2, v_type = V_KEKE, v_plateNumber = ''ABC'',
     v_color = ''yellow'', v_model = ''TVS'', v_year = 2020, v_isActive = True, v_createdAt = 0\<rparr>"

definition demoPlace :: Location where
  "demoPlace = \<lparr>l_address = ''Ikeja'', l_lat = 0, l_lng = 0\<rparr>"

definition demoRide :: "RideStatus \<Rightarrow> Ride" where
  "demoRide st = \<lparr>r_id = 4, r_userId = 1,
     r_driverId = (if st = REQUESTED then None else Some 2),
     r_vehicleId = (if st = REQUESTED then None else Some 3), r_pickup = demoPlace,
     r_dropoff = demoPlace, r_distanceKm = Some 350, r_category = PRIVATE,
     r_estimatedFare = Some 85035, r_finalFare = None, r_status = st, r_originChannel = APP,
     r_cancellationReason = None, r_requestedAt = 0,
     r_acceptedAt = (if st = REQUESTED then None else Some 0),
     r_startedAt = (if st = IN_PROGRESS then Some 0 else None), r_completedAt = None,
     r_createdAt = 0\<rparr>"

definition demo :: "RideStatus \<Rightarrow> sys" where
  "demo st = \<lparr>users = [demoUser], drivers = [demoDriver], vehicles = [demoVehicle],
     rides = [demoRide st], ledger = [], ratings = [], incidents = [], refreshTokens = [],
     redis = (\<lambda>_. None), geo = (\<lambda>_. None), events = [], jobs = [], now = 1000, nextId = 5\<rparr>"

lemmas demo_defs = demo_def demoUser_def demoDriver_def demoVehicle_def demoRide_def demoPlace_def

lemma demo_simps [simp]:
  "users (demo st) = [demoUser]" "drivers (demo st) = [demoDriver]"
  "vehicles (demo st) = [demoVehicle]" "rides (demo st) = [demoRide st]" "ledger (demo st) = []"
  "redis (demo st) k = None" "now (demo st) = 1000" "nextId (demo st) = 5" "events (demo st) = []"
  "refreshTokens (demo st) = []"
  "u_id demoUser = 1" "d_id demoDriver = 2" "v_id demoVehicle = 3" "r_id (demoRide st) = 4"
  "d_walletBalance demoDriver = 0" "u_cashbackBalance demoUser = 0"
  "r_status (demoRide st) = st" "r_userId (demoRide st) = 1"
  "r_estimatedFare (demoRide st) = Some 85035" "r_finalFare (demoRide st) = None"
  "findRide i (demo st) = (if i = 4 then Some (demoRide st) else None)"
  "findDriver i (demo st) = (if i = 2 then Some demoDriver else None)"
  "findUser i (demo st) = (if i = 1 then Some demoUser else None)"
  "findVehicle i (demo st) = (if i = 3 then Some demoVehicle else None)"
  by (simp_all add: demo_defs find_row_defs tbl_find_def)

end
