(* ===== verification/FleetMatching.thy ===== *)
theory FleetMatching
  imports Domain
begin

text \<open>
  The fleet rules, \<open>src/rides/utils/category-matching.util.ts\<close>: which vehicle serves which ride
  category, which categories take a driver completely, and what a driver may be offered.
\<close>

fun RIDE_CATEGORY_VEHICLE_TYPE :: "RideCategory \<Rightarrow> VehicleType" where
  "RIDE_CATEGORY_VEHICLE_TYPE PRIVATE = V_KEKE"
| "RIDE_CATEGORY_VEHICLE_TYPE SHARED = V_KEKE"
| "RIDE_CATEGORY_VEHICLE_TYPE OKADA = V_BIKE"
| "RIDE_CATEGORY_VEHICLE_TYPE CAR = V_CAR"

text \<open>\<open>Object.keys\<close> of that record, in the order its entries are written.\<close>

definition categoryKeys :: "RideCategory list" where
  "categoryKeys = [PRIVATE, SHARED, OKADA, CAR]"

definition EXCLUSIVE_CATEGORIES :: "RideCategory list" where
  "EXCLUSIVE_CATEGORIES = [PRIVATE, OKADA, CAR]"

definition MAX_ACTIVE_SHARED_RIDES :: nat where
  "MAX_ACTIVE_SHARED_RIDES = 4"

definition vehicleTypeMatchesCategory :: "VehicleType \<Rightarrow> RideCategory \<Rightarrow> bool" where
  "vehicleTypeMatchesCategory vehicleType category \<longleftrightarrow>
     RIDE_CATEGORY_VEHICLE_TYPE category = vehicleType"

definition isExclusiveCategory :: "RideCategory \<Rightarrow> bool" where
  "isExclusiveCategory category \<longleftrightarrow> category \<in> set EXCLUSIVE_CATEGORIES"

definition getAllowedCategoriesForVehicleTypes :: "VehicleType list \<Rightarrow> RideCategory list" where
  "getAllowedCategoriesForVehicleTypes vehicleTypes =
     (let owned = set vehicleTypes
      in filter (\<lambda>category. RIDE_CATEGORY_VEHICLE_TYPE category \<in> owned) categoryKeys)"

lemma category_in_keys: "category \<in> set categoryKeys"
  by (cases category) (simp_all add: categoryKeys_def)

lemma distinct_categoryKeys: "distinct categoryKeys"
  by (simp add: categoryKeys_def)

lemma exclusive_iff_not_shared: "isExclusiveCategory c \<longleftrightarrow> c \<noteq> SHARED"
  by (cases c) (simp_all add: isExclusiveCategory_def EXCLUSIVE_CATEGORIES_def)

text \<open>Offering and accepting agree. A driver is offered exactly the categories one of
  their vehicles would pass the acceptance check for, each once, and a courier vehicle is
  offered nothing.\<close>

lemma offered_iff_servable:
  "(category \<in> set (getAllowedCategoriesForVehicleTypes types) \<longleftrightarrow>
     (\<exists>t\<in>set types. vehicleTypeMatchesCategory t category)) \<and>
   distinct (getAllowedCategoriesForVehicleTypes types) \<and>
   getAllowedCategoriesForVehicleTypes [V_COURIER] = []"
proof (intro conjI)
  show "category \<in> set (getAllowedCategoriesForVehicleTypes types) \<longleftrightarrow>
      (\<exists>t\<in>set types. vehicleTypeMatchesCategory t category)"
    using category_in_keys [of category]
    by (auto simp: getAllowedCategoriesForVehicleTypes_def vehicleTypeMatchesCategory_def)
  show "distinct (getAllowedCategoriesForVehicleTypes types)"
    by (simp add: getAllowedCategoriesForVehicleTypes_def distinct_categoryKeys)
  show "getAllowedCategoriesForVehicleTypes [V_COURIER] = []"
    by (simp add: getAllowedCategoriesForVehicleTypes_def categoryKeys_def)
qed

end
