(* ===== verification/Ledger.thy ===== *)
theory Ledger
  imports RedisStore
begin

text \<open>
  The ledger, \<open>src/ledger/ledger.service.ts\<close>: writing and settling entries, statements, sums.
  The lemmas relate the entries to the balances they explain: what writing or settling an
  entry does to a stakeholder's total.
\<close>

section \<open>Writing\<close>

record WriteLedgerEntry =
  w_rideId :: "uuid option"
  w_type :: LedgerEntryType
  w_stakeholderType :: StakeholderType
  w_stakeholderId :: "uuid option"
  w_amount :: num
  w_status :: "LedgerEntryStatus option"
  w_providerReference :: "string option"
  w_metadata :: "json option"

text \<open>
  One row of \<open>repo.save(rows)\<close>: the amount must fit \<open>decimal(12,2)\<close> and the index
  \<open>uq_ledger_ride_type\<close> admits one entry of each type per ride.
\<close>

definition insertLedgerEntry :: "WriteLedgerEntry \<Rightarrow> (sys, LedgerEntry) handler" where
  "insertLedgerEntry w s =
     (case store_decimal 12 (w_amount w) of
        Inl e \<Rightarrow> (Inl e, s)
      | Inr amount \<Rightarrow>
          if w_rideId w \<noteq> None \<and>
             (\<exists>x\<in>set (ledger s). le_rideId x = w_rideId w \<and> le_type x = w_type w)
          then (Inl (QueryFailedError ''uq_ledger_ride_type''), s)
          else let (i, s') = freshId s;
                   row = \<lparr>le_id = i, le_rideId = w_rideId w, le_type = w_type w,
                     le_stakeholderType = w_stakeholderType w,
                     le_stakeholderId = w_stakeholderId w, le_amount = amount,
                     le_currency = ''NGN'',
                     le_status = (case w_status w of None \<Rightarrow> L_COMPLETED | Some st \<Rightarrow> st),
                     le_providerReference = w_providerReference w, le_metadata = w_metadata w,
                     le_createdAt = now s'\<rparr>
               in (Inr row, s'\<lparr>ledger := ledger s' @ [row]\<rparr>))"

fun insertLedgerEntries :: "WriteLedgerEntry list \<Rightarrow> (sys, LedgerEntry list) handler" where
  "insertLedgerEntries [] s = (Inr [], s)"
| "insertLedgerEntries (w # ws) s =
     (case insertLedgerEntry w s of
        (Inl e, s') \<Rightarrow> (Inl e, s')
      | (Inr row, s') \<Rightarrow>
          (case insertLedgerEntries ws s' of
             (Inl e, s'') \<Rightarrow> (Inl e, s'')
           | (Inr rows, s'') \<Rightarrow> (Inr (row # rows), s'')))"

text \<open>\<open>save\<close> of several rows is one statement group: all of them or none.\<close>

definition writeEntries :: "WriteLedgerEntry list \<Rightarrow> (sys, LedgerEntry list) handler" where
  "writeEntries entries = transaction (insertLedgerEntries entries)"

text \<open>
  \<open>undefined\<close> is the outer \<open>None\<close> (the column is left as it is), \<open>null\<close> the inner one.
\<close>

definition settleEntry ::
  "uuid \<Rightarrow> LedgerEntryStatus \<Rightarrow> string option option \<Rightarrow> json option option \<Rightarrow> sys \<Rightarrow> sys" where
  "settleEntry entryId status providerReference metadata s =
     s\<lparr>ledger := tbl_update (\<lambda>e. le_id e = entryId)
        (\<lambda>e. e\<lparr>le_status := status,
               le_providerReference :=
                 (case providerReference of None \<Rightarrow> le_providerReference e | Some r \<Rightarrow> r),
               le_metadata := (case metadata of None \<Rightarrow> le_metadata e | Some m \<Rightarrow> m)\<rparr>)
        (ledger s)\<rparr>"

section \<open>Reading\<close>

definition findByRideId :: "uuid \<Rightarrow> sys \<Rightarrow> LedgerEntry list" where
  "findByRideId rideId s =
     order_asc le_createdAt (filter (\<lambda>e. le_rideId e = Some rideId) (ledger s))"

definition findByStakeholder ::
  "StakeholderType \<Rightarrow> uuid \<Rightarrow> nat \<Rightarrow> nat \<Rightarrow> sys \<Rightarrow> LedgerEntry list \<times> nat" where
  "findByStakeholder stakeholderType stakeholderId limit offset s =
     (let rows = filter (\<lambda>e. le_stakeholderType e = stakeholderType \<and>
                    le_stakeholderId e = Some stakeholderId) (ledger s)
      in (page offset limit (order_desc le_createdAt rows), length rows))"

text \<open>\<open>SUM(amount)\<close> over the rows a condition selects, exact, read back as a number.\<close>

definition sumAmount :: "(LedgerEntry \<Rightarrow> bool) \<Rightarrow> sys \<Rightarrow> dec2" where
  "sumAmount P s = sum_list (map (\<lambda>e. if P e then le_amount e else 0) (ledger s))"

definition settledOrPending :: "LedgerEntry \<Rightarrow> bool" where
  "settledOrPending e \<longleftrightarrow> le_status e = L_COMPLETED \<or> le_status e = L_PENDING"

definition sumForStakeholder ::
  "StakeholderType \<Rightarrow> uuid \<Rightarrow> LedgerEntryType \<Rightarrow> date \<Rightarrow> date \<Rightarrow> sys \<Rightarrow> num" where
  "sumForStakeholder stakeholderType stakeholderId type from to s =
     num_of_dec (sumAmount (\<lambda>e. le_stakeholderType e = stakeholderType \<and>
       le_stakeholderId e = Some stakeholderId \<and> le_type e = type \<and> settledOrPending e \<and>
       from \<le> le_createdAt e \<and> le_createdAt e \<le> to) s)"

definition getPlatformRevenue :: "sys \<Rightarrow> num" where
  "getPlatformRevenue s =
     num_of_dec (sumAmount (\<lambda>e. le_stakeholderType e = S_PLATFORM \<and> le_status e = L_COMPLETED) s)"

record LedgerTypeTotal =
  lt_type :: LedgerEntryType
  lt_total :: num
  lt_count :: nat

record LedgerSummary =
  ls_platformRevenue :: num
  ls_byType :: "LedgerTypeTotal list"

text \<open>
  \<open>GROUP BY type\<close>: one row per type that occurs. Postgres leaves the order of the groups open;
  the model lists them as the enum does.
\<close>

definition getSummary :: "sys \<Rightarrow> LedgerSummary" where
  "getSummary s =
     (let completed = (\<lambda>t e. le_status e = L_COMPLETED \<and> le_type e = t);
          types = [RIDE_FARE_DRIVER, RIDE_FARE_PLATFORM, RIDE_FARE_RIDER_CASHBACK,
                   DRIVER_FUEL_SUPPORT_MFB, DRIVER_PAYOUT_LINKPAY]
      in \<lparr>ls_platformRevenue = getPlatformRevenue s,
          ls_byType = map (\<lambda>t. \<lparr>lt_type = t, lt_total = num_of_dec (sumAmount (completed t) s),
                               lt_count = length (filter (completed t) (ledger s))\<rparr>)
                        (filter (\<lambda>t. \<exists>e\<in>set (ledger s). completed t e) types)\<rparr>)"

section \<open>What a write does to the totals\<close>

lemma insertLedgerEntry_Inr:
  assumes "insertLedgerEntry w s = (Inr row, s')"
  shows "s' = s\<lparr>ledger := ledger s @ [row], nextId := Suc (nextId s)\<rparr>"
    and "le_id row = nextId s" "le_rideId row = w_rideId w" "le_type row = w_type w"
    "le_stakeholderType row = w_stakeholderType w" "le_stakeholderId row = w_stakeholderId w"
    "store_decimal 12 (w_amount w) = Inr (le_amount row)"
    "le_status row = (case w_status w of None \<Rightarrow> L_COMPLETED | Some st \<Rightarrow> st)"
    "le_metadata row = w_metadata w" "le_createdAt row = now s"
    "w_rideId w = None \<or>
      (\<forall>x\<in>set (ledger s). le_rideId x = w_rideId w \<longrightarrow> le_type x \<noteq> w_type w)"
  using assms
  by (auto simp: insertLedgerEntry_def freshId_def Let_def split: sum.splits if_splits)

lemma insertLedgerEntry_Inl: "insertLedgerEntry w s = (Inl e, s') \<Longrightarrow> s' = s"
  by (auto simp: insertLedgerEntry_def freshId_def Let_def split: sum.splits if_splits)

lemma sumAmount_append:
  "ledger s' = ledger s @ rows \<Longrightarrow>
   sumAmount P s' = sumAmount P s + sum_list (map (\<lambda>e. if P e then le_amount e else 0) rows)"
  by (simp add: sumAmount_def)

lemma sumAmount_frame: "ledger s' = ledger s \<Longrightarrow> sumAmount P s' = sumAmount P s"
  by (simp add: sumAmount_def)

lemma sumAmount_mono:
  assumes "\<And>e. e \<in> set (ledger s) \<Longrightarrow> P e \<Longrightarrow> Q e"
    and "\<And>e. e \<in> set (ledger s) \<Longrightarrow> Q e \<Longrightarrow> 0 \<le> le_amount e"
  shows "sumAmount P s \<le> sumAmount Q s"
  unfolding sumAmount_def by (rule sum_list_mono) (use assms in auto)

text \<open>
  Settling an entry by id is a save of that one row, when the ids are distinct.
\<close>

definition settled ::
  "LedgerEntryStatus \<Rightarrow> string option option \<Rightarrow> json option option \<Rightarrow> LedgerEntry \<Rightarrow> LedgerEntry"
  where
  "settled status providerReference metadata e =
     e\<lparr>le_status := status,
       le_providerReference :=
         (case providerReference of None \<Rightarrow> le_providerReference e | Some r \<Rightarrow> r),
       le_metadata := (case metadata of None \<Rightarrow> le_metadata e | Some m \<Rightarrow> m)\<rparr>"

lemma settled_simps [simp]:
  "le_id (settled st r m e) = le_id e" "le_amount (settled st r m e) = le_amount e"
  "le_type (settled st r m e) = le_type e" "le_rideId (settled st r m e) = le_rideId e"
  "le_stakeholderType (settled st r m e) = le_stakeholderType e"
  "le_stakeholderId (settled st r m e) = le_stakeholderId e"
  "le_createdAt (settled st r m e) = le_createdAt e" "le_status (settled st r m e) = st"
  by (simp_all add: settled_def)

lemma settleEntry_ledger:
  "ledger (settleEntry i st r m s) = map (\<lambda>e. if le_id e = i then settled st r m e else e) (ledger s)"
  by (simp add: settleEntry_def tbl_update_def settled_def)

lemma settleEntry_frame [simp]:
  "users (settleEntry i st r m s) = users s" "drivers (settleEntry i st r m s) = drivers s"
  "rides (settleEntry i st r m s) = rides s" "redis (settleEntry i st r m s) = redis s"
  "vehicles (settleEntry i st r m s) = vehicles s"
  "now (settleEntry i st r m s) = now s" "nextId (settleEntry i st r m s) = nextId s"
  "events (settleEntry i st r m s) = events s"
  "map le_id (ledger (settleEntry i st r m s)) = map le_id (ledger s)"
  by (simp_all add: settleEntry_def tbl_update_def)

lemma sumAmount_settle:
  assumes "distinct (map le_id (ledger s))" "e \<in> set (ledger s)"
  shows "sumAmount P (settleEntry (le_id e) st r m s) =
    sumAmount P s - (if P e then le_amount e else 0)
      + (if P (settled st r m e) then le_amount e else 0)"
proof -
  let ?e = "settled st r m e"
  have "ledger (settleEntry (le_id e) st r m s) = ledger (saveLedgerEntry ?e s)"
    using assms
    by (auto simp: settleEntry_ledger saveLedgerEntry_def tbl_save_def distinct_map inj_on_def)
  then have "sumAmount P (settleEntry (le_id e) st r m s) = sumAmount P (saveLedgerEntry ?e s)"
    by (simp add: sumAmount_def)
  also have "\<dots> = sumAmount P s - (if P e then le_amount e else 0)
      + (if P ?e then le_amount ?e else 0)"
    unfolding sumAmount_def
    by (rule ledgerRepo.sum_rows_save) (use assms ledgerRepo.findById_member in auto)
  finally show ?thesis by simp
qed

end
