(* ===== verification/Books.thy ===== *)
theory Books
  imports Ledger
begin

text \<open>
  The integrity of the stored data and the accounting contract. \<open>wf_sys\<close>: primary keys are unique
  and below the id supply, amounts fit their columns, the ledger index holds. \<open>books_balanced\<close>:
  every balance column equals the total of the ledger entries that explain it, the claim the
  ledger entity makes (the balances are fast-read caches of the ledger).
\<close>

section \<open>Well-formed data\<close>

definition fareColumnsOk :: "Ride \<Rightarrow> bool" where
  "fareColumnsOk r \<longleftrightarrow>
     (\<forall>k. r_estimatedFare r = Some k \<longrightarrow> fits_decimal 10 k) \<and>
     (\<forall>k. r_finalFare r = Some k \<longrightarrow> fits_decimal 10 k)"

definition wf_rides :: "sys \<Rightarrow> bool" where
  "wf_rides s \<longleftrightarrow> distinct (map r_id (rides s)) \<and>
     (\<forall>r\<in>set (rides s). r_id r < nextId s \<and> fareColumnsOk r)"

definition wf_people :: "sys \<Rightarrow> bool" where
  "wf_people s \<longleftrightarrow> distinct (map u_id (users s)) \<and> distinct (map d_id (drivers s)) \<and>
     (\<forall>u\<in>set (users s). u_id u < nextId s \<and> fits_decimal 12 (u_cashbackBalance u)) \<and>
     (\<forall>d\<in>set (drivers s). d_id d < nextId s \<and> fits_decimal 10 (d_walletBalance d))"

definition wf_ledger :: "sys \<Rightarrow> bool" where
  "wf_ledger s \<longleftrightarrow> distinct (map le_id (ledger s)) \<and>
     (\<forall>e\<in>set (ledger s). le_id e < nextId s \<and> fits_decimal 12 (le_amount e) \<and>
        (\<forall>i. le_rideId e = Some i \<longrightarrow> i < nextId s) \<and>
        (\<forall>i. le_stakeholderId e = Some i \<longrightarrow> i < nextId s))"

definition wf_sys :: "sys \<Rightarrow> bool" where
  "wf_sys s \<longleftrightarrow> wf_rides s \<and> wf_people s \<and> wf_ledger s"

lemmas wf_defs = wf_sys_def wf_rides_def wf_people_def wf_ledger_def

lemma wf_findRide:
  assumes "wf_sys s" "findRide i s = Some r"
  shows "r \<in> set (rides s)" "r_id r = i" "i < nextId s" "fareColumnsOk r"
  using rideRepo.findById_SomeD [OF assms(2)] assms(1) by (auto simp: wf_defs)

lemma wf_findDriver:
  assumes "wf_sys s" "findDriver i s = Some d"
  shows "d \<in> set (drivers s)" "d_id d = i" "i < nextId s" "fits_decimal 10 (d_walletBalance d)"
  using driverRepo.findById_SomeD [OF assms(2)] assms(1) by (auto simp: wf_defs)

lemma wf_findUser:
  assumes "wf_sys s" "findUser i s = Some u"
  shows "u \<in> set (users s)" "u_id u = i" "i < nextId s" "fits_decimal 12 (u_cashbackBalance u)"
  using userRepo.findById_SomeD [OF assms(2)] assms(1) by (auto simp: wf_defs)

lemma wf_distinct:
  assumes "wf_sys s"
  shows "distinct (map r_id (rides s))" "distinct (map u_id (users s))"
    "distinct (map d_id (drivers s))" "distinct (map le_id (ledger s))"
  using assms by (auto simp: wf_defs)

lemma wf_cong:
  assumes "wf_sys s" "rides s' = rides s" "users s' = users s" "drivers s' = drivers s"
    "ledger s' = ledger s" "nextId s' = nextId s"
  shows "wf_sys s'"
  using assms by (simp add: wf_defs)

lemma wf_saveRide [wf_intros]:
  assumes "wf_sys s" "r_id r < nextId s" "fareColumnsOk r"
  shows "wf_sys (saveRide r s)"
  using assms rideRepo.rows_save_distinct [of s r] rideRepo.in_rows_save [of _ r s]
  by (fastforce simp: wf_defs)

lemma wf_saveDriver [wf_intros]:
  assumes "wf_sys s" "d_id d < nextId s" "fits_decimal 10 (d_walletBalance d)"
  shows "wf_sys (saveDriver d s)"
  using assms driverRepo.rows_save_distinct [of s d] driverRepo.in_rows_save [of _ d s]
  by (fastforce simp: wf_defs)

lemma wf_saveUser [wf_intros]:
  assumes "wf_sys s" "u_id u < nextId s" "fits_decimal 12 (u_cashbackBalance u)"
  shows "wf_sys (saveUser u s)"
  using assms userRepo.rows_save_distinct [of s u] userRepo.in_rows_save [of _ u s]
  by (fastforce simp: wf_defs)

lemma wf_nextId_mono:
  assumes "wf_sys s" "rides s' = rides s" "users s' = users s" "drivers s' = drivers s"
    "ledger s' = ledger s" "nextId s \<le> nextId s'"
  shows "wf_sys s'"
  using assms by (fastforce simp: wf_defs)

section \<open>Writing entries\<close>

definition entryOf :: "date \<Rightarrow> WriteLedgerEntry \<Rightarrow> LedgerEntry \<Rightarrow> bool" where
  "entryOf t w row \<longleftrightarrow>
     le_rideId row = w_rideId w \<and> le_type row = w_type w \<and>
     le_stakeholderType row = w_stakeholderType w \<and> le_stakeholderId row = w_stakeholderId w \<and>
     store_decimal 12 (w_amount w) = Inr (le_amount row) \<and>
     le_status row = (case w_status w of None \<Rightarrow> L_COMPLETED | Some st \<Rightarrow> st) \<and>
     le_metadata row = w_metadata w \<and> le_createdAt row = t"

lemma insertLedgerEntries_Inr:
  assumes "insertLedgerEntries ws s = (Inr rows, s')"
  shows "s' = s\<lparr>ledger := ledger s @ rows, nextId := nextId s + length rows\<rparr> \<and>
    list_all2 (entryOf (now s)) ws rows \<and>
    map le_id rows = [nextId s ..< nextId s + length rows]"
  using assms
proof (induction ws s arbitrary: rows s' rule: insertLedgerEntries.induct)
  case (2 w ws s)
  then obtain row rs t where *: "insertLedgerEntry w s = (Inr row, t)"
    "insertLedgerEntries ws t = (Inr rs, s')" "rows = row # rs"
    by (auto split: prod.splits sum.splits)
  note 1 = insertLedgerEntry_Inr [OF *(1)]
  note 2 = "2.IH" [OF *(1) [symmetric] refl *(2)]
  have "map le_id (row # rs) = [nextId s ..< nextId s + length (row # rs)]"
    using 1(1,2) 2 upt_conv_Cons [of "nextId s" "nextId s + length (row # rs)"]
    by (simp del: upt_Suc)
  moreover have "entryOf (now s) w row" using 1 by (simp add: entryOf_def)
  ultimately show ?case using 1(1) 2 by (simp add: *(3))
qed simp

lemma insertLedgerEntries_Inl:
  assumes "\<And>w. w \<in> set ws \<Longrightarrow> \<exists>k. store_decimal 12 (w_amount w) = Inr k"
    and "\<And>w. w \<in> set ws \<Longrightarrow> w_rideId w = i" "distinct (map w_type ws)"
    and "\<And>x. x \<in> set (ledger s) \<Longrightarrow> i \<noteq> None \<Longrightarrow> le_rideId x = i \<Longrightarrow> le_type x \<notin> w_type ` set ws"
  shows "\<exists>rows s'. insertLedgerEntries ws s = (Inr rows, s')"
  using assms
proof (induction ws arbitrary: s)
  case (Cons w ws)
  obtain k where k: "store_decimal 12 (w_amount w) = Inr k" using Cons.prems(1) by auto
  have "\<not> (w_rideId w \<noteq> None \<and>
      (\<exists>x\<in>set (ledger s). le_rideId x = w_rideId w \<and> le_type x = w_type w))"
    using Cons.prems(2,4) by force
  then obtain row t where ins: "insertLedgerEntry w s = (Inr row, t)"
    by (simp only: insertLedgerEntry_def k sum.case if_False freshId_def Let_def prod.case)
  note row = insertLedgerEntry_Inr [OF ins]
  have "\<exists>rows s'. insertLedgerEntries ws t = (Inr rows, s')"
  proof (rule Cons.IH)
    fix x assume "x \<in> set (ledger t)" "i \<noteq> None" "le_rideId x = i"
    moreover have "ledger t = ledger s @ [row]" using row(1) by simp
    ultimately consider "x \<in> set (ledger s)" | "le_type x = w_type w" using row(4) by auto
    then show "le_type x \<notin> w_type ` set ws"
    proof cases
      case 1
      then show ?thesis using Cons.prems(4) \<open>i \<noteq> None\<close> \<open>le_rideId x = i\<close> by fastforce
    next
      case 2
      then show ?thesis using Cons.prems(3) by simp
    qed
  qed (use Cons.prems in simp_all)
  then show ?case using ins by auto
qed simp

lemma wf_appendLedger:
  assumes "wf_sys s" "map le_id rows = [nextId s ..< nextId s + length rows]"
    and rows: "\<forall>e\<in>set rows. fits_decimal 12 (le_amount e) \<and>
      (\<forall>i. le_rideId e = Some i \<longrightarrow> i < nextId s) \<and> (\<forall>i. le_stakeholderId e = Some i \<longrightarrow> i < nextId s)"
  shows "wf_sys (s\<lparr>ledger := ledger s @ rows, nextId := nextId s + length rows\<rparr>)"
proof -
  have ids: "\<forall>e\<in>set rows. nextId s \<le> le_id e \<and> le_id e < nextId s + length rows"
  proof
    fix e assume "e \<in> set rows"
    then have "le_id e \<in> set (map le_id rows)" by simp
    then show "nextId s \<le> le_id e \<and> le_id e < nextId s + length rows" unfolding assms(2) by simp
  qed
  have "distinct (map le_id rows)" unfolding assms(2) by simp
  moreover have old: "\<forall>i\<in>le_id ` set (ledger s). i < nextId s"
    using assms(1) by (simp add: wf_defs)
  moreover have "\<forall>i\<in>le_id ` set rows. nextId s \<le> i" using ids by blast
  then have "le_id ` set (ledger s) \<inter> le_id ` set rows = {}" using old by fastforce
  ultimately have "distinct (map le_id (ledger s @ rows))"
    using wf_distinct(4) [OF assms(1)] by simp
  moreover have "\<forall>e\<in>set (ledger s). le_id e < nextId s + length rows \<and> fits_decimal 12 (le_amount e) \<and>
        (\<forall>i. le_rideId e = Some i \<longrightarrow> i < nextId s + length rows) \<and>
        (\<forall>i. le_stakeholderId e = Some i \<longrightarrow> i < nextId s + length rows)"
    using assms(1) unfolding wf_sys_def wf_ledger_def by (meson trans_less_add1)
  moreover have "\<forall>e\<in>set rows. le_id e < nextId s + length rows \<and> fits_decimal 12 (le_amount e) \<and>
        (\<forall>i. le_rideId e = Some i \<longrightarrow> i < nextId s + length rows) \<and>
        (\<forall>i. le_stakeholderId e = Some i \<longrightarrow> i < nextId s + length rows)"
    using rows ids by (meson trans_less_add1)
  ultimately have "wf_ledger (s\<lparr>ledger := ledger s @ rows, nextId := nextId s + length rows\<rparr>)"
    by (simp add: wf_ledger_def ball_Un)
  moreover have "wf_rides (s\<lparr>ledger := ledger s @ rows, nextId := nextId s + length rows\<rparr>)"
    "wf_people (s\<lparr>ledger := ledger s @ rows, nextId := nextId s + length rows\<rparr>)"
    using assms(1) by (auto simp: wf_sys_def wf_rides_def wf_people_def intro: trans_less_add1)
  ultimately show ?thesis by (simp add: wf_sys_def)
qed

lemma wf_writeEntries [wf_intros]:
  assumes "wf_sys s" "writeEntries ws s = (Inr rows, s')"
    and "\<And>w i. w \<in> set ws \<Longrightarrow> w_rideId w = Some i \<Longrightarrow> i < nextId s"
    and "\<And>w i. w \<in> set ws \<Longrightarrow> w_stakeholderId w = Some i \<Longrightarrow> i < nextId s"
  shows "wf_sys s'"
proof -
  have "insertLedgerEntries ws s = (Inr rows, s')"
    using assms(2) by (simp add: writeEntries_def transaction_Inr_iff)
  note ins = insertLedgerEntries_Inr [OF this]
  have "fits_decimal 12 (le_amount e) \<and> (\<forall>i. le_rideId e = Some i \<longrightarrow> i < nextId s) \<and>
      (\<forall>i. le_stakeholderId e = Some i \<longrightarrow> i < nextId s)" if e: "e \<in> set rows" for e
  proof -
    obtain w where "w \<in> set ws" "entryOf (now s) w e"
      using list_all2_memD [of "entryOf (now s)" ws rows e] e ins by blast
    then show ?thesis using assms(3,4) by (auto simp: entryOf_def store_decimal_ok)
  qed
  then show ?thesis using wf_appendLedger [OF assms(1)] ins by simp
qed

section \<open>The accounting contract\<close>

definition driverBooks :: "uuid \<Rightarrow> sys \<Rightarrow> dec2" where
  "driverBooks i s =
     sumAmount (\<lambda>e. le_stakeholderType e = S_DRIVER \<and> le_stakeholderId e = Some i \<and>
       settledOrPending e) s"

definition riderBooks :: "uuid \<Rightarrow> sys \<Rightarrow> dec2" where
  "riderBooks i s =
     sumAmount (\<lambda>e. le_stakeholderType e = S_RIDER \<and> le_stakeholderId e = Some i \<and>
       settledOrPending e) s"

definition books_balanced :: "sys \<Rightarrow> bool" where
  "books_balanced s \<longleftrightarrow>
     (\<forall>d\<in>set (drivers s). d_walletBalance d = driverBooks (d_id d) s) \<and>
     (\<forall>u\<in>set (users s). u_cashbackBalance u = riderBooks (u_id u) s)"

lemma books_frame:
  assumes "ledger s' = ledger s"
  shows "driverBooks i s' = driverBooks i s" "riderBooks i s' = riderBooks i s"
  using assms by (simp_all add: driverBooks_def riderBooks_def sumAmount_def)

lemma books_balanced_cong:
  assumes "books_balanced s" "drivers s' = drivers s" "users s' = users s" "ledger s' = ledger s"
  shows "books_balanced s'"
  using assms books_frame [OF assms(4)] by (simp add: books_balanced_def)

end
