(* ===== verification/Rides.thy ===== *)
theory Rides
  imports Ledger FleetMatching
begin

text \<open>
  The ride service, \<open>src/rides/rides.service.ts\<close>, method by method: estimating, booking with
  the idempotency mark, accepting under the ride lock, arriving, starting, completing with the
  revenue split in one transaction, cancelling, and the queries.
\<close>

section \<open>Distance and fare\<close>

text \<open>
  \<open>Math.sin\<close>, \<open>Math.cos\<close>, \<open>Math.atan2\<close> and \<open>Math.sqrt\<close> are parameters: ECMAScript leaves
  their accuracy to the implementation.
\<close>

record jsMath =
  m_sin :: "num \<Rightarrow> num"
  m_cos :: "num \<Rightarrow> num"
  m_atan2 :: "num \<Rightarrow> num \<Rightarrow> num"
  m_sqrt :: "num \<Rightarrow> num"

definition js_PI :: num where
  "js_PI = js_lit (3141592653589793 / 1000000000000000)"

definition degreesToRadians :: "num \<Rightarrow> num" where
  "degreesToRadians degrees = js_mul degrees (js_div js_PI 180)"

definition calculateDistance :: "jsMath \<Rightarrow> num \<Rightarrow> num \<Rightarrow> num \<Rightarrow> num \<Rightarrow> num" where
  "calculateDistance m lat1 lon1 lat2 lon2 =
     (let R = 6371;
          dLat = degreesToRadians (js_sub lat2 lat1);
          dLon = degreesToRadians (js_sub lon2 lon1);
          sLat = m_sin m (js_div dLat 2);
          sLon = m_sin m (js_div dLon 2);
          a = js_add (js_mul sLat sLat)
                (js_mul (js_mul (js_mul (m_cos m (degreesToRadians lat1))
                                        (m_cos m (degreesToRadians lat2))) sLon) sLon);
          c = js_mul 2 (m_atan2 m (m_sqrt m a) (m_sqrt m (js_sub 1 a)))
      in js_div (of_int (js_round (js_mul (js_mul R c) 100))) 100)"

fun fareRates :: "RideCategory \<Rightarrow> num \<times> num" where
  "fareRates SHARED = (250, 50)"
| "fareRates OKADA = (300, 70)"
| "fareRates CAR = (1000, 200)"
| "fareRates PRIVATE = (500, 100)"

definition calculateFare :: "num \<Rightarrow> RideCategory \<Rightarrow> num" where
  "calculateFare distance category =
     (case fareRates category of (base, perKm) \<Rightarrow>
        js_div (of_int (js_round (js_mul (js_add base (js_mul distance perKm)) 100))) 100)"

record RideOptionDto =
  ro_category :: RideCategory
  ro_displayName :: string
  ro_estimatedFare :: num
  ro_distanceKm :: num
  ro_description :: string

definition estimateRide :: "jsMath \<Rightarrow> Location \<Rightarrow> Location \<Rightarrow> RideOptionDto list" where
  "estimateRide m pickup dropoff =
     (let distance = calculateDistance m (l_lat pickup) (l_lng pickup) (l_lat dropoff) (l_lng dropoff)
      in [\<lparr>ro_category = PRIVATE, ro_displayName = ''Whole Keke'',
           ro_estimatedFare = calculateFare distance PRIVATE, ro_distanceKm = distance,
           ro_description = ''Private ride for yourself (1-3 people)''\<rparr>,
          \<lparr>ro_category = SHARED, ro_displayName = ''Shared Keke'',
           ro_estimatedFare = calculateFare distance SHARED, ro_distanceKm = distance,
           ro_description = ''Share with others and pay half price''\<rparr>,
          \<lparr>ro_category = OKADA, ro_displayName = ''Okada'',
           ro_estimatedFare = calculateFare distance OKADA, ro_distanceKm = distance,
           ro_description = ''Fast motorcycle ride for one person''\<rparr>,
          \<lparr>ro_category = CAR, ro_displayName = ''Car'',
           ro_estimatedFare = calculateFare distance CAR, ro_distanceKm = distance,
           ro_description = ''Comfortable car ride for up to 4 people''\<rparr>])"

section \<open>Booking\<close>

record CreateRideDto =
  cr_userId :: uuid
  cr_pickup :: Location
  cr_dropoff :: Location
  cr_category :: RideCategory
  cr_originChannel :: "RideOriginChannel option"

definition bookingKey :: "CreateRideDto \<Rightarrow> rkey" where
  "bookingKey dto =
     USER_RIDE_IDEMPOTENCY (cr_userId dto) (l_lat (cr_pickup dto)) (l_lng (cr_pickup dto))"

text \<open>The \<open>try\<close> block of \<open>createRide\<close>.\<close>

definition bookRide :: "jsMath \<Rightarrow> CreateRideDto \<Rightarrow> (sys, Ride) handler" where
  "bookRide m dto s =
     (case findUser (cr_userId dto) s of
        None \<Rightarrow> (Inl (NotFoundException ''User not found''), s)
      | Some user \<Rightarrow>
          if u_isBlocked user
          then (Inl (ForbiddenException ''Your account has been blocked''), s)
          else
            let pickup = cr_pickup dto; dropoff = cr_dropoff dto;
                distance = calculateDistance m (l_lat pickup) (l_lng pickup)
                             (l_lat dropoff) (l_lng dropoff);
                estimatedFare = calculateFare distance (cr_category dto)
            in (case (store_decimal 10 distance, store_decimal 10 estimatedFare) of
                  (Inl e, _) \<Rightarrow> (Inl e, s)
                | (_, Inl e) \<Rightarrow> (Inl e, s)
                | (Inr km, Inr fare) \<Rightarrow>
                    let (i, s') = freshId s;
                        ride = \<lparr>r_id = i, r_userId = cr_userId dto, r_driverId = None,
                          r_vehicleId = None, r_pickup = pickup, r_dropoff = dropoff,
                          r_distanceKm = Some km, r_category = cr_category dto,
                          r_estimatedFare = Some fare, r_finalFare = None,
                          r_status = REQUESTED,
                          r_originChannel =
                            (case cr_originChannel dto of None \<Rightarrow> APP | Some ch \<Rightarrow> ch),
                          r_cancellationReason = None, r_requestedAt = now s',
                          r_acceptedAt = None, r_startedAt = None, r_completedAt = None,
                          r_createdAt = now s'\<rparr>
                    in (Inr ride, emit (RideRequested ride) (saveRide ride s'))))"

definition createRide :: "jsMath \<Rightarrow> CreateRideDto \<Rightarrow> (sys, Ride) handler" where
  "createRide m dto s =
     (case redis_set_nx (bookingKey dto) (RText ''locked'') 30 s of
        (False, s') \<Rightarrow> (Inl (BadRequestException
          ''A similar ride request is already being processed. Please wait 30 seconds.''), s')
      | (True, s') \<Rightarrow> tryRethrow (bookRide m dto) (redis_del (bookingKey dto)) s')"

section \<open>Queries\<close>

definition findOne :: "uuid \<Rightarrow> sys \<Rightarrow> Ride outcome" where
  "findOne i s =
     (case findRide i s of None \<Rightarrow> Inl (NotFoundException ''Ride not found'') | Some r \<Rightarrow> Inr r)"

definition findAll :: "sys \<Rightarrow> Ride list" where
  "findAll s = order_desc r_createdAt (rides s)"

definition findByUserId :: "uuid \<Rightarrow> sys \<Rightarrow> Ride list" where
  "findByUserId userId s = order_desc r_createdAt (filter (\<lambda>r. r_userId r = userId) (rides s))"

definition findByDriverId :: "uuid \<Rightarrow> sys \<Rightarrow> Ride list" where
  "findByDriverId driverId s =
     order_desc r_createdAt (filter (\<lambda>r. r_driverId r = Some driverId) (rides s))"

definition findAvailableRides :: "uuid \<Rightarrow> sys \<Rightarrow> Ride list" where
  "findAvailableRides driverId s =
     (let vs = filter (\<lambda>v. v_driverId v = driverId \<and> v_isActive v) (vehicles s)
      in if vs = [] then []
         else let allowed = getAllowedCategoriesForVehicleTypes (map v_type vs)
              in if allowed = [] then []
                 else order_asc r_requestedAt
                        (filter (\<lambda>r. r_status r = REQUESTED \<and> r_category r \<in> set allowed) (rides s)))"

section \<open>Accepting\<close>

definition activeStatus :: "RideStatus \<Rightarrow> bool" where
  "activeStatus st \<longleftrightarrow> st = ACCEPTED \<or> st = ARRIVED \<or> st = IN_PROGRESS"

definition activeRides :: "uuid \<Rightarrow> sys \<Rightarrow> Ride list" where
  "activeRides driverId s =
     filter (\<lambda>r. r_driverId r = Some driverId \<and> activeStatus (r_status r)) (rides s)"

text \<open>
  \<open>findOne({ where: { id: vehicleId } })\<close>; with an undefined id the condition is dropped and the
  first row of the table is returned.
\<close>

definition vehicleById :: "uuid option \<Rightarrow> sys \<Rightarrow> Vehicle option" where
  "vehicleById vehicleId s =
     (case vehicleId of
        Some i \<Rightarrow> findVehicle i s
      | None \<Rightarrow> (case vehicles s of [] \<Rightarrow> None | v # _ \<Rightarrow> Some v))"

text \<open>The validations 3a and 3b of \<open>acceptRide\<close>: the first one that fails.\<close>

definition categoryProblem :: "Ride \<Rightarrow> Vehicle \<Rightarrow> Ride list \<Rightarrow> exn option" where
  "categoryProblem ride vehicle active =
     (if \<not> vehicleTypeMatchesCategory (v_type vehicle) (r_category ride)
      then Some (BadRequestException ''rides require a vehicle type'')
      else if list_ex (\<lambda>r. isExclusiveCategory (r_category r)) active
      then Some (BadRequestException
        ''You are currently on an exclusive ride and cannot accept more.'')
      else if isExclusiveCategory (r_category ride) \<and> length active > 0
      then Some (BadRequestException
        ''Private, Okada and Car rides require you to have no other active rides.'')
      else if r_category ride = SHARED \<and> length active \<ge> MAX_ACTIVE_SHARED_RIDES
      then Some (BadRequestException ''You have reached the maximum of active shared rides.'')
      else None)"

text \<open>The \<open>try\<close> block of \<open>acceptRide\<close>.\<close>

definition assignRide :: "uuid \<Rightarrow> uuid \<Rightarrow> uuid option \<Rightarrow> (sys, Ride) handler" where
  "assignRide rideId driverId vehicleId s =
     (case findOne rideId s of
        Inl e \<Rightarrow> (Inl e, s)
      | Inr ride \<Rightarrow>
          if r_status ride \<noteq> REQUESTED
          then (Inl (BadRequestException ''This ride has already been taken.''), s)
          else (case findDriver driverId s of
            None \<Rightarrow> (Inl (ForbiddenException ''Driver account is invalid or offline''), s)
          | Some driver \<Rightarrow>
              if \<not> d_isActive driver \<or> \<not> d_isOnline driver
              then (Inl (ForbiddenException ''Driver account is invalid or offline''), s)
              else (case vehicleById vehicleId s of
                None \<Rightarrow>
                  (Inl (BadRequestException ''Vehicle is invalid or does not belong to you''), s)
              | Some vehicle \<Rightarrow>
                  if v_driverId vehicle \<noteq> driverId \<or> \<not> v_isActive vehicle
                  then (Inl (BadRequestException
                    ''Vehicle is invalid or does not belong to you''), s)
                  else (case categoryProblem ride vehicle (activeRides driverId s) of
                    Some e \<Rightarrow> (Inl e, s)
                  | None \<Rightarrow>
                      let ride' = ride\<lparr>r_driverId := Some driverId,
                            r_vehicleId :=
                              (case vehicleId of None \<Rightarrow> r_vehicleId ride | Some v \<Rightarrow> Some v),
                            r_status := ACCEPTED, r_acceptedAt := Some (now s)\<rparr>
                      in (Inr ride', emit (RideAccepted ride')
                            (redis_set_ex (DRIVER_ACTIVE_RIDE driverId) (RId rideId)
                              (60 * 60 * 6) (saveRide ride' s)))))))"

definition acceptRide :: "uuid \<Rightarrow> uuid \<Rightarrow> uuid option \<Rightarrow> (sys, Ride) handler" where
  "acceptRide rideId driverId vehicleId s =
     (case redis_set_nx (RIDE_LOCK rideId) (RId driverId) 10 s of
        (False, s') \<Rightarrow> (Inl (BadRequestException
          ''This ride is currently being processed by another driver. Please try another one.''), s')
      | (True, s') \<Rightarrow>
          tryFinally (assignRide rideId driverId vehicleId) (redis_del (RIDE_LOCK rideId)) s')"

section \<open>Arriving and starting\<close>

definition markArrived :: "uuid \<Rightarrow> uuid \<Rightarrow> (sys, Ride) handler" where
  "markArrived rideId driverId s =
     (case findOne rideId s of
        Inl e \<Rightarrow> (Inl e, s)
      | Inr ride \<Rightarrow>
          if r_driverId ride \<noteq> Some driverId
          then (Inl (ForbiddenException ''Access denied''), s)
          else if r_status ride \<noteq> ACCEPTED
          then (Inl (BadRequestException ''Invalid state''), s)
          else let ride' = ride\<lparr>r_status := ARRIVED\<rparr>
               in (Inr ride', emit (RideArrived ride') (saveRide ride' s)))"

definition startRide :: "uuid \<Rightarrow> uuid \<Rightarrow> (sys, Ride) handler" where
  "startRide rideId driverId s =
     (case findOne rideId s of
        Inl e \<Rightarrow> (Inl e, s)
      | Inr ride \<Rightarrow>
          if r_driverId ride \<noteq> Some driverId
          then (Inl (ForbiddenException ''Access denied''), s)
          else if r_status ride \<noteq> ARRIVED
          then (Inl (BadRequestException ''Invalid state''), s)
          else let ride' = ride\<lparr>r_status := IN_PROGRESS, r_startedAt := Some (now s)\<rparr>
               in (Inr ride', emit (RideStarted ride') (saveRide ride' s)))"

section \<open>Completing\<close>

text \<open>\<open>column ?? 0\<close>, as a number.\<close>

definition num_or_0 :: "dec2 option \<Rightarrow> num" where
  "num_or_0 c = (case c of None \<Rightarrow> 0 | Some k \<Rightarrow> num_of_dec k)"

text \<open>The driver's 95%: lines 429-438.\<close>

definition creditDriver :: "uuid \<Rightarrow> num \<Rightarrow> (sys, unit) handler" where
  "creditDriver driverId kobo s =
     (case findDriver driverId s of
        None \<Rightarrow> (Inl (NotFoundException ''Driver not found''), s)
      | Some driver \<Rightarrow>
          (case store_decimal 10
                  (js_add (num_of_dec (d_walletBalance driver)) (toNaira kobo)) of
             Inl e \<Rightarrow> (Inl e, s)
           | Inr balance \<Rightarrow>
               (Inr (), saveDriver (driver\<lparr>d_walletBalance := balance,
                  d_totalCompletedRides := d_totalCompletedRides driver + 1\<rparr>) s)))"

text \<open>The rider's 1% cashback: lines 441-449.\<close>

definition creditRider :: "uuid \<Rightarrow> num \<Rightarrow> (sys, unit) handler" where
  "creditRider userId kobo s =
     (case findUser userId s of
        None \<Rightarrow> (Inl (NotFoundException ''User not found''), s)
      | Some user \<Rightarrow>
          (case store_decimal 12
                  (js_add (num_of_dec (u_cashbackBalance user)) (toNaira kobo)) of
             Inl e \<Rightarrow> (Inl e, s)
           | Inr balance \<Rightarrow> (Inr (), saveUser (user\<lparr>u_cashbackBalance := balance\<rparr>) s)))"

definition fareEntry ::
  "uuid \<Rightarrow> LedgerEntryType \<Rightarrow> StakeholderType \<Rightarrow> uuid option \<Rightarrow> num \<Rightarrow> num \<Rightarrow> WriteLedgerEntry" where
  "fareEntry rideId type stakeholderType stakeholderId kobo finalFare =
     \<lparr>w_rideId = Some rideId, w_type = type, w_stakeholderType = stakeholderType,
      w_stakeholderId = stakeholderId, w_amount = toNaira kobo, w_status = None,
      w_providerReference = None,
      w_metadata = Some (JObj [(''finalFare'', JNum finalFare)])\<rparr>"

text \<open>The body of the transaction of \<open>completeRide\<close>: the ride, the split, whether it was
  already completed.\<close>

definition settleRide :: "uuid \<Rightarrow> uuid \<Rightarrow> (sys, Ride \<times> FareSplitNaira \<times> bool) handler" where
  "settleRide rideId driverId s =
     (case findRide rideId s of
        None \<Rightarrow> (Inl (NotFoundException ''Ride not found''), s)
      | Some ride \<Rightarrow>
          if r_driverId ride \<noteq> Some driverId
          then (Inl (ForbiddenException ''Access denied''), s)
          else if r_status ride = COMPLETED
          then (Inr (ride, splitFareNaira (num_or_0 (r_finalFare ride)), True), s)
          else if r_status ride \<noteq> IN_PROGRESS
          then (Inl (BadRequestException ''Invalid state''), s)
          else
            let finalFare = num_or_0 (r_estimatedFare ride);
                split = splitFareKobo finalFare
            in (case store_decimal 10 finalFare of
                  Inl e \<Rightarrow> (Inl e, s)
                | Inr fare \<Rightarrow>
                    let ride' = ride\<lparr>r_finalFare := Some fare, r_status := COMPLETED,
                                     r_completedAt := Some (now s)\<rparr>
                    in andThen (creditDriver driverId (driverKobo split))
                         (\<lambda>_. andThen (creditRider (r_userId ride) (riderKobo split))
                           (\<lambda>_. andThen
                             (writeEntries
                               [fareEntry rideId RIDE_FARE_DRIVER S_DRIVER (Some driverId)
                                  (driverKobo split) finalFare,
                                fareEntry rideId RIDE_FARE_PLATFORM S_PLATFORM None
                                  (platformKobo split) finalFare,
                                fareEntry rideId RIDE_FARE_RIDER_CASHBACK S_RIDER
                                  (Some (r_userId ride)) (riderKobo split) finalFare])
                             (\<lambda>_ t. (Inr (ride', splitFareNaira finalFare, False), t))))
                         (saveRide ride' s)))"

text \<open>The \<open>try\<close> block of \<open>completeRide\<close>: the transaction, then what happens after the commit.\<close>

definition finishRide :: "uuid \<Rightarrow> uuid \<Rightarrow> (sys, Ride) handler" where
  "finishRide rideId driverId s =
     (case transaction (settleRide rideId driverId) s of
        (Inl e, s') \<Rightarrow> (Inl e, s')
      | (Inr (ride, split, alreadyCompleted), s') \<Rightarrow>
          if alreadyCompleted then (Inr ride, s')
          else (Inr ride, emit (RideCompleted ride split)
                  (redis_del (DRIVER_ACTIVE_RIDE driverId) s')))"

definition completeRide :: "uuid \<Rightarrow> uuid \<Rightarrow> (sys, Ride) handler" where
  "completeRide rideId driverId s =
     (case redis_set_nx (RIDE_LOCK rideId) (RId driverId) 10 s of
        (False, s') \<Rightarrow> (Inl (BadRequestException
          ''This ride is already being completed. Please wait a moment.''), s')
      | (True, s') \<Rightarrow>
          tryFinally (finishRide rideId driverId) (redis_del (RIDE_LOCK rideId)) s')"

section \<open>Cancelling\<close>

text \<open>A string is falsy when it is undefined or empty.\<close>

definition truthy :: "string option \<Rightarrow> bool" where
  "truthy x \<longleftrightarrow> x \<noteq> None \<and> x \<noteq> Some []"

definition cancelRide ::
  "uuid \<Rightarrow> string option \<Rightarrow> uuid option \<Rightarrow> uuid option \<Rightarrow> (sys, Ride) handler" where
  "cancelRide rideId cancellationReason userId driverId s =
     (case findOne rideId s of
        Inl e \<Rightarrow> (Inl e, s)
      | Inr ride \<Rightarrow>
          if r_status ride = COMPLETED
          then (Inl (BadRequestException ''Completed''), s)
          else if userId \<noteq> None \<and> (Some (r_userId ride) \<noteq> userId \<or> r_status ride = IN_PROGRESS)
          then (Inl (ForbiddenException ''Denied''), s)
          else if driverId \<noteq> None \<and> (r_driverId ride \<noteq> driverId \<or> \<not> truthy cancellationReason)
          then (Inl (ForbiddenException ''Denied''), s)
          else
            let ride' = ride\<lparr>r_status := CANCELLED,
                  r_cancellationReason :=
                    (if truthy cancellationReason then cancellationReason
                     else Some ''Cancelled by user'')\<rparr>;
                s' = saveRide ride' s;
                s'' = (case r_driverId ride' of
                         None \<Rightarrow> s' | Some d \<Rightarrow> redis_del (DRIVER_ACTIVE_RIDE d) s')
            in (Inr ride', emit (RideCancelled ride') s''))"

section \<open>The fare breakdown\<close>

record FareBreakdown =
  fb_rideId :: uuid
  fb_status :: RideStatus
  fb_settled :: bool
  fb_totalFare :: num
  fb_driverEarning :: num
  fb_platformCommission :: num
  fb_riderCashback :: num

definition amountFor :: "LedgerEntry list \<Rightarrow> LedgerEntryType \<Rightarrow> num" where
  "amountFor entries type =
     (case find (\<lambda>e. le_type e = type) entries of
        None \<Rightarrow> 0 | Some e \<Rightarrow> num_of_dec (le_amount e))"

definition getFareBreakdown :: "uuid \<Rightarrow> uuid \<Rightarrow> bool \<Rightarrow> sys \<Rightarrow> FareBreakdown outcome" where
  "getFareBreakdown rideId requesterId isAdmin s =
     (case findOne rideId s of
        Inl e \<Rightarrow> Inl e
      | Inr ride \<Rightarrow>
          let isParty = (r_userId ride = requesterId \<or> r_driverId ride = Some requesterId)
          in if \<not> isAdmin \<and> \<not> isParty
             then Inl (ForbiddenException ''You are not a party to this ride'')
             else if r_status ride = COMPLETED
             then let entries = findByRideId rideId s
                  in Inr \<lparr>fb_rideId = rideId, fb_status = r_status ride, fb_settled = True,
                       fb_totalFare = num_or_0 (r_finalFare ride),
                       fb_driverEarning = amountFor entries RIDE_FARE_DRIVER,
                       fb_platformCommission = amountFor entries RIDE_FARE_PLATFORM,
                       fb_riderCashback = amountFor entries RIDE_FARE_RIDER_CASHBACK\<rparr>
             else let split = splitFareNaira (num_or_0 (r_estimatedFare ride))
                  in Inr \<lparr>fb_rideId = rideId, fb_status = r_status ride, fb_settled = False,
                       fb_totalFare = totalFare split,
                       fb_driverEarning = driverEarning split,
                       fb_platformCommission = platformCommission split,
                       fb_riderCashback = riderCashback split\<rparr>)"

end
