(* ===== verification/RideMoney.thy ===== *)
theory RideMoney
  imports Rides Books Samples
begin

text \<open>
  What \<open>completeRide\<close> does to the money: the exact state after a completion, that it is all or
  nothing, that a retry changes nothing, and that it keeps the books balanced.
\<close>

section \<open>The credits in integers\<close>

definition fareOf :: "dec2 option \<Rightarrow> dec2" where
  "fareOf c = (case c of None \<Rightarrow> 0 | Some k \<Rightarrow> k)"

lemma num_or_0_fareOf: "num_or_0 c = num_of_dec (fareOf c)"
  by (simp add: num_or_0_def fareOf_def num_of_dec_def split: option.split)

lemma creditDriver_eq:
  assumes "wf_sys s" "\<bar>k\<bar> \<le> 10 ^ 12"
  shows "creditDriver i (of_int k) s =
    (case findDriver i s of
       None \<Rightarrow> (Inl (NotFoundException ''Driver not found''), s)
     | Some d \<Rightarrow>
         if fits_decimal 10 (d_walletBalance d + k)
         then (Inr (), saveDriver (d\<lparr>d_walletBalance := d_walletBalance d + k,
                 d_totalCompletedRides := d_totalCompletedRides d + 1\<rparr>) s)
         else (Inl (QueryFailedError ''numeric field overflow''), s))"
proof (cases "findDriver i s")
  case (Some d)
  then have "\<bar>d_walletBalance d\<bar> \<le> 10 ^ 12"
    using wf_findDriver(4) [OF assms(1) Some] by (simp add: fits_decimal_def)
  then show ?thesis using assms(2) Some by (simp add: creditDriver_def store_decimal_sum)
qed (simp add: creditDriver_def)

lemma creditRider_eq:
  assumes "wf_sys s" "\<bar>k\<bar> \<le> 10 ^ 12"
  shows "creditRider i (of_int k) s =
    (case findUser i s of
       None \<Rightarrow> (Inl (NotFoundException ''User not found''), s)
     | Some u \<Rightarrow>
         if fits_decimal 12 (u_cashbackBalance u + k)
         then (Inr (), saveUser (u\<lparr>u_cashbackBalance := u_cashbackBalance u + k\<rparr>) s)
         else (Inl (QueryFailedError ''numeric field overflow''), s))"
proof (cases "findUser i s")
  case (Some u)
  then have "\<bar>u_cashbackBalance u\<bar> \<le> 10 ^ 12"
    using wf_findUser(4) [OF assms(1) Some] by (simp add: fits_decimal_def)
  then show ?thesis using assms(2) Some by (simp add: creditRider_def store_decimal_sum)
qed (simp add: creditRider_def)

section \<open>The state after a completion\<close>

definition completedRide :: "date \<Rightarrow> Ride \<Rightarrow> Ride" where
  "completedRide t ride =
     ride\<lparr>r_finalFare := Some (fareOf (r_estimatedFare ride)), r_status := COMPLETED,
          r_completedAt := Some t\<rparr>"

definition paidDriver :: "dec2 \<Rightarrow> Driver \<Rightarrow> Driver" where
  "paidDriver k d = d\<lparr>d_walletBalance := d_walletBalance d + k,
     d_totalCompletedRides := d_totalCompletedRides d + 1\<rparr>"

definition paidRider :: "dec2 \<Rightarrow> User \<Rightarrow> User" where
  "paidRider k u = u\<lparr>u_cashbackBalance := u_cashbackBalance u + k\<rparr>"

text \<open>The three rows of a fare of \<open>n\<close> kobo.\<close>

definition fareRow ::
  "date \<Rightarrow> Ride \<Rightarrow> LedgerEntryType \<Rightarrow> StakeholderType \<Rightarrow> uuid option \<Rightarrow> dec2 \<Rightarrow> LedgerEntry \<Rightarrow> bool" where
  "fareRow t ride ty st who k e \<longleftrightarrow>
     le_rideId e = Some (r_id ride) \<and> le_type e = ty \<and> le_stakeholderType e = st \<and>
     le_stakeholderId e = who \<and> le_amount e = k \<and> le_status e = L_COMPLETED \<and>
     le_createdAt e = t"

definition fareRows :: "date \<Rightarrow> Ride \<Rightarrow> uuid \<Rightarrow> dec2 \<Rightarrow> LedgerEntry list \<Rightarrow> bool" where
  "fareRows t ride driverId n rows \<longleftrightarrow> (\<exists>a b c. rows = [a, b, c] \<and>
     fareRow t ride RIDE_FARE_DRIVER S_DRIVER (Some driverId) (driver_part n) a \<and>
     fareRow t ride RIDE_FARE_PLATFORM S_PLATFORM None (platform_part n) b \<and>
     fareRow t ride RIDE_FARE_RIDER_CASHBACK S_RIDER (Some (r_userId ride)) (rider_part n) c)"

definition paidState :: "Ride \<Rightarrow> Driver \<Rightarrow> User \<Rightarrow> dec2 \<Rightarrow> sys \<Rightarrow> sys" where
  "paidState ride d u n s =
     saveUser (paidRider (rider_part n) u)
       (saveDriver (paidDriver (driver_part n) d) (saveRide (completedRide (now s) ride) s))"

definition settledState :: "Ride \<Rightarrow> Driver \<Rightarrow> User \<Rightarrow> dec2 \<Rightarrow> LedgerEntry list \<Rightarrow> sys \<Rightarrow> sys" where
  "settledState ride d u n rows s =
     (paidState ride d u n s)\<lparr>ledger := ledger s @ rows, nextId := nextId s + length rows\<rparr>"

lemma settledState_frame [simp]:
  "redis (settledState ride d u n rows s) = redis s" "now (settledState ride d u n rows s) = now s"
  "events (settledState ride d u n rows s) = events s"
  "vehicles (settledState ride d u n rows s) = vehicles s"
  "ledger (settledState ride d u n rows s) = ledger s @ rows"
  "nextId (settledState ride d u n rows s) = nextId s + length rows"
  "rides (settledState ride d u n rows s) = rides (saveRide (completedRide (now s) ride) s)"
  "drivers (settledState ride d u n rows s) = drivers (saveDriver (paidDriver (driver_part n) d) s)"
  "users (settledState ride d u n rows s) = users (saveUser (paidRider (rider_part n) u) s)"
  by (simp_all add: settledState_def paidState_def save_row_defs)

definition fareEntries :: "uuid \<Rightarrow> uuid \<Rightarrow> uuid \<Rightarrow> dec2 \<Rightarrow> WriteLedgerEntry list" where
  "fareEntries rideId userId driverId n =
     [fareEntry rideId RIDE_FARE_DRIVER S_DRIVER (Some driverId) (of_int (driver_part n))
        (num_of_dec n),
      fareEntry rideId RIDE_FARE_PLATFORM S_PLATFORM None (of_int (platform_part n)) (num_of_dec n),
      fareEntry rideId RIDE_FARE_RIDER_CASHBACK S_RIDER (Some userId) (of_int (rider_part n))
        (num_of_dec n)]"

lemma fareEntries_store:
  assumes "fits_decimal 10 n" "w \<in> set (fareEntries i userId driverId n)"
  shows "\<exists>k. store_decimal 12 (w_amount w) = Inr k"
  using assms part_bounds [of n]
  by (auto simp: fareEntries_def fareEntry_def toNaira_of_int store_decimal_of_dec fits_decimal_def)

lemma fareEntries_rows:
  assumes "fits_decimal 10 n"
    and "list_all2 (entryOf t) (fareEntries (r_id ride) (r_userId ride) driverId n) rows"
  shows "fareRows t ride driverId n rows"
  using assms part_bounds [of n]
  by (auto simp: fareEntries_def fareEntry_def toNaira_of_int store_decimal_of_dec fits_decimal_def
      fareRows_def fareRow_def entryOf_def list_all2_Cons1)

text \<open>A completion that settles: exactly when it does, and the state it leaves.\<close>

lemma settleRide_eq:
  assumes "wf_sys s" "findRide rideId s = Some ride" "r_driverId ride = Some driverId"
    "r_status ride = IN_PROGRESS"
  defines "n \<equiv> fareOf (r_estimatedFare ride)"
  shows "settleRide rideId driverId s =
    andThen (creditDriver driverId (of_int (driver_part n)))
      (\<lambda>_. andThen (creditRider (r_userId ride) (of_int (rider_part n)))
        (\<lambda>_. andThen (writeEntries (fareEntries rideId (r_userId ride) driverId n))
          (\<lambda>_ t. (Inr (completedRide (now s) ride, splitFareNaira (num_of_dec n), False), t))))
      (saveRide (completedRide (now s) ride) s)"
proof -
  have n: "fits_decimal 10 n"
    using wf_findRide(4) [OF assms(1,2)]
    by (auto simp: n_def fareOf_def fareColumnsOk_def fits_decimal_def split: option.split)
  then have "\<bar>n\<bar> \<le> 10 ^ 12" by (simp add: fits_decimal_def)
  note split = splitFareKobo_parts [OF this]
  show ?thesis
    using n fits_decimal_10 [OF n] assms(2-4)
    by (simp add: settleRide_def Let_def num_or_0_fareOf store_decimal_of_dec split fareEntries_def
        completedRide_def flip: n_def)
qed

lemma wf_completed:
  assumes "wf_sys s" "findRide rideId s = Some ride"
  shows "wf_sys (saveRide (completedRide t ride) s)"
  using wf_findRide [OF assms] assms(1)
  by (intro wf_saveRide)
    (auto simp: completedRide_def fareOf_def fareColumnsOk_def fits_decimal_def split: option.split)

lemma fareOf_fits:
  assumes "wf_sys s" "findRide rideId s = Some ride"
  shows "fits_decimal 10 (fareOf (r_estimatedFare ride))"
  using wf_findRide(4) [OF assms]
  by (auto simp: fareOf_def fareColumnsOk_def fits_decimal_def split: option.split)

lemma part_small:
  assumes "fits_decimal 10 n"
  shows "\<bar>driver_part n\<bar> \<le> 10 ^ 12" "\<bar>rider_part n\<bar> \<le> 10 ^ 12"
  using assms part_bounds [of n] by (simp_all add: fits_decimal_def)

lemma settleRide_settles:
  assumes "wf_sys s" "findRide rideId s = Some ride" "r_driverId ride = Some driverId"
    "r_status ride = IN_PROGRESS"
    and "findDriver driverId s = Some d" "findUser (r_userId ride) s = Some u"
    and n: "n = fareOf (r_estimatedFare ride)"
    and fits: "fits_decimal 10 (d_walletBalance d + driver_part n)"
      "fits_decimal 12 (u_cashbackBalance u + rider_part n)"
    and fresh: "\<forall>e\<in>set (ledger s). le_rideId e \<noteq> Some rideId"
  shows "\<exists>rows. fareRows (now s) ride driverId n rows \<and>
    settleRide rideId driverId s =
      (Inr (completedRide (now s) ride, splitFareNaira (num_of_dec n), False),
       settledState ride d u n rows s)"
proof -
  let ?t = "saveRide (completedRide (now s) ride) s"
  note fn = fareOf_fits [OF assms(1,2), folded n]
  note wt = wf_completed [OF assms(1,2), of "now s"]
  have wd: "wf_sys (saveDriver (paidDriver (driver_part n) d) ?t)"
    using wt fits(1) wf_findDriver [OF assms(1,5)]
    by (intro wf_saveDriver) (auto simp: paidDriver_def)
  let ?p = "paidState ride d u n s"
  have "\<exists>rows t. insertLedgerEntries (fareEntries rideId (r_userId ride) driverId n) ?p = (Inr rows, t)"
    using fareEntries_store [OF fn]
    by (rule insertLedgerEntries_Inl [where i = "Some rideId"])
      (use fresh in \<open>auto simp: fareEntries_def fareEntry_def paidState_def\<close>)
  then obtain rows t where w:
    "insertLedgerEntries (fareEntries rideId (r_userId ride) driverId n) ?p = (Inr rows, t)"
    by blast
  note ins = insertLedgerEntries_Inr [OF w]
  have "fareRows (now s) ride driverId n rows"
    using fareEntries_rows [OF fn] ins wf_findRide(2) [OF assms(1,2)] by (simp add: paidState_def)
  moreover have "t = settledState ride d u n rows s"
    using ins by (simp add: settledState_def paidState_def)
  moreover have "settleRide rideId driverId s =
      (Inr (completedRide (now s) ride, splitFareNaira (num_of_dec n), False), t)"
    using w assms(5,6) fits
    unfolding settleRide_eq [OF assms(1-4), folded n] andThen_Inr_iff
      creditDriver_eq [OF wt part_small(1) [OF fn]]
    by (simp add: creditRider_eq [OF wd part_small(2) [OF fn], unfolded paidDriver_def]
        writeEntries_def transaction_Inr_iff paidState_def paidDriver_def paidRider_def)
  ultimately show ?thesis by blast
qed

lemma settleRide_inverse:
  assumes "wf_sys s" "settleRide rideId driverId s = (Inr (ride', split, False), s')"
  obtains ride d u n rows where
    "findRide rideId s = Some ride" "r_driverId ride = Some driverId"
    "r_status ride = IN_PROGRESS" "findDriver driverId s = Some d"
    "findUser (r_userId ride) s = Some u" "n = fareOf (r_estimatedFare ride)"
    "fits_decimal 10 (d_walletBalance d + driver_part n)"
    "fits_decimal 12 (u_cashbackBalance u + rider_part n)"
    "fareRows (now s) ride driverId n rows" "map le_id rows = [nextId s ..< nextId s + length rows]"
    "ride' = completedRide (now s) ride" "split = splitFareNaira (num_of_dec n)"
    "s' = settledState ride d u n rows s"
proof -
  obtain ride where ride: "findRide rideId s = Some ride" "r_driverId ride = Some driverId"
      "r_status ride = IN_PROGRESS"
    using assms(2)
    by (auto simp: settleRide_def Let_def split: option.splits if_splits)
  define n where "n = fareOf (r_estimatedFare ride)"
  let ?t = "saveRide (completedRide (now s) ride) s"
  note fn = fareOf_fits [OF assms(1) ride(1), folded n_def]
  note wt = wf_completed [OF assms(1) ride(1), of "now s"]
  obtain t1 t2 rows where steps:
    "creditDriver driverId (of_int (driver_part n)) ?t = (Inr (), t1)"
    "creditRider (r_userId ride) (of_int (rider_part n)) t1 = (Inr (), t2)"
    "writeEntries (fareEntries rideId (r_userId ride) driverId n) t2 = (Inr rows, s')"
    "ride' = completedRide (now s) ride" "split = splitFareNaira (num_of_dec n)"
    using assms(2) unfolding settleRide_eq [OF assms(1) ride, folded n_def] andThen_Inr_iff by auto
  obtain d where d: "findDriver driverId s = Some d"
      "fits_decimal 10 (d_walletBalance d + driver_part n)"
      "t1 = saveDriver (paidDriver (driver_part n) d) ?t"
    using steps(1) unfolding creditDriver_eq [OF wt part_small(1) [OF fn]]
    by (auto simp: paidDriver_def split: option.splits if_splits)
  have w1: "wf_sys t1"
    unfolding d(3) using wt d(2) wf_findDriver [OF assms(1) d(1)]
    by (intro wf_saveDriver) (auto simp: paidDriver_def)
  obtain u where u: "findUser (r_userId ride) s = Some u"
      "fits_decimal 12 (u_cashbackBalance u + rider_part n)"
      "t2 = paidState ride d u n s"
    using steps(2) unfolding creditRider_eq [OF w1 part_small(2) [OF fn]]
    by (auto simp: d(3) paidRider_def paidState_def split: option.splits if_splits)
  note ins = insertLedgerEntries_Inr [OF steps(3) [unfolded writeEntries_def transaction_Inr_iff]]
  show thesis
  proof (rule that [OF ride d(1) u(1) n_def d(2) u(2)])
    show "fareRows (now s) ride driverId n rows"
      using fareEntries_rows [OF fn] ins wf_findRide(2) [OF assms(1) ride(1)]
      by (simp add: u(3) paidState_def)
    show "map le_id rows = [nextId s ..< nextId s + length rows]"
      using ins by (simp add: u(3) paidState_def)
    show "s' = settledState ride d u n rows s"
      using ins by (simp add: u(3) settledState_def paidState_def)
  qed (use steps in auto)
qed

section \<open>The books\<close>

lemma books_settled:
  assumes "fareRows t ride driverId n rows" "ledger s' = ledger s @ rows"
  shows "driverBooks i s' = driverBooks i s + (if i = driverId then driver_part n else 0)"
    and "riderBooks i s' = riderBooks i s + (if i = r_userId ride then rider_part n else 0)"
proof -
  obtain a b c where "rows = [a, b, c]"
    "fareRow t ride RIDE_FARE_DRIVER S_DRIVER (Some driverId) (driver_part n) a"
    "fareRow t ride RIDE_FARE_PLATFORM S_PLATFORM None (platform_part n) b"
    "fareRow t ride RIDE_FARE_RIDER_CASHBACK S_RIDER (Some (r_userId ride)) (rider_part n) c"
    using assms(1) by (auto simp: fareRows_def)
  then show "driverBooks i s' = driverBooks i s + (if i = driverId then driver_part n else 0)"
    and "riderBooks i s' = riderBooks i s + (if i = r_userId ride then rider_part n else 0)"
    using assms(2)
    by (auto simp: driverBooks_def riderBooks_def sumAmount_append fareRow_def settledOrPending_def)
qed

lemma books_balanced_settled:
  assumes "wf_sys s" "books_balanced s" "fareRows t ride driverId n rows"
    and "findDriver driverId s = Some d" "findUser (r_userId ride) s = Some u"
  shows "books_balanced (settledState ride d u n rows s)"
proof -
  let ?s = "settledState ride d u n rows s"
  note bk = books_settled [OF assms(3), of ?s s, simplified]
  note d = wf_findDriver(1,2) [OF assms(1,4)] and u = wf_findUser(1,2) [OF assms(1,5)]
  have "d_walletBalance x = driverBooks (d_id x) ?s" if "x \<in> set (drivers ?s)" for x
  proof -
    from that have "x = paidDriver (driver_part n) d \<or> (x \<in> set (drivers s) \<and> d_id x \<noteq> driverId)"
      using driverRepo.in_rows_save d(2) by (fastforce simp: paidDriver_def)
    then show ?thesis using assms(2) d bk(1) by (auto simp: books_balanced_def paidDriver_def)
  qed
  moreover have "u_cashbackBalance x = riderBooks (u_id x) ?s" if "x \<in> set (users ?s)" for x
  proof -
    from that have "x = paidRider (rider_part n) u \<or> (x \<in> set (users s) \<and> u_id x \<noteq> r_userId ride)"
      using userRepo.in_rows_save u(2) by (fastforce simp: paidRider_def)
    then show ?thesis using assms(2) u bk(2) by (auto simp: books_balanced_def paidRider_def)
  qed
  ultimately show ?thesis by (simp add: books_balanced_def)
qed

lemma wf_settled:
  assumes "wf_sys s" "findRide rideId s = Some ride"
    and "findDriver driverId s = Some d" "findUser (r_userId ride) s = Some u"
    and "fits_decimal 10 n"
    and "fits_decimal 10 (d_walletBalance d + driver_part n)"
      "fits_decimal 12 (u_cashbackBalance u + rider_part n)"
    and "fareRows t ride driverId n rows" "map le_id rows = [nextId s ..< nextId s + length rows]"
  shows "wf_sys (settledState ride d u n rows s)"
proof -
  let ?p = "paidState ride d u n s"
  have wp: "wf_sys ?p"
    unfolding paidState_def
    using assms wf_findDriver [OF assms(1,3)] wf_findUser [OF assms(1,4)] wf_completed [OF assms(1,2)]
    by (intro wf_saveUser wf_saveDriver) (auto simp: paidDriver_def paidRider_def)
  have rows: "\<forall>e\<in>set rows. fits_decimal 12 (le_amount e) \<and>
      (\<forall>i. le_rideId e = Some i \<longrightarrow> i < nextId s) \<and> (\<forall>i. le_stakeholderId e = Some i \<longrightarrow> i < nextId s)"
    using assms(5,8) part_bounds [of n] wf_findRide(2,3) [OF assms(1,2)]
      wf_findDriver(3) [OF assms(1,3)] wf_findUser(3) [OF assms(1,4)]
    by (auto simp: fareRows_def fareRow_def fits_decimal_def)
  show ?thesis
    using wf_appendLedger [OF wp, of rows] rows assms(9)
    by (simp add: settledState_def paidState_def)
qed

section \<open>The handler\<close>

text \<open>The state in which the \<open>try\<close> block runs: the ride lock is taken.\<close>

abbreviation locked :: "uuid \<Rightarrow> uuid \<Rightarrow> sys \<Rightarrow> sys" where
  "locked rideId driverId s \<equiv> redis_set_ex (RIDE_LOCK rideId) (RId driverId) 10 s"

lemma completeRide_cases:
  obtains (busy) "live (now s) (redis s (RIDE_LOCK rideId))"
    "completeRide rideId driverId s = (Inl (BadRequestException
       ''This ride is already being completed. Please wait a moment.''), s)"
  | (error) e where "\<not> live (now s) (redis s (RIDE_LOCK rideId))"
    "completeRide rideId driverId s =
       (Inl e, redis_del (RIDE_LOCK rideId) (locked rideId driverId s))"
  | (retry) ride where "\<not> live (now s) (redis s (RIDE_LOCK rideId))"
    "findRide rideId s = Some ride" "r_driverId ride = Some driverId" "r_status ride = COMPLETED"
    "completeRide rideId driverId s =
       (Inr ride, redis_del (RIDE_LOCK rideId) (locked rideId driverId s))"
  | (settled) ride split s1 where "\<not> live (now s) (redis s (RIDE_LOCK rideId))"
    "settleRide rideId driverId (locked rideId driverId s) = (Inr (ride, split, False), s1)"
    "completeRide rideId driverId s =
       (Inr ride, redis_del (RIDE_LOCK rideId)
          (emit (RideCompleted ride split) (redis_del (DRIVER_ACTIVE_RIDE driverId) s1)))"
proof (cases "live (now s) (redis s (RIDE_LOCK rideId))")
  case True
  then show thesis by (intro busy) (simp_all add: completeRide_def redis_set_nx_def)
next
  case False
  let ?l = "locked rideId driverId s"
  have run: "completeRide rideId driverId s =
      tryFinally (finishRide rideId driverId) (redis_del (RIDE_LOCK rideId)) ?l"
    using False by (simp add: completeRide_def redis_set_nx_def)
  obtain r t where st: "settleRide rideId driverId ?l = (r, t)" by fastforce
  show thesis
  proof (cases r)
    case (Inl e)
    then show thesis using st run False
      by (intro error) (simp_all add: tryFinally_def finishRide_def transaction_def)
  next
    case (Inr x)
    obtain ride split done' where x: "x = (ride, split, done')" by (metis prod_cases3)
    show thesis
    proof (cases done')
      case True
      then have "findRide rideId s = Some ride \<and> r_driverId ride = Some driverId \<and>
          r_status ride = COMPLETED \<and> t = ?l"
        using st unfolding Inr x settleRide_def
        by (auto simp: Let_def andThen_Inr_iff split: option.splits if_splits sum.splits)
      then show thesis using st run False True Inr x
        by (intro retry) (simp_all add: tryFinally_def finishRide_def transaction_def)
    next
      case notDone: False
      then show thesis using st run False Inr x
        by (intro settled) (simp_all add: tryFinally_def finishRide_def transaction_def)
    qed
  qed
qed

lemma wf_locked: "wf_sys s \<Longrightarrow> wf_sys (locked i d s)" "books_balanced s \<Longrightarrow> books_balanced (locked i d s)"
  by (auto intro: wf_cong books_balanced_cong)

lemma wf_after [simp]:
  "wf_sys (redis_del k s) \<longleftrightarrow> wf_sys s" "wf_sys (emit ev s) \<longleftrightarrow> wf_sys s"
  "books_balanced (redis_del k s) \<longleftrightarrow> books_balanced s" "books_balanced (emit ev s) \<longleftrightarrow> books_balanced s"
  "wf_sys (redis_set_ex k v m s) \<longleftrightarrow> wf_sys s" "books_balanced (redis_set_ex k v m s) \<longleftrightarrow> books_balanced s"
  by (auto intro: wf_cong books_balanced_cong)

lemma settleRide_keeps:
  assumes "wf_sys s" "settleRide rideId driverId s = (Inr (ride', split, False), s')"
  shows "wf_sys s'" and "books_balanced s \<Longrightarrow> books_balanced s'"
  by (rule settleRide_inverse [OF assms];
      use assms(1) in \<open>simp del: settledState_frame add: fareOf_fits wf_settled books_balanced_settled\<close>)+

text \<open>A completion that fails, for whatever reason, leaves every table, the emitted
  events, the queue and every Redis key but the ride's own lock as they were; money never moves
  halfway.\<close>

theorem completeRide_all_or_nothing:
  assumes "completeRide rideId driverId s = (Inl e, s')"
  shows "\<exists>rd. s' = s\<lparr>redis := rd\<rparr> \<and> (\<forall>k. k \<noteq> RIDE_LOCK rideId \<longrightarrow> rd k = redis s k)"
  using assms
  by (cases rule: completeRide_cases [of s rideId driverId])
    (auto simp: redis_set_ex_def redis_del_def intro: exI [of _ "redis s"])

text \<open>Completing a ride keeps the accounting contract: when every balance column equals the
  total of its ledger entries before, it does so after, on every path.\<close>

theorem completeRide_books:
  assumes "wf_sys s" "books_balanced s" "completeRide rideId driverId s = (r, s')"
  shows "wf_sys s' \<and> books_balanced s'"
  using assms
proof (cases rule: completeRide_cases [of s rideId driverId])
  case (settled ride split s1)
  then have "wf_sys s1 \<and> books_balanced s1" using assms(1,2) settleRide_keeps wf_locked by metis
  then show ?thesis using settled assms(3) by auto
qed auto

text \<open>Completing is idempotent. Repeating a completion that succeeded, at any later time
  while nothing else happened, returns the same ride and changes no table and emits no event.\<close>

theorem completeRide_idempotent:
  assumes "wf_sys s" "completeRide rideId driverId s = (Inr ride, s')"
  shows "\<exists>rd. completeRide rideId driverId (tick ms s') = (Inr ride, (tick ms s')\<lparr>redis := rd\<rparr>)"
proof -
  have fin: "findRide rideId s' = Some ride \<and> r_driverId ride = Some driverId \<and>
      r_status ride = COMPLETED \<and> redis s' (RIDE_LOCK rideId) = None"
    using assms(2)
  proof (cases rule: completeRide_cases [of s rideId driverId])
    case (retry r)
    then show ?thesis using assms(2) by (auto simp: redis_del_def find_row_defs redis_set_ex_def)
  next
    case (settled r split s1)
    then have s': "s' = redis_del (RIDE_LOCK rideId) (emit (RideCompleted ride split)
        (redis_del (DRIVER_ACTIVE_RIDE driverId) s1))" and r: "r = ride"
      using assms(2) by auto
    from assms(1) have "wf_sys (locked rideId driverId s)" by simp
    then show ?thesis using settled(2)
    proof (rule settleRide_inverse)
      fix q d u n rows
      assume q: "findRide rideId (locked rideId driverId s) = Some q" "r_driverId q = Some driverId"
        "r = completedRide (now (locked rideId driverId s)) q"
        "s1 = settledState q d u n rows (locked rideId driverId s)"
      have "r_id r = rideId" using wf_findRide(2) [OF assms(1)] q(1,3) by (simp add: completedRide_def)
      moreover have "findRide (r_id r) (saveRide r x) = Some r" for x
        by (rule rideRepo.findById_save_same)
      ultimately show ?thesis
        using q(2-4) by (simp add: s' r [symmetric] redis_del_def find_row_defs emit_def
            settledState_def paidState_def completedRide_def save_row_defs)
    qed
  qed auto
  from fin have "settleRide rideId driverId (locked rideId driverId (tick ms s')) =
      (Inr (ride, splitFareNaira (num_or_0 (r_finalFare ride)), True), locked rideId driverId (tick ms s'))"
    by (simp add: settleRide_def find_row_defs tick_def redis_set_ex_def)
  then show ?thesis
    using fin by (auto simp: completeRide_def redis_set_nx_def live_def tick_def tryFinally_def
        finishRide_def transaction_def redis_del_def redis_set_ex_def)
qed

lemma demo_wf: "wf_sys (demo st)" "books_balanced (demo st)"
  by (simp_all add: wf_defs fareColumnsOk_def fits_decimal_def books_balanced_def driverBooks_def
      riderBooks_def sumAmount_def)

lemma completeRide_runs:
  assumes "wf_sys s" "redis s (RIDE_LOCK rideId) = None"
    and "findRide rideId s = Some ride" "r_driverId ride = Some driverId"
      "r_status ride = IN_PROGRESS" "n = fareOf (r_estimatedFare ride)"
    and "findDriver driverId s = Some d" "findUser (r_userId ride) s = Some u"
    and "fits_decimal 10 (d_walletBalance d + driver_part n)"
      "fits_decimal 12 (u_cashbackBalance u + rider_part n)"
    and "\<forall>e\<in>set (ledger s). le_rideId e \<noteq> Some rideId"
  shows "\<exists>rows. fareRows (now s) ride driverId n rows \<and>
    completeRide rideId driverId s = (Inr (completedRide (now s) ride),
      redis_del (RIDE_LOCK rideId) (emit (RideCompleted (completedRide (now s) ride)
        (splitFareNaira (num_of_dec n))) (redis_del (DRIVER_ACTIVE_RIDE driverId)
        (settledState ride d u n rows (locked rideId driverId s)))))"
proof -
  let ?l = "locked rideId driverId s"
  have "\<exists>rows. fareRows (now ?l) ride driverId n rows \<and> settleRide rideId driverId ?l =
      (Inr (completedRide (now ?l) ride, splitFareNaira (num_of_dec n), False),
       settledState ride d u n rows ?l)"
    by (rule settleRide_settles) (use assms in auto)
  then obtain rows where rows: "fareRows (now s) ride driverId n rows"
    "settleRide rideId driverId ?l =
      (Inr (completedRide (now s) ride, splitFareNaira (num_of_dec n), False),
       settledState ride d u n rows ?l)" by auto
  then show ?thesis
    using assms(2)
    by (intro exI [of _ rows]) (simp add: completeRide_def redis_set_nx_def live_def
        tryFinally_def finishRide_def transaction_def)
qed

text \<open>C1: the completion of a ride in progress, under a fare of \<open>n\<close> kobo, by its driver: the ride
  is completed at its estimated fare, the driver's balance grows by exactly \<open>95 n div 100\<close> kobo, the
  rider's cashback by exactly \<open>n div 100\<close>, three settled ledger entries for the three
  stakeholders are appended whose amounts sum to the fare, and only then is the event emitted.\<close>

theorem completeRide_pays:
  assumes "wf_sys s" "redis s (RIDE_LOCK rideId) = None"
    and ride: "findRide rideId s = Some ride" "r_driverId ride = Some driverId"
      "r_status ride = IN_PROGRESS" "r_estimatedFare ride = Some n" "0 \<le> n"
    and people: "findDriver driverId s = Some d" "findUser (r_userId ride) s = Some u"
    and fits: "fits_decimal 10 (d_walletBalance d + 95 * n div 100)"
      "fits_decimal 12 (u_cashbackBalance u + n div 100)"
    and fresh: "\<forall>e\<in>set (ledger s). le_rideId e \<noteq> Some rideId"
  shows "\<exists>ride' s' a b c. completeRide rideId driverId s = (Inr ride', s') \<and>
    ride' = ride\<lparr>r_finalFare := Some n, r_status := COMPLETED, r_completedAt := Some (now s)\<rparr> \<and>
    findRide rideId s' = Some ride' \<and>
    findDriver driverId s' = Some (d\<lparr>d_walletBalance := d_walletBalance d + 95 * n div 100,
      d_totalCompletedRides := d_totalCompletedRides d + 1\<rparr>) \<and>
    findUser (r_userId ride) s' =
      Some (u\<lparr>u_cashbackBalance := u_cashbackBalance u + n div 100\<rparr>) \<and>
    ledger s' = ledger s @ [a, b, c] \<and>
    map le_type [a, b, c] = [RIDE_FARE_DRIVER, RIDE_FARE_PLATFORM, RIDE_FARE_RIDER_CASHBACK] \<and>
    map le_stakeholderId [a, b, c] = [Some driverId, None, Some (r_userId ride)] \<and>
    (\<forall>e\<in>{a, b, c}. le_rideId e = Some rideId \<and> le_status e = L_COMPLETED \<and> 0 \<le> le_amount e) \<and>
    le_amount a = 95 * n div 100 \<and> le_amount c = n div 100 \<and>
    le_amount a + le_amount b + le_amount c = n \<and>
    events s' = events s @ [RideCompleted ride' (splitFareNaira (num_of_dec n))] \<and>
    redis s' (RIDE_LOCK rideId) = None \<and> redis s' (DRIVER_ACTIVE_RIDE driverId) = None"
proof -
  have n: "n = fareOf (r_estimatedFare ride)" using ride(4) by (simp add: fareOf_def)
  then have "fits_decimal 10 n" using fareOf_fits [OF assms(1) ride(1)] by simp
  then have "n \<le> 10 ^ 12" by (simp add: fits_decimal_def)
  note parts = parts_exact [OF ride(5) this] parts_nonneg [OF ride(5) this]
  let ?l = "locked rideId driverId s"
  obtain rows where rows: "fareRows (now s) ride driverId n rows"
    and run: "completeRide rideId driverId s = (Inr (completedRide (now s) ride),
      redis_del (RIDE_LOCK rideId) (emit (RideCompleted (completedRide (now s) ride)
        (splitFareNaira (num_of_dec n))) (redis_del (DRIVER_ACTIVE_RIDE driverId)
        (settledState ride d u n rows ?l))))"
    using completeRide_runs [OF assms(1,2) ride(1-3) n people] fits fresh parts by auto
  let ?s = "redis_del (RIDE_LOCK rideId) (emit (RideCompleted (completedRide (now s) ride)
      (splitFareNaira (num_of_dec n))) (redis_del (DRIVER_ACTIVE_RIDE driverId)
      (settledState ride d u n rows ?l)))"
  note ids = wf_findRide(2) [OF assms(1) ride(1)] wf_findDriver(2) [OF assms(1) people(1)]
    wf_findUser(2) [OF assms(1) people(2)]
  have rd: "findRide rideId ?s = Some (completedRide (now s) ride)"
    using rideRepo.findById_save_same [of "completedRide (now s) ride" ?l] ids
    by (simp add: find_row_defs completedRide_def)
  have dr: "findDriver driverId ?s = Some (paidDriver (driver_part n) d)"
    using driverRepo.findById_save_same [of "paidDriver (driver_part n) d" ?l] ids
    by (simp add: find_row_defs paidDriver_def)
  have us: "findUser (r_userId ride) ?s = Some (paidRider (rider_part n) u)"
    using userRepo.findById_save_same [of "paidRider (rider_part n) u" ?l] ids
    by (simp add: find_row_defs paidRider_def)
  show ?thesis
    using rows rd dr us run ids parts ride(4)
    unfolding fareRows_def
    by (fastforce simp: completedRide_def paidDriver_def paidRider_def fareRow_def fareOf_def
        platform_part_def redis_del_def emit_def)
qed

theorem completeRide_pays_witness:
  "\<exists>r s'. completeRide 4 2 (demo IN_PROGRESS) = (Inr r, s') \<and>
     (\<exists>d. findDriver 2 s' = Some d \<and> d_walletBalance d = 80783) \<and>
     sum_list (map le_amount (ledger s')) = 85035"
  using completeRide_pays [of "demo IN_PROGRESS" 4 "demoRide IN_PROGRESS" 2 85035 demoDriver demoUser]
  by (fastforce simp: demo_wf fits_decimal_def demoRide_def)

theorem completeRide_all_or_nothing_witness:
  "\<exists>rd. snd (completeRide 4 7 (demo IN_PROGRESS)) = (demo IN_PROGRESS)\<lparr>redis := rd\<rparr>"
proof -
  have "\<exists>e. fst (completeRide 4 7 (demo IN_PROGRESS)) = Inl e"
    by (simp add: completeRide_def redis_set_nx_def live_def tryFinally_def finishRide_def
        transaction_def settleRide_def demoRide_def)
  then show ?thesis using completeRide_all_or_nothing prod.collapse by metis
qed

theorem completeRide_books_witness:
  "books_balanced (snd (completeRide 4 2 (demo IN_PROGRESS)))"
  using completeRide_books [OF demo_wf prod.collapse [symmetric]] by blast

lemma demo_completes: "\<exists>r s'. completeRide 4 2 (demo IN_PROGRESS) = (Inr r, s')"
proof -
  have "r_driverId (demoRide IN_PROGRESS) = Some 2" by (simp add: demoRide_def)
  moreover have "fits_decimal 10 (0 + driver_part 85035)" "fits_decimal 12 (0 + rider_part 85035)"
    using part_bounds [of 85035] by (simp_all add: fits_decimal_def)
  ultimately show ?thesis
    using completeRide_runs [OF demo_wf(1) [of IN_PROGRESS], where rideId = 4 and driverId = 2
      and ride = "demoRide IN_PROGRESS" and n = 85035 and d = demoDriver and u = demoUser]
    by (simp add: fareOf_def) blast
qed

theorem completeRide_idempotent_witness:
  "\<exists>r s' rd. completeRide 4 2 (demo IN_PROGRESS) = (Inr r, s') \<and>
     completeRide 4 2 (tick 5000 s') = (Inr r, (tick 5000 s')\<lparr>redis := rd\<rparr>)"
  using demo_completes completeRide_idempotent [OF demo_wf(1)] by blast

end
