(* ===== verification/RideLifecycle.thy ===== *)
theory RideLifecycle
  imports RideMoney "HOL-Library.Sublist"
begin

text \<open>
  The ride state machine: what each handler does to the rides table, the step relation of the
  whole service, and the invariants of every reachable state (the fields of a ride agree with
  its status, no driver is overloaded, exactly the completed rides are paid out).
\<close>

section \<open>The handlers, case by case\<close>

text \<open>Outcomes that leave all tables as they are.\<close>

definition same_tables :: "sys \<Rightarrow> sys \<Rightarrow> bool" where
  "same_tables s s' \<longleftrightarrow> rides s' = rides s \<and> users s' = users s \<and> drivers s' = drivers s \<and>
     ledger s' = ledger s \<and> nextId s' = nextId s"

lemma same_tables_simps [simp]:
  "same_tables s s" "same_tables s (redis_del k t) = same_tables s t"
  "same_tables s (redis_set_ex k v m t) = same_tables s t" "same_tables s (emit e t) = same_tables s t"
  "same_tables s (tick m t) = same_tables s t"
  by (auto simp: same_tables_def tick_def)

lemma findOne_iff: "findOne i s = Inr r \<longleftrightarrow> findRide i s = Some r"
  by (auto simp: findOne_def split: option.splits)

definition acceptedRide :: "date \<Rightarrow> uuid \<Rightarrow> uuid option \<Rightarrow> Ride \<Rightarrow> Ride" where
  "acceptedRide t driverId vehicleId r =
     r\<lparr>r_driverId := Some driverId,
       r_vehicleId := (case vehicleId of None \<Rightarrow> r_vehicleId r | Some v \<Rightarrow> Some v),
       r_status := ACCEPTED, r_acceptedAt := Some t\<rparr>"

lemma acceptedRide_simps [simp]:
  "r_id (acceptedRide t e v r) = r_id r" "r_category (acceptedRide t e v r) = r_category r"
  "r_driverId (acceptedRide t e v r) = Some e" "r_status (acceptedRide t e v r) = ACCEPTED"
  by (simp_all add: acceptedRide_def)

definition mayAccept :: "sys \<Rightarrow> uuid \<Rightarrow> uuid option \<Rightarrow> Ride \<Rightarrow> bool" where
  "mayAccept s driverId vehicleId r \<longleftrightarrow>
     r_status r = REQUESTED \<and>
     (\<exists>d. findDriver driverId s = Some d \<and> d_isActive d \<and> d_isOnline d) \<and>
     (\<exists>v. vehicleById vehicleId s = Some v \<and> v_driverId v = driverId \<and> v_isActive v \<and>
        categoryProblem r v (activeRides driverId s) = None)"

definition acceptedState :: "uuid \<Rightarrow> uuid \<Rightarrow> Ride \<Rightarrow> sys \<Rightarrow> sys" where
  "acceptedState rideId driverId r s =
     emit (RideAccepted r) (redis_set_ex (DRIVER_ACTIVE_RIDE driverId) (RId rideId) (60 * 60 * 6)
       (saveRide r s))"

lemma assignRide_Inr:
  "assignRide rideId driverId vehicleId s = (Inr r', s') \<longleftrightarrow>
   (\<exists>r. findRide rideId s = Some r \<and> mayAccept s driverId vehicleId r \<and>
      r' = acceptedRide (now s) driverId vehicleId r \<and> s' = acceptedState rideId driverId r' s)"
  by (auto simp: assignRide_def findOne_def mayAccept_def acceptedRide_def acceptedState_def Let_def
      split: option.splits if_splits)

lemma assignRide_Inl: "assignRide rideId driverId vehicleId s = (Inl e, s') \<Longrightarrow> s' = s"
  by (auto simp: assignRide_def findOne_def Let_def split: option.splits if_splits)

lemma acceptRide_Inr:
  assumes "acceptRide rideId driverId vehicleId s = (Inr r', s')"
  obtains r where "\<not> live (now s) (redis s (RIDE_LOCK rideId))" "findRide rideId s = Some r"
    "mayAccept s driverId vehicleId r" "r' = acceptedRide (now s) driverId vehicleId r"
    "s' = redis_del (RIDE_LOCK rideId) (acceptedState rideId driverId r' (locked rideId driverId s))"
proof -
  have free: "\<not> live (now s) (redis s (RIDE_LOCK rideId))"
    using assms by (auto simp: acceptRide_def redis_set_nx_def)
  have "vehicleById vehicleId (locked rideId driverId s) = vehicleById vehicleId s"
    "activeRides driverId (locked rideId driverId s) = activeRides driverId s"
    by (simp_all add: vehicleById_def activeRides_def split: option.split)
  then show thesis
    using assms free that
    by (auto simp: acceptRide_def redis_set_nx_def tryFinally_iff assignRide_Inr mayAccept_def)
qed

lemma acceptRide_Inl:
  assumes "acceptRide rideId driverId vehicleId s = (Inl e, s')"
  shows "s' = s \<or> s' = redis_del (RIDE_LOCK rideId) (locked rideId driverId s)"
  using assms
  by (auto simp: acceptRide_def redis_set_nx_def tryFinally_iff dest: assignRide_Inl split: if_splits)

lemma markArrived_Inr:
  "markArrived rideId driverId s = (Inr r', s') \<longleftrightarrow>
   (\<exists>r. findRide rideId s = Some r \<and> r_driverId r = Some driverId \<and> r_status r = ACCEPTED \<and>
      r' = r\<lparr>r_status := ARRIVED\<rparr> \<and> s' = emit (RideArrived r') (saveRide r' s))"
  by (auto simp: markArrived_def findOne_def Let_def split: option.splits if_splits)

lemma markArrived_Inl: "markArrived rideId driverId s = (Inl e, s') \<Longrightarrow> s' = s"
  by (auto simp: markArrived_def findOne_def Let_def split: option.splits if_splits)

lemma startRide_Inr:
  "startRide rideId driverId s = (Inr r', s') \<longleftrightarrow>
   (\<exists>r. findRide rideId s = Some r \<and> r_driverId r = Some driverId \<and> r_status r = ARRIVED \<and>
      r' = r\<lparr>r_status := IN_PROGRESS, r_startedAt := Some (now s)\<rparr> \<and>
      s' = emit (RideStarted r') (saveRide r' s))"
  by (auto simp: startRide_def findOne_def Let_def split: option.splits if_splits)

lemma startRide_Inl: "startRide rideId driverId s = (Inl e, s') \<Longrightarrow> s' = s"
  by (auto simp: startRide_def findOne_def Let_def split: option.splits if_splits)

definition cancelledRide :: "string option \<Rightarrow> Ride \<Rightarrow> Ride" where
  "cancelledRide reason r = r\<lparr>r_status := CANCELLED, r_cancellationReason :=
     (if truthy reason then reason else Some ''Cancelled by user'')\<rparr>"

definition mayCancel :: "string option \<Rightarrow> uuid option \<Rightarrow> uuid option \<Rightarrow> Ride \<Rightarrow> bool" where
  "mayCancel reason userId driverId r \<longleftrightarrow> r_status r \<noteq> COMPLETED \<and>
     (userId \<noteq> None \<longrightarrow> Some (r_userId r) = userId \<and> r_status r \<noteq> IN_PROGRESS) \<and>
     (driverId \<noteq> None \<longrightarrow> r_driverId r = driverId \<and> truthy reason)"

lemma cancelRide_Inr:
  "cancelRide rideId reason userId driverId s = (Inr r', s') \<longleftrightarrow>
   (\<exists>r. findRide rideId s = Some r \<and> mayCancel reason userId driverId r \<and>
      r' = cancelledRide reason r \<and>
      s' = emit (RideCancelled r') (case r_driverId r of
             None \<Rightarrow> saveRide r' s
           | Some d \<Rightarrow> redis_del (DRIVER_ACTIVE_RIDE d) (saveRide r' s)))"
  by (auto simp: cancelRide_def findOne_def mayCancel_def cancelledRide_def Let_def
      split: option.splits if_splits)

lemma cancelRide_Inl: "cancelRide rideId reason userId driverId s = (Inl e, s') \<Longrightarrow> s' = s"
  by (auto simp: cancelRide_def findOne_def Let_def split: option.splits if_splits)

definition newRide :: "CreateRideDto \<Rightarrow> sys \<Rightarrow> dec2 \<Rightarrow> dec2 \<Rightarrow> Ride" where
  "newRide dto s km fare =
     \<lparr>r_id = nextId s, r_userId = cr_userId dto, r_driverId = None, r_vehicleId = None,
      r_pickup = cr_pickup dto, r_dropoff = cr_dropoff dto, r_distanceKm = Some km,
      r_category = cr_category dto, r_estimatedFare = Some fare, r_finalFare = None,
      r_status = REQUESTED,
      r_originChannel = (case cr_originChannel dto of None \<Rightarrow> APP | Some ch \<Rightarrow> ch),
      r_cancellationReason = None, r_requestedAt = now s, r_acceptedAt = None,
      r_startedAt = None, r_completedAt = None, r_createdAt = now s\<rparr>"

lemma bookRide_Inr:
  assumes "bookRide m dto s = (Inr r, s')"
  obtains u km fare where "findUser (cr_userId dto) s = Some u" "\<not> u_isBlocked u"
    "fits_decimal 10 km" "fits_decimal 10 fare" "r = newRide dto s km fare"
    "s' = emit (RideRequested r) (saveRide r (snd (freshId s)))"
  using assms
  by (auto simp: bookRide_def newRide_def freshId_def Let_def store_decimal_ok
      split: option.splits if_splits sum.splits)

lemma bookRide_Inl: "bookRide m dto s = (Inl e, s') \<Longrightarrow> s' = s"
  by (auto simp: bookRide_def freshId_def Let_def split: option.splits if_splits sum.splits)

lemma createRide_Inr:
  assumes "createRide m dto s = (Inr r, s')"
  obtains u km fare where "\<not> live (now s) (redis s (bookingKey dto))"
    "findUser (cr_userId dto) s = Some u" "\<not> u_isBlocked u"
    "fits_decimal 10 km" "fits_decimal 10 fare" "r = newRide dto s km fare"
    "s' = emit (RideRequested r) (saveRide r (snd (freshId
       (redis_set_ex (bookingKey dto) (RText ''locked'') 30 s))))"
proof -
  have "\<not> live (now s) (redis s (bookingKey dto))"
    using assms by (auto simp: createRide_def redis_set_nx_def)
  moreover from this have
    "bookRide m dto (redis_set_ex (bookingKey dto) (RText ''locked'') 30 s) = (Inr r, s')"
    using assms by (auto simp: createRide_def redis_set_nx_def tryRethrow_def
        split: prod.splits sum.splits)
  then show thesis
    by (rule bookRide_Inr) (use calculation that in \<open>auto simp: newRide_def\<close>)
qed

lemma createRide_Inl:
  assumes "createRide m dto s = (Inl e, s')"
  shows "s' = s \<or> s' = redis_del (bookingKey dto)
    (redis_set_ex (bookingKey dto) (RText ''locked'') 30 s)"
  using assms
  by (auto simp: createRide_def redis_set_nx_def tryRethrow_def dest: bookRide_Inl
      split: prod.splits sum.splits if_splits)

section \<open>The step relation\<close>

text \<open>
  One call of one method, with any arguments, or time passing.
\<close>

inductive ride_step :: "sys \<Rightarrow> sys \<Rightarrow> bool" where
  create: "createRide m dto s = (res, s') \<Longrightarrow> ride_step s s'"
| accept: "acceptRide rideId driverId vehicleId s = (res, s') \<Longrightarrow> ride_step s s'"
| arrive: "markArrived rideId driverId s = (res, s') \<Longrightarrow> ride_step s s'"
| start: "startRide rideId driverId s = (res, s') \<Longrightarrow> ride_step s s'"
| complete: "completeRide rideId driverId s = (res, s') \<Longrightarrow> ride_step s s'"
| cancel: "cancelRide rideId reason userId driverId' s = (res, s') \<Longrightarrow> ride_step s s'"
| wait: "0 \<le> ms \<Longrightarrow> ride_step s (tick ms s)"

text \<open>What a step may do to the ride it is about.\<close>

inductive ride_change :: "sys \<Rightarrow> Ride \<Rightarrow> Ride \<Rightarrow> bool" where
  accepted: "mayAccept s driverId vehicleId r \<Longrightarrow>
    ride_change s r (acceptedRide (now s) driverId vehicleId r)"
| arrived: "r_status r = ACCEPTED \<Longrightarrow> ride_change s r (r\<lparr>r_status := ARRIVED\<rparr>)"
| started: "r_status r = ARRIVED \<Longrightarrow>
    ride_change s r (r\<lparr>r_status := IN_PROGRESS, r_startedAt := Some (now s)\<rparr>)"
| cancelled: "r_status r \<noteq> COMPLETED \<Longrightarrow> ride_change s r (cancelledRide reason r)"

inductive_cases ride_changeE: "ride_change s r r'"

text \<open>A completion pays the ride out for the driver who asks, or leaves the tables alone.\<close>

lemma completeRide_effect:
  assumes "completeRide rideId driverId s = (res, s')" "wf_sys s"
  obtains (nothing) "same_tables s s'"
  | (paid) r d u n rows where "findRide rideId s = Some r" "r_driverId r = Some driverId"
      "r_status r = IN_PROGRESS" "findDriver driverId s = Some d"
      "findUser (r_userId r) s = Some u" "n = fareOf (r_estimatedFare r)"
      "fits_decimal 10 (d_walletBalance d + driver_part n)"
      "fits_decimal 12 (u_cashbackBalance u + rider_part n)"
      "fareRows (now s) r driverId n rows"
      "map le_id rows = [nextId s ..< nextId s + length rows]"
      "same_tables (settledState r d u n rows s) s'"
proof (cases rule: completeRide_cases [of s rideId driverId])
    case (settled ride split s1)
    from assms(2) have "wf_sys (locked rideId driverId s)" by simp
    then show thesis using settled(2)
    proof (rule settleRide_inverse)
      fix r d u n rows
      assume *: "findRide rideId (locked rideId driverId s) = Some r" "r_driverId r = Some driverId"
        "r_status r = IN_PROGRESS" "findDriver driverId (locked rideId driverId s) = Some d"
        "findUser (r_userId r) (locked rideId driverId s) = Some u"
        "n = fareOf (r_estimatedFare r)" "fits_decimal 10 (d_walletBalance d + driver_part n)"
        "fits_decimal 12 (u_cashbackBalance u + rider_part n)"
        "fareRows (now (locked rideId driverId s)) r driverId n rows"
        "map le_id rows = [nextId (locked rideId driverId s) ..<
           nextId (locked rideId driverId s) + length rows]"
        "s1 = settledState r d u n rows (locked rideId driverId s)"
      have "same_tables (settledState r d u n rows s) s'"
        using assms(1) settled(3) *(11)
        by (auto simp: same_tables_def save_row_defs)
      then show thesis using * by (intro paid) auto
    qed
qed (use assms(1) nothing in auto)

text \<open>
  Every step leaves the tables alone, inserts one requested ride, changes one ride alone, or
  completes one ride and pays it out.
\<close>

lemma ride_step_cases:
  assumes "ride_step s s'" "wf_sys s"
  obtains (none) "same_tables s s'"
  | (created) dto km fare where "fits_decimal 10 km" "fits_decimal 10 fare"
      "rides s' = rides s @ [newRide dto s km fare]"
      "users s' = users s" "drivers s' = drivers s" "ledger s' = ledger s"
      "nextId s' = Suc (nextId s)"
  | (changed) i r r' where "findRide i s = Some r" "ride_change s r r'"
      "same_tables (saveRide r' s) s'"
  | (completed) i r driverId d u n rows where "findRide i s = Some r" "r_driverId r = Some driverId"
      "r_status r = IN_PROGRESS" "findDriver driverId s = Some d"
      "findUser (r_userId r) s = Some u" "n = fareOf (r_estimatedFare r)"
      "fits_decimal 10 (d_walletBalance d + driver_part n)"
      "fits_decimal 12 (u_cashbackBalance u + rider_part n)"
      "fareRows (now s) r driverId n rows"
      "map le_id rows = [nextId s ..< nextId s + length rows]"
      "same_tables (settledState r d u n rows s) s'"
  using assms(1)
proof cases
  case (create m dto res)
  show thesis
  proof (cases res)
    case (Inl e)
    then show thesis using create createRide_Inl none by fastforce
  next
    case (Inr r)
    then have "createRide m dto s = (Inr r, s')" using create by simp
    then show thesis
    proof (rule createRide_Inr)
      fix km fare assume *: "fits_decimal 10 km" "fits_decimal 10 fare"
        "r = newRide dto s km fare" "s' = emit (RideRequested r) (saveRide r (snd (freshId
           (redis_set_ex (bookingKey dto) (RText ''locked'') 30 s))))"
      have "nextId s \<notin> r_id ` set (rides s)" using assms(2) by (force simp: wf_defs)
      then have "rides s' = rides s @ [newRide dto s km fare]"
        unfolding *(4) using *(3) rideRepo.save_insert by (simp add: newRide_def)
      then show thesis using created * by simp
    qed
  qed
next
  case (accept rideId driverId vehicleId res)
  show thesis
  proof (cases res)
    case (Inl e)
    then show thesis using accept acceptRide_Inl none by fastforce
  next
    case (Inr r')
    then have "acceptRide rideId driverId vehicleId s = (Inr r', s')" using accept by simp
    then show thesis
    proof (rule acceptRide_Inr)
      fix r assume *: "findRide rideId s = Some r" "mayAccept s driverId vehicleId r"
        "r' = acceptedRide (now s) driverId vehicleId r"
        "s' = redis_del (RIDE_LOCK rideId)
           (acceptedState rideId driverId r' (locked rideId driverId s))"
      show thesis
        by (rule changed [OF *(1) accepted [OF *(2)]])
          (simp add: *(3,4) acceptedState_def same_tables_def saveRide_def)
    qed
  qed
next
  case (arrive rideId driverId res)
  then show thesis
    by (cases res)
      (auto simp: markArrived_Inr dest!: markArrived_Inl intro: none changed [OF _ arrived])
next
  case (start rideId driverId res)
  then show thesis
    by (cases res)
      (auto simp: startRide_Inr dest!: startRide_Inl intro: none changed [OF _ started])
next
  case (complete rideId driverId res)
  from complete assms(2) show thesis
  proof (cases rule: completeRide_effect)
    case (paid r d u n rows)
    then show thesis by (intro completed) auto
  qed (use none in blast)
next
  case (cancel rideId reason userId driverId' res)
  show thesis
  proof (cases res)
    case (Inl e)
    then show thesis using cancel cancelRide_Inl none by fastforce
  next
    case (Inr r')
    then obtain r where "findRide rideId s = Some r" "r_status r \<noteq> COMPLETED"
      "same_tables (saveRide (cancelledRide reason r) s) s'"
      using cancel by (auto simp: cancelRide_Inr mayCancel_def split: option.split)
    then show thesis using changed cancelled by blast
  qed
next
  case (wait ms)
  then show thesis using none by simp
qed

section \<open>The flow of one ride\<close>

fun flow :: "RideStatus \<Rightarrow> RideStatus \<Rightarrow> bool" where
  "flow REQUESTED st = (st = ACCEPTED \<or> st = CANCELLED)"
| "flow ACCEPTED st = (st = ARRIVED \<or> st = CANCELLED)"
| "flow ARRIVED st = (st = IN_PROGRESS \<or> st = CANCELLED)"
| "flow IN_PROGRESS st = (st = COMPLETED \<or> st = CANCELLED)"
| "flow COMPLETED st = False"
| "flow CANCELLED st = (st = CANCELLED)"

lemma flow_mono: "flow a b \<Longrightarrow> a \<le> b"
  by (cases a; cases b) (simp_all add: less_eq_RideStatus_def)

lemma ride_change_facts:
  assumes "ride_change s r r'"
  shows "r_id r' = r_id r" "r_userId r' = r_userId r" "r_category r' = r_category r"
    "r_estimatedFare r' = r_estimatedFare r" "r_finalFare r' = r_finalFare r"
    "flow (r_status r) (r_status r')" "r_status r \<noteq> COMPLETED" "r_status r' \<noteq> COMPLETED"
  using assms
  by (cases; cases "r_status r"; simp add: acceptedRide_def mayAccept_def cancelledRide_def)+

lemma same_tables_find: "same_tables s s' \<Longrightarrow> findRide i s' = findRide i s"
  by (simp add: same_tables_def findRide_def)

lemma findRide_settled: "findRide i (settledState r d u n rows s) = findRide i (saveRide (completedRide (now s) r) s)"
  by (simp add: findRide_def)



section \<open>Invariants\<close>

text \<open>The fields of a ride agree with its status.\<close>

definition ride_ok :: "Ride \<Rightarrow> bool" where
  "ride_ok r \<longleftrightarrow> (case r_status r of
      REQUESTED \<Rightarrow> r_driverId r = None \<and> r_vehicleId r = None \<and> r_acceptedAt r = None \<and>
        r_startedAt r = None \<and> r_completedAt r = None \<and> r_finalFare r = None
    | ACCEPTED \<Rightarrow> r_driverId r \<noteq> None \<and> r_acceptedAt r \<noteq> None \<and> r_startedAt r = None \<and>
        r_completedAt r = None \<and> r_finalFare r = None
    | ARRIVED \<Rightarrow> r_driverId r \<noteq> None \<and> r_acceptedAt r \<noteq> None \<and> r_startedAt r = None \<and>
        r_completedAt r = None \<and> r_finalFare r = None
    | IN_PROGRESS \<Rightarrow> r_driverId r \<noteq> None \<and> r_acceptedAt r \<noteq> None \<and> r_startedAt r \<noteq> None \<and>
        r_completedAt r = None \<and> r_finalFare r = None
    | COMPLETED \<Rightarrow> r_driverId r \<noteq> None \<and> r_acceptedAt r \<noteq> None \<and> r_startedAt r \<noteq> None \<and>
        r_completedAt r \<noteq> None \<and> r_finalFare r = Some (fareOf (r_estimatedFare r))
    | CANCELLED \<Rightarrow> r_completedAt r = None \<and> r_finalFare r = None \<and>
        truthy (r_cancellationReason r))"

lemma ride_ok_change: "ride_change s r r' \<Longrightarrow> ride_ok r \<Longrightarrow> ride_ok r'"
  by (erule ride_changeE; cases "r_status r")
    (auto simp: ride_ok_def acceptedRide_def mayAccept_def cancelledRide_def truthy_def)

lemma ride_ok_completed: "r_status r = IN_PROGRESS \<Longrightarrow> ride_ok r \<Longrightarrow> ride_ok (completedRide t r)"
  by (auto simp: ride_ok_def completedRide_def)

text \<open>
  The load of a driver: the categories of the rides they are on. At most one ride, or up to
  four shared ones.
\<close>

definition activeCategories :: "uuid \<Rightarrow> sys \<Rightarrow> RideCategory list" where
  "activeCategories d s = map r_category (activeRides d s)"

definition load_ok :: "RideCategory list \<Rightarrow> bool" where
  "load_ok cs \<longleftrightarrow> length cs \<le> 1 \<or> (length cs \<le> MAX_ACTIVE_SHARED_RIDES \<and> set cs \<subseteq> {SHARED})"

lemma load_ok_subseq:
  assumes "load_ok ds" "subseq cs ds"
  shows "load_ok cs"
proof -
  have "set cs \<subseteq> set ds" using list_emb_set [OF assms(2)] by blast
  then show ?thesis using assms(1) list_emb_length [OF assms(2)] by (auto simp: load_ok_def)
qed

lemma subseq_update:
  assumes "\<And>x. P (f x) \<Longrightarrow> P x \<and> g (f x) = g x"
  shows "subseq (map g (filter P (map f xs))) (map g (filter P xs))"
  by (induction xs) (use assms in auto)

lemma rides_saveRide:
  "findRide i s = Some r \<Longrightarrow> r_id r' = i \<Longrightarrow>
   rides (saveRide r' s) = map (\<lambda>x. if r_id x = i then r' else x) (rides s)"
  using rideRepo.save_update [of r' s] rideRepo.findById_ident [of i s r] by simp

lemma wf_sys_unique:
  "wf_sys s \<Longrightarrow> findRide i s = Some r \<Longrightarrow> x \<in> set (rides s) \<Longrightarrow> r_id x = i \<Longrightarrow> x = r"
  using rideRepo.findById_member [OF wf_distinct(1), of s x] by simp

lemma rides_saveRide':
  assumes "wf_sys s" "findRide i s = Some r" "r_id r' = i"
  shows "rides (saveRide r' s) = map (\<lambda>x. if x = r then r' else x) (rides s)"
  unfolding rides_saveRide [OF assms(2,3)]
proof (rule map_cong)
  fix x assume "x \<in> set (rides s)"
  then have "r_id x = i \<longleftrightarrow> x = r"
    using wf_sys_unique [OF assms(1,2)] wf_findRide(2) [OF assms(1,2)] by blast
  then show "(if r_id x = i then r' else x) = (if x = r then r' else x)" by simp
qed simp

lemma activeCategories_save:
  assumes "wf_sys s" "findRide i s = Some r" "r_id r' = i" "r_category r' = r_category r"
    and "r_driverId r' = Some d \<Longrightarrow> activeStatus (r_status r') \<Longrightarrow>
      r_driverId r = Some d \<and> activeStatus (r_status r)"
  shows "subseq (activeCategories d (saveRide r' s)) (activeCategories d s)"
proof -
  let ?P = "\<lambda>r. r_driverId r = Some d \<and> activeStatus (r_status r)"
  let ?f = "\<lambda>x. if x = r then r' else x"
  have "rides (saveRide r' s) = map ?f (rides s)" by (rule rides_saveRide' [OF assms(1-3)])
  moreover have "subseq (map r_category (filter ?P (map ?f (rides s)))) (map r_category (filter ?P (rides s)))"
    by (rule subseq_update) (use assms(4,5) in \<open>simp split: if_splits\<close>)
  ultimately show ?thesis by (simp add: activeCategories_def activeRides_def)
qed

lemma filter_update_one:
  assumes "distinct xs" "r \<in> set xs" "\<not> P r" "P r'"
  shows "length (filter P (map (\<lambda>x. if x = r then r' else x) xs)) = Suc (length (filter P xs)) \<and>
    g ` set (filter P (map (\<lambda>x. if x = r then r' else x) xs)) = insert (g r') (g ` set (filter P xs))"
  using assms(1,2)
proof (induction xs)
  case (Cons x xs)
  show ?case
  proof (cases "x = r")
    case True
    then have "map (\<lambda>y. if y = r then r' else y) xs = xs"
      using Cons.prems(1) by (intro map_idI) auto
    then show ?thesis using True assms(3,4) by simp
  next
    case False
    then show ?thesis using Cons by (auto simp: insert_commute)
  qed
qed simp

lemma accept_load:
  assumes "wf_sys s" "findRide i s = Some r" "mayAccept s e vehicleId r"
    and "load_ok (activeCategories d s)"
  shows "load_ok (activeCategories d (saveRide (acceptedRide (now s) e vehicleId r) s))"
proof (cases "d = e")
  case False
  have "subseq (activeCategories d (saveRide (acceptedRide (now s) e vehicleId r) s))
      (activeCategories d s)"
    by (rule activeCategories_save [OF assms(1,2)])
      (use False wf_findRide(2) [OF assms(1,2)] in \<open>simp_all add: acceptedRide_def\<close>)
  then show ?thesis using assms(4) load_ok_subseq by blast
next
  case True
  let ?r = "acceptedRide (now s) e vehicleId r" and ?A = "activeRides e s"
  let ?P = "\<lambda>r. r_driverId r = Some e \<and> activeStatus (r_status r)"
  have "distinct (rides s)" "r \<in> set (rides s)"
    using wf_distinct(1) [OF assms(1)] wf_findRide(1) [OF assms(1,2)] by (auto simp: distinct_map)
  moreover have "\<not> ?P r" "?P ?r"
    using assms(3) by (auto simp: mayAccept_def activeStatus_def)
  ultimately have "distinct (rides s)" "r \<in> set (rides s)" "\<not> ?P r" "?P ?r" by blast+
  from filter_update_one [where P = ?P and g = r_category and r' = ?r, OF this]
  have one: "length (activeRides e (saveRide ?r s)) = Suc (length ?A)"
    "r_category ` set (activeRides e (saveRide ?r s)) = insert (r_category r) (r_category ` set ?A)"
    using rides_saveRide' [OF assms(1,2), of ?r] wf_findRide(2) [OF assms(1,2)]
    unfolding activeRides_def by simp_all
  obtain v where "categoryProblem r v ?A = None" using assms(3) by (auto simp: mayAccept_def)
  then have c: "\<forall>x\<in>set ?A. r_category x = SHARED" "r_category r \<noteq> SHARED \<Longrightarrow> ?A = []"
    "r_category r = SHARED \<Longrightarrow> length ?A < MAX_ACTIVE_SHARED_RIDES"
    by (auto simp: categoryProblem_def exclusive_iff_not_shared list_ex_iff split: if_splits)
  show ?thesis
  proof (cases "r_category r = SHARED")
    case True
    then show ?thesis using one c \<open>d = e\<close> by (auto simp: load_ok_def activeCategories_def)
  next
    case False
    then show ?thesis using one(1) c(2) \<open>d = e\<close> by (simp add: load_ok_def activeCategories_def)
  qed
qed

lemma change_load:
  assumes "wf_sys s" "findRide i s = Some r" "ride_change s r r'" "load_ok (activeCategories d s)"
  shows "load_ok (activeCategories d (saveRide r' s))"
  using assms(3)
proof (cases rule: ride_change.cases)
  case (accepted driverId vehicleId)
  then show ?thesis using accept_load assms by blast
qed (rule load_ok_subseq [OF assms(4) activeCategories_save [OF assms(1,2)]];
     use wf_findRide(2) [OF assms(1,2)] in
       \<open>simp add: activeStatus_def cancelledRide_def\<close>)+

lemma completed_load:
  assumes "wf_sys s" "findRide i s = Some r" "load_ok (activeCategories d s)"
  shows "load_ok (activeCategories d (saveRide (completedRide t r) s))"
  by (rule load_ok_subseq [OF assms(3) activeCategories_save [OF assms(1,2)]])
    (use wf_findRide(2) [OF assms(1,2)] in
      \<open>simp_all add: activeStatus_def completedRide_def\<close>)

text \<open>
  The ledger entries of a ride: the three of its split when it is completed, none before.
\<close>

definition entriesOf :: "uuid \<Rightarrow> sys \<Rightarrow> LedgerEntry list" where
  "entriesOf i s = filter (\<lambda>e. le_rideId e = Some i) (ledger s)"

definition paid_ok :: "Ride \<Rightarrow> LedgerEntry list \<Rightarrow> bool" where
  "paid_ok r es \<longleftrightarrow>
     (if r_status r = COMPLETED
      then \<exists>t d. r_driverId r = Some d \<and> fareRows t r d (fareOf (r_finalFare r)) es
      else es = [])"

definition life_inv :: "sys \<Rightarrow> bool" where
  "life_inv s \<longleftrightarrow> wf_sys s \<and> books_balanced s \<and> (\<forall>r\<in>set (rides s). ride_ok r) \<and>
     (\<forall>d. load_ok (activeCategories d s)) \<and>
     (\<forall>r\<in>set (rides s). paid_ok r (entriesOf (r_id r) s))"

lemma life_inv_cong:
  assumes "same_tables s s'" "life_inv s"
  shows "life_inv s'"
proof -
  have "wf_sys s'" "books_balanced s'"
    using assms wf_cong [of s s'] books_balanced_cong [of s s']
    by (simp_all add: life_inv_def same_tables_def)
  then show ?thesis
    using assms by (simp add: life_inv_def same_tables_def entriesOf_def activeCategories_def
        activeRides_def)
qed

lemma life_inv_created:
  assumes "life_inv s" "fits_decimal 10 km" "fits_decimal 10 fare"
    and s': "rides s' = rides s @ [newRide dto s km fare]"
      "users s' = users s" "drivers s' = drivers s" "ledger s' = ledger s" "nextId s' = Suc (nextId s)"
  shows "life_inv s'"
proof -
  let ?r = "newRide dto s km fare"
  have w: "wf_sys s" using assms(1) by (simp add: life_inv_def)
  have "\<forall>i\<in>r_id ` set (rides s). i < nextId s" using w by (simp add: wf_defs)
  then have "nextId s \<notin> r_id ` set (rides s)" by blast
  then have "wf_rides s'"
    using w assms(2,3) s'
    by (auto simp: wf_sys_def wf_rides_def newRide_def fareColumnsOk_def fits_decimal_def less_SucI)
  moreover have "wf_people s'" "wf_ledger s'"
    using w s' by (auto simp: wf_sys_def wf_people_def wf_ledger_def less_SucI)
  moreover have "books_balanced s'"
    using assms(1) s' books_frame [OF s'(4)] by (simp add: life_inv_def books_balanced_def)
  moreover have "\<forall>d. activeCategories d s' = activeCategories d s"
    by (simp add: activeCategories_def activeRides_def s' newRide_def activeStatus_def)
  moreover have "ride_ok ?r" by (simp add: ride_ok_def newRide_def)
  moreover have "entriesOf i s' = entriesOf i s" for i by (simp add: entriesOf_def s')
  moreover have "entriesOf (nextId s) s = []"
    using w by (fastforce simp: entriesOf_def filter_empty_conv wf_defs)
  then have "paid_ok ?r (entriesOf (r_id ?r) s)" by (simp add: paid_ok_def newRide_def)
  ultimately show ?thesis
    using assms(1) by (simp add: life_inv_def wf_sys_def s')
qed

lemma life_inv_changed:
  assumes "life_inv s" "findRide i s = Some r" "ride_change s r r'"
  shows "life_inv (saveRide r' s)"
proof -
  have w: "wf_sys s" using assms(1) by (simp add: life_inv_def)
  note r = wf_findRide [OF w assms(2)] and f = ride_change_facts [OF assms(3)]
  have "wf_sys (saveRide r' s)"
    using w r f by (intro wf_saveRide) (auto simp: fareColumnsOk_def)
  moreover have "books_balanced (saveRide r' s)"
    using assms(1) by (auto simp: life_inv_def intro: books_balanced_cong)
  moreover have "\<forall>x\<in>set (rides (saveRide r' s)). ride_ok x"
    using assms(1) r(1) ride_ok_change [OF assms(3)]
    by (intro rideRepo.rows_save_all) (auto simp: life_inv_def)
  moreover have "\<forall>d. load_ok (activeCategories d (saveRide r' s))"
    using change_load [OF w assms(2,3)] assms(1) by (simp add: life_inv_def)
  moreover have "paid_ok r (entriesOf (r_id r) s)" using assms(1) r(1) by (simp add: life_inv_def)
  then have "paid_ok r' (entriesOf (r_id r') s)" using f by (simp add: paid_ok_def)
  then have "\<forall>x\<in>set (rides (saveRide r' s)). paid_ok x (entriesOf (r_id x) s)"
    using assms(1) by (intro rideRepo.rows_save_all) (auto simp: life_inv_def)
  ultimately show ?thesis by (simp add: life_inv_def entriesOf_def)
qed

lemma life_inv_completed:
  assumes "life_inv s" "findRide i s = Some r" "r_driverId r = Some driverId"
    "r_status r = IN_PROGRESS" "findDriver driverId s = Some d" "findUser (r_userId r) s = Some u"
    and n: "n = fareOf (r_estimatedFare r)"
    and "fits_decimal 10 (d_walletBalance d + driver_part n)"
      "fits_decimal 12 (u_cashbackBalance u + rider_part n)"
    and rows: "fareRows (now s) r driverId n rows"
      "map le_id rows = [nextId s ..< nextId s + length rows]"
  shows "life_inv (settledState r d u n rows s)"
proof -
  let ?s = "settledState r d u n rows s" and ?r = "completedRide (now s) r"
  have w: "wf_sys s" and b: "books_balanced s" using assms(1) by (simp_all add: life_inv_def)
  note r = wf_findRide(1,2) [OF w assms(2)]
  have fn: "fits_decimal 10 n" using fareOf_fits [OF w assms(2)] n by simp
  have "wf_sys ?s" using wf_settled [OF w assms(2,5,6) fn assms(8,9) rows] .
  moreover have "books_balanced ?s" using books_balanced_settled [OF w b rows(1) assms(5,6)] .
  moreover have "\<forall>x\<in>set (rides ?s). ride_ok x"
    using assms(1,4) r(1) ride_ok_completed
    unfolding settledState_frame by (intro rideRepo.rows_save_all) (auto simp: life_inv_def)
  moreover have "\<forall>e. load_ok (activeCategories e ?s)"
    using completed_load [OF w assms(2)] assms(1)
    by (simp add: life_inv_def activeCategories_def activeRides_def)
  moreover have "paid_ok x (entriesOf (r_id x) ?s)" if "x \<in> set (rides ?s)" for x
  proof -
    have all: "\<forall>e\<in>set rows. le_rideId e = Some (r_id r)"
      using rows(1) by (auto simp: fareRows_def fareRow_def)
    from that have "x \<in> set (rides (saveRide ?r s))" by simp
    then consider "x = ?r" | "x \<in> set (rides s)" "r_id x \<noteq> r_id r"
      using rideRepo.in_rows_save by (fastforce simp: completedRide_def)
    then show ?thesis
    proof cases
      case 1
      have "entriesOf (r_id r) s = []"
        using assms(1,4) r(1) by (auto simp: life_inv_def paid_ok_def split: if_splits)
      then have "entriesOf (r_id x) ?s = rows"
        using all 1 by (simp add: entriesOf_def completedRide_def)
      then show ?thesis
        using rows(1) 1 assms(3) n
        by (auto simp: paid_ok_def completedRide_def fareOf_def fareRows_def fareRow_def)
    next
      case 2
      then have "filter (\<lambda>e. le_rideId e = Some (r_id x)) rows = []"
        using all by (auto simp: filter_empty_conv)
      then show ?thesis using 2 assms(1) by (simp add: entriesOf_def life_inv_def)
    qed
  qed
  ultimately show ?thesis by (simp add: life_inv_def)
qed

lemma ride_step_life_inv:
  assumes "ride_step s s'" "life_inv s"
  shows "life_inv s'"
proof -
  have "wf_sys s" using assms(2) by (simp add: life_inv_def)
  from assms(1) this show ?thesis
  proof (cases rule: ride_step_cases)
    case none
    then show ?thesis using life_inv_cong assms(2) by blast
  next
    case (created dto km fare)
    then show ?thesis using life_inv_created assms(2) by blast
  next
    case (changed i r r')
    then show ?thesis using life_inv_changed life_inv_cong assms(2) by blast
  next
    case (completed i r driverId d u n rows)
    show ?thesis
      by (rule life_inv_cong [OF completed(11)])
        (rule life_inv_completed [OF assms(2) completed(1-10)])
  qed
qed

text \<open>
  The service starts with riders and drivers (whose balances the ledger explains) and no ride.
\<close>

definition service_start :: "sys \<Rightarrow> bool" where
  "service_start s \<longleftrightarrow> wf_sys s \<and> books_balanced s \<and> rides s = [] \<and>
     (\<forall>e\<in>set (ledger s). le_rideId e = None)"

lemma start_life_inv: "service_start s \<Longrightarrow> life_inv s"
  by (simp add: service_start_def life_inv_def activeCategories_def activeRides_def load_ok_def)

lemma reachable_life_inv: "ride_step\<^sup>*\<^sup>* s0 s \<Longrightarrow> service_start s0 \<Longrightarrow> life_inv s"
  by (induction rule: rtranclp_induct) (auto intro: start_life_inv ride_step_life_inv)

section \<open>What every reachable state satisfies\<close>

definition demoMath :: jsMath where
  "demoMath = \<lparr>m_sin = (\<lambda>_. 0), m_cos = (\<lambda>_. 1), m_atan2 = (\<lambda>_ _. 0), m_sqrt = (\<lambda>_. 0)\<rparr>"

definition demoBooking :: CreateRideDto where
  "demoBooking = \<lparr>cr_userId = 1, cr_pickup = demoPlace, cr_dropoff = demoPlace,
     cr_category = SHARED, cr_originChannel = None\<rparr>"

definition demoStart :: sys where
  "demoStart = (demo REQUESTED)\<lparr>rides := []\<rparr>"

text \<open>A booking, its acceptance, the arrival and the start: a state reached in four steps.\<close>

definition demoBooked :: sys where
  "demoBooked = snd (createRide demoMath demoBooking demoStart)"

definition demoAccepted :: sys where
  "demoAccepted = snd (acceptRide 5 2 (Some 3) demoBooked)"

definition demoTrip :: sys where
  "demoTrip = snd (startRide 5 2 (snd (markArrived 5 2 demoAccepted)))"

lemma demoStart_ok: "service_start demoStart"
  using demo_wf [of REQUESTED]
  by (simp add: service_start_def demoStart_def wf_defs books_balanced_def driverBooks_def
      riderBooks_def sumAmount_def)

lemma demoTrip_reachable: "ride_step\<^sup>*\<^sup>* demoStart demoTrip"
proof -
  have ext: "ride_step\<^sup>*\<^sup>* demoStart t" if "ride_step u t" "ride_step\<^sup>*\<^sup>* demoStart u" for u t
    using that by simp
  show ?thesis
    unfolding demoTrip_def demoAccepted_def demoBooked_def
    by (rule ext [OF ride_step.start [OF prod.collapse [symmetric]]],
        rule ext [OF ride_step.arrive [OF prod.collapse [symmetric]]],
        rule ext [OF ride_step.accept [OF prod.collapse [symmetric]]],
        rule ext [OF ride_step.create [OF prod.collapse [symmetric]]]) simp
qed

lemma demo_distance: "calculateDistance demoMath 0 0 0 0 = num_of_dec 0"
  using js_round_eq [of 0 0]
  by (simp add: calculateDistance_def demoMath_def Let_def js_mul_def js_div_def js_add_def
      num_of_dec_def)

lemma demo_fare: "calculateFare (num_of_dec 0) SHARED = num_of_dec 25000"
proof -
  have "js_add 250 0 = 250" "js_mul 250 100 = 25000" "num_of_dec 0 = 0"
    using fl_of_int [of 250] fl_of_int [of 25000]
    by (simp_all add: js_add_def js_mul_def num_of_dec_def)
  then show ?thesis
    using js_round_eq [of 25000 25000]
    by (simp add: calculateFare_def js_mul_def num_of_dec_def js_div_def)
qed

lemma demoBooked_simps [simp]:
  "rides demoBooked = [newRide demoBooking demoStart 0 25000]" "redis demoBooked (RIDE_LOCK i) = None"
  "vehicles demoBooked = [demoVehicle]" "drivers demoBooked = [demoDriver]" "now demoBooked = 1000"
  "users demoBooked = [demoUser]" "ledger demoBooked = []"
  by (simp_all add: demoBooked_def createRide_def bookRide_def redis_set_nx_def live_def
      demoStart_def demoBooking_def tryRethrow_def demo_defs find_row_defs tbl_find_def
      demo_distance demo_fare store_decimal_of_dec fits_decimal_def Let_def freshId_def
      saveRide_def tbl_save_def emit_def redis_set_ex_def newRide_def bookingKey_def)

lemma demoAccepted_rides:
  "rides demoAccepted = [acceptedRide 1000 2 (Some 3) (newRide demoBooking demoStart 0 25000)]"
  by (simp add: demoAccepted_def acceptRide_def redis_set_nx_def live_def tryFinally_def
      assignRide_def findOne_def find_row_defs tbl_find_def newRide_def demoStart_def
      vehicleById_def demoDriver_def demoVehicle_def activeRides_def categoryProblem_def
      demoBooking_def vehicleTypeMatchesCategory_def isExclusiveCategory_def
      EXCLUSIVE_CATEGORIES_def MAX_ACTIVE_SHARED_RIDES_def saveRide_def tbl_save_def
      acceptedRide_def Let_def)

lemma demoTrip_rides: "\<exists>r. rides demoTrip = [r] \<and> r_status r = IN_PROGRESS"
  by (simp add: demoTrip_def startRide_def markArrived_def findOne_def find_row_defs tbl_find_def
      demoAccepted_rides saveRide_def tbl_save_def newRide_def demoStart_def Let_def)

lemma demoTrip_facts:
  "\<exists>r. rides demoTrip = [r] \<and> r_id r = 5 \<and> r_userId r = 1 \<and> r_driverId r = Some 2 \<and>
     r_status r = IN_PROGRESS \<and> r_estimatedFare r = Some 25000 \<and> r_category r = SHARED"
  "drivers demoTrip = [demoDriver]" "users demoTrip = [demoUser]" "ledger demoTrip = []"
  "redis demoTrip (RIDE_LOCK 5) = None"
  by (simp_all add: demoTrip_def startRide_def markArrived_def findOne_def find_row_defs tbl_find_def
      demoAccepted_rides saveRide_def tbl_save_def newRide_def demoStart_def Let_def demoBooking_def)
    (simp_all add: demoAccepted_def acceptRide_def redis_set_nx_def live_def tryFinally_def
      assignRide_def findOne_def find_row_defs tbl_find_def newRide_def demoStart_def
      vehicleById_def demoDriver_def demoVehicle_def activeRides_def categoryProblem_def
      demoBooking_def vehicleTypeMatchesCategory_def isExclusiveCategory_def
      EXCLUSIVE_CATEGORIES_def MAX_ACTIVE_SHARED_RIDES_def saveRide_def tbl_save_def
      acceptedRide_def Let_def redis_del_def)

definition demoDone :: sys where
  "demoDone = snd (completeRide 5 2 demoTrip)"

lemma demoDone_reachable: "ride_step\<^sup>*\<^sup>* demoStart demoDone"
  unfolding demoDone_def
  by (rule rtranclp.rtrancl_into_rtrancl [OF demoTrip_reachable ride_step.complete [OF prod.collapse [symmetric]]])

lemma demoDone_rides: "\<exists>r. rides demoDone = [r] \<and> r_status r = COMPLETED \<and> r_finalFare r = Some 25000"
proof -
  obtain r where r: "rides demoTrip = [r]" "r_id r = 5" "r_userId r = 1" "r_driverId r = Some 2"
    "r_status r = IN_PROGRESS" "r_estimatedFare r = Some 25000"
    using demoTrip_facts(1) by blast
  have w: "wf_sys demoTrip"
    using reachable_life_inv [OF demoTrip_reachable demoStart_ok] by (simp add: life_inv_def)
  have "fits_decimal 10 (0 + driver_part 25000)" "fits_decimal 12 (0 + rider_part 25000)"
    using part_bounds [of 25000] by (simp_all add: fits_decimal_def)
  then obtain rows where "completeRide 5 2 demoTrip = (Inr (completedRide (now demoTrip) r),
      redis_del (RIDE_LOCK 5) (emit (RideCompleted (completedRide (now demoTrip) r)
        (splitFareNaira (num_of_dec 25000))) (redis_del (DRIVER_ACTIVE_RIDE 2)
        (settledState r demoDriver demoUser 25000 rows (locked 5 2 demoTrip)))))"
    using completeRide_runs [OF w demoTrip_facts(5), where ride = r and driverId = 2 and n = 25000
        and d = demoDriver and u = demoUser] r demoTrip_facts
    by (auto simp: find_row_defs tbl_find_def fareOf_def)
  then have "rides demoDone = [completedRide (now demoTrip) r]"
    using r by (simp add: demoDone_def saveRide_def tbl_save_def completedRide_def)
  then show ?thesis using r by (simp add: completedRide_def fareOf_def)
qed

lemma load_rides:
  assumes "load_ok (activeCategories d s)"
  shows "length (activeRides d s) \<le> 4 \<and>
    (\<forall>r\<in>set (activeRides d s). r_category r \<noteq> SHARED \<longrightarrow> activeRides d s = [r])"
proof -
  from assms consider "length (activeRides d s) \<le> 1"
    | "length (activeRides d s) \<le> 4" "\<forall>r\<in>set (activeRides d s). r_category r = SHARED"
    by (auto simp: load_ok_def activeCategories_def MAX_ACTIVE_SHARED_RIDES_def)
  then show ?thesis
  proof cases
    case 1
    then show ?thesis by (cases "activeRides d s") auto
  qed auto
qed



text \<open>C9: pay-out exactly once. In every reachable state a completed ride has exactly three
  ledger entries, one per stakeholder type, whose amounts sum to its final fare, which is its
  estimate; and a ride that is not completed has none.\<close>

theorem paid_exactly_once:
  assumes "service_start s0" "ride_step\<^sup>*\<^sup>* s0 s" "r \<in> set (rides s)"
  shows "if r_status r = COMPLETED
    then r_finalFare r = Some (fareOf (r_estimatedFare r)) \<and>
      map le_type (entriesOf (r_id r) s) =
        [RIDE_FARE_DRIVER, RIDE_FARE_PLATFORM, RIDE_FARE_RIDER_CASHBACK] \<and>
      map le_stakeholderId (entriesOf (r_id r) s) = [r_driverId r, None, Some (r_userId r)] \<and>
      sum_list (map le_amount (entriesOf (r_id r) s)) = fareOf (r_finalFare r)
    else entriesOf (r_id r) s = []"
proof -
  have "paid_ok r (entriesOf (r_id r) s)" "ride_ok r"
    using reachable_life_inv [OF assms(2,1)] assms(3) by (simp_all add: life_inv_def)
  then show ?thesis
    by (auto simp: paid_ok_def ride_ok_def fareRows_def fareRow_def platform_part_def)
qed

theorem paid_exactly_once_witness:
  "\<exists>r. rides demoDone = [r] \<and> r_status r = COMPLETED \<and>
     sum_list (map le_amount (entriesOf (r_id r) demoDone)) = 25000"
proof -
  obtain r where r: "rides demoDone = [r]" "r_status r = COMPLETED" "r_finalFare r = Some 25000"
    using demoDone_rides by blast
  then show ?thesis
    using paid_exactly_once [OF demoStart_ok demoDone_reachable, of r] by (simp add: fareOf_def)
qed

text \<open>The columns of a ride agree with its status: a driver and an acceptance time exactly
  from acceptance on, a start time from the start on, a final fare and a completion time only on
  completed rides, a reason on cancelled ones.\<close>

theorem ride_columns_agree:
  assumes "service_start s0" "ride_step\<^sup>*\<^sup>* s0 s" "r \<in> set (rides s)"
  shows "(r_status r = REQUESTED \<longrightarrow> r_driverId r = None) \<and>
    (r_status r \<in> {ACCEPTED, ARRIVED, IN_PROGRESS, COMPLETED} \<longrightarrow>
       r_driverId r \<noteq> None \<and> r_acceptedAt r \<noteq> None) \<and>
    (r_status r \<in> {IN_PROGRESS, COMPLETED} \<longrightarrow> r_startedAt r \<noteq> None) \<and>
    (r_status r = COMPLETED \<longleftrightarrow> r_finalFare r \<noteq> None) \<and>
    (r_status r = COMPLETED \<longleftrightarrow> r_completedAt r \<noteq> None) \<and>
    (r_status r = CANCELLED \<longrightarrow> truthy (r_cancellationReason r))"
proof -
  have "ride_ok r" using reachable_life_inv [OF assms(2,1)] assms(3) by (simp add: life_inv_def)
  then show ?thesis by (cases "r_status r") (auto simp: ride_ok_def)
qed

theorem ride_columns_agree_witness:
  "\<exists>r. rides demoTrip = [r] \<and> r_acceptedAt r \<noteq> None \<and> r_finalFare r = None"
proof -
  obtain r where "rides demoTrip = [r]" "r_status r = IN_PROGRESS" using demoTrip_rides by blast
  then show ?thesis
    using ride_columns_agree [OF demoStart_ok demoTrip_reachable, of r] by auto
qed

text \<open>In every reachable state every driver's wallet and every rider's cashback equals the
  sum of the ledger entries that explain it.\<close>

theorem reachable_books:
  assumes "service_start s0" "ride_step\<^sup>*\<^sup>* s0 s"
  shows "(\<forall>d\<in>set (drivers s). d_walletBalance d = driverBooks (d_id d) s) \<and>
    (\<forall>u\<in>set (users s). u_cashbackBalance u = riderBooks (u_id u) s)"
  using reachable_life_inv [OF assms(2,1)] by (simp add: life_inv_def books_balanced_def)

theorem reachable_books_witness:
  "map d_walletBalance (drivers demoDone) = map (\<lambda>d. driverBooks (d_id d) demoDone) (drivers demoDone)"
  using reachable_books [OF demoStart_ok demoDone_reachable] by simp

end
