(* ===== verification/RideRules.thy ===== *)
theory RideRules
  imports RideLifecycle
begin

text \<open>
  The functional contract of the ride operations: when a booking, an acceptance or a
  cancellation succeeds, what the ride lock and the idempotency mark guarantee, the fare table,
  and the breakdown shown before and after completion.
\<close>

section \<open>Fares\<close>

lemma near_small:
  assumes "\<bar>k\<bar> \<le> 10 ^ 9"
  shows "near (1 / 10 ^ 6) (num_of_dec k) k"
proof -
  have k: "\<bar>of_int k :: rat\<bar> \<le> 10 ^ 9" using assms by (simp flip: of_int_abs)
  have "\<bar>fl (of_int k / 100) - of_int k / 100\<bar> \<le> \<bar>of_int k / 100\<bar> / 2 ^ 53" by (rule fl_error)
  then have "100 * \<bar>fl (of_int k / 100) - of_int k / 100\<bar> \<le> \<bar>of_int k\<bar> / 2 ^ 53" by simp
  also have "\<dots> \<le> 1 / 10 ^ 6" using k by simp
  finally show ?thesis by (simp add: near_def num_of_dec_def flip: abs_scale_diff)
qed

lemma near_scale: "near e x k \<Longrightarrow> near (of_int \<bar>c\<bar> * e) (x * of_int c) (c * k)"
proof -
  assume "near e x k"
  then have "\<bar>of_int c\<bar> * \<bar>100 * x - of_int k\<bar> \<le> of_int \<bar>c\<bar> * e"
    unfolding near_def by (intro mult_mono) auto
  then show ?thesis unfolding near_def by (simp add: algebra_simps flip: abs_mult)
qed

lemma fare_near:
  assumes "\<bar>k\<bar> \<le> 10 ^ 9" "\<bar>p\<bar> \<le> 1000" "\<bar>b\<bar> \<le> 10 ^ 6"
  shows "toKobo (js_add (of_int b) (js_mul (num_of_dec k) (of_int p))) = of_int (100 * b + p * k)"
proof -
  have pk: "\<bar>p * k\<bar> \<le> 10 ^ 12"
    using mult_mono [OF assms(2,1)] by (simp add: abs_mult)
  have "near (of_int \<bar>p\<bar> * (1 / 10 ^ 6)) (num_of_dec k * of_int p) (p * k)"
    by (rule near_scale [OF near_small [OF assms(1)]])
  moreover have "of_int \<bar>p\<bar> * (1 / 10 ^ 6) \<le> (1 / 1000 :: rat)" using assms(2) by simp
  ultimately have "near (1 / 1000) (num_of_dec k * of_int p) (p * k)" using near_mono by blast
  then have "near (1 / 1000 + 1 / 500) (js_mul (num_of_dec k) (of_int p)) (p * k)"
    unfolding js_mul_def using pk by (intro near_fl) auto
  then have "near (0 + (1 / 1000 + 1 / 500) + 1 / 500)
      (js_add (of_int b) (js_mul (num_of_dec k) (of_int p))) (100 * b + p * k)"
    using pk assms(3) by (intro near_add) (auto simp: near_def)
  then have "near (1 / 4) (js_add (of_int b) (js_mul (num_of_dec k) (of_int p))) (100 * b + p * k)"
    by (rule near_mono) simp
  then show ?thesis using pk assms(3) by (intro toKobo_near) auto
qed

text \<open>The fare of a trip of \<open>k\<close> hundredths of a kilometre (up to ten million kilometres) is
  exactly base plus rate times distance, to the kobo, in every category.\<close>

theorem calculateFare_exact:
  assumes "\<bar>k\<bar> \<le> 10 ^ 9"
  shows "calculateFare (num_of_dec k) category = num_of_dec (case category of
      PRIVATE \<Rightarrow> 50000 + 100 * k | SHARED \<Rightarrow> 25000 + 50 * k
    | OKADA \<Rightarrow> 30000 + 70 * k | CAR \<Rightarrow> 100000 + 200 * k)"
proof -
  have "calculateFare (num_of_dec k) category =
      toNaira (toKobo (case fareRates category of (b, p) \<Rightarrow> js_add b (js_mul (num_of_dec k) p)))"
    by (simp add: calculateFare_def toNaira_def toKobo_def split: prod.split)
  then show ?thesis
    using fare_near [OF assms, of 100 500] fare_near [OF assms, of 50 250]
      fare_near [OF assms, of 70 300] fare_near [OF assms, of 200 1000]
    by (cases category) (simp_all add: toNaira_of_int [symmetric])
qed

theorem calculateFare_exact_witness:
  "calculateFare (num_of_dec 1237) OKADA = num_of_dec 116590"
  using calculateFare_exact [of 1237 OKADA] by simp

section \<open>Booking once\<close>

text \<open>After a booking, a second one by the same rider from the same pickup coordinates within
  thirty seconds is refused and changes nothing; an attempt that fails frees the mark, so it
  can be repeated at once.\<close>

theorem booking_once:
  assumes "createRide m dto s = (res, s')" "\<not> live (now s) (redis s (bookingKey dto))"
    and "bookingKey dto' = bookingKey dto"
  shows "case res of
      Inr r \<Rightarrow> \<forall>ms. ms < 30000 \<longrightarrow> createRide m' dto' (tick ms s') =
        (Inl (BadRequestException
          ''A similar ride request is already being processed. Please wait 30 seconds.''),
         tick ms s')
    | Inl e \<Rightarrow> redis s' (bookingKey dto') = None"
proof (cases res)
  case (Inl e)
  then show ?thesis
    using assms(1,2) bookRide_Inl assms(3)
    by (fastforce simp: createRide_def redis_set_nx_def tryRethrow_def redis_del_def
        split: prod.splits sum.splits if_splits)
next
  case (Inr r)
  have "createRide m dto s = (Inr r, s')" using assms(1) Inr by simp
  then have mark: "redis s' (bookingKey dto) = Some (RText ''locked'', Some (now s + 30000))"
    "now s' = now s"
    by (auto elim!: createRide_Inr simp: redis_set_ex_def saveRide_def freshId_def)
  have "createRide m' dto' (tick ms s') = (Inl (BadRequestException
          ''A similar ride request is already being processed. Please wait 30 seconds.''),
         tick ms s')" if "ms < 30000" for ms
    using mark that assms(3) by (simp add: createRide_def redis_set_nx_def live_def tick_def)
  then show ?thesis using Inr by simp
qed

theorem booking_once_witness:
  "redis (snd (createRide demoMath (demoBooking\<lparr>cr_userId := 99\<rparr>) demoStart))
     (bookingKey (demoBooking\<lparr>cr_userId := 99\<rparr>)) = None"
proof -
  let ?dto = "demoBooking\<lparr>cr_userId := 99\<rparr>"
  have free: "\<not> live (now demoStart) (redis demoStart (bookingKey ?dto))"
    by (simp add: demoStart_def live_def)
  have "fst (createRide demoMath ?dto demoStart) = Inl (NotFoundException ''User not found'')"
    by (simp add: createRide_def bookRide_def redis_set_nx_def tryRethrow_def demoStart_def
        find_row_defs tbl_find_def live_def)
  then show ?thesis
    using booking_once [OF prod.collapse [symmetric] free refl, where m = demoMath] by simp
qed

section \<open>Accepting\<close>

text \<open>C12: when an acceptance succeeds: exactly when nobody holds the ride's lock, the ride is still
  requested, the driver is active and online, the vehicle is theirs, active and of the
  category's type, and their current rides leave room: none that is exclusive, none at all for an
  exclusive ride, fewer than four for a shared one. The ride is then theirs. Otherwise no table
  changes and no event is emitted.\<close>

theorem acceptRide_iff:
  "(\<exists>r s'. acceptRide rideId driverId (Some vehicleId) s = (Inr r, s')) \<longleftrightarrow>
     \<not> live (now s) (redis s (RIDE_LOCK rideId)) \<and>
     (\<exists>r d v. findRide rideId s = Some r \<and> r_status r = REQUESTED \<and>
        findDriver driverId s = Some d \<and> d_isActive d \<and> d_isOnline d \<and>
        findVehicle vehicleId s = Some v \<and> v_driverId v = driverId \<and> v_isActive v \<and>
        vehicleTypeMatchesCategory (v_type v) (r_category r) \<and>
        (\<forall>a\<in>set (activeRides driverId s). r_category a = SHARED) \<and>
        (if r_category r = SHARED then length (activeRides driverId s) < 4
         else activeRides driverId s = []))"
  (is "?L \<longleftrightarrow> ?free \<and> ?R")
proof -
  have may: "mayAccept s driverId (Some vehicleId) r \<longleftrightarrow> r_status r = REQUESTED \<and>
      (\<exists>d. findDriver driverId s = Some d \<and> d_isActive d \<and> d_isOnline d) \<and>
      (\<exists>v. findVehicle vehicleId s = Some v \<and> v_driverId v = driverId \<and> v_isActive v \<and>
        vehicleTypeMatchesCategory (v_type v) (r_category r)) \<and>
        (\<forall>a\<in>set (activeRides driverId s). r_category a = SHARED) \<and>
        (if r_category r = SHARED then length (activeRides driverId s) < 4
         else activeRides driverId s = [])" for r
    by (auto simp: mayAccept_def vehicleById_def categoryProblem_def exclusive_iff_not_shared
        list_ex_iff MAX_ACTIVE_SHARED_RIDES_def split: if_splits)
  have "?L \<longleftrightarrow> ?free \<and> (\<exists>r. findRide rideId s = Some r \<and> mayAccept s driverId (Some vehicleId) r)"
  proof
    assume ?L
    then show "?free \<and> (\<exists>r. findRide rideId s = Some r \<and> mayAccept s driverId (Some vehicleId) r)"
      by (auto elim!: acceptRide_Inr)
  next
    assume R: "?free \<and> (\<exists>r. findRide rideId s = Some r \<and> mayAccept s driverId (Some vehicleId) r)"
    then obtain r where r: "findRide rideId s = Some r" "mayAccept s driverId (Some vehicleId) r"
      by blast
    have "mayAccept (locked rideId driverId s) driverId (Some vehicleId) r"
      using r(2) by (simp add: mayAccept_def vehicleById_def activeRides_def)
    then show ?L
      using R r(1) by (simp add: acceptRide_def redis_set_nx_def tryFinally_iff assignRide_Inr)
  qed
  then show ?thesis unfolding may by blast
qed

text \<open>The ride lock. While somebody holds the lock of a ride, accepting and completing it are
  refused with a 400 and change nothing; and whatever an acceptance or a completion that got the
  lock does, error or success, it leaves the lock free.\<close>

theorem ride_lock:
  "let r1 = acceptRide rideId driverId vehicleId s; r2 = completeRide rideId driverId s
   in if live (now s) (redis s (RIDE_LOCK rideId))
    then snd r1 = s \<and> snd r2 = s \<and>
      (\<exists>e e'. fst r1 = Inl e \<and> http_status e = 400 \<and> fst r2 = Inl e' \<and> http_status e' = 400)
    else redis (snd r1) (RIDE_LOCK rideId) = None \<and> redis (snd r2) (RIDE_LOCK rideId) = None"
  by (auto simp: acceptRide_def completeRide_def redis_set_nx_def tryFinally_def redis_del_def Let_def
      split: prod.splits)

section \<open>Cancelling\<close>

text \<open>When a cancellation succeeds: the ride exists and is not completed; a rider cancels
  only their own ride and not while it is in progress; a driver cancels only a ride assigned to
  them and must give a reason. The ride is then cancelled with a reason recorded; otherwise the
  state does not change at all.\<close>

theorem cancelRide_iff:
  "((\<exists>s'. cancelRide rideId reason userId driverId s = (Inr r', s')) \<longleftrightarrow>
     (\<exists>r. findRide rideId s = Some r \<and> r_status r \<noteq> COMPLETED \<and>
        (userId \<noteq> None \<longrightarrow> userId = Some (r_userId r) \<and> r_status r \<noteq> IN_PROGRESS) \<and>
        (driverId \<noteq> None \<longrightarrow> driverId = r_driverId r \<and> truthy reason) \<and>
        r' = r\<lparr>r_status := CANCELLED, r_cancellationReason :=
               (if truthy reason then reason else Some ''Cancelled by user'')\<rparr>)) \<and>
     (\<forall>e s'. cancelRide rideId reason userId driverId s = (Inl e, s') \<longrightarrow> s' = s)"
  by (auto simp: cancelRide_Inr mayCancel_def cancelledRide_def dest: cancelRide_Inl)

theorem cancelRide_iff_witness:
  "\<exists>s'. cancelRide 4 None (Some 1) None (demo ACCEPTED) =
     (Inr ((demoRide ACCEPTED)\<lparr>r_status := CANCELLED,
        r_cancellationReason := Some ''Cancelled by user''\<rparr>), s')"
  using cancelRide_iff [of 4 None "Some 1" None "demo ACCEPTED"] by (simp add: truthy_def)

theorem acceptRide_iff_witness: "\<exists>r s'. acceptRide 4 2 (Some 3) (demo REQUESTED) = (Inr r, s')"
  unfolding acceptRide_iff
  by (simp add: live_def activeRides_def demoRide_def demoDriver_def demoVehicle_def
      vehicleTypeMatchesCategory_def)

section \<open>The breakdown\<close>

lemma sort_same_key: "\<forall>x\<in>set xs. f x = c \<Longrightarrow> sort_key f xs = (xs :: 'a list)" for c :: "'b::linorder"
  by (induction xs) (auto simp: insort_is_Cons)

text \<open>C40: transparency. The split a party is shown while the ride is in progress is, figure by
  figure, the split they are shown from the ledger after its completion, for every ride whose
  fare is set; only the status and the settled flag change.\<close>

theorem breakdown_projection_is_settlement:
  assumes "life_inv s" "completeRide rideId driverId s = (Inr r', s')"
    and "findRide rideId s = Some r" "r_status r = IN_PROGRESS"
    and "getFareBreakdown rideId who admin s = Inr b"
  shows "getFareBreakdown rideId who admin s' = Inr (b\<lparr>fb_status := COMPLETED, fb_settled := True\<rparr>)"
proof -
  have w: "wf_sys s" using assms(1) by (simp add: life_inv_def)
  show ?thesis
    using assms(2)
  proof (cases rule: completeRide_cases [of s rideId driverId])
    case (settled q split s1)
    let ?l = "locked rideId driverId s"
    from w have "wf_sys ?l" by simp
    then show ?thesis using settled(2)
    proof (rule settleRide_inverse)
      fix x d u n rows
      assume *: "findRide rideId ?l = Some x" "n = fareOf (r_estimatedFare x)"
        "fareRows (now ?l) x driverId n rows" "s1 = settledState x d u n rows ?l"
      have x: "x = r" using *(1) assms(3) by simp
      note r = wf_findRide(1,2) [OF w assms(3)]
      have s': "s' = redis_del (RIDE_LOCK rideId) (emit (RideCompleted q split)
          (redis_del (DRIVER_ACTIVE_RIDE driverId) s1))" using assms(2) unfolding settled(3) by blast
      have "findRide rideId s' = findRide rideId (saveRide (completedRide (now s) r) ?l)"
        by (simp add: s' *(4) x findRide_settled)
      also have "\<dots> = Some (completedRide (now s) r)"
        using rideRepo.findById_save_same [of "completedRide (now s) r" ?l] r(2)
        by (simp add: completedRide_def)
      finally have r': "findRide rideId s' = Some (completedRide (now s) r)" .
      have "entriesOf rideId s = []"
        using assms(1,4) r by (auto simp: life_inv_def paid_ok_def split: if_splits)
      moreover have rows: "\<forall>e\<in>set rows. le_rideId e = Some rideId \<and> le_createdAt e = now s"
        using *(3) r(2) x by (auto simp: fareRows_def fareRow_def)
      ultimately have "findByRideId rideId s' = rows"
        using sort_same_key [of rows le_createdAt "now s"]
        by (simp add: findByRideId_def s' *(4) entriesOf_def order_asc_def)
      moreover have "fits_decimal 10 n" using fareOf_fits [OF w assms(3)] *(2) x by simp
      then have "\<bar>n\<bar> \<le> 10 ^ 12" by (simp add: fits_decimal_def)
      note splitFareKobo_parts [OF this]
      ultimately show ?thesis
        using assms(3-5) r' *(2,3) x
        by (auto simp: getFareBreakdown_def findOne_def Let_def completedRide_def fareRows_def
            fareRow_def amountFor_def num_or_0_fareOf splitFareNaira_def toNaira_of_int fareOf_def
            split: if_splits)
    qed
  next
    case (retry ride)
    then show ?thesis using assms(3,4) by simp
  qed (use assms(2) in auto)
qed

theorem breakdown_projection_is_settlement_witness:
  "\<exists>b. getFareBreakdown 4 1 False (demo IN_PROGRESS) = Inr b \<and>
     getFareBreakdown 4 1 False (snd (completeRide 4 2 (demo IN_PROGRESS))) =
       Inr (b\<lparr>fb_status := COMPLETED, fb_settled := True\<rparr>)"
proof -
  have "life_inv (demo IN_PROGRESS)"
    using demo_wf by (simp add: life_inv_def ride_ok_def paid_ok_def entriesOf_def load_ok_def
        activeCategories_def activeRides_def demoRide_def)
  moreover obtain r s' where "completeRide 4 2 (demo IN_PROGRESS) = (Inr r, s')"
    using demo_completes by blast
  moreover obtain b where "getFareBreakdown 4 1 False (demo IN_PROGRESS) = Inr b"
    by (simp add: getFareBreakdown_def findOne_def Let_def)
  ultimately show ?thesis
    using breakdown_projection_is_settlement [of "demo IN_PROGRESS" 4 2 r s'
      "demoRide IN_PROGRESS" 1 False b] by simp
qed

end
