(* ===== verification/Wallet.thy ===== *)
theory Wallet
  imports Books
begin

text \<open>
  The driver's wallet, \<open>src/wallet/wallet.service.ts\<close>: balance, daily fuel allowance, fuel
  advances and payouts, the reversal after a gateway refusal. The two gateways
  (\<open>src/wallet/providers/gateway.interfaces.ts\<close>) are arguments of the operations; the simulated
  providers the program ships are definitions.
\<close>

section \<open>The gateways\<close>

record FuelSupportRequest =
  fq_driverId :: uuid
  fq_amount :: num
  fq_reference :: string

record FuelSupportResult =
  fs_success :: bool
  fs_providerReference :: "string option"
  fs_message :: string
  fs_raw :: json

record BankAccountDto =
  ba_accountNumber :: string
  ba_bankCode :: string
  ba_accountName :: "string option"

record PayoutRequest =
  pq_driverId :: uuid
  pq_amount :: num
  pq_reference :: string
  pq_bankAccount :: BankAccountDto

datatype PayoutStatus = P_COMPLETED | P_PROCESSING | P_FAILED

record PayoutResult =
  ps_success :: bool
  ps_providerReference :: "string option"
  ps_status :: PayoutStatus
  ps_message :: string
  ps_raw :: json

text \<open>A gateway answers, or its promise is rejected.\<close>

type_synonym FuelSupportProvider = "FuelSupportRequest \<Rightarrow> FuelSupportResult outcome"
type_synonym PayoutProvider = "PayoutRequest \<Rightarrow> PayoutResult outcome"

text \<open>A generated id in the text of a reference.\<close>

fun uuidText :: "uuid \<Rightarrow> string" where
  "uuidText n = (if n < 10 then [char_of (48 + n)]
                 else uuidText (n div 10) @ [char_of (48 + n mod 10)])"

declare uuidText.simps [simp del]

text \<open>The simulated providers, with the id they draw and the time as arguments.\<close>

definition simulatedMfbDisburse :: "uuid \<Rightarrow> date \<Rightarrow> FuelSupportProvider" where
  "simulatedMfbDisburse i t request =
     Inr \<lparr>fs_success = True, fs_providerReference = Some (''SIM-MFB-'' @ uuidText i),
          fs_message = ''Fuel support disbursed (simulated)'',
          fs_raw = JObj [(''simulated'', JBool True), (''requestReference'', JStr (fq_reference request)),
                         (''disbursedAt'', JNum (of_int t))]\<rparr>"

definition simulatedLinkPayPayout :: "uuid \<Rightarrow> date \<Rightarrow> PayoutProvider" where
  "simulatedLinkPayPayout i t request =
     Inr \<lparr>ps_success = True, ps_providerReference = Some (''SIM-LINKPAY-'' @ uuidText i),
          ps_status = P_PROCESSING, ps_message = ''Payout submitted to LinkPay (simulated)'',
          ps_raw = JObj [(''simulated'', JBool True), (''requestReference'', JStr (pq_reference request)),
                         (''submittedAt'', JNum (of_int t))]\<rparr>"

section \<open>Balance and allowance\<close>

text \<open>
  The configuration a request reads: \<open>MFB_DAILY_FUEL_LIMIT\<close> as a number, and the offset of the
  server's local time from UTC in milliseconds (fixed: Nigeria has no daylight saving).
\<close>

record walletConfig =
  wc_fuelLimit :: "num option"
  wc_utcOffset :: int

definition dailyFuelLimit :: "walletConfig \<Rightarrow> num" where
  "dailyFuelLimit cfg = (case wc_fuelLimit cfg of None \<Rightarrow> 5000 | Some x \<Rightarrow> x)"

definition todayWindow :: "walletConfig \<Rightarrow> date \<Rightarrow> date \<times> date" where
  "todayWindow cfg t =
     (let from = t - (t + wc_utcOffset cfg) mod 86400000 in (from, from + 86399999))"

record FuelSupportLimit =
  fl_dailyLimit :: num
  fl_usedToday :: num
  fl_remaining :: num

definition usedToday :: "walletConfig \<Rightarrow> uuid \<Rightarrow> sys \<Rightarrow> num" where
  "usedToday cfg driverId s =
     (case todayWindow cfg (now s) of (from, to) \<Rightarrow>
        sumForStakeholder S_DRIVER driverId DRIVER_FUEL_SUPPORT_MFB from to s)"

definition getFuelSupportLimit :: "walletConfig \<Rightarrow> uuid \<Rightarrow> sys \<Rightarrow> FuelSupportLimit" where
  "getFuelSupportLimit cfg driverId s =
     (let used = usedToday cfg driverId s; dailyLimit = dailyFuelLimit cfg
      in \<lparr>fl_dailyLimit = dailyLimit, fl_usedToday = used,
          fl_remaining = max 0 (js_sub dailyLimit used)\<rparr>)"

record WalletBalance =
  wb_driverId :: uuid
  wb_walletBalance :: num
  wb_totalCompletedRides :: int
  wb_fuelSupport :: FuelSupportLimit

definition getBalance :: "walletConfig \<Rightarrow> uuid \<Rightarrow> sys \<Rightarrow> WalletBalance outcome" where
  "getBalance cfg driverId s =
     (case findDriver driverId s of
        None \<Rightarrow> Inl (NotFoundException ''Driver not found'')
      | Some driver \<Rightarrow>
          Inr \<lparr>wb_driverId = driverId, wb_walletBalance = num_of_dec (d_walletBalance driver),
               wb_totalCompletedRides = d_totalCompletedRides driver,
               wb_fuelSupport = getFuelSupportLimit cfg driverId s\<rparr>)"

section \<open>Moving the balance\<close>

text \<open>\<open>driver.walletBalance = x; await manager.save(driver)\<close>\<close>

definition setBalance :: "Driver \<Rightarrow> num \<Rightarrow> (sys, unit) handler" where
  "setBalance driver x s =
     (case store_decimal 10 x of
        Inl e \<Rightarrow> (Inl e, s)
      | Inr balance \<Rightarrow> (Inr (), saveDriver (driver\<lparr>d_walletBalance := balance\<rparr>) s))"

text \<open>The id of the entry written: \<open>const [entry] = ...; return entry.id\<close>.\<close>

definition writeEntry :: "WriteLedgerEntry \<Rightarrow> (sys, uuid) handler" where
  "writeEntry w = andThen (writeEntries [w]) (\<lambda>rows s. (Inr (le_id (hd rows)), s))"

definition fuelEntry :: "walletConfig \<Rightarrow> uuid \<Rightarrow> num \<Rightarrow> string \<Rightarrow> WriteLedgerEntry" where
  "fuelEntry cfg driverId amount reference =
     \<lparr>w_rideId = None, w_type = DRIVER_FUEL_SUPPORT_MFB, w_stakeholderType = S_DRIVER,
      w_stakeholderId = Some driverId, w_amount = amount, w_status = Some L_PENDING,
      w_providerReference = None,
      w_metadata = Some (JObj [(''reference'', JStr reference),
                               (''dailyLimit'', JNum (dailyFuelLimit cfg))])\<rparr>"

text \<open>Phase 1 of \<open>requestFuelSupport\<close>, the body of its transaction.\<close>

definition reserveFuel :: "walletConfig \<Rightarrow> uuid \<Rightarrow> num \<Rightarrow> string \<Rightarrow> (sys, uuid) handler" where
  "reserveFuel cfg driverId amount reference s =
     (case findDriver driverId s of
        None \<Rightarrow> (Inl (NotFoundException ''Driver not found''), s)
      | Some driver \<Rightarrow>
          let remaining = js_sub (dailyFuelLimit cfg) (usedToday cfg driverId s)
          in if amount > remaining
             then (Inl (BadRequestException ''Daily fuel support limit exceeded.''), s)
             else andThen
               (setBalance driver
                  (js_add (num_of_dec (d_walletBalance driver)) (toNaira (toKobo amount))))
               (\<lambda>_. writeEntry (fuelEntry cfg driverId amount reference)) s)"

text \<open>The last four characters of an account number, masked: \<open>slice(-4)\<close>.\<close>

definition maskAccount :: "string \<Rightarrow> string" where
  "maskAccount a = ''******'' @ drop (length a - 4) a"

definition payoutEntry :: "uuid \<Rightarrow> num \<Rightarrow> BankAccountDto \<Rightarrow> string \<Rightarrow> WriteLedgerEntry" where
  "payoutEntry driverId amount bank reference =
     \<lparr>w_rideId = None, w_type = DRIVER_PAYOUT_LINKPAY, w_stakeholderType = S_DRIVER,
      w_stakeholderId = Some driverId, w_amount = - \<bar>amount\<bar>, w_status = Some L_PENDING,
      w_providerReference = None,
      w_metadata = Some (JObj [(''reference'', JStr reference), (''bankCode'', JStr (ba_bankCode bank)),
        (''accountNumber'', JStr (maskAccount (ba_accountNumber bank)))])\<rparr>"

text \<open>Phase 1 of \<open>requestPayout\<close>.\<close>

definition reservePayout :: "uuid \<Rightarrow> num \<Rightarrow> BankAccountDto \<Rightarrow> string \<Rightarrow> (sys, uuid) handler" where
  "reservePayout driverId amount bank reference s =
     (case findDriver driverId s of
        None \<Rightarrow> (Inl (NotFoundException ''Driver not found''), s)
      | Some driver \<Rightarrow>
          let balance = num_of_dec (d_walletBalance driver)
          in if amount > balance
             then (Inl (BadRequestException ''Insufficient balance.''), s)
             else andThen
               (setBalance driver (toNaira (js_sub (toKobo balance) (toKobo amount))))
               (\<lambda>_. writeEntry (payoutEntry driverId amount bank reference)) s)"

text \<open>The body of the transaction of \<open>reverseDriverBalance\<close>.\<close>

definition undoBalance :: "uuid \<Rightarrow> num \<Rightarrow> uuid \<Rightarrow> string \<Rightarrow> (sys, unit) handler" where
  "undoBalance driverId delta entryId reason s =
     (let settle = (\<lambda>t. (Inr (), settleEntry entryId L_FAILED (Some None)
              (Some (Some (JObj [(''reversed'', JBool True), (''reason'', JStr reason)]))) t))
      in case findDriver driverId s of
        None \<Rightarrow> settle s
      | Some driver \<Rightarrow>
          andThen (setBalance driver
              (toNaira (js_add (toKobo (num_of_dec (d_walletBalance driver))) (toKobo delta))))
            (\<lambda>_. settle) s)"

definition reverseDriverBalance :: "uuid \<Rightarrow> num \<Rightarrow> uuid \<Rightarrow> string \<Rightarrow> (sys, unit) handler" where
  "reverseDriverBalance driverId delta entryId reason =
     transaction (undoBalance driverId delta entryId reason)"

section \<open>The requests\<close>

record WalletResponse =
  wr_message :: string
  wr_amount :: num
  wr_status :: "PayoutStatus option"
  wr_providerReference :: "string option"
  wr_balance :: WalletBalance

definition providerMetadata :: "string \<Rightarrow> json \<Rightarrow> json option option" where
  "providerMetadata reference raw =
     Some (Some (JObj [(''reference'', JStr reference), (''provider'', raw)]))"

text \<open>The \<open>try\<close> block of \<open>requestFuelSupport\<close>.\<close>

definition fuelSupport ::
  "walletConfig \<Rightarrow> FuelSupportProvider \<Rightarrow> uuid \<Rightarrow> num \<Rightarrow> string \<Rightarrow> (sys, WalletResponse) handler"
  where
  "fuelSupport cfg disburse driverId amount reference s =
     (case transaction (reserveFuel cfg driverId amount reference) s of
        (Inl e, s1) \<Rightarrow> (Inl e, s1)
      | (Inr entryId, s1) \<Rightarrow>
          (case disburse \<lparr>fq_driverId = driverId, fq_amount = amount, fq_reference = reference\<rparr> of
             Inl e \<Rightarrow> (Inl e, s1)
           | Inr result \<Rightarrow>
               if \<not> fs_success result
               then andThen (reverseDriverBalance driverId (- amount) entryId (fs_message result))
                 (\<lambda>_ t. (Inl (BadRequestException ''Fuel support declined by the bank''), t)) s1
               else
                 let s2 = settleEntry entryId L_COMPLETED (Some (fs_providerReference result))
                       (providerMetadata reference (fs_raw result)) s1
                 in (case getBalance cfg driverId s2 of
                       Inl e \<Rightarrow> (Inl e, s2)
                     | Inr balance \<Rightarrow>
                         (Inr \<lparr>wr_message = fs_message result, wr_amount = amount,
                               wr_status = None,
                               wr_providerReference = fs_providerReference result,
                               wr_balance = balance\<rparr>, s2))))"

definition requestFuelSupport ::
  "walletConfig \<Rightarrow> FuelSupportProvider \<Rightarrow> uuid \<Rightarrow> num \<Rightarrow> (sys, WalletResponse) handler" where
  "requestFuelSupport cfg disburse driverId amount s =
     (case redis_set_nx (WALLET_FUEL_LOCK driverId) (RText ''1'') 15 s of
        (False, s') \<Rightarrow> (Inl (BadRequestException
          ''A fuel support request is already being processed. Please wait.''), s')
      | (True, s') \<Rightarrow>
          let (i, s'') = freshId s'
          in tryFinally (fuelSupport cfg disburse driverId amount (''fuel_'' @ uuidText i))
               (redis_del (WALLET_FUEL_LOCK driverId)) s'')"

text \<open>The \<open>try\<close> block of \<open>requestPayout\<close>.\<close>

definition payout ::
  "walletConfig \<Rightarrow> PayoutProvider \<Rightarrow> uuid \<Rightarrow> num \<Rightarrow> BankAccountDto \<Rightarrow> string \<Rightarrow>
   (sys, WalletResponse) handler" where
  "payout cfg initiatePayout driverId amount bank reference s =
     (case transaction (reservePayout driverId amount bank reference) s of
        (Inl e, s1) \<Rightarrow> (Inl e, s1)
      | (Inr entryId, s1) \<Rightarrow>
          (case initiatePayout \<lparr>pq_driverId = driverId, pq_amount = amount,
                  pq_reference = reference, pq_bankAccount = bank\<rparr> of
             Inl e \<Rightarrow> (Inl e, s1)
           | Inr result \<Rightarrow>
               if \<not> ps_success result \<or> ps_status result = P_FAILED
               then andThen (reverseDriverBalance driverId amount entryId (ps_message result))
                 (\<lambda>_ t. (Inl (BadRequestException ''Payout failed''), t)) s1
               else
                 let s2 = settleEntry entryId
                       (if ps_status result = P_COMPLETED then L_COMPLETED else L_PENDING)
                       (Some (ps_providerReference result))
                       (providerMetadata reference (ps_raw result)) s1
                 in (case getBalance cfg driverId s2 of
                       Inl e \<Rightarrow> (Inl e, s2)
                     | Inr balance \<Rightarrow>
                         (Inr \<lparr>wr_message = ps_message result, wr_amount = amount,
                               wr_status = Some (ps_status result),
                               wr_providerReference = ps_providerReference result,
                               wr_balance = balance\<rparr>, s2))))"

definition requestPayout ::
  "walletConfig \<Rightarrow> PayoutProvider \<Rightarrow> uuid \<Rightarrow> num \<Rightarrow> BankAccountDto \<Rightarrow> (sys, WalletResponse) handler"
  where
  "requestPayout cfg initiatePayout driverId amount bank s =
     (case redis_set_nx (WALLET_PAYOUT_LOCK driverId) (RText ''1'') 15 s of
        (False, s') \<Rightarrow> (Inl (BadRequestException
          ''A payout is already being processed. Please wait.''), s')
      | (True, s') \<Rightarrow>
          let (i, s'') = freshId s'
          in tryFinally (payout cfg initiatePayout driverId amount bank (''payout_'' @ uuidText i))
               (redis_del (WALLET_PAYOUT_LOCK driverId)) s'')"

text \<open>\<open>{ count, total, transactions }\<close>\<close>

definition getTransactions :: "uuid \<Rightarrow> nat \<Rightarrow> nat \<Rightarrow> sys \<Rightarrow> nat \<times> nat \<times> LedgerEntry list" where
  "getTransactions driverId limit offset s =
     (case findByStakeholder S_DRIVER driverId limit offset s of
        (entries, count) \<Rightarrow> (length entries, count, entries))"

end
