(* ===== verification/WalletMoney.thy ===== *)
theory WalletMoney
  imports Wallet RideMoney
begin

text \<open>
  The wallet keeps the books: reserving, settling and reversing a gateway-backed movement of an
  amount of whole kobo, the daily allowance, and what a refusal or a broken gateway leaves behind.
\<close>

section \<open>Phase one\<close>

text \<open>The pending entry and the moved balance.\<close>

definition pendingRow :: "sys \<Rightarrow> uuid \<Rightarrow> dec2 \<Rightarrow> LedgerEntryType \<Rightarrow> LedgerEntry \<Rightarrow> bool" where
  "pendingRow s i k ty e \<longleftrightarrow> le_id e = nextId s \<and> le_rideId e = None \<and> le_type e = ty \<and>
     le_stakeholderType e = S_DRIVER \<and> le_stakeholderId e = Some i \<and> le_amount e = k \<and>
     le_status e = L_PENDING \<and> le_createdAt e = now s"

definition movedState :: "Driver \<Rightarrow> dec2 \<Rightarrow> LedgerEntry \<Rightarrow> sys \<Rightarrow> sys" where
  "movedState d k e s = (saveDriver (d\<lparr>d_walletBalance := d_walletBalance d + k\<rparr>) s)
     \<lparr>ledger := ledger s @ [e], nextId := nextId s + length [e]\<rparr>"

lemma movedState_frame [simp]:
  "rides (movedState d k e s) = rides s" "users (movedState d k e s) = users s"
  "redis (movedState d k e s) = redis s" "now (movedState d k e s) = now s"
  "events (movedState d k e s) = events s" "ledger (movedState d k e s) = ledger s @ [e]"
  "nextId (movedState d k e s) = Suc (nextId s)"
  "drivers (movedState d k e s) =
     drivers (saveDriver (d\<lparr>d_walletBalance := d_walletBalance d + k\<rparr>) s)"
  by (simp_all add: movedState_def)

lemma writeEntry_Inr:
  assumes "writeEntry w s = (Inr i, s')"
  obtains e where "entryOf (now s) w e" "le_id e = nextId s" "i = nextId s"
    "s' = s\<lparr>ledger := ledger s @ [e], nextId := nextId s + length [e]\<rparr>"
proof -
  obtain rows where rows: "insertLedgerEntries [w] s = (Inr rows, s')" "i = le_id (hd rows)"
    using assms by (auto simp: writeEntry_def andThen_Inr_iff writeEntries_def transaction_Inr_iff)
  note ins = insertLedgerEntries_Inr [OF rows(1)]
  then obtain e where "rows = [e]" "entryOf (now s) w e" by (auto simp: list_all2_Cons1)
  then show thesis using ins rows(2) that by simp
qed

lemma wallet_bound: "wf_sys s \<Longrightarrow> findDriver i s = Some d \<Longrightarrow> \<bar>d_walletBalance d\<bar> \<le> 10 ^ 12"
  using wf_findDriver(4) [of s i d] by (simp add: fits_decimal_def)

lemma setBalance_Inr:
  "\<bar>k\<bar> \<le> 10 ^ 13 \<Longrightarrow> setBalance d (num_of_dec k) s = (Inr x, s') \<longleftrightarrow>
     fits_decimal 10 k \<and> s' = saveDriver (d\<lparr>d_walletBalance := k\<rparr>) s"
  by (auto simp: setBalance_def store_decimal_of_dec)

lemma fuel_target:
  assumes "\<bar>w\<bar> \<le> 10 ^ 12" "\<bar>k\<bar> \<le> 10 ^ 12"
  shows "setBalance d (js_add (num_of_dec w) (toNaira (toKobo (num_of_dec k)))) s = (Inr x, s') \<longleftrightarrow>
     fits_decimal 10 (w + k) \<and> s' = saveDriver (d\<lparr>d_walletBalance := w + k\<rparr>) s"
  using assms by (auto simp: setBalance_def toKobo_num_of_dec store_decimal_sum)

lemma payout_target:
  assumes "\<bar>w\<bar> \<le> 10 ^ 12" "\<bar>k\<bar> \<le> 10 ^ 12"
  shows "toNaira (js_sub (toKobo (num_of_dec w)) (toKobo (num_of_dec k))) = num_of_dec (w - k)"
  using assms by (simp add: toKobo_num_of_dec js_sub_of_int del: of_int_diff) (rule toNaira_of_int)

lemma reserveFuel_Inr:
  assumes "wf_sys s" "\<bar>k\<bar> \<le> 10 ^ 12" "reserveFuel cfg i (num_of_dec k) ref s = (Inr entryId, s')"
  obtains d e where "findDriver i s = Some d" "fits_decimal 10 (d_walletBalance d + k)"
    "num_of_dec k \<le> js_sub (dailyFuelLimit cfg) (usedToday cfg i s)"
    "entryId = nextId s" "pendingRow s i k DRIVER_FUEL_SUPPORT_MFB e" "fits_decimal 12 k"
    "s' = movedState d k e s"
proof -
  obtain d where d: "findDriver i s = Some d"
    using assms(3) by (auto simp: reserveFuel_def split: option.splits)
  let ?m = "saveDriver (d\<lparr>d_walletBalance := d_walletBalance d + k\<rparr>) s"
  have *: "num_of_dec k \<le> js_sub (dailyFuelLimit cfg) (usedToday cfg i s)"
    "fits_decimal 10 (d_walletBalance d + k)"
    "writeEntry (fuelEntry cfg i (num_of_dec k) ref) ?m = (Inr entryId, s')"
    using assms(3) d
    by (auto simp: reserveFuel_def Let_def andThen_Inr_iff fuel_target [OF wallet_bound [OF assms(1) d] assms(2)]
        split: if_splits)
  from *(3) show thesis
  proof (rule writeEntry_Inr)
    fix e assume e: "entryOf (now ?m) (fuelEntry cfg i (num_of_dec k) ref) e" "le_id e = nextId ?m"
      "entryId = nextId ?m" "s' = ?m\<lparr>ledger := ledger ?m @ [e], nextId := nextId ?m + length [e]\<rparr>"
    then have "pendingRow s i k DRIVER_FUEL_SUPPORT_MFB e" "fits_decimal 12 k"
      using assms(2) by (auto simp: entryOf_def fuelEntry_def pendingRow_def store_decimal_of_dec
          split: if_splits)
    then show thesis using that d * e by (simp add: movedState_def)
  qed
qed

lemma abs_num_of_dec: "0 \<le> k \<Longrightarrow> k \<le> 10 ^ 12 \<Longrightarrow> \<bar>num_of_dec k\<bar> = num_of_dec k"
  using num_of_dec_less_iff [of k 0] by (simp add: num_of_dec_def not_less abs_of_nonneg)

lemma num_of_dec_le_iff:
  "\<bar>j\<bar> \<le> 10 ^ 13 \<Longrightarrow> \<bar>k\<bar> \<le> 10 ^ 13 \<Longrightarrow> num_of_dec j \<le> num_of_dec k \<longleftrightarrow> j \<le> k"
  using num_of_dec_less_iff [of k j] by (simp add: not_less [symmetric])

lemma reservePayout_Inr:
  assumes "wf_sys s" "0 \<le> k" "k \<le> 10 ^ 12"
    and "reservePayout i (num_of_dec k) bank ref s = (Inr entryId, s')"
  obtains d e where "findDriver i s = Some d" "fits_decimal 10 (d_walletBalance d - k)"
    "k \<le> d_walletBalance d" "entryId = nextId s"
    "pendingRow s i (- k) DRIVER_PAYOUT_LINKPAY e" "fits_decimal 12 (- k)"
    "s' = movedState d (- k) e s"
proof -
  obtain d where d: "findDriver i s = Some d"
    using assms(4) by (auto simp: reservePayout_def split: option.splits)
  note w = wallet_bound [OF assms(1) d]
  have k: "\<bar>k\<bar> \<le> 10 ^ 12" using assms(2,3) by simp
  let ?m = "saveDriver (d\<lparr>d_walletBalance := d_walletBalance d - k\<rparr>) s"
  have wk: "\<bar>d_walletBalance d - k\<bar> \<le> 10 ^ 13" using w k by simp
  have *: "num_of_dec k \<le> num_of_dec (d_walletBalance d)"
    "fits_decimal 10 (d_walletBalance d - k)"
    "writeEntry (payoutEntry i (num_of_dec k) bank ref) ?m = (Inr entryId, s')"
    using assms(4) d
    by (auto simp: reservePayout_def Let_def andThen_Inr_iff payout_target [OF w k]
        setBalance_Inr [OF wk] not_less split: if_splits)
  then have le: "k \<le> d_walletBalance d" using w k by (simp add: num_of_dec_le_iff)
  from *(3) show thesis
  proof (rule writeEntry_Inr)
    fix e assume e: "entryOf (now ?m) (payoutEntry i (num_of_dec k) bank ref) e"
      "le_id e = nextId ?m" "entryId = nextId ?m"
      "s' = ?m\<lparr>ledger := ledger ?m @ [e], nextId := nextId ?m + length [e]\<rparr>"
    then have "pendingRow s i (- k) DRIVER_PAYOUT_LINKPAY e" "fits_decimal 12 (- k)"
      using assms(2,3) by (auto simp: entryOf_def payoutEntry_def pendingRow_def
          store_decimal_minus abs_num_of_dec split: if_splits)
    then show thesis using that d * e le by (simp add: movedState_def)
  qed
qed

lemma wf_moved:
  assumes "wf_sys s" "findDriver i s = Some d" "fits_decimal 10 (d_walletBalance d + k)"
    "pendingRow s i k ty e" "fits_decimal 12 k"
  shows "wf_sys (movedState d k e s)"
proof -
  let ?m = "saveDriver (d\<lparr>d_walletBalance := d_walletBalance d + k\<rparr>) s"
  note d = wf_findDriver [OF assms(1,2)]
  have "wf_sys ?m" using assms(1,3) d by (intro wf_saveDriver) auto
  then show ?thesis
    using wf_appendLedger [of ?m "[e]"] assms(4,5) d(3)
    by (simp add: movedState_def pendingRow_def)
qed

lemma books_moved:
  assumes "wf_sys s" "books_balanced s" "findDriver i s = Some d" "pendingRow s i k ty e"
  shows "books_balanced (movedState d k e s)"
proof -
  let ?s = "movedState d k e s"
  have bk: "driverBooks j ?s = driverBooks j s + (if j = i then k else 0)"
    "riderBooks j ?s = riderBooks j s" for j
    using assms(4) by (auto simp: driverBooks_def riderBooks_def sumAmount_append [of ?s s "[e]"]
        pendingRow_def settledOrPending_def)
  note d = wf_findDriver(1,2) [OF assms(1,3)]
  have "d_walletBalance x = driverBooks (d_id x) ?s" if "x \<in> set (drivers ?s)" for x
  proof -
    from that have "x = d\<lparr>d_walletBalance := d_walletBalance d + k\<rparr> \<or>
        (x \<in> set (drivers s) \<and> d_id x \<noteq> i)"
      using driverRepo.in_rows_save d(2) by fastforce
    then show ?thesis using assms(2) d bk(1) by (auto simp: books_balanced_def)
  qed
  then show ?thesis using assms(2) by (simp add: books_balanced_def bk(2))
qed

section \<open>Settling and reversing\<close>

lemma wf_settle: "wf_sys s \<Longrightarrow> wf_sys (settleEntry i st r m s)"
  by (auto simp: wf_sys_def wf_rides_def wf_people_def wf_ledger_def settleEntry_ledger
      comp_def if_distrib cong: if_cong)

lemma books_settle:
  assumes "wf_sys s" "books_balanced s" "e \<in> set (ledger s)" "settledOrPending e"
    "st = L_COMPLETED \<or> st = L_PENDING"
  shows "books_balanced (settleEntry (le_id e) st r m s)"
proof -
  have "driverBooks i (settleEntry (le_id e) st r m s) = driverBooks i s"
    "riderBooks i (settleEntry (le_id e) st r m s) = riderBooks i s" for i
    unfolding driverBooks_def riderBooks_def sumAmount_settle [OF wf_distinct(4) [OF assms(1)] assms(3)]
    using assms(4,5) by (auto simp: settledOrPending_def)
  then show ?thesis using assms(2) by (simp add: books_balanced_def)
qed

lemma undo_target:
  assumes "\<bar>w\<bar> \<le> 10 ^ 12" "\<bar>k\<bar> \<le> 10 ^ 12" "toKobo delta = of_int k"
  shows "toNaira (js_add (toKobo (num_of_dec w)) (toKobo delta)) = num_of_dec (w + k)"
  using assms by (simp add: toKobo_num_of_dec js_add_of_int del: of_int_add) (rule toNaira_of_int)

text \<open>
  The reversal of a counted entry of amount \<open>-k\<close>, with the driver's balance moved back by \<open>k\<close>.
\<close>

lemma undoBalance_keeps:
  assumes "wf_sys s" "books_balanced s" "e \<in> set (ledger s)" "settledOrPending e"
    "le_stakeholderType e = S_DRIVER" "le_stakeholderId e = Some i" "le_amount e = - k"
    "\<bar>k\<bar> \<le> 10 ^ 12" "toKobo delta = of_int k"
    and "undoBalance i delta (le_id e) reason s = (Inr x, s')"
  shows "wf_sys s' \<and> books_balanced s'"
proof -
  let ?settle = "settleEntry (le_id e) L_FAILED (Some None)
     (Some (Some (JObj [(''reversed'', JBool True), (''reason'', JStr reason)])))"
  have bk: "driverBooks j (?settle t) = driverBooks j t + (if j = i then k else 0)"
    "riderBooks j (?settle t) = riderBooks j t" if "ledger t = ledger s" for j t
    unfolding driverBooks_def riderBooks_def
    using sumAmount_settle [of t e] wf_distinct(4) [OF assms(1)] assms(3-7) that
    by (auto simp: settledOrPending_def)
  show ?thesis
  proof (cases "findDriver i s")
    case None
    then have s': "s' = ?settle s" using assms(10) by (simp add: undoBalance_def Let_def)
    have "d_id d \<noteq> i" if "d \<in> set (drivers s)" for d
      using that None driverRepo.findById_member [OF wf_distinct(3) [OF assms(1)]] by fastforce
    then show ?thesis
      using assms(1,2) bk [of s] by (auto simp: s' wf_settle books_balanced_def)
  next
    case (Some d)
    note d = wf_findDriver [OF assms(1) Some]
    note w = wallet_bound [OF assms(1) Some]
    have wk: "\<bar>d_walletBalance d + k\<bar> \<le> 10 ^ 13" using w assms(8) by simp
    let ?m = "saveDriver (d\<lparr>d_walletBalance := d_walletBalance d + k\<rparr>) s"
    have s': "s' = ?settle ?m" "fits_decimal 10 (d_walletBalance d + k)"
      using assms(10) Some
      by (auto simp: undoBalance_def Let_def andThen_Inr_iff undo_target [OF w assms(8,9)]
          setBalance_Inr [OF wk])
    have "wf_sys ?m" using assms(1) s'(2) d by (intro wf_saveDriver) auto
    moreover have "d_walletBalance y = driverBooks (d_id y) s'" if "y \<in> set (drivers s')" for y
    proof -
      from that have "y = d\<lparr>d_walletBalance := d_walletBalance d + k\<rparr> \<or>
          (y \<in> set (drivers s) \<and> d_id y \<noteq> i)"
        using driverRepo.in_rows_save d(2) by (fastforce simp: s'(1))
      moreover have "driverBooks j s' = driverBooks j s + (if j = i then k else 0)" for j
        using bk(1) [of ?m] books_frame(1) [of ?m s] by (simp add: s'(1))
      ultimately show ?thesis using assms(2) d(1,2) by (auto simp: books_balanced_def)
    qed
    moreover have "riderBooks j s' = riderBooks j s" for j
      using bk(2) [of ?m] books_frame(2) [of ?m s] by (simp add: s'(1))
    ultimately show ?thesis
      using assms(2) by (simp add: s'(1) wf_settle books_balanced_def)
  qed
qed

lemma reverse_keeps:
  assumes "wf_sys s" "books_balanced s" "e \<in> set (ledger s)" "settledOrPending e"
    "le_stakeholderType e = S_DRIVER" "le_stakeholderId e = Some i" "le_amount e = - k"
    "\<bar>k\<bar> \<le> 10 ^ 12" "toKobo delta = of_int k"
    and "reverseDriverBalance i delta (le_id e) reason s = (res, s')"
  shows "wf_sys s' \<and> books_balanced s'"
proof (cases res)
  case (Inl e)
  then show ?thesis using assms by (simp add: reverseDriverBalance_def transaction_Inl_iff)
next
  case (Inr x)
  then have "undoBalance i delta (le_id e) reason s = (Inr x, s')"
    using assms(10) by (simp add: reverseDriverBalance_def transaction_Inr_iff)
  then show ?thesis using undoBalance_keeps [OF assms(1-9)] by blast
qed

section \<open>The requests keep the books\<close>

lemma fuelSupport_keeps:
  assumes "wf_sys s" "books_balanced s" "\<bar>k\<bar> \<le> 10 ^ 12"
    and "fuelSupport cfg disburse i (num_of_dec k) ref s = (res, s')"
  shows "wf_sys s' \<and> books_balanced s'"
proof (cases "transaction (reserveFuel cfg i (num_of_dec k) ref) s")
  case (Pair r s1)
  show ?thesis
  proof (cases r)
    case (Inl e)
    then have "s' = s" using assms(4) Pair by (simp add: fuelSupport_def transaction_Inl_iff)
    then show ?thesis using assms by simp
  next
    case (Inr entryId)
    then have "reserveFuel cfg i (num_of_dec k) ref s = (Inr entryId, s1)"
      using Pair by (simp add: transaction_Inr_iff)
    then show ?thesis
    proof (rule reserveFuel_Inr [OF assms(1,3)])
      fix d e
      assume *: "findDriver i s = Some d" "fits_decimal 10 (d_walletBalance d + k)"
        "entryId = nextId s" "pendingRow s i k DRIVER_FUEL_SUPPORT_MFB e" "fits_decimal 12 k"
        "s1 = movedState d k e s"
      have w: "wf_sys s1" "books_balanced s1"
        using wf_moved [OF assms(1) *(1,2,4,5)] books_moved [OF assms(1,2) *(1,4)] *(6) by simp_all
      have e: "e \<in> set (ledger s1)" "settledOrPending e" "le_stakeholderType e = S_DRIVER"
        "le_stakeholderId e = Some i" "le_amount e = - (- k)" "le_id e = entryId"
        using *(3,4,6) by (simp_all add: pendingRow_def settledOrPending_def)
      have neg: "\<bar>- k\<bar> \<le> 10 ^ 12" "toKobo (- num_of_dec k) = of_int (- k)"
        using assms(3) toKobo_minus [of k] by simp_all
      note done' = books_settle [OF w e(1,2), of L_COMPLETED, simplified, unfolded e(6)] wf_settle [OF w(1)]
        reverse_keeps [OF w e(1-5) neg, unfolded e(6)]
      show ?thesis
        using assms(4) Pair Inr w done'
        by (auto simp: fuelSupport_def Let_def andThen_def split: sum.splits if_splits prod.splits)
    qed
  qed
qed

lemma payout_keeps:
  assumes "wf_sys s" "books_balanced s" "0 \<le> k" "k \<le> 10 ^ 12"
    and "payout cfg initiatePayout i (num_of_dec k) bank ref s = (res, s')"
  shows "wf_sys s' \<and> books_balanced s'"
proof (cases "transaction (reservePayout i (num_of_dec k) bank ref) s")
  case (Pair r s1)
  show ?thesis
  proof (cases r)
    case (Inl e)
    then have "s' = s" using assms(5) Pair by (simp add: payout_def transaction_Inl_iff)
    then show ?thesis using assms by simp
  next
    case (Inr entryId)
    then have "reservePayout i (num_of_dec k) bank ref s = (Inr entryId, s1)"
      using Pair by (simp add: transaction_Inr_iff)
    then show ?thesis
    proof (rule reservePayout_Inr [OF assms(1,3,4)])
      fix d e
      assume *: "findDriver i s = Some d" "fits_decimal 10 (d_walletBalance d - k)"
        "entryId = nextId s" "pendingRow s i (- k) DRIVER_PAYOUT_LINKPAY e" "fits_decimal 12 (- k)"
        "s1 = movedState d (- k) e s"
      have w: "wf_sys s1" "books_balanced s1"
        using wf_moved [OF assms(1) *(1) _ *(4,5)] books_moved [OF assms(1,2) *(1,4)] *(2,6)
        by simp_all
      have e: "e \<in> set (ledger s1)" "settledOrPending e" "le_stakeholderType e = S_DRIVER"
        "le_stakeholderId e = Some i" "le_amount e = - k" "le_id e = entryId"
        using *(3,4,6) by (simp_all add: pendingRow_def settledOrPending_def)
      have pos: "\<bar>k\<bar> \<le> 10 ^ 12" "toKobo (num_of_dec k) = of_int k"
        using assms(3,4) toKobo_num_of_dec [of k] by simp_all
      note done' = books_settle [OF w e(1,2), of L_COMPLETED, simplified, unfolded e(6)]
        books_settle [OF w e(1,2), of L_PENDING, simplified, unfolded e(6)] wf_settle [OF w(1)]
        reverse_keeps [OF w e(1-5) pos, unfolded e(6)]
      show ?thesis
        using assms(5) Pair Inr w done'
        by (auto simp: payout_def Let_def andThen_def split: sum.splits if_splits prod.splits)
    qed
  qed
qed

lemma wf_freshId [simp]: "wf_sys s \<Longrightarrow> wf_sys (snd (freshId s))"
  "books_balanced (snd (freshId s)) \<longleftrightarrow> books_balanced s"
  by (auto intro: wf_nextId_mono books_balanced_cong)

lemma fuelRequest_keeps:
  assumes "wf_sys s" "books_balanced s" "\<bar>k\<bar> \<le> 10 ^ 12"
    and "requestFuelSupport cfg disburse i (num_of_dec k) s = (res, s')"
  shows "wf_sys s' \<and> books_balanced s'"
proof (cases "live (now s) (redis s (WALLET_FUEL_LOCK i))")
  case True
  then show ?thesis using assms by (simp add: requestFuelSupport_def redis_set_nx_def)
next
  case False
  let ?s = "snd (freshId (redis_set_ex (WALLET_FUEL_LOCK i) (RText ''1'') 15 s))"
  obtain t where "fuelSupport cfg disburse i (num_of_dec k) (''fuel_'' @ uuidText (nextId s)) ?s = (res, t)"
    "s' = redis_del (WALLET_FUEL_LOCK i) t"
    using assms(4) False
    by (auto simp: requestFuelSupport_def redis_set_nx_def tryFinally_iff split_beta)
  then show ?thesis using fuelSupport_keeps [of ?s] assms(1-3) by simp
qed

text \<open>Fuel advances keep the books, whatever the bank answers and even when the call to it
  throws: for an amount of whole kobo, when every balance equals its ledger entries before, it
  does after.\<close>

theorem requestFuelSupport_books:
  assumes "wf_sys s" "books_balanced s" "\<bar>k\<bar> \<le> 10 ^ 12"
    and "requestFuelSupport cfg disburse i (num_of_dec k) s = (res, s')"
  shows "wf_sys s' \<and> books_balanced s'"
  by (rule fuelRequest_keeps [OF assms])

lemma payoutRequest_keeps:
  assumes "wf_sys s" "books_balanced s" "0 \<le> k" "k \<le> 10 ^ 12"
    and "requestPayout cfg initiatePayout i (num_of_dec k) bank s = (res, s')"
  shows "wf_sys s' \<and> books_balanced s'"
proof (cases "live (now s) (redis s (WALLET_PAYOUT_LOCK i))")
  case True
  then show ?thesis using assms by (simp add: requestPayout_def redis_set_nx_def)
next
  case False
  let ?s = "snd (freshId (redis_set_ex (WALLET_PAYOUT_LOCK i) (RText ''1'') 15 s))"
  obtain t where "payout cfg initiatePayout i (num_of_dec k) bank (''payout_'' @ uuidText (nextId s)) ?s = (res, t)"
    "s' = redis_del (WALLET_PAYOUT_LOCK i) t"
    using assms(5) False
    by (auto simp: requestPayout_def redis_set_nx_def tryFinally_iff split_beta)
  then show ?thesis using payout_keeps [of ?s] assms(1-4) by simp
qed

text \<open>Payouts keep the books in the same sense.\<close>

theorem requestPayout_books:
  assumes "wf_sys s" "books_balanced s" "0 \<le> k" "k \<le> 10 ^ 12"
    and "requestPayout cfg initiatePayout i (num_of_dec k) bank s = (res, s')"
  shows "wf_sys s' \<and> books_balanced s'"
  by (rule payoutRequest_keeps [OF assms])

definition demoConfig :: walletConfig where
  "demoConfig = \<lparr>wc_fuelLimit = None, wc_utcOffset = 3600000\<rparr>"

theorem requestFuelSupport_books_witness:
  "books_balanced (snd (requestFuelSupport demoConfig (simulatedMfbDisburse 9 0) 2
     (num_of_dec 200050) (demo ACCEPTED)))"
  using requestFuelSupport_books [OF demo_wf _ prod.collapse [symmetric], of 200050] by simp

definition demoBank :: BankAccountDto where
  "demoBank = \<lparr>ba_accountNumber = ''0123456789'', ba_bankCode = ''058'', ba_accountName = None\<rparr>"

theorem requestPayout_books_witness:
  "books_balanced (snd (requestPayout demoConfig (simulatedLinkPayPayout 9 0) 2
     (num_of_dec 50000) demoBank (demo ACCEPTED)))"
  using requestPayout_books [OF demo_wf _ _ prod.collapse [symmetric], of 50000] by simp

end
