(* ===== verification/WalletRules.thy ===== *)
theory WalletRules
  imports WalletMoney
begin

text \<open>
  What a fuel request does outcome by outcome: the daily allowance is never exceeded, a refusal
  by the bank restores the balance, and three places where the wallet does less than its
  comments say: a gateway call that throws, amounts with fractions of a kobo, and a payout of an
  advance the bank then declines.
\<close>

section \<open>The outcomes of a fuel request\<close>

lemma undo_moved:
  assumes "wf_sys s" "findDriver i s = Some d" "fits_decimal 10 (d_walletBalance d + k)"
    "\<bar>k\<bar> \<le> 10 ^ 12" "toKobo delta = of_int (- k)"
  shows "reverseDriverBalance i delta entryId reason (movedState d k e s) =
    (Inr (), settleEntry entryId L_FAILED (Some None)
       (Some (Some (JObj [(''reversed'', JBool True), (''reason'', JStr reason)])))
       (saveDriver d (movedState d k e s)))"
proof -
  let ?d = "d\<lparr>d_walletBalance := d_walletBalance d + k\<rparr>"
  note d = wf_findDriver [OF assms(1,2)]
  have find: "findDriver i (movedState d k e s) = Some ?d"
    using driverRepo.findById_save_same [of ?d s] d(2)
    by (simp add: movedState_def find_row_defs save_row_defs)
  have w: "\<bar>d_walletBalance d + k\<bar> \<le> 10 ^ 12" "\<bar>- k\<bar> \<le> 10 ^ 12"
    using assms(3,4) by (simp_all add: fits_decimal_def)
  have "setBalance ?d (num_of_dec (d_walletBalance d + k + - k)) (movedState d k e s) =
      (Inr (), saveDriver d (movedState d k e s))"
    using d(4) wallet_bound [OF assms(1,2)] by (simp add: setBalance_def store_decimal_of_dec)
  then show ?thesis
    using undo_target [OF w assms(5)]
    by (simp add: reverseDriverBalance_def transaction_def undoBalance_def find Let_def andThen_def)
qed

lemma fuelSupport_cases:
  assumes "wf_sys s" "\<bar>k\<bar> \<le> 10 ^ 12"
    and run: "fuelSupport cfg disburse i (num_of_dec k) ref s = (res, s')"
  obtains (refused) err where "res = Inl err" "s' = s"
  | (reserved) d e where "findDriver i s = Some d" "fits_decimal 10 (d_walletBalance d + k)"
      "num_of_dec k \<le> js_sub (dailyFuelLimit cfg) (usedToday cfg i s)"
      "pendingRow s i k DRIVER_FUEL_SUPPORT_MFB e"
      "case disburse \<lparr>fq_driverId = i, fq_amount = num_of_dec k, fq_reference = ref\<rparr> of
         Inl err \<Rightarrow> res = Inl err \<and> s' = movedState d k e s
       | Inr result \<Rightarrow>
           if fs_success result
           then s' = settleEntry (nextId s) L_COMPLETED (Some (fs_providerReference result))
                  (providerMetadata ref (fs_raw result)) (movedState d k e s) \<and>
                (\<exists>x. res = Inr x)
           else res = Inl (BadRequestException ''Fuel support declined by the bank'') \<and>
             s' = settleEntry (nextId s) L_FAILED (Some None)
                  (Some (Some (JObj [(''reversed'', JBool True), (''reason'', JStr (fs_message result))])))
                  (saveDriver d (movedState d k e s))"
proof (cases "transaction (reserveFuel cfg i (num_of_dec k) ref) s")
  case (Pair r s1)
  show thesis
  proof (cases r)
    case (Inl e)
    then have "res = Inl e \<and> s' = s"
      using run Pair by (auto simp: fuelSupport_def transaction_Inl_iff)
    then show thesis using refused by blast
  next
    case (Inr entryId)
    then have "reserveFuel cfg i (num_of_dec k) ref s = (Inr entryId, s1)"
      using Pair by (simp add: transaction_Inr_iff)
    then show thesis
    proof (rule reserveFuel_Inr [OF assms(1,2)])
      fix d e
      assume *: "findDriver i s = Some d" "fits_decimal 10 (d_walletBalance d + k)"
        "num_of_dec k \<le> js_sub (dailyFuelLimit cfg) (usedToday cfg i s)"
        "entryId = nextId s" "pendingRow s i k DRIVER_FUEL_SUPPORT_MFB e"
        "s1 = movedState d k e s"
      have neg: "toKobo (- num_of_dec k) = of_int (- k)" using assms(2) toKobo_minus [of k] by simp
      note d = wf_findDriver [OF assms(1) *(1)]
      have found: "getBalance cfg i (settleEntry j st r' m (movedState d k e s)) \<noteq> Inl x" for j st r' m x
        using driverRepo.findById_save_same [of "d\<lparr>d_walletBalance := d_walletBalance d + k\<rparr>" s] d(2)
        by (simp add: getBalance_def movedState_def find_row_defs save_row_defs settleEntry_def)
      show thesis
        by (rule reserved [OF *(1,2,3,5)])
          (use run Pair Inr *(4,6) undo_moved [OF assms(1) *(1,2) assms(2) neg] found in
            \<open>auto simp: fuelSupport_def Let_def andThen_def split: sum.splits if_splits\<close>)
    qed
  qed
qed

section \<open>The daily allowance\<close>

definition fuelSum :: "walletConfig \<Rightarrow> uuid \<Rightarrow> sys \<Rightarrow> dec2" where
  "fuelSum cfg i s =
     (case todayWindow cfg (now s) of (from, to) \<Rightarrow>
        sumAmount (\<lambda>e. le_stakeholderType e = S_DRIVER \<and> le_stakeholderId e = Some i \<and>
          le_type e = DRIVER_FUEL_SUPPORT_MFB \<and> settledOrPending e \<and>
          from \<le> le_createdAt e \<and> le_createdAt e \<le> to) s)"

lemma usedToday_fuelSum: "usedToday cfg i s = num_of_dec (fuelSum cfg i s)"
  by (simp add: usedToday_def fuelSum_def sumForStakeholder_def split: prod.split)

lemma today_contains_now:
  "todayWindow cfg t = (lo, hi) \<Longrightarrow> lo \<le> t \<and> t \<le> hi"
  using pos_mod_bound [of 86400000 "t + wc_utcOffset cfg"]
    pos_mod_sign [of 86400000 "t + wc_utcOffset cfg"]
  by (auto simp: todayWindow_def Let_def)

lemma fuelSum_moved:
  assumes "pendingRow s i k DRIVER_FUEL_SUPPORT_MFB e"
  shows "fuelSum cfg i (movedState d k e s) = fuelSum cfg i s + k"
  using assms today_contains_now [of cfg "now s"]
  by (auto simp: fuelSum_def sumAmount_append [of "movedState d k e s" s "[e]"] pendingRow_def
      settledOrPending_def split: prod.split)

lemma fuelSum_settle:
  assumes "distinct (map le_id (ledger t))" "e \<in> set (ledger t)" "now t = now s"
    "pendingRow s i k DRIVER_FUEL_SUPPORT_MFB e"
  shows "fuelSum cfg i (settleEntry (le_id e) st r m t) =
    fuelSum cfg i t - (if st = L_COMPLETED \<or> st = L_PENDING then 0 else k)"
proof (cases "todayWindow cfg (now s)")
  case (Pair lo hi)
  show ?thesis
    using today_contains_now [OF Pair] assms(4)
    unfolding fuelSum_def settleEntry_frame assms(3) Pair prod.case sumAmount_settle [OF assms(1,2)]
    by (simp add: pendingRow_def settledOrPending_def)
qed

lemma fuelSum_cong:
  assumes "ledger t = ledger s" "now t = now s"
  shows "fuelSum cfg i t = fuelSum cfg i s"
  by (simp add: fuelSum_def assms(2) sumAmount_frame [OF assms(1)] split: prod.split)

lemma allowance_le:
  assumes "num_of_dec k \<le> js_sub (num_of_dec L) (num_of_dec U)"
    "\<bar>k\<bar> \<le> 10 ^ 12" "\<bar>L\<bar> \<le> 10 ^ 12" "\<bar>U\<bar> \<le> 10 ^ 12"
  shows "k \<le> L - U"
proof (rule ccontr)
  assume "\<not> k \<le> L - U"
  then have "L - U < k" by simp
  have "near (1 / 500 + 1 / 500 + 1 / 500) (js_sub (num_of_dec L) (num_of_dec U)) (L - U)"
    using assms by (intro near_sub num_of_dec_near) auto
  then have "near (1 / 4) (js_sub (num_of_dec L) (num_of_dec U)) (L - U)"
    by (rule near_mono) simp
  moreover have "near (1 / 4) (num_of_dec k) k"
    using assms(2) by (intro near_mono [OF num_of_dec_near]) auto
  ultimately show False
    using near_less_iff \<open>L - U < k\<close> assms(1) by (metis less_irrefl not_less)
qed

lemma fuelSupport_limit:
  assumes "wf_sys s" "0 \<le> k" "k \<le> 10 ^ 12" "dailyFuelLimit cfg = num_of_dec L" "\<bar>L\<bar> \<le> 10 ^ 12"
    "\<bar>fuelSum cfg i s\<bar> \<le> 10 ^ 12" "fuelSum cfg i s \<le> L"
    and "fuelSupport cfg disburse i (num_of_dec k) ref s = (res, s')"
  shows "fuelSum cfg i s' \<le> L"
proof -
  have k: "\<bar>k\<bar> \<le> 10 ^ 12" using assms(2,3) by simp
  from assms(1) k assms(8) show ?thesis
  proof (cases rule: fuelSupport_cases)
    case (refused err)
    then show ?thesis using assms(7) by simp
  next
    case (reserved d e)
    let ?m = "movedState d k e s"
    have "k \<le> L - fuelSum cfg i s"
      using allowance_le [OF _ k assms(5,6)] reserved(3) assms(4) usedToday_fuelSum by metis
    then have le: "fuelSum cfg i ?m \<le> L" using fuelSum_moved [OF reserved(4)] by simp
    have id: "nextId s = le_id e" using reserved(4) by (simp add: pendingRow_def)
    have mem: "distinct (map le_id (ledger ?m))"
      using reserved(4) wf_distinct(4) [OF assms(1)] assms(1)
      by (auto simp: pendingRow_def wf_defs)
    have settle: "fuelSum cfg i (settleEntry (le_id e) st r m' t) \<le> L"
      if t: "ledger t = ledger ?m" "now t = now s" for st r m' t
    proof -
      have "distinct (map le_id (ledger t))" "e \<in> set (ledger t)" using mem t by simp_all
      from fuelSum_settle [OF this t(2) reserved(4)] show ?thesis
        using le assms(2) fuelSum_cong [of t ?m cfg i] t by simp
    qed
    show ?thesis
      using reserved(5) le settle [of ?m] settle [of "saveDriver d ?m"]
      by (auto simp: id split: sum.splits if_splits)
  qed
qed

text \<open>C16: the daily allowance. When the fuel support a driver used today is within the limit, it
  is still within it after a request for any amount of whole kobo, whatever the bank answers
  (the sum is over today's pending and completed advances, exact to the kobo).\<close>

theorem fuel_limit_kept:
  assumes "wf_sys s" "0 \<le> k" "k \<le> 10 ^ 12" "dailyFuelLimit cfg = num_of_dec L" "\<bar>L\<bar> \<le> 10 ^ 12"
    and "\<bar>fuelSum cfg i s\<bar> \<le> 10 ^ 12" "fuelSum cfg i s \<le> L"
    and "requestFuelSupport cfg disburse i (num_of_dec k) s = (res, s')"
  shows "fuelSum cfg i s' \<le> L"
proof (cases "live (now s) (redis s (WALLET_FUEL_LOCK i))")
  case True
  then show ?thesis using assms by (simp add: requestFuelSupport_def redis_set_nx_def)
next
  case False
  let ?s = "snd (freshId (redis_set_ex (WALLET_FUEL_LOCK i) (RText ''1'') 15 s))"
  obtain t where t: "fuelSupport cfg disburse i (num_of_dec k) (''fuel_'' @ uuidText (nextId s)) ?s = (res, t)"
    "s' = redis_del (WALLET_FUEL_LOCK i) t"
    using assms(8) False
    by (auto simp: requestFuelSupport_def redis_set_nx_def tryFinally_iff split_beta)
  have same: "fuelSum cfg i ?s = fuelSum cfg i s" by (rule fuelSum_cong) simp_all
  have "fuelSum cfg i t \<le> L"
    by (rule fuelSupport_limit [OF _ assms(2-5) _ _ t(1)]) (use assms(1,6,7) same in simp_all)
  then show ?thesis using fuelSum_cong [of s' t cfg i] t(2) by simp
qed

theorem fuel_limit_kept_witness:
  "fuelSum demoConfig 2 (snd (requestFuelSupport demoConfig (simulatedMfbDisburse 9 0) 2
     (num_of_dec 499999) (demo ACCEPTED))) \<le> 500000"
proof -
  have "num_of_dec 500000 = 5000" using fl_of_int [of 5000] by (simp add: num_of_dec_def)
  then have "dailyFuelLimit demoConfig = num_of_dec 500000"
    by (simp add: dailyFuelLimit_def demoConfig_def)
  moreover have "fuelSum demoConfig 2 (demo ACCEPTED) = 0"
    by (simp add: fuelSum_def sumAmount_def split: prod.split)
  ultimately show ?thesis
    using fuel_limit_kept [OF demo_wf(1) _ _ _ _ _ _ prod.collapse [symmetric],
        of 499999 demoConfig 500000 2 ACCEPTED] by simp
qed

section \<open>Refusals\<close>

text \<open>C18: a declined advance is undone. When the bank refuses, the caller gets a 400, the driver's
  row is exactly what it was, the advance counts neither in the books nor against today's
  allowance, and its entry stays in the ledger as failed.\<close>

theorem declined_advance_undone:
  assumes "wf_sys s" "\<bar>k\<bar> \<le> 10 ^ 12" "\<not> live (now s) (redis s (WALLET_FUEL_LOCK i))"
    and declines: "\<And>q. \<exists>result. disburse q = Inr result \<and> \<not> fs_success result"
    and "requestFuelSupport cfg disburse i (num_of_dec k) s = (res, s')"
  shows "(\<exists>e. res = Inl e) \<and> findDriver i s' = findDriver i s \<and>
    driverBooks i s' = driverBooks i s \<and> fuelSum cfg i s' = fuelSum cfg i s \<and>
    (\<forall>e\<in>set (ledger s'). e \<in> set (ledger s) \<or> (le_status e = L_FAILED \<and> le_amount e = k))"
proof -
  let ?s = "snd (freshId (redis_set_ex (WALLET_FUEL_LOCK i) (RText ''1'') 15 s))"
  obtain t where t: "fuelSupport cfg disburse i (num_of_dec k) (''fuel_'' @ uuidText (nextId s)) ?s = (res, t)"
    "s' = redis_del (WALLET_FUEL_LOCK i) t"
    using assms(3,5)
    by (auto simp: requestFuelSupport_def redis_set_nx_def tryFinally_iff split_beta)
  have base: "findDriver i ?s = findDriver i s" "ledger ?s = ledger s" "now ?s = now s" "wf_sys ?s"
    using assms(1) by (simp_all add: find_row_defs)
  have "(\<exists>e. res = Inl e) \<and> findDriver i t = findDriver i ?s \<and>
    driverBooks i t = driverBooks i ?s \<and> fuelSum cfg i t = fuelSum cfg i ?s \<and>
    (\<forall>e\<in>set (ledger t). e \<in> set (ledger ?s) \<or> (le_status e = L_FAILED \<and> le_amount e = k))"
    using base(4) assms(2) t(1)
  proof (cases rule: fuelSupport_cases)
    case (reserved d e)
    let ?m = "movedState d k e ?s" and ?u = "saveDriver d (movedState d k e ?s)"
    note d = wf_findDriver [OF base(4) reserved(1)]
    obtain result where no: "disburse \<lparr>fq_driverId = i, fq_amount = num_of_dec k,
        fq_reference = ''fuel_'' @ uuidText (nextId s)\<rparr> = Inr result" "\<not> fs_success result"
      using declines by blast
    have "le_id e = nextId ?s" using reserved(4) by (simp add: pendingRow_def)
    then obtain r m where out: "\<exists>x. res = Inl x" "t = settleEntry (le_id e) L_FAILED r m ?u"
      using reserved(5) no by simp
    have dist: "distinct (map le_id (ledger ?u))" "e \<in> set (ledger ?u)" "now ?u = now ?s"
      using reserved(4) wf_distinct(4) [OF base(4)] base(4)
      by (auto simp: pendingRow_def wf_defs)
    have "driverBooks i t = driverBooks i ?s"
      unfolding out(2) driverBooks_def sumAmount_settle [OF dist(1,2)]
      using reserved(4) sumAmount_append [of ?u ?s "[e]"]
      by (simp add: pendingRow_def settledOrPending_def)
    moreover have "fuelSum cfg i t = fuelSum cfg i ?s"
      unfolding out(2) fuelSum_settle [OF dist reserved(4)]
      using fuelSum_moved [OF reserved(4), of cfg d] fuelSum_cong [of ?u ?m cfg i] by simp
    moreover have "findDriver i t = findDriver i ?s"
      using driverRepo.findById_save_same [of d ?m] d(2) reserved(1)
      by (simp add: out(2) find_row_defs settleEntry_def)
    moreover have "\<forall>x\<in>set (ledger s). le_id x < nextId s" using assms(1) by (simp add: wf_defs)
    then have "\<forall>x\<in>set (ledger t). x \<in> set (ledger ?s) \<or> (le_status x = L_FAILED \<and> le_amount x = k)"
      using reserved(4) by (auto simp: out(2) settleEntry_ledger pendingRow_def)
    ultimately show ?thesis using out(1) by blast
  qed auto
  then show ?thesis
    using base(1-3) t(2) books_frame(1) [of ?s s i] books_frame(1) [of s' t i]
      fuelSum_cong [of ?s s cfg i] fuelSum_cong [of s' t cfg i]
    by (simp add: find_row_defs)
qed

theorem declined_advance_undone_witness:
  "let declined = \<lparr>fs_success = False, fs_providerReference = None, fs_message = ''no'', fs_raw = JNull\<rparr>;
       s' = snd (requestFuelSupport demoConfig (\<lambda>_. Inr declined) 2 (num_of_dec 200000) (demo ACCEPTED))
   in findDriver 2 s' = Some demoDriver"
  using declined_advance_undone [OF demo_wf(1) _ _ _ prod.collapse [symmetric],
      of 200000 ACCEPTED 2 "\<lambda>_. Inr \<lparr>fs_success = False, fs_providerReference = None,
        fs_message = ''no'', fs_raw = JNull\<rparr>" demoConfig]
  by (simp add: live_def)

section \<open>Payouts\<close>

lemma payout_cases:
  assumes "wf_sys s" "0 \<le> k" "k \<le> 10 ^ 12"
    and run: "payout cfg initiatePayout i (num_of_dec k) bank ref s = (res, s')"
  obtains (refused) err where "res = Inl err" "s' = s"
  | (reserved) d e where "findDriver i s = Some d" "fits_decimal 10 (d_walletBalance d - k)"
      "k \<le> d_walletBalance d" "pendingRow s i (- k) DRIVER_PAYOUT_LINKPAY e"
      "case initiatePayout \<lparr>pq_driverId = i, pq_amount = num_of_dec k, pq_reference = ref,
              pq_bankAccount = bank\<rparr> of
         Inl err \<Rightarrow> res = Inl err \<and> s' = movedState d (- k) e s
       | Inr result \<Rightarrow>
           if ps_success result \<and> ps_status result \<noteq> P_FAILED
           then s' = settleEntry (nextId s)
                  (if ps_status result = P_COMPLETED then L_COMPLETED else L_PENDING)
                  (Some (ps_providerReference result)) (providerMetadata ref (ps_raw result))
                  (movedState d (- k) e s) \<and>
                (\<exists>x. res = Inr x \<and> wr_status x = Some (ps_status result))
           else res = Inl (BadRequestException ''Payout failed'') \<and>
             s' = settleEntry (nextId s) L_FAILED (Some None)
                  (Some (Some (JObj [(''reversed'', JBool True), (''reason'', JStr (ps_message result))])))
                  (saveDriver d (movedState d (- k) e s))"
proof (cases "transaction (reservePayout i (num_of_dec k) bank ref) s")
  case (Pair r s1)
  show thesis
  proof (cases r)
    case (Inl e)
    then have "res = Inl e \<and> s' = s"
      using run Pair by (auto simp: payout_def transaction_Inl_iff)
    then show thesis using refused by blast
  next
    case (Inr entryId)
    then have "reservePayout i (num_of_dec k) bank ref s = (Inr entryId, s1)"
      using Pair by (simp add: transaction_Inr_iff)
    then show thesis
    proof (rule reservePayout_Inr [OF assms(1-3)])
      fix d e
      assume *: "findDriver i s = Some d" "fits_decimal 10 (d_walletBalance d - k)"
        "k \<le> d_walletBalance d" "entryId = nextId s"
        "pendingRow s i (- k) DRIVER_PAYOUT_LINKPAY e" "s1 = movedState d (- k) e s"
      have pos: "\<bar>- k\<bar> \<le> 10 ^ 12" "toKobo (num_of_dec k) = of_int (- (- k))"
        using assms(2,3) toKobo_num_of_dec [of k] by simp_all
      note d = wf_findDriver [OF assms(1) *(1)]
      have fits: "fits_decimal 10 (d_walletBalance d + - k)" using *(2) by simp
      have found: "getBalance cfg i (settleEntry j st r' m (movedState d (- k) e s)) \<noteq> Inl x" for j st r' m x
        using driverRepo.findById_save_same [of "d\<lparr>d_walletBalance := d_walletBalance d + - k\<rparr>" s] d(2)
        by (simp add: getBalance_def movedState_def find_row_defs save_row_defs settleEntry_def)
      show thesis
        by (rule reserved [OF *(1,2,3,5)])
          (use run Pair Inr *(4,6) undo_moved [OF assms(1) *(1) fits pos] found in
            \<open>auto simp: payout_def Let_def andThen_def split: sum.splits if_splits\<close>)
    qed
  qed
qed

text \<open>C17: a payout never overdraws. After a request for \<open>k\<close> kobo, on every path, the driver's
  balance is what it was, or what it was less \<open>k\<close> and then at least \<open>k\<close> was there; a payout the
  gateway accepts or is still processing leaves exactly \<open>k\<close> less, one it fails leaves the row
  untouched.\<close>

theorem payout_never_overdraws:
  assumes "wf_sys s" "0 \<le> k" "k \<le> 10 ^ 12" "findDriver i s = Some d"
    and "requestPayout cfg initiatePayout i (num_of_dec k) bank s = (res, s')"
  shows "\<exists>d'. findDriver i s' = Some d' \<and>
    (d' = d \<or> (d' = d\<lparr>d_walletBalance := d_walletBalance d - k\<rparr> \<and> k \<le> d_walletBalance d)) \<and>
    (\<not> isl res \<longrightarrow> d_walletBalance d' = d_walletBalance d - k \<and> k \<le> d_walletBalance d) \<and>
    (res = Inl (BadRequestException ''Payout failed'') \<and> (\<forall>q. \<not> isl (initiatePayout q)) \<longrightarrow> d' = d)"
proof (cases "live (now s) (redis s (WALLET_PAYOUT_LOCK i))")
  case True
  then show ?thesis using assms(4,5) by (auto simp: requestPayout_def redis_set_nx_def)
next
  case False
  let ?s = "snd (freshId (redis_set_ex (WALLET_PAYOUT_LOCK i) (RText ''1'') 15 s))"
  obtain t where t: "payout cfg initiatePayout i (num_of_dec k) bank (''payout_'' @ uuidText (nextId s)) ?s = (res, t)"
    "s' = redis_del (WALLET_PAYOUT_LOCK i) t"
    using assms(5) False
    by (auto simp: requestPayout_def redis_set_nx_def tryFinally_iff split_beta)
  have base: "findDriver i ?s = Some d" "wf_sys ?s"
    using assms(1,4) by (simp_all add: find_row_defs)
  have "findDriver i s' = findDriver i t" using t(2) by simp
  from base(2) assms(2,3) t(1) show ?thesis
  proof (cases rule: payout_cases)
    case (refused err)
    then show ?thesis using \<open>findDriver i s' = findDriver i t\<close> base(1) by auto
  next
    case (reserved x e)
    then have x: "x = d" using base(1) by simp
    note d = wf_findDriver [OF base(2,1)]
    let ?d = "d\<lparr>d_walletBalance := d_walletBalance d - k\<rparr>"
    have moved: "findDriver i (movedState d (- k) e ?s) = Some ?d"
      "\<And>j st r m. findDriver i (settleEntry j st r m (movedState d (- k) e ?s)) = Some ?d"
      using driverRepo.findById_save_same [of ?d ?s] d(2)
      by (simp_all add: movedState_def find_row_defs save_row_defs settleEntry_def)
    have undone: "\<And>j st r m. findDriver i (settleEntry j st r m (saveDriver d (movedState d (- k) e ?s))) = Some d"
      using driverRepo.findById_save_same [of d "movedState d (- k) e ?s"] d(2)
      by (simp add: find_row_defs settleEntry_def)
    have answers: "(\<forall>q. \<not> isl (initiatePayout q)) \<Longrightarrow> initiatePayout q \<noteq> Inl err" for q err
      by (metis sum.disc(1))
    show ?thesis
      using reserved(3,5) moved undone \<open>findDriver i s' = findDriver i t\<close> x
      by (auto dest: answers split: sum.splits if_splits)
  qed
qed

theorem payout_never_overdraws_witness:
  "\<exists>d'. findDriver 2 (snd (requestPayout demoConfig (simulatedLinkPayPayout 9 0) 2
     (num_of_dec 50000) demoBank (demo ACCEPTED))) = Some d' \<and> d' = demoDriver"
  using payout_never_overdraws [OF demo_wf(1) _ _ _ prod.collapse [symmetric],
      of 50000 2 ACCEPTED demoDriver] by auto

section \<open>Where the wallet does less than its comments say\<close>

definition walletView :: "sys \<Rightarrow> dec2 list \<times> (dec2 \<times> LedgerEntryStatus) list" where
  "walletView s =
     (map d_walletBalance (drivers s), map (\<lambda>e. (le_amount e, le_status e)) (ledger s))"

text \<open>A gateway call that throws is neither settled nor reversed. The class comment says
  the gateway is called after the commit and the movement is then settled or reversed; when the
  provider's promise rejects (a timeout), the caller gets the error, the balance keeps the
  advance of 2,000 Naira and the entry stays pending for good.\<close>

theorem thrown_gateway_not_reversed:
  "let timeout = (\<lambda>_. Inl (GatewayError ''timeout''));
       run = requestFuelSupport demoConfig timeout 2 2000 (demo ACCEPTED)
   in fst run = Inl (GatewayError ''timeout'') \<and>
      walletView (snd run) = ([200000], [(200000, L_PENDING)])"
  by code_simp

text \<open>An amount with a fraction of a kobo unbalances the books. The DTO accepts any number;
  the balance moves by the amount rounded as \<open>Math.round(amount * 100)\<close> in doubles, the ledger
  column rounds the decimal text. For 128.015 Naira the two differ by a kobo, although the
  books were balanced and the bank accepted.\<close>

theorem subkobo_amount_drifts:
  "let s' = snd (requestFuelSupport demoConfig (simulatedMfbDisburse 9 0) 2
         (js_lit (128015 / 1000)) (demo ACCEPTED))
   in walletView s' = ([12801], [(12802, L_COMPLETED)])"
  by code_simp

text \<open>An advance can be paid out before the bank declines it. The fuel and the payout request
  take different locks; between the two phases of a declined advance a payout of the credited
  money passes its balance check, and the reversal leaves the balance negative.\<close>

theorem declined_advance_overdraws:
  "let s1 = snd (transaction (reserveFuel demoConfig 2 2000 ''ref'') (demo ACCEPTED));
       run = requestPayout demoConfig (simulatedLinkPayPayout 9 0) 2 2000 demoBank s1;
       s2 = snd (reverseDriverBalance 2 (- 2000) 5 ''declined'' (snd run))
   in walletView s1 = ([200000], [(200000, L_PENDING)]) \<and> \<not> isl (fst run) \<and>
      walletView s2 = ([- 200000], [(200000, L_FAILED), (- 200000, L_PENDING)])"
  by code_simp

end
