(* ===== verification/Tokens.thy ===== *)
theory Tokens
  imports Repository
begin

text \<open>
  Sessions, \<open>src/auth/services/token.service.ts\<close>: issuing, rotating and revoking refresh tokens,
  and the sweep of \<open>token-cleanup.service.ts\<close>. SHA-256, the CSPRNG and the JWT signature are
  arguments (\<open>tokenEnv\<close>). \<open>rotate\<close> is composed of the database statements it consists of, which
  the theory on concurrent rotations interleaves.
\<close>

section \<open>Data\<close>

definition REFRESH_TOKEN_TTL_DAYS :: int where
  "REFRESH_TOKEN_TTL_DAYS = 30"

record SessionTokens =
  st_accessToken :: string
  st_refreshToken :: string
  st_expiresIn :: int
  st_tokenType :: string

record SessionSubject =
  ss_id :: uuid
  ss_role :: Role
  ss_isDriver :: bool

record SessionContext =
  sc_userAgent :: "string option"
  sc_ipAddress :: "string option"

text \<open>The claims that are signed: \<open>sub\<close>, \<open>role\<close> and, for a driver, \<open>type: 'driver'\<close>.\<close>

record JwtPayload =
  jp_sub :: "uuid option"
  jp_role :: Role
  jp_type :: "string option"

text \<open>
  \<open>te_random i\<close> is the text of the \<open>i\<close>-th draw of 32 random bytes, \<open>te_hash\<close> the hex SHA-256,
  \<open>te_sign\<close> the signature of the claims at an instant.
\<close>

record tokenEnv =
  te_hash :: "string \<Rightarrow> string"
  te_random :: "uuid \<Rightarrow> string"
  te_sign :: "JwtPayload \<Rightarrow> date \<Rightarrow> string"

section \<open>The operations\<close>

definition mint ::
  "tokenEnv \<Rightarrow> SessionSubject \<Rightarrow> uuid \<Rightarrow> SessionContext \<Rightarrow> (sys, SessionTokens) handler" where
  "mint env subject familyId context s =
     (let accessToken = te_sign env \<lparr>jp_sub = Some (ss_id subject), jp_role = ss_role subject,
            jp_type = (if ss_isDriver subject then Some ''driver'' else None)\<rparr> (now s);
          (i, s1) = freshId s;
          refreshToken = te_random env i;
          h = te_hash env refreshToken
      in if \<exists>t\<in>set (refreshTokens s1). t_tokenHash t = h
         then (Inl (QueryFailedError ''tokenHash''), s1)
         else let (j, s2) = freshId s1;
                  row = \<lparr>t_id = j, t_tokenHash = h, t_familyId = familyId,
                    t_subjectId = ss_id subject, t_subjectType = ss_role subject,
                    t_expiresAt = now s2 + REFRESH_TOKEN_TTL_DAYS * 24 * 60 * 60 * 1000,
                    t_revokedAt = None, t_revokedReason = None,
                    t_userAgent = map_option (take 255) (sc_userAgent context),
                    t_ipAddress = sc_ipAddress context, t_createdAt = now s2\<rparr>
              in (Inr \<lparr>st_accessToken = accessToken, st_refreshToken = refreshToken,
                       st_expiresIn = 3600, st_tokenType = ''Bearer''\<rparr>,
                  saveToken row s2))"

definition issueSession ::
  "tokenEnv \<Rightarrow> SessionSubject \<Rightarrow> SessionContext \<Rightarrow> (sys, SessionTokens) handler" where
  "issueSession env subject context s =
     (let (familyId, s1) = freshId s in mint env subject familyId context s1)"

definition updateTokens ::
  "(RefreshToken \<Rightarrow> bool) \<Rightarrow> (RefreshToken \<Rightarrow> RefreshToken) \<Rightarrow> sys \<Rightarrow> sys" where
  "updateTokens P f s = s\<lparr>refreshTokens := tbl_update P f (refreshTokens s)\<rparr>"

text \<open>\<open>{ revokedAt: new Date(), revokedReason: reason }\<close>\<close>

definition revokedAs :: "date \<Rightarrow> string \<Rightarrow> RefreshToken \<Rightarrow> RefreshToken" where
  "revokedAs t reason x = x\<lparr>t_revokedAt := Some t, t_revokedReason := Some reason\<rparr>"

definition revokeFamily :: "uuid \<Rightarrow> string \<Rightarrow> sys \<Rightarrow> sys" where
  "revokeFamily familyId reason s =
     (let s' = updateTokens (\<lambda>t. t_familyId t = familyId \<and> t_revokedAt t = None)
                 (revokedAs (now s) reason) s
      in if reason = ''reuse-detected''
         then updateTokens (\<lambda>t. t_familyId t = familyId)
                (\<lambda>t. t\<lparr>t_revokedReason := Some reason\<rparr>) s'
         else s')"

definition invalidSession :: exn where
  "invalidSession = UnauthorizedException ''Invalid or expired session.''"

definition findByHash :: "string \<Rightarrow> sys \<Rightarrow> RefreshToken option" where
  "findByHash h s = find (\<lambda>t. t_tokenHash t = h) (refreshTokens s)"

text \<open>
  \<open>UPDATE ... WHERE id = ? AND revokedAt IS NULL\<close>: whether a row was affected, lines 121-124.
\<close>

definition claimToken :: "uuid \<Rightarrow> sys \<Rightarrow> bool \<times> sys" where
  "claimToken i s =
     (\<exists>t\<in>set (refreshTokens s). t_id t = i \<and> t_revokedAt t = None,
      updateTokens (\<lambda>t. t_id t = i \<and> t_revokedAt t = None) (revokedAs (now s) ''rotated'') s)"

definition breached :: "uuid \<Rightarrow> sys \<Rightarrow> bool" where
  "breached familyId s \<longleftrightarrow>
     (\<exists>t\<in>set (refreshTokens s). t_familyId t = familyId \<and> t_revokedReason t = Some ''reuse-detected'')"

text \<open>The body of the mint-and-verify transaction, lines 169-188.\<close>

definition mintAndVerify ::
  "tokenEnv \<Rightarrow> SessionSubject \<Rightarrow> uuid \<Rightarrow> SessionContext \<Rightarrow> (sys, SessionTokens) handler" where
  "mintAndVerify env subject familyId context s =
     (case mint env subject familyId context s of
        (Inl e, s1) \<Rightarrow> (Inl e, s1)
      | (Inr session, s1) \<Rightarrow>
          if breached familyId s1 then (Inl SessionCompromisedError, s1)
          else (Inr session, s1))"

text \<open>What follows a successful claim, lines 142-195.\<close>

definition finishRotation ::
  "tokenEnv \<Rightarrow> (uuid \<Rightarrow> Role \<Rightarrow> sys \<Rightarrow> SessionSubject option) \<Rightarrow> SessionContext \<Rightarrow> RefreshToken \<Rightarrow>
   (sys, SessionTokens) handler" where
  "finishRotation env resolveSubject context stored s =
     (case resolveSubject (t_subjectId stored) (t_subjectType stored) s of
        None \<Rightarrow> (Inl invalidSession, revokeFamily (t_familyId stored) ''subject-unavailable'' s)
      | Some subject \<Rightarrow>
          (case transaction (mintAndVerify env subject (t_familyId stored) context) s of
             (Inr session, s') \<Rightarrow> (Inr session, s')
           | (Inl e, s') \<Rightarrow>
               if e = SessionCompromisedError
               then (Inl invalidSession, revokeFamily (t_familyId stored) ''reuse-detected'' s')
               else (Inl e, s')))"

definition rotate ::
  "tokenEnv \<Rightarrow> string \<Rightarrow> (uuid \<Rightarrow> Role \<Rightarrow> sys \<Rightarrow> SessionSubject option) \<Rightarrow> SessionContext \<Rightarrow>
   (sys, SessionTokens) handler" where
  "rotate env presentedToken resolveSubject context s =
     (case findByHash (te_hash env presentedToken) s of
        None \<Rightarrow> (Inl invalidSession, s)
      | Some stored \<Rightarrow>
          if t_revokedAt stored \<noteq> None
          then (Inl invalidSession,
                if t_revokedReason stored = Some ''rotated''
                then revokeFamily (t_familyId stored) ''reuse-detected'' s else s)
          else if t_expiresAt stored \<le> now s
          then (Inl invalidSession, s)
          else (case claimToken (t_id stored) s of
                  (False, s1) \<Rightarrow>
                    (Inl invalidSession, revokeFamily (t_familyId stored) ''reuse-detected'' s1)
                | (True, s1) \<Rightarrow> finishRotation env resolveSubject context stored s1))"

definition revokeByToken :: "tokenEnv \<Rightarrow> string \<Rightarrow> sys \<Rightarrow> sys" where
  "revokeByToken env presentedToken s =
     (case findByHash (te_hash env presentedToken) s of
        None \<Rightarrow> s
      | Some stored \<Rightarrow>
          if t_revokedAt stored \<noteq> None then s else revokeFamily (t_familyId stored) ''logout'' s)"

definition revokeAllForSubject :: "uuid \<Rightarrow> Role \<Rightarrow> sys \<Rightarrow> sys" where
  "revokeAllForSubject subjectId subjectType s =
     updateTokens (\<lambda>t. t_subjectId t = subjectId \<and> t_subjectType t = subjectType \<and> t_revokedAt t = None)
       (revokedAs (now s) ''subject-revoked'') s"

definition pruneExpired :: "int \<Rightarrow> sys \<Rightarrow> nat \<times> sys" where
  "pruneExpired graceDays s =
     (let cutoff = now s - graceDays * 24 * 60 * 60 * 1000
      in (length (filter (\<lambda>t. t_expiresAt t < cutoff) (refreshTokens s)),
          s\<lparr>refreshTokens := tbl_delete (\<lambda>t. t_expiresAt t < cutoff) (refreshTokens s)\<rparr>))"

text \<open>\<open>sweep\<close> of the cleanup service, with the default grace period.\<close>

definition sweep :: "sys \<Rightarrow> sys" where
  "sweep s = snd (pruneExpired 7 s)"

end
