(* ===== verification/TokenRules.thy ===== *)
theory TokenRules
  imports Tokens Samples
begin

text \<open>
  What the session store guarantees: a token is exchanged at most once, a family has at most one
  live token, a replay ends the family, a breached family never gets a session again, logout and
  suspension end sessions, the sweep deletes only what expired more than a week ago.
\<close>

section \<open>The invariant of the table\<close>

definition live_token :: "RefreshToken \<Rightarrow> bool" where
  "live_token t \<longleftrightarrow> t_revokedAt t = None"

definition session_inv :: "sys \<Rightarrow> bool" where
  "session_inv s \<longleftrightarrow>
     distinct (map t_id (refreshTokens s)) \<and> distinct (map t_tokenHash (refreshTokens s)) \<and>
     (\<forall>t\<in>set (refreshTokens s). t_id t < nextId s \<and> t_familyId t < nextId s) \<and>
     (\<forall>t\<in>set (refreshTokens s). \<forall>u\<in>set (refreshTokens s).
        live_token t \<longrightarrow> live_token u \<longrightarrow> t_familyId t = t_familyId u \<longrightarrow> t = u)"

text \<open>A change of a row that never brings a token back to life.\<close>

definition revoking :: "(RefreshToken \<Rightarrow> RefreshToken) \<Rightarrow> bool" where
  "revoking f \<longleftrightarrow> (\<forall>x. t_id (f x) = t_id x \<and> t_tokenHash (f x) = t_tokenHash x \<and>
     t_familyId (f x) = t_familyId x \<and> t_subjectId (f x) = t_subjectId x \<and>
     t_subjectType (f x) = t_subjectType x \<and> t_expiresAt (f x) = t_expiresAt x \<and>
     (live_token (f x) \<longrightarrow> live_token x))"

lemma revoking_revokedAs [simp]: "revoking (revokedAs t r)"
  by (simp add: revoking_def revokedAs_def live_token_def)

lemma revoking_restamp [simp]: "revoking (\<lambda>t. t\<lparr>t_revokedReason := r\<rparr>)"
  by (simp add: revoking_def live_token_def)

lemma updateTokens_frame [simp]:
  "users (updateTokens P f s) = users s" "drivers (updateTokens P f s) = drivers s"
  "now (updateTokens P f s) = now s" "nextId (updateTokens P f s) = nextId s"
  "rides (updateTokens P f s) = rides s" "ledger (updateTokens P f s) = ledger s"
  "vehicles (updateTokens P f s) = vehicles s" "redis (updateTokens P f s) = redis s"
  "refreshTokens (updateTokens P f s) = map (\<lambda>x. if P x then f x else x) (refreshTokens s)"
  by (simp_all add: updateTokens_def tbl_update_def)

lemma session_inv_id: "session_inv s \<Longrightarrow> t \<in> set (refreshTokens s) \<Longrightarrow> u \<in> set (refreshTokens s) \<Longrightarrow>
  t_id t = t_id u \<Longrightarrow> t = u"
  by (auto simp: session_inv_def distinct_map dest: inj_onD)

lemma session_inv_update:
  assumes inv: "session_inv s" and f: "revoking f"
  shows "session_inv (updateTokens P f s)"
proof -
  define g where "g x = (if P x then f x else x)" for x
  have g: "t_id (g x) = t_id x" "t_tokenHash (g x) = t_tokenHash x" "t_familyId (g x) = t_familyId x"
    for x using f by (simp_all add: revoking_def g_def)
  have l: "live_token x" if "live_token (g x)" for x
    using f that by (cases "P x") (simp_all add: revoking_def g_def)
  have ts: "refreshTokens (updateTokens P f s) = map g (refreshTokens s)"
    by (simp add: g_def)
  have "g t = g u" if "t \<in> set (refreshTokens s)" "u \<in> set (refreshTokens s)"
    "live_token (g t)" "live_token (g u)" "t_familyId t = t_familyId u" for t u
  proof -
    have "t = u" using inv l [OF that(3)] l [OF that(4)] that(1,2,5) unfolding session_inv_def by blast
    then show ?thesis by simp
  qed
  then show ?thesis
    using inv unfolding session_inv_def ts by (simp add: g comp_def)
qed

lemma revokeFamily_frame [simp]:
  "users (revokeFamily i r s) = users s" "drivers (revokeFamily i r s) = drivers s"
  "now (revokeFamily i r s) = now s" "nextId (revokeFamily i r s) = nextId s"
  by (simp_all add: revokeFamily_def Let_def)

lemma session_inv_revokeFamily [wf_intros]: "session_inv s \<Longrightarrow> session_inv (revokeFamily i r s)"
  by (simp add: revokeFamily_def Let_def session_inv_update)

text \<open>What a row looks like after its family, or another one, was revoked.\<close>

definition afterRevoke :: "date \<Rightarrow> uuid \<Rightarrow> string \<Rightarrow> RefreshToken \<Rightarrow> RefreshToken" where
  "afterRevoke now' i r x =
     (if t_familyId x \<noteq> i then x
      else let y = (if t_revokedAt x = None then revokedAs now' r x else x)
           in if r = ''reuse-detected'' then y\<lparr>t_revokedReason := Some r\<rparr> else y)"

lemma revokeFamily_tokens:
  "refreshTokens (revokeFamily i r s) = map (afterRevoke (now s) i r) (refreshTokens s)"
  by (auto simp: revokeFamily_def Let_def afterRevoke_def revokedAs_def)

lemma afterRevoke_simps [simp]:
  "t_id (afterRevoke n i r x) = t_id x" "t_tokenHash (afterRevoke n i r x) = t_tokenHash x"
  "t_familyId (afterRevoke n i r x) = t_familyId x"
  "t_expiresAt (afterRevoke n i r x) = t_expiresAt x"
  "live_token (afterRevoke n i r x) \<longleftrightarrow> live_token x \<and> t_familyId x \<noteq> i"
  by (simp_all add: afterRevoke_def revokedAs_def live_token_def Let_def)

lemma afterRevoke_reason:
  "t_familyId x = i \<Longrightarrow> t_revokedReason (afterRevoke n i ''reuse-detected'' x) = Some ''reuse-detected''"
  by (simp add: afterRevoke_def revokedAs_def Let_def)

lemma family_dead:
  "t \<in> set (refreshTokens (revokeFamily i r s)) \<Longrightarrow> t_familyId t = i \<Longrightarrow> \<not> live_token t"
  unfolding revokeFamily_tokens using afterRevoke_simps(3,5) by (smt (verit) imageE list.set_map)

lemma family_breached:
  "t \<in> set (refreshTokens s) \<Longrightarrow> t_familyId t = i \<Longrightarrow> breached i (revokeFamily i ''reuse-detected'' s)"
  by (force simp: breached_def revokeFamily_tokens afterRevoke_reason)

section \<open>Minting\<close>

definition newToken ::
  "tokenEnv \<Rightarrow> SessionSubject \<Rightarrow> uuid \<Rightarrow> SessionContext \<Rightarrow> sys \<Rightarrow> RefreshToken" where
  "newToken env subject familyId context s =
     \<lparr>t_id = Suc (nextId s), t_tokenHash = te_hash env (te_random env (nextId s)),
      t_familyId = familyId, t_subjectId = ss_id subject, t_subjectType = ss_role subject,
      t_expiresAt = now s + 30 * 24 * 60 * 60 * 1000, t_revokedAt = None, t_revokedReason = None,
      t_userAgent = map_option (take 255) (sc_userAgent context),
      t_ipAddress = sc_ipAddress context, t_createdAt = now s\<rparr>"

definition minted ::
  "tokenEnv \<Rightarrow> SessionSubject \<Rightarrow> uuid \<Rightarrow> SessionContext \<Rightarrow> sys \<Rightarrow> sys" where
  "minted env subject familyId context s =
     s\<lparr>nextId := nextId s + 2,
       refreshTokens := refreshTokens s @ [newToken env subject familyId context s]\<rparr>"

lemma mint_run_ids:
  assumes "\<forall>t\<in>set (refreshTokens s). t_id t < nextId s"
  shows "mint env subject familyId context s =
    (if te_hash env (te_random env (nextId s)) \<in> t_tokenHash ` set (refreshTokens s)
     then (Inl (QueryFailedError ''tokenHash''), snd (freshId s))
     else (Inr \<lparr>st_accessToken = te_sign env \<lparr>jp_sub = Some (ss_id subject),
               jp_role = ss_role subject,
               jp_type = (if ss_isDriver subject then Some ''driver'' else None)\<rparr> (now s),
             st_refreshToken = te_random env (nextId s), st_expiresIn = 3600,
             st_tokenType = ''Bearer''\<rparr>,
           minted env subject familyId context s))"
proof -
  have "Suc (nextId s) \<notin> t_id ` set (refreshTokens s)" using assms by force
  then have "tbl_save t_id (newToken env subject familyId context s) (refreshTokens s) =
      refreshTokens s @ [newToken env subject familyId context s]"
    by (simp add: tbl_save_def newToken_def)
  then show ?thesis
    by (simp add: mint_def Let_def freshId_def newToken_def REFRESH_TOKEN_TTL_DAYS_def
        saveToken_def minted_def image_iff eq_commute [of "te_hash env (te_random env (nextId s))"])
qed

lemma mint_run:
  assumes "session_inv s"
  shows "mint env subject familyId context s =
    (if te_hash env (te_random env (nextId s)) \<in> t_tokenHash ` set (refreshTokens s)
     then (Inl (QueryFailedError ''tokenHash''), snd (freshId s))
     else (Inr \<lparr>st_accessToken = te_sign env \<lparr>jp_sub = Some (ss_id subject),
               jp_role = ss_role subject,
               jp_type = (if ss_isDriver subject then Some ''driver'' else None)\<rparr> (now s),
             st_refreshToken = te_random env (nextId s), st_expiresIn = 3600,
             st_tokenType = ''Bearer''\<rparr>,
           minted env subject familyId context s))"
  by (rule mint_run_ids) (use assms in \<open>simp add: session_inv_def\<close>)

lemma mint_Inr:
  assumes "session_inv s" "mint env subject familyId context s = (Inr st, s')"
  shows "s' = minted env subject familyId context s"
    and "st_refreshToken st = te_random env (nextId s)"
    and "te_hash env (te_random env (nextId s)) \<notin> t_tokenHash ` set (refreshTokens s)"
  using assms(2) unfolding mint_run [OF assms(1)] by (auto split: if_splits)

lemma mint_Inl:
  assumes "mint env subject familyId context s = (Inl e, s')"
  shows "e = QueryFailedError ''tokenHash'' \<and> s' = snd (freshId s) \<and>
    te_hash env (te_random env (nextId s)) \<in> t_tokenHash ` set (refreshTokens s)"
proof -
  have mem: "(\<exists>t\<in>A. t_tokenHash t = h) \<longleftrightarrow> h \<in> t_tokenHash ` A" for A h by auto
  show ?thesis
    using assms by (auto simp: mint_def Let_def freshId_def mem split: if_splits)
qed

lemma session_inv_mint:
  assumes "session_inv s" "mint env subject familyId context s = (Inr st, s')"
    and "\<forall>t\<in>set (refreshTokens s). t_familyId t = familyId \<longrightarrow> \<not> live_token t" "familyId < nextId s"
  shows "session_inv s'"
  using mint_Inr [OF assms(1,2)] assms(1,3,4)
  by (auto simp: session_inv_def minted_def newToken_def image_iff less_SucI)

lemma session_inv_freshId: "session_inv s \<Longrightarrow> session_inv (snd (freshId s))"
  by (auto simp: session_inv_def less_SucI)

lemma session_inv_issue:
  assumes "session_inv s" "issueSession env subject context s = (res, s')"
  shows "session_inv s'"
proof -
  have i: "session_inv (snd (freshId s))" using assms(1) by (rule session_inv_freshId)
  have m: "mint env subject (nextId s) context (snd (freshId s)) = (res, s')"
    using assms(2) by (simp add: issueSession_def freshId_def)
  show ?thesis
  proof (cases res)
    case (Inl e)
    then show ?thesis using mint_Inl m session_inv_freshId [OF i] by fastforce
  next
    case (Inr st)
    have "\<forall>t\<in>set (refreshTokens s). t_familyId t < nextId s"
      using assms(1) by (simp add: session_inv_def)
    then have fresh: "\<forall>t\<in>set (refreshTokens (snd (freshId s))). t_familyId t = nextId s \<longrightarrow> \<not> live_token t"
      by auto
    show ?thesis
      by (rule session_inv_mint [OF i m [unfolded Inr] fresh]) simp
  qed
qed

section \<open>Rotation\<close>

lemma findByHash_D: "findByHash h s = Some t \<Longrightarrow> t \<in> set (refreshTokens s) \<and> t_tokenHash t = h"
  by (auto simp: findByHash_def dest: find_SomeD)

text \<open>The state after the claim of a live row.\<close>

definition afterClaim :: "RefreshToken \<Rightarrow> sys \<Rightarrow> sys" where
  "afterClaim stored s =
     updateTokens (\<lambda>t. t_id t = t_id stored \<and> t_revokedAt t = None) (revokedAs (now s) ''rotated'') s"

lemma claim_live:
  "stored \<in> set (refreshTokens s) \<Longrightarrow> live_token stored \<Longrightarrow>
   claimToken (t_id stored) s = (True, afterClaim stored s)"
  by (auto simp: claimToken_def afterClaim_def live_token_def)

lemma afterClaim_frame [simp]:
  "now (afterClaim x s) = now s" "nextId (afterClaim x s) = nextId s"
  "users (afterClaim x s) = users s" "drivers (afterClaim x s) = drivers s"
  by (simp_all add: afterClaim_def)

lemma session_inv_afterClaim: "session_inv s \<Longrightarrow> session_inv (afterClaim x s)"
  by (simp add: afterClaim_def session_inv_update)

lemma hashes_afterClaim: "t_tokenHash ` set (refreshTokens (afterClaim x s)) = t_tokenHash ` set (refreshTokens s)"
proof -
  have "t_tokenHash (if P t then revokedAs n r t else t) = t_tokenHash t" for P n r t
    by (simp add: revokedAs_def)
  then show ?thesis unfolding afterClaim_def updateTokens_frame set_map image_image
    by (intro image_cong) (simp_all add: revokedAs_def)
qed

lemma in_afterClaim:
  assumes "t \<in> set (refreshTokens (afterClaim x s))"
  obtains u where "u \<in> set (refreshTokens s)" "t_id t = t_id u" "t_tokenHash t = t_tokenHash u"
    "t_familyId t = t_familyId u" "live_token t \<longrightarrow> t = u \<and> t_id u \<noteq> t_id x"
proof -
  obtain u where u: "u \<in> set (refreshTokens s)"
    "t = (if t_id u = t_id x \<and> t_revokedAt u = None then revokedAs (now s) ''rotated'' u else u)"
    using assms by (simp only: afterClaim_def updateTokens_frame) auto
  show ?thesis
    by (rule that [of u]) (use u in \<open>auto simp: revokedAs_def live_token_def\<close>)
qed

lemma claim_kills:
  assumes "session_inv s" "stored \<in> set (refreshTokens s)" "live_token stored"
    "t \<in> set (refreshTokens (afterClaim stored s))" "t_familyId t = t_familyId stored"
  shows "\<not> live_token t"
proof
  assume l: "live_token t"
  obtain u where u: "u \<in> set (refreshTokens s)" "live_token t \<longrightarrow> t = u \<and> t_id u \<noteq> t_id stored"
    using in_afterClaim [OF assms(4)] by blast
  have "t = u" "t_id u \<noteq> t_id stored" using u l by simp_all
  moreover have "u = stored"
    using assms(1-3,5) u(1) l \<open>t = u\<close> unfolding session_inv_def by blast
  ultimately show False by simp
qed

text \<open>
  The ways a rotation ends, with the state it leaves: unknown token; a dead one; an expired one;
  no subject; a collision of token hashes; a breached family; success.
\<close>

lemma rotate_cases:
  assumes inv: "session_inv s" and run: "rotate env tok resolve ctx s = (res, s')"
  obtains (unknown) "findByHash (te_hash env tok) s = None" "res = Inl invalidSession" "s' = s"
  | (refused) stored where "findByHash (te_hash env tok) s = Some stored" "res = Inl invalidSession" "s' = s"
      "\<not> live_token stored \<and> t_revokedReason stored \<noteq> Some ''rotated'' \<or>
       live_token stored \<and> t_expiresAt stored \<le> now s"
  | (replay) stored where "findByHash (te_hash env tok) s = Some stored" "\<not> live_token stored"
      "t_revokedReason stored = Some ''rotated''" "res = Inl invalidSession"
      "s' = revokeFamily (t_familyId stored) ''reuse-detected'' s"
  | (no_subject) stored where "findByHash (te_hash env tok) s = Some stored" "live_token stored"
      "now s < t_expiresAt stored"
      "resolve (t_subjectId stored) (t_subjectType stored) (afterClaim stored s) = None"
      "res = Inl invalidSession"
      "s' = revokeFamily (t_familyId stored) ''subject-unavailable'' (afterClaim stored s)"
  | (collision) stored where "findByHash (te_hash env tok) s = Some stored" "live_token stored"
      "res = Inl (QueryFailedError ''tokenHash'')" "s' = afterClaim stored s"
      "te_hash env (te_random env (nextId s)) \<in> t_tokenHash ` set (refreshTokens s)"
      "resolve (t_subjectId stored) (t_subjectType stored) (afterClaim stored s) \<noteq> None"
  | (compromised) stored where "findByHash (te_hash env tok) s = Some stored" "live_token stored"
      "res = Inl invalidSession"
      "s' = revokeFamily (t_familyId stored) ''reuse-detected'' (afterClaim stored s)"
  | (success) stored subject session where "findByHash (te_hash env tok) s = Some stored"
      "live_token stored" "now s < t_expiresAt stored"
      "resolve (t_subjectId stored) (t_subjectType stored) (afterClaim stored s) = Some subject"
      "mint env subject (t_familyId stored) ctx (afterClaim stored s) = (Inr session, s')"
      "\<not> breached (t_familyId stored) s'" "res = Inr session"
proof (cases "findByHash (te_hash env tok) s")
  case None
  then have "res = Inl invalidSession" "s' = s" using run by (simp_all add: rotate_def)
  with None show ?thesis by (rule that(1))
next
  case found: (Some stored)
  note mem = findByHash_D [OF found]
  show ?thesis
  proof (cases "live_token stored")
    case False
    then have r: "res = Inl invalidSession"
      "s' = (if t_revokedReason stored = Some ''rotated''
             then revokeFamily (t_familyId stored) ''reuse-detected'' s else s)"
      using run found by (auto simp: rotate_def live_token_def)
    show ?thesis
    proof (cases "t_revokedReason stored = Some ''rotated''")
      case True
      then show ?thesis using that(3) [OF found False] r by simp
    next
      case not: False
      then show ?thesis using that(2) [OF found r(1)] r(2) False by simp
    qed
  next
    case alive: True
    note cl = claim_live [OF conjunct1 [OF mem] alive]
    show ?thesis
    proof (cases "t_expiresAt stored \<le> now s")
      case True
      then have "res = Inl invalidSession" "s' = s"
        using run found alive by (auto simp: rotate_def live_token_def)
      then show ?thesis using that(2) [OF found] alive True by simp
    next
      case False
      then have fin: "finishRotation env resolve ctx stored (afterClaim stored s) = (res, s')"
        using run found alive by (simp add: rotate_def live_token_def cl)
      show ?thesis
      proof (cases "resolve (t_subjectId stored) (t_subjectType stored) (afterClaim stored s)")
        case None
        then have "res = Inl invalidSession"
          "s' = revokeFamily (t_familyId stored) ''subject-unavailable'' (afterClaim stored s)"
          using fin by (auto simp: finishRotation_def)
        then show ?thesis using that(4) [OF found alive _ None] False by simp
      next
        case subj: (Some subject)
        show ?thesis
        proof (cases "mint env subject (t_familyId stored) ctx (afterClaim stored s)")
          case (Pair r m)
          show ?thesis
          proof (cases r)
            case (Inl e)
            then have e: "e = QueryFailedError ''tokenHash''"
              "te_hash env (te_random env (nextId s)) \<in> t_tokenHash ` set (refreshTokens s)"
              using mint_Inl [of env subject _ ctx "afterClaim stored s" e m] Pair
              by (simp_all only: hashes_afterClaim afterClaim_frame)
            have "res = Inl e" "s' = afterClaim stored s"
              using fin subj Pair by (auto simp: finishRotation_def transaction_def mintAndVerify_def Inl e(1))
            then show ?thesis using that(5) [OF found alive] e subj by simp
          next
            case (Inr session)
            show ?thesis
            proof (cases "breached (t_familyId stored) m")
              case True
              then have "res = Inl invalidSession"
                "s' = revokeFamily (t_familyId stored) ''reuse-detected'' (afterClaim stored s)"
                using fin subj Pair Inr
                by (auto simp: finishRotation_def transaction_def mintAndVerify_def)
              then show ?thesis by (rule that(6) [OF found alive])
            next
              case clean: False
              then have "res = Inr session" "s' = m"
                using fin subj Pair Inr
                by (auto simp: finishRotation_def transaction_def mintAndVerify_def)
              then show ?thesis using that(7) [OF found alive _ subj] Pair Inr clean False by simp
            qed
          qed
        qed
      qed
    qed
  qed
qed

section \<open>Every use of the store\<close>

text \<open>
  What happens to the table over time: sessions are issued, rotated, ended by a logout or by an
  administrator, expired rows are swept, and everything else the backend does leaves the table
  alone while ids are drawn and time passes.
\<close>

inductive session_step :: "tokenEnv \<Rightarrow> sys \<Rightarrow> sys \<Rightarrow> bool" for env where
  issue: "issueSession env subject ctx s = (res, s') \<Longrightarrow> session_step env s s'"
| rotate: "rotate env tok resolve ctx s = (res, s') \<Longrightarrow> session_step env s s'"
| logout: "session_step env s (revokeByToken env tok s)"
| revoke_all: "session_step env s (revokeAllForSubject i ty s)"
| sweep: "session_step env s (sweep s)"
| other: "refreshTokens s' = refreshTokens s \<Longrightarrow> nextId s \<le> nextId s' \<Longrightarrow> now s \<le> now s' \<Longrightarrow>
    session_step env s s'"

text \<open>A family that exists and has no live token.\<close>

definition dead_family :: "uuid \<Rightarrow> sys \<Rightarrow> bool" where
  "dead_family i s \<longleftrightarrow>
     i < nextId s \<and> (\<forall>t\<in>set (refreshTokens s). t_familyId t = i \<longrightarrow> \<not> live_token t)"

lemma session_inv_other:
  "session_inv s \<Longrightarrow> refreshTokens s' = refreshTokens s \<Longrightarrow> nextId s \<le> nextId s' \<Longrightarrow> session_inv s'"
  by (fastforce simp: session_inv_def)

lemma session_inv_sweep: "session_inv s \<Longrightarrow> session_inv (sweep s)"
  by (auto simp: session_inv_def sweep_def pruneExpired_def tbl_delete_def Let_def distinct_map_filter)

lemma session_inv_revokeByToken: "session_inv s \<Longrightarrow> session_inv (revokeByToken env tok s)"
  by (simp add: revokeByToken_def session_inv_revokeFamily split: option.split)

lemma session_inv_rotate:
  assumes inv: "session_inv s" and run: "rotate env tok resolve ctx s = (res, s')"
  shows "session_inv s'"
  using inv run
proof (cases rule: rotate_cases)
  case (success stored subject session)
  note mem = findByHash_D [OF success(1)]
  have "t_familyId stored < nextId (afterClaim stored s)"
    using inv mem by (auto simp: session_inv_def)
  then show ?thesis
    using session_inv_mint [OF session_inv_afterClaim [OF inv] success(5)]
      claim_kills [OF inv conjunct1 [OF mem] success(2)] by blast
qed (simp_all add: inv session_inv_revokeFamily session_inv_afterClaim)

lemma session_inv_step: "session_step env s s' \<Longrightarrow> session_inv s \<Longrightarrow> session_inv s'"
proof (induction rule: session_step.induct)
  case (issue subject ctx s res s')
  then show ?case using session_inv_issue by blast
next
  case (rotate tok resolve ctx s res s')
  then show ?case using session_inv_rotate by blast
next
  case (other s' s)
  then show ?case using session_inv_other by blast
qed (simp_all add: session_inv_revokeByToken session_inv_sweep revokeAllForSubject_def session_inv_update)

lemma session_inv_steps: "(session_step env)\<^sup>*\<^sup>* s s' \<Longrightarrow> session_inv s \<Longrightarrow> session_inv s'"
proof (induction rule: rtranclp_induct)
  case (step y z)
  then show ?case using session_inv_step by blast
qed

lemma dead_family_update:
  assumes "dead_family i s" "revoking f"
  shows "dead_family i (updateTokens P f s)"
proof -
  have "\<not> live_token (if P x then f x else x)"
    if "x \<in> set (refreshTokens s)" "t_familyId (if P x then f x else x) = i" for x
    using assms that by (cases "P x") (auto simp: dead_family_def revoking_def)
  then show ?thesis using assms(1) unfolding dead_family_def updateTokens_frame
    by (metis (no_types, lifting) imageE list.set_map)
qed

lemma dead_family_revoke: "dead_family i s \<Longrightarrow> dead_family i (revokeFamily j r s)"
  by (simp add: revokeFamily_def Let_def dead_family_update)

lemma dead_family_mint:
  assumes "session_inv s" "dead_family i s" "mint env subject j ctx s = (res, s')" "i \<noteq> j"
  shows "dead_family i s'"
proof (cases res)
  case (Inl e)
  then show ?thesis using mint_Inl assms(2,3) by (fastforce simp: dead_family_def)
next
  case (Inr st)
  then show ?thesis
    using mint_Inr(1) [OF assms(1) assms(3) [unfolded Inr]] assms(2,4)
    by (auto simp: dead_family_def minted_def newToken_def)
qed

lemma dead_family_rotate:
  assumes inv: "session_inv s" and dead: "dead_family i s"
    and run: "rotate env tok resolve ctx s = (res, s')"
  shows "dead_family i s'"
proof -
  have c: "dead_family i (afterClaim x s)" for x
    unfolding afterClaim_def by (simp add: dead dead_family_update)
  show ?thesis
    using inv run
  proof (cases rule: rotate_cases)
    case (success stored subject session)
    have "t_familyId stored \<noteq> i"
      using findByHash_D [OF success(1)] success(2) dead by (auto simp: dead_family_def)
    then show ?thesis
      using dead_family_mint [OF session_inv_afterClaim [OF inv] c success(5)] by blast
  qed (simp_all add: c dead dead_family_revoke)
qed

lemma dead_family_issue:
  assumes inv: "session_inv s" and dead: "dead_family i s"
    and run: "issueSession env subject ctx s = (res, s')"
  shows "dead_family i s'"
proof (rule dead_family_mint [OF session_inv_freshId [OF inv]])
  show "dead_family i (snd (freshId s))" using dead by (auto simp: dead_family_def)
  show "mint env subject (nextId s) ctx (snd (freshId s)) = (res, s')"
    using run by (simp add: issueSession_def freshId_def)
  show "i \<noteq> nextId s" using dead by (simp add: dead_family_def)
qed

lemma dead_family_step:
  "session_step env s s' \<Longrightarrow> session_inv s \<Longrightarrow> dead_family i s \<Longrightarrow> dead_family i s'"
proof (induction rule: session_step.induct)
  case (logout s tok)
  then show ?case by (simp add: revokeByToken_def dead_family_revoke split: option.split)
next
  case (revoke_all s j ty)
  then show ?case by (simp add: revokeAllForSubject_def dead_family_update)
next
  case (sweep s)
  then show ?case
    by (auto simp: dead_family_def sweep_def pruneExpired_def tbl_delete_def Let_def)
next
  case (other s' s)
  then show ?case by (auto simp: dead_family_def)
qed (blast intro: dead_family_rotate dead_family_issue)+

lemma dead_family_steps:
  "(session_step env)\<^sup>*\<^sup>* s s' \<Longrightarrow> session_inv s \<Longrightarrow> dead_family i s \<Longrightarrow> dead_family i s'"
proof (induction rule: rtranclp_induct)
  case (step y z)
  then show ?case using dead_family_step session_inv_steps by blast
qed

section \<open>The guarantees\<close>

text \<open>Whatever sessions are issued, rotated, ended and swept, in every state each refresh-token
  family has at most one token that is not revoked.
\<close>

theorem family_single:
  assumes "(session_step env)\<^sup>*\<^sup>* s s'" "session_inv s"
    and "t \<in> set (refreshTokens s')" "u \<in> set (refreshTokens s')"
    and "t_familyId t = t_familyId u" "t_revokedAt t = None" "t_revokedAt u = None"
  shows "t = u"
  using session_inv_steps [OF assms(1,2)] assms(3-) unfolding session_inv_def live_token_def by blast

lemma afterClaim_row:
  assumes "session_inv s" "stored \<in> set (refreshTokens s)" "live_token stored"
  shows "refreshTokens (afterClaim stored s) =
    map (\<lambda>t. if t = stored then revokedAs (now s) ''rotated'' t else t) (refreshTokens s)"
proof -
  have "(t_id t = t_id stored \<and> t_revokedAt t = None) \<longleftrightarrow> t = stored" if "t \<in> set (refreshTokens s)" for t
    using session_inv_id [OF assms(1) that assms(2)] assms(3) by (auto simp: live_token_def)
  then show ?thesis by (simp add: afterClaim_def)
qed

lemma breached_minted: "breached i (minted env subject j ctx s) = breached i s"
  by (auto simp: breached_def minted_def newToken_def)

text \<open>C19: exactly when a rotation succeeds and the state it leaves: the presented token is stored, not
  revoked and not expired, its subject still resolves, no row of its family is stamped as
  breached, and the drawn token is new. The presented row is revoked as rotated and a row for the
  drawn token is added that takes over family and subject; no other row changes.
\<close>

theorem rotate_iff:
  assumes inv: "session_inv s"
  shows "(\<exists>st. rotate env tok resolve ctx s = (Inr st, s')) \<longleftrightarrow>
    (\<exists>stored subject.
       findByHash (te_hash env tok) s = Some stored \<and> t_revokedAt stored = None \<and>
       now s < t_expiresAt stored \<and>
       resolve (t_subjectId stored) (t_subjectType stored) (afterClaim stored s) = Some subject \<and>
       \<not> breached (t_familyId stored) (afterClaim stored s) \<and>
       te_hash env (te_random env (nextId s)) \<notin> t_tokenHash ` set (refreshTokens s) \<and>
       s' = minted env subject (t_familyId stored) ctx (afterClaim stored s) \<and>
       refreshTokens (afterClaim stored s) =
         map (\<lambda>t. if t = stored then revokedAs (now s) ''rotated'' t else t) (refreshTokens s))"
    (is "?run \<longleftrightarrow> ?cond")
proof
  assume ?run
  then obtain st where "rotate env tok resolve ctx s = (Inr st, s')" by blast
  with inv show ?cond
  proof (cases rule: rotate_cases)
    case (success stored subject session)
    note m = mint_Inr [OF session_inv_afterClaim [OF inv] success(5)]
    have "te_hash env (te_random env (nextId s)) \<notin> t_tokenHash ` set (refreshTokens s)"
      using m(3) by (simp only: hashes_afterClaim afterClaim_frame) simp
    then show ?thesis
      using success m(1) afterClaim_row [OF inv _ success(2)] findByHash_D [OF success(1)]
      by (auto simp: live_token_def breached_minted)
  qed simp_all
next
  assume ?cond
  then obtain stored subject where c: "findByHash (te_hash env tok) s = Some stored"
    "live_token stored" "now s < t_expiresAt stored"
    "resolve (t_subjectId stored) (t_subjectType stored) (afterClaim stored s) = Some subject"
    "\<not> breached (t_familyId stored) (afterClaim stored s)"
    "te_hash env (te_random env (nextId s)) \<notin> t_tokenHash ` set (refreshTokens s)"
    "s' = minted env subject (t_familyId stored) ctx (afterClaim stored s)"
    by (auto simp: live_token_def)
  note cl = claim_live [OF conjunct1 [OF findByHash_D [OF c(1)]] c(2)]
  have "rotate env tok resolve ctx s = finishRotation env resolve ctx stored (afterClaim stored s)"
    using c(1-3) by (simp add: rotate_def cl live_token_def)
  then show ?run
    using c(4-7)
    by (simp add: finishRotation_def transaction_def mintAndVerify_def hashes_afterClaim
        mint_run [OF session_inv_afterClaim [OF inv]] breached_minted)
qed

text \<open>
  A row that was consumed by a rotation stays consumed until it is swept: it is stamped as
  rotated, or its family is dead.
\<close>

definition spent :: "uuid \<Rightarrow> uuid \<Rightarrow> sys \<Rightarrow> bool" where
  "spent i fam s \<longleftrightarrow> i < nextId s \<and> fam < nextId s \<and>
     (\<forall>t\<in>set (refreshTokens s). t_id t = i \<longrightarrow> t_familyId t = fam \<and> \<not> live_token t \<and>
        (t_revokedReason t = Some ''rotated'' \<or> dead_family fam s))"

lemma spent_update_live:
  assumes "spent i fam s" "revoking f" "\<And>t. P t \<Longrightarrow> live_token t"
  shows "spent i fam (updateTokens P f s)"
proof -
  have "t_familyId t = fam \<and> \<not> live_token t \<and>
      (t_revokedReason t = Some ''rotated'' \<or> dead_family fam (updateTokens P f s))"
    if t: "t \<in> set (refreshTokens (updateTokens P f s))" "t_id t = i" for t
  proof -
    obtain u where u: "u \<in> set (refreshTokens s)" "t = (if P u then f u else u)"
      using t(1) by (simp only: updateTokens_frame) auto
    have "t_id u = i" using u(2) t(2) assms(2) by (auto simp: revoking_def split: if_splits)
    with u(1) assms(1) have "t_familyId u = fam" "\<not> live_token u"
      "t_revokedReason u = Some ''rotated'' \<or> dead_family fam s"
      by (auto simp: spent_def)
    moreover from this(2) have "\<not> P u" using assms(3) by blast
    ultimately show ?thesis using u(2) dead_family_update [OF _ assms(2)] by auto
  qed
  then show ?thesis using assms(1) by (simp add: spent_def del: updateTokens_frame(9))
qed

lemma spent_revokeFamily:
  assumes "spent i fam s"
  shows "spent i fam (revokeFamily j r s)"
proof -
  have "t_familyId t = fam \<and> \<not> live_token t \<and>
      (t_revokedReason t = Some ''rotated'' \<or> dead_family fam (revokeFamily j r s))"
    if t: "t \<in> set (refreshTokens (revokeFamily j r s))" "t_id t = i" for t
  proof -
    obtain u where u: "u \<in> set (refreshTokens s)" "t = afterRevoke (now s) j r u"
      using t(1) by (simp only: revokeFamily_tokens) auto
    with t(2) assms have *: "t_familyId u = fam" "\<not> live_token u"
      "t_revokedReason u = Some ''rotated'' \<or> dead_family fam s"
      by (auto simp: spent_def)
    have "dead_family j (revokeFamily j r s)" if "j < nextId s"
      using that family_dead unfolding dead_family_def by auto
    then have "dead_family fam (revokeFamily j r s) \<or> t = u \<and> t_revokedReason u = Some ''rotated''"
      using * u(2) assms dead_family_revoke by (auto simp: afterRevoke_def spent_def)
    then show ?thesis using * u(2) by auto
  qed
  then show ?thesis using assms by (simp add: spent_def)
qed

lemma spent_mint:
  assumes "session_inv s" "spent i fam s" "mint env subject j ctx s = (res, s')" "fam \<noteq> j \<or> \<not> dead_family fam s"
  shows "spent i fam s'"
proof (cases res)
  case (Inl e)
  then show ?thesis
    using mint_Inl assms(2,3) by (fastforce simp: spent_def dead_family_def)
next
  case (Inr st)
  have "dead_family fam s \<Longrightarrow> dead_family fam s'"
    using dead_family_mint [OF assms(1) _ assms(3)] assms(4) by blast
  then show ?thesis
    using mint_Inr(1) [OF assms(1) assms(3) [unfolded Inr]] assms(2)
    by (auto simp: spent_def minted_def newToken_def)
qed

lemma spent_afterClaim: "spent i fam s \<Longrightarrow> spent i fam (afterClaim x s)"
  unfolding afterClaim_def by (rule spent_update_live) (simp_all add: live_token_def)

lemma spent_rotate:
  assumes inv: "session_inv s" and sp: "spent i fam s"
    and run: "rotate env tok resolve ctx s = (res, s')"
  shows "spent i fam s'"
  using inv run
proof (cases rule: rotate_cases)
  case (success stored subject session)
  have st: "stored \<in> set (refreshTokens s)" using findByHash_D [OF success(1)] by simp
  note min = mint_Inr(1) [OF session_inv_afterClaim [OF inv] success(5)]
  show ?thesis
  proof (cases "fam = t_familyId stored")
    case False
    then show ?thesis
      using spent_mint [OF session_inv_afterClaim [OF inv] spent_afterClaim [OF sp] success(5)] by blast
  next
    case True
    have "\<not> dead_family fam s" using st success(2) True by (auto simp: dead_family_def)
    then have *: "t_familyId u = fam \<and> \<not> live_token u \<and> t_revokedReason u = Some ''rotated''"
      if "u \<in> set (refreshTokens s)" "t_id u = i" for u
      using sp that by (auto simp: spent_def)
    have "t_familyId t = fam \<and> \<not> live_token t \<and> t_revokedReason t = Some ''rotated''"
      if t: "t \<in> set (refreshTokens (afterClaim stored s))" "t_id t = i" for t
    proof -
      obtain u where u: "u \<in> set (refreshTokens s)"
        "t = (if t_id u = t_id stored \<and> t_revokedAt u = None then revokedAs (now s) ''rotated'' u else u)"
        using t(1) by (simp only: afterClaim_def updateTokens_frame) auto
      moreover have "t_id u = i" using u(2) t(2) by (auto simp: revokedAs_def split: if_splits)
      ultimately show ?thesis using * [of u] by (auto simp: live_token_def)
    qed
    then show ?thesis using sp by (auto simp: spent_def min minted_def newToken_def)
  qed
qed (simp_all add: sp spent_afterClaim spent_revokeFamily)

lemma spent_issue:
  assumes "session_inv s" "spent i fam s" "issueSession env subject ctx s = (res, s')"
  shows "spent i fam s'"
proof (rule spent_mint [OF session_inv_freshId [OF assms(1)]])
  show "spent i fam (snd (freshId s))" using assms(2) by (auto simp: spent_def dead_family_def)
  show "mint env subject (nextId s) ctx (snd (freshId s)) = (res, s')"
    using assms(3) by (simp add: issueSession_def freshId_def)
  show "fam \<noteq> nextId s \<or> \<not> dead_family fam (snd (freshId s))" using assms(2) by (simp add: spent_def)
qed

lemma spent_step:
  "session_step env s s' \<Longrightarrow> session_inv s \<Longrightarrow> spent i fam s \<Longrightarrow> spent i fam s'"
proof (induction rule: session_step.induct)
  case (logout s tok)
  then show ?case by (simp add: revokeByToken_def spent_revokeFamily split: option.split)
next
  case (revoke_all s j ty)
  then show ?case
    unfolding revokeAllForSubject_def by (intro spent_update_live) (simp_all add: live_token_def)
next
  case (sweep s)
  then show ?case
    by (auto simp: spent_def dead_family_def sweep_def pruneExpired_def tbl_delete_def Let_def)
next
  case (other s' s)
  then show ?case by (fastforce simp: spent_def dead_family_def)
qed (blast intro: spent_rotate spent_issue)+

lemma spent_steps:
  "(session_step env)\<^sup>*\<^sup>* s s' \<Longrightarrow> session_inv s \<Longrightarrow> spent i fam s \<Longrightarrow> spent i fam s'"
proof (induction rule: rtranclp_induct)
  case (step y z)
  then show ?case using spent_step session_inv_steps by blast
qed

lemma rotate_spends:
  assumes inv: "session_inv s" and run: "rotate env tok resolve ctx s = (Inr st, s')"
    and found: "findByHash (te_hash env tok) s = Some stored"
  shows "spent (t_id stored) (t_familyId stored) s'"
  using inv run
proof (cases rule: rotate_cases)
  case (success stored' subject session)
  then have same: "stored' = stored" using found by simp
  have mem: "stored \<in> set (refreshTokens s)" using findByHash_D [OF found] by simp
  note min = mint_Inr(1) [OF session_inv_afterClaim [OF inv] success(5)]
  have "t_id stored < nextId s" "t_familyId stored < nextId s"
    using inv mem by (auto simp: session_inv_def)
  moreover have "t = stored" if "t \<in> set (refreshTokens s)" "t_id t = t_id stored" for t
    using session_inv_id [OF inv that(1) mem that(2)] .
  ultimately show ?thesis
    using afterClaim_row [OF inv mem] success(2)
    by (auto simp: spent_def same min minted_def newToken_def revokedAs_def live_token_def)
qed simp_all

lemma replay_kills:
  assumes inv: "session_inv s" and sp: "spent (t_id row) fam s"
    and found: "findByHash (te_hash env tok) s = Some row"
    and run: "rotate env tok resolve ctx s = (res, s')"
  shows "res = Inl invalidSession" "dead_family fam s'"
proof -
  have mem: "row \<in> set (refreshTokens s)" using findByHash_D [OF found] by simp
  have row: "t_familyId row = fam" "\<not> live_token row" "fam < nextId s"
    "t_revokedReason row = Some ''rotated'' \<or> dead_family fam s"
    using sp mem by (auto simp: spent_def)
  then show "res = Inl invalidSession"
    using run found by (auto simp: rotate_def live_token_def)
  show "dead_family fam s'"
  proof (cases "t_revokedReason row = Some ''rotated''")
    case True
    then have "s' = revokeFamily fam ''reuse-detected'' s"
      using run found row by (auto simp: rotate_def live_token_def)
    then show ?thesis using row(3) family_dead unfolding dead_family_def by auto
  next
    case False
    then have "s' = s" "dead_family fam s"
      using run found row by (auto simp: rotate_def live_token_def)
    then show ?thesis by simp
  qed
qed

text \<open>C14: a refresh token is good for one exchange, and presenting it again ends the session for
  everybody: after a successful rotation and any further use of the store, as long as the row has
  not been swept, a second rotation with the same token is refused, and from then on no token of
  the family, the one just minted included, is ever live again.
\<close>

theorem replay_ends_session:
  assumes "session_inv s" "findByHash (te_hash env tok) s = Some stored"
    and "rotate env tok resolve ctx s = (Inr st, s1)"
    and "(session_step env)\<^sup>*\<^sup>* s1 s2"
    and "findByHash (te_hash env tok) s2 = Some row" "t_id row = t_id stored"
    and "rotate env tok resolve' ctx' s2 = (res, s3)"
    and "(session_step env)\<^sup>*\<^sup>* s3 s4"
  shows "res = Inl invalidSession \<and>
    (\<forall>t\<in>set (refreshTokens s4). t_familyId t = t_familyId stored \<longrightarrow> t_revokedAt t \<noteq> None)"
proof -
  have i1: "session_inv s1" using session_inv_rotate [OF assms(1,3)] .
  have i2: "session_inv s2" using session_inv_steps [OF assms(4) i1] .
  have "spent (t_id row) (t_familyId stored) s2"
    using spent_steps [OF assms(4) i1 rotate_spends [OF assms(1,3,2)]] assms(6) by simp
  note k = replay_kills [OF i2 this assms(5,7)]
  have "dead_family (t_familyId stored) s4"
    using dead_family_steps [OF assms(8) session_inv_rotate [OF i2 assms(7)] k(2)] .
  then show ?thesis using k(1) by (auto simp: dead_family_def live_token_def)
qed

text \<open>A step that gives nobody a session.\<close>

definition grants_nothing :: "sys \<Rightarrow> sys \<Rightarrow> bool" where
  "grants_nothing s s' \<longleftrightarrow> map t_id (refreshTokens s') = map t_id (refreshTokens s) \<and>
     (\<forall>t\<in>set (refreshTokens s'). live_token t \<longrightarrow> t \<in> set (refreshTokens s))"

lemma grants_nothing_refl: "grants_nothing s s"
  by (simp add: grants_nothing_def)

lemma grants_nothing_trans: "grants_nothing s t \<Longrightarrow> grants_nothing t u \<Longrightarrow> grants_nothing s u"
  by (simp add: grants_nothing_def)

lemma grants_nothing_claim: "grants_nothing s (afterClaim x s)"
proof -
  have "t \<in> set (refreshTokens s)" if "t \<in> set (refreshTokens (afterClaim x s))" "live_token t" for t
    by (rule in_afterClaim [OF that(1)]) (simp add: that(2))
  moreover have "map t_id (refreshTokens (afterClaim x s)) = map t_id (refreshTokens s)"
    by (simp add: afterClaim_def revokedAs_def)
  ultimately show ?thesis by (simp add: grants_nothing_def)
qed

lemma grants_nothing_revoke: "grants_nothing s (revokeFamily i r s)"
proof -
  have "t \<in> set (refreshTokens s)"
    if t: "t \<in> set (refreshTokens (revokeFamily i r s))" "live_token t" for t
  proof -
    obtain u where u: "u \<in> set (refreshTokens s)" "t = afterRevoke (now s) i r u"
      using t(1) by (simp only: revokeFamily_tokens) auto
    have "t_familyId u \<noteq> i" using t(2) u(2) by simp
    then show ?thesis using u by (simp add: afterRevoke_def)
  qed
  then show ?thesis by (simp add: grants_nothing_def revokeFamily_tokens)
qed

lemma rotate_Inl_grants_nothing:
  assumes inv: "session_inv s" and run: "rotate env tok resolve ctx s = (Inl e, s')"
  shows "e \<in> {invalidSession, QueryFailedError ''tokenHash''} \<and> grants_nothing s s'"
  using inv run
proof (cases rule: rotate_cases)
  case (no_subject stored)
  then show ?thesis using grants_nothing_trans [OF grants_nothing_claim grants_nothing_revoke] by simp
next
  case (compromised stored)
  then show ?thesis using grants_nothing_trans [OF grants_nothing_claim grants_nothing_revoke] by simp
qed (simp_all add: grants_nothing_refl grants_nothing_claim grants_nothing_revoke)

text \<open>A refused rotation always answers the same 401, whatever is wrong with the token (the one
  other error is a collision of token hashes), and it gives nobody a session: no row is added and
  every token that is live afterwards was live before.
\<close>

theorem refused_rotation:
  assumes inv: "session_inv s" and run: "rotate env tok resolve ctx s = (Inl e, s')"
  shows "(e = invalidSession \<or> e = QueryFailedError ''tokenHash'') \<and>
    map t_id (refreshTokens s') = map t_id (refreshTokens s) \<and>
    (\<forall>t\<in>set (refreshTokens s'). t_revokedAt t = None \<longrightarrow> t \<in> set (refreshTokens s))"
  using rotate_Inl_grants_nothing [OF inv run] by (auto simp: grants_nothing_def live_token_def)

text \<open>Logging out ends exactly the family of the presented token: no token of the family is live
  afterwards, tokens of other families are untouched, a second logout with the same token changes
  nothing, and a token that was consumed or is unknown ends nothing.
\<close>

theorem logout_ends_family:
  assumes "session_inv s" "findByHash (te_hash env tok) s = Some stored" "t_revokedAt stored = None"
  shows "(\<forall>t\<in>set (refreshTokens (revokeByToken env tok s)).
       t_familyId t = t_familyId stored \<longrightarrow> t_revokedAt t \<noteq> None) \<and>
    filter (\<lambda>t. t_familyId t \<noteq> t_familyId stored) (refreshTokens (revokeByToken env tok s)) =
      filter (\<lambda>t. t_familyId t \<noteq> t_familyId stored) (refreshTokens s) \<and>
    revokeByToken env tok (revokeByToken env tok s) = revokeByToken env tok s"
proof -
  let ?s = "revokeFamily (t_familyId stored) ''logout'' s"
  have run: "revokeByToken env tok s = ?s" using assms(2,3) by (simp add: revokeByToken_def)
  have 1: "\<forall>t\<in>set (refreshTokens ?s). t_familyId t = t_familyId stored \<longrightarrow> t_revokedAt t \<noteq> None"
    using family_dead unfolding live_token_def by blast
  have "filter (\<lambda>t. t_familyId t \<noteq> i) (map (afterRevoke n i r) ts) = filter (\<lambda>t. t_familyId t \<noteq> i) ts"
    for n i r ts
    by (induction ts) (auto simp: afterRevoke_def revokedAs_def)
  then have 2: "filter (\<lambda>t. t_familyId t \<noteq> t_familyId stored) (refreshTokens ?s) =
      filter (\<lambda>t. t_familyId t \<noteq> t_familyId stored) (refreshTokens s)"
    by (simp add: revokeFamily_tokens)
  have "findByHash (te_hash env tok) ?s = Some (afterRevoke (now s) (t_familyId stored) ''logout'' stored)"
    using assms(2) by (simp add: findByHash_def revokeFamily_tokens find_map_cong)
  moreover have "t_revokedAt (afterRevoke (now s) (t_familyId stored) ''logout'' stored) \<noteq> None"
    by (simp add: afterRevoke_def revokedAs_def)
  ultimately have 3: "revokeByToken env tok ?s = ?s" by (simp add: revokeByToken_def)
  show ?thesis unfolding run using 1 2 3 by blast
qed


text \<open>The sweep removes only rows that expired more than the grace period ago, so never a token
  that a rotation would still accept, and it reports how many it removed.
\<close>

theorem sweep_removes_only_expired:
  assumes "pruneExpired days s = (n, s')" "0 \<le> days" "t \<in> set (refreshTokens s)"
  shows "n + length (refreshTokens s') = length (refreshTokens s) \<and>
    (t \<notin> set (refreshTokens s') \<longleftrightarrow> t_expiresAt t < now s - days * 86400000) \<and>
    (t_tokenHash t = te_hash env tok \<and> t \<notin> set (refreshTokens s') \<and> session_inv s \<longrightarrow>
       fst (rotate env tok resolve ctx s) = Inl invalidSession)"
proof -
  have s': "refreshTokens s' = filter (\<lambda>t. \<not> t_expiresAt t < now s - days * 86400000) (refreshTokens s)"
    "n = length (filter (\<lambda>t. t_expiresAt t < now s - days * 86400000) (refreshTokens s))"
    using assms(1) by (auto simp: pruneExpired_def Let_def tbl_delete_def mult.assoc)
  have "findByHash (te_hash env tok) s = Some t"
    if "t_tokenHash t = te_hash env tok" "session_inv s"
  proof -
    have "find (\<lambda>u. t_tokenHash u = t_tokenHash t) ts = Some t"
      if "distinct (map t_tokenHash ts)" "t \<in> set ts" for ts
      using that by (induction ts) (auto simp: image_iff)
    then show ?thesis using that assms(3) by (simp add: findByHash_def session_inv_def)
  qed
  then show ?thesis
    using s' assms(2,3) sum_length_filter_compl [of "\<lambda>t. t_expiresAt t < now s - days * 86400000" "refreshTokens s"]
    by (auto simp: rotate_def)
qed

section \<open>A concrete session\<close>

definition demoEnv :: tokenEnv where
  "demoEnv = \<lparr>te_hash = (\<lambda>x. CHR ''h'' # x), te_random = (\<lambda>i. replicate i CHR ''r''),
     te_sign = (\<lambda>_ _. ''jwt'')\<rparr>"

definition demoToken :: RefreshToken where
  "demoToken = \<lparr>t_id = 0, t_tokenHash = ''ht'', t_familyId = 1, t_subjectId = 1,
     t_subjectType = USER, t_expiresAt = 5000, t_revokedAt = None, t_revokedReason = None,
     t_userAgent = None, t_ipAddress = None, t_createdAt = 0\<rparr>"

definition demoSession :: sys where
  "demoSession = (demo REQUESTED)\<lparr>refreshTokens := [demoToken]\<rparr>"

definition demoResolve :: "uuid \<Rightarrow> Role \<Rightarrow> sys \<Rightarrow> SessionSubject option" where
  "demoResolve i ty s = Some \<lparr>ss_id = i, ss_role = ty, ss_isDriver = False\<rparr>"

definition demoContext :: SessionContext where
  "demoContext = \<lparr>sc_userAgent = None, sc_ipAddress = None\<rparr>"

lemma demoSession_inv: "session_inv demoSession"
  by (simp add: session_inv_def demoSession_def demoToken_def)

lemma demoSession_found: "findByHash (te_hash demoEnv ''t'') demoSession = Some demoToken"
  by (simp add: findByHash_def demoSession_def demoToken_def demoEnv_def)

theorem family_single_witness: "demoToken = demoToken \<and> session_inv demoSession"
  using family_single [of demoEnv demoSession demoSession demoToken demoToken] demoSession_inv
  by (simp add: demoSession_def demoToken_def)

theorem rotate_iff_witness:
  "\<exists>st s'. rotate demoEnv ''t'' demoResolve demoContext demoSession = (Inr st, s')"
proof -
  let ?c = "afterClaim demoToken demoSession"
  let ?s' = "minted demoEnv \<lparr>ss_id = 1, ss_role = USER, ss_isDriver = False\<rparr> 1 demoContext ?c"
  have d: "demoToken \<in> set (refreshTokens demoSession)" "live_token demoToken"
    "t_revokedAt demoToken = None" "now demoSession < t_expiresAt demoToken"
    "t_familyId demoToken = 1" "t_subjectId demoToken = 1" "t_subjectType demoToken = USER"
    by (simp_all add: demoSession_def demoToken_def live_token_def)
  have n: "\<not> breached 1 ?c"
    by (simp add: breached_def afterClaim_def demoSession_def demoToken_def revokedAs_def)
  have h: "te_hash demoEnv (te_random demoEnv (nextId demoSession)) \<notin> t_tokenHash ` set (refreshTokens demoSession)"
    by (simp add: demoSession_def demoToken_def demoEnv_def eval_nat_numeral)
  have "\<exists>st. rotate demoEnv ''t'' demoResolve demoContext demoSession = (Inr st, ?s')"
    by (rule iffD2 [OF rotate_iff [OF demoSession_inv]], rule exI [of _ demoToken],
        rule exI [of _ "\<lparr>ss_id = 1, ss_role = USER, ss_isDriver = False\<rparr>"])
      (use d n h demoSession_found afterClaim_row [OF demoSession_inv d(1,2)] in \<open>simp add: demoResolve_def\<close>)
  then show ?thesis by blast
qed

lemma demo_rotates:
  obtains st s1 where "rotate demoEnv ''t'' demoResolve demoContext demoSession = (Inr st, s1)"
    "findByHash (te_hash demoEnv ''t'') s1 = Some (revokedAs 1000 ''rotated'' demoToken)"
proof -
  let ?run = "rotate demoEnv ''t'' demoResolve demoContext demoSession"
  have "isl (fst ?run) = False \<and>
      findByHash (te_hash demoEnv ''t'') (snd ?run) = Some (revokedAs 1000 ''rotated'' demoToken)"
    by code_simp
  then show ?thesis
    using that by (metis (no_types, lifting) sum.collapse(2) prod.collapse)
qed

theorem replay_ends_session_witness:
  "fst (rotate demoEnv ''t'' demoResolve demoContext
      (snd (rotate demoEnv ''t'' demoResolve demoContext demoSession))) = Inl invalidSession"
proof -
  obtain st s1 where r: "rotate demoEnv ''t'' demoResolve demoContext demoSession = (Inr st, s1)"
    and f: "findByHash (te_hash demoEnv ''t'') s1 = Some (revokedAs 1000 ''rotated'' demoToken)"
    using demo_rotates by blast
  have "t_id (revokedAs 1000 ''rotated'' demoToken) = t_id demoToken" by (simp add: revokedAs_def)
  from replay_ends_session [OF demoSession_inv demoSession_found r rtranclp.rtrancl_refl f this
      prod.collapse [symmetric] rtranclp.rtrancl_refl]
  show ?thesis using r by simp
qed

theorem refused_rotation_witness:
  "fst (rotate demoEnv ''u'' demoResolve demoContext demoSession) = Inl invalidSession"
proof -
  have "findByHash (te_hash demoEnv ''u'') demoSession = None"
    by (simp add: findByHash_def demoSession_def demoToken_def demoEnv_def)
  then have "rotate demoEnv ''u'' demoResolve demoContext demoSession = (Inl invalidSession, demoSession)"
    by (simp add: rotate_def)
  from refused_rotation [OF demoSession_inv this] this show ?thesis by simp
qed

theorem logout_ends_family_witness:
  "revokeByToken demoEnv ''t'' (revokeByToken demoEnv ''t'' demoSession) = revokeByToken demoEnv ''t'' demoSession"
  using logout_ends_family [OF demoSession_inv demoSession_found] by (simp add: demoToken_def)


theorem sweep_removes_only_expired_witness:
  "fst (pruneExpired 7 demoSession) + length (refreshTokens (sweep demoSession)) = 1"
  using sweep_removes_only_expired [OF prod.collapse [symmetric], of 7 demoToken demoSession]
  by (simp add: sweep_def) (simp add: demoSession_def)

end
