(* ===== verification/TokenRaces.thy ===== *)
theory TokenRaces
  imports TokenRules
begin

text \<open>
  Concurrent calls of \<open>TokenService.rotate\<close>: each call is the sequence of its database statements,
  and the calls interleave statement by statement. The insert of the new row becomes visible
  at the commit of its transaction, which is a statement of its own (READ COMMITTED, the default of
  Postgres, which the data source does not change).
\<close>

section \<open>One call, statement by statement\<close>

datatype rotation =
    Presented string
  | Read RefreshToken
  | Reused RefreshToken
  | Claimed RefreshToken
  | Orphaned RefreshToken
  | Resolved RefreshToken SessionSubject
  | Verified RefreshToken RefreshToken SessionTokens
  | Exchanged RefreshToken SessionTokens
  | Failed exn

text \<open>
  \<open>Resolved\<close>: the insert and the breach check of the transaction; the row stays invisible to the
  other calls until \<open>Verified\<close> commits it. A breach rolls the insert back.
\<close>

fun rotate_stmt ::
  "tokenEnv \<Rightarrow> (uuid \<Rightarrow> Role \<Rightarrow> sys \<Rightarrow> SessionSubject option) \<Rightarrow> SessionContext \<Rightarrow> rotation \<Rightarrow> sys \<Rightarrow>
   rotation \<times> sys" where
  "rotate_stmt env resolve ctx (Presented tok) s =
     (case findByHash (te_hash env tok) s of
        None \<Rightarrow> (Failed invalidSession, s)
      | Some stored \<Rightarrow>
          if t_revokedAt stored \<noteq> None
          then if t_revokedReason stored = Some ''rotated'' then (Reused stored, s)
               else (Failed invalidSession, s)
          else if t_expiresAt stored \<le> now s then (Failed invalidSession, s)
          else (Read stored, s))"
| "rotate_stmt env resolve ctx (Read stored) s =
     (case claimToken (t_id stored) s of
        (True, s1) \<Rightarrow> (Claimed stored, s1)
      | (False, s1) \<Rightarrow> (Reused stored, s1))"
| "rotate_stmt env resolve ctx (Reused stored) s =
     (Failed invalidSession, revokeFamily (t_familyId stored) ''reuse-detected'' s)"
| "rotate_stmt env resolve ctx (Claimed stored) s =
     (case resolve (t_subjectId stored) (t_subjectType stored) s of
        None \<Rightarrow> (Orphaned stored, s)
      | Some subject \<Rightarrow> (Resolved stored subject, s))"
| "rotate_stmt env resolve ctx (Orphaned stored) s =
     (Failed invalidSession, revokeFamily (t_familyId stored) ''subject-unavailable'' s)"
| "rotate_stmt env resolve ctx (Resolved stored subject) s =
     (case mint env subject (t_familyId stored) ctx s of
        (Inl e, s1) \<Rightarrow> (Failed e, s)
      | (Inr session, s1) \<Rightarrow>
          if breached (t_familyId stored) s1 then (Reused stored, s)
          else (Verified stored (last (refreshTokens s1)) session, s\<lparr>nextId := nextId s1\<rparr>))"
| "rotate_stmt env resolve ctx (Verified stored row session) s =
     (Exchanged stored session, saveToken row s)"
| "rotate_stmt env resolve ctx (Exchanged stored session) s = (Exchanged stored session, s)"
| "rotate_stmt env resolve ctx (Failed e) s = (Failed e, s)"

section \<open>Many calls\<close>

text \<open>A schedule names, for every step, the call whose next statement runs.\<close>

fun run_schedule ::
  "tokenEnv \<Rightarrow> (uuid \<Rightarrow> Role \<Rightarrow> sys \<Rightarrow> SessionSubject option) \<Rightarrow> SessionContext \<Rightarrow> nat list \<Rightarrow>
   rotation list \<times> sys \<Rightarrow> rotation list \<times> sys" where
  "run_schedule env resolve ctx [] w = w"
| "run_schedule env resolve ctx (k # ks) (cs, s) =
     (if k < length cs
      then let (c, s') = rotate_stmt env resolve ctx (cs ! k) s
           in run_schedule env resolve ctx ks (cs[k := c], s')
      else run_schedule env resolve ctx ks (cs, s))"

text \<open>The row a call has consumed, and the row it is about to commit.\<close>

fun holder :: "rotation \<Rightarrow> uuid option" where
  "holder (Claimed stored) = Some (t_id stored)"
| "holder (Orphaned stored) = Some (t_id stored)"
| "holder (Resolved stored _) = Some (t_id stored)"
| "holder (Verified stored _ _) = Some (t_id stored)"
| "holder (Exchanged stored _) = Some (t_id stored)"
| "holder _ = None"

fun pending :: "rotation \<Rightarrow> uuid option" where
  "pending (Verified _ row _) = Some (t_id row)"
| "pending _ = None"

definition rows_ok :: "sys \<Rightarrow> bool" where
  "rows_ok s \<longleftrightarrow> (\<forall>t\<in>set (refreshTokens s). t_id t < nextId s)"

definition holders_ok :: "rotation list \<Rightarrow> sys \<Rightarrow> bool" where
  "holders_ok cs s \<longleftrightarrow> (\<forall>k<length cs. \<forall>i. holder (cs ! k) = Some i \<longrightarrow> i < nextId s \<and>
     (\<forall>t\<in>set (refreshTokens s). t_id t = i \<longrightarrow> \<not> live_token t))"

definition pendings_ok :: "rotation list \<Rightarrow> sys \<Rightarrow> bool" where
  "pendings_ok cs s \<longleftrightarrow> (\<forall>k<length cs. \<forall>i. pending (cs ! k) = Some i \<longrightarrow> i < nextId s \<and>
     i \<notin> t_id ` set (refreshTokens s))"

definition apart :: "rotation list \<Rightarrow> bool" where
  "apart cs \<longleftrightarrow> (\<forall>k<length cs. \<forall>l<length cs. \<forall>i.
     (holder (cs ! k) = Some i \<longrightarrow> pending (cs ! l) \<noteq> Some i) \<and>
     (pending (cs ! k) = Some i \<longrightarrow> pending (cs ! l) = Some i \<longrightarrow> k = l) \<and>
     (holder (cs ! k) = Some i \<longrightarrow> holder (cs ! l) = Some i \<longrightarrow> k = l))"

definition race_inv :: "rotation list \<Rightarrow> sys \<Rightarrow> bool" where
  "race_inv cs s \<longleftrightarrow> rows_ok s \<and> holders_ok cs s \<and> pendings_ok cs s \<and> apart cs"

text \<open>A statement that consumes no row and inserts none.\<close>

lemma race_inv_quiet:
  assumes inv: "race_inv cs s" and k: "k < length cs"
    and c: "holder c = None \<or> holder c = holder (cs ! k)" "pending c = None \<or> pending c = pending (cs ! k)"
    and s': "grants_nothing s s'" "nextId s \<le> nextId s'"
  shows "race_inv (cs[k := c]) s'"
proof -
  have h: "holder (cs ! l) = Some i" if "holder (cs[k := c] ! l) = Some i" for l i
    using c(1) that k by (cases "l = k") auto
  have p: "pending (cs ! l) = Some i" if "pending (cs[k := c] ! l) = Some i" for l i
    using c(2) that k by (cases "l = k") auto
  have ids: "t_id ` set (refreshTokens s') = t_id ` set (refreshTokens s)"
    using s'(1) by (metis grants_nothing_def list.set_map)
  have lv: "t \<in> set (refreshTokens s)" if "t \<in> set (refreshTokens s')" "live_token t" for t
    using s'(1) that by (simp add: grants_nothing_def)
  have "t_id t < nextId s'" if "t \<in> set (refreshTokens s')" for t
  proof -
    have "t_id t \<in> t_id ` set (refreshTokens s)" using that ids by blast
    then show ?thesis using inv s'(2) by (fastforce simp: race_inv_def rows_ok_def)
  qed
  then have 1: "rows_ok s'" by (simp add: rows_ok_def)
  have 2: "holders_ok (cs[k := c]) s'"
    unfolding holders_ok_def
  proof (intro allI impI)
    fix l i assume "l < length (cs[k := c])" "holder (cs[k := c] ! l) = Some i"
    then have "i < nextId s \<and> (\<forall>t\<in>set (refreshTokens s). t_id t = i \<longrightarrow> \<not> live_token t)"
      using h inv by (simp add: race_inv_def holders_ok_def)
    then show "i < nextId s' \<and> (\<forall>t\<in>set (refreshTokens s'). t_id t = i \<longrightarrow> \<not> live_token t)"
      using lv s'(2) by fastforce
  qed
  have 3: "pendings_ok (cs[k := c]) s'"
    unfolding pendings_ok_def ids
  proof (intro allI impI)
    fix l i assume "l < length (cs[k := c])" "pending (cs[k := c] ! l) = Some i"
    then have "i < nextId s \<and> i \<notin> t_id ` set (refreshTokens s)"
      using p inv by (simp add: race_inv_def pendings_ok_def)
    then show "i < nextId s' \<and> i \<notin> t_id ` set (refreshTokens s)" using s'(2) by auto
  qed
  have "apart cs" using inv by (simp add: race_inv_def)
  then have "apart (cs[k := c])" unfolding apart_def length_list_update using h p by meson
  with 1 2 3 show ?thesis by (simp add: race_inv_def)
qed

text \<open>A call becomes the holder of a row that nobody else holds or is about to insert.\<close>

lemma race_inv_hold:
  assumes inv: "race_inv cs s" and k: "k < length cs"
    and c: "holder c = Some i" "pending c = None" "i < nextId s"
    and dead: "\<forall>t\<in>set (refreshTokens s). t_id t = i \<longrightarrow> \<not> live_token t"
    and free: "\<forall>l<length cs. holder (cs ! l) \<noteq> Some i \<and> pending (cs ! l) \<noteq> Some i"
  shows "race_inv (cs[k := c]) s"
proof -
  have h: "l = k \<and> j = i \<or> l \<noteq> k \<and> holder (cs ! l) = Some j" if "holder (cs[k := c] ! l) = Some j" for l j
    using c(1) that k by (cases "l = k") auto
  have p: "pending (cs ! l) = Some j \<and> l \<noteq> k" if "pending (cs[k := c] ! l) = Some j" for l j
    using c(2) that k by (cases "l = k") auto
  have a: "apart cs" "holders_ok cs s" "pendings_ok cs s" "rows_ok s" using inv by (auto simp: race_inv_def)
  have "holders_ok (cs[k := c]) s"
    unfolding holders_ok_def length_list_update using h a(2) c(3) dead unfolding holders_ok_def by metis
  moreover have "pendings_ok (cs[k := c]) s"
    unfolding pendings_ok_def length_list_update using p a(3) unfolding pendings_ok_def by metis
  moreover have "apart (cs[k := c])"
    unfolding apart_def length_list_update
  proof (intro allI impI conjI)
    fix l m j assume lm: "l < length cs" "m < length cs"
    show "pending (cs[k := c] ! m) \<noteq> Some j" if "holder (cs[k := c] ! l) = Some j"
    proof
      assume "pending (cs[k := c] ! m) = Some j"
      then have "pending (cs ! m) = Some j" using p by blast
      then show False using h [OF that] free a(1) lm unfolding apart_def by blast
    qed
    show "l = m" if "pending (cs[k := c] ! l) = Some j" "pending (cs[k := c] ! m) = Some j"
      using p [OF that(1)] p [OF that(2)] a(1) lm unfolding apart_def by blast
    show "l = m" if "holder (cs[k := c] ! l) = Some j" "holder (cs[k := c] ! m) = Some j"
      using h [OF that(1)] h [OF that(2)] free a(1) lm unfolding apart_def by blast
  qed
  ultimately show ?thesis using a(4) by (simp add: race_inv_def)
qed

lemma race_inv_pend:
  assumes inv: "race_inv cs s" and k: "k < length cs"
    and c: "holder c = holder (cs ! k)" "pending c = Some j" "nextId s \<le> j" "j < n"
  shows "race_inv (cs[k := c]) (s\<lparr>nextId := n\<rparr>)"
proof -
  have h: "holder (cs ! l) = Some i" if "holder (cs[k := c] ! l) = Some i" for l i
    using c(1) that k by (cases "l = k") auto
  have p: "l = k \<and> i = j \<or> l \<noteq> k \<and> pending (cs ! l) = Some i" if "pending (cs[k := c] ! l) = Some i" for l i
    using c(2) that k by (cases "l = k") auto
  have a: "apart cs" "holders_ok cs s" "pendings_ok cs s" "rows_ok s" using inv by (auto simp: race_inv_def)
  have hj: "i < j" if "l < length cs" "holder (cs ! l) = Some i" for l i
    using a(2) that c(3) unfolding holders_ok_def by fastforce
  have pj: "i < j" if "l < length cs" "pending (cs ! l) = Some i" for l i
    using a(3) that c(3) unfolding pendings_ok_def by fastforce
  have n: "nextId s < n" using c(3,4) by simp
  have "rows_ok (s\<lparr>nextId := n\<rparr>)" using a(4) n by (auto simp: rows_ok_def)
  moreover have "holders_ok (cs[k := c]) (s\<lparr>nextId := n\<rparr>)"
    unfolding holders_ok_def length_list_update
  proof (intro allI impI)
    fix l i assume l: "l < length cs" "holder (cs[k := c] ! l) = Some i"
    then have "i < nextId s \<and> (\<forall>t\<in>set (refreshTokens s). t_id t = i \<longrightarrow> \<not> live_token t)"
      using h a(2) unfolding holders_ok_def by blast
    then show "i < nextId (s\<lparr>nextId := n\<rparr>) \<and>
        (\<forall>t\<in>set (refreshTokens (s\<lparr>nextId := n\<rparr>)). t_id t = i \<longrightarrow> \<not> live_token t)" using n by simp
  qed
  moreover have "pendings_ok (cs[k := c]) (s\<lparr>nextId := n\<rparr>)"
    unfolding pendings_ok_def length_list_update
  proof (intro allI impI)
    fix l i assume l: "l < length cs" "pending (cs[k := c] ! l) = Some i"
    have "j \<notin> t_id ` set (refreshTokens s)" using a(4) c(3) by (force simp: rows_ok_def)
    then show "i < nextId (s\<lparr>nextId := n\<rparr>) \<and> i \<notin> t_id ` set (refreshTokens (s\<lparr>nextId := n\<rparr>))"
      using p [OF l(2)] l(1) a(3) n c(4) by (auto simp: pendings_ok_def)
  qed
  moreover have "apart (cs[k := c])"
    unfolding apart_def length_list_update
  proof (intro allI impI conjI)
    fix l m i assume lm: "l < length cs" "m < length cs"
    show "pending (cs[k := c] ! m) \<noteq> Some i" if "holder (cs[k := c] ! l) = Some i"
      using h [OF that] p [of m i] hj lm a(1) unfolding apart_def by blast
    show "l = m" if "pending (cs[k := c] ! l) = Some i" "pending (cs[k := c] ! m) = Some i"
      using p [OF that(1)] p [OF that(2)] pj a(1) lm unfolding apart_def by blast
    show "l = m" if "holder (cs[k := c] ! l) = Some i" "holder (cs[k := c] ! m) = Some i"
      using h [OF that(1)] h [OF that(2)] a(1) lm unfolding apart_def by blast
  qed
  ultimately show ?thesis by (simp add: race_inv_def)
qed

text \<open>The commit: the pending row enters the table.\<close>

lemma race_inv_commit:
  assumes inv: "race_inv cs s" and k: "k < length cs" and v: "cs ! k = Verified stored row session"
  shows "race_inv (cs[k := Exchanged stored session]) (saveToken row s)"
proof -
  let ?c = "Exchanged stored session"
  have h: "holder (cs ! l) = Some i" if "holder (cs[k := ?c] ! l) = Some i" for l i
    using v that k by (cases "l = k") auto
  have p: "l \<noteq> k \<and> pending (cs ! l) = Some i" if "pending (cs[k := ?c] ! l) = Some i" for l i
    using that k by (cases "l = k") auto
  have a: "apart cs" "holders_ok cs s" "pendings_ok cs s" "rows_ok s" using inv by (auto simp: race_inv_def)
  have pk: "pending (cs ! k) = Some (t_id row)" using v by simp
  have new: "t_id row < nextId s" "t_id row \<notin> t_id ` set (refreshTokens s)"
    using a(3) k pk unfolding pendings_ok_def by blast+
  have rows: "refreshTokens (saveToken row s) = refreshTokens s @ [row]"
    using new(2) by (rule tokenRepo.save_insert)
  have "rows_ok (saveToken row s)" using a(4) new(1) by (auto simp: rows_ok_def rows)
  moreover have "holders_ok (cs[k := ?c]) (saveToken row s)"
    unfolding holders_ok_def length_list_update
  proof (intro allI impI)
    fix l i assume l: "l < length cs" "holder (cs[k := ?c] ! l) = Some i"
    have "i \<noteq> t_id row" using h [OF l(2)] pk a(1) l(1) k unfolding apart_def by blast
    moreover have "i < nextId s \<and> (\<forall>t\<in>set (refreshTokens s). t_id t = i \<longrightarrow> \<not> live_token t)"
      using h [OF l(2)] l(1) a(2) unfolding holders_ok_def by blast
    ultimately show "i < nextId (saveToken row s) \<and>
        (\<forall>t\<in>set (refreshTokens (saveToken row s)). t_id t = i \<longrightarrow> \<not> live_token t)" by (auto simp: rows)
  qed
  moreover have "pendings_ok (cs[k := ?c]) (saveToken row s)"
    unfolding pendings_ok_def length_list_update
  proof (intro allI impI)
    fix l i assume l: "l < length cs" "pending (cs[k := ?c] ! l) = Some i"
    have "i \<noteq> t_id row" using p [OF l(2)] pk a(1) l(1) k unfolding apart_def by blast
    moreover have "i < nextId s \<and> i \<notin> t_id ` set (refreshTokens s)"
      using p [OF l(2)] l(1) a(3) unfolding pendings_ok_def by blast
    ultimately show "i < nextId (saveToken row s) \<and> i \<notin> t_id ` set (refreshTokens (saveToken row s))"
      by (auto simp: rows)
  qed
  moreover have "apart (cs[k := ?c])"
    using a(1) h p unfolding apart_def length_list_update by meson
  ultimately show ?thesis by (simp add: race_inv_def)
qed

lemma race_inv_step:
  assumes inv: "race_inv cs s" and k: "k < length cs"
    and st: "rotate_stmt env resolve ctx (cs ! k) s = (c, s')"
  shows "race_inv (cs[k := c]) s'"
proof (cases "cs ! k")
  case (Presented tok)
  have "s' = s" "holder c = None" "pending c = None"
    using st Presented by (auto split: option.splits if_splits)
  then show ?thesis using race_inv_quiet [OF inv k _ _ grants_nothing_refl] by simp
next
  case (Read stored)
  note step = race_inv_quiet [OF inv k _ _ grants_nothing_claim [of s stored], of "Reused stored"]
  have cl: "claimToken (t_id stored) s = (fst (claimToken (t_id stored) s), afterClaim stored s)"
    by (simp add: claimToken_def afterClaim_def)
  show ?thesis
  proof (cases "fst (claimToken (t_id stored) s)")
    case False
    then have "c = Reused stored" "s' = afterClaim stored s"
      using st Read cl by (metis (mono_tags, lifting) bool.case(2) case_prod_conv prod.inject rotate_stmt.simps(2))+
    then show ?thesis using step by simp
  next
    case True
    then have c: "c = Claimed stored" "s' = afterClaim stored s"
      using st Read cl by (metis (mono_tags, lifting) bool.case(1) case_prod_conv prod.inject rotate_stmt.simps(2))+
    obtain t where t: "t \<in> set (refreshTokens s)" "t_id t = t_id stored" "live_token t"
      using True by (auto simp: claimToken_def live_token_def)
    have free: "holder (cs ! l) \<noteq> Some (t_id stored) \<and> pending (cs ! l) \<noteq> Some (t_id stored)"
      if "l < length cs" for l
      using inv that t unfolding race_inv_def holders_ok_def pendings_ok_def by (metis imageI)
    have "race_inv ((cs[k := Reused stored])[k := Claimed stored]) s'"
    proof (rule race_inv_hold)
      show "race_inv (cs[k := Reused stored]) s'" using step c(2) by simp
      show "t_id stored < nextId s'"
        using inv t(1,2) by (auto simp: race_inv_def rows_ok_def c(2))
      show "\<forall>t\<in>set (refreshTokens s'). t_id t = t_id stored \<longrightarrow> \<not> live_token t"
        unfolding c(2) by (metis in_afterClaim)
      show "\<forall>l<length (cs[k := Reused stored]). holder (cs[k := Reused stored] ! l) \<noteq> Some (t_id stored) \<and>
          pending (cs[k := Reused stored] ! l) \<noteq> Some (t_id stored)"
        using free k by (auto simp: nth_list_update)
    qed (simp_all add: k)
    then show ?thesis by (simp add: c(1))
  qed
next
  case (Reused stored)
  have "c = Failed invalidSession" "s' = revokeFamily (t_familyId stored) ''reuse-detected'' s"
    using st Reused by simp_all
  then show ?thesis using race_inv_quiet [OF inv k _ _ grants_nothing_revoke] by simp
next
  case (Claimed stored)
  then have "s' = s" "holder c = holder (cs ! k)" "pending c = None"
    using st by (auto split: option.splits)
  then show ?thesis using race_inv_quiet [OF inv k _ _ grants_nothing_refl] by simp
next
  case (Orphaned stored)
  have "c = Failed invalidSession" "s' = revokeFamily (t_familyId stored) ''subject-unavailable'' s"
    using st Orphaned by simp_all
  then show ?thesis using race_inv_quiet [OF inv k _ _ grants_nothing_revoke] by simp
next
  case (Resolved stored subject)
  have ids: "\<forall>t\<in>set (refreshTokens s). t_id t < nextId s" using inv by (simp add: race_inv_def rows_ok_def)
  note run = mint_run_ids [OF ids, of env subject "t_familyId stored" ctx]
  show ?thesis
  proof (cases "s' = s")
    case True
    then have "holder c = None" "pending c = None"
      using st Resolved run by (auto simp: minted_def split: if_splits dest: arg_cong [where f = nextId])
    then show ?thesis using race_inv_quiet [OF inv k _ _ grants_nothing_refl] True by simp
  next
    case False
    then obtain session where "c = Verified stored (newToken env subject (t_familyId stored) ctx s) session"
      "s' = s\<lparr>nextId := nextId s + 2\<rparr>"
      using st Resolved run by (auto simp: minted_def split: if_splits)
    then show ?thesis
      using race_inv_pend [OF inv k, of c "Suc (nextId s)" "nextId s + 2"] Resolved
      by (simp add: newToken_def)
  qed
next
  case (Verified stored row session)
  then show ?thesis using st race_inv_commit [OF inv k Verified] by simp
next
  case (Exchanged stored session)
  then show ?thesis using st race_inv_quiet [OF inv k _ _ grants_nothing_refl] by auto
next
  case (Failed e)
  then show ?thesis using st race_inv_quiet [OF inv k _ _ grants_nothing_refl] by auto
qed

lemma race_inv_run:
  "race_inv cs s \<Longrightarrow> run_schedule env resolve ctx ks (cs, s) = (cs', s') \<Longrightarrow> race_inv cs' s'"
proof (induction ks arbitrary: cs s)
  case (Cons k ks)
  show ?case
  proof (cases "k < length cs")
    case True
    obtain c t where ct: "rotate_stmt env resolve ctx (cs ! k) s = (c, t)" by (cases "rotate_stmt env resolve ctx (cs ! k) s")
    then have "run_schedule env resolve ctx ks (cs[k := c], t) = (cs', s')" using Cons.prems(2) True by simp
    then show ?thesis using Cons.IH race_inv_step [OF Cons.prems(1) True ct] by blast
  qed (use Cons in simp)
qed simp

section \<open>What holds under every interleaving\<close>


fun outcome_of :: "rotation \<Rightarrow> SessionTokens outcome option" where
  "outcome_of (Exchanged _ session) = Some (Inr session)"
| "outcome_of (Failed e) = Some (Inl e)"
| "outcome_of _ = None"

lemma run_alone_final:
  "run_schedule env resolve ctx (replicate n 0) ([Failed e], s) = ([Failed e], s)"
  "run_schedule env resolve ctx (replicate n 0) ([Exchanged st t], s) = ([Exchanged st t], s)"
  by (induction n) simp_all

definition agrees :: "rotation list \<times> sys \<Rightarrow> SessionTokens outcome \<times> sys \<Rightarrow> bool" where
  "agrees w r \<longleftrightarrow> map outcome_of (fst w) = [Some (fst r)] \<and> snd w = snd r"

lemma finish_alone:
  assumes ids: "\<forall>t\<in>set (refreshTokens s). t_id t < nextId s"
  shows "agrees (run_schedule env resolve ctx (replicate 4 0) ([Claimed stored], s))
    (finishRotation env resolve ctx stored s)"
proof -
  have four: "replicate 4 (0::nat) = 0 # 0 # 0 # [0]" by (simp add: eval_nat_numeral)
  show ?thesis
  proof (cases "resolve (t_subjectId stored) (t_subjectType stored) s")
    case None
    then show ?thesis by (simp add: agrees_def four finishRotation_def)
  next
    case (Some subject)
    note run = mint_run_ids [OF ids, of env subject "t_familyId stored" ctx]
    have "saveToken (newToken env subject (t_familyId stored) ctx s) (s\<lparr>nextId := nextId s + 2\<rparr>) =
        minted env subject (t_familyId stored) ctx s"
      using ids by (force simp: saveToken_def tbl_save_def minted_def newToken_def)
    moreover have "last (refreshTokens (minted env subject (t_familyId stored) ctx s)) =
        newToken env subject (t_familyId stored) ctx s" "nextId (minted env subject (t_familyId stored) ctx s) = nextId s + 2"
      by (simp_all add: minted_def)
    ultimately show ?thesis
      using Some run
      by (simp add: agrees_def four finishRotation_def transaction_def mintAndVerify_def
          breached_minted)
  qed
qed

text \<open>C20: without interference the statements of one call compose to the atomic \<open>rotate\<close>: six steps
  finish it, with the same outcome and the same state.
\<close>

theorem statements_compose:
  assumes inv: "session_inv s"
  shows "agrees (run_schedule env resolve ctx (replicate 6 0) ([Presented tok], s))
    (rotate env tok resolve ctx s)"
proof -
  have six: "replicate 6 (0::nat) = 0 # 0 # replicate 4 0" by (simp add: eval_nat_numeral)
  show ?thesis
  proof (cases "findByHash (te_hash env tok) s")
    case None
    then show ?thesis by (simp add: agrees_def six run_alone_final rotate_def)
  next
    case (Some stored)
    note mem = findByHash_D [OF Some]
    have four: "replicate 4 (0::nat) = 0 # replicate 3 0" by (simp add: eval_nat_numeral)
    consider (dead) "t_revokedAt stored \<noteq> None" | (expired) "t_revokedAt stored = None" "t_expiresAt stored \<le> now s"
      | (ok) "live_token stored" "\<not> t_expiresAt stored \<le> now s" by (auto simp: live_token_def)
    then show ?thesis
    proof cases
      case dead
      then show ?thesis using Some by (auto simp: agrees_def six four run_alone_final rotate_def)
    next
      case expired
      then show ?thesis using Some by (simp add: agrees_def six run_alone_final rotate_def)
    next
      case ok
      note cl = claim_live [OF conjunct1 [OF mem] ok(1)]
      have "\<forall>t\<in>set (refreshTokens (afterClaim stored s)). t_id t < nextId (afterClaim stored s)"
        using session_inv_afterClaim [OF inv] unfolding session_inv_def by blast
      from finish_alone [OF this, of env resolve ctx stored] show ?thesis
        using Some ok cl by (simp add: six rotate_def live_token_def)
    qed
  qed
qed

text \<open>A breached family buys no session any more: once a row of it is stamped as compromised, no
  token of the family, however it came to be live, can be exchanged; the attempt revokes it.
\<close>

theorem breached_family_refused:
  assumes inv: "session_inv s" and found: "findByHash (te_hash env tok) s = Some stored"
    and x: "x \<in> set (refreshTokens s)" "t_familyId x = t_familyId stored"
      "t_revokedReason x = Some ''reuse-detected''" "t_revokedAt x \<noteq> None"
    and fresh: "te_hash env (te_random env (nextId s)) \<notin> t_tokenHash ` set (refreshTokens s)"
    and run: "rotate env tok resolve ctx s = (res, s')"
  shows "res = Inl invalidSession \<and>
    (t_revokedAt stored = None \<and> now s < t_expiresAt stored \<longrightarrow>
       (\<forall>t\<in>set (refreshTokens s'). t_familyId t = t_familyId stored \<longrightarrow> t_revokedAt t \<noteq> None))"
  using inv run
proof (cases rule: rotate_cases)
  case (no_subject st)
  then have "st = stored" using found by simp
  then show ?thesis using no_subject family_dead unfolding live_token_def by blast
next
  case (compromised st)
  then have "st = stored" using found by simp
  then show ?thesis using compromised family_dead unfolding live_token_def by blast
next
  case (collision st)
  then show ?thesis using fresh by simp
next
  case (success st subject session)
  then have st: "st = stored" using found by simp
  have "x \<in> set (refreshTokens (afterClaim stored s))"
    using x(1,4) by (force simp: afterClaim_def)
  then have "breached (t_familyId stored) (afterClaim stored s)"
    using x(2,3) by (auto simp: breached_def)
  then show ?thesis
    using success(6) mint_Inr(1) [OF session_inv_afterClaim [OF inv] success(5)]
    by (simp add: st breached_minted)
qed (use found in \<open>auto simp: live_token_def\<close>)

text \<open>The window between the breach check and the commit. Two concurrent refreshes with one token:
  the first consumes it, mints and finds the family clean; the second finds the row consumed,
  revokes the family and is refused; then the first commits. Its caller keeps the session and its
  token is live in a family stamped as compromised.
\<close>

theorem compromised_family_keeps_session:
  "let (cs, s') = run_schedule demoEnv demoResolve demoContext [0, 1, 0, 0, 0, 1, 1, 0]
        ([Presented ''t'', Presented ''t''], demoSession)
   in map outcome_of cs =
        [Some (Inr \<lparr>st_accessToken = ''jwt'', st_refreshToken = ''rrrrr'', st_expiresIn = 3600,
           st_tokenType = ''Bearer''\<rparr>), Some (Inl invalidSession)] \<and>
      map (\<lambda>t. (t_tokenHash t, t_familyId t, t_revokedAt t, t_revokedReason t)) (refreshTokens s') =
        [(''ht'', 1, Some 1000, Some ''reuse-detected''), (''hrrrrr'', 1, None, None)]"
  by code_simp


theorem statements_compose_witness:
  "agrees (run_schedule demoEnv demoResolve demoContext (replicate 6 0) ([Presented ''t''], demoSession))
    (rotate demoEnv ''t'' demoResolve demoContext demoSession)"
  by (rule statements_compose [OF demoSession_inv])

theorem breached_family_refused_witness:
  "fst (rotate demoEnv ''t'' demoResolve demoContext
     (demoSession\<lparr>refreshTokens := [demoToken, demoToken\<lparr>t_id := 2, t_tokenHash := ''h2'',
        t_revokedAt := Some 1, t_revokedReason := Some ''reuse-detected''\<rparr>]\<rparr>)) = Inl invalidSession"
proof -
  let ?x = "demoToken\<lparr>t_id := 2, t_tokenHash := ''h2'',
        t_revokedAt := Some 1, t_revokedReason := Some ''reuse-detected''\<rparr>"
  let ?s = "demoSession\<lparr>refreshTokens := [demoToken, ?x]\<rparr>"
  have "session_inv ?s"
    by (simp add: session_inv_def live_token_def demoSession_def demoToken_def)
  moreover have "findByHash (te_hash demoEnv ''t'') ?s = Some demoToken"
    by (simp add: findByHash_def demoEnv_def demoToken_def)
  moreover have "te_hash demoEnv (te_random demoEnv (nextId ?s)) \<notin> t_tokenHash ` set (refreshTokens ?s)"
    by (simp add: demoSession_def demoEnv_def demoToken_def eval_nat_numeral)
  ultimately show ?thesis
    using breached_family_refused [of ?s demoEnv "''t''" demoToken ?x demoResolve demoContext,
        OF _ _ _ _ _ _ _ prod.collapse [symmetric]] by simp
qed

end
