(* ===== verification/Credentials.thy ===== *)
theory Credentials
  imports Tokens JsString
begin

text \<open>
  One-time codes, \<open>src/common/utils/otp.util.ts\<close>; the cryptography the account services call, as
  the parameter \<open>authEnv\<close>; what is stripped from an entity before it leaves a service; and the
  writes of account rows with the unique indexes of \<open>users\<close>, \<open>drivers\<close> and \<open>vehicles\<close>.
\<close>

section \<open>Cryptography\<close>

text \<open>
  \<open>ae_hash\<close> is bcrypt with the salt of a draw, \<open>ae_compare\<close> \<open>bcrypt.compare\<close>, \<open>ae_randomInt\<close>
  \<open>crypto.randomInt(min, max)\<close> of a draw.
\<close>

record authEnv =
  ae_tokens :: tokenEnv
  ae_hash :: "uuid \<Rightarrow> string \<Rightarrow> string"
  ae_compare :: "string \<Rightarrow> string \<Rightarrow> bool"
  ae_randomInt :: "uuid \<Rightarrow> nat \<Rightarrow> nat \<Rightarrow> nat"

text \<open>What the libraries document: a password matches its own hash; a draw is within its bounds.\<close>

definition env_ok :: "authEnv \<Rightarrow> bool" where
  "env_ok env \<longleftrightarrow> (\<forall>i p. ae_compare env p (ae_hash env i p)) \<and>
     (\<forall>i a b. a < b \<longrightarrow> a \<le> ae_randomInt env i a b \<and> ae_randomInt env i a b < b)"

definition hashPassword :: "authEnv \<Rightarrow> string \<Rightarrow> sys \<Rightarrow> string \<times> sys" where
  "hashPassword env p s = (let (i, s') = freshId s in (ae_hash env i p, s'))"

section \<open>One-time codes\<close>

definition OTP_LENGTH :: nat where
  "OTP_LENGTH = 6"

definition generateOtp :: "authEnv \<Rightarrow> sys \<Rightarrow> string \<times> sys" where
  "generateOtp env s =
     (let (i, s') = freshId s
      in (js_of_nat (ae_randomInt env i (10 ^ (OTP_LENGTH - 1)) (10 ^ OTP_LENGTH)), s'))"

definition getExpiryTime :: "int \<Rightarrow> sys \<Rightarrow> date" where
  "getExpiryTime minutes s = now s + minutes * 60000"

definition isExpired :: "date option \<Rightarrow> sys \<Rightarrow> bool" where
  "isExpired expiry s = (case expiry of None \<Rightarrow> True | Some t \<Rightarrow> t < now s)"

text \<open>A zero-padded buffer of 64 bytes with a truncation of the value.\<close>

definition fixedWidth :: "string \<Rightarrow> string" where
  "fixedWidth v = take 64 v @ replicate (64 - length v) (char_of (0 :: nat))"

definition otpMatches :: "string option \<Rightarrow> string option \<Rightarrow> bool" where
  "otpMatches submitted stored =
     (case (submitted, stored) of
        (Some a, Some b) \<Rightarrow>
          a \<noteq> '''' \<and> b \<noteq> '''' \<and> fixedWidth a = fixedWidth b \<and> length a = length b
      | _ \<Rightarrow> False)"

lemma otpMatches_iff:
  assumes "length b \<le> 64"
  shows "otpMatches (Some a) (Some b) \<longleftrightarrow> a = b \<and> b \<noteq> ''''"
  using assms by (auto simp: otpMatches_def fixedWidth_def)

lemma generateOtp_digits:
  assumes "env_ok env" "generateOtp env s = (code, s')"
  shows "length code = 6" "list_all is_digit code" "100000 \<le> digits_value code" "digits_value code < 1000000"
proof -
  define n where "n = ae_randomInt env (nextId s) (10 ^ 5) (10 ^ 6)"
  have code: "code = js_of_nat n"
    using assms(2) by (auto simp: generateOtp_def freshId_def OTP_LENGTH_def n_def)
  have "(10::nat) ^ 5 < 10 ^ 6" by simp
  then have n: "10 ^ 5 \<le> n" "n < 10 ^ 6"
    using assms(1) unfolding env_ok_def n_def by blast+
  show "length code = 6" using length_js_of_nat [of 5 n] n by (simp add: code)
  show "list_all is_digit code" by (simp add: code js_of_nat_digits)
  show "100000 \<le> digits_value code" "digits_value code < 1000000"
    using n by (simp_all add: code digits_value_js_of_nat)
qed

lemma generateOtp_frame:
  "generateOtp env s = (code, s') \<Longrightarrow> s' = snd (freshId s)"
  by (auto simp: generateOtp_def freshId_def)

text \<open>A code that is drawn is six digits without a leading zero, and within its ten minutes the
  submission that matches it is the code itself and nothing else.
\<close>

theorem otp_accepts_only_itself:
  assumes "env_ok env" "generateOtp env s = (code, s')"
  shows "length code = 6 \<and> list_all is_digit code \<and> hd code \<noteq> CHR ''0'' \<and>
    (otpMatches (Some a) (Some code) \<longleftrightarrow> a = code) \<and>
    (isExpired (Some (getExpiryTime 10 s)) (s\<lparr>now := t\<rparr>) \<longleftrightarrow> now s + 600000 < t)"
proof -
  note d = generateOtp_digits [OF assms]
  have "digits_value r < 10 ^ length r" if "list_all is_digit r" for r
    using that
  proof (induction r rule: rev_induct)
    case (snoc c r)
    then show ?case by (auto simp: digits_value_snoc is_digit_def)
  qed (simp add: digits_value_def)
  note bound = this
  have "hd code \<noteq> CHR ''0''"
  proof
    assume z: "hd code = CHR ''0''"
    obtain r where r: "code = CHR ''0'' # r" using d(1) z by (cases code) auto
    have "digits_value code = digits_value r" by (simp add: r digits_value_def)
    moreover have "digits_value r < 10 ^ 5" using bound [of r] d(1,2) by (simp add: r)
    ultimately show False using d(3) by simp
  qed
  moreover have "code \<noteq> ''''" using d(1) by auto
  ultimately show ?thesis
    using d(1,2) otpMatches_iff [of code a] by (auto simp: isExpired_def getExpiryTime_def)
qed

definition demoAuth :: authEnv where
  "demoAuth = \<lparr>ae_tokens = \<lparr>te_hash = (\<lambda>x. CHR ''h'' # x), te_random = (\<lambda>i. replicate i CHR ''r''),
       te_sign = (\<lambda>_ _. ''jwt'')\<rparr>,
     ae_hash = (\<lambda>_ p. CHR ''b'' # p), ae_compare = (\<lambda>p h. h = CHR ''b'' # p),
     ae_randomInt = (\<lambda>i a b. a + i mod (b - a))\<rparr>"

lemma demoAuth_ok: "env_ok demoAuth"
proof -
  have "a + i mod (b - a) < b" if "a < b" for a b i :: nat
    using mod_less_divisor [of "b - a" i] that by linarith
  then show ?thesis by (simp add: env_ok_def demoAuth_def)
qed

theorem otp_accepts_only_itself_witness:
  "length (fst (generateOtp demoAuth s)) = 6"
  using otp_accepts_only_itself [OF demoAuth_ok prod.collapse [symmetric]] by blast

section \<open>What leaves a service\<close>

text \<open>
  The credential columns are taken off; a property that is absent reads like one that is null.
  \<open>DriversService.sanitizeDriver\<close> takes off the password only.
\<close>

definition stripUser :: "User \<Rightarrow> User" where
  "stripUser u = u\<lparr>u_password := None, u_otpCode := None, u_otpExpiry := None\<rparr>"

definition stripDriver :: "Driver \<Rightarrow> Driver" where
  "stripDriver d = d\<lparr>d_password := None, d_otpCode := None, d_otpExpiry := None\<rparr>"

definition sanitizeUser :: "User \<Rightarrow> User" where
  "sanitizeUser u = u\<lparr>u_password := None, u_otpCode := None, u_otpExpiry := None\<rparr>"

definition sanitizeDriver :: "Driver \<Rightarrow> Driver" where
  "sanitizeDriver d = d\<lparr>d_password := None\<rparr>"

section \<open>Writing account rows\<close>

definition clashes :: "'b option \<Rightarrow> 'b option \<Rightarrow> bool" where
  "clashes a b \<longleftrightarrow> a \<noteq> None \<and> a = b"

definition userClash :: "User \<Rightarrow> sys \<Rightarrow> bool" where
  "userClash x s \<longleftrightarrow> (\<exists>y\<in>set (users s). u_id y \<noteq> u_id x \<and>
     (u_email y = u_email x \<or> clashes (u_phone y) (u_phone x) \<or> clashes (u_privyDid y) (u_privyDid x)))"

definition storeUser :: "User \<Rightarrow> (sys, User) handler" where
  "storeUser x s =
     (if userClash x s then (Inl (QueryFailedError ''users unique''), s) else (Inr x, saveUser x s))"

definition driverClash :: "Driver \<Rightarrow> sys \<Rightarrow> bool" where
  "driverClash x s \<longleftrightarrow> (\<exists>y\<in>set (drivers s). d_id y \<noteq> d_id x \<and>
     (d_email y = d_email x \<or> d_phone y = d_phone x \<or> d_licenseNumber y = d_licenseNumber x \<or>
      clashes (d_privyDid y) (d_privyDid x)))"

definition storeDriver :: "Driver \<Rightarrow> (sys, Driver) handler" where
  "storeDriver x s =
     (if driverClash x s then (Inl (QueryFailedError ''drivers unique''), s)
      else (Inr x, saveDriver x s))"

definition vehicleClash :: "Vehicle \<Rightarrow> sys \<Rightarrow> bool" where
  "vehicleClash x s \<longleftrightarrow>
     (\<exists>y\<in>set (vehicles s). v_id y \<noteq> v_id x \<and> v_plateNumber y = v_plateNumber x)"

definition storeVehicle :: "Vehicle \<Rightarrow> (sys, Vehicle) handler" where
  "storeVehicle x s =
     (if vehicleClash x s then (Inl (QueryFailedError ''vehicles unique''), s)
      else (Inr x, saveVehicle x s))"

end
