(* ===== verification/Users.thy ===== *)
theory Users
  imports Credentials
begin

text \<open>
  \<open>src/users/users.service.ts\<close>: the lookups and updates of the rider accounts.
\<close>

definition findUserByEmail :: "string \<Rightarrow> sys \<Rightarrow> User option" where
  "findUserByEmail email s = find (\<lambda>u. u_email u = email) (users s)"

definition findUserByPhone :: "string \<Rightarrow> sys \<Rightarrow> User option" where
  "findUserByPhone phone s = find (\<lambda>u. u_phone u = Some phone) (users s)"

definition findUserByProvider :: "string \<Rightarrow> string \<Rightarrow> sys \<Rightarrow> User option" where
  "findUserByProvider provider providerId s =
     find (\<lambda>u. u_provider u = Some provider \<and> u_providerId u = Some providerId) (users s)"

text \<open>\<open>repository.update(id, changes)\<close>\<close>

definition updateUser :: "uuid \<Rightarrow> (User \<Rightarrow> User) \<Rightarrow> sys \<Rightarrow> sys" where
  "updateUser i f s = s\<lparr>users := tbl_update (\<lambda>u. u_id u = i) f (users s)\<rparr>"

definition updateWalletAddresses ::
  "uuid \<Rightarrow> string option \<Rightarrow> string option \<Rightarrow> string option \<Rightarrow> sys \<Rightarrow> sys" where
  "updateWalletAddresses userId evm solana tron =
     updateUser userId (\<lambda>u. u\<lparr>u_walletAddressEvm := evm, u_walletAddressSolana := solana,
       u_walletAddressTron := tron\<rparr>)"

text \<open>The columns a partial user leaves out take their defaults.\<close>

definition blankUser :: User where
  "blankUser = \<lparr>u_id = 0, u_name = '''', u_email = '''', u_phone = None, u_password = None,
     u_provider = None, u_providerId = None, u_privyDid = None, u_walletAddressEvm = None,
     u_walletAddressSolana = None, u_walletAddressTron = None, u_otpCode = None, u_otpExpiry = None,
     u_isVerified = False, u_role = USER, u_ratingAverage = 0, u_totalRides = 0,
     u_cashbackBalance = 0, u_isBlocked = False, u_createdAt = 0\<rparr>"

definition createUser :: "User \<Rightarrow> (sys, User) handler" where
  "createUser userData s =
     (let (i, s') = freshId s in storeUser (userData\<lparr>u_id := i, u_createdAt := now s'\<rparr>) s')"

definition checkIfEmailExists :: "string \<Rightarrow> (sys, unit) handler" where
  "checkIfEmailExists email =
     (\<lambda>s. throwIf (findUserByEmail email s \<noteq> None) (ConflictException ''Email already is use'')
            (returns ()) s)"

definition checkIfPhoneExists :: "string \<Rightarrow> (sys, unit) handler" where
  "checkIfPhoneExists phone =
     (\<lambda>s. throwIf (findUserByPhone phone s \<noteq> None) (ConflictException ''Phone number already in use'')
            (returns ()) s)"

definition verifyUser :: "uuid \<Rightarrow> sys \<Rightarrow> sys" where
  "verifyUser userId =
     updateUser userId (\<lambda>u. u\<lparr>u_isVerified := True, u_otpCode := None, u_otpExpiry := None\<rparr>)"

definition updateUserOtp :: "uuid \<Rightarrow> string \<Rightarrow> date \<Rightarrow> sys \<Rightarrow> sys" where
  "updateUserOtp userId otpCode otpExpiry =
     updateUser userId (\<lambda>u. u\<lparr>u_otpCode := Some otpCode, u_otpExpiry := Some otpExpiry\<rparr>)"

definition updateUserPassword :: "uuid \<Rightarrow> string \<Rightarrow> sys \<Rightarrow> sys" where
  "updateUserPassword userId hashedPassword =
     updateUser userId (\<lambda>u. u\<lparr>u_password := Some hashedPassword, u_otpCode := None,
       u_otpExpiry := None\<rparr>)"

section \<open>Lookups after writes\<close>

lemma findUserByEmail_D: "findUserByEmail e s = Some u \<Longrightarrow> u \<in> set (users s) \<and> u_email u = e"
  by (auto simp: findUserByEmail_def dest: find_SomeD)

lemma updateUser_frame [simp]:
  "drivers (updateUser i f s) = drivers s" "refreshTokens (updateUser i f s) = refreshTokens s"
  "now (updateUser i f s) = now s" "nextId (updateUser i f s) = nextId s"
  "jobs (updateUser i f s) = jobs s" "vehicles (updateUser i f s) = vehicles s"
  by (simp_all add: updateUser_def)

lemma findUser_update:
  assumes "\<And>x. u_id (f x) = u_id x"
  shows "findUser j (updateUser i f s) = map_option (\<lambda>u. if u_id u = i then f u else u) (findUser j s)"
  unfolding findUser_def tbl_find_def updateUser_def tbl_update_def
  by (simp add: find_map_cong assms)

lemma findUserByEmail_update:
  assumes "\<And>x. u_email (f x) = u_email x"
  shows "findUserByEmail e (updateUser i f s) =
    map_option (\<lambda>u. if u_id u = i then f u else u) (findUserByEmail e s)"
  unfolding findUserByEmail_def updateUser_def tbl_update_def
  by (simp add: find_map_cong assms)

end
