(* ===== verification/Drivers.thy ===== *)
theory Drivers
  imports Credentials
begin

text \<open>
  \<open>src/drivers/drivers.service.ts\<close>: registration (with a password, or from a Privy identity),
  sign-in, profile, online, verification and suspension status, removal, password reset.
\<close>

section \<open>Data\<close>

text \<open>
  \<open>dt_licenseExpiry\<close> is \<open>None\<close> for a text that is no date, \<open>dt_vehicleType\<close> for a text that is no
  vehicle type, \<open>dt_vehicleYear\<close> for a value that is no integer: the request validation asks for
  non-empty values only.
\<close>

record DriverDetails =
  dt_name :: string
  dt_phone :: string
  dt_licenseNumber :: string
  dt_licenseExpiry :: "date option"
  dt_vehicleType :: "VehicleType option"
  dt_plateNumber :: string
  dt_vehicleColor :: string
  dt_vehicleModel :: string
  dt_vehicleYear :: "int option"

record CreateDriverDto =
  cd_email :: string
  cd_password :: string
  cd_details :: DriverDetails

record UpdateDriverDto =
  ud_name :: "string option"
  ud_phone :: "string option"
  ud_licenseNumber :: "string option"
  ud_licenseExpiry :: "date option option"

record 'a AuthResult =
  ar_message :: "string option"
  ar_account :: 'a
  ar_session :: SessionTokens
  ar_token :: string

section \<open>Lookups and helpers\<close>

definition findDriverByEmail :: "string \<Rightarrow> sys \<Rightarrow> Driver option" where
  "findDriverByEmail email s = find (\<lambda>d. d_email d = email) (drivers s)"

definition findDriverByPhone :: "string \<Rightarrow> sys \<Rightarrow> Driver option" where
  "findDriverByPhone phone s = find (\<lambda>d. d_phone d = phone) (drivers s)"

definition findDriverByLicense :: "string \<Rightarrow> sys \<Rightarrow> Driver option" where
  "findDriverByLicense n s = find (\<lambda>d. d_licenseNumber d = n) (drivers s)"

definition findVehicleByPlate :: "string \<Rightarrow> sys \<Rightarrow> Vehicle option" where
  "findVehicleByPlate plate s = find (\<lambda>v. v_plateNumber v = plate) (vehicles s)"

definition updateDriverRow :: "uuid \<Rightarrow> (Driver \<Rightarrow> Driver) \<Rightarrow> sys \<Rightarrow> sys" where
  "updateDriverRow i f s = s\<lparr>drivers := tbl_update (\<lambda>d. d_id d = i) f (drivers s)\<rparr>"

definition updateDriverOtp :: "uuid \<Rightarrow> string \<Rightarrow> date \<Rightarrow> sys \<Rightarrow> sys" where
  "updateDriverOtp i otpCode otpExpiry =
     updateDriverRow i (\<lambda>d. d\<lparr>d_otpCode := Some otpCode, d_otpExpiry := Some otpExpiry\<rparr>)"

definition updateDriverPassword :: "uuid \<Rightarrow> string \<Rightarrow> sys \<Rightarrow> sys" where
  "updateDriverPassword i hashedPassword =
     updateDriverRow i (\<lambda>d. d\<lparr>d_password := Some hashedPassword, d_otpCode := None,
       d_otpExpiry := None\<rparr>)"

definition noContext :: SessionContext where
  "noContext = \<lparr>sc_userAgent = None, sc_ipAddress = None\<rparr>"

text \<open>The session of a driver; \<open>token\<close> repeats the access token.\<close>

definition issueDriverSession ::
  "authEnv \<Rightarrow> string option \<Rightarrow> Driver \<Rightarrow> 'a \<Rightarrow> (sys, 'a AuthResult) handler" where
  "issueDriverSession env msg driver account s =
     (case Tokens.issueSession (ae_tokens env)
             \<lparr>ss_id = d_id driver, ss_role = d_role driver, ss_isDriver = True\<rparr> noContext s of
        (Inl e, s') \<Rightarrow> (Inl e, s')
      | (Inr session, s') \<Rightarrow>
          (Inr \<lparr>ar_message = msg, ar_account = account, ar_session = session,
                ar_token = st_accessToken session\<rparr>, s'))"

section \<open>Registration\<close>

text \<open>The four uniqueness checks and the licence check that both registrations begin with.\<close>

definition registrationProblem :: "string \<Rightarrow> DriverDetails \<Rightarrow> sys \<Rightarrow> exn option" where
  "registrationProblem email d s =
     (if findDriverByEmail email s \<noteq> None then Some (ConflictException ''Email already exists'')
      else if findDriverByPhone (dt_phone d) s \<noteq> None
      then Some (ConflictException ''Phone number already exists'')
      else if findDriverByLicense (dt_licenseNumber d) s \<noteq> None
      then Some (ConflictException ''License number already exists'')
      else if findVehicleByPlate (dt_plateNumber d) s \<noteq> None
      then Some (ConflictException ''Vehicle with this plate number already exists'')
      else case dt_licenseExpiry d of
        Some t \<Rightarrow> if t \<le> now s
          then Some (BadRequestException ''License has expired or expiry date is invalid'') else None
      | None \<Rightarrow> None)"

definition newDriver ::
  "uuid \<Rightarrow> string \<Rightarrow> string option \<Rightarrow> string option \<Rightarrow> string option \<Rightarrow> VerificationStatus \<Rightarrow>
   DriverDetails \<Rightarrow> date \<Rightarrow> date \<Rightarrow> Driver" where
  "newDriver i email pw did wallet status d expiry t =
     \<lparr>d_id = i, d_name = dt_name d, d_phone = dt_phone d, d_email = email, d_password = pw,
      d_licenseNumber = dt_licenseNumber d, d_licenseExpiry = expiry, d_role = DRIVER,
      d_verificationStatus = status, d_isOnline = False, d_isActive = True, d_ratingAverage = 0,
      d_totalCompletedRides = 0, d_walletBalance = 0, d_privyDid = did, d_walletAddressEvm = wallet,
      d_otpCode = None, d_otpExpiry = None, d_createdAt = t\<rparr>"

text \<open>
  Saving the driver and then the vehicle; the two saves are two transactions, so a failing
  vehicle leaves the driver.
\<close>

definition saveNewDriver ::
  "string \<Rightarrow> string option \<Rightarrow> string option \<Rightarrow> string option \<Rightarrow> VerificationStatus \<Rightarrow> DriverDetails \<Rightarrow>
   (sys, Driver) handler" where
  "saveNewDriver email pw did wallet status d s =
     (case dt_licenseExpiry d of
        None \<Rightarrow> (Inl (QueryFailedError ''licenseExpiry''), s)
      | Some expiry \<Rightarrow>
          let (i, s1) = freshId s
          in (case storeDriver (newDriver i email pw did wallet status d expiry (now s)) s1 of
                (Inl e, s2) \<Rightarrow> (Inl e, s2)
              | (Inr driver, s2) \<Rightarrow>
                  (case (dt_vehicleType d, dt_vehicleYear d) of
                     (Some ty, Some year) \<Rightarrow>
                       let (j, s3) = freshId s2
                       in (case storeVehicle \<lparr>v_id = j, v_driverId = d_id driver, v_type = ty,
                              v_plateNumber = dt_plateNumber d, v_color = dt_vehicleColor d,
                              v_model = dt_vehicleModel d, v_year = year, v_isActive = True,
                              v_createdAt = now s3\<rparr> s3 of
                             (Inl e, s4) \<Rightarrow> (Inl e, s4)
                           | (Inr _, s4) \<Rightarrow> (Inr driver, s4))
                   | _ \<Rightarrow> (Inl (QueryFailedError ''vehicles''), s2))))"

definition createDriver :: "authEnv \<Rightarrow> CreateDriverDto \<Rightarrow> (sys, Driver AuthResult) handler" where
  "createDriver env dto s =
     (case registrationProblem (cd_email dto) (cd_details dto) s of
        Some e \<Rightarrow> (Inl e, s)
      | None \<Rightarrow>
          let (hashedPassword, s1) = hashPassword env (cd_password dto) s
          in (case saveNewDriver (cd_email dto) (Some hashedPassword) None None VS_PENDING
                     (cd_details dto) s1 of
                (Inl e, s2) \<Rightarrow> (Inl e, s2)
              | (Inr driver, s2) \<Rightarrow>
                  issueDriverSession env None driver (sanitizeDriver driver) s2))"

definition privyEmail :: "string option \<Rightarrow> string \<Rightarrow> string" where
  "privyEmail email did =
     (case email of None \<Rightarrow> did @ ''@privy.arkrides.local''
      | Some e \<Rightarrow> if e = '''' then did @ ''@privy.arkrides.local'' else e)"

definition createFromPrivy ::
  "string \<Rightarrow> string option \<Rightarrow> string option \<Rightarrow> DriverDetails \<Rightarrow> (sys, Driver) handler" where
  "createFromPrivy did email wallet d s =
     (case registrationProblem (privyEmail email did) d s of
        Some e \<Rightarrow> (Inl e, s)
      | None \<Rightarrow> saveNewDriver (privyEmail email did) None (Some did) wallet VS_APPROVED d s)"

section \<open>Sign-in and lookups\<close>

definition loginDriver :: "authEnv \<Rightarrow> string \<Rightarrow> string \<Rightarrow> (sys, Driver AuthResult) handler" where
  "loginDriver env email password s =
     (case findDriverByEmail email s of
        None \<Rightarrow> (Inl (UnauthorizedException ''Invalid credentials''), s)
      | Some driver \<Rightarrow>
          (case d_password driver of
             None \<Rightarrow> (Inl (UnauthorizedException ''This account signs in with Privy. Use Privy sign-in instead of a password.''), s)
           | Some h \<Rightarrow>
               if \<not> ae_compare env password h
               then (Inl (UnauthorizedException ''Invalid credentials''), s)
               else if \<not> d_isActive driver
               then (Inl (UnauthorizedException ''Your account has been deactivated''), s)
               else issueDriverSession env (Some ''Login successful'') driver (sanitizeDriver driver) s))"

definition findAllDrivers :: "sys \<Rightarrow> Driver list" where
  "findAllDrivers s = map sanitizeDriver (order_desc d_createdAt (drivers s))"

definition findOneDriver :: "uuid \<Rightarrow> sys \<Rightarrow> Driver outcome" where
  "findOneDriver i s =
     (case findDriver i s of
        None \<Rightarrow> Inl (NotFoundException ''Driver not found'')
      | Some d \<Rightarrow> Inr (sanitizeDriver d))"

definition findForAuth :: "uuid \<Rightarrow> sys \<Rightarrow> Driver option" where
  "findForAuth i s =
     map_option sanitizeDriver (find (\<lambda>d. d_id d = i \<and> d_isActive d) (drivers s))"

section \<open>Changes\<close>

definition nonempty :: "string option \<Rightarrow> string option" where
  "nonempty x = (if x = Some '''' then None else x)"

text \<open>\<open>Object.assign(driver, dto)\<close>: the properties the request carries.\<close>

definition assignDriver :: "UpdateDriverDto \<Rightarrow> Driver \<Rightarrow> Driver" where
  "assignDriver dto d = d\<lparr>
     d_name := (case ud_name dto of Some x \<Rightarrow> x | None \<Rightarrow> d_name d),
     d_phone := (case ud_phone dto of Some x \<Rightarrow> x | None \<Rightarrow> d_phone d),
     d_licenseNumber := (case ud_licenseNumber dto of Some x \<Rightarrow> x | None \<Rightarrow> d_licenseNumber d),
     d_licenseExpiry := (case ud_licenseExpiry dto of Some (Some t) \<Rightarrow> t | _ \<Rightarrow> d_licenseExpiry d)\<rparr>"

definition updateProblem :: "Driver \<Rightarrow> UpdateDriverDto \<Rightarrow> sys \<Rightarrow> exn option" where
  "updateProblem driver dto s =
     (if (case nonempty (ud_phone dto) of None \<Rightarrow> False
          | Some p \<Rightarrow> p \<noteq> d_phone driver \<and> findDriverByPhone p s \<noteq> None)
      then Some (ConflictException ''Phone number already in use'')
      else if (case nonempty (ud_licenseNumber dto) of None \<Rightarrow> False
          | Some n \<Rightarrow> n \<noteq> d_licenseNumber driver \<and> findDriverByLicense n s \<noteq> None)
      then Some (ConflictException ''License number already in use'')
      else case ud_licenseExpiry dto of
        Some (Some t) \<Rightarrow> if t \<le> now s
          then Some (BadRequestException ''License has expired or expiry date is invalid'') else None
      | Some None \<Rightarrow> Some (QueryFailedError ''licenseExpiry'')
      | None \<Rightarrow> None)"

definition updateDriver :: "uuid \<Rightarrow> UpdateDriverDto \<Rightarrow> (sys, Driver) handler" where
  "updateDriver i dto s =
     (case findDriver i s of
        None \<Rightarrow> (Inl (NotFoundException ''Driver not found''), s)
      | Some driver \<Rightarrow>
          (case updateProblem driver dto s of
             Some e \<Rightarrow> (Inl e, s)
           | None \<Rightarrow>
               (case storeDriver (assignDriver dto driver) s of
                  (Inl e, s') \<Rightarrow> (Inl e, s')
                | (Inr d, s') \<Rightarrow> (Inr (sanitizeDriver d), s'))))"

definition updateOnlineStatus :: "uuid \<Rightarrow> bool \<Rightarrow> (sys, Driver) handler" where
  "updateOnlineStatus i isOnline s =
     (case findDriver i s of
        None \<Rightarrow> (Inl (NotFoundException ''Driver not found''), s)
      | Some driver \<Rightarrow>
          if isOnline \<and> d_verificationStatus driver \<noteq> VS_APPROVED
          then (Inl (BadRequestException ''Only approved drivers can go online.''), s)
          else if isOnline \<and> \<not> d_isActive driver
          then (Inl (BadRequestException ''This driver account is suspended and cannot go online.''), s)
          else let d = driver\<lparr>d_isOnline := isOnline\<rparr>
               in (Inr (sanitizeDriver d), saveDriver d s))"

definition updateVerificationStatus :: "uuid \<Rightarrow> VerificationStatus \<Rightarrow> (sys, Driver) handler" where
  "updateVerificationStatus i status s =
     (case findDriver i s of
        None \<Rightarrow> (Inl (NotFoundException ''Driver not found''), s)
      | Some driver \<Rightarrow>
          let d = driver\<lparr>d_verificationStatus := status,
                d_isOnline := (if status \<noteq> VS_APPROVED then False else d_isOnline driver)\<rparr>;
              s1 = saveDriver d s;
              s2 = (if status \<noteq> VS_APPROVED then revokeAllForSubject (d_id driver) DRIVER s1 else s1)
          in (Inr (sanitizeDriver d), s2))"

definition updateActiveStatus :: "uuid \<Rightarrow> bool \<Rightarrow> (sys, Driver) handler" where
  "updateActiveStatus i isActive s =
     (case findDriver i s of
        None \<Rightarrow> (Inl (NotFoundException ''Driver not found''), s)
      | Some driver \<Rightarrow>
          let d = driver\<lparr>d_isActive := isActive,
                d_isOnline := (if isActive then d_isOnline driver else False)\<rparr>;
              s1 = saveDriver d s;
              s2 = (if isActive then s1 else revokeAllForSubject (d_id driver) DRIVER s1)
          in (Inr (sanitizeDriver d), s2))"

text \<open>
  Removing the row: the foreign keys delete the driver's vehicles and set the driver and the
  vehicle of their rides to null.
\<close>

definition deleteDriverRow :: "uuid \<Rightarrow> sys \<Rightarrow> sys" where
  "deleteDriverRow i s =
     (let gone = map v_id (filter (\<lambda>v. v_driverId v = i) (vehicles s))
      in s\<lparr>drivers := tbl_delete (\<lambda>d. d_id d = i) (drivers s),
           vehicles := tbl_delete (\<lambda>v. v_driverId v = i) (vehicles s),
           rides := map (\<lambda>r. r\<lparr>
             r_driverId := (if r_driverId r = Some i then None else r_driverId r),
             r_vehicleId := (case r_vehicleId r of
                Some v \<Rightarrow> if v \<in> set gone then None else Some v | None \<Rightarrow> None)\<rparr>) (rides s)\<rparr>)"

definition removeDriver :: "uuid \<Rightarrow> (sys, unit) handler" where
  "removeDriver i s =
     (case findDriver i s of
        None \<Rightarrow> (Inl (NotFoundException ''Driver not found''), s)
      | Some driver \<Rightarrow>
          (Inr (), deleteDriverRow (d_id driver) (revokeAllForSubject (d_id driver) DRIVER s)))"

section \<open>Password reset\<close>

definition driverForgotPassword :: "authEnv \<Rightarrow> string \<Rightarrow> (sys, string) handler" where
  "driverForgotPassword env email s =
     (case findDriverByEmail email s of
        None \<Rightarrow> (Inl (NotFoundException ''Driver not found''), s)
      | Some driver \<Rightarrow>
          let (otp, s1) = generateOtp env s;
              s2 = updateDriverOtp (d_id driver) otp (getExpiryTime 10 s1) s1
          in (Inr ''OTP has been sent to your email. You can now reset your password.'',
              enqueue (SendForgotPassword (d_email driver) otp (d_name driver)) s2))"

definition driverResetPassword ::
  "authEnv \<Rightarrow> string \<Rightarrow> string \<Rightarrow> string \<Rightarrow> (sys, string) handler" where
  "driverResetPassword env email otp newPassword s =
     (case findDriverByEmail email s of
        None \<Rightarrow> (Inl (NotFoundException ''Driver not found''), s)
      | Some driver \<Rightarrow>
          if \<not> otpMatches (Some otp) (d_otpCode driver)
          then (Inl (BadRequestException ''Invalid OTP''), s)
          else if isExpired (d_otpExpiry driver) s
          then (Inl (BadRequestException ''OTP has expired. Please request a new one.''), s)
          else let (hashedPassword, s1) = hashPassword env newPassword s
               in (Inr ''Password has been reset successfully. You can now login with your new password.'',
                   updateDriverPassword (d_id driver) hashedPassword s1))"

end
