(* ===== verification/DriverRules.thy ===== *)
theory DriverRules
  imports Drivers TokenRules Samples
begin

text \<open>
  What the driver accounts guarantee: whatever is called, a driver is online only while approved
  and not suspended, and email, phone, licence and plate stay unique; a suspension ends the
  sessions at once; a password reset works once and then the new password signs in. Two theorems
  show what goes wrong: a registration that fails half-way, and a removal during a ride.
\<close>

section \<open>The invariant of the accounts\<close>

definition driver_ok :: "Driver \<Rightarrow> bool" where
  "driver_ok d \<longleftrightarrow> (d_isOnline d \<longrightarrow> d_verificationStatus d = VS_APPROVED \<and> d_isActive d)"

definition account_inv :: "sys \<Rightarrow> bool" where
  "account_inv s \<longleftrightarrow> (\<forall>d\<in>set (drivers s). driver_ok d \<and> d_id d < nextId s) \<and>
     distinct (map d_id (drivers s)) \<and> distinct (map d_email (drivers s)) \<and>
     distinct (map d_phone (drivers s)) \<and> distinct (map d_licenseNumber (drivers s)) \<and>
     (\<forall>v\<in>set (vehicles s). v_id v < nextId s) \<and> distinct (map v_plateNumber (vehicles s))"

lemma tbl_save_unique:
  assumes "distinct (map f t)" "\<forall>y\<in>set t. idf y \<noteq> idf x \<longrightarrow> f y \<noteq> f x" "distinct (map idf t)"
  shows "distinct (map f (tbl_save idf x t))"
proof (cases "idf x \<in> set (map idf t)")
  case False
  then have "\<forall>y\<in>set t. idf y \<noteq> idf x" by (metis image_eqI list.set_map)
  then have "f x \<notin> f ` set t" using assms(2) by (metis imageE)
  then show ?thesis using assms(1) False by (simp add: tbl_save_def)
next
  case True
  have "distinct (map f (map (\<lambda>y. if idf y = idf x then x else y) t))"
    if "distinct (map f t)" "\<forall>y\<in>set t. idf y \<noteq> idf x \<longrightarrow> f y \<noteq> f x" "distinct (map idf t)" for t
    using that
  proof (induction t)
    case (Cons z t)
    show ?case
    proof (cases "idf z = idf x")
      case True
      then have "\<forall>y\<in>set t. idf y \<noteq> idf x" using Cons.prems(3) by (metis distinct.simps(2) image_eqI list.set_map list.simps(9))
      then have "map (\<lambda>y. if idf y = idf x then x else y) t = t" by (auto intro: map_idI)
      moreover have "f x \<notin> f ` set t" using Cons.prems(2) \<open>\<forall>y\<in>set t. idf y \<noteq> idf x\<close> by force
      ultimately show ?thesis using True Cons.prems(1) by simp
    next
      case False
      then have "f z \<noteq> f x" "f z \<notin> f ` set t" using Cons.prems by auto
      then have "f z \<notin> set (map f (map (\<lambda>y. if idf y = idf x then x else y) t))"
        by (auto split: if_splits)
      then show ?thesis using False Cons by (simp add: comp_def)
    qed
  qed simp
  then show ?thesis using True assms by (simp add: tbl_save_def)
qed

text \<open>No other driver has one of the unique columns of \<open>x\<close>.\<close>

definition unlike_others :: "Driver \<Rightarrow> sys \<Rightarrow> bool" where
  "unlike_others x s \<longleftrightarrow> (\<forall>y\<in>set (drivers s). d_id y \<noteq> d_id x \<longrightarrow>
     d_email y \<noteq> d_email x \<and> d_phone y \<noteq> d_phone x \<and> d_licenseNumber y \<noteq> d_licenseNumber x)"

lemma unlike_others_store: "\<not> driverClash x s \<Longrightarrow> unlike_others x s"
  by (auto simp: driverClash_def unlike_others_def)

lemma account_inv_saveDriver:
  assumes inv: "account_inv s" and x: "driver_ok x" "d_id x < nextId s" "unlike_others x s"
  shows "account_inv (saveDriver x s)"
proof -
  have dist: "distinct (map d_id (drivers (saveDriver x s)))"
    using inv driverRepo.rows_save_distinct by (simp add: account_inv_def)
  have u: "distinct (map f (drivers (saveDriver x s)))"
    if "distinct (map f (drivers s))" "\<forall>y\<in>set (drivers s). d_id y \<noteq> d_id x \<longrightarrow> f y \<noteq> f x"
    for f :: "Driver \<Rightarrow> string"
    using tbl_save_unique [OF that] inv by (simp add: saveDriver_def account_inv_def)
  have rows: "\<forall>d\<in>set (drivers (saveDriver x s)). driver_ok d \<and> d_id d < nextId s"
    using driverRepo.rows_save_all [of s "\<lambda>d. driver_ok d \<and> d_id d < nextId s" x] inv x(1,2)
    unfolding account_inv_def by blast
  show ?thesis
    using inv dist rows u [of d_email] u [of d_phone] u [of d_licenseNumber] x(3)
    unfolding account_inv_def saveDriver_frame unlike_others_def by blast
qed

lemma account_inv_frame:
  "account_inv s \<Longrightarrow> drivers s' = drivers s \<Longrightarrow> vehicles s' = vehicles s \<Longrightarrow> nextId s \<le> nextId s' \<Longrightarrow>
   account_inv s'"
  by (fastforce simp: account_inv_def)

lemma account_inv_updateDriverRow:
  assumes "account_inv s" "\<And>d. driver_ok (f d) = driver_ok d \<and> d_id (f d) = d_id d \<and>
    d_email (f d) = d_email d \<and> d_phone (f d) = d_phone d \<and> d_licenseNumber (f d) = d_licenseNumber d"
  shows "account_inv (updateDriverRow i f s)"
proof -
  define g where "g d = (if d_id d = i then f d else d)" for d
  have g: "driver_ok (g d) = driver_ok d" "d_id (g d) = d_id d" "d_email (g d) = d_email d"
    "d_phone (g d) = d_phone d" "d_licenseNumber (g d) = d_licenseNumber d" for d
    using assms(2) by (simp_all add: g_def)
  have "drivers (updateDriverRow i f s) = map g (drivers s)"
    by (simp add: updateDriverRow_def tbl_update_def g_def)
  moreover have "vehicles (updateDriverRow i f s) = vehicles s" "nextId (updateDriverRow i f s) = nextId s"
    by (simp_all add: updateDriverRow_def)
  ultimately show ?thesis using assms(1) by (simp add: account_inv_def g comp_def)
qed

lemma revokeAll_dead:
  assumes "t \<in> set (refreshTokens (revokeAllForSubject i ty s))" "t_subjectId t = i" "t_subjectType t = ty"
  shows "t_revokedAt t \<noteq> None"
proof -
  obtain u where "t = (if t_subjectId u = i \<and> t_subjectType u = ty \<and> t_revokedAt u = None
      then revokedAs (now s) ''subject-revoked'' u else u)"
    using assms(1) unfolding revokeAllForSubject_def updateTokens_frame set_map by (rule imageE)
  then show ?thesis using assms(2,3) by (auto simp: revokedAs_def split: if_splits)
qed

section \<open>Every operation\<close>

lemma issueDriverSession_frame:
  "issueDriverSession env m d a s = (res, s') \<Longrightarrow>
   drivers s' = drivers s \<and> vehicles s' = vehicles s \<and> nextId s \<le> nextId s'"
  by (auto simp: issueDriverSession_def Tokens.issueSession_def mint_def Let_def freshId_def
      saveToken_def split: sum.splits prod.splits if_splits)

lemma saveNewDriver_inv:
  assumes inv: "account_inv s" and run: "saveNewDriver email pw did wallet status d s = (res, s')"
  shows "account_inv s'"
proof (cases "dt_licenseExpiry d")
  case None
  then show ?thesis using run inv by (simp add: saveNewDriver_def)
next
  case (Some expiry)
  let ?x = "newDriver (nextId s) email pw did wallet status d expiry (now s)"
  let ?s1 = "snd (freshId s)"
  have i1: "account_inv ?s1" using inv by (rule account_inv_frame) simp_all
  have x: "driver_ok ?x" "d_id ?x < nextId ?s1" by (simp_all add: newDriver_def driver_ok_def)
  show ?thesis
  proof (cases "driverClash ?x ?s1")
    case True
    then show ?thesis using run Some i1
      by (simp add: saveNewDriver_def storeDriver_def freshId_def)
  next
    case False
    have i2: "account_inv (saveDriver ?x ?s1)" using account_inv_saveDriver [OF i1 x unlike_others_store [OF False]] .
    show ?thesis
    proof (cases "\<exists>ty year. dt_vehicleType d = Some ty \<and> dt_vehicleYear d = Some year")
      case bad: False
      then have "s' = saveDriver ?x ?s1"
        using run Some False
        by (cases "dt_vehicleType d"; cases "dt_vehicleYear d")
          (auto simp: saveNewDriver_def storeDriver_def freshId_def)
      then show ?thesis using i2 by simp
    next
      case True
      then obtain ty year where ty: "dt_vehicleType d = Some ty" "dt_vehicleYear d = Some year" by blast
      let ?s3 = "snd (freshId (saveDriver ?x ?s1))"
      let ?v = "\<lparr>v_id = nextId ?s1, v_driverId = nextId s, v_type = ty, v_plateNumber = dt_plateNumber d,
         v_color = dt_vehicleColor d, v_model = dt_vehicleModel d, v_year = year, v_isActive = True,
         v_createdAt = now s\<rparr>"
      have i3: "account_inv ?s3" using i2 by (rule account_inv_frame) simp_all
      have s': "s' = (if vehicleClash ?v ?s3 then ?s3 else saveVehicle ?v ?s3)"
        using run Some False ty
        by (auto simp: saveNewDriver_def storeDriver_def storeVehicle_def freshId_def newDriver_def
            split: if_splits)
      have "v_id ?v \<notin> set (map v_id (vehicles ?s3))"
        using inv by (fastforce simp: account_inv_def)
      then have "vehicles (saveVehicle ?v ?s3) = vehicles ?s3 @ [?v]"
        by (simp add: saveVehicle_def tbl_save_def)
      moreover have "\<not> vehicleClash ?v ?s3 \<Longrightarrow> \<forall>y\<in>set (vehicles ?s3). v_plateNumber y \<noteq> dt_plateNumber d"
        using inv by (fastforce simp: vehicleClash_def account_inv_def)
      ultimately show ?thesis using i3 by (auto simp: s' account_inv_def)
    qed
  qed
qed

lemma generateOtp_inv: "account_inv s \<Longrightarrow> account_inv (snd (generateOtp env s))"
  by (rule account_inv_frame) (auto simp: generateOtp_def freshId_def)

lemma hashPassword_inv: "account_inv s \<Longrightarrow> account_inv (snd (hashPassword env p s))"
  by (rule account_inv_frame) (auto simp: hashPassword_def freshId_def)

lemma createDriver_inv:
  assumes "account_inv s" "createDriver env dto s = (res, s')"
  shows "account_inv s'"
proof (cases "registrationProblem (cd_email dto) (cd_details dto) s")
  case None
  obtain h s1 where h: "hashPassword env (cd_password dto) s = (h, s1)" by fastforce
  then have i1: "account_inv s1" using hashPassword_inv [OF assms(1), of env "cd_password dto"] by simp
  obtain r s2 where r: "saveNewDriver (cd_email dto) (Some h) None None VS_PENDING (cd_details dto) s1 = (r, s2)"
    by fastforce
  then have i2: "account_inv s2" using saveNewDriver_inv [OF i1] by blast
  show ?thesis
  proof (cases r)
    case (Inl e)
    then show ?thesis using assms(2) None h r i2 by (simp add: createDriver_def)
  next
    case (Inr d)
    then have "issueDriverSession env None d (sanitizeDriver d) s2 = (res, s')"
      using assms(2) None h r by (simp add: createDriver_def)
    from issueDriverSession_frame [OF this] show ?thesis using account_inv_frame [OF i2] by blast
  qed
qed (use assms in \<open>simp add: createDriver_def\<close>)

lemma createFromPrivy_inv:
  "account_inv s \<Longrightarrow> createFromPrivy did email wallet d s = (res, s') \<Longrightarrow> account_inv s'"
  by (auto simp: createFromPrivy_def split: option.splits intro: saveNewDriver_inv)

lemma loginDriver_inv:
  assumes "account_inv s" "loginDriver env email pw s = (res, s')"
  shows "account_inv s'"
proof -
  have "s' = s \<or> (\<exists>m d a. issueDriverSession env m d a s = (res, s'))"
    using assms(2) by (auto simp: loginDriver_def split: option.splits if_splits)
  then show ?thesis
  proof (elim disjE exE)
    fix m d a assume "issueDriverSession env m d a s = (res, s')"
    from issueDriverSession_frame [OF this] show ?thesis using account_inv_frame [OF assms(1)] by blast
  qed (use assms(1) in simp)
qed

lemma findDriver_inv:
  "account_inv s \<Longrightarrow> findDriver i s = Some d \<Longrightarrow> driver_ok d \<and> d_id d = i \<and> d_id d < nextId s \<and> d \<in> set (drivers s)"
  using driverRepo.findById_SomeD by (auto simp: account_inv_def)

text \<open>A change of a stored driver that keeps its unique columns.\<close>

lemma account_inv_change:
  assumes inv: "account_inv s" and d: "d \<in> set (drivers s)" and x: "driver_ok x" "d_id x = d_id d"
    "d_email x = d_email d" "d_phone x = d_phone d" "d_licenseNumber x = d_licenseNumber d"
  shows "account_inv (saveDriver x s)"
proof (rule account_inv_saveDriver [OF inv x(1)])
  show "d_id x < nextId s" using inv d x(2) by (simp add: account_inv_def)
  have inj: "inj_on d_email (set (drivers s))" "inj_on d_phone (set (drivers s))"
    "inj_on d_licenseNumber (set (drivers s))"
    using inv by (simp_all add: account_inv_def distinct_map)
  have "d_email y \<noteq> d_email x \<and> d_phone y \<noteq> d_phone x \<and> d_licenseNumber y \<noteq> d_licenseNumber x"
    if "y \<in> set (drivers s)" "d_id y \<noteq> d_id x" for y
  proof -
    have "y \<noteq> d" using that(2) x(2) by auto
    moreover have "y = d" if "f y = f d" "inj_on f (set (drivers s))" for f :: "Driver \<Rightarrow> string"
      using inj_onD [OF that(2,1) \<open>y \<in> set (drivers s)\<close> d] .
    ultimately show ?thesis using inj x(3-5) by metis
  qed
  then show "unlike_others x s" by (simp add: unlike_others_def)
qed

lemma updateDriver_inv:
  assumes inv: "account_inv s" and run: "updateDriver i dto s = (res, s')"
  shows "account_inv s'"
proof -
  have "s' = s \<or> (\<exists>d. findDriver i s = Some d \<and> \<not> driverClash (assignDriver dto d) s \<and>
      s' = saveDriver (assignDriver dto d) s)"
    using run by (auto simp: updateDriver_def storeDriver_def split: option.splits if_splits)
  then show ?thesis
  proof (elim disjE exE conjE)
    fix d assume d: "findDriver i s = Some d" "\<not> driverClash (assignDriver dto d) s"
      "s' = saveDriver (assignDriver dto d) s"
    have "driver_ok (assignDriver dto d)" "d_id (assignDriver dto d) < nextId s"
      using findDriver_inv [OF inv d(1)] by (simp_all add: assignDriver_def driver_ok_def)
    then show ?thesis
      unfolding d(3) by (rule account_inv_saveDriver [OF inv _ _ unlike_others_store [OF d(2)]])
  qed (use inv in simp)
qed

lemma account_inv_tokens: "account_inv s \<Longrightarrow> account_inv (revokeAllForSubject i ty s)"
  by (rule account_inv_frame) (auto simp: revokeAllForSubject_def)

lemma status_change_inv:
  assumes inv: "account_inv s" and d: "findDriver i s = Some d"
    and x: "x = d\<lparr>d_verificationStatus := vs, d_isActive := act, d_isOnline := onl\<rparr>" "driver_ok x"
  shows "account_inv (saveDriver x s)"
  using account_inv_change [OF inv, of d x] findDriver_inv [OF inv d] x by simp

lemma updateOnlineStatus_inv:
  assumes inv: "account_inv s" and run: "updateOnlineStatus i b s = (res, s')"
  shows "account_inv s'"
proof (cases "findDriver i s")
  case (Some d)
  let ?x = "d\<lparr>d_isOnline := b\<rparr>"
  have "s' = s \<or> (s' = saveDriver ?x s \<and> driver_ok ?x)"
    using run Some by (auto simp: updateOnlineStatus_def Let_def driver_ok_def split: if_splits)
  then show ?thesis
    using status_change_inv [OF inv Some, where x = ?x and vs = "d_verificationStatus d" and act = "d_isActive d" and onl = b] inv by auto
qed (use run inv in \<open>simp add: updateOnlineStatus_def\<close>)

lemma updateVerificationStatus_inv:
  assumes inv: "account_inv s" and run: "updateVerificationStatus i v s = (res, s')"
  shows "account_inv s'"
proof (cases "findDriver i s")
  case (Some d)
  let ?x = "d\<lparr>d_verificationStatus := v, d_isOnline := (if v \<noteq> VS_APPROVED then False else d_isOnline d)\<rparr>"
  have "driver_ok ?x" using findDriver_inv [OF inv Some] by (auto simp: driver_ok_def)
  then have "account_inv (saveDriver ?x s)"
    using status_change_inv [OF inv Some, where x = ?x and vs = v and act = "d_isActive d" and onl = "d_isOnline ?x"] by simp
  then show ?thesis
    using run Some account_inv_tokens by (auto simp: updateVerificationStatus_def Let_def)
qed (use run inv in \<open>simp add: updateVerificationStatus_def\<close>)

lemma updateActiveStatus_inv:
  assumes inv: "account_inv s" and run: "updateActiveStatus i b s = (res, s')"
  shows "account_inv s'"
proof (cases "findDriver i s")
  case (Some d)
  let ?x = "d\<lparr>d_isActive := b, d_isOnline := (if b then d_isOnline d else False)\<rparr>"
  have "driver_ok ?x" using findDriver_inv [OF inv Some] by (auto simp: driver_ok_def)
  then have "account_inv (saveDriver ?x s)"
    using status_change_inv [OF inv Some, where x = ?x and vs = "d_verificationStatus d" and act = b and onl = "d_isOnline ?x"] by simp
  then show ?thesis
    using run Some account_inv_tokens by (auto simp: updateActiveStatus_def Let_def)
qed (use run inv in \<open>simp add: updateActiveStatus_def\<close>)

lemma removeDriver_inv:
  assumes inv: "account_inv s" and run: "removeDriver i s = (res, s')"
  shows "account_inv s'"
proof -
  have "s' = s \<or> (\<exists>j. s' = deleteDriverRow j (revokeAllForSubject j DRIVER s))"
    using run by (auto simp: removeDriver_def split: option.splits)
  moreover have "account_inv (deleteDriverRow j t)" if "account_inv t" for j t
    using that by (auto simp: deleteDriverRow_def account_inv_def tbl_delete_def Let_def distinct_map_filter)
  ultimately show ?thesis using inv account_inv_tokens by auto
qed

lemma driverForgotPassword_inv:
  assumes inv: "account_inv s" and run: "driverForgotPassword env email s = (res, s')"
  shows "account_inv s'"
proof (cases "findDriverByEmail email s")
  case (Some d)
  let ?s1 = "snd (generateOtp env s)" and ?otp = "fst (generateOtp env s)"
  have "account_inv (updateDriverOtp (d_id d) ?otp (getExpiryTime 10 ?s1) ?s1)"
    unfolding updateDriverOtp_def
    by (rule account_inv_updateDriverRow [OF generateOtp_inv [OF inv]]) (simp add: driver_ok_def)
  moreover have "s' = enqueue (SendForgotPassword (d_email d) ?otp (d_name d))
      (updateDriverOtp (d_id d) ?otp (getExpiryTime 10 ?s1) ?s1)"
    using run Some by (auto simp: driverForgotPassword_def Let_def split: prod.splits)
  ultimately show ?thesis by (auto simp: enqueue_def intro: account_inv_frame)
qed (use run inv in \<open>simp add: driverForgotPassword_def\<close>)

lemma driverResetPassword_inv:
  assumes inv: "account_inv s" and run: "driverResetPassword env email otp pw s = (res, s')"
  shows "account_inv s'"
proof -
  have "s' = s \<or> (\<exists>i h. s' = updateDriverPassword i h (snd (hashPassword env pw s)))"
    using run by (auto simp: driverResetPassword_def Let_def split: option.splits if_splits prod.splits)
  moreover have "account_inv (updateDriverPassword i h (snd (hashPassword env pw s)))" for i h
    unfolding updateDriverPassword_def
    by (rule account_inv_updateDriverRow [OF hashPassword_inv [OF inv]]) (simp add: driver_ok_def)
  ultimately show ?thesis using inv by auto
qed

section \<open>The guarantees\<close>

text \<open>Every operation of the service, and everything else that leaves these tables alone.\<close>

inductive driver_step :: "authEnv \<Rightarrow> sys \<Rightarrow> sys \<Rightarrow> bool" for env where
  create: "createDriver env dto s = (res, s') \<Longrightarrow> driver_step env s s'"
| privy: "createFromPrivy did email wallet d s = (res, s') \<Longrightarrow> driver_step env s s'"
| login: "loginDriver env email pw s = (res, s') \<Longrightarrow> driver_step env s s'"
| update: "updateDriver i udto s = (res, s') \<Longrightarrow> driver_step env s s'"
| online: "updateOnlineStatus i b s = (res, s') \<Longrightarrow> driver_step env s s'"
| verification: "updateVerificationStatus i v s = (res, s') \<Longrightarrow> driver_step env s s'"
| active: "updateActiveStatus i b s = (res, s') \<Longrightarrow> driver_step env s s'"
| remove: "removeDriver i s = (ures, s') \<Longrightarrow> driver_step env s s'"
| forgot: "driverForgotPassword env email s = (sres, s') \<Longrightarrow> driver_step env s s'"
| reset: "driverResetPassword env email otp pw s = (sres, s') \<Longrightarrow> driver_step env s s'"
| other: "drivers s' = drivers s \<Longrightarrow> vehicles s' = vehicles s \<Longrightarrow> nextId s \<le> nextId s' \<Longrightarrow>
    driver_step env s s'"

lemma account_inv_step: "driver_step env s s' \<Longrightarrow> account_inv s \<Longrightarrow> account_inv s'"
  by (erule driver_step.cases)
    (blast intro: createDriver_inv createFromPrivy_inv loginDriver_inv updateDriver_inv
      updateOnlineStatus_inv updateVerificationStatus_inv updateActiveStatus_inv removeDriver_inv
      driverForgotPassword_inv driverResetPassword_inv account_inv_frame)+

lemma account_inv_steps: "(driver_step env)\<^sup>*\<^sup>* s s' \<Longrightarrow> account_inv s \<Longrightarrow> account_inv s'"
proof (induction rule: rtranclp_induct)
  case (step y z)
  then show ?case using account_inv_step by blast
qed

text \<open>C25: whatever is called on the driver accounts, in every reachable state a driver who is online is
  approved and not suspended, and no two drivers share an email, a phone or a licence, no two
  vehicles a plate.
\<close>

theorem online_drivers_are_approved:
  assumes "(driver_step env)\<^sup>*\<^sup>* s s'" "account_inv s"
  shows "(\<forall>d\<in>set (drivers s'). d_isOnline d \<longrightarrow> d_verificationStatus d = VS_APPROVED \<and> d_isActive d) \<and>
    distinct (map d_email (drivers s')) \<and> distinct (map d_phone (drivers s')) \<and>
    distinct (map d_licenseNumber (drivers s')) \<and> distinct (map v_plateNumber (vehicles s'))"
  using account_inv_steps [OF assms] by (simp add: account_inv_def driver_ok_def)

lemma updateActiveStatus_suspends:
  assumes "findDriver i s = Some d"
  shows "updateActiveStatus i False s =
    (Inr (sanitizeDriver (d\<lparr>d_isActive := False, d_isOnline := False\<rparr>)),
     revokeAllForSubject i DRIVER (saveDriver (d\<lparr>d_isActive := False, d_isOnline := False\<rparr>) s))"
  using assms driverRepo.findById_SomeD [OF assms] by (simp add: updateActiveStatus_def Let_def)

text \<open>A suspension takes effect at once: the driver is offline, resolves to no principal any
  more, cannot sign in, cannot go online, and every one of their sessions is revoked.
\<close>

theorem suspension_is_immediate:
  assumes "account_inv s" "findDriver i s = Some d" "updateActiveStatus i False s = (res, s')"
  shows "findForAuth i s' = None \<and>
    (\<exists>x. findDriver i s' = Some x \<and> \<not> d_isOnline x \<and> \<not> d_isActive x) \<and>
    (\<exists>e. fst (updateOnlineStatus i True s') = Inl e) \<and>
    (\<exists>e. loginDriver env (d_email d) pw s' = (Inl e, s')) \<and>
    (\<forall>t\<in>set (refreshTokens s'). t_subjectId t = i \<longrightarrow> t_subjectType t = DRIVER \<longrightarrow> t_revokedAt t \<noteq> None)"
proof -
  let ?x = "d\<lparr>d_isActive := False, d_isOnline := False\<rparr>"
  let ?t = "saveDriver ?x s"
  have s': "s' = revokeAllForSubject i DRIVER ?t"
    using assms(3) updateActiveStatus_suspends [OF assms(2)] by simp
  have di: "d_id d = i" "d \<in> set (drivers s)" using driverRepo.findById_SomeD [OF assms(2)] by auto
  have dr: "drivers s' = drivers ?t" by (simp add: s' revokeAllForSubject_def)
  then have fd: "findDriver i s' = Some ?x"
    using driverRepo.findById_save_same [of ?x s] di(1) by (simp add: findDriver_def)
  have inv: "account_inv ?t"
    by (rule account_inv_change [OF assms(1) di(2)]) (simp_all add: driver_ok_def)
  have uniq: "y = ?x" if "y \<in> set (drivers ?t)" "d_id y = i" for y
    using driverRepo.in_rows_save [OF that(1)] that(2) di(1) by auto
  have auth: "findForAuth i s' = None"
  proof -
    have "\<not> (d_id y = i \<and> d_isActive y)" if "y \<in> set (drivers ?t)" for y
      using uniq [OF that] by auto
    then have "find (\<lambda>y. d_id y = i \<and> d_isActive y) (drivers ?t) = None" by (simp add: find_None_iff)
    then show ?thesis by (simp add: findForAuth_def dr)
  qed
  have mail: "y = ?x" if "findDriverByEmail (d_email d) s' = Some y" for y
  proof -
    have y: "y \<in> set (drivers ?t)" "d_email y = d_email d"
      using that by (auto simp: findDriverByEmail_def dr dest: find_SomeD)
    have "?x \<in> set (drivers ?t)" using driverRepo.findById_SomeD [OF fd] by (simp add: dr)
    moreover have "inj_on d_email (set (drivers ?t))" using inv by (simp add: account_inv_def distinct_map)
    ultimately show ?thesis using inj_onD [of d_email "set (drivers ?t)" y ?x] y by simp
  qed
  have login: "\<exists>e. loginDriver env (d_email d) pw s' = (Inl e, s')"
  proof (cases "findDriverByEmail (d_email d) s'")
    case (Some y)
    then have "\<not> d_isActive y" using mail by simp
    then show ?thesis using Some by (cases "d_password y") (simp_all add: loginDriver_def)
  qed (simp add: loginDriver_def)
  have online: "\<exists>e. fst (updateOnlineStatus i True s') = Inl e"
    by (simp add: updateOnlineStatus_def fd)
  have tokens: "\<forall>t\<in>set (refreshTokens s'). t_subjectId t = i \<longrightarrow> t_subjectType t = DRIVER \<longrightarrow> t_revokedAt t \<noteq> None"
    unfolding s' using revokeAll_dead by blast
  have "\<exists>x. findDriver i s' = Some x \<and> \<not> d_isOnline x \<and> \<not> d_isActive x" by (simp add: fd)
  then show ?thesis using auth online login tokens by blast
qed

section \<open>Password reset\<close>

lemma findDriverByEmail_updateRow:
  assumes "\<And>x. d_email (f x) = d_email x"
  shows "findDriverByEmail e (updateDriverRow i f s) =
    map_option (\<lambda>d. if d_id d = i then f d else d) (findDriverByEmail e s)"
  unfolding findDriverByEmail_def updateDriverRow_def tbl_update_def
  by (simp add: find_map_cong assms)

lemma findDriverByEmail_frame: "drivers s' = drivers s \<Longrightarrow> findDriverByEmail e s' = findDriverByEmail e s"
  by (simp add: findDriverByEmail_def)

text \<open>The password reset. The code that \<open>forgotPassword\<close> queues for the driver, presented within
  ten minutes, sets the new password; the new password then passes the check of the sign-in; and
  the code is used up: presenting it again is refused.
\<close>

theorem password_reset_once:
  assumes env: "env_ok env" and d: "findDriverByEmail email s = Some d"
    and forgot: "driverForgotPassword env email s = (res, s1)"
    and time: "0 \<le> ms" "ms \<le> 600000"
  shows "\<exists>otp msg s3 h. last (jobs s1) = SendForgotPassword (d_email d) otp (d_name d) \<and>
    driverResetPassword env email otp pw (tick ms s1) = (Inr msg, s3) \<and>
    map_option d_password (findDriverByEmail email s3) = Some (Some h) \<and> ae_compare env pw h \<and>
    driverResetPassword env email otp pw' s3 = (Inl (BadRequestException ''Invalid OTP''), s3)"
proof -
  obtain otp t where g: "generateOtp env s = (otp, t)" by fastforce
  note digits = generateOtp_digits [OF env g]
  have t: "drivers t = drivers s" "now t = now s" "jobs t = jobs s"
    using generateOtp_frame [OF g] by (simp_all add: freshId_def)
  let ?d = "d\<lparr>d_otpCode := Some otp, d_otpExpiry := Some (now s + 600000)\<rparr>"
  have s1: "s1 = enqueue (SendForgotPassword (d_email d) otp (d_name d))
      (updateDriverOtp (d_id d) otp (now s + 600000) t)"
    using forgot d g by (simp add: driverForgotPassword_def getExpiryTime_def t(2))
  have d2: "findDriverByEmail email (tick ms s1) = Some ?d"
  proof -
    have "findDriverByEmail email (tick ms s1) =
        findDriverByEmail email (updateDriverOtp (d_id d) otp (now s + 600000) t)"
      by (rule findDriverByEmail_frame) (simp add: s1 tick_def enqueue_def)
    also have "\<dots> = Some ?d"
      using d findDriverByEmail_frame [OF t(1), of email]
      by (simp add: updateDriverOtp_def findDriverByEmail_updateRow)
    finally show ?thesis .
  qed
  have n2: "now (tick ms s1) = now s + ms"
    by (simp add: s1 tick_def enqueue_def updateDriverOtp_def updateDriverRow_def t(2))
  obtain h u where hp: "hashPassword env pw (tick ms s1) = (h, u)" by fastforce
  have u: "drivers u = drivers (tick ms s1)" and cmp: "ae_compare env pw h"
    using hp env by (auto simp: hashPassword_def freshId_def env_ok_def)
  let ?s3 = "updateDriverPassword (d_id d) h u"
  have "otpMatches (Some otp) (Some otp)"
    using otpMatches_iff [of otp otp] digits(1) by auto
  then have reset: "driverResetPassword env email otp pw (tick ms s1) =
      (Inr ''Password has been reset successfully. You can now login with your new password.'', ?s3)"
    using d2 hp time by (simp add: driverResetPassword_def isExpired_def n2)
  have d3: "findDriverByEmail email ?s3 = Some (?d\<lparr>d_password := Some h, d_otpCode := None, d_otpExpiry := None\<rparr>)"
    using d2 findDriverByEmail_frame [OF u, of email]
    by (simp add: updateDriverPassword_def findDriverByEmail_updateRow)
  have "driverResetPassword env email otp pw' ?s3 = (Inl (BadRequestException ''Invalid OTP''), ?s3)"
    by (simp add: driverResetPassword_def d3 otpMatches_def)
  moreover have "last (jobs s1) = SendForgotPassword (d_email d) otp (d_name d)"
    by (simp add: s1 enqueue_def)
  moreover have "map_option d_password (findDriverByEmail email ?s3) = Some (Some h)" by (simp add: d3)
  ultimately show ?thesis using reset cmp by blast
qed

section \<open>What goes wrong\<close>

text \<open>A registration whose vehicle the database refuses (the request only checks that
  \<open>vehicleType\<close> is a non-empty text) fails half-way: the account is there, with its password and
  without a vehicle and without a session, and repeating the corrected request is refused because
  the email is taken.
\<close>

theorem registration_fails_halfway:
  assumes "account_inv s" "registrationProblem (cd_email dto) (cd_details dto) s = None"
    and "dt_licenseExpiry (cd_details dto) = Some expiry"
    and "dt_vehicleType (cd_details dto) = None"
    and "createDriver env dto s = (res, s')"
  shows "res = Inl (QueryFailedError ''vehicles'') \<and> vehicles s' = vehicles s \<and>
    (\<exists>d. findDriverByEmail (cd_email dto) s' = Some d \<and> d_isActive d) \<and>
    fst (createDriver env (dto\<lparr>cd_details := (cd_details dto)\<lparr>dt_vehicleType := Some ty\<rparr>\<rparr>) s') =
      Inl (ConflictException ''Email already exists'')"
proof -
  let ?d = "cd_details dto"
  obtain h s1 where h: "hashPassword env (cd_password dto) s = (h, s1)" by fastforce
  then have s1: "drivers s1 = drivers s" "vehicles s1 = vehicles s" "nextId s1 = Suc (nextId s)" "now s1 = now s"
    by (auto simp: hashPassword_def freshId_def)
  let ?x = "newDriver (nextId s1) (cd_email dto) (Some h) None None VS_PENDING ?d expiry (now s1)"
  let ?s2 = "snd (freshId s1)"
  have none: "findDriverByEmail (cd_email dto) s = None" "findDriverByPhone (dt_phone ?d) s = None"
    "findDriverByLicense (dt_licenseNumber ?d) s = None"
    using assms(2) by (auto simp: registrationProblem_def split: if_splits)
  then have "\<not> driverClash ?x ?s2"
    by (auto simp: driverClash_def newDriver_def s1 findDriverByEmail_def findDriverByPhone_def
        findDriverByLicense_def find_None_iff clashes_def)
  then have run: "res = Inl (QueryFailedError ''vehicles'')" "s' = saveDriver ?x ?s2"
    using assms(2-5) h by (auto simp: createDriver_def saveNewDriver_def storeDriver_def freshId_def)
  have "d_id ?x \<notin> d_id ` set (drivers s)"
    using assms(1) by (fastforce simp: newDriver_def s1 account_inv_def)
  then have "drivers s' = drivers s @ [?x]"
    unfolding run(2) by (subst driverRepo.save_insert) (simp_all add: s1 newDriver_def)
  then have mail: "findDriverByEmail (cd_email dto) s' = Some ?x"
    using none(1) by (simp add: findDriverByEmail_def find_append newDriver_def)
  have "fst (createDriver env (dto\<lparr>cd_details := ?d\<lparr>dt_vehicleType := Some ty\<rparr>\<rparr>) s') =
      Inl (ConflictException ''Email already exists'')"
    by (simp add: createDriver_def registrationProblem_def mail)
  moreover have "d_isActive ?x" by (simp add: newDriver_def)
  ultimately show ?thesis using run mail by (simp add: s1)
qed

text \<open>The profile a driver service returns keeps the reset code: after \<open>forgotPassword\<close> the
  lookups of drivers carry the code that was emailed.
\<close>

theorem profile_shows_reset_code:
  assumes "findDriver i s = Some d" "d_otpCode d = Some code"
  shows "map_sum id d_otpCode (findOneDriver i s) = Inr (Some code) \<and>
    Some code \<in> d_otpCode ` set (findAllDrivers s)"
proof -
  have "d \<in> set (drivers s)" using driverRepo.findById_SomeD [OF assms(1)] by simp
  then have "sanitizeDriver d \<in> set (findAllDrivers s)" by (simp add: findAllDrivers_def)
  moreover have "d_otpCode (sanitizeDriver d) = Some code" using assms(2) by (simp add: sanitizeDriver_def)
  ultimately show ?thesis using assms by (force simp: findOneDriver_def sanitizeDriver_def)
qed

section \<open>Witnesses\<close>

lemma demo_account_inv: "account_inv (demo st)"
  by (simp add: account_inv_def driver_ok_def demo_defs)

lemma demo_by_email: "findDriverByEmail ''bola@x.ng'' (demo st) = Some demoDriver"
  by (simp add: findDriverByEmail_def demo_defs)

definition demoDetails :: DriverDetails where
  "demoDetails = \<lparr>dt_name = ''Chi'', dt_phone = ''0802'', dt_licenseNumber = ''L2'',
     dt_licenseExpiry = Some 5000, dt_vehicleType = None, dt_plateNumber = ''XYZ'',
     dt_vehicleColor = ''red'', dt_vehicleModel = ''TVS'', dt_vehicleYear = Some 2020\<rparr>"

theorem online_drivers_are_approved_witness:
  "distinct (map d_email (drivers (snd (updateOnlineStatus 2 False (demo REQUESTED)))))"
proof -
  have "driver_step demoAuth (demo REQUESTED) (snd (updateOnlineStatus 2 False (demo REQUESTED)))"
    by (rule driver_step.online [OF prod.collapse [symmetric]])
  then have "(driver_step demoAuth)\<^sup>*\<^sup>* (demo REQUESTED) (snd (updateOnlineStatus 2 False (demo REQUESTED)))"
    by (rule r_into_rtranclp)
  from online_drivers_are_approved [OF this demo_account_inv] show ?thesis by blast
qed

theorem suspension_is_immediate_witness:
  "findForAuth 2 (snd (updateActiveStatus 2 False (demo REQUESTED))) = None"
  using suspension_is_immediate [OF demo_account_inv _ prod.collapse [symmetric], of 2 REQUESTED demoDriver]
  by simp

theorem password_reset_once_witness:
  "\<exists>otp msg s3. driverResetPassword demoAuth ''bola@x.ng'' otp ''new''
     (tick 1000 (snd (driverForgotPassword demoAuth ''bola@x.ng'' (demo REQUESTED)))) = (Inr msg, s3)"
  using password_reset_once [OF demoAuth_ok demo_by_email [of REQUESTED] prod.collapse [symmetric], where ms = 1000
      and pw = "''new''" and pw' = "''x''"] by fastforce

theorem registration_fails_halfway_witness:
  "fst (createDriver demoAuth \<lparr>cd_email = ''c@x.ng'', cd_password = ''p'', cd_details = demoDetails\<rparr>
     (demo REQUESTED)) = Inl (QueryFailedError ''vehicles'')"
proof -
  let ?dto = "\<lparr>cd_email = ''c@x.ng'', cd_password = ''p'', cd_details = demoDetails\<rparr>"
  have ok: "registrationProblem (cd_email ?dto) (cd_details ?dto) (demo REQUESTED) = None"
    by (simp add: registrationProblem_def demoDetails_def findDriverByEmail_def findDriverByPhone_def
        findDriverByLicense_def findVehicleByPlate_def demo_defs)
  have expiry: "dt_licenseExpiry (cd_details ?dto) = Some 5000"
    and ty: "dt_vehicleType (cd_details ?dto) = None" by (simp_all add: demoDetails_def)
  from registration_fails_halfway [OF demo_account_inv ok expiry ty prod.collapse [symmetric], of demoAuth]
  show ?thesis by blast
qed

theorem profile_shows_reset_code_witness:
  "map_sum id d_otpCode (findOneDriver 2
     (saveDriver (demoDriver\<lparr>d_otpCode := Some ''123456''\<rparr>) (demo REQUESTED))) = Inr (Some ''123456'')"
proof -
  let ?d = "demoDriver\<lparr>d_otpCode := Some ''123456''\<rparr>"
  have "findDriver 2 (saveDriver ?d (demo REQUESTED)) = Some ?d"
    using driverRepo.findById_save_same [of ?d "demo REQUESTED"] by simp
  from profile_shows_reset_code [OF this] show ?thesis by simp
qed

end
