(* ===== verification/Vehicles.thy ===== *)
theory Vehicles
  imports DriverRules
begin

text \<open>
  \<open>src/vehicles/vehicles.service.ts\<close>. A vehicle is returned with its driver, whose credential
  columns are taken off.
\<close>

record VehicleView =
  vw_vehicle :: Vehicle
  vw_driver :: "Driver option"

record CreateVehicleDto =
  cv_driverId :: uuid
  cv_type :: VehicleType
  cv_plateNumber :: string
  cv_color :: string
  cv_model :: string
  cv_year :: int

record UpdateVehicleDto =
  uv_type :: "VehicleType option"
  uv_plateNumber :: "string option"
  uv_color :: "string option"
  uv_model :: "string option"
  uv_year :: "int option"
  uv_isActive :: "bool option"

text \<open>\<open>relations: ['driver']\<close> and \<open>sanitizeVehicle\<close>.\<close>

definition sanitizeVehicle :: "sys \<Rightarrow> Vehicle \<Rightarrow> VehicleView" where
  "sanitizeVehicle s v =
     \<lparr>vw_vehicle = v, vw_driver = map_option stripDriver (findDriver (v_driverId v) s)\<rparr>"

definition findOneVehicle :: "uuid \<Rightarrow> sys \<Rightarrow> VehicleView outcome" where
  "findOneVehicle i s =
     (case findVehicle i s of
        None \<Rightarrow> Inl (NotFoundException ''Vehicle not found'')
      | Some v \<Rightarrow> Inr (sanitizeVehicle s v))"

definition createVehicle :: "CreateVehicleDto \<Rightarrow> (sys, VehicleView) handler" where
  "createVehicle dto s =
     (case findDriver (cv_driverId dto) s of
        None \<Rightarrow> (Inl (NotFoundException ''Driver not found''), s)
      | Some driver \<Rightarrow>
          if \<not> d_isActive driver
          then (Inl (BadRequestException ''Driver account is inactive''), s)
          else if findVehicleByPlate (cv_plateNumber dto) s \<noteq> None
          then (Inl (ConflictException ''Vehicle with this plate number already exists''), s)
          else let (i, s1) = freshId s
               in (case storeVehicle \<lparr>v_id = i, v_driverId = cv_driverId dto, v_type = cv_type dto,
                      v_plateNumber = cv_plateNumber dto, v_color = cv_color dto,
                      v_model = cv_model dto, v_year = cv_year dto, v_isActive = True,
                      v_createdAt = now s1\<rparr> s1 of
                     (Inl e, s2) \<Rightarrow> (Inl e, s2)
                   | (Inr v, s2) \<Rightarrow> (findOneVehicle (v_id v) s2, s2)))"

definition findAllVehicles :: "sys \<Rightarrow> VehicleView list" where
  "findAllVehicles s = map (sanitizeVehicle s) (order_desc v_createdAt (vehicles s))"

definition findVehiclesByDriverId :: "uuid \<Rightarrow> sys \<Rightarrow> VehicleView list outcome" where
  "findVehiclesByDriverId i s =
     (case findDriver i s of
        None \<Rightarrow> Inl (NotFoundException ''Driver not found'')
      | Some _ \<Rightarrow>
          Inr (map (sanitizeVehicle s)
                 (order_desc v_createdAt (filter (\<lambda>v. v_driverId v = i) (vehicles s)))))"

definition assignVehicle :: "UpdateVehicleDto \<Rightarrow> Vehicle \<Rightarrow> Vehicle" where
  "assignVehicle dto v = v\<lparr>
     v_type := (case uv_type dto of Some x \<Rightarrow> x | None \<Rightarrow> v_type v),
     v_plateNumber := (case uv_plateNumber dto of Some x \<Rightarrow> x | None \<Rightarrow> v_plateNumber v),
     v_color := (case uv_color dto of Some x \<Rightarrow> x | None \<Rightarrow> v_color v),
     v_model := (case uv_model dto of Some x \<Rightarrow> x | None \<Rightarrow> v_model v),
     v_year := (case uv_year dto of Some x \<Rightarrow> x | None \<Rightarrow> v_year v),
     v_isActive := (case uv_isActive dto of Some x \<Rightarrow> x | None \<Rightarrow> v_isActive v)\<rparr>"

definition updateVehicle :: "uuid \<Rightarrow> UpdateVehicleDto \<Rightarrow> (sys, VehicleView) handler" where
  "updateVehicle i dto s =
     (case findVehicle i s of
        None \<Rightarrow> (Inl (NotFoundException ''Vehicle not found''), s)
      | Some vehicle \<Rightarrow>
          if (case nonempty (uv_plateNumber dto) of None \<Rightarrow> False
              | Some p \<Rightarrow> p \<noteq> v_plateNumber vehicle \<and> findVehicleByPlate p s \<noteq> None)
          then (Inl (ConflictException ''Vehicle with this plate number already exists''), s)
          else (case storeVehicle (assignVehicle dto vehicle) s of
                  (Inl e, s1) \<Rightarrow> (Inl e, s1)
                | (Inr v, s1) \<Rightarrow> (Inr (sanitizeVehicle s1 v), s1)))"

text \<open>Removing the row sets the vehicle of its rides to null.\<close>

definition removeVehicle :: "uuid \<Rightarrow> (sys, unit) handler" where
  "removeVehicle i s =
     (case findVehicle i s of
        None \<Rightarrow> (Inl (NotFoundException ''Vehicle not found''), s)
      | Some _ \<Rightarrow>
          (Inr (), s\<lparr>vehicles := tbl_delete (\<lambda>v. v_id v = i) (vehicles s),
             rides := map (\<lambda>r. r\<lparr>r_vehicleId :=
               (if r_vehicleId r = Some i then None else r_vehicleId r)\<rparr>) (rides s)\<rparr>))"

definition setVehicleActive :: "bool \<Rightarrow> uuid \<Rightarrow> (sys, VehicleView) handler" where
  "setVehicleActive b i s =
     (case findVehicle i s of
        None \<Rightarrow> (Inl (NotFoundException ''Vehicle not found''), s)
      | Some vehicle \<Rightarrow>
          let v = vehicle\<lparr>v_isActive := b\<rparr>; s1 = saveVehicle v s
          in (Inr (sanitizeVehicle s1 v), s1))"

definition deactivateVehicle :: "uuid \<Rightarrow> (sys, VehicleView) handler" where
  "deactivateVehicle = setVehicleActive False"

definition activateVehicle :: "uuid \<Rightarrow> (sys, VehicleView) handler" where
  "activateVehicle = setVehicleActive True"

section \<open>Plates stay unique, credentials stay inside\<close>

text \<open>Rows with unused keys and unique plates.\<close>

definition fleet_inv :: "sys \<Rightarrow> bool" where
  "fleet_inv s \<longleftrightarrow> (\<forall>v\<in>set (vehicles s). v_id v < nextId s) \<and>
     distinct (map v_id (vehicles s)) \<and> distinct (map v_plateNumber (vehicles s))"

lemma fleet_inv_save:
  assumes "fleet_inv s" "v_id x < nextId s" "\<not> vehicleClash x s"
  shows "fleet_inv (saveVehicle x s)"
proof -
  have "distinct (map v_plateNumber (tbl_save v_id x (vehicles s)))"
    using assms(1,3) by (intro tbl_save_unique) (auto simp: fleet_inv_def vehicleClash_def)
  moreover have "\<forall>v\<in>set (vehicles (saveVehicle x s)). v_id v < nextId s"
    using vehicleRepo.rows_save_all [of s "\<lambda>v. v_id v < nextId s" x] assms(1,2)
    by (simp add: fleet_inv_def)
  moreover have "distinct (map v_id (vehicles (saveVehicle x s)))"
    using vehicleRepo.rows_save_distinct assms(1) by (simp add: fleet_inv_def)
  ultimately show ?thesis by (simp add: fleet_inv_def) (simp add: saveVehicle_def)
qed

lemma fleet_inv_store:
  "fleet_inv s \<Longrightarrow> v_id x < nextId s \<Longrightarrow> storeVehicle x s = (res, s') \<Longrightarrow> fleet_inv s'"
  by (auto simp: storeVehicle_def split: if_splits intro: fleet_inv_save)

lemma fleet_inv_create:
  assumes "fleet_inv s" "createVehicle dto s = (res, s')"
  shows "fleet_inv s'"
proof -
  have "fleet_inv (snd (freshId s))" using assms(1) by (auto simp: fleet_inv_def)
  note st = fleet_inv_store [OF this]
  have "s' = s \<or> (\<exists>x r. v_id x < nextId (snd (freshId s)) \<and> storeVehicle x (snd (freshId s)) = (r, s'))"
    using assms(2)
    by (fastforce simp: createVehicle_def freshId_def split: option.splits if_splits prod.splits sum.splits)
  then show ?thesis using st assms(1) by blast
qed

lemma fleet_inv_updateVehicle:
  assumes "fleet_inv s" "updateVehicle i dto s = (res, s')"
  shows "fleet_inv s'"
proof -
  have "s' = s \<or> (\<exists>v r. findVehicle i s = Some v \<and> storeVehicle (assignVehicle dto v) s = (r, s'))"
    using assms(2) by (auto simp: updateVehicle_def split: option.splits if_splits prod.splits sum.splits)
  then show ?thesis
  proof (elim disjE exE conjE)
    fix v r assume v: "findVehicle i s = Some v" "storeVehicle (assignVehicle dto v) s = (r, s')"
    have "v_id (assignVehicle dto v) < nextId s"
      using vehicleRepo.findById_SomeD [OF v(1)] assms(1) by (auto simp: assignVehicle_def fleet_inv_def)
    then show ?thesis using fleet_inv_store [OF assms(1) _ v(2)] by blast
  qed (use assms(1) in simp)
qed

lemma fleet_inv_setActive:
  assumes "fleet_inv s" "setVehicleActive b i s = (res, s')"
  shows "fleet_inv s'"
proof (cases "findVehicle i s")
  case (Some v)
  have v: "v \<in> set (vehicles s)" using vehicleRepo.findById_SomeD [OF Some] by simp
  have "\<not> vehicleClash (v\<lparr>v_isActive := b\<rparr>) s"
    using assms(1) v by (auto simp: vehicleClash_def fleet_inv_def distinct_map dest: inj_onD)
  then have "fleet_inv (saveVehicle (v\<lparr>v_isActive := b\<rparr>) s)"
    using assms(1) v by (intro fleet_inv_save) (auto simp: fleet_inv_def)
  then show ?thesis using assms(2) Some by (simp add: setVehicleActive_def Let_def)
qed (use assms in \<open>simp add: setVehicleActive_def\<close>)

lemma fleet_inv_remove:
  "fleet_inv s \<Longrightarrow> removeVehicle i s = (res, s') \<Longrightarrow> fleet_inv s'"
  by (auto simp: removeVehicle_def fleet_inv_def tbl_delete_def distinct_map_filter split: option.splits)

text \<open>The answer of an operation shows no credential of the driver.\<close>

definition clean_view :: "VehicleView \<Rightarrow> bool" where
  "clean_view w \<longleftrightarrow> (case vw_driver w of None \<Rightarrow> True
     | Some d \<Rightarrow> d_password d = None \<and> d_otpCode d = None \<and> d_otpExpiry d = None)"

lemma clean_sanitize: "clean_view (sanitizeVehicle s v)"
  by (simp add: clean_view_def sanitizeVehicle_def stripDriver_def split: option.split)

lemma clean_answers:
  "createVehicle cdto s = (Inr w, s') \<Longrightarrow> clean_view w"
  "updateVehicle i udto s = (Inr w, s') \<Longrightarrow> clean_view w"
  "setVehicleActive b i s = (Inr w, s') \<Longrightarrow> clean_view w"
  "findOneVehicle i s = Inr w \<Longrightarrow> clean_view w"
  by (auto simp: createVehicle_def updateVehicle_def setVehicleActive_def findOneVehicle_def Let_def
      clean_sanitize split: option.splits if_splits prod.splits sum.splits)

text \<open>Whatever the vehicle service is asked, a plate belongs to one vehicle, and no answer shows a
  driver's password, reset code or its expiry.
\<close>

theorem vehicles_unique_and_clean:
  assumes "fleet_inv s"
    and "(res, s') \<in> {createVehicle cdto s, updateVehicle i udto s, deactivateVehicle i s, activateVehicle i s}"
  shows "fleet_inv s' \<and> (\<forall>w d. res = Inr w \<longrightarrow> vw_driver w = Some d \<longrightarrow>
    d_password d = None \<and> d_otpCode d = None \<and> d_otpExpiry d = None)"
proof
  have ops: "createVehicle cdto s = (res, s') \<or> updateVehicle i udto s = (res, s') \<or>
      setVehicleActive False i s = (res, s') \<or> setVehicleActive True i s = (res, s')"
    using assms(2) by (auto simp: deactivateVehicle_def activateVehicle_def)
  show "fleet_inv s'"
    using ops fleet_inv_create [OF assms(1)] fleet_inv_updateVehicle [OF assms(1)]
      fleet_inv_setActive [OF assms(1)] by blast
  have "clean_view w" if "res = Inr w" for w
    using ops clean_answers unfolding that by blast
  then show "\<forall>w d. res = Inr w \<longrightarrow> vw_driver w = Some d \<longrightarrow>
      d_password d = None \<and> d_otpCode d = None \<and> d_otpExpiry d = None"
    by (fastforce simp: clean_view_def)
qed

theorem vehicles_unique_and_clean_witness:
  "fleet_inv (snd (deactivateVehicle 3 (demo REQUESTED)))"
proof -
  have "fleet_inv (demo REQUESTED)" by (simp add: fleet_inv_def demo_defs)
  moreover have "(fst (deactivateVehicle 3 (demo REQUESTED)), snd (deactivateVehicle 3 (demo REQUESTED))) \<in>
      {createVehicle cdto (demo REQUESTED), updateVehicle i udto (demo REQUESTED),
       deactivateVehicle 3 (demo REQUESTED), activateVehicle 3 (demo REQUESTED)}" for cdto i udto
    by simp
  ultimately show ?thesis using vehicles_unique_and_clean [of "demo REQUESTED"
      "fst (deactivateVehicle 3 (demo REQUESTED))" "snd (deactivateVehicle 3 (demo REQUESTED))" _ 3]
    by blast
qed

end
