(* ===== verification/Principals.thy ===== *)
theory Principals
  imports Users DriverRules
begin

text \<open>
  Who is calling and what they may do: \<open>src/common/utils/ownership.util.ts\<close>,
  \<open>src/common/utils/pagination.util.ts\<close>, \<open>src/auth/services/auth-resolver.service.ts\<close>, the JWT
  strategy and the guards of \<open>src/auth/guards\<close>. Extracting and verifying the bearer token is
  Passport's part, the argument \<open>verify\<close>.
\<close>

section \<open>Ownership\<close>

record Principal =
  p_id :: uuid
  p_role :: Role

definition isAdmin :: "Principal option \<Rightarrow> bool" where
  "isAdmin who = (case who of None \<Rightarrow> False | Some p \<Rightarrow> p_role p = ADMIN)"

definition canActOnBehalfOf :: "Principal option \<Rightarrow> uuid option \<Rightarrow> bool" where
  "canActOnBehalfOf who ownerId =
     (case who of
        None \<Rightarrow> False
      | Some p \<Rightarrow>
          if isAdmin who then True
          else (case ownerId of None \<Rightarrow> False | Some i \<Rightarrow> p_id p = i))"

definition assertOwnership :: "Principal option \<Rightarrow> uuid option \<Rightarrow> string \<Rightarrow> unit outcome" where
  "assertOwnership who ownerId action =
     (if canActOnBehalfOf who ownerId then Inr ()
      else Inl (ForbiddenException (''You can only '' @ action @ ''.'')))"

text \<open>The parties of a ride: its \<open>userId\<close> and \<open>driverId\<close>, each possibly missing.\<close>

definition isPartyToRide :: "Principal option \<Rightarrow> (uuid option \<times> uuid option) option \<Rightarrow> bool" where
  "isPartyToRide who ride =
     (case (who, ride) of
        (Some p, Some (userId, driverId)) \<Rightarrow>
          if isAdmin who then True
          else if userId = Some (p_id p) then True
          else if driverId = Some (p_id p) then True
          else False
      | _ \<Rightarrow> False)"

definition assertPartyToRide ::
  "Principal option \<Rightarrow> (uuid option \<times> uuid option) option \<Rightarrow> string \<Rightarrow> unit outcome" where
  "assertPartyToRide who ride action =
     (if isPartyToRide who ride then Inr ()
      else Inl (ForbiddenException (''You can only '' @ action @ '' for rides you are part of.'')))"

definition rideParties :: "Ride \<Rightarrow> uuid option \<times> uuid option" where
  "rideParties r = (Some (r_userId r), r_driverId r)"

text \<open>The rule is uniform: an administrator may act on every row, anybody else on a row that has
  an owner and only as that owner; a ride has its two parties for owners; an assertion fails with
  403 exactly when the rule says no, whether the row exists or not.
\<close>

theorem ownership_rule:
  "(assertOwnership who owner action = Inr () \<longleftrightarrow>
      (\<exists>p. who = Some p \<and> (p_role p = ADMIN \<or> owner = Some (p_id p)))) \<and>
   (assertPartyToRide who (Some (rideParties r)) action = Inr () \<longleftrightarrow>
      canActOnBehalfOf who (Some (r_userId r)) \<or> canActOnBehalfOf who (r_driverId r)) \<and>
   (case assertOwnership who owner action of Inr _ \<Rightarrow> True | Inl e \<Rightarrow> http_status e = 403) \<and>
   \<not> isPartyToRide who None"
  by (cases who; cases owner; cases "r_driverId r")
    (auto simp: assertOwnership_def canActOnBehalfOf_def isAdmin_def assertPartyToRide_def
      isPartyToRide_def rideParties_def)

section \<open>Pagination\<close>

text \<open>A query value: absent or null, a number, or text; \<open>None\<close> inside is \<open>NaN\<close> or an infinity.\<close>

datatype rawParam = Absent | RawNumber "num option" | RawText string

definition DEFAULT_PAGE_LIMIT :: int where
  "DEFAULT_PAGE_LIMIT = 50"

definition MAX_PAGE_LIMIT :: int where
  "MAX_PAGE_LIMIT = 200"

fun numberOf :: "rawParam \<Rightarrow> num option" where
  "numberOf Absent = None"
| "numberOf (RawNumber n) = n"
| "numberOf (RawText t) = (if t = '''' then None else js_Number t)"

definition clampLimit :: "rawParam \<Rightarrow> int \<Rightarrow> int \<Rightarrow> int" where
  "clampLimit raw fallback max' =
     (case numberOf raw of
        None \<Rightarrow> fallback
      | Some parsed \<Rightarrow>
          let floored = js_floor parsed
          in if floored < 1 then fallback else min floored max')"

definition clampOffset :: "rawParam \<Rightarrow> int" where
  "clampOffset raw =
     (case numberOf raw of None \<Rightarrow> 0 | Some parsed \<Rightarrow> max 0 (js_floor parsed))"

text \<open>Whatever the query string holds, a page has between 1 and 200 rows and the offset is not
  negative; a decimal number in the query is taken as it is, clamped.
\<close>

theorem page_bounds:
  "1 \<le> clampLimit raw DEFAULT_PAGE_LIMIT MAX_PAGE_LIMIT \<and>
   clampLimit raw DEFAULT_PAGE_LIMIT MAX_PAGE_LIMIT \<le> 200 \<and> 0 \<le> clampOffset raw \<and>
   (let n = k mod 2 ^ 52
    in clampOffset (RawText (js_of_nat n)) = int n \<and>
       clampLimit (RawText (js_of_nat n)) DEFAULT_PAGE_LIMIT MAX_PAGE_LIMIT =
         (if n = 0 then 50 else min (int n) 200))"
proof -
  define n where "n = k mod 2 ^ 52"
  have "n < 2 ^ 52" unfolding n_def by (rule mod_less_divisor) simp
  then have "numberOf (RawText (js_of_nat n)) = Some (of_nat n)"
    by (simp add: js_of_nat_not_Nil js_Number_js_of_nat)
  then have "clampOffset (RawText (js_of_nat n)) = int n"
    "clampLimit (RawText (js_of_nat n)) DEFAULT_PAGE_LIMIT MAX_PAGE_LIMIT =
         (if n = 0 then 50 else min (int n) 200)"
    by (auto simp: clampOffset_def clampLimit_def js_floor_def DEFAULT_PAGE_LIMIT_def MAX_PAGE_LIMIT_def
        simp del: numberOf.simps)
  moreover have "1 \<le> clampLimit raw DEFAULT_PAGE_LIMIT MAX_PAGE_LIMIT \<and>
      clampLimit raw DEFAULT_PAGE_LIMIT MAX_PAGE_LIMIT \<le> 200 \<and> 0 \<le> clampOffset raw"
    by (auto simp: clampLimit_def clampOffset_def DEFAULT_PAGE_LIMIT_def MAX_PAGE_LIMIT_def Let_def
        split: option.split simp del: numberOf.simps)
  ultimately show ?thesis unfolding n_def [symmetric] Let_def by blast
qed

section \<open>Resolving a token\<close>

datatype identity_row = RowUser User | RowDriver Driver

record ResolvedPrincipal =
  rp_id :: uuid
  rp_role :: Role
  rp_row :: identity_row

definition resolvePrincipal :: "JwtPayload \<Rightarrow> sys \<Rightarrow> ResolvedPrincipal outcome" where
  "resolvePrincipal payload s =
     (case jp_sub payload of
        None \<Rightarrow> Inl (UnauthorizedException ''Token is missing a subject'')
      | Some sub \<Rightarrow>
          if jp_type payload = Some ''driver''
          then (case findForAuth sub s of
                  None \<Rightarrow> Inl (UnauthorizedException ''Invalid driver token'')
                | Some driver \<Rightarrow>
                    Inr \<lparr>rp_id = d_id driver, rp_role = d_role driver,
                         rp_row = RowDriver (stripDriver driver)\<rparr>)
          else (case findUser sub s of
                  None \<Rightarrow> Inl (UnauthorizedException ''User not found'')
                | Some user \<Rightarrow>
                    if u_isBlocked user
                    then Inl (UnauthorizedException ''This account has been blocked'')
                    else Inr \<lparr>rp_id = u_id user, rp_role = u_role user,
                              rp_row = RowUser (stripUser user)\<rparr>))"

definition principalOf :: "ResolvedPrincipal \<Rightarrow> Principal" where
  "principalOf r = \<lparr>p_id = rp_id r, p_role = rp_role r\<rparr>"

section \<open>Guards\<close>

text \<open>\<open>JwtStrategy.validate\<close> and \<open>JwtAuthGuard.handleRequest\<close>; \<open>Inr None\<close>: a public route.\<close>

definition handleRequest ::
  "exn option \<Rightarrow> ResolvedPrincipal option \<Rightarrow> string option \<Rightarrow> ResolvedPrincipal outcome" where
  "handleRequest err user info =
     (case (err, user) of
        (Some e, _) \<Rightarrow> Inl e
      | (None, None) \<Rightarrow>
          Inl (UnauthorizedException (case info of Some m \<Rightarrow> (if m = '''' then ''Unauthorized'' else m)
                                                   | None \<Rightarrow> ''Unauthorized''))
      | (None, Some u) \<Rightarrow> Inr u)"

definition jwtAuthGuard ::
  "(string option \<Rightarrow> string + JwtPayload) \<Rightarrow> bool \<Rightarrow> string option \<Rightarrow> sys \<Rightarrow>
   ResolvedPrincipal option outcome" where
  "jwtAuthGuard verify isPublic authorization s =
     (if isPublic then Inr None
      else case verify authorization of
        Inl info \<Rightarrow> map_sum id Some (handleRequest None None (Some info))
      | Inr payload \<Rightarrow>
          (case resolvePrincipal payload s of
             Inl e \<Rightarrow> map_sum id Some (handleRequest (Some e) None None)
           | Inr u \<Rightarrow> map_sum id Some (handleRequest None (Some u) None)))"

definition rolesGuard :: "bool \<Rightarrow> Role list option \<Rightarrow> ResolvedPrincipal option \<Rightarrow> bool" where
  "rolesGuard isPublic requiredRoles user =
     (if isPublic then True
      else case requiredRoles of
        None \<Rightarrow> True
      | Some roles \<Rightarrow>
          (case user of None \<Rightarrow> False | Some u \<Rightarrow> list_ex (\<lambda>role. rp_role u = role) roles))"

text \<open>The two guards in the order the controllers list them; Nest answers a false with 403.\<close>

definition authorize ::
  "(string option \<Rightarrow> string + JwtPayload) \<Rightarrow> bool \<Rightarrow> Role list option \<Rightarrow> string option \<Rightarrow> sys \<Rightarrow>
   ResolvedPrincipal option outcome" where
  "authorize verify isPublic requiredRoles authorization s =
     (case jwtAuthGuard verify isPublic authorization s of
        Inl e \<Rightarrow> Inl e
      | Inr user \<Rightarrow>
          if rolesGuard isPublic requiredRoles user then Inr user
          else Inl (ForbiddenException ''Forbidden resource''))"

lemma findForAuth_D:
  "findForAuth i s = Some d \<Longrightarrow> \<exists>x\<in>set (drivers s). d_id x = i \<and> d_isActive x \<and> d = sanitizeDriver x"
  by (auto simp: findForAuth_def dest: find_SomeD)

text \<open>What a principal is: a live account of the database with the role it has there now.\<close>

definition current_account :: "ResolvedPrincipal \<Rightarrow> sys \<Rightarrow> bool" where
  "current_account p s \<longleftrightarrow>
     (\<exists>x\<in>set (drivers s). rp_id p = d_id x \<and> rp_role p = d_role x \<and> d_isActive x \<and>
        rp_row p = RowDriver (stripDriver x)) \<or>
     (\<exists>x\<in>set (users s). rp_id p = u_id x \<and> rp_role p = u_role x \<and> \<not> u_isBlocked x \<and>
        rp_row p = RowUser (stripUser x))"

lemma resolvePrincipal_current:
  assumes "resolvePrincipal payload s = Inr p"
  shows "current_account p s"
proof (cases "jp_sub payload")
  case (Some sub)
  show ?thesis
  proof (cases "jp_type payload = Some ''driver''")
    case True
    then obtain d where d: "findForAuth sub s = Some d"
      "p = \<lparr>rp_id = d_id d, rp_role = d_role d, rp_row = RowDriver (stripDriver d)\<rparr>"
      using assms Some by (auto simp: resolvePrincipal_def split: option.splits)
    then show ?thesis
      using findForAuth_D [OF d(1)] by (force simp: current_account_def sanitizeDriver_def stripDriver_def)
  next
    case False
    then obtain u where u: "findUser sub s = Some u" "\<not> u_isBlocked u"
      "p = \<lparr>rp_id = u_id u, rp_role = u_role u, rp_row = RowUser (stripUser u)\<rparr>"
      using assms Some by (auto simp: resolvePrincipal_def split: option.splits if_splits)
    then show ?thesis using userRepo.findById_SomeD [OF u(1)] by (auto simp: current_account_def)
  qed
qed (use assms in \<open>simp add: resolvePrincipal_def\<close>)

text \<open>C26: a request that passes the guards of a route with required roles comes from a live account
  (an active driver or a rider who is not blocked), which has one of those roles in the database
  at this moment; what the token claims about the role plays no part; and the principal carries
  no password and no one-time code.
\<close>

theorem authorize_sound:
  assumes "authorize verify False (Some roles) hdr s = Inr u"
  shows "(\<exists>p. u = Some p \<and> current_account p s \<and> rp_role p \<in> set roles \<and>
      (case rp_row p of
         RowUser x \<Rightarrow> u_password x = None \<and> u_otpCode x = None \<and> u_otpExpiry x = None
       | RowDriver d \<Rightarrow> d_password d = None \<and> d_otpCode d = None \<and> d_otpExpiry d = None)) \<and>
    authorize (\<lambda>h. map_sum id (\<lambda>c. c\<lparr>jp_role := r\<rparr>) (verify h)) False (Some roles) hdr s = Inr u"
proof -
  obtain payload p where v: "verify hdr = Inr payload" and p: "resolvePrincipal payload s = Inr p"
    "u = Some p" and ok: "rolesGuard False (Some roles) (Some p)"
    using assms
    by (auto simp: authorize_def jwtAuthGuard_def handleRequest_def split: sum.splits if_splits)
  have cur: "current_account p s" using resolvePrincipal_current [OF p(1)] .
  have role: "rp_role p \<in> set roles" using ok by (auto simp: rolesGuard_def list_ex_iff)
  have clean: "case rp_row p of
      RowUser x \<Rightarrow> u_password x = None \<and> u_otpCode x = None \<and> u_otpExpiry x = None
    | RowDriver d \<Rightarrow> d_password d = None \<and> d_otpCode d = None \<and> d_otpExpiry d = None"
    using cur by (auto simp: current_account_def stripUser_def stripDriver_def)
  have "resolvePrincipal (payload\<lparr>jp_role := r\<rparr>) s = Inr p"
    using p(1) by (auto simp: resolvePrincipal_def split: option.splits if_splits)
  then have "authorize (\<lambda>h. map_sum id (\<lambda>c. c\<lparr>jp_role := r\<rparr>) (verify h)) False (Some roles) hdr s = Inr u"
    using v ok p(2) by (simp add: authorize_def jwtAuthGuard_def handleRequest_def)
  then show ?thesis using cur role clean p(2) by blast
qed

theorem authorize_sound_witness:
  "\<exists>u. authorize (\<lambda>_. Inr \<lparr>jp_sub = Some 2, jp_role = ADMIN, jp_type = Some ''driver''\<rparr>) False
     (Some [DRIVER]) None (demo REQUESTED) = Inr u \<and> u \<noteq> None"
proof -
  let ?verify = "\<lambda>_ :: string option. Inr \<lparr>jp_sub = Some 2, jp_role = ADMIN, jp_type = Some ''driver''\<rparr> :: string + JwtPayload"
  obtain u where u: "authorize ?verify False (Some [DRIVER]) None (demo REQUESTED) = Inr u"
    by (simp add: authorize_def jwtAuthGuard_def handleRequest_def resolvePrincipal_def findForAuth_def
        rolesGuard_def demo_defs sanitizeDriver_def)
  from authorize_sound [OF u] have "u \<noteq> None" by auto
  then show ?thesis using u by blast
qed

end
