(* ===== verification/AuthFlows.thy ===== *)
theory AuthFlows
  imports Principals
begin

text \<open>
  \<open>src/auth/auth.service.ts\<close>: registration, verification, sign-in, password reset, refresh and
  logout of riders. Queueing an email is an append to \<open>jobs\<close>; the queue itself does not fail here.
\<close>

section \<open>The flows\<close>

record RegisterDto =
  rg_name :: string
  rg_email :: string
  rg_phone :: string
  rg_password :: string
  rg_confirmPassword :: string
  rg_acceptTerms :: bool

definition resolveSubject :: "uuid \<Rightarrow> Role \<Rightarrow> sys \<Rightarrow> SessionSubject option" where
  "resolveSubject subjectId subjectType s =
     (if subjectType = DRIVER
      then (case findForAuth subjectId s of
              None \<Rightarrow> None
            | Some driver \<Rightarrow>
                if \<not> d_isActive driver then None
                else Some \<lparr>ss_id = d_id driver, ss_role = DRIVER, ss_isDriver = True\<rparr>)
      else (case findUser subjectId s of
              None \<Rightarrow> None
            | Some user \<Rightarrow>
                if u_isBlocked user then None
                else Some \<lparr>ss_id = u_id user, ss_role = u_role user, ss_isDriver = False\<rparr>))"

definition refreshSession ::
  "authEnv \<Rightarrow> string \<Rightarrow> SessionContext \<Rightarrow> (sys, SessionTokens) handler" where
  "refreshSession env refreshToken context =
     rotate (ae_tokens env) refreshToken resolveSubject context"

definition logout :: "authEnv \<Rightarrow> string \<Rightarrow> sys \<Rightarrow> sys" where
  "logout env refreshToken = revokeByToken (ae_tokens env) refreshToken"

definition issueUserSession ::
  "authEnv \<Rightarrow> string \<Rightarrow> User \<Rightarrow> User \<Rightarrow> (sys, User AuthResult) handler" where
  "issueUserSession env msg user account s =
     (case Tokens.issueSession (ae_tokens env)
             \<lparr>ss_id = u_id user, ss_role = u_role user, ss_isDriver = False\<rparr> noContext s of
        (Inl e, s') \<Rightarrow> (Inl e, s')
      | (Inr session, s') \<Rightarrow>
          (Inr \<lparr>ar_message = Some msg, ar_account = account, ar_session = session,
                ar_token = st_accessToken session\<rparr>, s'))"

definition register :: "authEnv \<Rightarrow> RegisterDto \<Rightarrow> (sys, User AuthResult) handler" where
  "register env dto s =
     (if \<not> rg_acceptTerms dto
      then (Inl (BadRequestException ''You must accept the terms and conditions''), s)
      else if rg_password dto \<noteq> rg_confirmPassword dto
      then (Inl (BadRequestException ''Passwords do not match''), s)
      else andThen (checkIfEmailExists (rg_email dto)) (\<lambda>_.
             andThen (checkIfPhoneExists (rg_phone dto)) (\<lambda>_ s0.
               let (hashedPassword, s1) = hashPassword env (rg_password dto) s0;
                   (otp, s2) = generateOtp env s1
               in (case createUser (blankUser\<lparr>u_name := rg_name dto, u_email := rg_email dto,
                         u_phone := Some (rg_phone dto), u_password := Some hashedPassword,
                         u_provider := Some ''local'', u_isVerified := True\<rparr>) s2 of
                     (Inl e, s3) \<Rightarrow> (Inl e, s3)
                   | (Inr user, s3) \<Rightarrow>
                       issueUserSession env ''Registration successful. You can now login.'' user
                         (sanitizeUser user)
                         (enqueue (SendOtp (u_email user) otp (u_name user)) s3)))) s)"

definition verifyOtp :: "authEnv \<Rightarrow> string \<Rightarrow> string \<Rightarrow> (sys, User AuthResult) handler" where
  "verifyOtp env email otp s =
     (case findUserByEmail email s of
        None \<Rightarrow> (Inl (BadRequestException ''User not found''), s)
      | Some user \<Rightarrow>
          if u_isVerified user
          then (Inl (BadRequestException ''Account is already verified''), s)
          else if nonempty (u_otpCode user) = None
          then (Inl (BadRequestException ''No OTP found. Please request a new one.''), s)
          else if \<not> otpMatches (Some otp) (u_otpCode user)
          then (Inl (BadRequestException ''Invalid OTP''), s)
          else if isExpired (u_otpExpiry user) s
          then (Inl (BadRequestException ''OTP has expired. Please request a new one.''), s)
          else issueUserSession env ''Account verified successfully'' user
                 (sanitizeUser (user\<lparr>u_isVerified := True\<rparr>))
                 (enqueue (SendWelcome (u_email user) (u_name user)) (verifyUser (u_id user) s)))"

definition resendOtp :: "authEnv \<Rightarrow> string \<Rightarrow> (sys, string \<times> string) handler" where
  "resendOtp env email s =
     (case findUserByEmail email s of
        None \<Rightarrow> (Inl (BadRequestException ''User not found''), s)
      | Some user \<Rightarrow>
          if u_isVerified user
          then (Inl (BadRequestException ''Account is already verified''), s)
          else let (otp, s1) = generateOtp env s;
                   s2 = updateUserOtp (u_id user) otp (getExpiryTime 10 s1) s1
               in (Inr (''OTP has been resent to your email'', u_email user),
                   enqueue (SendOtp (u_email user) otp (u_name user)) s2))"

definition login :: "authEnv \<Rightarrow> string \<Rightarrow> string \<Rightarrow> (sys, User AuthResult) handler" where
  "login env email password s =
     (case findUserByEmail email s of
        None \<Rightarrow> (Inl (UnauthorizedException ''Invalid credentials''), s)
      | Some user \<Rightarrow>
          (case u_password user of
             None \<Rightarrow> (Inl (BadRequestException ''This account uses Google Sign-In. Please log in with Google.''), s)
           | Some h \<Rightarrow>
               if \<not> ae_compare env password h
               then (Inl (UnauthorizedException ''Invalid credentials''), s)
               else if \<not> u_isVerified user
               then (Inl (UnauthorizedException ''Please verify your account first. Check your email for OTP.''), s)
               else issueUserSession env ''Login successful'' user (sanitizeUser user) s))"

definition forgotPassword :: "authEnv \<Rightarrow> string \<Rightarrow> (sys, string) handler" where
  "forgotPassword env email s =
     (case findUserByEmail email s of
        None \<Rightarrow> (Inl (BadRequestException ''User not found''), s)
      | Some user \<Rightarrow>
          let (otp, s1) = generateOtp env s;
              s2 = updateUserOtp (u_id user) otp (getExpiryTime 10 s1) s1
          in (Inr ''You can now reset your password'',
              enqueue (SendForgotPassword (u_email user) otp (u_name user)) s2))"

definition resetPassword :: "authEnv \<Rightarrow> string \<Rightarrow> string \<Rightarrow> string \<Rightarrow> (sys, string) handler" where
  "resetPassword env email otp newPassword s =
     (case findUserByEmail email s of
        None \<Rightarrow> (Inl (BadRequestException ''User not found''), s)
      | Some user \<Rightarrow>
          if \<not> otpMatches (Some otp) (u_otpCode user)
          then (Inl (BadRequestException ''Invalid OTP''), s)
          else if isExpired (u_otpExpiry user) s
          then (Inl (BadRequestException ''OTP has expired''), s)
          else let (hashedPassword, s1) = hashPassword env newPassword s
               in (Inr ''Password has been reset successfully. You can now login with your new password.'',
                   updateUserPassword (u_id user) hashedPassword s1))"

section \<open>Refresh re-reads the account\<close>

lemma findForAuth_active: "findForAuth i s = Some d \<Longrightarrow> d_isActive d"
  by (auto simp: findForAuth_def sanitizeDriver_def dest: find_SomeD)

lemma find_afterClaim:
  "findForAuth i (afterClaim x s) = findForAuth i s" "findUser i (afterClaim x s) = findUser i s"
  by (simp_all add: findForAuth_def findUser_def)

text \<open>A refresh re-reads the account: the session of a rider who was blocked or removed, or of a
  driver who was suspended or removed, is refused at the next refresh with the usual 401, and its
  whole family is revoked; and a refresh that succeeds belongs to an account that the access
  token it returns resolves to.
\<close>

theorem refresh_respects_suspension:
  assumes inv: "session_inv s" and run: "refreshSession env tok ctx s = (res, s')"
    and found: "findByHash (te_hash (ae_tokens env) tok) s = Some stored"
  shows "(resolveSubject (t_subjectId stored) (t_subjectType stored) s = None \<longrightarrow>
      res = Inl invalidSession \<and>
      (t_revokedAt stored = None \<and> now s < t_expiresAt stored \<longrightarrow>
        (\<forall>t\<in>set (refreshTokens s'). t_familyId t = t_familyId stored \<longrightarrow> t_revokedAt t \<noteq> None))) \<and>
    (isl res \<or> (\<exists>subject p. resolveSubject (t_subjectId stored) (t_subjectType stored) s = Some subject \<and>
       resolvePrincipal \<lparr>jp_sub = Some (ss_id subject), jp_role = ss_role subject,
         jp_type = (if ss_isDriver subject then Some ''driver'' else None)\<rparr> s = Inr p \<and>
       rp_id p = ss_id subject))"
proof -
  note run' = run [unfolded refreshSession_def]
  have rs: "resolveSubject i ty (afterClaim x s) = resolveSubject i ty s" for i ty x
    by (simp add: resolveSubject_def find_afterClaim)
  have resolves: "\<exists>p. resolvePrincipal \<lparr>jp_sub = Some (ss_id subject), jp_role = ss_role subject,
         jp_type = (if ss_isDriver subject then Some ''driver'' else None)\<rparr> s = Inr p \<and>
       rp_id p = ss_id subject" if r: "resolveSubject i ty s = Some subject" for i ty subject
  proof (cases "ty = DRIVER")
    case True
    then obtain d where d: "findForAuth i s = Some d" "subject = \<lparr>ss_id = d_id d, ss_role = DRIVER, ss_isDriver = True\<rparr>"
      using r by (auto simp: resolveSubject_def split: option.splits if_splits)
    have "d_id d = i" using findForAuth_D [OF d(1)] by (auto simp: sanitizeDriver_def)
    then show ?thesis using d by (simp add: resolvePrincipal_def)
  next
    case False
    then obtain u where u: "findUser i s = Some u" "\<not> u_isBlocked u"
      "subject = \<lparr>ss_id = u_id u, ss_role = u_role u, ss_isDriver = False\<rparr>"
      using r by (auto simp: resolveSubject_def split: option.splits if_splits)
    have "u_id u = i" using userRepo.findById_SomeD [OF u(1)] by simp
    then show ?thesis using u by (simp add: resolvePrincipal_def)
  qed
  show ?thesis
    using inv run'
  proof (cases rule: rotate_cases)
    case (no_subject st)
    then have "st = stored" using found by simp
    then show ?thesis using no_subject family_dead unfolding live_token_def by auto
  next
    case (collision st)
    then show ?thesis using found rs by auto
  next
    case (compromised st)
    then have "st = stored" using found by simp
    then show ?thesis using compromised family_dead unfolding live_token_def by auto
  next
    case (success st subject session)
    then have st: "st = stored" using found by simp
    then have "resolveSubject (t_subjectId stored) (t_subjectType stored) s = Some subject"
      using success(4) rs by simp
    then show ?thesis using resolves by auto
  qed (use found in \<open>auto simp: live_token_def\<close>)
qed

theorem refresh_respects_suspension_witness:
  "fst (refreshSession demoAuth ''t'' demoContext
     (demoSession\<lparr>users := [demoUser\<lparr>u_isBlocked := True\<rparr>]\<rparr>)) = Inl invalidSession"
proof -
  let ?s = "demoSession\<lparr>users := [demoUser\<lparr>u_isBlocked := True\<rparr>]\<rparr>"
  have "session_inv ?s"
    by (simp add: session_inv_def demoSession_def demoToken_def)
  moreover have "findByHash (te_hash (ae_tokens demoAuth) ''t'') ?s = Some demoToken"
    by (simp add: findByHash_def demoSession_def demoToken_def demoAuth_def)
  moreover have "resolveSubject (t_subjectId demoToken) (t_subjectType demoToken) ?s = None"
    by (simp add: resolveSubject_def demoToken_def findUser_def tbl_find_def demoUser_def)
  ultimately show ?thesis
    using refresh_respects_suspension [OF _ prod.collapse [symmetric]] by blast
qed

section \<open>Signing in\<close>

text \<open>A sign-in with a password can only succeed with the password whose hash is stored, for a
  verified account; it opens one new session family and changes nothing else. It does not look at
  the block of an account, but the session of a blocked rider opens nothing: its access token
  resolves to nobody, and its refresh token is refused.
\<close>

theorem login_checks:
  assumes "login env email pw s = (Inr ok, s')"
  shows "\<exists>u h. findUserByEmail email s = Some u \<and> u_password u = Some h \<and> ae_compare env pw h \<and>
    u_isVerified u \<and> ar_account ok = sanitizeUser u \<and>
    users s' = users s \<and> rides s' = rides s \<and> ledger s' = ledger s \<and>
    (u_isBlocked u \<longrightarrow> distinct (map u_id (users s)) \<longrightarrow>
       isl (resolvePrincipal \<lparr>jp_sub = Some (u_id u), jp_role = u_role u, jp_type = None\<rparr> s') \<and>
       (u_role u \<noteq> DRIVER \<longrightarrow> resolveSubject (u_id u) (u_role u) s' = None))"
proof -
  obtain u h where u: "findUserByEmail email s = Some u" "u_password u = Some h" "ae_compare env pw h"
    "u_isVerified u" and run: "issueUserSession env ''Login successful'' u (sanitizeUser u) s = (Inr ok, s')"
    using assms by (auto simp: login_def split: option.splits if_splits)
  have fr: "users s' = users s" "rides s' = rides s" "ledger s' = ledger s" "ar_account ok = sanitizeUser u"
    using run
    by (auto simp: issueUserSession_def Tokens.issueSession_def mint_def Let_def freshId_def saveToken_def
        split: sum.splits prod.splits if_splits)
  have "findUser (u_id u) s = Some u" if "distinct (map u_id (users s))"
    using userRepo.findById_member [OF that] findUserByEmail_D [OF u(1)] by blast
  then have f: "findUser (u_id u) s' = Some u" if "distinct (map u_id (users s))"
    using that by (simp add: findUser_def fr(1))
  then show ?thesis using u fr by (auto simp: resolvePrincipal_def resolveSubject_def)
qed

lemma demo_login: "fst (login demoAuth ''ada@x.ng'' ''pw''
    ((demo REQUESTED)\<lparr>users := [demoUser\<lparr>u_password := Some ''bpw''\<rparr>]\<rparr>)) \<noteq> Inl e"
  by (simp add: login_def findUserByEmail_def demoUser_def demoAuth_def issueUserSession_def
      Tokens.issueSession_def mint_def Let_def freshId_def demo_def)

theorem login_checks_witness:
  "\<exists>u. findUserByEmail ''ada@x.ng'' ((demo REQUESTED)\<lparr>users := [demoUser\<lparr>u_password := Some ''bpw''\<rparr>]\<rparr>) = Some u \<and>
     u_isVerified u"
proof -
  let ?s = "(demo REQUESTED)\<lparr>users := [demoUser\<lparr>u_password := Some ''bpw''\<rparr>]\<rparr>"
  obtain ok s' where "login demoAuth ''ada@x.ng'' ''pw'' ?s = (Inr ok, s')"
    using demo_login by (cases "login demoAuth ''ada@x.ng'' ''pw'' ?s"; cases "fst (login demoAuth ''ada@x.ng'' ''pw'' ?s)") auto
  from login_checks [OF this] show ?thesis by blast
qed

end
