(* ===== verification/PrivySignIn.thy ===== *)
theory PrivySignIn
  imports AuthFlows
begin

text \<open>
  \<open>src/auth/privy/privy-auth.service.ts\<close>: sign-in with a Privy identity and the registration of
  drivers with one. \<open>PrivyService\<close> (verifying Privy's tokens) is the argument \<open>privy\<close>.
\<close>

section \<open>Data\<close>

datatype PrivyAudience = AudRider | AudDriver

record PrivyIdentity =
  pi_wallet :: "string option"
  pi_email :: "string option"

record PrivyService =
  pv_isConfigured :: bool
  pv_verifyAccessToken :: "string \<Rightarrow> string option"
  pv_identityFrom :: "string option \<Rightarrow> PrivyIdentity"

record PrivySignInInput =
  px_accessToken :: string
  px_identityToken :: "string option"
  px_audience :: PrivyAudience
  px_name :: "string option"
  px_userAgent :: "string option"
  px_ipAddress :: "string option"

record PrivyProfile =
  pp_id :: uuid
  pp_name :: string
  pp_email :: string
  pp_role :: Role
  pp_privyDid :: string
  pp_walletAddressEvm :: "string option"

record PrivySignInResult =
  ps_session :: SessionTokens
  ps_isNewAccount :: bool
  ps_profile :: PrivyProfile

definition contextOf :: "PrivySignInInput \<Rightarrow> SessionContext" where
  "contextOf input = \<lparr>sc_userAgent = px_userAgent input, sc_ipAddress = px_ipAddress input\<rparr>"

text \<open>\<open>if (identity.wallet && account.walletAddressEvm?.toLowerCase() !== identity.wallet)\<close>\<close>

definition syncedWallet :: "PrivyIdentity \<Rightarrow> string option \<Rightarrow> string option" where
  "syncedWallet identity stored =
     (case nonempty (pi_wallet identity) of
        None \<Rightarrow> stored
      | Some w \<Rightarrow> if map_option js_lower stored \<noteq> Some w then Some w else stored)"

section \<open>Riders\<close>

definition findUserByDid :: "string \<Rightarrow> sys \<Rightarrow> User option" where
  "findUserByDid did s = find (\<lambda>u. u_privyDid u = Some did) (users s)"

text \<open>
  The account of a rider: by the DID, else by the verified email, which links the account.
  \<open>Inr None\<close>: nobody yet.
\<close>

definition linkRider :: "string \<Rightarrow> PrivyIdentity \<Rightarrow> sys \<Rightarrow> User option outcome" where
  "linkRider did identity s =
     (case findUserByDid did s of
        Some u \<Rightarrow> Inr (Some u)
      | None \<Rightarrow>
          (case nonempty (pi_email identity) of
             None \<Rightarrow> Inr None
           | Some e \<Rightarrow>
               (case findUserByEmail e s of
                  None \<Rightarrow> Inr None
                | Some byEmail \<Rightarrow>
                    if nonempty (u_privyDid byEmail) \<noteq> None \<and> u_privyDid byEmail \<noteq> Some did
                    then Inl (ForbiddenException ''This email is already linked to a different Privy account.'')
                    else Inr (Some (byEmail\<lparr>u_privyDid := Some did\<rparr>)))))"

definition newRider :: "string \<Rightarrow> PrivyIdentity \<Rightarrow> PrivySignInInput \<Rightarrow> User" where
  "newRider did identity input =
     blankUser\<lparr>u_privyDid := Some did,
       u_name := (case nonempty (map_option js_trim (px_name input)) of None \<Rightarrow> ''Ark Rider'' | Some n \<Rightarrow> n),
       u_email := privyEmail (pi_email identity) did, u_isVerified := True, u_role := USER\<rparr>"

text \<open>\<open>save\<close> inserts the new rider under a fresh key and overwrites a known one.\<close>

definition saveRider :: "bool \<Rightarrow> User \<Rightarrow> (sys, User) handler" where
  "saveRider isNew u = (if isNew then createUser u else storeUser u)"

definition signInRider ::
  "authEnv \<Rightarrow> string \<Rightarrow> PrivyIdentity \<Rightarrow> PrivySignInInput \<Rightarrow> (sys, PrivySignInResult) handler" where
  "signInRider env did identity input s =
     (case linkRider did identity s of
        Inl e \<Rightarrow> (Inl e, s)
      | Inr found \<Rightarrow>
          let isNewAccount = (found = None);
              user = (case found of Some u \<Rightarrow> u | None \<Rightarrow> newRider did identity input)
          in if u_isBlocked user
             then (Inl (ForbiddenException ''Your account has been blocked.''), s)
             else (case saveRider isNewAccount
                      (user\<lparr>u_walletAddressEvm := syncedWallet identity (u_walletAddressEvm user)\<rparr>) s of
                     (Inl e, s1) \<Rightarrow> (Inl e, s1)
                   | (Inr saved, s1) \<Rightarrow>
                       (case Tokens.issueSession (ae_tokens env)
                               \<lparr>ss_id = u_id saved, ss_role = USER, ss_isDriver = False\<rparr>
                               (contextOf input) s1 of
                          (Inl e, s2) \<Rightarrow> (Inl e, s2)
                        | (Inr session, s2) \<Rightarrow>
                            (Inr \<lparr>ps_session = session, ps_isNewAccount = isNewAccount,
                               ps_profile = \<lparr>pp_id = u_id saved, pp_name = u_name saved,
                                 pp_email = u_email saved, pp_role = USER, pp_privyDid = did,
                                 pp_walletAddressEvm = u_walletAddressEvm saved\<rparr>\<rparr>, s2))))"

section \<open>Drivers\<close>

definition findDriverByDid :: "string \<Rightarrow> sys \<Rightarrow> Driver option" where
  "findDriverByDid did s = find (\<lambda>d. d_privyDid d = Some did) (drivers s)"

definition findLinkedDriver :: "string \<Rightarrow> PrivyIdentity \<Rightarrow> sys \<Rightarrow> Driver option outcome" where
  "findLinkedDriver did identity s =
     (case findDriverByDid did s of
        Some d \<Rightarrow> Inr (Some d)
      | None \<Rightarrow>
          (case nonempty (pi_email identity) of
             None \<Rightarrow> Inr None
           | Some e \<Rightarrow>
               (case findDriverByEmail e s of
                  None \<Rightarrow> Inr None
                | Some byEmail \<Rightarrow>
                    if nonempty (d_privyDid byEmail) \<noteq> None \<and> d_privyDid byEmail \<noteq> Some did
                    then Inl (ForbiddenException ''This email is already linked to a different Privy account.'')
                    else Inr (Some (byEmail\<lparr>d_privyDid := Some did\<rparr>)))))"

definition issuePrivyDriverSession ::
  "authEnv \<Rightarrow> Driver \<Rightarrow> string \<Rightarrow> PrivyIdentity \<Rightarrow> PrivySignInInput \<Rightarrow> bool \<Rightarrow>
   (sys, PrivySignInResult) handler" where
  "issuePrivyDriverSession env driver did identity input isNewAccount s =
     (if \<not> d_isActive driver
      then (Inl (ForbiddenException ''Your driver account has been deactivated.''), s)
      else (case storeDriver (driver\<lparr>d_walletAddressEvm := syncedWallet identity (d_walletAddressEvm driver)\<rparr>) s of
              (Inl e, s1) \<Rightarrow> (Inl e, s1)
            | (Inr saved, s1) \<Rightarrow>
                (case Tokens.issueSession (ae_tokens env)
                        \<lparr>ss_id = d_id saved, ss_role = DRIVER, ss_isDriver = True\<rparr>
                        (contextOf input) s1 of
                   (Inl e, s2) \<Rightarrow> (Inl e, s2)
                 | (Inr session, s2) \<Rightarrow>
                     (Inr \<lparr>ps_session = session, ps_isNewAccount = isNewAccount,
                        ps_profile = \<lparr>pp_id = d_id saved, pp_name = d_name saved,
                          pp_email = d_email saved, pp_role = DRIVER, pp_privyDid = did,
                          pp_walletAddressEvm = d_walletAddressEvm saved\<rparr>\<rparr>, s2))))"

definition signInDriver ::
  "authEnv \<Rightarrow> string \<Rightarrow> PrivyIdentity \<Rightarrow> PrivySignInInput \<Rightarrow> (sys, PrivySignInResult) handler" where
  "signInDriver env did identity input s =
     (case findLinkedDriver did identity s of
        Inl e \<Rightarrow> (Inl e, s)
      | Inr None \<Rightarrow> (Inl (BadRequestException ''No driver account is linked to this Privy identity. Complete driver registration to continue.''), s)
      | Inr (Some driver) \<Rightarrow> issuePrivyDriverSession env driver did identity input False s)"

definition signIn ::
  "PrivyService \<Rightarrow> authEnv \<Rightarrow> PrivySignInInput \<Rightarrow> (sys, PrivySignInResult) handler" where
  "signIn privy env input s =
     (if \<not> pv_isConfigured privy
      then (Inl (ServiceUnavailableException ''Privy sign-in is not configured on this server.''), s)
      else case pv_verifyAccessToken privy (px_accessToken input) of
        None \<Rightarrow> (Inl (UnauthorizedException ''Invalid Privy access token.''), s)
      | Some did \<Rightarrow>
          let identity = pv_identityFrom privy (px_identityToken input)
          in (case px_audience input of
                AudDriver \<Rightarrow> signInDriver env did identity input s
              | AudRider \<Rightarrow> signInRider env did identity input s))"

definition registerDriver ::
  "PrivyService \<Rightarrow> authEnv \<Rightarrow> PrivySignInInput \<Rightarrow> DriverDetails \<Rightarrow> (sys, PrivySignInResult) handler" where
  "registerDriver privy env input details s =
     (if \<not> pv_isConfigured privy
      then (Inl (ServiceUnavailableException ''Privy sign-in is not configured on this server.''), s)
      else case pv_verifyAccessToken privy (px_accessToken input) of
        None \<Rightarrow> (Inl (UnauthorizedException ''Invalid Privy access token.''), s)
      | Some did \<Rightarrow>
          let identity = pv_identityFrom privy (px_identityToken input)
          in (case findLinkedDriver did identity s of
                Inl e \<Rightarrow> (Inl e, s)
              | Inr (Some existing) \<Rightarrow> issuePrivyDriverSession env existing did identity input False s
              | Inr None \<Rightarrow>
                  (case createFromPrivy did (pi_email identity) (pi_wallet identity) details s of
                     (Inl e, s1) \<Rightarrow> (Inl e, s1)
                   | (Inr created, s1) \<Rightarrow> issuePrivyDriverSession env created did identity input True s1)))"

section \<open>Whose account a sign-in opens\<close>

lemma nonempty_Some: "nonempty x = Some y \<longleftrightarrow> x = Some y \<and> y \<noteq> ''''"
  by (auto simp: nonempty_def)

lemma issueSession_frame:
  "Tokens.issueSession env subject ctx s = (res, s') \<Longrightarrow>
   users s' = users s \<and> drivers s' = drivers s \<and> vehicles s' = vehicles s \<and> rides s' = rides s \<and>
   ledger s' = ledger s \<and> nextId s \<le> nextId s'"
  by (auto simp: Tokens.issueSession_def mint_def Let_def freshId_def saveToken_def
      split: prod.splits if_splits)

lemma linkRider_found:
  assumes "linkRider did identity s = Inr (Some u)"
  shows "\<exists>x\<in>set (users s). u = x\<lparr>u_privyDid := Some did\<rparr> \<and>
    (u_privyDid x = Some did \<or>
     nonempty (u_privyDid x) = None \<and> pi_email identity = Some (u_email x) \<and> u_email x \<noteq> '''')"
proof (cases "findUserByDid did s")
  case (Some v)
  then have v: "v \<in> set (users s)" "u_privyDid v = Some did" by (auto simp: findUserByDid_def dest: find_SomeD)
  have "v\<lparr>u_privyDid := Some did\<rparr> = v" using v(2) by (cases v) simp
  with v show ?thesis using assms Some v by (force simp: linkRider_def)
next
  case None
  then obtain e x where x: "nonempty (pi_email identity) = Some e" "findUserByEmail e s = Some x"
    "u = x\<lparr>u_privyDid := Some did\<rparr>" "nonempty (u_privyDid x) = None \<or> u_privyDid x = Some did"
    using assms by (auto simp: linkRider_def split: option.splits if_splits)
  then show ?thesis using findUserByEmail_D [OF x(2)] by (auto simp: nonempty_Some)
qed

lemma signInRider_known:
  assumes "signInRider env did identity input s = (Inr ok, s')" "\<not> ps_isNewAccount ok"
  shows "\<exists>x\<in>set (users s). pp_id (ps_profile ok) = u_id x \<and> \<not> u_isBlocked x \<and>
    (u_privyDid x = Some did \<or>
     nonempty (u_privyDid x) = None \<and> pi_email identity = Some (u_email x)) \<and>
    users s' = tbl_save u_id (x\<lparr>u_privyDid := Some did,
       u_walletAddressEvm := syncedWallet identity (u_walletAddressEvm x)\<rparr>) (users s)"
proof -
  obtain u where l: "linkRider did identity s = Inr (Some u)"
    using assms by (auto simp: signInRider_def Let_def split: sum.splits option.splits if_splits prod.splits)
  obtain x where x: "x \<in> set (users s)" "u = x\<lparr>u_privyDid := Some did\<rparr>"
    "u_privyDid x = Some did \<or>
     nonempty (u_privyDid x) = None \<and> pi_email identity = Some (u_email x) \<and> u_email x \<noteq> ''''"
    using linkRider_found [OF l] by blast
  let ?u = "u\<lparr>u_walletAddressEvm := syncedWallet identity (u_walletAddressEvm u)\<rparr>"
  have b: "\<not> u_isBlocked u" and nc: "\<not> userClash ?u s"
    using assms(1) l by (auto simp: signInRider_def Let_def saveRider_def storeUser_def split: if_splits)
  obtain session where i: "Tokens.issueSession (ae_tokens env) \<lparr>ss_id = u_id ?u, ss_role = USER, ss_isDriver = False\<rparr>
      (contextOf input) (saveUser ?u s) = (Inr session, s')" "pp_id (ps_profile ok) = u_id ?u"
    using assms(1) l b nc
    by (auto simp: signInRider_def Let_def saveRider_def storeUser_def split: prod.splits sum.splits)
  have "users s' = tbl_save u_id ?u (users s)"
    using issueSession_frame [OF i(1)] by (simp add: saveUser_def)
  then show ?thesis using x b i(2) by auto
qed

text \<open>C28: no account takeover: a rider session that a Privy sign-in opens on an account that existed
  before belongs to a row that was already linked to the caller's DID, or to an unlinked row
  whose email is the one in Privy's signed identity token. The name and the device data of the
  request body play no part in the choice, and no other row of the table changes.
\<close>

theorem privy_opens_own_account:
  assumes "signInRider env did identity input s = (Inr ok, s')" "\<not> ps_isNewAccount ok"
  shows "\<exists>x\<in>set (users s). pp_id (ps_profile ok) = u_id x \<and> \<not> u_isBlocked x \<and>
    (u_privyDid x = Some did \<or>
     nonempty (u_privyDid x) = None \<and> pi_email identity = Some (u_email x)) \<and>
    users s' = tbl_save u_id (x\<lparr>u_privyDid := Some did,
       u_walletAddressEvm := syncedWallet identity (u_walletAddressEvm x)\<rparr>) (users s)"
  using signInRider_known [OF assms] .

section \<open>An address that somebody else registered first\<close>

lemma saveUser_new: "u_id x \<notin> u_id ` set (users s) \<Longrightarrow> users (saveUser x s) = users s @ [x]"
  by (rule userRepo.save_insert)

lemma registers:
  assumes run: "register env dto s = (Inr ok, s1)" and ids: "\<forall>u\<in>set (users s). u_id u < nextId s"
  obtains x h where "users s1 = users s @ [x]" "u_id x \<notin> u_id ` set (users s)"
    "u_id (ar_account ok) = u_id x" "u_email x = rg_email dto" "u_privyDid x = None" "\<not> u_isBlocked x"
    "u_isVerified x" "u_password x = Some (ae_hash env h (rg_password dto))"
    "findUserByEmail (rg_email dto) s = None"
proof -
  have none: "findUserByEmail (rg_email dto) s = None" "findUserByPhone (rg_phone dto) s = None"
    and ok': "rg_acceptTerms dto" "rg_password dto = rg_confirmPassword dto"
    using run by (auto simp: register_def andThen_def checkIfEmailExists_def checkIfPhoneExists_def
        throwIf_def returns_def split: if_splits)
  let ?s2 = "s\<lparr>nextId := Suc (Suc (nextId s))\<rparr>"
  let ?x = "blankUser\<lparr>u_name := rg_name dto, u_email := rg_email dto,
      u_phone := Some (rg_phone dto), u_password := Some (ae_hash env (nextId s) (rg_password dto)),
      u_provider := Some ''local'', u_isVerified := True, u_id := Suc (Suc (nextId s)), u_createdAt := now s\<rparr>"
  let ?s3 = "s\<lparr>nextId := Suc (Suc (Suc (nextId s)))\<rparr>"
  obtain otp where otp: "generateOtp env (s\<lparr>nextId := Suc (nextId s)\<rparr>) = (otp, ?s2)"
    by (simp add: generateOtp_def freshId_def)
  have nc: "\<not> userClash ?x ?s3"
    using run none ok' otp
    by (auto simp: register_def andThen_def checkIfEmailExists_def checkIfPhoneExists_def throwIf_def
        returns_def hashPassword_def freshId_def createUser_def storeUser_def split: if_splits)
  have iss: "issueUserSession env ''Registration successful. You can now login.'' ?x (sanitizeUser ?x)
      (enqueue (SendOtp (u_email ?x) otp (u_name ?x)) (saveUser ?x ?s3)) = (Inr ok, s1)"
    using run none ok' otp nc
    by (simp add: register_def andThen_def checkIfEmailExists_def checkIfPhoneExists_def throwIf_def
        returns_def hashPassword_def freshId_def createUser_def storeUser_def Let_def)
  have fresh: "u_id ?x \<notin> u_id ` set (users s)" using ids by force
  have "users s1 = users (saveUser ?x ?s3)" "ar_account ok = sanitizeUser ?x"
    using iss
    by (auto simp: issueUserSession_def enqueue_def split: prod.splits sum.splits dest: issueSession_frame)
  then have "users s1 = users s @ [?x]" "u_id (ar_account ok) = u_id ?x"
    using saveUser_new [of ?x ?s3] fresh by (simp_all add: sanitizeUser_def)
  then show ?thesis
    using that [of ?x "nextId s"] fresh none(1) by (simp add: blankUser_def)
qed

text \<open>Registration does not prove that the caller owns the address (the account is marked verified
  at once), so somebody can register with a person's address first. When its owner then signs in
  with Privy, the verified address links their identity to that row: the owner gets no account of
  their own, and the password of whoever registered still signs in to the shared one.
\<close>

theorem squatted_email_is_shared:
  assumes env: "env_ok env" and ids: "\<forall>u\<in>set (users s). u_id u < nextId s"
    and reg: "register env dto s = (Inr squatter, s1)" and e: "rg_email dto \<noteq> []"
    and did: "findUserByDid did s = None" "pi_email identity = Some (rg_email dto)"
    and owner: "signInRider env did identity input s1 = (Inr ok, s2)"
  shows "\<not> ps_isNewAccount ok \<and> pp_id (ps_profile ok) = u_id (ar_account squatter) \<and>
    (\<exists>u h. findUserByEmail (rg_email dto) s2 = Some u \<and> u_id u = pp_id (ps_profile ok) \<and>
       u_password u = Some h \<and> ae_compare env (rg_password dto) h \<and> u_isVerified u)"
proof -
  obtain x h where x: "users s1 = users s @ [x]" "u_id x \<notin> u_id ` set (users s)"
    "u_id (ar_account squatter) = u_id x" "u_email x = rg_email dto" "u_privyDid x = None" "\<not> u_isBlocked x"
    "u_isVerified x" "u_password x = Some (ae_hash env h (rg_password dto))"
    "findUserByEmail (rg_email dto) s = None"
    using registers [OF reg ids] by blast
  let ?u = "x\<lparr>u_privyDid := Some did, u_walletAddressEvm := syncedWallet identity (u_walletAddressEvm x)\<rparr>"
  have "findUserByDid did s1 = None" using did(1) x(1,5) by (simp add: findUserByDid_def find_append)
  moreover have "findUserByEmail (rg_email dto) s1 = Some x"
    using x(1,4,9) by (simp add: findUserByEmail_def find_append)
  ultimately have link: "linkRider did identity s1 = Inr (Some (x\<lparr>u_privyDid := Some did\<rparr>))"
    using did(2) e x(5) by (simp add: linkRider_def nonempty_def)
  have ok: "\<not> ps_isNewAccount ok" "pp_id (ps_profile ok) = u_id x" "users s2 = users (saveUser ?u s1)"
    using owner link x(6)
    by (auto simp: signInRider_def Let_def saveRider_def storeUser_def split: if_splits prod.splits sum.splits
        dest: issueSession_frame)
  have "map (\<lambda>y. if u_id y = u_id x then ?u else y) (users s) = users s"
    by (rule map_idI) (use x(2) in \<open>metis imageI\<close>)
  then have "users s2 = users s @ [?u]"
    using ok(3) x(1) by (simp add: saveUser_def tbl_save_def)
  then have "findUserByEmail (rg_email dto) s2 = Some ?u"
    using x(4,9) by (simp add: findUserByEmail_def find_append)
  moreover have "ae_compare env (rg_password dto) (ae_hash env h (rg_password dto))"
    using env by (simp add: env_ok_def)
  ultimately show ?thesis using ok x(3,7,8) by auto
qed

section \<open>Witnesses\<close>

definition demoIdentity :: PrivyIdentity where
  "demoIdentity = \<lparr>pi_wallet = None, pi_email = Some ''ada@x.ng''\<rparr>"

definition demoInput :: PrivySignInInput where
  "demoInput = \<lparr>px_accessToken = ''a'', px_identityToken = None, px_audience = AudRider, px_name = None,
     px_userAgent = None, px_ipAddress = None\<rparr>"

lemma demo_signs_in:
  obtains ok s' where "signInRider demoAuth ''did:1'' demoIdentity demoInput (demo REQUESTED) = (Inr ok, s')"
    "\<not> ps_isNewAccount ok"
proof -
  have "(case fst (signInRider demoAuth ''did:1'' demoIdentity demoInput (demo REQUESTED)) of
      Inl _ \<Rightarrow> False | Inr ok \<Rightarrow> \<not> ps_isNewAccount ok)"
    by code_simp
  then show ?thesis
    using that by (cases "signInRider demoAuth ''did:1'' demoIdentity demoInput (demo REQUESTED)")
      (auto split: sum.splits)
qed

theorem privy_opens_own_account_witness:
  "\<exists>x\<in>set (users (demo REQUESTED)). \<not> u_isBlocked x \<and> pi_email demoIdentity = Some (u_email x)"
proof -
  obtain ok s' where r: "signInRider demoAuth ''did:1'' demoIdentity demoInput (demo REQUESTED) = (Inr ok, s')"
    "\<not> ps_isNewAccount ok"
    using demo_signs_in by blast
  from privy_opens_own_account [OF r] show ?thesis by (auto simp: demoUser_def)
qed

definition demoRegister :: RegisterDto where
  "demoRegister = \<lparr>rg_name = ''Eve'', rg_email = ''v@x.ng'', rg_phone = ''0809'', rg_password = ''evil'',
     rg_confirmPassword = ''evil'', rg_acceptTerms = True\<rparr>"

theorem squatted_email_is_shared_witness:
  "\<exists>ok s2 u. signInRider demoAuth ''did:1'' (demoIdentity\<lparr>pi_email := Some ''v@x.ng''\<rparr>) demoInput
      (snd (register demoAuth demoRegister (demo REQUESTED))) = (Inr ok, s2) \<and>
    findUserByEmail ''v@x.ng'' s2 = Some u \<and> u_password u \<noteq> None \<and> u_privyDid demoUser = None"
proof -
  let ?r = "register demoAuth demoRegister (demo REQUESTED)"
  let ?i = "demoIdentity\<lparr>pi_email := Some ''v@x.ng''\<rparr>"
  let ?w = "signInRider demoAuth ''did:1'' ?i demoInput (snd ?r)"
  note run_defs = register_def demoRegister_def andThen_def checkIfEmailExists_def checkIfPhoneExists_def
    throwIf_def returns_def findUserByEmail_def findUserByPhone_def hashPassword_def generateOtp_def
    freshId_def createUser_def storeUser_def userClash_def clashes_def issueUserSession_def
    Tokens.issueSession_def mint_def saveToken_def tbl_save_def saveUser_def enqueue_def blankUser_def
    demo_def demoUser_def demoAuth_def Let_def eval_nat_numeral
  have "\<not> isl (fst ?r)" by (simp add: run_defs)
  moreover have "\<not> isl (fst ?w)"
    by (simp add: run_defs signInRider_def linkRider_def findUserByDid_def demoIdentity_def nonempty_def
        saveRider_def syncedWallet_def)
  ultimately have "\<not> isl (fst ?r) \<and> \<not> isl (fst ?w)" by blast
  then obtain squatter ok where ok: "?r = (Inr squatter, snd ?r)" "?w = (Inr ok, snd ?w)"
    using run_Inr [of ?r] run_Inr [of ?w] by blast
  have ids: "\<forall>u\<in>set (users (demo REQUESTED)). u_id u < nextId (demo REQUESTED)" by simp
  have e: "rg_email demoRegister = ''v@x.ng''" by (simp add: demoRegister_def)
  have did: "findUserByDid ''did:1'' (demo REQUESTED) = None" by (simp add: findUserByDid_def demo_defs)
  from squatted_email_is_shared [OF demoAuth_ok ids ok(1) _ did _ ok(2)] e
  obtain u h where "findUserByEmail ''v@x.ng'' (snd ?w) = Some u" "u_password u = Some h" by auto
  moreover have "u_privyDid demoUser = None" by (simp add: demoUser_def)
  ultimately show ?thesis using ok(2) by blast
qed

end
