(* ===== verification/Ratings.thy ===== *)
theory Ratings
  imports Users DriverRules
begin

text \<open>
  \<open>src/rides/ratings.service.ts\<close>: rating the other party of a completed ride, and the average of
  the rated account, recomputed from all of its ratings.
\<close>

section \<open>The service\<close>

record CreateRatingDto =
  ct_rideId :: uuid
  ct_rateeId :: uuid
  ct_rateeType :: RateeType
  ct_rating :: int
  ct_comment :: "string option"

text \<open>
  \<open>SELECT AVG(rating) ... WHERE rateeId = ? AND rateeType = ?\<close>, then \<open>parseFloat(avg) || 0\<close>
  written to a \<open>decimal(3,2)\<close> column. Postgres computes \<open>AVG\<close> of integers to at least sixteen
  decimals; the model takes the exact quotient. Two places of either agree: a mean of \<open>n\<close> integers
  that is not itself half-way between two hundredths is at least \<open>1/(200 n)\<close> away from it.
\<close>

definition ratingsOf :: "RateeType \<Rightarrow> uuid \<Rightarrow> sys \<Rightarrow> int list" where
  "ratingsOf ty i s =
     map rt_rating (filter (\<lambda>r. rt_rateeId r = i \<and> rt_rateeType r = ty) (ratings s))"

definition averageOf :: "int list \<Rightarrow> num" where
  "averageOf xs = (if xs = [] then 0 else fl (of_int (sum_list xs) / of_nat (length xs)))"

definition updateDriverRating :: "uuid \<Rightarrow> (sys, unit) handler" where
  "updateDriverRating driverId s =
     (case store_decimal 3 (averageOf (ratingsOf RATEE_DRIVER driverId s)) of
        Inl e \<Rightarrow> (Inl e, s)
      | Inr avg \<Rightarrow> (Inr (), updateDriverRow driverId (\<lambda>d. d\<lparr>d_ratingAverage := avg\<rparr>) s))"

definition updateUserRating :: "uuid \<Rightarrow> (sys, unit) handler" where
  "updateUserRating userId s =
     (case store_decimal 3 (averageOf (ratingsOf RATEE_USER userId s)) of
        Inl e \<Rightarrow> (Inl e, s)
      | Inr avg \<Rightarrow> (Inr (), updateUser userId (\<lambda>u. u\<lparr>u_ratingAverage := avg\<rparr>) s))"

text \<open>The guards of \<open>create\<close>: who is rated, or why nobody is.\<close>

definition ratingTarget :: "uuid \<Rightarrow> CreateRatingDto \<Rightarrow> sys \<Rightarrow> (uuid \<times> RateeType) outcome" where
  "ratingTarget raterId dto s =
     (case findRide (ct_rideId dto) s of
        None \<Rightarrow> Inl (NotFoundException ''Ride not found'')
      | Some ride \<Rightarrow>
          let raterIsRider = (r_userId ride = raterId);
              raterIsDriver = (r_driverId ride = Some raterId)
          in if \<not> raterIsRider \<and> \<not> raterIsDriver
             then Inl (ForbiddenException ''You were not part of this ride'')
             else if r_status ride \<noteq> COMPLETED
             then Inl (BadRequestException ''Only completed rides can be rated.'')
             else let expectedRateeId = (if raterIsRider then r_driverId ride else Some (r_userId ride));
                      expectedRateeType = (if raterIsRider then RATEE_DRIVER else RATEE_USER)
                  in (case expectedRateeId of
                        None \<Rightarrow> Inl (BadRequestException ''This ride has no counterparty to rate.'')
                      | Some i \<Rightarrow>
                          if ct_rateeId dto \<noteq> i \<or> ct_rateeType dto \<noteq> expectedRateeType
                          then Inl (BadRequestException ''You can only rate the other party on this ride.'')
                          else if find (\<lambda>r. rt_rideId r = ct_rideId dto \<and> rt_raterId r = raterId)
                                    (ratings s) \<noteq> None
                          then Inl (ConflictException ''You have already rated this ride.'')
                          else Inr (i, expectedRateeType)))"

definition createRating :: "uuid \<Rightarrow> CreateRatingDto \<Rightarrow> (sys, Rating) handler" where
  "createRating raterId dto s =
     (case ratingTarget raterId dto s of
        Inl e \<Rightarrow> (Inl e, s)
      | Inr (rateeId, rateeType) \<Rightarrow>
          let (i, s1) = freshId s;
              entry = \<lparr>rt_id = i, rt_rideId = ct_rideId dto, rt_raterId = raterId,
                rt_rateeId = rateeId, rt_rateeType = rateeType, rt_rating = ct_rating dto,
                rt_comment = ct_comment dto, rt_createdAt = now s1\<rparr>;
              s2 = s1\<lparr>ratings := tbl_save rt_id entry (ratings s1)\<rparr>
          in (case (if rateeType = RATEE_DRIVER then updateDriverRating rateeId s2
                    else updateUserRating rateeId s2) of
                (Inl e, s3) \<Rightarrow> (Inl e, s3)
              | (Inr _, s3) \<Rightarrow> (Inr entry, s3)))"

definition findRatingsByRide :: "uuid \<Rightarrow> sys \<Rightarrow> Rating list" where
  "findRatingsByRide rideId s = order_asc rt_createdAt (filter (\<lambda>r. rt_rideId r = rideId) (ratings s))"

definition findRideForAuthorization :: "uuid \<Rightarrow> sys \<Rightarrow> (uuid option \<times> uuid option) option" where
  "findRideForAuthorization rideId s =
     map_option (\<lambda>r. (Some (r_userId r), r_driverId r)) (findRide rideId s)"

section \<open>One vote each\<close>

text \<open>
  Every rating is a party's vote on the other party of a ride, and a rater has one vote a ride.
\<close>

definition rating_inv :: "sys \<Rightarrow> bool" where
  "rating_inv s \<longleftrightarrow> (\<forall>r\<in>set (ratings s). rt_id r < nextId s \<and> 1 \<le> rt_rating r \<and> rt_rating r \<le> 5) \<and>
     distinct (map (\<lambda>r. (rt_rideId r, rt_raterId r)) (ratings s))"

lemma ratingTarget_Inr:
  assumes "ratingTarget raterId dto s = Inr (i, ty)"
  shows "\<exists>ride. findRide (ct_rideId dto) s = Some ride \<and> r_status ride = COMPLETED \<and>
    i = ct_rateeId dto \<and> ty = ct_rateeType dto \<and>
    (r_userId ride = raterId \<and> r_driverId ride = Some i \<and> ty = RATEE_DRIVER \<or>
     r_userId ride \<noteq> raterId \<and> r_driverId ride = Some raterId \<and> i = r_userId ride \<and> ty = RATEE_USER) \<and>
    (\<forall>r\<in>set (ratings s). \<not> (rt_rideId r = ct_rideId dto \<and> rt_raterId r = raterId))"
  using assms
  by (auto simp: ratingTarget_def Let_def find_None_iff split: option.splits if_splits)

text \<open>The ratings after a successful vote: one more, and the average it leads to.\<close>

lemma createRating_run:
  assumes inv: "rating_inv s" and run: "createRating raterId dto s = (Inr e, s')"
  shows "\<exists>i ty. ratingTarget raterId dto s = Inr (i, ty) \<and>
    e = \<lparr>rt_id = nextId s, rt_rideId = ct_rideId dto, rt_raterId = raterId, rt_rateeId = i,
      rt_rateeType = ty, rt_rating = ct_rating dto, rt_comment = ct_comment dto, rt_createdAt = now s\<rparr> \<and>
    ratings s' = ratings s @ [e] \<and> nextId s' = Suc (nextId s) \<and> rides s' = rides s \<and>
    (\<exists>avg. store_decimal 3 (averageOf (ratingsOf ty i s')) = Inr avg \<and>
      drivers s' = (if ty = RATEE_DRIVER
        then tbl_update (\<lambda>d. d_id d = i) (\<lambda>d. d\<lparr>d_ratingAverage := avg\<rparr>) (drivers s) else drivers s) \<and>
      users s' = (if ty = RATEE_USER
        then tbl_update (\<lambda>u. u_id u = i) (\<lambda>u. u\<lparr>u_ratingAverage := avg\<rparr>) (users s) else users s))"
proof -
  obtain i ty where t: "ratingTarget raterId dto s = Inr (i, ty)"
    using run by (auto simp: createRating_def split: sum.splits)
  have "nextId s \<notin> rt_id ` set (ratings s)" using inv by (force simp: rating_inv_def)
  then have sv: "tbl_save rt_id x (ratings s) = ratings s @ [x]" if "rt_id x = nextId s" for x
    using that by (simp add: tbl_save_def)
  show ?thesis
    using run t
    by (cases ty)
      (auto simp: createRating_def freshId_def Let_def sv updateDriverRating_def updateUserRating_def
        ratingsOf_def updateDriverRow_def updateUser_def split: sum.splits if_splits)
qed

text \<open>The mean of a non-empty list of votes, and what the average column holds of it.\<close>

definition mean :: "int list \<Rightarrow> rat" where
  "mean xs = of_int (sum_list xs) / of_nat (length xs)"

lemma sum_list_between:
  fixes a b :: int
  assumes "\<forall>x\<in>set xs. a \<le> x \<and> x \<le> b"
  shows "a * int (length xs) \<le> sum_list xs \<and> sum_list xs \<le> b * int (length xs)"
  using assms by (induction xs) (auto simp: algebra_simps)

lemma mean_between:
  assumes "xs \<noteq> []" "\<forall>x\<in>set xs. a \<le> x \<and> x \<le> b"
  shows "of_int a \<le> mean xs" "mean xs \<le> of_int b"
proof -
  have n: "(0::rat) < of_nat (length xs)" using assms(1) by simp
  have s: "a * int (length xs) \<le> sum_list xs" "sum_list xs \<le> b * int (length xs)"
    using sum_list_between [OF assms(2)] by auto
  have "(of_int (a * int (length xs)) :: rat) \<le> of_int (sum_list xs)"
    "(of_int (sum_list xs) :: rat) \<le> of_int (b * int (length xs))"
    using s by (auto simp del: of_int_mult)
  then show "of_int a \<le> mean xs" "mean xs \<le> of_int b"
    using n by (simp_all add: mean_def pos_le_divide_eq pos_divide_le_eq)
qed

lemma round_half_away_error: "\<bar>of_int (round_half_away q) - q\<bar> \<le> 1/2"
  unfolding round_half_away_def using floor_correct [of "q + 1/2"] floor_correct [of "1/2 - q"]
  by (simp only: abs_le_iff split: if_split) linarith

lemma store_average:
  assumes "xs \<noteq> []" "\<forall>x\<in>set xs. 1 \<le> x \<and> x \<le> 5" "store_decimal p (averageOf xs) = Inr k"
  shows "\<bar>of_int k - 100 * mean xs\<bar> \<le> 51/100" "100 \<le> k" "k \<le> 500"
proof -
  let ?m = "mean xs" let ?x = "fl ?m"
  have b: "1 \<le> ?m" "?m \<le> 5" using mean_between [OF assms(1,2)] by auto
  have e1: "\<bar>?x - ?m\<bar> \<le> 5 / 2 ^ 53" using fl_error [of ?m] b by (simp add: abs_of_pos)
  have "(5::rat) / 2 ^ 53 \<le> 1" by simp
  then have "\<bar>?x\<bar> \<le> 6" using e1 b by linarith
  then have e2: "\<bar>js_to_decimal ?x - ?x\<bar> \<le> 6 / 2 ^ 52"
    using js_to_decimal_error [of ?x] by (meson divide_right_mono order_trans zero_le_numeral zero_le_power)
  have "k = round_half_away (js_to_decimal ?x * 100)"
    using assms(1,3) by (simp add: store_decimal_def Let_def dec_of_num_def averageOf_def mean_def split: if_splits)
  then have e3: "\<bar>of_int k - js_to_decimal ?x * 100\<bar> \<le> 1/2" using round_half_away_error by simp
  show e: "\<bar>of_int k - 100 * mean xs\<bar> \<le> 51/100"
  proof -
    have "(5::rat) / 2 ^ 53 \<le> 1 / 100000" "(6::rat) / 2 ^ 52 \<le> 1 / 100000" by simp_all
    then have "\<bar>?x - ?m\<bar> \<le> 1 / 100000" "\<bar>js_to_decimal ?x - ?x\<bar> \<le> 1 / 100000"
      using e1 e2 order_trans by blast+
    with e3 show ?thesis unfolding abs_le_iff by linarith
  qed
  have "(99::rat) < of_int k" "of_int k < (501::rat)" using e b unfolding abs_le_iff by linarith+
  then have "99 < k" "k < 501" by linarith+
  then show "100 \<le> k" "k \<le> 500" by auto
qed

lemma ratingsOf_after:
  assumes "rating_inv s'" "e \<in> set (ratings s')"
  shows "ratingsOf (rt_rateeType e) (rt_rateeId e) s' \<noteq> []"
    "\<forall>x\<in>set (ratingsOf (rt_rateeType e) (rt_rateeId e) s'). 1 \<le> x \<and> x \<le> 5"
  using assms by (auto simp: ratingsOf_def rating_inv_def filter_empty_conv)

lemma createRating_inv:
  assumes "rating_inv s" "createRating raterId dto s = (Inr e, s')" "1 \<le> ct_rating dto" "ct_rating dto \<le> 5"
  shows "rating_inv s'"
proof -
  obtain i ty where t: "ratingTarget raterId dto s = Inr (i, ty)"
    and e: "rt_id e = nextId s" "rt_rideId e = ct_rideId dto" "rt_raterId e = raterId" "rt_rating e = ct_rating dto"
    and r: "ratings s' = ratings s @ [e]" "nextId s' = Suc (nextId s)"
    using createRating_run [OF assms(1,2)] by auto
  have "(ct_rideId dto, raterId) \<notin> set (map (\<lambda>r. (rt_rideId r, rt_raterId r)) (ratings s))"
    using ratingTarget_Inr [OF t] by auto
  then show ?thesis using assms e r by (auto simp: rating_inv_def less_Suc_eq)
qed

section \<open>Properties\<close>

text \<open>C39: A rating is accepted only on a completed ride, from one of its two parties about the other;
  it adds exactly one row to the table, keeps every rating between 1 and 5 and one per rater and
  ride, and a second rating of the same ride by the same rater is refused, whatever it says.\<close>

theorem one_vote_per_ride:
  assumes "rating_inv s" "createRating raterId dto s = (Inr e, s')" "1 \<le> ct_rating dto" "ct_rating dto \<le> 5"
  shows "rating_inv s' \<and> ratings s' = ratings s @ [e] \<and>
    (\<exists>ride. findRide (ct_rideId dto) s = Some ride \<and> r_status ride = COMPLETED \<and>
      (raterId = r_userId ride \<and> r_driverId ride = Some (rt_rateeId e) \<or>
       r_driverId ride = Some raterId \<and> rt_rateeId e = r_userId ride)) \<and>
    (\<forall>dto2. ct_rideId dto2 = ct_rideId dto \<longrightarrow> isl (fst (createRating raterId dto2 s')))"
proof -
  have e: "rt_rideId e = ct_rideId dto" "rt_raterId e = raterId" "ratings s' = ratings s @ [e]"
    using createRating_run [OF assms(1,2)] by auto
  have "isl (ratingTarget raterId dto2 s')" if "ct_rideId dto2 = ct_rideId dto" for dto2
    using ratingTarget_Inr [of raterId dto2 s'] e that
    by (cases "ratingTarget raterId dto2 s'") auto
  then have again: "isl (fst (createRating raterId dto2 s'))" if "ct_rideId dto2 = ct_rideId dto" for dto2
    using that by (fastforce simp: createRating_def isl_def)
  show ?thesis
    using createRating_inv [OF assms] createRating_run [OF assms(1,2)] again
    by (fastforce dest!: ratingTarget_Inr)
qed

text \<open>After a rating the rated driver's or rider's average column is between 1.00 and 5.00 and
  within 0.0051 of the exact mean of all the votes that account has received, the division, the
  printing and the rounding of the column included.\<close>

theorem average_is_mean:
  assumes "rating_inv s" "createRating raterId dto s = (Inr e, s')" "1 \<le> ct_rating dto" "ct_rating dto \<le> 5"
    and "rt_rateeType e = RATEE_DRIVER \<and> (\<exists>d\<in>set (drivers s'). d_id d = rt_rateeId e \<and> avg = d_ratingAverage d) \<or>
      rt_rateeType e = RATEE_USER \<and> (\<exists>u\<in>set (users s'). u_id u = rt_rateeId e \<and> avg = u_ratingAverage u)"
  shows "100 \<le> avg \<and> avg \<le> 500 \<and>
    \<bar>of_int avg - 100 * mean (ratingsOf (rt_rateeType e) (rt_rateeId e) s')\<bar> \<le> 51/100"
proof -
  obtain k where k: "store_decimal 3 (averageOf (ratingsOf (rt_rateeType e) (rt_rateeId e) s')) = Inr k"
    and d: "rt_rateeType e = RATEE_DRIVER \<Longrightarrow>
      drivers s' = tbl_update (\<lambda>d. d_id d = rt_rateeId e) (\<lambda>d. d\<lparr>d_ratingAverage := k\<rparr>) (drivers s)"
    and u: "rt_rateeType e = RATEE_USER \<Longrightarrow>
      users s' = tbl_update (\<lambda>u. u_id u = rt_rateeId e) (\<lambda>u. u\<lparr>u_ratingAverage := k\<rparr>) (users s)"
    and "e \<in> set (ratings s')"
    using createRating_run [OF assms(1,2)] by auto
  moreover from assms(5) have "avg = k" using d u by (auto simp: tbl_update_def split: if_splits)
  ultimately show ?thesis
    using store_average [OF ratingsOf_after [OF createRating_inv [OF assms(1-4)]] k] by simp
qed

definition demoVote :: CreateRatingDto where
  "demoVote = \<lparr>ct_rideId = 4, ct_rateeId = 2, ct_rateeType = RATEE_DRIVER, ct_rating = 4, ct_comment = None\<rparr>"

definition demoRating :: Rating where
  "demoRating = \<lparr>rt_id = 5, rt_rideId = 4, rt_raterId = 1, rt_rateeId = 2, rt_rateeType = RATEE_DRIVER,
     rt_rating = 4, rt_comment = None, rt_createdAt = 1000\<rparr>"

lemma demo_rating_inv: "rating_inv (demo COMPLETED)"
  by (simp add: rating_inv_def demo_def)

lemma demo_average: "store_decimal 3 (averageOf [4]) = Inr 400"
  by code_simp

lemma demo_vote_run: "createRating 1 demoVote (demo COMPLETED) =
    (Inr demoRating, updateDriverRow 2 (\<lambda>d. d\<lparr>d_ratingAverage := 400\<rparr>)
       ((demo COMPLETED)\<lparr>nextId := 6, ratings := [demoRating]\<rparr>))"
proof -
  have r: "ratings (demo COMPLETED) = []" "r_driverId (demoRide COMPLETED) = Some 2"
    by (simp_all add: demo_defs)
  have t: "ratingTarget 1 demoVote (demo COMPLETED) = Inr (2, RATEE_DRIVER)"
    by (simp add: ratingTarget_def demoVote_def r)
  show ?thesis
    unfolding createRating_def t
    by (simp add: freshId_def Let_def demoVote_def demoRating_def r tbl_save_def
        updateDriverRating_def ratingsOf_def demo_average)
qed

lemma one_vote_per_ride_witness: "rating_inv (snd (createRating 1 demoVote (demo COMPLETED)))"
  unfolding demo_vote_run snd_conv
  by (rule one_vote_per_ride [OF demo_rating_inv demo_vote_run, THEN conjunct1]) (simp_all add: demoVote_def)

lemma average_is_mean_witness:
  "(100::int) \<le> 400 \<and> (400::int) \<le> 500 \<and>
   \<bar>of_int 400 - 100 * mean (ratingsOf (rt_rateeType demoRating) (rt_rateeId demoRating)
     (updateDriverRow 2 (\<lambda>d. d\<lparr>d_ratingAverage := 400\<rparr>)
       ((demo COMPLETED)\<lparr>nextId := 6, ratings := [demoRating]\<rparr>)))\<bar> \<le> 51/100"
  by (rule average_is_mean [OF demo_rating_inv demo_vote_run])
    (simp_all add: demoVote_def demoRating_def updateDriverRow_def tbl_update_def)

end
