(* ===== verification/DriverLocations.thy ===== *)
theory DriverLocations
  imports JsString Principals RideLifecycle
begin

text \<open>
  \<open>src/driver-locations/driver-locations.service.ts\<close>: the GPS pings of the drivers in the Redis
  geospatial set, the sweep for drivers near a point, and who may see where a driver is.

  Redis's own geometry is a parameter (\<open>geoEnv\<close>): the coordinates \<open>GEOPOS\<close> reads back for a stored
  pair (a geohash is rounded) and the members \<open>GEORADIUS\<close> finds within a radius, with their
  distances. What \<open>GEOADD\<close> refuses is written out (\<open>geo_valid\<close>): the documented limits
  of the Mercator projection.
\<close>

section \<open>The service\<close>

record geoEnv =
  ge_read :: "num \<times> num \<Rightarrow> num \<times> num"
  ge_radius :: "(uuid \<rightharpoonup> num \<times> num) \<Rightarrow> num \<Rightarrow> num \<Rightarrow> num \<Rightarrow> (uuid \<times> num \<times> num \<times> num) list"

text \<open>A pair is \<open>(longitude, latitude)\<close>, as in the Redis commands.\<close>

definition geo_valid :: "num \<Rightarrow> num \<Rightarrow> bool" where
  "geo_valid lng lat \<longleftrightarrow> \<bar>lng\<bar> \<le> 180 \<and> \<bar>lat\<bar> \<le> 85.05112878"

definition geoadd :: "num \<Rightarrow> num \<Rightarrow> uuid \<Rightarrow> (sys, unit) handler" where
  "geoadd lng lat member s =
     (if geo_valid lng lat then (Inr (), s\<lparr>geo := (geo s)(member \<mapsto> (lng, lat))\<rparr>)
      else (Inl (GatewayError ''ERR invalid longitude,latitude pair''), s))"

record UpdateLocationDto =
  ul_latitude :: num
  ul_longitude :: num

record LocationUpdate =
  lu_driverId :: uuid
  lu_latitude :: num
  lu_longitude :: num
  lu_updatedAt :: date

definition updateLocation :: "uuid \<Rightarrow> UpdateLocationDto \<Rightarrow> (sys, LocationUpdate) handler" where
  "updateLocation driverId dto s =
     (case findDriver driverId s of
        None \<Rightarrow> (Inl (NotFoundException ''Driver not found''), s)
      | Some driver \<Rightarrow>
          if \<not> d_isOnline driver
          then (Inl (BadRequestException ''Driver must be online to update location''), s)
          else (case geoadd (ul_longitude dto) (ul_latitude dto) driverId s of
                  (Inl e, s1) \<Rightarrow> (Inl e, s1)
                | (Inr _, s1) \<Rightarrow>
                    let s2 = redis_set_ex (DRIVER_ACTIVE driverId) (RText ''active'') 300 s1;
                        updatedAt = now s2;
                        s3 = (case redis_get (DRIVER_ACTIVE_RIDE driverId) s2 of
                                Some (RId rideId) \<Rightarrow>
                                  emit (DriverLocationUpdated \<lparr>dle_driverId = driverId, dle_rideId = rideId,
                                    dle_latitude = ul_latitude dto, dle_longitude = ul_longitude dto,
                                    dle_updatedAt = updatedAt\<rparr>) s2
                              | _ \<Rightarrow> s2)
                    in (Inr \<lparr>lu_driverId = driverId, lu_latitude = ul_latitude dto,
                          lu_longitude = ul_longitude dto, lu_updatedAt = updatedAt\<rparr>, s3)))"

text \<open>The part of a name shown before a ride exists: \<open>split(/\s+/)[0]\<close> of the trimmed name.\<close>

definition firstNameOf :: "string option \<Rightarrow> string" where
  "firstNameOf name =
     (let trimmed = js_trim (case name of None \<Rightarrow> [] | Some n \<Rightarrow> n)
      in if trimmed = [] then ''Driver'' else takeWhile (\<lambda>c. \<not> is_ws c) trimmed)"

text \<open>
  \<open>Number(x.toFixed(2))\<close> of a non-negative number: the nearest hundredth, the larger of two
  equally near.
\<close>

definition toFixed2 :: "num \<Rightarrow> num" where
  "toFixed2 x = num_of_dec \<lfloor>100 * x + 1/2\<rfloor>"

record NearbyVehicle =
  nv_id :: uuid
  nv_type :: VehicleType
  nv_model :: string
  nv_color :: string

record NearbyDriver =
  nd_id :: uuid
  nd_name :: string
  nd_ratingAverage :: dec2
  nd_totalCompletedRides :: int
  nd_vehicles :: "NearbyVehicle list"
  nd_distance :: num
  nd_lat :: num
  nd_lng :: num

definition nearbyVehicles :: "uuid \<Rightarrow> sys \<Rightarrow> NearbyVehicle list" where
  "nearbyVehicles driverId s =
     map (\<lambda>v. \<lparr>nv_id = v_id v, nv_type = v_type v, nv_model = v_model v, nv_color = v_color v\<rparr>)
       (filter (\<lambda>v. v_driverId v = driverId) (vehicles s))"

definition findNearbyDrivers :: "geoEnv \<Rightarrow> num \<Rightarrow> num \<Rightarrow> num \<Rightarrow> sys \<Rightarrow> NearbyDriver list" where
  "findNearbyDrivers G userLat userLng radiusKm s =
     (let results = ge_radius G (geo s) userLng userLat radiusKm;
          nearbyDriverIds = map fst results;
          found = filter (\<lambda>d. d_id d \<in> set nearbyDriverIds \<and> d_isOnline d \<and> d_isActive d) (drivers s)
      in sort_key nd_distance (List.map_filter
           (\<lambda>(driverId, distance, lng, lat).
              map_option (\<lambda>dbDriver. \<lparr>nd_id = d_id dbDriver, nd_name = firstNameOf (Some (d_name dbDriver)),
                  nd_ratingAverage = d_ratingAverage dbDriver,
                  nd_totalCompletedRides = d_totalCompletedRides dbDriver,
                  nd_vehicles = nearbyVehicles (d_id dbDriver) s,
                  nd_distance = toFixed2 distance, nd_lat = lat, nd_lng = lng\<rparr>)
                (find (\<lambda>d. d_id d = driverId) found))
           results))"

definition canViewDriverLocation :: "Principal option \<Rightarrow> uuid \<Rightarrow> sys \<Rightarrow> bool" where
  "canViewDriverLocation viewer driverId s =
     (case viewer of
        None \<Rightarrow> False
      | Some p \<Rightarrow>
          if p_role p = ADMIN then True
          else if p_role p = DRIVER then p_id p = driverId
          else find (\<lambda>r. r_userId r = p_id p \<and> r_driverId r = Some driverId \<and>
                  r_status r \<in> {ACCEPTED, ARRIVED, IN_PROGRESS}) (rides s) \<noteq> None)"

definition removeLocation :: "uuid \<Rightarrow> sys \<Rightarrow> sys" where
  "removeLocation driverId s =
     redis_del (DRIVER_ACTIVE driverId) (s\<lparr>geo := (geo s)(driverId := None)\<rparr>)"

record DriverPosition =
  dp_driver :: "Driver option"
  dp_latitude :: num
  dp_longitude :: num

definition findLocation :: "geoEnv \<Rightarrow> uuid \<Rightarrow> sys \<Rightarrow> DriverPosition outcome" where
  "findLocation G driverId s =
     (case geo s driverId of
        None \<Rightarrow> Inl (NotFoundException ''Location not found for driver'')
      | Some pos \<Rightarrow>
          let (lng, lat) = ge_read G pos
          in Inr \<lparr>dp_driver = findDriver driverId s, dp_latitude = lat, dp_longitude = lng\<rparr>)"

text \<open>The endpoints of \<open>driver-locations.controller.ts\<close>, past its guards.\<close>

definition MAX_NEARBY_RADIUS_KM :: num where
  "MAX_NEARBY_RADIUS_KM = 50"

definition DEFAULT_NEARBY_RADIUS_KM :: num where
  "DEFAULT_NEARBY_RADIUS_KM = 10"

definition clampRadiusKm :: "string option \<Rightarrow> num" where
  "clampRadiusKm raw =
     (case raw of
        None \<Rightarrow> DEFAULT_NEARBY_RADIUS_KM
      | Some t \<Rightarrow>
          if t = [] then DEFAULT_NEARBY_RADIUS_KM
          else (case js_Number t of
                  None \<Rightarrow> DEFAULT_NEARBY_RADIUS_KM
                | Some parsed \<Rightarrow> if parsed \<le> 0 then DEFAULT_NEARBY_RADIUS_KM
                    else min parsed MAX_NEARBY_RADIUS_KM))"

record DriverLocationView =
  dv_id :: uuid
  dv_name :: string
  dv_latitude :: num
  dv_longitude :: num

definition getDriverLocation ::
  "geoEnv \<Rightarrow> uuid \<Rightarrow> Principal option \<Rightarrow> sys \<Rightarrow> DriverLocationView outcome" where
  "getDriverLocation G driverId viewer s =
     (if \<not> canViewDriverLocation viewer driverId s
      then Inl (ForbiddenException ''You can only view the location of a driver on your active ride.'')
      else (case findLocation G driverId s of
              Inl e \<Rightarrow> Inl e
            | Inr location \<Rightarrow>
                (case dp_driver location of
                   None \<Rightarrow> Inl (NotFoundException ''Driver not found'')
                 | Some d \<Rightarrow> Inr \<lparr>dv_id = d_id d, dv_name = firstNameOf (Some (d_name d)),
                     dv_latitude = dp_latitude location, dv_longitude = dp_longitude location\<rparr>)))"

record NearbySearch =
  ns_lat :: num
  ns_lng :: num
  ns_radius :: num
  ns_drivers :: "NearbyDriver list"

definition nearbyEndpoint :: "geoEnv \<Rightarrow> num \<Rightarrow> num \<Rightarrow> string option \<Rightarrow> sys \<Rightarrow> NearbySearch" where
  "nearbyEndpoint G lat lng radius s =
     (let searchRadius = clampRadiusKm radius
      in \<lparr>ns_lat = lat, ns_lng = lng, ns_radius = searchRadius,
          ns_drivers = findNearbyDrivers G lat lng searchRadius s\<rparr>)"

section \<open>Who sees whom\<close>

lemma canView_rider:
  assumes "p_role p = USER"
  shows "canViewDriverLocation (Some p) driverId s \<longleftrightarrow>
    (\<exists>r\<in>set (activeRides driverId s). r_userId r = p_id p)"
  using assms by (auto simp: canViewDriverLocation_def find_None_iff activeRides_def activeStatus_def)

text \<open>Where a ride of the next state comes from.\<close>

lemma rides_after_step:
  assumes "ride_step s s'" "wf_sys s" "x \<in> set (rides s')"
  shows "x \<in> set (rides s) \<or> r_status x = REQUESTED \<or> (\<exists>r\<in>set (rides s). ride_change s r x) \<or>
    r_status x = COMPLETED"
  using assms(1,2)
proof (cases rule: ride_step_cases)
  case none
  then show ?thesis using assms(3) by (simp add: same_tables_def)
next
  case (created dto km fare)
  then show ?thesis using assms(3) by (auto simp: newRide_def)
next
  case (changed i r r')
  have "r_id r' = i" using ride_change_facts(1) [OF changed(2)] wf_findRide(2) [OF assms(2) changed(1)] by simp
  then have "rides s' = map (\<lambda>x. if x = r then r' else x) (rides s)"
    using changed(3) rides_saveRide' [OF assms(2) changed(1)] by (simp add: same_tables_def)
  then show ?thesis using assms(3) changed(2) wf_findRide(1) [OF assms(2) changed(1)] by auto
next
  case (completed i r driverId d u n rows)
  have "r_id (completedRide (now s) r) = i"
    using wf_findRide(2) [OF assms(2) completed(1)] by (simp add: completedRide_def)
  then have "rides s' = map (\<lambda>x. if x = r then completedRide (now s) r else x) (rides s)"
    using completed(11) rides_saveRide' [OF assms(2) completed(1)] by (simp add: same_tables_def)
  then show ?thesis using assms(3) by (auto simp: completedRide_def)
qed

lemma newly_active:
  assumes "ride_step s s'" "wf_sys s" "x \<in> set (activeRides d s')"
  shows "(\<exists>r\<in>set (activeRides d s). r_userId r = r_userId x) \<or>
    (\<exists>r\<in>set (rides s). \<exists>v. r_status r = REQUESTED \<and> mayAccept s d v r \<and> x = acceptedRide (now s) d v r)"
proof -
  have x: "x \<in> set (rides s')" "r_driverId x = Some d" "activeStatus (r_status x)"
    using assms(3) by (auto simp: activeRides_def)
  from rides_after_step [OF assms(1,2) x(1)] x(3)
  consider "x \<in> set (rides s)" | r where "r \<in> set (rides s)" "ride_change s r x"
    by (auto simp: activeStatus_def)
  then show ?thesis
  proof cases
    case 1
    then show ?thesis using x by (auto simp: activeRides_def)
  next
    case 2
    from 2(2) show ?thesis
    proof (cases rule: ride_change.cases)
      case (accepted driverId vehicleId)
      then show ?thesis using 2(1) x(2) by (auto simp: mayAccept_def)
    qed (use 2(1) x in \<open>auto simp: activeRides_def activeStatus_def cancelledRide_def\<close>)
  qed
qed


text \<open>In every state with the service's invariants (\<open>life_inv\<close>, which every reachable state
  has), when a driver completes a private, okada or car ride in progress, no rider sees that
  driver's position any more.\<close>

theorem sight_ends_with_ride:
  assumes inv: "life_inv s"
    and "findRide rideId s = Some r" "r_status r = IN_PROGRESS" "r_category r \<noteq> SHARED"
    and "completeRide rideId driverId s = (Inr r', s')" "p_role p = USER"
  shows "\<not> canViewDriverLocation (Some p) driverId s'"
proof -
  have w: "wf_sys s" using inv by (simp add: life_inv_def)
  have "\<exists>t. r_driverId r = Some driverId \<and> rides s' = rides (saveRide (completedRide t r) s)"
    using assms(5)
  proof (cases rule: completeRide_cases [of s rideId driverId])
    case (settled ride split s1)
    have "wf_sys (locked rideId driverId s)" using w by simp
    then show ?thesis using settled(2)
    proof (rule settleRide_inverse)
      fix r0 d u n rows
      assume *: "findRide rideId (locked rideId driverId s) = Some r0" "r_driverId r0 = Some driverId"
        "s1 = settledState r0 d u n rows (locked rideId driverId s)"
      then have "r0 = r" using assms(2) by simp
      then show ?thesis using * settled(3) assms(5) by (auto simp: save_row_defs)
    qed
  qed (use assms(2,3,5) in auto)
  then obtain t where d: "r_driverId r = Some driverId"
    and s': "rides s' = rides (saveRide (completedRide t r) s)" by blast
  have "r_id (completedRide t r) = rideId"
    using wf_findRide(2) [OF w assms(2)] by (simp add: completedRide_def)
  then have rides: "rides s' = map (\<lambda>x. if x = r then completedRide t r else x) (rides s)"
    using s' rides_saveRide' [OF w assms(2)] by simp
  have here: "r \<in> set (activeRides driverId s)"
    using wf_findRide(1) [OF w assms(2)] d assms(3) by (simp add: activeRides_def activeStatus_def)
  have "load_ok (activeCategories driverId s)" using inv by (simp add: life_inv_def)
  then have "length (activeRides driverId s) \<le> 1"
    using here assms(4) by (auto simp: load_ok_def activeCategories_def)
  then have only: "activeRides driverId s = [r]" using here by (cases "activeRides driverId s") auto
  have "activeRides driverId s' = []"
  proof (rule ccontr)
    assume "activeRides driverId s' \<noteq> []"
    then obtain x where "x \<in> set (activeRides driverId s')" by (cases "activeRides driverId s'") auto
    then have x: "x \<in> set (rides s')" "r_driverId x = Some driverId" "activeStatus (r_status x)"
      by (auto simp: activeRides_def)
    then obtain y where y: "y \<in> set (rides s)" "x = (if y = r then completedRide t r else y)"
      unfolding rides set_map by (elim imageE)
    have "y \<noteq> r" using x(3) y(2) by (auto simp: activeStatus_def completedRide_def)
    then have "x \<noteq> r" "x \<in> set (activeRides driverId s)" using x y by (auto simp: activeRides_def)
    then show False using only by simp
  qed
  then show ?thesis using assms(6) by (simp add: canView_rider)
qed

lemma demo_life_inv: "life_inv (demo IN_PROGRESS)"
proof -
  have "load_ok (activeCategories d (demo IN_PROGRESS))" for d
    by (simp add: load_ok_def activeCategories_def activeRides_def)
  moreover have "paid_ok (demoRide IN_PROGRESS) (entriesOf i (demo IN_PROGRESS))" for i
    by (simp add: paid_ok_def entriesOf_def)
  moreover have "ride_ok (demoRide IN_PROGRESS)" by (simp add: ride_ok_def demoRide_def)
  ultimately show ?thesis using demo_wf by (simp add: life_inv_def)
qed

definition ada :: Principal where "ada = \<lparr>p_id = 1, p_role = USER\<rparr>"

lemma sight_ends_with_ride_witness:
  "\<exists>s'. (\<exists>r. completeRide 4 2 (demo IN_PROGRESS) = (Inr r, s')) \<and>
     canViewDriverLocation (Some ada) 2 (demo IN_PROGRESS) \<and> \<not> canViewDriverLocation (Some ada) 2 s'"
proof -
  obtain r s' where run: "completeRide 4 2 (demo IN_PROGRESS) = (Inr r, s')" using demo_completes by blast
  have "\<not> canViewDriverLocation (Some ada) 2 s'"
    by (rule sight_ends_with_ride [OF demo_life_inv _ _ _ run, where r = "demoRide IN_PROGRESS"]) (simp_all add: ada_def, simp add: demoRide_def)
  moreover have "canViewDriverLocation (Some ada) 2 (demo IN_PROGRESS)"
    by (simp add: canViewDriverLocation_def ada_def demoRide_def)
  ultimately show ?thesis using run by blast
qed


section \<open>The nearby sweep\<close>

lemma js_trim_first:
  assumes "js_trim t = c # cs"
  shows "\<not> is_ws c"
proof
  assume w: "is_ws c"
  let ?u = "dropWhile is_ws t"
  have r: "rev (c # cs) = dropWhile is_ws (rev ?u)" using assms by (metis js_trim_def rev_swap)
  have split: "rev ?u = takeWhile is_ws (rev ?u) @ rev (c # cs)" unfolding r by simp
  then have "?u = (c # cs) @ rev (takeWhile is_ws (rev ?u))" by (metis rev_append rev_rev_ident)
  then have "?u = c # (cs @ rev (takeWhile is_ws (rev ?u)))" by simp
  then show False using w by (simp add: dropWhile_eq_Cons_conv)
qed

text \<open>The name shown before a ride exists is never empty and never more than one word: it
  contains no white space, whatever the stored name is.\<close>

theorem first_name_is_one_word: "firstNameOf name \<noteq> [] \<and> list_all (\<lambda>c. \<not> is_ws c) (firstNameOf name)"
proof -
  define t where "t = js_trim (case name of None \<Rightarrow> [] | Some n \<Rightarrow> n)"
  have "list_all (\<lambda>c. \<not> is_ws c) (takeWhile (\<lambda>c. \<not> is_ws c) t)"
    by (auto simp: list_all_iff dest: set_takeWhileD)
  moreover have "takeWhile (\<lambda>c. \<not> is_ws c) t \<noteq> []" if "t \<noteq> []"
  proof -
    obtain c cs where c: "t = c # cs" using \<open>t \<noteq> []\<close> by (cases t) auto
    then have "\<not> is_ws c" using js_trim_first unfolding t_def by blast
    then show ?thesis using c by simp
  qed
  moreover have "list_all (\<lambda>c. \<not> is_ws c) ''Driver''" by (simp add: is_ws_def)
  ultimately show ?thesis by (simp add: firstNameOf_def Let_def t_def [symmetric])
qed

lemma map_filter_Some_iff: "y \<in> set (List.map_filter f xs) \<longleftrightarrow> (\<exists>x\<in>set xs. f x = Some y)"
  by (force simp: List.map_filter_def)

text \<open>Whatever Redis returns, every entry of a nearby sweep is a driver who is online and active in
  the database now, shown under the first word of their name with their own vehicles, and the
  entries come nearest first.\<close>

theorem nearby_drivers_are_online:
  "sorted (map nd_distance (findNearbyDrivers G lat lng radius s)) \<and>
   (\<forall>e\<in>set (findNearbyDrivers G lat lng radius s).
      \<exists>d\<in>set (drivers s). nd_id e = d_id d \<and> d_isOnline d \<and> d_isActive d \<and>
        nd_name e = firstNameOf (Some (d_name d)) \<and> nd_vehicles e = nearbyVehicles (d_id d) s)"
proof (intro conjI ballI)
  show "sorted (map nd_distance (findNearbyDrivers G lat lng radius s))"
    by (simp add: findNearbyDrivers_def Let_def)
next
  fix e assume "e \<in> set (findNearbyDrivers G lat lng radius s)"
  then obtain i d where d: "find (\<lambda>d. d_id d = i) (filter (\<lambda>d. d_id d \<in>
        set (map fst (ge_radius G (geo s) lng lat radius)) \<and> d_isOnline d \<and> d_isActive d) (drivers s)) = Some d"
    and e: "nd_id e = d_id d" "nd_name e = firstNameOf (Some (d_name d))"
      "nd_vehicles e = nearbyVehicles (d_id d) s"
    by (auto simp: findNearbyDrivers_def Let_def map_filter_Some_iff)
  show "\<exists>d\<in>set (drivers s). nd_id e = d_id d \<and> d_isOnline d \<and> d_isActive d \<and>
        nd_name e = firstNameOf (Some (d_name d)) \<and> nd_vehicles e = nearbyVehicles (d_id d) s"
    using find_SomeD [OF d] e by (intro bexI [of _ d]) auto
qed

text \<open>The search radius an endpoint uses lies between 0, exclusive, and 50 km, whatever text the
  client sent for it.\<close>

theorem radius_bounds: "0 < clampRadiusKm raw \<and> clampRadiusKm raw \<le> MAX_NEARBY_RADIUS_KM"
  by (auto simp: clampRadiusKm_def DEFAULT_NEARBY_RADIUS_KM_def MAX_NEARBY_RADIUS_KM_def
      split: option.splits)

text \<open>Time alone never takes a driver off the map: after any delay, the sweep and the position
  lookup still return what they returned before, although the header of the service says that
  inactive drivers automatically expire.\<close>

theorem silent_driver_stays_on_map:
  "findNearbyDrivers G lat lng radius (tick ms s) = findNearbyDrivers G lat lng radius s \<and>
   findLocation G driverId (tick ms s) = findLocation G driverId s"
  by (simp add: findNearbyDrivers_def findLocation_def nearbyVehicles_def tick_def find_row_defs
      split: option.split)

lemma redis_get_geo [simp]: "redis_get k (s\<lparr>geo := g\<rparr>) = redis_get k s"
  by (simp add: redis_get_def live_def)

lemma redis_get_events [simp]: "redis_get k (s\<lparr>events := g\<rparr>) = redis_get k s"
  by (simp add: redis_get_def live_def)

text \<open>A ping by an online driver on a ride reaches the rider: it is stored, marked fresh for five
  minutes and pushed with the ride the driver's pointer names, and nothing else changes.\<close>

theorem ping_reaches_ride:
  assumes "findDriver driverId s = Some d" "d_isOnline d" "geo_valid (ul_longitude dto) (ul_latitude dto)"
    and "redis_get (DRIVER_ACTIVE_RIDE driverId) s = Some (RId rideId)"
  shows "\<exists>s'. updateLocation driverId dto s =
      (Inr \<lparr>lu_driverId = driverId, lu_latitude = ul_latitude dto, lu_longitude = ul_longitude dto,
         lu_updatedAt = now s\<rparr>, s') \<and>
    geo s' driverId = Some (ul_longitude dto, ul_latitude dto) \<and>
    redis_get (DRIVER_ACTIVE driverId) s' = Some (RText ''active'') \<and>
    events s' = events s @ [DriverLocationUpdated \<lparr>dle_driverId = driverId, dle_rideId = rideId,
      dle_latitude = ul_latitude dto, dle_longitude = ul_longitude dto, dle_updatedAt = now s\<rparr>] \<and>
    drivers s' = drivers s \<and> rides s' = rides s"
  using assms
proof -
  let ?s = "redis_set_ex (DRIVER_ACTIVE driverId) (RText ''active'') 300
    (s\<lparr>geo := (geo s)(driverId \<mapsto> (ul_longitude dto, ul_latitude dto))\<rparr>)"
  have p: "redis_get (DRIVER_ACTIVE_RIDE driverId) ?s = Some (RId rideId)"
    using assms(4) redis_get_set_ex(2) [of "DRIVER_ACTIVE_RIDE driverId" "DRIVER_ACTIVE driverId"] by simp
  have a: "redis_get (DRIVER_ACTIVE driverId) ?s = Some (RText ''active'')"
    by (rule redis_get_set_ex) simp
  have f: "geo ?s driverId = Some (ul_longitude dto, ul_latitude dto)" "events ?s = events s"
    "drivers ?s = drivers s" "rides ?s = rides s" "now ?s = now s"
    by (simp_all add: redis_set_ex_def)
  show ?thesis
    using assms(1-3) by (simp add: updateLocation_def geoadd_def Let_def p a f emit_def)
qed

definition demoPing :: UpdateLocationDto where "demoPing = \<lparr>ul_latitude = 6, ul_longitude = 3\<rparr>"

definition demoMoving :: sys where
  "demoMoving = redis_set_ex (DRIVER_ACTIVE_RIDE 2) (RId 4) 21600 (demo IN_PROGRESS)"

lemma ping_reaches_ride_witness:
  "\<exists>s'. updateLocation 2 demoPing demoMoving =
      (Inr \<lparr>lu_driverId = 2, lu_latitude = 6, lu_longitude = 3, lu_updatedAt = 1000\<rparr>, s') \<and>
    geo s' 2 = Some (3, 6)"
proof -
  have "findDriver 2 demoMoving = Some demoDriver" "d_isOnline demoDriver"
    "geo_valid (ul_longitude demoPing) (ul_latitude demoPing)"
    "redis_get (DRIVER_ACTIVE_RIDE 2) demoMoving = Some (RId 4)" "now demoMoving = 1000"
    by (simp_all add: demoMoving_def demoDriver_def geo_valid_def demoPing_def redis_get_set_ex)
  then show ?thesis using ping_reaches_ride [of 2 demoMoving demoDriver demoPing 4]
    by (auto simp: demoPing_def)
qed

text \<open>The request body may carry any latitude between -90 and 90, but the position set refuses
  those beyond 85.05112878 degrees: such a ping of an online driver fails, stores nothing, and is
  answered as an internal error.\<close>

theorem polar_ping_fails:
  assumes "findDriver driverId s = Some d" "d_isOnline d" "85.05112878 < \<bar>ul_latitude dto\<bar>"
  shows "\<exists>e. updateLocation driverId dto s = (Inl e, s) \<and> http_status e = 500"
  using assms by (simp add: updateLocation_def geoadd_def geo_valid_def)

lemma polar_ping_fails_witness:
  "\<exists>e. updateLocation 2 \<lparr>ul_latitude = 89, ul_longitude = 3\<rparr> (demo IN_PROGRESS) =
      (Inl e, demo IN_PROGRESS) \<and> http_status e = 500"
  by (rule polar_ping_fails [of _ _ demoDriver]) (simp_all add: demoDriver_def)

text \<open>One driver two kilometres away.\<close>

definition nearGeo :: geoEnv where
  "nearGeo = \<lparr>ge_read = (\<lambda>p. p), ge_radius = (\<lambda>_ _ _ _. [(2, 2, 3, 6)])\<rparr>"

theorem nearby_drivers_are_online_witness:
  "\<exists>e. findNearbyDrivers nearGeo 6 3 5 (demo ACCEPTED) = [e] \<and> nd_name e = ''Bola'' \<and>
     (\<exists>d\<in>set (drivers (demo ACCEPTED)). nd_id e = d_id d \<and> d_isOnline d \<and> d_isActive d)"
proof -
  have "\<exists>e. findNearbyDrivers nearGeo 6 3 5 (demo ACCEPTED) = [e] \<and> nd_name e = firstNameOf (Some ''Bola'')"
    by (simp add: findNearbyDrivers_def nearGeo_def List.map_filter_def demoDriver_def)
  then obtain e where e: "findNearbyDrivers nearGeo 6 3 5 (demo ACCEPTED) = [e]"
    "nd_name e = firstNameOf (Some ''Bola'')" by blast
  have "firstNameOf (Some ''Bola'') = ''Bola''" by code_simp
  moreover have "\<exists>d\<in>set (drivers (demo ACCEPTED)). nd_id e = d_id d \<and> d_isOnline d \<and> d_isActive d"
    using nearby_drivers_are_online [of nearGeo 6 3 5 "demo ACCEPTED"] e(1) by auto
  ultimately show ?thesis using e by simp
qed

end
