(* ===== verification/Emergency.thy ===== *)
theory Emergency
  imports DriverLocations
begin

text \<open>
  \<open>src/emergency/emergency.service.ts\<close> and the queueing of the outbound webhooks
  (\<open>src/common/services/webhook.service.ts\<close>): the in-ride SOS, from the record of the incident
  to its resolution. Whether the queue accepts jobs is a parameter (\<open>queueUp\<close>); of the two jobs
  \<open>Promise.all\<close> adds, both are then in the queue or the call rejects with none.
\<close>

section \<open>The service\<close>

record TriggerEmergencyDto =
  te_rideId :: uuid
  te_lat :: "num option"
  te_lng :: "num option"
  te_note :: "string option"

record ResolveEmergencyDto =
  re_status :: "EmergencyStatus option"
  re_resolutionNote :: "string option"

definition dispatchEmergency ::
  "bool \<Rightarrow> EmergencyEvent \<Rightarrow> Location \<Rightarrow> Location \<Rightarrow> (sys, unit) handler" where
  "dispatchEmergency queueUp payload pickup dropoff s =
     (if queueUp
      then (Inr (), enqueue (BroadcastLocation payload pickup dropoff)
                      (enqueue (TriggerEmergencyProtocol payload pickup dropoff) s))
      else (Inl (GatewayError ''queue unavailable''), s))"

definition resolveLocation ::
  "geoEnv \<Rightarrow> Ride \<Rightarrow> TriggerEmergencyDto \<Rightarrow> sys \<Rightarrow> IncidentLocation option" where
  "resolveLocation G ride dto s =
     (let pickup = \<lparr>il_lat = l_lat (r_pickup ride), il_lng = l_lng (r_pickup ride),
            il_address = Some (l_address (r_pickup ride))\<rparr>
      in case (te_lat dto, te_lng dto) of
           (Some lat, Some lng) \<Rightarrow> Some \<lparr>il_lat = lat, il_lng = lng, il_address = None\<rparr>
         | _ \<Rightarrow>
             (case r_driverId ride of
                None \<Rightarrow> Some pickup
              | Some driverId \<Rightarrow>
                  (case findLocation G driverId s of
                     Inr position \<Rightarrow> Some \<lparr>il_lat = dp_latitude position,
                       il_lng = dp_longitude position, il_address = None\<rparr>
                   | Inl _ \<Rightarrow> Some pickup)))"

definition triggerEmergency ::
  "geoEnv \<Rightarrow> bool \<Rightarrow> TriggerEmergencyDto \<Rightarrow> uuid \<Rightarrow> Role \<Rightarrow> (sys, EmergencyIncident) handler" where
  "triggerEmergency G queueUp dto requesterId role s =
     (case findRide (te_rideId dto) s of
        None \<Rightarrow> (Inl (NotFoundException ''Ride not found''), s)
      | Some ride \<Rightarrow>
          if r_status ride \<noteq> IN_PROGRESS
          then (Inl (BadRequestException ''SOS is only available while a ride is in progress''), s)
          else
            let isRider = (r_userId ride = requesterId);
                isDriver = (r_driverId ride = Some requesterId)
            in if \<not> isRider \<and> \<not> isDriver
               then (Inl (ForbiddenException ''You are not a party to this ride''), s)
               else
                 let location = resolveLocation G ride dto s;
                     (i, s1) = freshId s;
                     incident = \<lparr>ei_id = i, ei_rideId = r_id ride,
                       ei_triggeredBy = (if isDriver then BY_DRIVER else BY_RIDER),
                       ei_triggeredById = requesterId, ei_location = location,
                       ei_note = te_note dto, ei_status = E_ACTIVE, ei_resolutionNote = None,
                       ei_resolvedAt = None, ei_createdAt = now s1\<rparr>;
                     s2 = saveIncident incident s1;
                     payload = \<lparr>ee_incidentId = i, ee_rideId = r_id ride,
                       ee_triggeredBy = ei_triggeredBy incident, ee_triggeredById = requesterId,
                       ee_location = location, ee_createdAt = ei_createdAt incident,
                       ee_userId = r_userId ride, ee_driverId = r_driverId ride\<rparr>;
                     s3 = emit (EmergencyTriggered payload) s2
                 in (case dispatchEmergency queueUp payload (r_pickup ride) (r_dropoff ride) s3 of
                       (Inl e, s4) \<Rightarrow> (Inl e, s4)
                     | (Inr _, s4) \<Rightarrow> (Inr incident, s4)))"

definition incidentRideParties :: "uuid \<Rightarrow> sys \<Rightarrow> (uuid option \<times> uuid option) option" where
  "incidentRideParties rideId s =
     map_option (\<lambda>r. (Some (r_userId r), r_driverId r)) (findRide rideId s)"

definition findIncidentsByRide :: "uuid \<Rightarrow> sys \<Rightarrow> EmergencyIncident list" where
  "findIncidentsByRide rideId s =
     order_desc ei_createdAt (filter (\<lambda>i. ei_rideId i = rideId) (incidents s))"

definition findAllIncidents :: "EmergencyStatus option \<Rightarrow> sys \<Rightarrow> EmergencyIncident list" where
  "findAllIncidents status s =
     order_desc ei_createdAt
       (filter (\<lambda>i. case status of None \<Rightarrow> True | Some st \<Rightarrow> ei_status i = st) (incidents s))"

definition resolveEmergency ::
  "uuid \<Rightarrow> ResolveEmergencyDto \<Rightarrow> (sys, EmergencyIncident) handler" where
  "resolveEmergency incidentId dto s =
     (case findIncident incidentId s of
        None \<Rightarrow> (Inl (NotFoundException ''Incident not found''), s)
      | Some incident \<Rightarrow>
          let incident' = incident\<lparr>
                ei_status := (case re_status dto of None \<Rightarrow> E_RESOLVED | Some st \<Rightarrow> st),
                ei_resolutionNote := re_resolutionNote dto, ei_resolvedAt := Some (now s)\<rparr>
          in (Inr incident', saveIncident incident' s))"

text \<open>\<open>emergency.controller.ts\<close>: the incidents of a ride, for its parties and admins.\<close>

definition incidentsOfRide ::
  "uuid \<Rightarrow> Principal option \<Rightarrow> sys \<Rightarrow> EmergencyIncident list outcome" where
  "incidentsOfRide rideId principal' s =
     (case incidentRideParties rideId s of
        None \<Rightarrow> Inl (NotFoundException ''Ride not found'')
      | Some ride \<Rightarrow>
          (case assertPartyToRide principal' (Some ride) ''view emergency incidents'' of
             Inl e \<Rightarrow> Inl e
           | Inr _ \<Rightarrow> Inr (findIncidentsByRide rideId s)))"

section \<open>The three outcomes of an SOS\<close>

text \<open>The incident of a valid SOS, and the payload that announces it.\<close>

definition sosIncident :: "geoEnv \<Rightarrow> Ride \<Rightarrow> TriggerEmergencyDto \<Rightarrow> uuid \<Rightarrow> sys \<Rightarrow> EmergencyIncident" where
  "sosIncident G ride dto requesterId s =
     \<lparr>ei_id = nextId s, ei_rideId = r_id ride,
      ei_triggeredBy = (if r_driverId ride = Some requesterId then BY_DRIVER else BY_RIDER),
      ei_triggeredById = requesterId, ei_location = resolveLocation G ride dto s,
      ei_note = te_note dto, ei_status = E_ACTIVE, ei_resolutionNote = None,
      ei_resolvedAt = None, ei_createdAt = now s\<rparr>"

definition sosPayload :: "Ride \<Rightarrow> EmergencyIncident \<Rightarrow> EmergencyEvent" where
  "sosPayload ride i =
     \<lparr>ee_incidentId = ei_id i, ee_rideId = ei_rideId i, ee_triggeredBy = ei_triggeredBy i,
      ee_triggeredById = ei_triggeredById i, ee_location = ei_location i,
      ee_createdAt = ei_createdAt i, ee_userId = r_userId ride, ee_driverId = r_driverId ride\<rparr>"

definition sosState :: "EmergencyIncident \<Rightarrow> Ride \<Rightarrow> sys \<Rightarrow> sys" where
  "sosState i ride s =
     emit (EmergencyTriggered (sosPayload ride i)) (saveIncident i (s\<lparr>nextId := Suc (nextId s)\<rparr>))"

lemma resolveLocation_some: "resolveLocation G ride dto s \<noteq> None"
  by (simp add: resolveLocation_def Let_def split: option.splits sum.splits)

lemma triggerEmergency_cases:
  "triggerEmergency G queueUp dto requesterId role s =
     (case findRide (te_rideId dto) s of
        None \<Rightarrow> (Inl (NotFoundException ''Ride not found''), s)
      | Some ride \<Rightarrow>
          if r_status ride \<noteq> IN_PROGRESS
          then (Inl (BadRequestException ''SOS is only available while a ride is in progress''), s)
          else if r_userId ride \<noteq> requesterId \<and> r_driverId ride \<noteq> Some requesterId
          then (Inl (ForbiddenException ''You are not a party to this ride''), s)
          else let i = sosIncident G ride dto requesterId s; s' = sosState i ride s;
                   p = sosPayload ride i
               in if queueUp
                  then (Inr i, s'\<lparr>jobs := jobs s @ [TriggerEmergencyProtocol p (r_pickup ride) (r_dropoff ride),
                         BroadcastLocation p (r_pickup ride) (r_dropoff ride)]\<rparr>)
                  else (Inl (GatewayError ''queue unavailable''), s'))"
  by (simp add: triggerEmergency_def freshId_def Let_def sosIncident_def sosState_def sosPayload_def
      dispatchEmergency_def enqueue_def emit_def saveIncident_def split: option.split)

lemma sosState_frame [simp]:
  "rides (sosState i r s) = rides s" "drivers (sosState i r s) = drivers s"
  "users (sosState i r s) = users s" "jobs (sosState i r s) = jobs s"
  "incidents (sosState i r s) = tbl_save ei_id i (incidents s)"
  "events (sosState i r s) = events s @ [EmergencyTriggered (sosPayload r i)]"
  "nextId (sosState i r s) = Suc (nextId s)"
  by (simp_all add: sosState_def emit_def saveIncident_def)

definition incident_inv :: "sys \<Rightarrow> bool" where
  "incident_inv s \<longleftrightarrow> (\<forall>i\<in>set (incidents s). ei_id i < nextId s \<and> ei_location i \<noteq> None \<and>
      (ei_status i = E_ACTIVE \<longleftrightarrow> ei_resolvedAt i = None)) \<and>
     distinct (map ei_id (incidents s))"

lemma incident_fresh: "incident_inv s \<Longrightarrow> nextId s \<notin> ei_id ` set (incidents s)"
  by (force simp: incident_inv_def)

lemma sos_rows:
  "incident_inv s \<Longrightarrow> incidents (sosState (sosIncident G r dto q s) r s) =
     incidents s @ [sosIncident G r dto q s]"
  using incident_fresh [of s] by (simp add: tbl_save_def sosIncident_def)

text \<open>C38: Pressing the SOS on a ride in progress by either of its two people always leaves a record: the
  incident is stored with a location, whoever sent one or not and whether or not the driver's position
  is known, and both parties are alerted; with the queue up both webhooks are queued and the caller
  gets the incident back. No other table changes.\<close>

theorem sos_always_recorded:
  assumes "incident_inv s" "findRide (te_rideId dto) s = Some ride" "r_status ride = IN_PROGRESS"
    and "r_userId ride = requesterId \<or> r_driverId ride = Some requesterId"
  shows "\<exists>i s'. snd (triggerEmergency G queueUp dto requesterId role s) = s' \<and>
    incidents s' = incidents s @ [i] \<and> incident_inv s' \<and>
    ei_rideId i = r_id ride \<and> ei_triggeredById i = requesterId \<and> ei_status i = E_ACTIVE \<and>
    ei_location i \<noteq> None \<and> (te_lat dto \<noteq> None \<and> te_lng dto \<noteq> None \<longrightarrow>
      ei_location i = Some \<lparr>il_lat = the (te_lat dto), il_lng = the (te_lng dto), il_address = None\<rparr>) \<and>
    events s' = events s @ [EmergencyTriggered (sosPayload ride i)] \<and>
    rides s' = rides s \<and> drivers s' = drivers s \<and> users s' = users s \<and>
    (if queueUp
     then fst (triggerEmergency G queueUp dto requesterId role s) = Inr i \<and>
       length (jobs s') = length (jobs s) + 2
     else jobs s' = jobs s)"
proof -
  let ?i = "sosIncident G ride dto requesterId s" let ?s = "sosState ?i ride s"
  have rows: "incidents ?s = incidents s @ [?i]" by (rule sos_rows [OF assms(1)])
  have "incident_inv (?s\<lparr>jobs := j\<rparr>)" "incident_inv ?s" for j
    using assms(1) incident_fresh [OF assms(1)] rows resolveLocation_some
    by (auto simp: incident_inv_def sosIncident_def less_Suc_eq simp del: sosState_frame(5))
  then show ?thesis
    using assms(2-4) rows resolveLocation_some [of G ride dto s]
    by (auto simp: triggerEmergency_cases Let_def sosIncident_def resolveLocation_def
        simp del: sosState_frame(5) split: option.splits)
qed


definition demoGeo :: geoEnv where
  "demoGeo = \<lparr>ge_read = (\<lambda>p. p), ge_radius = (\<lambda>_ _ _ _. [])\<rparr>"

definition demoSos :: TriggerEmergencyDto where
  "demoSos = \<lparr>te_rideId = 4, te_lat = None, te_lng = None, te_note = None\<rparr>"

lemma demo_incident_inv: "incident_inv (demo st)"
  by (simp add: incident_inv_def demo_def)

lemma sos_always_recorded_witness:
  "\<exists>i. incidents (snd (triggerEmergency demoGeo False demoSos 1 USER (demo IN_PROGRESS))) = [i] \<and>
     ei_location i \<noteq> None"
proof -
  have "r_userId (demoRide IN_PROGRESS) = 1" "findRide (te_rideId demoSos) (demo IN_PROGRESS) = Some (demoRide IN_PROGRESS)"
    "incidents (demo IN_PROGRESS) = []"
    by (simp_all add: demoSos_def demo_def demoRide_def find_row_defs tbl_find_def)
  then show ?thesis
    using sos_always_recorded [of "demo IN_PROGRESS" demoSos "demoRide IN_PROGRESS" 1 demoGeo False USER,
        OF demo_incident_inv]
    by auto
qed

text \<open>When the webhook queue is down, the person pressing the SOS gets an internal error, although
  the incident has been stored and broadcast; and pressing again stores a second one.\<close>

theorem sos_fails_when_queue_down:
  "\<exists>e s'. triggerEmergency demoGeo False demoSos 1 USER (demo IN_PROGRESS) = (Inl e, s') \<and>
     http_status e = 500 \<and> length (incidents s') = 1 \<and> length (events s') = 1 \<and>
     length (incidents (snd (triggerEmergency demoGeo False demoSos 1 USER s'))) = 2"
proof -
  let ?s = "sosState (sosIncident demoGeo (demoRide IN_PROGRESS) demoSos 1 (demo IN_PROGRESS))
    (demoRide IN_PROGRESS) (demo IN_PROGRESS)"
  have f: "findRide 4 ?s = Some (demoRide IN_PROGRESS)" by (simp add: find_row_defs tbl_find_def)
  have r: "r_userId (demoRide IN_PROGRESS) = 1" "r_status (demoRide IN_PROGRESS) = IN_PROGRESS"
    "te_rideId demoSos = 4"
    by (simp_all add: demoRide_def demoSos_def)
  have i: "incident_inv ?s"
    using sos_rows [OF demo_incident_inv, of demoGeo "demoRide IN_PROGRESS" demoSos 1 IN_PROGRESS]
      resolveLocation_some
    by (auto simp: incident_inv_def demo_def sosIncident_def simp del: sosState_frame(5))
  have n: "length (incidents ?s) = 1"
    using sos_rows [OF demo_incident_inv, of demoGeo "demoRide IN_PROGRESS" demoSos 1 IN_PROGRESS]
    by (simp add: demo_def del: sosState_frame(5))
  have "triggerEmergency demoGeo False demoSos 1 USER (demo IN_PROGRESS) =
      (Inl (GatewayError ''queue unavailable''), ?s)"
    unfolding triggerEmergency_cases by (simp add: r Let_def)
  moreover have "snd (triggerEmergency demoGeo False demoSos 1 USER ?s) =
      sosState (sosIncident demoGeo (demoRide IN_PROGRESS) demoSos 1 ?s) (demoRide IN_PROGRESS) ?s"
    unfolding triggerEmergency_cases r f by (simp add: r Let_def)
  ultimately show ?thesis using n sos_rows [OF i, of demoGeo "demoRide IN_PROGRESS" demoSos 1]
    by (simp del: sosState_frame(5))
qed

section \<open>Closing an incident\<close>

text \<open>Closing an incident as resolved or as a false alarm keeps every incident's stamp in step with
  its status (active exactly while it has no resolution time), changes no other incident, and an
  unknown incident is a 404 that changes nothing.\<close>

theorem resolve_closes_one:
  assumes "incident_inv s" "re_status dto \<noteq> Some E_ACTIVE" "resolveEmergency incidentId dto s = (res, s')"
  shows "incident_inv s' \<and> (case findIncident incidentId s of
     None \<Rightarrow> res = Inl (NotFoundException ''Incident not found'') \<and> s' = s
   | Some i \<Rightarrow> \<exists>i'. res = Inr i' \<and> findIncident incidentId s' = Some i' \<and> ei_status i' \<noteq> E_ACTIVE \<and>
       ei_resolvedAt i' = Some (now s) \<and> ei_rideId i' = ei_rideId i \<and>
       (\<forall>j. j \<noteq> incidentId \<longrightarrow> findIncident j s' = findIncident j s))"
proof (cases "findIncident incidentId s")
  case None
  then show ?thesis using assms(1,3) by (simp add: resolveEmergency_def)
next
  case (Some i)
  define i' where "i' = i\<lparr>ei_status := (case re_status dto of None \<Rightarrow> E_RESOLVED | Some st \<Rightarrow> st),
    ei_resolutionNote := re_resolutionNote dto, ei_resolvedAt := Some (now s)\<rparr>"
  have run: "res = Inr i'" "s' = saveIncident i' s"
    using assms(3) Some by (auto simp: resolveEmergency_def i'_def Let_def)
  have i: "i \<in> set (incidents s)" "ei_id i = incidentId" using incidentRepo.findById_SomeD [OF Some] by auto
  have i': "ei_id i' = incidentId" "ei_status i' \<noteq> E_ACTIVE" "ei_resolvedAt i' = Some (now s)"
    "ei_rideId i' = ei_rideId i" "ei_location i' = ei_location i"
    using assms(2) i(2) by (auto simp: i'_def split: option.split)
  have ok: "ei_id i' < nextId s \<and> ei_location i' \<noteq> None \<and> (ei_status i' = E_ACTIVE \<longleftrightarrow> ei_resolvedAt i' = None)"
    using assms(1) i i' by (auto simp: incident_inv_def)
  have "\<forall>x\<in>set (incidents s'). ei_id x < nextId s \<and> ei_location x \<noteq> None \<and>
      (ei_status x = E_ACTIVE \<longleftrightarrow> ei_resolvedAt x = None)"
    unfolding run(2) by (rule incidentRepo.rows_save_all) (use assms(1) ok in \<open>auto simp: incident_inv_def\<close>)
  moreover have "nextId s' = nextId s" by (simp add: run(2) saveIncident_def)
  moreover have "distinct (map ei_id (incidents s'))"
    unfolding run(2) using incidentRepo.rows_save_distinct assms(1) by (simp add: incident_inv_def)
  ultimately have "incident_inv s'" by (simp add: incident_inv_def)
  then show ?thesis
    using Some run i' incidentRepo.findById_save_same [of i' s] incidentRepo.findById_save_other
    by simp
qed

text \<open>The resolve endpoint also accepts the status active, against the message of its own
  validator: the incident stays open and carries a resolution time.\<close>

theorem resolve_accepts_active:
  "let s = snd (triggerEmergency demoGeo True demoSos 1 USER (demo IN_PROGRESS));
       r = resolveEmergency 5 \<lparr>re_status = Some E_ACTIVE, re_resolutionNote = None\<rparr> s
   in case fst r of
        Inl _ \<Rightarrow> False
      | Inr i \<Rightarrow> ei_status i = E_ACTIVE \<and> ei_resolvedAt i = Some 1000 \<and> \<not> incident_inv (snd r)"
  by code_simp

lemma resolve_closes_one_witness:
  "incident_inv (snd (resolveEmergency 9 \<lparr>re_status = None, re_resolutionNote = None\<rparr> (demo IN_PROGRESS)))"
  using resolve_closes_one [OF demo_incident_inv _ prod.collapse [symmetric]] by simp

end
