(* ===== verification/Stats.thy ===== *)
theory Stats
  imports RideLifecycle DriverRules
begin

text \<open>
  \<open>src/stats/stats.service.ts\<close>: the figures of the marketing page and of the admin dashboard,
  computed from the tables.

  The reporting time zone and the clock of the server and the database session are the
  configuration \<open>statsConfig\<close>: the UTC offset that \<open>Intl\<close> knows for the zone at each instant (in
  milliseconds; \<open>None\<close> for a zone \<open>Intl\<close> does not know), and the fixed offsets of the server's and
  the session's zone. An average is taken exactly and rounded to a double once; Postgres computes
  it to at least sixteen digits, which rounds to the same two decimals.
\<close>

section \<open>Helpers\<close>

record statsConfig =
  sc_zone :: "(date \<Rightarrow> int) option"
  sc_serverOffset :: int
  sc_dbOffset :: int

definition money :: "num option \<Rightarrow> num" where
  "money value =
     (let parsed = (case value of None \<Rightarrow> 0 | Some v \<Rightarrow> v)
      in js_div (of_int (js_round (js_mul parsed 100))) 100)"

definition roundDownToMilestone :: "nat \<Rightarrow> nat" where
  "roundDownToMilestone value =
     (if value < 100 then value
      else if value < 1000 then value div 100 * 100
      else if value < 10000 then value div 1000 * 1000
      else value div 10000 * 10000)"

definition ratio :: "nat \<Rightarrow> nat \<Rightarrow> num" where
  "ratio part whole =
     (if whole = 0 then 0
      else js_div (of_int (js_round (js_mul (js_div (of_nat part) (of_nat whole)) 1000))) 10)"

definition IN_FLIGHT :: "RideStatus list" where
  "IN_FLIGHT = [ACCEPTED, ARRIVED, IN_PROGRESS]"

section \<open>Time windows\<close>

definition DAY :: int where
  "DAY = 86400000"

text \<open>
  \<open>offsetAt\<close>: the wall-clock fields of the instant, which \<open>formatToParts\<close> gives to the second, read
  back as UTC.
\<close>

definition offsetAt :: "(date \<Rightarrow> int) \<Rightarrow> date \<Rightarrow> int" where
  "offsetAt off instant = (instant + off instant) div 1000 * 1000 - instant"

definition serverMidnight :: "int \<Rightarrow> date \<Rightarrow> date" where
  "serverMidnight offset t = t - (t + offset) mod DAY"

definition startOfDayIn :: "statsConfig \<Rightarrow> date \<Rightarrow> date" where
  "startOfDayIn cfg t =
     (case sc_zone cfg of
        None \<Rightarrow> serverMidnight (sc_serverOffset cfg) t
      | Some off \<Rightarrow>
          let localMidnightAsUtc = (t + off t) div DAY * DAY;
              firstGuess = localMidnightAsUtc - offsetAt off localMidnightAsUtc
          in localMidnightAsUtc - offsetAt off firstGuess)"

record Windows =
  startOfToday :: date
  sevenDaysAgo :: date
  thirtyDaysAgo :: date

definition windows :: "statsConfig \<Rightarrow> date \<Rightarrow> Windows" where
  "windows cfg t = \<lparr>startOfToday = startOfDayIn cfg t, sevenDaysAgo = t - 7 * DAY,
     thirtyDaysAgo = t - 30 * DAY\<rparr>"

section \<open>Query helpers\<close>

text \<open>\<open>COUNT(*) GROUP BY\<close>: the keys that occur, each with the number of its rows.\<close>

definition groupCount :: "('e \<Rightarrow> 'k) \<Rightarrow> 'e list \<Rightarrow> ('k \<times> nat) list" where
  "groupCount f rows' = map (\<lambda>k. (k, count_list (map f rows') k)) (remdups (map f rows'))"

definition lookup0 :: "('k \<times> nat) list \<Rightarrow> 'k \<Rightarrow> nat" where
  "lookup0 m k = (case map_of m k of None \<Rightarrow> 0 | Some n \<Rightarrow> n)"

definition sumLedger ::
  "LedgerEntryType option \<Rightarrow> StakeholderType option \<Rightarrow> LedgerEntryStatus option \<Rightarrow> date option \<Rightarrow> sys \<Rightarrow> num" where
  "sumLedger ty stakeholder status since s =
     money (Some (num_of_dec (sumAmount (\<lambda>e.
       (case ty of None \<Rightarrow> True | Some x \<Rightarrow> le_type e = x) \<and>
       (case stakeholder of None \<Rightarrow> True | Some x \<Rightarrow> le_stakeholderType e = x) \<and>
       le_status e = (case status of None \<Rightarrow> L_COMPLETED | Some x \<Rightarrow> x) \<and>
       (case since of None \<Rightarrow> True | Some t \<Rightarrow> t \<le> le_createdAt e)) s)))"

definition countSince :: "date \<Rightarrow> sys \<Rightarrow> nat" where
  "countSince from' s = length (filter (\<lambda>r. from' \<le> r_createdAt r) (rides s))"

definition topLocations :: "(Ride \<Rightarrow> Location) \<Rightarrow> nat \<Rightarrow> sys \<Rightarrow> (string \<times> nat) list" where
  "topLocations field limit s =
     take limit (sort_key (\<lambda>(_, n). - int n) (groupCount (l_address \<circ> field) (rides s)))"

definition hourOf :: "statsConfig \<Rightarrow> date \<Rightarrow> nat" where
  "hourOf cfg t = nat ((t + sc_dbOffset cfg) div 3600000 mod 24)"

definition ridesByHour :: "statsConfig \<Rightarrow> sys \<Rightarrow> (nat \<times> nat) list" where
  "ridesByHour cfg s =
     (let counts = groupCount (\<lambda>r. hourOf cfg (r_requestedAt r)) (rides s)
      in map (\<lambda>hour. (hour, lookup0 counts hour)) [0..<24])"

definition minutesBetween :: "date \<Rightarrow> date \<Rightarrow> rat" where
  "minutesBetween a b = of_int (b - a) / 60000"

definition average :: "rat list \<Rightarrow> num" where
  "average xs = (if xs = [] then 0 else fl (sum_list xs / of_nat (length xs)))"

definition completedTimes :: "sys \<Rightarrow> (date \<times> date \<times> date \<times> date option) list" where
  "completedTimes s = List.map_filter
     (\<lambda>r. if r_status r = COMPLETED
       then (case (r_acceptedAt r, r_startedAt r) of
               (Some a, Some b) \<Rightarrow> Some (r_requestedAt r, a, b, r_completedAt r)
             | _ \<Rightarrow> None)
       else None) (rides s)"

definition averageRideMinutes :: "sys \<Rightarrow> num \<times> num" where
  "averageRideMinutes s =
     (money (Some (average (map (\<lambda>(q, a, b, c). minutesBetween q a) (completedTimes s)))),
      money (Some (average (List.map_filter (\<lambda>(q, a, b, c). map_option (minutesBetween b) c)
        (completedTimes s)))))"

definition dayOf :: "statsConfig \<Rightarrow> date \<Rightarrow> int" where
  "dayOf cfg t = (t + sc_dbOffset cfg) div DAY"

text \<open>
  The commission per calendar day of the database session, from the server's midnight \<open>days\<close> days
  ago. The day is kept as its number since 1970; the code prints it as \<open>YYYY-MM-DD\<close>.
\<close>

definition platformRevenueByDay :: "statsConfig \<Rightarrow> int \<Rightarrow> sys \<Rightarrow> (int \<times> num) list" where
  "platformRevenueByDay cfg days s =
     (let from' = serverMidnight (sc_serverOffset cfg) (now s - days * DAY);
          entries = filter (\<lambda>e. le_stakeholderType e = S_PLATFORM \<and> le_status e = L_COMPLETED \<and>
            from' \<le> le_createdAt e) (ledger s)
      in map (\<lambda>d. (d, money (Some (num_of_dec (sum_list (map le_amount
             (filter (\<lambda>e. dayOf cfg (le_createdAt e) = d) entries)))))))
           (sort (remdups (map (\<lambda>e. dayOf cfg (le_createdAt e)) entries))))"

definition fareValue :: "RideStatus list \<Rightarrow> sys \<Rightarrow> num" where
  "fareValue statuses s =
     money (Some (num_of_dec (sum_list (map (\<lambda>r. case r_estimatedFare r of None \<Rightarrow> 0 | Some k \<Rightarrow> k)
       (filter (\<lambda>r. r_status r \<in> set statuses) (rides s))))))"

definition inFlightFareValue :: "sys \<Rightarrow> num" where
  "inFlightFareValue s = fareValue IN_FLIGHT s"

definition cancelledFareValue :: "sys \<Rightarrow> num" where
  "cancelledFareValue s = fareValue [CANCELLED] s"

definition driversByVerification :: "sys \<Rightarrow> (VerificationStatus \<times> nat) list" where
  "driversByVerification s =
     map (\<lambda>st. (st, lookup0 (groupCount d_verificationStatus (drivers s)) st))
       [VS_PENDING, VS_APPROVED, VS_REJECTED]"

definition vehiclesByType :: "sys \<Rightarrow> (VehicleType \<times> nat) list" where
  "vehiclesByType s =
     map (\<lambda>ty. (ty, lookup0 (groupCount v_type (filter v_isActive (vehicles s))) ty))
       [V_KEKE, V_BIKE, V_CAR, V_COURIER]"

record TopEarner =
  ea_driverId :: uuid
  ea_name :: string
  ea_earnings :: num
  ea_completedRides :: nat

definition driverFares :: "uuid \<Rightarrow> sys \<Rightarrow> LedgerEntry list" where
  "driverFares i s = filter (\<lambda>e. le_type e = RIDE_FARE_DRIVER \<and> le_status e = L_COMPLETED \<and>
     le_stakeholderId e = Some i) (ledger s)"

definition earnerIds :: "sys \<Rightarrow> uuid list" where
  "earnerIds s = remdups (List.map_filter
     (\<lambda>e. if le_type e = RIDE_FARE_DRIVER \<and> le_status e = L_COMPLETED then le_stakeholderId e else None)
     (ledger s))"

definition topEarningDrivers :: "nat \<Rightarrow> sys \<Rightarrow> TopEarner list" where
  "topEarningDrivers limit s =
     map (\<lambda>i. \<lparr>ea_driverId = i,
           ea_name = (case findDriver i s of None \<Rightarrow> ''Unknown driver'' | Some d \<Rightarrow> d_name d),
           ea_earnings = money (Some (num_of_dec (sum_list (map le_amount (driverFares i s))))),
           ea_completedRides = length (driverFares i s)\<rparr>)
       (take limit (sort_key (\<lambda>i. - sum_list (map le_amount (driverFares i s))) (earnerIds s)))"

section \<open>The endpoints\<close>

record PublicStats =
  ps_completedRides :: nat
  ps_activeDrivers :: nat
  ps_riders :: nat
  ps_coverageAreas :: nat
  ps_vehicleTypesOffered :: "VehicleType list"
  ps_rideCategoriesOffered :: "RideCategory list"

definition distinctPickupAreas :: "sys \<Rightarrow> nat" where
  "distinctPickupAreas s = length (remdups (map (l_address \<circ> r_pickup) (rides s)))"

definition getPublicStats :: "sys \<Rightarrow> PublicStats" where
  "getPublicStats s =
     \<lparr>ps_completedRides =
        roundDownToMilestone (length (filter (\<lambda>r. r_status r = COMPLETED) (rides s))),
      ps_activeDrivers = roundDownToMilestone
        (length (filter (\<lambda>d. d_verificationStatus d = VS_APPROVED \<and> d_isActive d) (drivers s))),
      ps_riders = roundDownToMilestone (length (users s)),
      ps_coverageAreas = distinctPickupAreas s,
      ps_vehicleTypesOffered = [V_KEKE, V_BIKE, V_CAR, V_COURIER],
      ps_rideCategoriesOffered = [PRIVATE, SHARED, OKADA, CAR]\<rparr>"

record Dashboard =
  da_totalUsers :: nat
  da_totalDrivers :: nat
  da_totalRides :: nat
  da_activeRides :: nat
  da_unassignedRides :: nat
  da_completedRidesToday :: nat
  da_newUsersThisWeek :: nat
  da_newDriversThisWeek :: nat
  da_platformRevenue :: num
  da_pendingPayouts :: num

definition getDashboard :: "statsConfig \<Rightarrow> sys \<Rightarrow> Dashboard" where
  "getDashboard cfg s =
     (let w = windows cfg (now s)
      in \<lparr>da_totalUsers = length (users s), da_totalDrivers = length (drivers s),
          da_totalRides = length (rides s),
          da_activeRides = length (filter (\<lambda>r. r_status r \<in> set IN_FLIGHT) (rides s)),
          da_unassignedRides = length (filter (\<lambda>r. r_status r = REQUESTED) (rides s)),
          da_completedRidesToday = length (filter (\<lambda>r. r_status r = COMPLETED \<and>
            (case r_completedAt r of None \<Rightarrow> False | Some t \<Rightarrow> startOfToday w \<le> t)) (rides s)),
          da_newUsersThisWeek = length (filter (\<lambda>u. sevenDaysAgo w \<le> u_createdAt u) (users s)),
          da_newDriversThisWeek = length (filter (\<lambda>d. sevenDaysAgo w \<le> d_createdAt d) (drivers s)),
          da_platformRevenue = sumLedger None (Some S_PLATFORM) None None s,
          da_pendingPayouts = \<bar>sumLedger (Some DRIVER_PAYOUT_LINKPAY) None (Some L_PENDING) None s\<bar>\<rparr>)"

record RideStats =
  rs_totalRides :: nat
  rs_ridesByStatus :: "(RideStatus \<times> nat) list"
  rs_ridesByCategory :: "(RideCategory \<times> nat) list"
  rs_ridesByOriginChannel :: "(RideOriginChannel \<times> nat) list"
  rs_completedRides :: nat
  rs_cancelledRides :: nat
  rs_cancellationRate :: num
  rs_totalDistanceKm :: num
  rs_averageDistanceKm :: num
  rs_ridesToday :: nat
  rs_ridesLast7Days :: nat
  rs_ridesLast30Days :: nat
  rs_ridesByHour :: "(nat \<times> nat) list"
  rs_topPickupLocations :: "(string \<times> nat) list"
  rs_topDropoffLocations :: "(string \<times> nat) list"
  rs_averageWaitMinutes :: num
  rs_averageTripMinutes :: num

definition completedDistances :: "sys \<Rightarrow> dec2 list" where
  "completedDistances s =
     List.map_filter r_distanceKm (filter (\<lambda>r. r_status r = COMPLETED) (rides s))"

definition getRideStats :: "statsConfig \<Rightarrow> sys \<Rightarrow> RideStats" where
  "getRideStats cfg s =
     (let w = windows cfg (now s);
          byStatus = groupCount r_status (rides s);
          completed = lookup0 byStatus COMPLETED;
          cancelled = lookup0 byStatus CANCELLED;
          km = completedDistances s;
          duration = averageRideMinutes s
      in \<lparr>rs_totalRides = sum_list (map snd byStatus), rs_ridesByStatus = byStatus,
          rs_ridesByCategory = groupCount r_category (rides s),
          rs_ridesByOriginChannel = groupCount r_originChannel (rides s),
          rs_completedRides = completed, rs_cancelledRides = cancelled,
          rs_cancellationRate = ratio cancelled (completed + cancelled),
          rs_totalDistanceKm = money (Some (num_of_dec (sum_list km))),
          rs_averageDistanceKm = money (Some (average (map (\<lambda>k. of_int k / 100) km))),
          rs_ridesToday = countSince (startOfToday w) s,
          rs_ridesLast7Days = countSince (sevenDaysAgo w) s,
          rs_ridesLast30Days = countSince (thirtyDaysAgo w) s,
          rs_ridesByHour = ridesByHour cfg s,
          rs_topPickupLocations = topLocations r_pickup 10 s,
          rs_topDropoffLocations = topLocations r_dropoff 10 s,
          rs_averageWaitMinutes = fst duration, rs_averageTripMinutes = snd duration\<rparr>)"

record RevenueStats =
  rv_platformRevenue :: num
  rv_platformRevenueToday :: num
  rv_platformRevenueLast7Days :: num
  rv_platformRevenueLast30Days :: num
  rv_driverEarnings :: num
  rv_riderCashback :: num
  rv_grossSettledFare :: num
  rv_fuelSupportDisbursed :: num
  rv_driverPayouts :: num
  rv_pendingFareValue :: num
  rv_cancelledFareValue :: num
  rv_platformRevenueByDay :: "(int \<times> num) list"

definition getRevenueStats :: "statsConfig \<Rightarrow> sys \<Rightarrow> RevenueStats" where
  "getRevenueStats cfg s =
     (let w = windows cfg (now s);
          platform = sumLedger None (Some S_PLATFORM) None None s;
          driverEarnings = sumLedger (Some RIDE_FARE_DRIVER) None None None s;
          cashback = sumLedger (Some RIDE_FARE_RIDER_CASHBACK) None None None s;
          payouts = sumLedger (Some DRIVER_PAYOUT_LINKPAY) None None None s
      in \<lparr>rv_platformRevenue = platform,
          rv_platformRevenueToday = sumLedger None (Some S_PLATFORM) None (Some (startOfToday w)) s,
          rv_platformRevenueLast7Days = sumLedger None (Some S_PLATFORM) None (Some (sevenDaysAgo w)) s,
          rv_platformRevenueLast30Days = sumLedger None (Some S_PLATFORM) None (Some (thirtyDaysAgo w)) s,
          rv_driverEarnings = driverEarnings, rv_riderCashback = cashback,
          rv_grossSettledFare = money (Some (js_add (js_add platform driverEarnings) cashback)),
          rv_fuelSupportDisbursed = sumLedger (Some DRIVER_FUEL_SUPPORT_MFB) None None None s,
          rv_driverPayouts = \<bar>payouts\<bar>, rv_pendingFareValue = inFlightFareValue s,
          rv_cancelledFareValue = cancelledFareValue s,
          rv_platformRevenueByDay = platformRevenueByDay cfg 30 s\<rparr>)"

record DriverStats =
  dr_totalDrivers :: nat
  dr_driversByVerificationStatus :: "(VerificationStatus \<times> nat) list"
  dr_onlineNow :: nat
  dr_approvedDrivers :: nat
  dr_approvedButOffline :: nat
  dr_vehiclesByType :: "(VehicleType \<times> nat) list"
  dr_topEarningDrivers :: "TopEarner list"

definition getDriverStats :: "sys \<Rightarrow> DriverStats" where
  "getDriverStats s =
     (let online = length (filter (\<lambda>d. d_isOnline d \<and> d_isActive d) (drivers s));
          approvedTotal = length (filter (\<lambda>d. d_verificationStatus d = VS_APPROVED) (drivers s))
      in \<lparr>dr_totalDrivers = length (drivers s),
          dr_driversByVerificationStatus = driversByVerification s,
          dr_onlineNow = online, dr_approvedDrivers = approvedTotal,
          dr_approvedButOffline = nat (max (int approvedTotal - int online) 0),
          dr_vehiclesByType = vehiclesByType s,
          dr_topEarningDrivers = topEarningDrivers 10 s\<rparr>)"

end
