(* ===== verification/StatsRules.thy ===== *)
theory StatsRules
  imports Stats
begin

text \<open>
  What the figures of \<open>stats.service.ts\<close> mean: the day starts at local midnight, the revenue
  figures add up to the settled fares, the counts partition the tables.
\<close>

section \<open>The start of the day\<close>

lemma offsetAt_whole:
  assumes "1000 dvd t" "1000 dvd off t"
  shows "offsetAt off t = off t"
  using assms by (simp add: offsetAt_def dvd_div_mult_self)

text \<open>A zone with one change of its offset, from \<open>a\<close> to \<open>b\<close> at the instant \<open>T\<close>.\<close>

definition zone_change :: "int \<Rightarrow> int \<Rightarrow> date \<Rightarrow> date \<Rightarrow> int" where
  "zone_change a b T t = (if t < T then a else b)"

text \<open>For every instant and every zone whose offset changes once, whichever way and by however
  much, the day of the instant starts where its local clock shows midnight, provided there is such
  an instant at all; and it is the beginning of the local date of the given instant.\<close>

theorem startOfDay_is_local_midnight:
  assumes "1000 dvd a" "1000 dvd b" and off: "off = zone_change a b T"
    and zone: "sc_zone cfg = Some off"
    and exists: "\<exists>r. r + off r = (t + off t) div DAY * DAY"
  shows "startOfDayIn cfg t + off (startOfDayIn cfg t) = (t + off t) div DAY * DAY"
proof -
  define M where "M = (t + off t) div DAY * DAY"
  have M: "1000 dvd M" unfolding M_def DAY_def by simp
  have offs: "1000 dvd off x" for x using assms(1,2) by (simp add: off zone_change_def)
  have 1: "offsetAt off M = off M" using M offs by (rule offsetAt_whole)
  have 2: "offsetAt off (M - off M) = off (M - off M)"
    using M offs [of M] offs [of "M - off M"] by (intro offsetAt_whole) simp_all
  have "startOfDayIn cfg t = M - off (M - off M)"
    by (simp add: startOfDayIn_def zone Let_def M_def [symmetric] 1 2)
  moreover obtain r where "r + off r = M" using exists M_def by blast
  ultimately have "startOfDayIn cfg t + off (startOfDayIn cfg t) = M"
    unfolding off zone_change_def by (auto split: if_splits)
  then show ?thesis unfolding M_def .
qed

text \<open>In a zone whose clocks go forward at midnight, as those of Havana or Beirut do, the day of
  the change has no local midnight, and the computed start of the day lies an hour before the change,
  at eleven in the evening of the day before, although the comment says that a transition day comes
  out right.\<close>

theorem day_starts_early_in_gap:
  "let cfg = \<lparr>sc_zone = Some (zone_change (- 5 * 3600000) (- 4 * 3600000) (5 * 3600000)),
         sc_serverOffset = 0, sc_dbOffset = 0\<rparr>
   in startOfDayIn cfg (12 * 3600000) = 4 * 3600000"
  by code_simp

section \<open>Revenue\<close>

lemma money_num_of_dec:
  assumes "\<bar>k\<bar> \<le> 10 ^ 13"
  shows "money (Some (num_of_dec k)) = num_of_dec k"
  using toKobo_num_of_dec [OF assms] toNaira_of_int [of k]
  by (simp add: money_def toKobo_def toNaira_def)

lemma money_near:
  assumes "near (1/4) x k" "\<bar>k\<bar> \<le> 10 ^ 13"
  shows "money (Some x) = num_of_dec k"
  using toKobo_near [OF assms] toNaira_of_int [of k] by (simp add: money_def toKobo_def toNaira_def)

text \<open>
  Besides the fares of the rides the ledger holds what the wallet wrote: entries of drivers
  without a ride.
\<close>

definition walletEntry :: "LedgerEntry \<Rightarrow> bool" where
  "walletEntry e \<longleftrightarrow> le_rideId e = None \<and> le_stakeholderType e = S_DRIVER \<and>
     (le_type e = DRIVER_FUEL_SUPPORT_MFB \<or> le_type e = DRIVER_PAYOUT_LINKPAY)"

definition fare_ledger :: "sys \<Rightarrow> bool" where
  "fare_ledger s \<longleftrightarrow> (\<forall>e\<in>set (ledger s). walletEntry e \<or>
     (\<exists>r\<in>set (rides s). le_rideId e = Some (r_id r)))"

lemma fare_ledger_step:
  assumes "ride_step s s'" "wf_sys s" "fare_ledger s"
  shows "fare_ledger s'"
proof -
  have grow: "fare_ledger s'" if "\<forall>r\<in>set (rides s). \<exists>r'\<in>set (rides s'). r_id r' = r_id r"
      "\<forall>e\<in>set (ledger s'). e \<in> set (ledger s) \<or> (\<exists>r\<in>set (rides s). le_rideId e = Some (r_id r))"
    using assms(3) that unfolding fare_ledger_def by metis
  have save: "\<exists>x\<in>set (rides (saveRide q s)). r_id x = r_id y"
    if "findRide i s = Some r" "r_id q = i" "y \<in> set (rides s)" for i r q y
    using rides_saveRide [OF that(1,2)] that(2,3) by (cases "r_id y = i") auto
  from assms(1,2) show ?thesis
  proof (cases rule: ride_step_cases)
    case none
    then show ?thesis using assms(3) by (simp add: fare_ledger_def same_tables_def)
  next
    case (created dto km fare)
    then show ?thesis by (intro grow) auto
  next
    case (changed i r r')
    have "r_id r' = i" using ride_change_facts(1) [OF changed(2)] wf_findRide(2) [OF assms(2) changed(1)] by simp
    then show ?thesis using changed(3) save [OF changed(1)]
      by (intro grow) (auto simp: same_tables_def saveRide_frame)
  next
    case (completed i r driverId d u n rows)
    note r = wf_findRide(1,2) [OF assms(2) completed(1)]
    have "r_id (completedRide (now s) r) = i" using r(2) by (simp add: completedRide_def)
    moreover have "\<forall>e\<in>set rows. le_rideId e = Some (r_id r)"
      using completed(9) by (auto simp: fareRows_def fareRow_def)
    ultimately show ?thesis using completed(11) save [OF completed(1)] r(1)
      by (intro grow) (auto simp: same_tables_def)
  qed
qed

lemma reachable_fare_ledger:
  assumes "ride_step\<^sup>*\<^sup>* s0 s" "service_start s0" "fare_ledger s0"
  shows "fare_ledger s"
  using assms(1)
proof (induction rule: rtranclp_induct)
  case (step y z)
  have "wf_sys y" using reachable_life_inv [OF step(1) assms(2)] by (simp add: life_inv_def)
  then show ?case using fare_ledger_step step by blast
qed (rule assms(3))

definition settledFares :: "sys \<Rightarrow> int" where
  "settledFares s = sum_list (map (\<lambda>r. if r_status r = COMPLETED then fareOf (r_finalFare r) else 0) (rides s))"

lemma sum_owner:
  fixes c :: int
  assumes "distinct (map ident rs)"
  shows "sum_list (map (\<lambda>r. if q = Some (ident r) then c else 0) rs) =
    (if \<exists>r\<in>set rs. q = Some (ident r) then c else 0)"
  using assms
proof (induction rs)
  case (Cons r rs)
  have "\<not> (\<exists>x\<in>set rs. q = Some (ident x))" if "q = Some (ident r)"
    using that Cons.prems by (auto simp: image_iff)
  then show ?case using Cons by auto
qed simp

lemma sum_by_owner:
  fixes g :: "'e \<Rightarrow> int"
  assumes "distinct (map ident rs)"
  shows "sum_list (map (\<lambda>e. if \<exists>r\<in>set rs. owner e = Some (ident r) then g e else 0) es) =
    sum_list (map (\<lambda>r. sum_list (map g (filter (\<lambda>e. owner e = Some (ident r)) es))) rs)"
proof (induction es)
  case (Cons e es)
  have "sum_list (map (\<lambda>r. sum_list (map g (filter (\<lambda>e. owner e = Some (ident r)) (e # es)))) rs) =
      sum_list (map (\<lambda>r. (if owner e = Some (ident r) then g e else 0) +
        sum_list (map g (filter (\<lambda>e. owner e = Some (ident r)) es))) rs)"
    by (intro arg_cong [where f = sum_list] map_cong) auto
  then show ?case using Cons sum_owner [OF assms, of "owner e" "g e"] by (simp add: sum_list_addf)
qed simp

text \<open>Which of the three figures an entry counts in.\<close>

definition isPlatform :: "LedgerEntry \<Rightarrow> bool" where
  "isPlatform e \<longleftrightarrow> le_stakeholderType e = S_PLATFORM \<and> le_status e = L_COMPLETED"

definition isFare :: "LedgerEntryType \<Rightarrow> LedgerEntry \<Rightarrow> bool" where
  "isFare ty e \<longleftrightarrow> le_type e = ty \<and> le_status e = L_COMPLETED"

lemma three_figures:
  assumes "life_inv s" "fare_ledger s" "e \<in> set (ledger s)"
  shows "(if isPlatform e then le_amount e else 0) + (if isFare RIDE_FARE_DRIVER e then le_amount e else 0) +
      (if isFare RIDE_FARE_RIDER_CASHBACK e then le_amount e else 0) =
    (if \<exists>r\<in>set (rides s). le_rideId e = Some (r_id r) then le_amount e else 0)"
proof (cases "walletEntry e")
  case True
  then show ?thesis by (auto simp: walletEntry_def isPlatform_def isFare_def)
next
  case False
  then obtain r where r: "r \<in> set (rides s)" "le_rideId e = Some (r_id r)"
    using assms(2,3) by (auto simp: fare_ledger_def)
  then have mem: "e \<in> set (entriesOf (r_id r) s)" using assms(3) by (simp add: entriesOf_def)
  have "paid_ok r (entriesOf (r_id r) s)" using assms(1) r(1) by (simp add: life_inv_def)
  then obtain t d where "fareRows t r d (fareOf (r_finalFare r)) (entriesOf (r_id r) s)"
    using mem by (auto simp: paid_ok_def split: if_splits)
  then have "(isPlatform e \<and> \<not> isFare RIDE_FARE_DRIVER e \<and> \<not> isFare RIDE_FARE_RIDER_CASHBACK e) \<or>
      (\<not> isPlatform e \<and> isFare RIDE_FARE_DRIVER e \<and> \<not> isFare RIDE_FARE_RIDER_CASHBACK e) \<or>
      (\<not> isPlatform e \<and> \<not> isFare RIDE_FARE_DRIVER e \<and> isFare RIDE_FARE_RIDER_CASHBACK e)"
    using mem by (auto simp: fareRows_def fareRow_def isPlatform_def isFare_def)
  then show ?thesis using r by auto
qed

lemma ride_entries_sum:
  assumes "life_inv s" "r \<in> set (rides s)"
  shows "sum_list (map le_amount (entriesOf (r_id r) s)) =
    (if r_status r = COMPLETED then fareOf (r_finalFare r) else 0)"
proof -
  have "paid_ok r (entriesOf (r_id r) s)" using assms by (simp add: life_inv_def)
  then show ?thesis
    by (auto simp: paid_ok_def fareRows_def fareRow_def platform_part_def split: if_splits)
qed

lemma figures_sum:
  assumes "life_inv s" "fare_ledger s"
  shows "sumAmount isPlatform s + sumAmount (isFare RIDE_FARE_DRIVER) s +
    sumAmount (isFare RIDE_FARE_RIDER_CASHBACK) s = settledFares s"
proof -
  have "distinct (map r_id (rides s))" using assms(1) wf_distinct by (simp add: life_inv_def)
  note by_owner = sum_by_owner [OF this, of le_rideId le_amount "ledger s"]
  have "sumAmount isPlatform s + sumAmount (isFare RIDE_FARE_DRIVER) s +
      sumAmount (isFare RIDE_FARE_RIDER_CASHBACK) s =
    sum_list (map (\<lambda>e. if \<exists>r\<in>set (rides s). le_rideId e = Some (r_id r) then le_amount e else 0) (ledger s))"
    unfolding sumAmount_def sum_list_addf [symmetric]
    by (intro arg_cong [where f = sum_list] map_cong refl three_figures [OF assms])
  also have "\<dots> = settledFares s"
    unfolding by_owner settledFares_def
    by (intro arg_cong [where f = sum_list] map_cong refl)
      (use ride_entries_sum [OF assms(1)] in \<open>simp add: entriesOf_def\<close>)
  finally show ?thesis .
qed

lemma figures_nonneg:
  assumes "life_inv s" "fare_ledger s" "\<forall>r\<in>set (rides s). 0 \<le> fareOf (r_finalFare r)"
    and "e \<in> set (ledger s)" "isPlatform e \<or> isFare RIDE_FARE_DRIVER e \<or> isFare RIDE_FARE_RIDER_CASHBACK e"
  shows "0 \<le> le_amount e"
proof -
  have "\<not> walletEntry e" using assms(5) by (auto simp: walletEntry_def isPlatform_def isFare_def)
  then obtain r where r: "r \<in> set (rides s)" "le_rideId e = Some (r_id r)"
    using assms(2,4) by (auto simp: fare_ledger_def)
  then have mem: "e \<in> set (entriesOf (r_id r) s)" using assms(4) by (simp add: entriesOf_def)
  have "paid_ok r (entriesOf (r_id r) s)" using assms(1) r(1) by (simp add: life_inv_def)
  then obtain t d where f: "fareRows t r d (fareOf (r_finalFare r)) (entriesOf (r_id r) s)"
    using mem by (auto simp: paid_ok_def split: if_splits)
  have "fareColumnsOk r" using assms(1) r(1) by (auto simp: life_inv_def wf_defs)
  then have "fareOf (r_finalFare r) \<le> 10 ^ 12"
    by (auto simp: fareColumnsOk_def fareOf_def fits_decimal_def split: option.splits)
  then show ?thesis using f mem parts_nonneg [of "fareOf (r_finalFare r)"] assms(3) r(1)
    by (auto simp: fareRows_def fareRow_def)
qed

lemma sumAmount_nonneg:
  assumes "\<And>e. e \<in> set (ledger s) \<Longrightarrow> P e \<Longrightarrow> 0 \<le> le_amount e"
  shows "0 \<le> sumAmount P s"
  unfolding sumAmount_def using assms by (intro sum_list_nonneg) auto

text \<open>C33: The revenue figures reconcile with the rides: in every state the ride service reaches, whatever
  wallet entries are in the ledger, commission, driver earnings and cashback are exact sums of their
  entries, and the gross figure, computed from the three in floating point, is exactly the total of
  the final fares of the completed rides.\<close>

theorem revenue_reconciles:
  assumes "service_start s0" "fare_ledger s0" "ride_step\<^sup>*\<^sup>* s0 s"
    and "\<forall>r\<in>set (rides s). 0 \<le> fareOf (r_finalFare r)" "settledFares s \<le> 10 ^ 13"
  shows "rv_grossSettledFare (getRevenueStats cfg s) = num_of_dec (settledFares s) \<and>
    rv_platformRevenue (getRevenueStats cfg s) = getPlatformRevenue s \<and>
    rv_driverEarnings (getRevenueStats cfg s) = num_of_dec (sumAmount (isFare RIDE_FARE_DRIVER) s)"
proof -
  have inv: "life_inv s" using reachable_life_inv assms(1,3) by blast
  have fl: "fare_ledger s" using reachable_fare_ledger assms(1-3) by blast
  define a b c where "a = sumAmount isPlatform s" and "b = sumAmount (isFare RIDE_FARE_DRIVER) s"
    and "c = sumAmount (isFare RIDE_FARE_RIDER_CASHBACK) s"
  have sum: "a + b + c = settledFares s" using figures_sum [OF inv fl] by (simp add: a_def b_def c_def)
  have pos: "0 \<le> a" "0 \<le> b" "0 \<le> c"
    unfolding a_def b_def c_def using figures_nonneg [OF inv fl assms(4)] by (auto intro!: sumAmount_nonneg)
  then have small: "\<bar>a\<bar> \<le> 10 ^ 13" "\<bar>b\<bar> \<le> 10 ^ 13" "\<bar>c\<bar> \<le> 10 ^ 13" "\<bar>a + b\<bar> \<le> 10 ^ 13" "\<bar>a + b + c\<bar> \<le> 10 ^ 13"
    using sum assms(5) by linarith+
  have figures: "sumLedger None (Some S_PLATFORM) None None s = num_of_dec a"
    "sumLedger (Some RIDE_FARE_DRIVER) None None None s = num_of_dec b"
    "sumLedger (Some RIDE_FARE_RIDER_CASHBACK) None None None s = num_of_dec c"
    using small by (simp_all add: sumLedger_def money_num_of_dec a_def b_def c_def isPlatform_def [abs_def] isFare_def [abs_def])
  have "near (1/4) (js_add (js_add (num_of_dec a) (num_of_dec b)) (num_of_dec c)) (a + b + c)"
    by (rule near_mono [OF near_add [OF near_add [OF num_of_dec_near num_of_dec_near] num_of_dec_near]])
      (use small in simp_all)
  then have "money (Some (js_add (js_add (num_of_dec a) (num_of_dec b)) (num_of_dec c))) = num_of_dec (a + b + c)"
    using small(5) by (rule money_near)
  moreover have "getPlatformRevenue s = num_of_dec a"
    by (simp add: getPlatformRevenue_def a_def isPlatform_def [abs_def])
  ultimately show ?thesis
    by (simp add: getRevenueStats_def Let_def figures sum b_def [symmetric])
qed


lemma startOfDay_is_local_midnight_witness:
  "let cfg = \<lparr>sc_zone = Some (zone_change 3600000 3600000 0), sc_serverOffset = 0, sc_dbOffset = 0\<rparr>
   in startOfDayIn cfg 123456789 + 3600000 = (123456789 + 3600000) div DAY * DAY"
proof -
  let ?cfg = "\<lparr>sc_zone = Some (zone_change 3600000 3600000 0), sc_serverOffset = 0, sc_dbOffset = 0\<rparr>"
  have off: "zone_change 3600000 3600000 0 t = 3600000" for t by (simp add: zone_change_def)
  have "\<exists>r. r + zone_change 3600000 3600000 0 r =
      (123456789 + zone_change 3600000 3600000 0 123456789) div DAY * DAY"
    unfolding off by (rule exI [of _ "(123456789 + 3600000) div DAY * DAY - 3600000"]) simp
  then have "startOfDayIn ?cfg 123456789 + zone_change 3600000 3600000 0 (startOfDayIn ?cfg 123456789) =
      (123456789 + zone_change 3600000 3600000 0 123456789) div DAY * DAY"
    by (intro startOfDay_is_local_midnight [where a = 3600000 and b = 3600000 and T = 0]) simp_all
  then show ?thesis unfolding off by simp
qed

lemma revenue_reconciles_witness:
  "rv_grossSettledFare (getRevenueStats \<lparr>sc_zone = None, sc_serverOffset = 0, sc_dbOffset = 0\<rparr> demoDone) =
     num_of_dec 25000"
proof -
  obtain r where r: "rides demoDone = [r]" "r_status r = COMPLETED" "r_finalFare r = Some 25000"
    using demoDone_rides by blast
  have "settledFares demoDone = 25000" using r by (simp add: settledFares_def fareOf_def)
  moreover have "fare_ledger demoStart" by (simp add: fare_ledger_def demoStart_def)
  ultimately show ?thesis
    using revenue_reconciles [OF demoStart_ok _ demoDone_reachable] r by (simp add: fareOf_def)
qed

section \<open>Counts\<close>

lemma lookup0_groupCount: "lookup0 (groupCount f xs) k = count_list (map f xs) k"
proof (cases "k \<in> f ` set xs")
  case True
  then show ?thesis by (simp add: lookup0_def groupCount_def map_of_map_restrict restrict_map_def)
next
  case False
  then show ?thesis by (simp add: lookup0_def groupCount_def map_of_map_restrict restrict_map_def count_list_0_iff)
qed

lemma sum_count_list:
  "distinct ks \<Longrightarrow> set xs \<subseteq> set ks \<Longrightarrow> sum_list (map (count_list xs) ks) = length xs"
proof (induction xs)
  case (Cons x xs)
  have "sum_list (map (count_list (x # xs)) ks) =
      sum_list (map (\<lambda>k. (if x = k then 1 else 0) + count_list xs k) ks)"
    by (intro arg_cong [where f = sum_list] map_cong) auto
  also have "\<dots> = sum_list (map (\<lambda>k. if x = k then 1 else 0) ks) + sum_list (map (count_list xs) ks)"
    by (simp add: sum_list_addf)
  also have "sum_list (map (\<lambda>k. if x = k then 1 else 0) ks) = (1::nat)"
    using Cons.prems by (simp add: sum_list_distinct_conv_sum_set)
  finally show ?case using Cons by simp
qed (simp add: sum_list_0)

lemma groupCount_total: "sum_list (map snd (groupCount f xs)) = length xs"
proof -
  have "map snd (groupCount f xs) = map (count_list (map f xs)) (remdups (map f xs))"
    by (simp add: groupCount_def)
  then show ?thesis using sum_count_list [of "remdups (map f xs)" "map f xs"] by simp
qed

text \<open>The ride statistics partition the rides: the total, computed from the groups by status, is the
  number of rides, the groups by category and by channel add up to it as well, and the 24 hours of the
  day, all present, count every ride exactly once.\<close>

theorem ride_counts_partition:
  "rs_totalRides (getRideStats cfg s) = length (rides s) \<and>
   sum_list (map snd (rs_ridesByCategory (getRideStats cfg s))) = length (rides s) \<and>
   sum_list (map snd (rs_ridesByOriginChannel (getRideStats cfg s))) = length (rides s) \<and>
   map fst (rs_ridesByHour (getRideStats cfg s)) = [0..<24] \<and>
   sum_list (map snd (rs_ridesByHour (getRideStats cfg s))) = length (rides s)"
proof -
  have h: "hourOf cfg t < 24" for t by (simp add: hourOf_def nat_less_iff)
  have "map snd (ridesByHour cfg s) =
      map (count_list (map (\<lambda>r. hourOf cfg (r_requestedAt r)) (rides s))) [0..<24]"
    by (simp add: ridesByHour_def Let_def lookup0_groupCount comp_def)
  moreover have sub: "set (map (\<lambda>r. hourOf cfg (r_requestedAt r)) (rides s)) \<subseteq> set [0..<24]"
    using h by auto
  ultimately have "sum_list (map snd (ridesByHour cfg s)) = length (rides s)"
    using sum_count_list [OF distinct_upt sub] by simp
  moreover have "map fst (ridesByHour cfg s) = [0..<24]"
    by (simp add: ridesByHour_def Let_def comp_def)
  ultimately show ?thesis by (simp add: getRideStats_def Let_def groupCount_total)
qed

text \<open>A public figure never overstates and is never more than half too small: it is at most the
  true count, and less than twice it away; below a hundred it is the count itself, and from ten
  thousand on it is a multiple of ten thousand.\<close>

theorem milestone_bounds:
  "roundDownToMilestone n \<le> n \<and> n < 2 * roundDownToMilestone n + (if n = 0 then 1 else 0) \<and>
   (n < 100 \<longrightarrow> roundDownToMilestone n = n) \<and>
   (100 \<le> n \<longrightarrow> 100 dvd roundDownToMilestone n) \<and> (10000 \<le> n \<longrightarrow> 10000 dvd roundDownToMilestone n)"
proof -
  have half: "n < 2 * (n div d * d)" if "0 < d" "d \<le> n" for d
  proof -
    have "n mod d < d" "d \<le> n div d * d"
      using that div_le_mono [OF that(2), of d] by (simp_all add: div_self)
    then show ?thesis using div_mult_mod_eq [of n d] by linarith
  qed
  show ?thesis
    using half [of 100] half [of 1000] half [of 10000]
    by (auto simp: roundDownToMilestone_def)
qed

text \<open>Under the invariant of the driver accounts the number of approved drivers who are offline,
  computed as a difference that is cut off at zero, is exactly the number of approved drivers who are
  not online: the cut never happens.\<close>

theorem approved_but_offline_exact:
  assumes "account_inv s"
  shows "dr_approvedButOffline (getDriverStats s) =
    length (filter (\<lambda>d. d_verificationStatus d = VS_APPROVED \<and> \<not> d_isOnline d) (drivers s))"
proof -
  have "length (filter (\<lambda>d. d_verificationStatus d = VS_APPROVED) ds) =
      length (filter (\<lambda>d. d_isOnline d \<and> d_isActive d) ds) +
      length (filter (\<lambda>d. d_verificationStatus d = VS_APPROVED \<and> \<not> d_isOnline d) ds)"
    if "\<forall>d\<in>set ds. driver_ok d" for ds
    using that by (induction ds) (auto simp: driver_ok_def)
  then show ?thesis using assms by (simp add: getDriverStats_def Let_def account_inv_def)
qed

lemma approved_but_offline_exact_witness: "dr_approvedButOffline (getDriverStats (demo REQUESTED)) = 0"
  using approved_but_offline_exact [OF demo_account_inv] by (simp add: demoDriver_def)

end
