(* ===== verification/Gateway.thy ===== *)
theory Gateway
  imports JsString Principals RideLifecycle
begin

text \<open>
  \<open>src/websocket/gateways/rides.gateway.ts\<close>: the socket.io gateway that pushes ride events to the
  sockets of riders and drivers.

  The server is the state \<open>gateway\<close>: the open sockets, the principal each socket authenticated as
  (\<open>client.data.principal\<close>), the members of each room and the messages sent so far. What socket.io
  does is written out: \<open>to(rooms).emit\<close> reaches each socket of the rooms once, \<open>join\<close> twice is
  \<open>join\<close> once, a disconnect leaves every room.
\<close>

section \<open>Rooms, messages, the server\<close>

datatype room =
    RideRoom uuid
  | UserRoom uuid
  | DriverRoom uuid
  | AvailableRides RideCategory
  | OpsEmergency

datatype wsMessage =
    MsgRideRequested Ride
  | MsgRideAccepted Ride
  | MsgRideArrived Ride
  | MsgRideStarted Ride
  | MsgRideCompleted Ride FareSplitNaira
  | MsgRideCancelled Ride
  | MsgRideTaken uuid
  | MsgDriverLocation DriverLocationEvent
  | MsgSosTriggered EmergencyEvent
  | MsgAuthError string

type_synonym socket = nat

record gateway =
  gw_open :: "socket list"
  gw_next :: socket
  gw_principal :: "socket \<Rightarrow> Principal option"
  gw_rooms :: "room \<Rightarrow> socket list"
  gw_sent :: "(socket \<times> wsMessage) list"

definition joinRoom :: "socket \<Rightarrow> room \<Rightarrow> gateway \<Rightarrow> gateway" where
  "joinRoom c rm g = g\<lparr>gw_rooms := (gw_rooms g)(rm :=
     (if c \<in> set (gw_rooms g rm) then gw_rooms g rm else gw_rooms g rm @ [c]))\<rparr>"

definition leaveRoom :: "socket \<Rightarrow> room \<Rightarrow> gateway \<Rightarrow> gateway" where
  "leaveRoom c rm g = g\<lparr>gw_rooms := (gw_rooms g)(rm := filter (\<lambda>x. x \<noteq> c) (gw_rooms g rm))\<rparr>"

definition emitTo :: "room list \<Rightarrow> wsMessage \<Rightarrow> gateway \<Rightarrow> gateway" where
  "emitTo rms msg g = g\<lparr>gw_sent := gw_sent g @
     map (\<lambda>c. (c, msg)) (remdups (concat (map (gw_rooms g) rms)))\<rparr>"

text \<open>\<open>server.in(from).socketsJoin(to)\<close>.\<close>

definition socketsJoin :: "room \<Rightarrow> room \<Rightarrow> gateway \<Rightarrow> gateway" where
  "socketsJoin from' to' g = fold (\<lambda>c. joinRoom c to') (gw_rooms g from') g"

definition disconnect :: "socket \<Rightarrow> gateway \<Rightarrow> gateway" where
  "disconnect c g = g\<lparr>gw_open := filter (\<lambda>x. x \<noteq> c) (gw_open g),
     gw_rooms := (\<lambda>rm. filter (\<lambda>x. x \<noteq> c) (gw_rooms g rm))\<rparr>"

section \<open>Connections\<close>

text \<open>The token texts a handshake carries: \<open>auth.token\<close> and the \<open>authorization\<close> header.\<close>

record handshake =
  hs_auth :: "string option"
  hs_header :: "string option"

text \<open>\<open>replace(/^Bearer\s+/i, '')\<close>.\<close>

definition stripBearer :: "string \<Rightarrow> string" where
  "stripBearer t =
     (let rest = drop 6 t
      in if js_lower (take 6 t) = ''bearer'' \<and> rest \<noteq> [] \<and> is_ws (hd rest)
         then dropWhile is_ws rest else t)"

definition nonblank :: "string option \<Rightarrow> string option" where
  "nonblank v = (case v of Some t \<Rightarrow> (if t = [] then None else Some t) | None \<Rightarrow> None)"

definition extractToken :: "handshake \<Rightarrow> string option" where
  "extractToken h =
     (case nonblank (hs_auth h) of
        Some t \<Rightarrow> Some (stripBearer t)
      | None \<Rightarrow> map_option stripBearer (nonblank (hs_header h)))"

definition rejectConnection :: "socket \<Rightarrow> string \<Rightarrow> gateway \<Rightarrow> gateway" where
  "rejectConnection c reason g =
     disconnect c (g\<lparr>gw_sent := gw_sent g @ [(c, MsgAuthError reason)]\<rparr>)"

definition joinDriverRooms :: "socket \<Rightarrow> uuid \<Rightarrow> sys \<Rightarrow> gateway \<Rightarrow> gateway" where
  "joinDriverRooms c driverId s g =
     (let own = filter (\<lambda>v. v_driverId v = driverId \<and> v_isActive v) (vehicles s);
          categories = getAllowedCategoriesForVehicleTypes (map v_type own)
      in fold (\<lambda>category. joinRoom c (AvailableRides category)) categories
           (joinRoom c (DriverRoom driverId) g))"

fun exn_message :: "exn \<Rightarrow> string" where
  "exn_message (BadRequestException m) = m"
| "exn_message (UnauthorizedException m) = m"
| "exn_message (ForbiddenException m) = m"
| "exn_message (NotFoundException m) = m"
| "exn_message (ConflictException m) = m"
| "exn_message (ServiceUnavailableException m) = m"
| "exn_message (QueryFailedError m) = m"
| "exn_message (GatewayError m) = m"
| "exn_message SessionCompromisedError = ''''"

text \<open>\<open>verify\<close> is \<open>jwtService.verifyAsync\<close>: the claims of a token, or the message it rejects with.\<close>

definition handleConnection ::
  "(string \<Rightarrow> string + JwtPayload) \<Rightarrow> socket \<Rightarrow> handshake \<Rightarrow> sys \<Rightarrow> gateway \<Rightarrow> gateway" where
  "handleConnection verify c h s g =
     (case extractToken h of
        None \<Rightarrow> rejectConnection c ''Missing authentication token'' g
      | Some token \<Rightarrow>
          if token = [] then rejectConnection c ''Missing authentication token'' g
          else (case verify token of
            Inl m \<Rightarrow> rejectConnection c (if m = [] then ''Authentication failed'' else m) g
          | Inr payload \<Rightarrow>
              (case resolvePrincipal payload s of
                 Inl e \<Rightarrow> rejectConnection c
                   (if exn_message e = [] then ''Authentication failed'' else exn_message e) g
               | Inr rp \<Rightarrow>
                   let p = principalOf rp;
                       g1 = g\<lparr>gw_principal := (gw_principal g)(c := Some p)\<rparr>
                   in if p_role p = DRIVER then joinDriverRooms c (p_id p) s g1
                      else joinRoom c (UserRoom (p_id p)) g1)))"

section \<open>Client messages\<close>

text \<open>
  The \<open>rideId\<close> of a message body: absent or empty, not of the form of a UUID, or the id it names.
\<close>

datatype rideIdField = NoRideId | MalformedRideId | RideId uuid

datatype ack = AckError string | AckJoined uuid | AckLeft uuid

definition handleJoinRide :: "socket \<Rightarrow> rideIdField \<Rightarrow> sys \<Rightarrow> gateway \<Rightarrow> ack \<times> gateway" where
  "handleJoinRide c body s g =
     (case body of
        NoRideId \<Rightarrow> (AckError ''rideId is required'', g)
      | MalformedRideId \<Rightarrow> (AckError ''rideId must be a UUID'', g)
      | RideId rideId \<Rightarrow>
          (case gw_principal g c of
             None \<Rightarrow> (AckError ''Not authenticated'', g)
           | Some p \<Rightarrow>
               (case findRide rideId s of
                  None \<Rightarrow> (AckError ''Ride not found'', g)
                | Some ride \<Rightarrow>
                    if \<not> isPartyToRide (Some p) (Some (rideParties ride))
                    then (AckError ''You are not part of this ride'', g)
                    else (AckJoined rideId, joinRoom c (RideRoom rideId) g))))"

definition handleLeaveRide :: "socket \<Rightarrow> rideIdField \<Rightarrow> gateway \<Rightarrow> ack \<times> gateway" where
  "handleLeaveRide c body g =
     (case body of
        RideId rideId \<Rightarrow> (AckLeft rideId, leaveRoom c (RideRoom rideId) g)
      | _ \<Rightarrow> (AckError ''rideId must be a UUID'', g))"

section \<open>Domain events\<close>

definition joinPartiesToRideRoom :: "Ride \<Rightarrow> gateway \<Rightarrow> gateway" where
  "joinPartiesToRideRoom ride g =
     (let g1 = socketsJoin (UserRoom (r_userId ride)) (RideRoom (r_id ride)) g
      in case r_driverId ride of
           None \<Rightarrow> g1
         | Some driverId \<Rightarrow> socketsJoin (DriverRoom driverId) (RideRoom (r_id ride)) g1)"

definition broadcastToRide :: "uuid \<Rightarrow> uuid \<Rightarrow> wsMessage \<Rightarrow> gateway \<Rightarrow> gateway" where
  "broadcastToRide rideId userId msg g =
     emitTo [UserRoom userId] msg (emitTo [RideRoom rideId] msg g)"

definition handleRideRequested :: "Ride \<Rightarrow> gateway \<Rightarrow> gateway" where
  "handleRideRequested ride g =
     emitTo [UserRoom (r_userId ride)] (MsgRideRequested ride)
       (emitTo [AvailableRides (r_category ride)] (MsgRideRequested ride)
         (joinPartiesToRideRoom ride g))"

definition handleRideAccepted :: "Ride \<Rightarrow> gateway \<Rightarrow> gateway" where
  "handleRideAccepted ride g =
     emitTo [AvailableRides (r_category ride)] (MsgRideTaken (r_id ride))
       (emitTo [UserRoom (r_userId ride)] (MsgRideAccepted ride)
         (emitTo [RideRoom (r_id ride)] (MsgRideAccepted ride)
           (joinPartiesToRideRoom ride g)))"

definition handleEmergency :: "EmergencyEvent \<Rightarrow> gateway \<Rightarrow> gateway" where
  "handleEmergency ev g =
     emitTo ([RideRoom (ee_rideId ev), OpsEmergency, UserRoom (ee_userId ev)] @
       (case ee_driverId ev of None \<Rightarrow> [] | Some d \<Rightarrow> [DriverRoom d])) (MsgSosTriggered ev) g"

fun handleEvent :: "event \<Rightarrow> gateway \<Rightarrow> gateway" where
  "handleEvent (RideRequested ride) g = handleRideRequested ride g"
| "handleEvent (RideAccepted ride) g = handleRideAccepted ride g"
| "handleEvent (RideArrived ride) g =
     broadcastToRide (r_id ride) (r_userId ride) (MsgRideArrived ride) g"
| "handleEvent (RideStarted ride) g =
     broadcastToRide (r_id ride) (r_userId ride) (MsgRideStarted ride) g"
| "handleEvent (RideCompleted ride split) g =
     broadcastToRide (r_id ride) (r_userId ride) (MsgRideCompleted ride split) g"
| "handleEvent (RideCancelled ride) g =
     broadcastToRide (r_id ride) (r_userId ride) (MsgRideCancelled ride) g"
| "handleEvent (DriverLocationUpdated ev) g =
     emitTo [RideRoom (dle_rideId ev)] (MsgDriverLocation ev) g"
| "handleEvent (EmergencyTriggered ev) g = handleEmergency ev g"

end
