(* ===== verification/GatewayRules.thy ===== *)
theory GatewayRules
  imports Gateway Emergency
begin

text \<open>
  What the gateway guarantees together with the services whose events it pushes: who is in which
  room, and who receives what.
\<close>

section \<open>Rooms as sets\<close>

definition members :: "gateway \<Rightarrow> room \<Rightarrow> socket set" where
  "members g rm = set (gw_rooms g rm)"

lemma members_simps [simp]:
  "members (joinRoom c rm g) rm' = members g rm' \<union> (if rm' = rm then {c} else {})"
  "members (leaveRoom c rm g) rm' = members g rm' - (if rm' = rm then {c} else {})"
  "members (disconnect c g) rm' = members g rm' - {c}"
  "members (emitTo rms m g) rm' = members g rm'"
  "members (g\<lparr>gw_sent := x\<rparr>) rm' = members g rm'"
  "members (g\<lparr>gw_principal := y\<rparr>) rm' = members g rm'"
  by (auto simp: members_def joinRoom_def leaveRoom_def disconnect_def emitTo_def)

lemma gateway_frame [simp]:
  "gw_principal (joinRoom c rm g) = gw_principal g" "gw_principal (leaveRoom c rm g) = gw_principal g"
  "gw_principal (disconnect c g) = gw_principal g" "gw_principal (emitTo rms m g) = gw_principal g"
  "gw_sent (joinRoom c rm g) = gw_sent g" "gw_sent (leaveRoom c rm g) = gw_sent g"
  "gw_sent (disconnect c g) = gw_sent g"
  "gw_open (joinRoom c rm g) = gw_open g" "gw_open (emitTo rms m g) = gw_open g"
  "gw_open (leaveRoom c rm g) = gw_open g"
  "gw_next (joinRoom c rm g) = gw_next g" "gw_next (emitTo rms m g) = gw_next g"
  "gw_next (leaveRoom c rm g) = gw_next g" "gw_next (disconnect c g) = gw_next g"
  by (simp_all add: joinRoom_def leaveRoom_def disconnect_def emitTo_def)

lemma fold_joinRoom [simp]:
  "gw_principal (fold (\<lambda>c. joinRoom c rm) cs g) = gw_principal g"
  "gw_sent (fold (\<lambda>c. joinRoom c rm) cs g) = gw_sent g"
  "gw_open (fold (\<lambda>c. joinRoom c rm) cs g) = gw_open g"
  "gw_next (fold (\<lambda>c. joinRoom c rm) cs g) = gw_next g"
  "members (fold (\<lambda>c. joinRoom c rm) cs g) rm' = members g rm' \<union> (if rm' = rm then set cs else {})"
  by (induction cs arbitrary: g) auto

lemma fold_joinRooms [simp]:
  "gw_principal (fold (\<lambda>k. joinRoom c (f k)) ks g) = gw_principal g"
  "gw_sent (fold (\<lambda>k. joinRoom c (f k)) ks g) = gw_sent g"
  "gw_open (fold (\<lambda>k. joinRoom c (f k)) ks g) = gw_open g"
  "gw_next (fold (\<lambda>k. joinRoom c (f k)) ks g) = gw_next g"
  "members (fold (\<lambda>k. joinRoom c (f k)) ks g) rm' = members g rm' \<union> (if rm' \<in> f ` set ks then {c} else {})"
  by (induction ks arbitrary: g) auto

lemma socketsJoin_simps [simp]:
  "gw_principal (socketsJoin a b g) = gw_principal g" "gw_sent (socketsJoin a b g) = gw_sent g"
  "gw_open (socketsJoin a b g) = gw_open g" "gw_next (socketsJoin a b g) = gw_next g"
  "members (socketsJoin a b g) rm = members g rm \<union> (if rm = b then members g a else {})"
  by (simp_all add: socketsJoin_def) (simp add: members_def)

lemma sent_emitTo [simp]:
  "set (gw_sent (emitTo rms m g)) = set (gw_sent g) \<union> {(c, m) |c. \<exists>rm\<in>set rms. c \<in> members g rm}"
  by (auto simp: emitTo_def members_def)

lemma joinParties_simps [simp]:
  "gw_principal (joinPartiesToRideRoom r g) = gw_principal g"
  "gw_sent (joinPartiesToRideRoom r g) = gw_sent g"
  "gw_open (joinPartiesToRideRoom r g) = gw_open g"
  "gw_next (joinPartiesToRideRoom r g) = gw_next g"
  "members (joinPartiesToRideRoom r g) rm = members g rm \<union> (if rm = RideRoom (r_id r)
     then members g (UserRoom (r_userId r)) \<union>
       (case r_driverId r of None \<Rightarrow> {} | Some d \<Rightarrow> members g (DriverRoom d)) else {})"
  by (auto simp: joinPartiesToRideRoom_def Let_def split: option.splits)

section \<open>Who may hear about a ride\<close>

definition party :: "Principal \<Rightarrow> uuid \<Rightarrow> sys \<Rightarrow> bool" where
  "party p i s \<longleftrightarrow> p_role p = ADMIN \<or>
     (\<exists>r. findRide i s = Some r \<and> (r_userId r = p_id p \<or> r_driverId r = Some (p_id p)))"

lemma isPartyToRide_party:
  "findRide i s = Some r \<Longrightarrow> isPartyToRide (Some p) (Some (rideParties r)) \<Longrightarrow> party p i s"
  by (auto simp: isPartyToRide_def party_def rideParties_def isAdmin_def split: if_splits)

text \<open>The ride a message is private to; a request and a withdrawn request are not.\<close>

fun about :: "wsMessage \<Rightarrow> uuid option" where
  "about (MsgRideAccepted r) = Some (r_id r)"
| "about (MsgRideArrived r) = Some (r_id r)"
| "about (MsgRideStarted r) = Some (r_id r)"
| "about (MsgRideCompleted r _) = Some (r_id r)"
| "about (MsgRideCancelled r) = Some (r_id r)"
| "about (MsgDriverLocation e) = Some (dle_rideId e)"
| "about (MsgSosTriggered e) = Some (ee_rideId e)"
| "about (MsgRideRequested r) = None"
| "about (MsgRideTaken i) = None"
| "about (MsgAuthError m) = None"

definition hears :: "gateway \<Rightarrow> socket \<Rightarrow> uuid \<Rightarrow> sys \<Rightarrow> bool" where
  "hears g c i s \<longleftrightarrow> (\<exists>p. gw_principal g c = Some p \<and> party p i s)"

definition room_ok :: "sys \<Rightarrow> gateway \<Rightarrow> room \<Rightarrow> socket \<Rightarrow> bool" where
  "room_ok s g rm c \<longleftrightarrow> (case rm of
     RideRoom i \<Rightarrow> hears g c i s
   | UserRoom u \<Rightarrow> \<exists>p. gw_principal g c = Some p \<and> p_id p = u
   | DriverRoom d \<Rightarrow> \<exists>p. gw_principal g c = Some p \<and> p_id p = d
   | AvailableRides k \<Rightarrow> \<exists>p. gw_principal g c = Some p \<and> p_role p = DRIVER
   | OpsEmergency \<Rightarrow> False)"

definition push_inv :: "sys \<Rightarrow> gateway \<Rightarrow> bool" where
  "push_inv s g \<longleftrightarrow> (\<forall>rm. \<forall>c\<in>members g rm. room_ok s g rm c) \<and>
     (\<forall>(c, m)\<in>set (gw_sent g). \<forall>i. about m = Some i \<longrightarrow> hears g c i s)"

text \<open>What an event says about its ride agrees with the tables.\<close>

definition agrees_with :: "sys \<Rightarrow> uuid \<Rightarrow> uuid \<Rightarrow> uuid option \<Rightarrow> bool" where
  "agrees_with s i u d \<longleftrightarrow> (\<exists>r. findRide i s = Some r \<and> r_userId r = u \<and> r_driverId r = d)"

fun event_ok :: "sys \<Rightarrow> event \<Rightarrow> bool" where
  "event_ok s (RideRequested r) = agrees_with s (r_id r) (r_userId r) (r_driverId r)"
| "event_ok s (RideAccepted r) = agrees_with s (r_id r) (r_userId r) (r_driverId r)"
| "event_ok s (RideArrived r) = agrees_with s (r_id r) (r_userId r) (r_driverId r)"
| "event_ok s (RideStarted r) = agrees_with s (r_id r) (r_userId r) (r_driverId r)"
| "event_ok s (RideCompleted r split) = agrees_with s (r_id r) (r_userId r) (r_driverId r)"
| "event_ok s (RideCancelled r) = agrees_with s (r_id r) (r_userId r) (r_driverId r)"
| "event_ok s (DriverLocationUpdated e) = True"
| "event_ok s (EmergencyTriggered e) = agrees_with s (ee_rideId e) (ee_userId e) (ee_driverId e)"

lemma hears_party:
  assumes "agrees_with s i u d" "gw_principal g c = Some p" "p_id p = u \<or> d = Some (p_id p)"
  shows "hears g c i s"
  using assms by (auto simp: hears_def party_def agrees_with_def)

lemma push_inv_emitTo:
  assumes "push_inv s g" "\<And>rm c i. rm \<in> set rms \<Longrightarrow> c \<in> members g rm \<Longrightarrow> about m = Some i \<Longrightarrow> hears g c i s"
  shows "push_inv s (emitTo rms m g)"
  using assms unfolding push_inv_def room_ok_def hears_def by (fastforce split: room.splits)

lemma push_inv_members:
  assumes "push_inv s g" "c \<in> members g rm"
  shows "room_ok s g rm c"
  using assms by (simp add: push_inv_def)

lemma push_inv_joinParties:
  assumes "push_inv s g" "agrees_with s (r_id r) (r_userId r) (r_driverId r)"
  shows "push_inv s (joinPartiesToRideRoom r g)"
proof -
  have "hears g c (r_id r) s" if "c \<in> members g (UserRoom (r_userId r))" for c
    using push_inv_members [OF assms(1) that] hears_party [OF assms(2)] by (auto simp: room_ok_def)
  moreover have "hears g c (r_id r) s" if "r_driverId r = Some d" "c \<in> members g (DriverRoom d)" for c d
    using push_inv_members [OF assms(1) that(2)] hears_party [OF assms(2)] that(1) by (auto simp: room_ok_def)
  ultimately have "room_ok s (joinPartiesToRideRoom r g) rm c"
    if "c \<in> members (joinPartiesToRideRoom r g) rm" for rm c
    using that push_inv_members [OF assms(1), of c rm]
    by (cases rm) (auto simp: room_ok_def hears_def split: if_splits option.splits)
  then show ?thesis using assms(1) by (simp add: push_inv_def hears_def)
qed

lemma hears_rooms:
  assumes "push_inv s g"
  shows "c \<in> members g (RideRoom i) \<Longrightarrow> hears g c i s"
    and "agrees_with s i u d \<Longrightarrow> c \<in> members g (UserRoom u) \<Longrightarrow> hears g c i s"
    and "agrees_with s i u (Some e) \<Longrightarrow> c \<in> members g (DriverRoom e) \<Longrightarrow> hears g c i s"
    and "c \<notin> members g OpsEmergency"
  using push_inv_members [OF assms, of c] hears_party
  by (fastforce simp: room_ok_def)+

lemma push_inv_broadcast:
  assumes "push_inv s g" "agrees_with s i u d" "about m = Some i"
  shows "push_inv s (broadcastToRide i u m g)"
proof -
  have 1: "push_inv s (emitTo [RideRoom i] m g)"
    using assms(3) hears_rooms(1) [OF assms(1)] by (intro push_inv_emitTo [OF assms(1)]) auto
  show ?thesis
    unfolding broadcastToRide_def
    using assms(3) hears_rooms(2) [OF 1 assms(2)] by (intro push_inv_emitTo [OF 1]) auto
qed

lemma push_inv_silent:
  assumes "push_inv s g" "about m = None"
  shows "push_inv s (emitTo rms m g)"
  using assms by (intro push_inv_emitTo) auto

lemma push_inv_requested:
  assumes "push_inv s g" "agrees_with s (r_id r) (r_userId r) (r_driverId r)"
  shows "push_inv s (handleRideRequested r g)"
  unfolding handleRideRequested_def
  by (intro push_inv_silent push_inv_joinParties assms) simp_all

lemma push_inv_accepted:
  assumes "push_inv s g" "agrees_with s (r_id r) (r_userId r) (r_driverId r)"
  shows "push_inv s (handleRideAccepted r g)"
proof -
  have 1: "push_inv s (joinPartiesToRideRoom r g)" by (rule push_inv_joinParties [OF assms])
  have "push_inv s (broadcastToRide (r_id r) (r_userId r) (MsgRideAccepted r) (joinPartiesToRideRoom r g))"
    by (rule push_inv_broadcast [OF 1 assms(2)]) simp
  then show ?thesis
    unfolding handleRideAccepted_def by (simp add: broadcastToRide_def push_inv_silent)
qed

lemma push_inv_emergency:
  assumes "push_inv s g" "agrees_with s (ee_rideId e) (ee_userId e) (ee_driverId e)"
  shows "push_inv s (handleEmergency e g)"
  unfolding handleEmergency_def
proof (rule push_inv_emitTo [OF assms(1)])
  fix rm c i
  assume "rm \<in> set ([RideRoom (ee_rideId e), OpsEmergency, UserRoom (ee_userId e)] @
      (case ee_driverId e of None \<Rightarrow> [] | Some d \<Rightarrow> [DriverRoom d]))"
    "c \<in> members g rm" "about (MsgSosTriggered e) = Some i"
  then show "hears g c i s"
    using hears_rooms [OF assms(1)] assms(2) by (cases "ee_driverId e") auto
qed

lemma push_inv_event:
  assumes "push_inv s g" "event_ok s e"
  shows "push_inv s (handleEvent e g)"
proof (cases e)
  case (DriverLocationUpdated ev)
  then show ?thesis using hears_rooms(1) [OF assms(1)]
    by (auto intro!: push_inv_emitTo [OF assms(1)])
qed (use assms push_inv_requested push_inv_accepted push_inv_broadcast push_inv_emergency in auto)

lemma push_inv_events:
  "push_inv s g \<Longrightarrow> \<forall>e\<in>set es. event_ok s e \<Longrightarrow> push_inv s (fold handleEvent es g)"
  by (induction es arbitrary: g) (simp_all add: push_inv_event)

section \<open>The services only emit what the tables say\<close>

text \<open>A ride keeps its rider, and its driver once it has one.\<close>

definition parties_kept :: "sys \<Rightarrow> sys \<Rightarrow> bool" where
  "parties_kept s s' \<longleftrightarrow> (\<forall>i r. findRide i s = Some r \<longrightarrow>
     (\<exists>r'. findRide i s' = Some r' \<and> r_userId r' = r_userId r \<and>
        (r_driverId r \<noteq> None \<longrightarrow> r_driverId r' = r_driverId r)))"

lemma parties_kept_party: "parties_kept s s' \<Longrightarrow> party p i s \<Longrightarrow> party p i s'"
  unfolding parties_kept_def party_def by (metis option.distinct(1))

lemma parties_kept_same: "rides s' = rides s \<Longrightarrow> parties_kept s s'"
  by (simp add: parties_kept_def findRide_def)

lemma parties_kept_save:
  assumes "findRide i s = Some r" "r_id r' = i" "r_userId r' = r_userId r"
    "r_driverId r \<noteq> None \<Longrightarrow> r_driverId r' = r_driverId r" "rides s' = rides (saveRide r' s)"
  shows "parties_kept s s'"
proof -
  have find: "findRide j s' = findRide j (saveRide r' s)" for j using assms(5) by (simp add: findRide_def)
  have "findRide i s' = Some r'" using rideRepo.findById_save_same [of r' s] assms(2) by (simp add: find)
  moreover have "findRide j s' = findRide j s" if "j \<noteq> i" for j
    using rideRepo.findById_save_other that assms(2) by (simp add: find)
  ultimately show ?thesis unfolding parties_kept_def using assms(1,3,4) by (metis option.inject)
qed

lemma ride_step_parties:
  assumes "ride_step s s'" "life_inv s"
  shows "parties_kept s s'"
proof -
  have w: "wf_sys s" using assms(2) by (simp add: life_inv_def)
  from assms(1) w show ?thesis
  proof (cases rule: ride_step_cases)
    case none
    then show ?thesis by (intro parties_kept_same) (simp add: same_tables_def)
  next
    case (created dto km fare)
    then show ?thesis by (auto simp: parties_kept_def findRide_def tbl_find_def find_append)
  next
    case (changed i r r')
    have "ride_ok r" using assms(2) wf_findRide(1) [OF w changed(1)] by (simp add: life_inv_def)
    have "r_driverId r \<noteq> None \<longrightarrow> r_driverId r' = r_driverId r"
      using changed(2) by (cases rule: ride_change.cases)
        (use \<open>ride_ok r\<close> in \<open>auto simp: ride_ok_def mayAccept_def cancelledRide_def\<close>)
    then show ?thesis
      using changed(3) ride_change_facts(1,2) [OF changed(2)] wf_findRide(2) [OF w changed(1)]
      by (intro parties_kept_save [OF changed(1)]) (auto simp: same_tables_def)
  next
    case (completed i r driverId d u n rows)
    then show ?thesis using wf_findRide(2) [OF w completed(1)]
      by (intro parties_kept_save [OF completed(1), of "completedRide (now s) r"])
        (auto simp: same_tables_def completedRide_def)
  qed
qed

text \<open>What a ride operation emits is at most one event, and it agrees with the table it leaves.\<close>

lemma agrees_saved:
  "rides s' = rides (saveRide r s) \<Longrightarrow> agrees_with s' (r_id r) (r_userId r) (r_driverId r)"
  using rideRepo.findById_save_same [of r s] by (auto simp: agrees_with_def findRide_def)

definition emits_ok :: "sys \<Rightarrow> sys \<Rightarrow> bool" where
  "emits_ok s s' \<longleftrightarrow> (\<exists>es. events s' = events s @ es \<and> (\<forall>e\<in>set es. event_ok s' e))"

lemma emits_none: "events s' = events s \<Longrightarrow> emits_ok s s'"
  by (simp add: emits_ok_def)

fun ride_of :: "event \<Rightarrow> Ride option" where
  "ride_of (RideRequested r) = Some r"
| "ride_of (RideAccepted r) = Some r"
| "ride_of (RideArrived r) = Some r"
| "ride_of (RideStarted r) = Some r"
| "ride_of (RideCompleted r split) = Some r"
| "ride_of (RideCancelled r) = Some r"
| "ride_of _ = None"

lemma emits_saved:
  assumes "events s' = events s @ [e]" "ride_of e = Some r" "rides s' = rides (saveRide r t)"
  shows "emits_ok s s'"
proof -
  have "event_ok s' e" using agrees_saved [OF assms(3)] assms(2) by (cases e) auto
  then show ?thesis using assms(1) by (auto simp: emits_ok_def)
qed

lemma ride_step_emits:
  assumes "ride_step s s'" "wf_sys s"
  shows "emits_ok s s'"
  using assms(1)
proof cases
  case (create m dto res)
  show ?thesis
  proof (cases res)
    case (Inl e)
    then have "createRide m dto s = (Inl e, s')" using create by simp
    then show ?thesis using createRide_Inl by (fastforce intro!: emits_none)
  next
    case (Inr r)
    then have "createRide m dto s = (Inr r, s')" using create by simp
    then show ?thesis
      by (rule createRide_Inr) (auto intro!: emits_saved [of _ _ "RideRequested r" r])
  qed
next
  case (accept rideId driverId vehicleId res)
  show ?thesis
  proof (cases res)
    case (Inl e)
    then have "acceptRide rideId driverId vehicleId s = (Inl e, s')" using accept by simp
    then show ?thesis using acceptRide_Inl by (fastforce intro!: emits_none)
  next
    case (Inr r')
    then have "acceptRide rideId driverId vehicleId s = (Inr r', s')" using accept by simp
    then show ?thesis
      by (rule acceptRide_Inr)
        (auto simp: acceptedState_def intro!: emits_saved [of _ _ "RideAccepted r'" r'])
  qed
next
  case (arrive rideId driverId res)
  show ?thesis
  proof (cases res)
    case (Inr r')
    then show ?thesis using arrive
      by (intro emits_saved [of _ _ "RideArrived r'" r' s]) (auto simp: markArrived_Inr)
  qed (use arrive in \<open>auto dest!: markArrived_Inl intro: emits_none\<close>)
next
  case (start rideId driverId res)
  show ?thesis
  proof (cases res)
    case (Inr r')
    then show ?thesis using start
      by (intro emits_saved [of _ _ "RideStarted r'" r' s]) (auto simp: startRide_Inr)
  qed (use start in \<open>auto dest!: startRide_Inl intro: emits_none\<close>)
next
  case (cancel rideId reason userId driverId' res)
  show ?thesis
  proof (cases res)
    case (Inr r')
    then show ?thesis using cancel
      by (intro emits_saved [of _ _ "RideCancelled r'" r' s]) (auto simp: cancelRide_Inr split: option.split)
  qed (use cancel in \<open>auto dest!: cancelRide_Inl intro: emits_none\<close>)
next
  case (complete rideId driverId res)
  then show ?thesis
  proof (cases rule: completeRide_cases [of s rideId driverId])
    case (settled ride split s1)
    have "wf_sys (locked rideId driverId s)" using assms(2) by simp
    then show ?thesis using settled(2)
      by (rule settleRide_inverse)
        (use complete settled(3) in \<open>auto intro!: emits_saved [of _ _ "RideCompleted ride split" ride]\<close>)
  qed (use complete in \<open>auto intro!: emits_none\<close>)
next
  case (wait ms)
  then show ?thesis by (intro emits_none) (simp add: tick_def)
qed

lemma ping_effect:
  assumes "updateLocation driverId dto s = (res, s')"
  shows "rides s' = rides s \<and> users s' = users s \<and> drivers s' = drivers s \<and> ledger s' = ledger s \<and>
    nextId s' = nextId s \<and> emits_ok s s'"
  using assms
  by (auto simp: updateLocation_def geoadd_def Let_def redis_set_ex_def emit_def emits_ok_def
      split: option.splits if_splits rval.splits)

lemma sos_effect:
  assumes "triggerEmergency G queueUp dto requesterId role s = (res, s')"
  shows "rides s' = rides s \<and> users s' = users s \<and> drivers s' = drivers s \<and> ledger s' = ledger s \<and>
    nextId s \<le> nextId s' \<and> emits_ok s s'"
proof (cases "s' = s")
  case False
  then obtain ride where ride: "findRide (te_rideId dto) s = Some ride"
    and s': "s' = sosState (sosIncident G ride dto requesterId s) ride s \<or>
      (\<exists>j. s' = (sosState (sosIncident G ride dto requesterId s) ride s)\<lparr>jobs := j\<rparr>)"
    using assms unfolding triggerEmergency_cases
    by (auto simp: Let_def split: option.splits if_splits)
  let ?i = "sosIncident G ride dto requesterId s"
  have tables: "rides s' = rides s" "users s' = users s" "drivers s' = drivers s" "ledger s' = ledger s"
    "nextId s' = Suc (nextId s)" "events s' = events s @ [EmergencyTriggered (sosPayload ride ?i)]"
    using s' by (auto simp: sosState_def emit_def saveIncident_def)
  have "r_id ride = te_rideId dto" using rideRepo.findById_SomeD [OF ride] by simp
  then have "event_ok s' (EmergencyTriggered (sosPayload ride ?i))"
    using ride tables(1) by (simp add: agrees_with_def sosPayload_def sosIncident_def findRide_def)
  then have "emits_ok s s'" using tables(6) by (auto simp: emits_ok_def)
  then show ?thesis using tables by simp
qed (simp add: emits_none)

lemma wf_sys_later:
  assumes "wf_sys s" "rides s' = rides s" "users s' = users s" "drivers s' = drivers s"
    "ledger s' = ledger s" "nextId s \<le> nextId s'"
  shows "wf_sys s'"
  using assms unfolding wf_defs by (auto intro: less_le_trans)

lemma life_inv_later:
  assumes "life_inv s" "rides s' = rides s" "users s' = users s" "drivers s' = drivers s"
    "ledger s' = ledger s" "nextId s \<le> nextId s'"
  shows "life_inv s'"
proof -
  have "wf_sys s'" using assms wf_sys_later unfolding life_inv_def by blast
  moreover have "life_inv (s\<lparr>nextId := nextId s'\<rparr>) \<longleftrightarrow> life_inv s'" if "wf_sys s'"
    using that assms(2-5)
    by (simp add: life_inv_def wf_defs books_balanced_def driverBooks_def riderBooks_def sumAmount_def
        activeCategories_def activeRides_def entriesOf_def)
  ultimately show ?thesis
    using assms
    by (simp add: life_inv_def wf_defs books_balanced_def driverBooks_def riderBooks_def sumAmount_def
        activeCategories_def activeRides_def entriesOf_def)
qed

section \<open>The services and the gateway together\<close>

text \<open>
  A service call and the events it emits, which the gateway handles before anything else happens;
  what sockets do; and any other call that leaves the rides alone and emits nothing (accounts,
  vehicles, wallet, ratings, sessions). A socket gets a new identifier when it opens.
\<close>

definition pushed :: "sys \<Rightarrow> sys \<Rightarrow> gateway \<Rightarrow> gateway" where
  "pushed s s' g = fold handleEvent (drop (length (events s)) (events s')) g"

inductive push_step ::
  "(string \<Rightarrow> string + JwtPayload) \<Rightarrow> geoEnv \<Rightarrow> sys \<times> gateway \<Rightarrow> sys \<times> gateway \<Rightarrow> bool"
  for verify G where
  service: "ride_step s s' \<Longrightarrow> push_step verify G (s, g) (s', pushed s s' g)"
| ping: "updateLocation driverId dto s = (res, s') \<Longrightarrow> push_step verify G (s, g) (s', pushed s s' g)"
| sos: "triggerEmergency G queueUp sosDto requesterId role s = (inc, s') \<Longrightarrow>
    push_step verify G (s, g) (s', pushed s s' g)"
| other: "life_inv s' \<Longrightarrow> rides s' = rides s \<Longrightarrow> events s' = events s \<Longrightarrow> push_step verify G (s, g) (s', g)"
| opened: "push_step verify G (s, g) (s, g\<lparr>gw_open := gw_open g @ [gw_next g], gw_next := Suc (gw_next g)\<rparr>)"
| connected: "gw_principal g c = None \<Longrightarrow> push_step verify G (s, g) (s, handleConnection verify c h s g)"
| joined: "push_step verify G (s, g) (s, snd (handleJoinRide c body s g))"
| left: "push_step verify G (s, g) (s, snd (handleLeaveRide c body g))"
| closed: "push_step verify G (s, g) (s, disconnect c g)"

definition noSockets :: gateway where
  "noSockets = \<lparr>gw_open = [], gw_next = 0, gw_principal = (\<lambda>_. None), gw_rooms = (\<lambda>_. []), gw_sent = []\<rparr>"

lemma push_inv_start: "push_inv s noSockets"
  by (simp add: push_inv_def noSockets_def members_def)

lemma push_inv_intro:
  assumes "\<And>rm c. c \<in> members g rm \<Longrightarrow> room_ok s g rm c"
    and "\<And>c m i. (c, m) \<in> set (gw_sent g) \<Longrightarrow> about m = Some i \<Longrightarrow> hears g c i s"
  shows "push_inv s g"
  using assms by (auto simp: push_inv_def)

lemma push_inv_sent: "push_inv s g \<Longrightarrow> (c, m) \<in> set (gw_sent g) \<Longrightarrow> about m = Some i \<Longrightarrow> hears g c i s"
  by (auto simp: push_inv_def)

text \<open>More may be heard when a ride gets its driver or a socket its principal.\<close>

lemma room_ok_mono:
  assumes "\<And>p. gw_principal g c = Some p \<Longrightarrow> gw_principal g' c = Some p"
    and "\<And>p i. party p i s \<Longrightarrow> party p i s'" "room_ok s g rm c"
  shows "room_ok s' g' rm c"
  using assms by (cases rm) (auto simp: room_ok_def hears_def)

lemma hears_mono:
  assumes "\<And>p. gw_principal g c = Some p \<Longrightarrow> gw_principal g' c = Some p"
    and "\<And>p i. party p i s \<Longrightarrow> party p i s'" "hears g c i s"
  shows "hears g' c i s'"
  using assms by (auto simp: hears_def)

lemma push_inv_tables: "parties_kept s s' \<Longrightarrow> push_inv s g \<Longrightarrow> push_inv s' g"
  using room_ok_mono [of g _ g s s'] hears_mono [of g _ g s s'] parties_kept_party
  by (intro push_inv_intro) (blast dest: push_inv_members push_inv_sent)+

lemma push_inv_join:
  assumes "push_inv s g" "room_ok s g rm c"
  shows "push_inv s (joinRoom c rm g)"
proof (rule push_inv_intro)
  fix rm' d assume "d \<in> members (joinRoom c rm g) rm'"
  then have "room_ok s g rm' d" using assms push_inv_members by (auto split: if_splits)
  then show "room_ok s (joinRoom c rm g) rm' d" by (rule room_ok_mono [rotated 2]) simp_all
next
  fix d m i assume "(d, m) \<in> set (gw_sent (joinRoom c rm g))" "about m = Some i"
  then have "hears g d i s" using push_inv_sent [OF assms(1)] by simp
  then show "hears (joinRoom c rm g) d i s" by (simp add: hears_def)
qed

lemma push_inv_joins:
  "push_inv s g \<Longrightarrow> \<forall>k\<in>set ks. room_ok s g (f k) c \<Longrightarrow>
   push_inv s (fold (\<lambda>k. joinRoom c (f k)) ks g)"
proof (induction ks arbitrary: g)
  case (Cons k ks)
  have "\<forall>j\<in>set ks. room_ok s (joinRoom c (f k) g) (f j) c"
    using Cons.prems(2) by (auto simp: room_ok_def hears_def split: room.splits)
  then show ?case using Cons push_inv_join by simp
qed simp

lemma push_inv_principal:
  assumes "push_inv s g" "gw_principal g c = None"
  shows "push_inv s (g\<lparr>gw_principal := (gw_principal g)(c := Some p)\<rparr>)"
proof (rule push_inv_intro)
  fix rm d assume "d \<in> members (g\<lparr>gw_principal := (gw_principal g)(c := Some p)\<rparr>) rm"
  then have "room_ok s g rm d" using push_inv_members [OF assms(1)] by simp
  then show "room_ok s (g\<lparr>gw_principal := (gw_principal g)(c := Some p)\<rparr>) rm d"
    by (rule room_ok_mono [rotated 2]) (use assms(2) in auto)
next
  fix d m i assume "(d, m) \<in> set (gw_sent (g\<lparr>gw_principal := (gw_principal g)(c := Some p)\<rparr>))" "about m = Some i"
  then have "hears g d i s" using push_inv_sent [OF assms(1)] by simp
  then show "hears (g\<lparr>gw_principal := (gw_principal g)(c := Some p)\<rparr>) d i s"
    by (rule hears_mono [rotated 2]) (use assms(2) in auto)
qed

lemma push_inv_fewer:
  assumes "push_inv s g" "\<And>rm. members g' rm \<subseteq> members g rm" "gw_principal g' = gw_principal g"
    "\<And>c m. (c, m) \<in> set (gw_sent g') \<Longrightarrow> (c, m) \<in> set (gw_sent g) \<or> about m = None"
  shows "push_inv s g'"
proof (rule push_inv_intro)
  fix rm c assume "c \<in> members g' rm"
  then have "room_ok s g rm c" using push_inv_members [OF assms(1)] assms(2) by blast
  then show "room_ok s g' rm c" by (rule room_ok_mono [rotated 2]) (simp_all add: assms(3))
next
  fix c m i assume "(c, m) \<in> set (gw_sent g')" "about m = Some i"
  then have "hears g c i s" using push_inv_sent [OF assms(1)] assms(4) by fastforce
  then show "hears g' c i s" by (simp add: hears_def assms(3))
qed

lemma push_inv_reject: "push_inv s g \<Longrightarrow> push_inv s (rejectConnection c m g)"
  by (rule push_inv_fewer) (auto simp: rejectConnection_def)

lemma push_inv_connection:
  assumes "push_inv s g" "gw_principal g c = None"
  shows "push_inv s (handleConnection verify c h s g)"
proof -
  have "push_inv s (if p_role p = DRIVER
      then joinDriverRooms c (p_id p) s (g\<lparr>gw_principal := (gw_principal g)(c := Some p)\<rparr>)
      else joinRoom c (UserRoom (p_id p)) (g\<lparr>gw_principal := (gw_principal g)(c := Some p)\<rparr>))" for p
  proof -
    let ?g = "g\<lparr>gw_principal := (gw_principal g)(c := Some p)\<rparr>"
    have 1: "push_inv s ?g" by (rule push_inv_principal [OF assms])
    have u: "push_inv s (joinRoom c (UserRoom (p_id p)) ?g)"
      and d: "push_inv s (joinRoom c (DriverRoom (p_id p)) ?g)"
      by (rule push_inv_join [OF 1], simp add: room_ok_def)+
    have "push_inv s (joinDriverRooms c (p_id p) s ?g)" if "p_role p = DRIVER"
      unfolding joinDriverRooms_def Let_def
      by (rule push_inv_joins [OF d]) (use that in \<open>simp add: room_ok_def\<close>)
    then show ?thesis using u by simp
  qed
  then show ?thesis using assms(1)
    by (auto simp: handleConnection_def Let_def push_inv_reject split: option.split sum.split)
qed

lemma pushed_inv:
  assumes "emits_ok s s'" "push_inv s' g"
  shows "push_inv s' (pushed s s' g)"
  using assms push_inv_events by (auto simp: emits_ok_def pushed_def)

lemma push_step_inv:
  assumes "push_step verify G (s, g) (s', g')" "life_inv s" "push_inv s g"
  shows "life_inv s' \<and> push_inv s' g'"
  using assms(1)
proof cases
  case service
  then show ?thesis
    using assms(2,3) ride_step_life_inv ride_step_parties push_inv_tables ride_step_emits pushed_inv
    by (metis life_inv_def)
next
  case (ping driverId dto res)
  note e = ping_effect [OF ping(2)]
  have "life_inv s'" by (rule life_inv_later [OF assms(2)]) (use e in auto)
  then show ?thesis
    using ping(1) e assms(3) push_inv_tables parties_kept_same pushed_inv by blast
next
  case (sos queueUp dto requesterId role inc)
  note e = sos_effect [OF sos(2)]
  have "life_inv s'" by (rule life_inv_later [OF assms(2)]) (use e in auto)
  then show ?thesis
    using sos(1) e assms(3) push_inv_tables parties_kept_same pushed_inv by blast
next
  case other
  then show ?thesis using assms(3) push_inv_tables parties_kept_same by blast
next
  case opened
  have "push_inv s g'" by (rule push_inv_fewer [OF assms(3)]) (auto simp: opened members_def)
  then show ?thesis using opened assms(2) by simp
next
  case (connected c h)
  then show ?thesis using assms(2,3) push_inv_connection by simp
next
  case (joined c body)
  have "push_inv s (snd (handleJoinRide c body s g))"
    using assms(3) push_inv_join isPartyToRide_party
    by (auto simp: handleJoinRide_def room_ok_def hears_def split: rideIdField.split option.split)
  then show ?thesis using joined assms(2) by simp
next
  case (left c body)
  have "push_inv s (snd (handleLeaveRide c body g))"
    using assms(3) push_inv_fewer [OF assms(3), of "leaveRoom c rm g" for rm]
    by (auto simp: handleLeaveRide_def split: rideIdField.split)
  then show ?thesis using left assms(2) by simp
next
  case (closed c)
  have "push_inv s (disconnect c g)" by (rule push_inv_fewer [OF assms(3)]) auto
  then show ?thesis using closed assms(2) by simp
qed

lemma reachable_push_inv:
  assumes "(push_step verify G)\<^sup>*\<^sup>* (s0, noSockets) (s, g)" "life_inv s0"
  shows "life_inv s \<and> push_inv s g"
  using assms(1)
proof (induction "(s, g)" arbitrary: s g rule: rtranclp_induct)
  case base
  then show ?case using assms(2) push_inv_start by simp
next
  case (step y)
  then show ?case using push_step_inv by (cases y) blast
qed

section \<open>Properties\<close>


text \<open>The operations room is always empty: no sequence of connections, messages and events puts a
  socket into it, so the SOS alert the gateway addresses to it reaches nobody but the parties.\<close>

theorem ops_room_is_empty:
  assumes "(push_step verify G)\<^sup>*\<^sup>* (s0, noSockets) (s, g)" "life_inv s0"
  shows "gw_rooms g OpsEmergency = []"
proof -
  have "c \<notin> members g OpsEmergency" for c using hears_rooms(4) reachable_push_inv [OF assms] by blast
  then have "members g OpsEmergency = {}" by blast
  then show ?thesis by (simp add: members_def)
qed

lemma sent_count:
  "count_list (gw_sent (emitTo rms m g)) (c, m') =
   count_list (gw_sent g) (c, m') + (if m' = m \<and> (\<exists>rm\<in>set rms. c \<in> members g rm) then 1 else 0)"
proof -
  have "count_list (map (\<lambda>c. (c, m)) xs) (c, m') = (if m' = m then count_list xs c else 0)" for xs
    by (induction xs) auto
  moreover have "count_list (remdups xs) c = (if c \<in> set xs then 1 else 0)" for xs
    by (induction xs) (auto simp: count_list_0_iff)
  ultimately show ?thesis by (simp add: emitTo_def members_def)
qed

text \<open>An SOS reaches every socket of the two parties and of the ride's room exactly once, however
  many of the addressed rooms it is in, and nobody else.\<close>

theorem sos_reaches_each_once:
  "count_list (gw_sent (handleEvent (EmergencyTriggered e) g)) (c, MsgSosTriggered e) =
   count_list (gw_sent g) (c, MsgSosTriggered e) +
   (if c \<in> members g (RideRoom (ee_rideId e)) \<or> c \<in> members g OpsEmergency \<or>
       c \<in> members g (UserRoom (ee_userId e)) \<or>
       (\<exists>d. ee_driverId e = Some d \<and> c \<in> members g (DriverRoom d)) then 1 else 0)"
  by (auto simp: handleEmergency_def sent_count split: option.splits)

text \<open>Once a ride has been requested, every later state change of it is sent twice to each socket
  its rider had open then: once through the ride's room, which the request put it into, and once
  through the rider's own room.\<close>

theorem rider_hears_twice:
  assumes "c \<in> members g (UserRoom (r_userId ride))"
  shows "count_list (gw_sent (handleEvent (RideStarted started) (handleEvent (RideRequested ride) g)))
      (c, MsgRideStarted started) =
    count_list (gw_sent g) (c, MsgRideStarted started) +
    (if r_id started = r_id ride \<and> r_userId started = r_userId ride then 2
     else if c \<in> members g (RideRoom (r_id started)) \<or> r_id started = r_id ride then
       (if c \<in> members g (UserRoom (r_userId started)) then 2 else 1)
     else if c \<in> members g (UserRoom (r_userId started)) then 1 else 0)"
  using assms by (auto simp: handleRideRequested_def broadcastToRide_def sent_count)


section \<open>A run\<close>

definition demoVerify :: "string \<Rightarrow> string + JwtPayload" where
  "demoVerify t = Inr \<lparr>jp_sub = Some (if t = ''rider'' then 1 else 2), jp_role = USER,
     jp_type = (if t = ''rider'' then None else Some ''driver'')\<rparr>"

definition demoHandshake :: "string \<Rightarrow> handshake" where
  "demoHandshake t = \<lparr>hs_auth = Some t, hs_header = None\<rparr>"

definition demoSockets :: gateway where
  "demoSockets = snd (handleJoinRide 0 (RideId 4) (demo IN_PROGRESS)
     (handleConnection demoVerify 0 (demoHandshake ''rider'') (demo IN_PROGRESS) noSockets))"

lemma demo_token: "extractToken (demoHandshake ''rider'') = Some ''rider''"
  "extractToken (demoHandshake ''driver'') = Some ''driver''"
  by code_simp+

lemma demo_rider: "resolvePrincipal \<lparr>jp_sub = Some 1, jp_role = USER, jp_type = None\<rparr> (demo st) =
    Inr \<lparr>rp_id = 1, rp_role = USER, rp_row = RowUser (stripUser demoUser)\<rparr>"
  by (simp add: resolvePrincipal_def find_row_defs tbl_find_def) (simp add: demoUser_def)

lemma demoSockets_facts:
  "gw_principal demoSockets 0 = Some ada" "members demoSockets (RideRoom 4) = {0}"
proof -
  let ?g = "handleConnection demoVerify 0 (demoHandshake ''rider'') (demo IN_PROGRESS) noSockets"
  have g: "?g = joinRoom 0 (UserRoom 1) (noSockets\<lparr>gw_principal := (gw_principal noSockets)(0 := Some ada)\<rparr>)"
    using demo_rider [of IN_PROGRESS]
    by (simp add: handleConnection_def demo_token demoVerify_def principalOf_def ada_def)
  have p: "gw_principal ?g 0 = Some ada" by (simp add: g)
  have "isPartyToRide (Some ada) (Some (rideParties (demoRide IN_PROGRESS)))" by code_simp
  then have "demoSockets = joinRoom 0 (RideRoom 4) ?g"
    by (simp add: demoSockets_def handleJoinRide_def p)
  then have d: "demoSockets = joinRoom 0 (RideRoom 4) (joinRoom 0 (UserRoom 1)
      (noSockets\<lparr>gw_principal := (gw_principal noSockets)(0 := Some ada)\<rparr>))"
    unfolding g .
  show "gw_principal demoSockets 0 = Some ada" unfolding d by simp
  show "members demoSockets (RideRoom 4) = {0}"
    unfolding d members_simps by (simp add: members_def noSockets_def)
qed

lemma demoSockets_reachable:
  "(push_step demoVerify demoGeo)\<^sup>*\<^sup>* (demo IN_PROGRESS, noSockets) (demo IN_PROGRESS, demoSockets)"
proof -
  have "push_step demoVerify demoGeo (demo IN_PROGRESS, noSockets) (demo IN_PROGRESS,
      handleConnection demoVerify 0 (demoHandshake ''rider'') (demo IN_PROGRESS) noSockets)"
    by (rule push_step.connected) (simp add: noSockets_def)
  then show ?thesis
    unfolding demoSockets_def by (rule converse_rtranclp_into_rtranclp) (rule r_into_rtranclp, rule push_step.joined)
qed


lemma ops_room_is_empty_witness: "gw_rooms demoSockets OpsEmergency = [] \<and> gw_rooms demoSockets (RideRoom 4) \<noteq> []"
proof -
  have "gw_rooms demoSockets (RideRoom 4) \<noteq> []"
    using demoSockets_facts(2) unfolding members_def by force
  with ops_room_is_empty [OF demoSockets_reachable demo_life_inv] show ?thesis by (rule conjI)
qed

lemma rider_hears_twice_witness:
  "let g = handleConnection demoVerify 0 (demoHandshake ''rider'') (demo REQUESTED) noSockets;
       r = demoRide REQUESTED
   in count_list (gw_sent (handleEvent (RideStarted r) (handleEvent (RideRequested r) g)))
        (0, MsgRideStarted r) = 2"
proof -
  let ?g = "handleConnection demoVerify 0 (demoHandshake ''rider'') (demo REQUESTED) noSockets"
  have g: "?g = joinRoom 0 (UserRoom 1) (noSockets\<lparr>gw_principal := (gw_principal noSockets)(0 := Some ada)\<rparr>)"
    using demo_rider [of REQUESTED]
    by (simp add: handleConnection_def demo_token demoVerify_def principalOf_def ada_def)
  then have "0 \<in> members ?g (UserRoom (r_userId (demoRide REQUESTED)))" by simp
  moreover have "gw_sent ?g = []" unfolding g by (simp add: noSockets_def)
  ultimately show ?thesis
    using rider_hears_twice [of 0 ?g "demoRide REQUESTED" "demoRide REQUESTED"] by (simp del: handleEvent.simps)
qed


end
