(* ===== verification/RequestParser.thy ===== *)
theory RequestParser
  imports JsString Domain
begin

text \<open>
  \<open>src/booking-channels/parsers/rule-based-ride-parser.service.ts\<close> and
  \<open>src/booking-channels/geocoding/geocoding.provider.ts\<close>: from a chat message to a category and
  two place names, and from a place name to coordinates.

  The regular expressions are written out as the search they denote: the start positions from left
  to right, and at each the ways to match in the order a backtracking matcher tries them, longest
  white space first for \<open>\s+\<close>, shortest text first for \<open>.+?\<close>.
\<close>

section \<open>Characters\<close>

definition is_word :: "char \<Rightarrow> bool" where
  "is_word c \<longleftrightarrow> (let n = of_char c :: nat in
     48 \<le> n \<and> n \<le> 57 \<or> 65 \<le> n \<and> n \<le> 90 \<or> 97 \<le> n \<and> n \<le> 122 \<or> n = 95)"

definition is_newline :: "char \<Rightarrow> bool" where
  "is_newline c \<longleftrightarrow> of_char c \<in> {10, 13 :: nat}"

text \<open>\<open>\b\<close> between the character before a position and the text from it.\<close>

definition word_at :: "char option \<Rightarrow> bool" where
  "word_at p = (case p of None \<Rightarrow> False | Some c \<Rightarrow> is_word c)"

definition hd_opt :: "string \<Rightarrow> char option" where
  "hd_opt s = (case s of [] \<Rightarrow> None | c # _ \<Rightarrow> Some c)"

definition boundary :: "char option \<Rightarrow> string \<Rightarrow> bool" where
  "boundary p s \<longleftrightarrow> word_at p \<noteq> word_at (hd_opt s)"

definition spaces :: "string \<Rightarrow> nat" where
  "spaces s = length (takeWhile is_ws s)"

text \<open>The counts \<open>\s+\<close> tries: all the white space there is, then less, at least one.\<close>

definition space_counts :: "string \<Rightarrow> nat list" where
  "space_counts s = rev [1..<Suc (spaces s)]"

section \<open>The category\<close>

definition categoryKeywords :: "(string \<times> RideCategory) list" where
  "categoryKeywords =
     [(''shared keke'', SHARED), (''share keke'', SHARED), (''shared ride'', SHARED),
      (''whole keke'', PRIVATE), (''private keke'', PRIVATE), (''keke napep'', PRIVATE),
      (''tricycle'', PRIVATE), (''keke'', PRIVATE), (''okada'', OKADA), (''motorcycle'', OKADA),
      (''motorbike'', OKADA), (''bike'', OKADA), (''taxi'', CAR), (''cab'', CAR), (''car'', CAR)]"

definition extractCategory :: "string \<Rightarrow> RideCategory option" where
  "extractCategory text = map_option snd (find (\<lambda>(keyword, _). js_includes text keyword) categoryKeywords)"

section \<open>The route\<close>

text \<open>\<open>\s+(.+?)$\<close>: the last group, up to the end of the text.\<close>

definition lastGroups :: "string \<Rightarrow> string list" where
  "lastGroups s = concat (map (\<lambda>j. let g = drop j s
     in if g \<noteq> [] \<and> list_all (\<lambda>c. \<not> is_newline c) g then [g] else []) (space_counts s))"

text \<open>\<open>\s+(.+?)\s+to\s+(.+?)$\<close>.\<close>

definition toGroups :: "string \<Rightarrow> string list" where
  "toGroups s = concat (map (\<lambda>m. let r = drop m s
     in if take 2 r = ''to'' then lastGroups (drop 2 r) else []) (space_counts s))"

definition routeGroups :: "string \<Rightarrow> (string \<times> string) list" where
  "routeGroups s = concat (map (\<lambda>n. let r = drop n s
     in concat (map (\<lambda>k. if list_all (\<lambda>c. \<not> is_newline c) (take k r)
          then map (\<lambda>g. (take k r, g)) (toGroups (drop k r)) else []) [1..<Suc (length r)]))
     (space_counts s))"

text \<open>The matches of \<open>\bfrom...\<close> and \<open>\bto...\<close>, leftmost first.\<close>

fun searchFrom :: "char option \<Rightarrow> string \<Rightarrow> (string \<times> string) list" where
  "searchFrom p [] = []"
| "searchFrom p (c # s) =
     (if boundary p (c # s) \<and> take 4 (c # s) = ''from'' then routeGroups (drop 4 (c # s)) else []) @
     searchFrom (Some c) s"

fun searchTo :: "char option \<Rightarrow> string \<Rightarrow> string list" where
  "searchTo p [] = []"
| "searchTo p (c # s) =
     (if boundary p (c # s) \<and> take 2 (c # s) = ''to'' then lastGroups (drop 2 (c # s)) else []) @
     searchTo (Some c) s"

text \<open>\<open>clean\<close>: polite words, then the punctuation at the end, then the white space around.\<close>

definition politeWords :: "string list" where
  "politeWords = [''please'', ''abeg'', ''now'', ''asap'', ''thanks'', ''thank you'']"

definition politeAt :: "char option \<Rightarrow> string \<Rightarrow> nat option" where
  "politeAt p s =
     (if boundary p s
      then map_option length (find (\<lambda>w. js_lower (take (length w) s) = w \<and>
             boundary (Some (last w)) (drop (length w) s)) politeWords)
      else None)"

fun dropPolite :: "char option \<Rightarrow> nat \<Rightarrow> string \<Rightarrow> string" where
  "dropPolite p k [] = []"
| "dropPolite p (Suc k) (c # s) = dropPolite (Some c) k s"
| "dropPolite p 0 (c # s) =
     (case politeAt p (c # s) of
        Some n \<Rightarrow> dropPolite (Some c) (n - 1) s
      | None \<Rightarrow> c # dropPolite (Some c) 0 s)"

definition clean :: "string \<Rightarrow> string option" where
  "clean value =
     (let cleaned = js_trim (rev (dropWhile (\<lambda>c. c \<in> set ''.,!?'') (rev (dropPolite None 0 value))))
      in if cleaned \<noteq> [] then Some cleaned else None)"

definition extractRoute :: "string \<Rightarrow> string option \<times> string option" where
  "extractRoute text =
     (case searchFrom None text of
        (a, b) # _ \<Rightarrow> (clean a, clean b)
      | [] \<Rightarrow> (case searchTo None text of g # _ \<Rightarrow> (None, clean g) | [] \<Rightarrow> (None, None)))"

section \<open>The parser\<close>

record ParsedRideIntent =
  pi_category :: RideCategory
  pi_pickupText :: string
  pi_dropoffText :: string
  pi_confidence :: nat

record Understood =
  un_category :: "RideCategory option"
  un_pickupText :: "string option"
  un_dropoffText :: "string option"

record ParseAmbiguity =
  am_reason :: string
  am_missingFields :: "string list"
  am_question :: string
  am_partial :: Understood

definition buildQuestion :: "string list \<Rightarrow> string" where
  "buildQuestion missingFields =
     (if ''category'' \<in> set missingFields
      then ''Which ride would you like - Whole Keke, Shared Keke, Okada, or Car?''
      else if ''pickup'' \<in> set missingFields \<and> ''dropoff'' \<in> set missingFields
      then ''Where are you starting from, and where are you going?''
      else if ''pickup'' \<in> set missingFields then ''Where should the driver pick you up?''
      else ''Where would you like to go?'')"

text \<open>\<open>xs.join(sep)\<close>.\<close>

definition joinWith :: "string \<Rightarrow> string list \<Rightarrow> string" where
  "joinWith sep xs = (case xs of [] \<Rightarrow> [] | x # ys \<Rightarrow> foldl (\<lambda>acc y. acc @ sep @ y) x ys)"

definition missingOf :: "RideCategory option \<Rightarrow> string option \<Rightarrow> string option \<Rightarrow> string list" where
  "missingOf category pickupText dropoffText =
     (if category = None then [''category''] else []) @
     (if pickupText = None then [''pickup''] else []) @
     (if dropoffText = None then [''dropoff''] else [])"

definition parse :: "string \<Rightarrow> ParseAmbiguity + ParsedRideIntent" where
  "parse rawText =
     (let text = js_trim (js_lower rawText);
          category = extractCategory text;
          (pickupText, dropoffText) = extractRoute text;
          missingFields = missingOf category pickupText dropoffText
      in case (category, pickupText, dropoffText) of
           (Some k, Some a, Some b) \<Rightarrow>
             Inr \<lparr>pi_category = k, pi_pickupText = a, pi_dropoffText = b,
               pi_confidence = 1\<rparr>
         | _ \<Rightarrow> Inl \<lparr>am_reason = ''Could not determine: '' @ joinWith '', '' missingFields,
             am_missingFields = missingFields, am_question = buildQuestion missingFields,
             am_partial = \<lparr>un_category = category, un_pickupText = pickupText,
               un_dropoffText = dropoffText\<rparr>\<rparr>)"

section \<open>Landmarks\<close>

definition landmarks :: "(string \<times> Location) list" where
  "landmarks =
     [(''futa'', \<lparr>l_address = ''Federal University of Technology, Akure'',
         l_lat = js_lit (73008/10000), l_lng = js_lit (51352/10000)\<rparr>),
      (''market square'', \<lparr>l_address = ''Market Square, Akure'',
         l_lat = js_lit (72526/10000), l_lng = js_lit (51931/10000)\<rparr>),
      (''akure airport'', \<lparr>l_address = ''Akure Airport, Ondo State'',
         l_lat = js_lit (72467/10000), l_lng = js_lit (53011/10000)\<rparr>),
      (''oja oba'', \<lparr>l_address = ''Oja Oba Market, Akure'',
         l_lat = js_lit (72508/10000), l_lng = js_lit (51948/10000)\<rparr>),
      (''shoprite'', \<lparr>l_address = ''Shoprite, Akure Mall'',
         l_lat = js_lit (72465/10000), l_lng = js_lit (51943/10000)\<rparr>),
      (''ikeja'', \<lparr>l_address = ''Ikeja, Lagos'',
         l_lat = js_lit (66018/10000), l_lng = js_lit (33515/10000)\<rparr>)]"

definition geocode :: "string \<Rightarrow> Location option" where
  "geocode placeName =
     (let needle = js_trim (js_lower placeName)
      in map_option snd (find (\<lambda>(landmark, _). js_includes needle landmark \<or> js_includes landmark needle)
           landmarks))"

end
