(* ===== verification/BookingChannels.thy ===== *)
theory BookingChannels
  imports RequestParser Users RideLifecycle
begin

text \<open>
  \<open>src/booking-channels/booking-channels.service.ts\<close> and the guard of its endpoint: booking a ride
  from a chat message or a voice transcript, for the rider behind a phone number.
\<close>

section \<open>The guard\<close>

definition internalApiKeyGuard :: "string option \<Rightarrow> string option \<Rightarrow> unit outcome" where
  "internalApiKeyGuard configured provided =
     (case configured of
        None \<Rightarrow> Inl (UnauthorizedException ''Channel integration is not configured'')
      | Some key \<Rightarrow>
          if key = [] then Inl (UnauthorizedException ''Channel integration is not configured'')
          else if provided = None \<or> provided = Some [] \<or> provided \<noteq> Some key
          then Inl (UnauthorizedException ''Invalid internal API key'')
          else Inr ())"

section \<open>The service\<close>

record ParseAndBookDto =
  pb_rawText :: string
  pb_channel :: RideOriginChannel
  pb_callerPhone :: "string option"
  pb_pickup :: "Location option"
  pb_dropoff :: "Location option"

datatype BookingReply =
    ClarificationNeeded string "string list" Understood
  | Booked string Understood Ride

fun categoryText :: "RideCategory \<Rightarrow> string" where
  "categoryText PRIVATE = ''private''"
| "categoryText SHARED = ''shared''"
| "categoryText OKADA = ''okada''"
| "categoryText CAR = ''car''"

definition guestRider :: "string \<Rightarrow> User" where
  "guestRider callerPhone = blankUser\<lparr>
     u_name := ''Guest '' @ drop (length callerPhone - 4) callerPhone,
     u_email := filter is_digit callerPhone @ ''@guest.arkrides.local'',
     u_phone := Some callerPhone, u_password := None, u_provider := Some ''omnichannel'',
     u_isVerified := False, u_role := USER\<rparr>"

definition resolveRider :: "string option \<Rightarrow> (sys, User) handler" where
  "resolveRider callerPhone s =
     (case callerPhone of
        None \<Rightarrow> (Inl (BadRequestException
                  ''callerPhone is required to identify the rider on this channel''), s)
      | Some phone \<Rightarrow>
          if phone = [] then (Inl (BadRequestException
                  ''callerPhone is required to identify the rider on this channel''), s)
          else (case findUserByPhone phone s of
                  Some user \<Rightarrow> (Inr user, s)
                | None \<Rightarrow> createUser (guestRider phone) s))"

definition understoodOf :: "ParsedRideIntent \<Rightarrow> Understood" where
  "understoodOf p = \<lparr>un_category = Some (pi_category p), un_pickupText = Some (pi_pickupText p),
     un_dropoffText = Some (pi_dropoffText p)\<rparr>"

definition unresolvedReply ::
  "ParsedRideIntent \<Rightarrow> Location option \<Rightarrow> Location option \<Rightarrow> BookingReply" where
  "unresolvedReply parsed pickup dropoff =
     (let unresolved = (if pickup = None then [pi_pickupText parsed] else []) @
            (if dropoff = None then [pi_dropoffText parsed] else [])
      in ClarificationNeeded (''I could not find '' @ joinWith '' or '' unresolved @
           ''. Could you share the location, or give a nearby landmark?'')
           ((if pickup = None then [''pickup''] else []) @ (if dropoff = None then [''dropoff''] else []))
           (understoodOf parsed))"

definition orElse :: "'a option \<Rightarrow> 'a option \<Rightarrow> 'a option" where
  "orElse a b = (case a of None \<Rightarrow> b | Some x \<Rightarrow> Some x)"

definition parseAndBook :: "jsMath \<Rightarrow> ParseAndBookDto \<Rightarrow> (sys, BookingReply) handler" where
  "parseAndBook m dto s =
     (case parse (pb_rawText dto) of
        Inl amb \<Rightarrow> (Inr (ClarificationNeeded (am_question amb) (am_missingFields amb) (am_partial amb)), s)
      | Inr parsed \<Rightarrow>
          let pickup = orElse (pb_pickup dto) (geocode (pi_pickupText parsed));
              dropoff = orElse (pb_dropoff dto) (geocode (pi_dropoffText parsed))
          in (case (pickup, dropoff) of
                (Some a, Some b) \<Rightarrow>
                  (case resolveRider (pb_callerPhone dto) s of
                     (Inl e, s1) \<Rightarrow> (Inl e, s1)
                   | (Inr user, s1) \<Rightarrow>
                       (case createRide m \<lparr>cr_userId = u_id user, cr_pickup = a, cr_dropoff = b,
                              cr_category = pi_category parsed,
                              cr_originChannel = Some (pb_channel dto)\<rparr> s1 of
                          (Inl e, s2) \<Rightarrow> (Inl e, s2)
                        | (Inr ride, s2) \<Rightarrow>
                            (Inr (Booked (''Your '' @ categoryText (pi_category parsed) @ '' ride from '' @
                               l_address a @ '' to '' @ l_address b @ '' has been requested.'')
                               (understoodOf parsed) ride), s2)))
              | _ \<Rightarrow> (Inr (unresolvedReply parsed pickup dropoff), s)))"

section \<open>Unclear messages\<close>

lemma resolveRider_Inr:
  assumes "resolveRider cp s = (Inr user, s1)" "wf_sys s"
  shows "findUser (u_id user) s1 = Some user \<and> u_phone user = cp \<and> rides s1 = rides s \<and> nextId s \<le> nextId s1"
proof -
  obtain phone where phone: "cp = Some phone" "phone \<noteq> []"
    using assms(1) by (auto simp: resolveRider_def split: option.splits if_splits)
  show ?thesis
  proof (cases "findUserByPhone phone s")
    case (Some u)
    then have "u \<in> set (users s)" "u_phone u = Some phone"
      by (auto simp: findUserByPhone_def dest: find_SomeD)
    then show ?thesis
      using assms Some phone userRepo.findById_member [OF wf_distinct(2) [OF assms(2)], of u]
      by (simp add: resolveRider_def)
  next
    case None
    let ?g = "(guestRider phone)\<lparr>u_id := nextId s, u_createdAt := now s\<rparr>"
    have "user = ?g" "s1 = saveUser ?g (s\<lparr>nextId := Suc (nextId s)\<rparr>)"
      using assms(1) None phone
      by (auto simp: resolveRider_def createUser_def freshId_def Let_def storeUser_def split: if_splits)
    then show ?thesis
      using phone userRepo.findById_save_same [of ?g "s\<lparr>nextId := Suc (nextId s)\<rparr>"]
      by (simp add: guestRider_def)
  qed
qed

lemma question_nonempty: "buildQuestion missing \<noteq> []"
  by (simp add: buildQuestion_def)

lemma parse_missing: "parse raw = Inl amb \<Longrightarrow> am_missingFields amb \<noteq> [] \<and> am_question amb \<noteq> []"
  by (auto simp: parse_def Let_def missingOf_def question_nonempty split: prod.splits option.splits)

text \<open>C34: A message books a ride only when it names a category, a pickup and a destination and both
  places have coordinates; then exactly one ride is added, for the rider of the caller's number,
  with the category of the message and the channel of the request. Any other message is answered
  with a question that names what is missing, and changes nothing.\<close>

theorem booking_needs_all:
  assumes "parseAndBook m dto s = (Inr reply, s')" "wf_sys s"
  shows "case reply of
     ClarificationNeeded question missing understood \<Rightarrow> s' = s \<and> missing \<noteq> [] \<and> question \<noteq> []
   | Booked message understood ride \<Rightarrow>
       (\<exists>p. parse (pb_rawText dto) = Inr p \<and> understood = understoodOf p \<and> r_category ride = pi_category p \<and>
          r_status ride = REQUESTED \<and> r_originChannel ride = pb_channel dto \<and>
          Some (r_pickup ride) = orElse (pb_pickup dto) (geocode (pi_pickupText p)) \<and>
          Some (r_dropoff ride) = orElse (pb_dropoff dto) (geocode (pi_dropoffText p))) \<and>
       (\<exists>u. findUser (r_userId ride) s' = Some u \<and> u_phone u = pb_callerPhone dto \<and> \<not> u_isBlocked u) \<and>
       rides s' = rides s @ [ride]"
proof (cases "parse (pb_rawText dto)")
  case (Inl amb)
  then show ?thesis using assms(1) parse_missing [OF Inl] by (auto simp: parseAndBook_def)
next
  case (Inr p)
  let ?a = "orElse (pb_pickup dto) (geocode (pi_pickupText p))"
  let ?b = "orElse (pb_dropoff dto) (geocode (pi_dropoffText p))"
  show ?thesis
  proof (cases "?a = None \<or> ?b = None")
    case True
    then have "reply = unresolvedReply p ?a ?b" "s' = s"
      using assms(1) Inr by (auto simp: parseAndBook_def Let_def split: option.splits)
    then show ?thesis using True by (auto simp: unresolvedReply_def Let_def)
  next
    case False
    then obtain a b where ab: "?a = Some a" "?b = Some b" by auto
    obtain user s1 where user: "resolveRider (pb_callerPhone dto) s = (Inr user, s1)"
      using assms(1) Inr ab by (auto simp: parseAndBook_def split: prod.splits sum.splits)
    let ?dto = "\<lparr>cr_userId = u_id user, cr_pickup = a, cr_dropoff = b,
      cr_category = pi_category p, cr_originChannel = Some (pb_channel dto)\<rparr>"
    obtain ride where ride: "createRide m ?dto s1 = (Inr ride, s')"
      and reply: "\<exists>msg. reply = Booked msg (understoodOf p) ride"
      using assms(1) Inr ab user by (auto simp: parseAndBook_def split: prod.splits sum.splits)
    note u = resolveRider_Inr [OF user assms(2)]
    from ride show ?thesis
    proof (rule createRide_Inr)
      fix v km fare
      assume v: "findUser (cr_userId ?dto) s1 = Some v" "\<not> u_isBlocked v"
        and r: "ride = newRide ?dto s1 km fare"
        and s': "s' = emit (RideRequested ride) (saveRide ride (snd (freshId
           (redis_set_ex (bookingKey ?dto) (RText ''locked'') 30 s1))))"
      have "r_id ride \<notin> r_id ` set (rides s1)"
        using u assms(2) r by (force simp: wf_defs newRide_def)
      then have rides: "rides s' = rides s @ [ride]" unfolding s' using u rideRepo.save_insert by simp
      have "findUser (r_userId ride) s' = Some v" unfolding s' using v(1) r
        by (simp add: newRide_def freshId_def findUser_def)
      moreover have "v = user" using v(1) u by simp
      ultimately show ?thesis
        using reply rides v(2) u Inr ab r by (auto simp: newRide_def)
    qed
  qed
qed

section \<open>Reading a message back\<close>

text \<open>A place name of lower-case letters that is no polite word.\<close>

definition plain_name :: "string \<Rightarrow> bool" where
  "plain_name x \<longleftrightarrow> x \<noteq> [] \<and> list_all (\<lambda>c. 97 \<le> (of_char c :: nat) \<and> (of_char c :: nat) \<le> 122) x \<and>
     x \<notin> set politeWords"

lemma letter_facts:
  assumes "97 \<le> (of_char c :: nat)" "(of_char c :: nat) \<le> 122"
  shows "is_word c" "\<not> is_ws c" "\<not> is_newline c" "lower_char c = c" "c \<notin> set ''.,!?''"
proof -
  show "is_word c" "\<not> is_ws c" "\<not> is_newline c" "lower_char c = c"
    using assms by (auto simp: is_word_def is_ws_def is_newline_def lower_char_def Let_def)
  have "\<forall>d\<in>set ''.,!?''. (of_char d :: nat) < 97" by simp
  then show "c \<notin> set ''.,!?''" using assms(1) by force
qed

lemma plain_letters:
  assumes "plain_name x" "c \<in> set x"
  shows "is_word c" "\<not> is_ws c" "\<not> is_newline c" "lower_char c = c" "c \<notin> set ''.,!?''"
  using assms letter_facts by (auto simp: plain_name_def list_all_iff)

lemma dropPolite_inside:
  "\<forall>c\<in>set s. is_word c \<Longrightarrow> word_at p \<Longrightarrow> dropPolite p 0 s = s"
  by (induction s arbitrary: p) (auto simp: politeAt_def boundary_def hd_opt_def word_at_def)

lemma politeAt_plain:
  assumes "plain_name x"
  shows "politeAt None x = None"
proof -
  have w: "\<forall>c\<in>set x. is_word c" using plain_letters(1) [OF assms] by blast
  have low: "js_lower (take n x) = take n x" for n
  proof -
    have "\<forall>c\<in>set (take n x). lower_char c = c"
      using plain_letters(4) [OF assms] by (auto dest: in_set_takeD)
    then show ?thesis by (simp add: js_lower_def map_idI)
  qed
  have "\<not> (js_lower (take (length w) x) = w \<and> boundary (Some (last w)) (drop (length w) x))"
    if "w \<in> set politeWords" for w
  proof
    assume a: "js_lower (take (length w) x) = w \<and> boundary (Some (last w)) (drop (length w) x)"
    then have t: "take (length w) x = w" by (simp add: low)
    have "w \<noteq> []" using that by (auto simp: politeWords_def)
    then have "last w \<in> set x" using t by (metis in_set_takeD last_in_set)
    then have "word_at (Some (last w))" using w by (simp add: word_at_def)
    have "drop (length w) x = []"
    proof (cases "drop (length w) x")
      case (Cons d ds)
      then have "d \<in> set x" by (intro in_set_dropD [of d "length w" x]) simp
      then show ?thesis using a w Cons \<open>word_at (Some (last w))\<close>
        by (simp add: boundary_def hd_opt_def word_at_def)
    qed simp
    then have "x = w" using t by (metis append_Nil2 append_take_drop_id)
    then show False using that assms by (simp add: plain_name_def)
  qed
  then show ?thesis by (auto simp: politeAt_def find_None_iff)
qed

lemma dropWhile_none: "\<forall>c\<in>set y. \<not> P c \<Longrightarrow> dropWhile P y = y"
  by (cases y) auto

lemma clean_plain:
  assumes "plain_name x"
  shows "clean x = Some x"
proof -
  obtain c s where x: "x = c # s" using assms by (cases x) (auto simp: plain_name_def)
  have "dropPolite None 0 x = x"
    using politeAt_plain [OF assms] plain_letters(1) [OF assms] dropPolite_inside [of s "Some c"]
    by (simp add: x word_at_def)
  moreover have "dropWhile (\<lambda>c. c \<in> set ''.,!?'') (rev x) = rev x"
    using plain_letters(5) [OF assms] by (intro dropWhile_none) auto
  moreover have "js_trim x = x"
    using plain_letters(2) [OF assms] by (simp add: js_trim_def dropWhile_none)
  ultimately show ?thesis using x by (simp add: clean_def)
qed

lemma lower_plain: "plain_name x \<Longrightarrow> js_lower x = x"
  using plain_letters(4) by (simp add: js_lower_def map_idI)

lemma js_trim_id: "s \<noteq> [] \<Longrightarrow> \<not> is_ws (hd s) \<Longrightarrow> \<not> is_ws (last s) \<Longrightarrow> js_trim s = s"
proof -
  assume a: "s \<noteq> []" "\<not> is_ws (hd s)" "\<not> is_ws (last s)"
  then have "dropWhile is_ws s = s" "dropWhile is_ws (rev s) = rev s"
    by (cases s; simp) (use a in \<open>cases "rev s"; simp\<close>)
  then show "js_trim s = s" by (simp add: js_trim_def)
qed

lemma js_includes_prefix: "js_includes (w @ s) w"
  by (cases "w @ s") (auto simp: take_Cons' append_eq_Cons_conv split: if_splits)

lemma keyword_facts:
  assumes "(w, k) \<in> set categoryKeywords"
  shows "w \<noteq> []" "CHR ''f'' \<notin> set w" "js_lower w = w" "\<not> is_ws (hd w)"
  using assms by (auto simp: categoryKeywords_def js_lower_def lower_char_def is_ws_def)

text \<open>Where no \<open>f\<close> stands, no route starts.\<close>

lemma searchFrom_skip:
  "CHR ''f'' \<notin> set w \<Longrightarrow> searchFrom p (w @ s) = searchFrom (if w = [] then p else Some (last w)) s"
  by (induction w arbitrary: p) (auto simp: take_Cons')

lemma spaces_before: "s \<noteq> [] \<Longrightarrow> \<not> is_ws (hd s) \<Longrightarrow> space_counts (CHR '' '' # s) = [1]"
  by (cases s) (auto simp: space_counts_def spaces_def is_ws_def)

lemma no_spaces: "s \<noteq> [] \<Longrightarrow> \<not> is_ws (hd s) \<Longrightarrow> space_counts s = []"
  by (cases s) (auto simp: space_counts_def spaces_def)

lemma plain_hd: "plain_name x \<Longrightarrow> x \<noteq> [] \<and> \<not> is_ws (hd x) \<and> \<not> is_ws (last x)"
  using plain_letters(2) by (auto simp: plain_name_def)

lemma toGroups_plain:
  assumes "plain_name y"
  shows "toGroups ('' to '' @ y) = [y]"
proof -
  have y: "y \<noteq> []" "\<not> is_ws (hd y)" using plain_hd [OF assms] by auto
  have "lastGroups (CHR '' '' # y) = [y]"
    using spaces_before [OF y] y plain_letters(3) [OF assms] by (simp add: lastGroups_def list_all_iff)
  moreover have "space_counts (CHR '' '' # (''to '' @ y)) = [1]"
    by (rule spaces_before) (simp_all add: is_ws_def)
  ultimately show ?thesis by (simp add: toGroups_def numeral_2_eq_2)
qed

lemma toGroups_letter: "s \<noteq> [] \<Longrightarrow> \<not> is_ws (hd s) \<Longrightarrow> toGroups s = []"
  by (simp add: toGroups_def no_spaces)

lemma concat_first:
  assumes "\<And>k. a \<le> k \<Longrightarrow> k < n \<Longrightarrow> f k = []" "a \<le> n" "n < b"
  shows "concat (map f [a..<b]) = f n @ concat (map f [Suc n..<b])"
proof -
  have "[a..<b] = [a..<n] @ n # [Suc n..<b]"
    using assms(2,3) by (metis upt_conv_Cons upt_add_eq_append le_add_diff_inverse less_imp_le_nat)
  moreover have "concat (map f [a..<n]) = []" using assms(1) by auto
  ultimately show ?thesis by simp
qed

lemma routeGroups_one:
  "space_counts (c # r) = [1] \<Longrightarrow> routeGroups (c # r) =
     concat (map (\<lambda>k. if list_all (\<lambda>c. \<not> is_newline c) (take k r)
       then map (\<lambda>g. (take k r, g)) (toGroups (drop k r)) else []) [1..<Suc (length r)])"
proof -
  assume "space_counts (c # r) = [1]"
  moreover have "drop 1 (c # r) = r" by simp
  ultimately show "routeGroups (c # r) = concat (map (\<lambda>k. if list_all (\<lambda>c. \<not> is_newline c) (take k r)
       then map (\<lambda>g. (take k r, g)) (toGroups (drop k r)) else []) [1..<Suc (length r)])"
    unfolding routeGroups_def Let_def by (simp only: list.map concat.simps append_Nil2)
qed

lemma routeGroups_plain:
  assumes "plain_name x" "plain_name y"
  shows "\<exists>more. routeGroups ('' '' @ x @ '' to '' @ y) = (x, y) # more"
proof -
  let ?r = "x @ '' to '' @ y"
  let ?f = "\<lambda>k. if list_all (\<lambda>c. \<not> is_newline c) (take k ?r)
          then map (\<lambda>g. (take k ?r, g)) (toGroups (drop k ?r)) else []"
  have x: "x \<noteq> []" "\<not> is_ws (hd x)" using plain_hd [OF assms(1)] by auto
  have "concat (map ?f [1..<Suc (length ?r)]) =
    ?f (length x) @ concat (map ?f [Suc (length x)..<Suc (length ?r)])"
  proof (rule concat_first)
    fix k assume k: "1 \<le> k" "k < length x"
    then have "hd (drop k ?r) \<in> set x" by (simp add: hd_append hd_drop_conv_nth)
    then have "toGroups (drop k ?r) = []"
      using plain_letters(2) [OF assms(1)] k by (intro toGroups_letter) auto
    then show "?f k = []" by simp
  qed (use x in \<open>auto simp: Suc_le_eq\<close>)
  moreover have "?f (length x) = [(x, y)]"
    using toGroups_plain [OF assms(2)] plain_letters(3) [OF assms(1)] by (simp add: list_all_iff)
  moreover have "space_counts (CHR '' '' # ?r) = [1]" using x by (intro spaces_before) auto
  ultimately have "routeGroups (CHR '' '' # ?r) =
    (x, y) # concat (map ?f [Suc (length x)..<Suc (length ?r)])"
    unfolding routeGroups_one [OF \<open>space_counts (CHR '' '' # ?r) = [1]\<close>] by (simp only: append.simps)
  then show ?thesis by auto
qed

lemma extractRoute_plain:
  assumes "(w, k) \<in> set categoryKeywords" "plain_name x" "plain_name y"
  shows "extractRoute (w @ '' from '' @ x @ '' to '' @ y) = (Some x, Some y)"
proof -
  let ?s = "'' '' @ x @ '' to '' @ y"
  obtain more where more: "routeGroups ?s = (x, y) # more"
    using routeGroups_plain [OF assms(2,3)] by auto
  have "searchFrom None ((w @ '' '') @ (''from'' @ ?s)) = searchFrom (Some CHR '' '') (''from'' @ ?s)"
    using keyword_facts(2) [OF assms(1)] by (subst searchFrom_skip) auto
  moreover have "boundary (Some CHR '' '') (''from'' @ ?s)"
    by (simp add: boundary_def word_at_def hd_opt_def is_word_def)
  ultimately have "\<exists>more. searchFrom None (w @ '' from '' @ x @ '' to '' @ y) = (x, y) # more"
    using more by simp
  then show ?thesis using clean_plain assms(2,3) by (auto simp: extractRoute_def)
qed

lemma extractCategory_only:
  assumes "(w, k) \<in> set categoryKeywords"
    and "\<forall>(v, l)\<in>set (takeWhile (\<lambda>e. e \<noteq> (w, k)) categoryKeywords). js_includes (w @ s) v \<longrightarrow> l = k"
  shows "extractCategory (w @ s) = Some k"
proof -
  have "map_option snd (find (\<lambda>(v, _). js_includes (w @ s) v) es) = Some k"
    if "(w, k) \<in> set es"
      "\<forall>(v, l)\<in>set (takeWhile (\<lambda>e. e \<noteq> (w, k)) es). js_includes (w @ s) v \<longrightarrow> l = k" for es
    using that
  proof (induction es)
    case (Cons e es)
    show ?case
      using Cons by (cases e; cases "e = (w, k)"; cases "js_includes (w @ s) (fst e)")
        (auto simp: js_includes_prefix)
  qed simp
  then show ?thesis using assms by (simp add: extractCategory_def)
qed



section \<open>Concrete messages\<close>

text \<open>A finding: the category is looked for inside words, so a message that names no vehicle is
  booked as a car when a place or a person in it contains \<open>car\<close>.\<close>

theorem category_found_inside_a_word:
  "parse ''pick oscar from futa to ikeja'' =
     Inr \<lparr>pi_category = CAR, pi_pickupText = ''futa'', pi_dropoffText = ''ikeja'', pi_confidence = 1\<rparr>"
  by code_simp

text \<open>A finding: any piece of a landmark's name counts as that landmark.\<close>

theorem letter_is_a_landmark:
  "map_option l_address (geocode ''a'') = Some ''Federal University of Technology, Akure''"
  by code_simp

text \<open>A finding: a request that carries both coordinates is still refused when the text names no
  origin.\<close>

definition pinnedRequest :: ParseAndBookDto where
  "pinnedRequest = \<lparr>pb_rawText = ''car to ikeja'', pb_channel = APP, pb_callerPhone = Some ''0801'',
     pb_pickup = Some demoPlace, pb_dropoff = Some demoPlace\<rparr>"

theorem pin_does_not_replace_text:
  "parseAndBook m pinnedRequest s =
     (Inr (ClarificationNeeded ''Where should the driver pick you up?'' [''pickup'']
        \<lparr>un_category = Some CAR, un_pickupText = None, un_dropoffText = Some ''ikeja''\<rparr>), s)"
proof -
  have "parse ''car to ikeja'' = Inl \<lparr>am_reason = ''Could not determine: pickup'', am_missingFields = [''pickup''],
      am_question = ''Where should the driver pick you up?'',
      am_partial = \<lparr>un_category = Some CAR, un_pickupText = None, un_dropoffText = Some ''ikeja''\<rparr>\<rparr>"
    by code_simp
  then show ?thesis by (simp add: parseAndBook_def pinnedRequest_def)
qed

text \<open>A finding: the placeholder address keeps only the digits of the number, so the second of two
  callers whose numbers differ in punctuation cannot be served.\<close>

theorem guest_email_collides:
  "(case resolveRider (Some ''2348011'') (demo REQUESTED) of
      (Inr _, s') \<Rightarrow> isl (fst (resolveRider (Some ''+2348011'') s')) | _ \<Rightarrow> False)"
  by code_simp

text \<open>A booking for a first-time caller.\<close>

definition demoMessage :: ParseAndBookDto where
  "demoMessage = \<lparr>pb_rawText = ''Share keke from A to b'', pb_channel = APP,
     pb_callerPhone = Some ''0801'', pb_pickup = Some demoPlace, pb_dropoff = Some demoPlace\<rparr>"


lemma demoMessage_parse:
  "parse (pb_rawText demoMessage) =
     Inr \<lparr>pi_category = SHARED, pi_pickupText = ''a'', pi_dropoffText = ''b'', pi_confidence = 1\<rparr>"
  by code_simp

lemma demoMessage_booked:
  "\<exists>msg p ride s'. parseAndBook demoMath demoMessage demoStart = (Inr (Booked msg p ride), s')"
  by (simp add: parseAndBook_def demoMessage_parse demoMessage_def [THEN arg_cong [of _ _ pb_pickup]]
      demoMessage_def [THEN arg_cong [of _ _ pb_dropoff]] demoMessage_def [THEN arg_cong [of _ _ pb_callerPhone]]
      demoMessage_def [THEN arg_cong [of _ _ pb_channel]]
      orElse_def resolveRider_def findUserByPhone_def createUser_def guestRider_def blankUser_def storeUser_def
      createRide_def bookRide_def redis_set_nx_def live_def
      demoStart_def tryRethrow_def demo_defs find_row_defs tbl_find_def
      demo_distance demo_fare store_decimal_of_dec fits_decimal_def Let_def freshId_def
      saveRide_def tbl_save_def emit_def redis_set_ex_def newRide_def bookingKey_def saveUser_def
      userClash_def clashes_def is_digit_def)

theorem booking_needs_all_witness:
  "\<exists>ride s'. rides s' = [ride] \<and> r_category ride = SHARED \<and> r_status ride = REQUESTED \<and>
     (\<exists>u. findUser (r_userId ride) s' = Some u \<and> u_phone u = Some ''0801'')"
proof -
  obtain msg p ride s' where run: "parseAndBook demoMath demoMessage demoStart = (Inr (Booked msg p ride), s')"
    using demoMessage_booked by blast
  have "wf_sys demoStart" using demoStart_ok by (simp add: service_start_def)
  from booking_needs_all [OF run this] show ?thesis
    by (auto simp: demoMessage_parse demoStart_def demo_defs) (auto simp: demoMessage_def)
qed

end
