(* ===== verification/Envelope.thy ===== *)
theory Envelope
  imports JsString Domain "HOL-Library.Monad_Syntax"
begin

text \<open>
  The two shapes every response has: \<open>src/common/dto/api-response.ts\<close>, the interceptor that wraps a
  success (\<open>src/common/interceptors/response-envelope.interceptor.ts\<close>), the factory of validation
  errors (\<open>src/common/pipes/validation-exception.factory.ts\<close>) and the filter that turns anything
  thrown into a failure (\<open>src/common/filters/all-exceptions.filter.ts\<close>).

  \<open>None\<close> in a text field stands for \<open>undefined\<close>. The response payload of an \<open>HttpException\<close> is Nest's:
  a string, an object with a \<open>message\<close> (an array given to the constructor ends up there), or an
  array itself.
\<close>

section \<open>Success\<close>

record PaginationMeta =
  pm_page :: nat
  pm_limit :: nat
  pm_total :: nat
  pm_totalPages :: nat

record 'a Enveloped =
  en_data :: 'a
  en_message :: "string option"
  en_meta :: "PaginationMeta option"

record 'a ApiSuccess =
  as_statusCode :: nat
  as_message :: string
  as_data :: 'a
  as_meta :: "PaginationMeta option"
  as_timestamp :: date

definition enveloped :: "'a \<Rightarrow> string option \<Rightarrow> PaginationMeta option \<Rightarrow> 'a Enveloped" where
  "enveloped data message meta = \<lparr>en_data = data, en_message = message, en_meta = meta\<rparr>"

definition listMeta :: "'a list \<Rightarrow> PaginationMeta" where
  "listMeta items = \<lparr>pm_page = 1, pm_limit = length items, pm_total = length items, pm_totalPages = 1\<rparr>"

definition defaultMessage :: "nat \<Rightarrow> string" where
  "defaultMessage statusCode =
     (if statusCode = 201 then ''Created successfully'' else ''Request successful'')"

text \<open>
  What a handler may return: nothing, an object (with the four keys the check looks at: \<open>success\<close>,
  \<open>statusCode\<close>, \<open>message\<close> and whether it has \<open>data\<close>), or an \<open>Enveloped\<close>.
\<close>

record 'a plainObject =
  po_success :: "json option"
  po_statusCode :: "json option"
  po_message :: "json option"
  po_hasData :: bool
  po_self :: 'a

datatype 'a payload = PUndefined | PPrimitive 'a | PObject "'a plainObject" | PEnveloped "'a Enveloped"

datatype 'a body = Untouched "'a payload" | Wrapped "'a ApiSuccess"

definition isAlreadyEnvelope :: "'a payload \<Rightarrow> bool" where
  "isAlreadyEnvelope p =
     (case p of
        PObject candidate \<Rightarrow>
          po_success candidate = Some (JBool True) \<and>
          (case po_statusCode candidate of Some (JNum _) \<Rightarrow> True | _ \<Rightarrow> False) \<and>
          (case po_message candidate of Some (JStr _) \<Rightarrow> True | _ \<Rightarrow> False) \<and> po_hasData candidate
      | _ \<Rightarrow> False)"

definition intercept :: "date \<Rightarrow> nat \<Rightarrow> 'a payload \<Rightarrow> 'a body" where
  "intercept time statusCode p =
     (if statusCode = 204 then Untouched p
      else if isAlreadyEnvelope p then Untouched p
      else case p of
        PUndefined \<Rightarrow> Untouched p
      | PEnveloped e \<Rightarrow> Wrapped \<lparr>as_statusCode = statusCode,
          as_message = (case en_message e of None \<Rightarrow> defaultMessage statusCode | Some m \<Rightarrow> m),
          as_data = en_data e, as_meta = en_meta e, as_timestamp = time\<rparr>
      | PPrimitive x \<Rightarrow> Wrapped \<lparr>as_statusCode = statusCode, as_message = defaultMessage statusCode,
          as_data = x, as_meta = None, as_timestamp = time\<rparr>
      | PObject x \<Rightarrow> Wrapped \<lparr>as_statusCode = statusCode, as_message = defaultMessage statusCode,
          as_data = po_self x, as_meta = None, as_timestamp = time\<rparr>)"

section \<open>Validation errors\<close>

text \<open>A node of class-validator's error tree, and what the filter finds in an array of messages.\<close>

datatype ValidationError =
  ValidationError (ve_property: string) (ve_constraints: "(string \<times> string) list option")
    (ve_children: "ValidationError list option")

datatype errorEntry =
    TextEntry string
  | NodeEntry "string option" "(string \<times> string) list option" "errorEntry list option"
  | OtherEntry

datatype messageField = MessageText string | MessageArray "errorEntry list" | MessageOther

datatype exceptionPayload =
    PayloadString string
  | PayloadArray "errorEntry list"
  | PayloadObject messageField "string option"
  | PayloadOther

record FieldError =
  fe_field :: string
  fe_messages :: "string list"

text \<open>\<open>createValidationExceptionFactory\<close>: the nodes and one level of their children.\<close>

definition childEntry :: "ValidationError \<Rightarrow> errorEntry" where
  "childEntry child = NodeEntry (Some (ve_property child)) (ve_constraints child) None"

definition validationEntry :: "ValidationError \<Rightarrow> errorEntry" where
  "validationEntry error = NodeEntry (Some (ve_property error)) (ve_constraints error)
     (map_option (map childEntry) (ve_children error))"

definition createValidationException :: "ValidationError list \<Rightarrow> exceptionPayload" where
  "createValidationException errors =
     PayloadObject (MessageArray (map validationEntry errors)) None"

definition SENSITIVE_VALIDATION_FIELDS :: "string list" where
  "SENSITIVE_VALIDATION_FIELDS = [''password'', ''confirmPassword'', ''oldPassword'', ''newPassword'',
     ''token'', ''accessToken'', ''refreshToken'']"

definition safeValidationValue :: "string \<Rightarrow> json \<Rightarrow> json" where
  "safeValidationValue property value =
     (if property \<in> set SENSITIVE_VALIDATION_FIELDS then JStr ''[REDACTED]'' else value)"

definition extractArray :: "exceptionPayload \<Rightarrow> errorEntry list option" where
  "extractArray p =
     (case p of PayloadArray es \<Rightarrow> Some es | PayloadObject (MessageArray es) _ \<Rightarrow> Some es | _ \<Rightarrow> None)"

definition fieldOf :: "string \<Rightarrow> string option \<Rightarrow> string" where
  "fieldOf prefix property =
     (let name = (case property of None \<Rightarrow> [] | Some p \<Rightarrow> p)
      in if prefix \<noteq> [] then prefix @ ''.'' @ name else name)"

text \<open>The recursive \<open>walk\<close>, as it is written: whether it returns is a theorem.\<close>

partial_function (option) walk :: "errorEntry list \<Rightarrow> string \<Rightarrow> FieldError list option" where
  "walk entries prefix =
     (case entries of
        [] \<Rightarrow> Some []
      | entry # rest \<Rightarrow>
          (case entry of
             TextEntry t \<Rightarrow> do {
               out \<leftarrow> walk rest prefix;
               Some (\<lparr>fe_field = prefix, fe_messages = [t]\<rparr> # out)
             }
           | OtherEntry \<Rightarrow> walk rest prefix
           | NodeEntry property constraints children \<Rightarrow> do {
               below \<leftarrow> (case children of None \<Rightarrow> Some [] | Some cs \<Rightarrow> walk cs (fieldOf prefix property));
               out \<leftarrow> walk rest prefix;
               Some ((case constraints of
                        None \<Rightarrow> []
                      | Some c \<Rightarrow> [\<lparr>fe_field = fieldOf prefix property, fe_messages = map snd c\<rparr>]) @
                     below @ out)
             }))"

definition toFieldErrors :: "errorEntry list \<Rightarrow> FieldError list option" where
  "toFieldErrors entries = walk entries []"

definition summarise :: "FieldError list \<Rightarrow> string option" where
  "summarise errors =
     (case errors of
        [] \<Rightarrow> Some ''The request failed validation.''
      | [only] \<Rightarrow>
          (case fe_messages only of
             m # _ \<Rightarrow> Some (if fe_field only \<noteq> [] then fe_field only @ '': '' @ m else m)
           | [] \<Rightarrow> if fe_field only \<noteq> [] then Some (fe_field only @ '': undefined'') else None)
      | _ \<Rightarrow> Some (js_of_nat (length errors) @ '' fields failed validation.''))"

section \<open>Failure\<close>

text \<open>Anything that can be thrown; \<open>pgCode\<close> is the \<open>code\<close> of the Postgres driver's error.\<close>

datatype thrown =
    HttpEx nat exceptionPayload string
  | QueryFailed "string option" string
  | OtherError string
  | NotAnError

record Described =
  ds_statusCode :: nat
  ds_message :: "string option"
  ds_code :: string
  ds_errors :: "FieldError list option"

definition codeFor :: "nat \<Rightarrow> string" where
  "codeFor statusCode =
     (case map_of [(400, ''BAD_REQUEST''), (401, ''UNAUTHENTICATED''), (403, ''FORBIDDEN''),
        (404, ''NOT_FOUND''), (409, ''CONFLICT''), (422, ''UNPROCESSABLE''), (429, ''RATE_LIMITED'')]
        statusCode of
        Some c \<Rightarrow> c | None \<Rightarrow> ''HTTP_'' @ js_of_nat statusCode)"

definition describeHttpException :: "nat \<Rightarrow> exceptionPayload \<Rightarrow> string \<Rightarrow> Described option" where
  "describeHttpException statusCode p message =
     (case extractArray p of
        Some arrayPayload \<Rightarrow> do {
          errors \<leftarrow> toFieldErrors arrayPayload;
          Some \<lparr>ds_statusCode = statusCode, ds_message = summarise errors,
            ds_code = ''VALIDATION_FAILED'', ds_errors = Some errors\<rparr>
        }
      | None \<Rightarrow>
          (case p of
             PayloadString t \<Rightarrow> Some \<lparr>ds_statusCode = statusCode, ds_message = Some t,
               ds_code = codeFor statusCode, ds_errors = None\<rparr>
           | PayloadObject raw code \<Rightarrow> Some \<lparr>ds_statusCode = statusCode,
               ds_message = Some (case raw of MessageText t \<Rightarrow> t | _ \<Rightarrow> message),
               ds_code = (case code of Some c \<Rightarrow> c | None \<Rightarrow> codeFor statusCode), ds_errors = None\<rparr>
           | _ \<Rightarrow> Some \<lparr>ds_statusCode = statusCode, ds_message = Some message,
               ds_code = codeFor statusCode, ds_errors = None\<rparr>))"

definition describeQueryFailure :: "string option \<Rightarrow> string \<Rightarrow> Described" where
  "describeQueryFailure pgCode message =
     (if pgCode = Some ''23505'' then \<lparr>ds_statusCode = 409,
        ds_message = Some ''That value is already taken.'', ds_code = ''DUPLICATE_VALUE'', ds_errors = None\<rparr>
      else if pgCode = Some ''23503'' then \<lparr>ds_statusCode = 400,
        ds_message = Some ''That reference does not exist.'', ds_code = ''INVALID_REFERENCE'',
        ds_errors = None\<rparr>
      else if pgCode = Some ''22P02'' then \<lparr>ds_statusCode = 400,
        ds_message = Some ''One of the supplied identifiers is malformed.'',
        ds_code = ''MALFORMED_IDENTIFIER'', ds_errors = None\<rparr>
      else \<lparr>ds_statusCode = 500, ds_message = Some message, ds_code = ''DATABASE_ERROR'',
        ds_errors = None\<rparr>)"

definition describe :: "thrown \<Rightarrow> Described option" where
  "describe exception =
     (case exception of
        HttpEx status p message \<Rightarrow> describeHttpException status p message
      | QueryFailed pgCode message \<Rightarrow> Some (describeQueryFailure pgCode message)
      | OtherError message \<Rightarrow> Some \<lparr>ds_statusCode = 500, ds_message = Some message,
          ds_code = ''INTERNAL_ERROR'', ds_errors = None\<rparr>
      | NotAnError \<Rightarrow> Some \<lparr>ds_statusCode = 500, ds_message = Some ''Unknown error'',
          ds_code = ''INTERNAL_ERROR'', ds_errors = None\<rparr>)"

definition SERVER_ERROR_THRESHOLD :: nat where
  "SERVER_ERROR_THRESHOLD = 500"

record ApiFailure =
  af_statusCode :: nat
  af_message :: "string option"
  af_code :: string
  af_errors :: "FieldError list option"
  af_path :: "string option"
  af_timestamp :: date
  af_requestId :: "uuid option"

definition opaqueMessage :: string where
  "opaqueMessage = ''Something went wrong on our side. Quote the request id when reporting this.''"

text \<open>The answer to an HTTP caller and the message that goes to the log beside it.\<close>

definition catch_http :: "uuid \<Rightarrow> date \<Rightarrow> string \<Rightarrow> thrown \<Rightarrow> (ApiFailure \<times> string option) option" where
  "catch_http requestId time path exception = do {
     d \<leftarrow> describe exception;
     let body = \<lparr>af_statusCode = ds_statusCode d, af_message = ds_message d, af_code = ds_code d,
       af_errors = ds_errors d, af_path = Some path, af_timestamp = time, af_requestId = None\<rparr>;
     Some (if ds_statusCode d \<ge> SERVER_ERROR_THRESHOLD
           then body\<lparr>af_requestId := Some requestId, af_message := Some opaqueMessage\<rparr> else body,
           ds_message d)
   }"

text \<open>\<open>handleWsException\<close>: the \<open>exception\<close> message to a socket, which has no path and no field list.\<close>

definition catch_ws :: "uuid \<Rightarrow> date \<Rightarrow> thrown \<Rightarrow> (ApiFailure \<times> string option) option" where
  "catch_ws requestId time exception = do {
     d \<leftarrow> describe exception;
     let isServerFault = ds_statusCode d \<ge> SERVER_ERROR_THRESHOLD;
     Some (\<lparr>af_statusCode = ds_statusCode d,
       af_message = (if isServerFault then Some opaqueMessage else ds_message d), af_code = ds_code d,
       af_errors = None, af_path = None, af_timestamp = time,
       af_requestId = (if isServerFault then Some requestId else None)\<rparr>, ds_message d)
   }"

end
