(* ===== verification/EnvelopeRules.thy ===== *)
theory EnvelopeRules
  imports Envelope
begin

text \<open>
  What the response contract guarantees: the flattening of validation errors returns and loses
  nothing, a server fault tells the caller nothing, and every exception of the services is answered
  with the status the rest of the development speaks of.
\<close>

section \<open>Flattening validation errors\<close>

text \<open>The list the walk produces, as a structural recursion.\<close>

fun flatEntry :: "string \<Rightarrow> errorEntry \<Rightarrow> FieldError list" where
  "flatEntry prefix (TextEntry t) = [\<lparr>fe_field = prefix, fe_messages = [t]\<rparr>]"
| "flatEntry prefix OtherEntry = []"
| "flatEntry prefix (NodeEntry property constraints children) =
     (case constraints of
        None \<Rightarrow> [] | Some c \<Rightarrow> [\<lparr>fe_field = fieldOf prefix property, fe_messages = map snd c\<rparr>]) @
     (case children of
        None \<Rightarrow> [] | Some cs \<Rightarrow> concat (map (flatEntry (fieldOf prefix property)) cs))"

lemma walk_flat: "walk entries prefix = Some (concat (map (flatEntry prefix) entries))"
proof (induction "size_list size entries" arbitrary: entries prefix rule: less_induct)
  case less
  show ?case
  proof (cases entries)
    case Nil
    then show ?thesis by (simp add: walk.simps)
  next
    case (Cons entry rest)
    have rest: "walk rest p = Some (concat (map (flatEntry p) rest))" for p
      using less Cons by simp
    show ?thesis
    proof (cases entry)
      case (NodeEntry property constraints children)
      have "walk cs p = Some (concat (map (flatEntry p) cs))" if "children = Some cs" for cs p
        using less Cons NodeEntry that by simp
      then show ?thesis using rest Cons NodeEntry by (subst walk.simps) (simp split: option.split)
    qed (use rest Cons in \<open>subst walk.simps, simp\<close>)+
  qed
qed

lemma toFieldErrors_flat: "toFieldErrors entries = Some (concat (map (flatEntry []) entries))"
  by (simp add: toFieldErrors_def walk_flat)

text \<open>C36: The recursive walk over a validation payload returns on every payload, however deeply nested,
  and its result is the depth-first list of the nodes: each node with constraints under its dotted
  path, before its children.\<close>

theorem flattening_terminates:
  "\<exists>out. walk entries prefix = Some out \<and> out = concat (map (flatEntry prefix) entries)"
  by (simp add: walk_flat)

text \<open>What class-validator found, at every depth, and the depth itself.\<close>

fun findings :: "string \<Rightarrow> ValidationError \<Rightarrow> FieldError list" where
  "findings prefix (ValidationError property constraints children) =
     (case constraints of
        None \<Rightarrow> [] | Some c \<Rightarrow> [\<lparr>fe_field = fieldOf prefix (Some property), fe_messages = map snd c\<rparr>]) @
     (case children of
        None \<Rightarrow> [] | Some cs \<Rightarrow> concat (map (findings (fieldOf prefix (Some property))) cs))"

definition leaf :: "ValidationError \<Rightarrow> bool" where
  "leaf e \<longleftrightarrow> (case ve_children e of None \<Rightarrow> True | Some cs \<Rightarrow> cs = [])"

definition shallow :: "ValidationError \<Rightarrow> bool" where
  "shallow e \<longleftrightarrow> (case ve_children e of None \<Rightarrow> True | Some cs \<Rightarrow> list_all leaf cs)"

lemma flat_child: "leaf e \<Longrightarrow> flatEntry p (childEntry e) = findings p e"
  by (cases e) (auto simp: childEntry_def leaf_def split: option.splits)

lemma flat_validation: "shallow e \<Longrightarrow> flatEntry p (validationEntry e) = findings p e"
  by (cases e) (auto simp: validationEntry_def shallow_def list_all_iff flat_child
      intro!: arg_cong [of _ _ concat] split: option.splits)

text \<open>A client whose request fails validation is told everything class-validator found, each list of
  messages under its dotted path and in order, with status 400 and the code \<open>VALIDATION_FAILED\<close>,
  for every DTO whose objects are nested at most one level deep, as all DTOs of the program are.\<close>

theorem validation_errors_reported:
  assumes "list_all shallow errors"
  shows "map_option (\<lambda>d. (ds_statusCode d, ds_code d, ds_errors d))
     (describe (HttpEx 400 (createValidationException errors) message)) =
   Some (400, ''VALIDATION_FAILED'', Some (concat (map (findings []) errors)))"
proof -
  have "map (flatEntry []) (map validationEntry errors) = map (findings []) errors"
    using assms by (auto simp: list_all_iff flat_validation)
  then show ?thesis
    by (simp add: describe_def describeHttpException_def createValidationException_def
        extractArray_def toFieldErrors_flat del: map_map)
qed

definition badPickup :: ValidationError where
  "badPickup = ValidationError ''pickup'' None
     (Some [ValidationError ''lat'' (Some [(''max'', ''Latitude must be between -90 and 90'')]) (Some [])])"

theorem validation_errors_reported_witness:
  "map_option ds_errors (describe (HttpEx 400 (createValidationException [badPickup]) message)) =
   Some (Some [\<lparr>fe_field = ''pickup.lat'', fe_messages = [''Latitude must be between -90 and 90'']\<rparr>])"
proof -
  have "list_all shallow [badPickup]" "concat (map (findings []) [badPickup]) =
      [\<lparr>fe_field = ''pickup.lat'', fe_messages = [''Latitude must be between -90 and 90'']\<rparr>]"
    by (simp_all add: badPickup_def shallow_def leaf_def fieldOf_def)
  then show ?thesis using validation_errors_reported [of "[badPickup]" message]
    by (cases "describe (HttpEx 400 (createValidationException [badPickup]) message)") auto
qed

text \<open>Deeper errors do not reach the client: the factory copies one level of children.\<close>

theorem third_level_is_dropped:
  "map_option ds_errors (describe (HttpEx 400 (createValidationException
     [ValidationError ''ride'' None (Some [badPickup])]) message)) = Some (Some [])"
  by (simp add: describe_def describeHttpException_def createValidationException_def
      extractArray_def toFieldErrors_flat validationEntry_def childEntry_def badPickup_def)

section \<open>Failures\<close>

lemma describe_total: "\<exists>d. describe e = Some d"
  by (cases e) (auto simp: describe_def describeHttpException_def toFieldErrors_flat
      split: option.split exceptionPayload.split)

text \<open>The part of the answer an unexpected error determines: none but its class.\<close>

definition opaqueFailure :: "uuid \<Rightarrow> date \<Rightarrow> string \<Rightarrow> string \<Rightarrow> ApiFailure" where
  "opaqueFailure requestId time path code = \<lparr>af_statusCode = 500, af_message = Some opaqueMessage,
     af_code = code, af_errors = None, af_path = Some path, af_timestamp = time,
     af_requestId = Some requestId\<rparr>"


text \<open>An exception of the services, as the object that reaches the filter.\<close>

fun thrownOf :: "exn \<Rightarrow> thrown" where
  "thrownOf (BadRequestException m) = HttpEx 400 (PayloadObject (MessageText m) None) m"
| "thrownOf (UnauthorizedException m) = HttpEx 401 (PayloadObject (MessageText m) None) m"
| "thrownOf (ForbiddenException m) = HttpEx 403 (PayloadObject (MessageText m) None) m"
| "thrownOf (NotFoundException m) = HttpEx 404 (PayloadObject (MessageText m) None) m"
| "thrownOf (ConflictException m) = HttpEx 409 (PayloadObject (MessageText m) None) m"
| "thrownOf (ServiceUnavailableException m) = HttpEx 503 (PayloadObject (MessageText m) None) m"
| "thrownOf (QueryFailedError c) = QueryFailed (Some (pg_code c)) c"
| "thrownOf (GatewayError m) = OtherError m"
| "thrownOf SessionCompromisedError = OtherError ''session-compromised''"

lemmas describe_defs = describe_def describeHttpException_def extractArray_def describeQueryFailure_def

text \<open>Every exception a service throws is answered with its documented status, and the caller reads
  the service's own message exactly when the status is below 500 and the database did not refuse.\<close>

theorem service_errors_answered:
  "\<exists>body log. catch_http requestId time path (thrownOf e) = Some (body, log) \<and>
     af_statusCode body = http_status e \<and> af_errors body = None \<and>
     (case e of
        BadRequestException m \<Rightarrow> af_message body = Some m
      | UnauthorizedException m \<Rightarrow> af_message body = Some m
      | ForbiddenException m \<Rightarrow> af_message body = Some m
      | NotFoundException m \<Rightarrow> af_message body = Some m
      | ConflictException m \<Rightarrow> af_message body = Some m
      | QueryFailedError c \<Rightarrow> af_message body \<in> Some ` {''That value is already taken.'',
          ''One of the supplied identifiers is malformed.'', opaqueMessage}
      | _ \<Rightarrow> af_message body = Some opaqueMessage)"
  by (cases e) (auto simp: catch_http_def describe_defs SERVER_ERROR_THRESHOLD_def pg_code_def)

section \<open>Successes\<close>

text \<open>The object a wrapped success is, seen by the interceptor.\<close>

definition envelopeObject :: "num \<Rightarrow> 'a ApiSuccess \<Rightarrow> 'a ApiSuccess payload" where
  "envelopeObject code x = PObject \<lparr>po_success = Some (JBool True), po_statusCode = Some (JNum code),
     po_message = Some (JStr (as_message x)), po_hasData = True, po_self = x\<rparr>"

text \<open>A handler's data is wrapped once: what the interceptor produced is passed through unchanged
  when it comes by again, and only a 204, nothing at all or an envelope is left as it is.\<close>

theorem wrapped_once:
  "case intercept time status p of
     Untouched q \<Rightarrow> q = p \<and> (status = 204 \<or> p = PUndefined \<or> isAlreadyEnvelope p)
   | Wrapped x \<Rightarrow> status \<noteq> 204 \<and> as_statusCode x = status \<and>
       intercept later status (envelopeObject code x) = Untouched (envelopeObject code x)"
  by (auto simp: intercept_def isAlreadyEnvelope_def envelopeObject_def split: payload.splits)

end
