(* ===== verification/Configuration.thy ===== *)
theory Configuration
  imports JsString
begin

text \<open>
  What the process checks before it starts and whom it answers across origins:
  \<open>src/config/environment.ts\<close>, \<open>src/config/env.validation.ts\<close>, \<open>src/config/cors.config.ts\<close>.
  \<open>process.env\<close> is a map from names to values. The dashes of the messages are written as hyphens.
\<close>

type_synonym processEnv = "string \<Rightarrow> string option"

section \<open>The environment\<close>

definition isDevelopment :: "processEnv \<Rightarrow> bool" where
  "isDevelopment env \<longleftrightarrow> env ''NODE_ENV'' = Some ''development''"

definition isTest :: "processEnv \<Rightarrow> bool" where
  "isTest env \<longleftrightarrow> env ''NODE_ENV'' = Some ''test''"

definition isDevLike :: "processEnv \<Rightarrow> bool" where
  "isDevLike env \<longleftrightarrow> isDevelopment env \<or> isTest env"

definition isProductionLike :: "processEnv \<Rightarrow> bool" where
  "isProductionLike env \<longleftrightarrow> \<not> isDevLike env"

section \<open>Validation\<close>

definition PLACEHOLDER_VALUES :: "string list" where
  "PLACEHOLDER_VALUES = [''your-secret-key'', ''change-me'', ''changeme'', ''replace-me'', ''secret'',
     ''password'', ''todo'', '''']"

definition MIN_SECRET_LENGTH :: nat where
  "MIN_SECRET_LENGTH = 32"

datatype ruleScope = Always | Production

record EnvRule =
  er_key :: string
  er_scope :: ruleScope
  er_minLength :: "nat option"
  er_because :: string

definition VALID_NODE_ENVS :: "string list" where
  "VALID_NODE_ENVS = [''development'', ''test'', ''staging'', ''production'']"

definition RULES :: "EnvRule list" where
  "RULES =
     [\<lparr>er_key = ''NODE_ENV'', er_scope = Always, er_minLength = None,
       er_because = ''it decides whether Swagger is exposed, whether CORS falls back to localhost, and whether the production-only variables below are enforced - every one of which fails OPEN when it is unset''\<rparr>,
      \<lparr>er_key = ''JWT_SECRET'', er_scope = Always, er_minLength = Some MIN_SECRET_LENGTH,
       er_because = ''every access token is signed and verified with it; without it the app would fall back to a public string and accept forged admin tokens''\<rparr>]"

definition isMissing :: "string option \<Rightarrow> bool" where
  "isMissing value =
     (case value of None \<Rightarrow> True | Some v \<Rightarrow> js_lower (js_trim v) \<in> set PLACEHOLDER_VALUES)"

definition nodeEnvProblem :: "processEnv \<Rightarrow> string list" where
  "nodeEnvProblem env =
     (case env ''NODE_ENV'' of
        None \<Rightarrow> []
      | Some v \<Rightarrow>
          if v \<in> set VALID_NODE_ENVS then []
          else [''NODE_ENV is \"'' @ v @ ''\", which is not one of development, test, staging, production - anything else silently disables the production safety checks.''])"

definition ruleProblem :: "bool \<Rightarrow> processEnv \<Rightarrow> EnvRule \<Rightarrow> string list" where
  "ruleProblem devLike env rule =
     (let enforced = (er_scope rule = Always \<or> \<not> devLike); value = env (er_key rule)
      in if \<not> enforced then []
         else if isMissing value
         then [er_key rule @ '' is not set (or is still a placeholder) - '' @ er_because rule @ ''.'']
         else (case (er_minLength rule, value) of
                 (Some n, Some v) \<Rightarrow>
                   if n \<noteq> 0 \<and> length v < n
                   then [er_key rule @ '' is only '' @ js_of_nat (length v) @ '' characters; at least '' @
                     js_of_nat n @ '' are required - '' @ er_because rule @ ''.'']
                   else []
               | _ \<Rightarrow> []))"

definition collectEnvProblems :: "processEnv \<Rightarrow> string list" where
  "collectEnvProblems env =
     (let devLike = (env ''NODE_ENV'' = Some ''development'' \<or> env ''NODE_ENV'' = Some ''test'')
      in nodeEnvProblem env @ concat (map (ruleProblem devLike env) RULES) @
         (if \<not> devLike \<and> isMissing (env ''DATABASE_URL'') \<and> isMissing (env ''DATABASE_HOST'')
          then [''Neither DATABASE_URL nor DATABASE_HOST is set - there is no database to connect to.'']
          else []) @
         (if \<not> devLike \<and> isMissing (env ''REDIS_URL'') \<and> isMissing (env ''REDIS_HOST'')
          then [''Neither REDIS_URL nor REDIS_HOST is set - ride locking, driver geo lookups, rate limiting and the job queues all live in Redis.'']
          else []))"

definition sendgridWarning :: string where
  "sendgridWarning = ''SENDGRID_API_KEY / SENDGRID_FROM_EMAIL are not both set - no email is sent, so password-reset and resend-OTP cannot deliver their codes. Everything else, including sign-up and sign-in, works normally.''"

definition internalKeyWarning :: string where
  "internalKeyWarning = ''INTERNAL_API_KEY is not set - the booking-channels ingress (WhatsApp/voice) fails closed, so off-app booking is unavailable. In-app booking is unaffected.''"

definition collectEnvWarnings :: "processEnv \<Rightarrow> string list" where
  "collectEnvWarnings env =
     (let nodeEnv = env ''NODE_ENV''
      in (if isMissing (env ''SENDGRID_API_KEY'') \<or> isMissing (env ''SENDGRID_FROM_EMAIL'')
          then [sendgridWarning] else []) @
         (if isMissing (env ''INTERNAL_API_KEY'') then [internalKeyWarning] else []) @
         (if nodeEnv \<noteq> Some ''development'' \<and> nodeEnv \<noteq> Some ''test'' then
            (if isMissing (env ''CORS_ORIGINS'')
             then [''CORS_ORIGINS is not set, so browser cross-origin requests will be refused. Set it to the comma-separated list of front-end origins.'']
             else []) @
            (if isMissing (env ''EMERGENCY_WEBHOOK_URLS'')
             then [''EMERGENCY_WEBHOOK_URLS is not set - an SOS will be recorded and broadcast in-app, but no external party is notified.'']
             else []) @
            (if isMissing (env ''PRIVY_APP_ID'') \<or> isMissing (env ''PRIVY_VERIFICATION_KEY'')
             then [''PRIVY_APP_ID / PRIVY_VERIFICATION_KEY are not both set - Privy sign-in is disabled and only email/password login will work.'']
             else [])
          else []))"

text \<open>The process starts (\<open>Inr\<close>), having logged its warnings, or stops with the problems.\<close>

definition validateEnvironment :: "processEnv \<Rightarrow> string + unit" where
  "validateEnvironment env =
     (let problems = collectEnvProblems env
      in if problems = [] then Inr ()
         else Inl (''Refusing to start: the environment is incomplete.'' @ [CHR 0x0A] @
           foldl (\<lambda>acc p. if acc = [] then ''  - '' @ p else acc @ [CHR 0x0A] @ ''  - '' @ p) [] problems @
           [CHR 0x0A] @ ''See .env.example for the full list of variables.''))"

section \<open>Cross-origin requests\<close>

text \<open>\<open>split(',')\<close>, then the entries trimmed and the blank ones dropped.\<close>

fun splitComma :: "string \<Rightarrow> string list" where
  "splitComma [] = [[]]"
| "splitComma (c # s) =
     (if c = CHR '','' then [] # splitComma s
      else case splitComma s of x # xs \<Rightarrow> (c # x) # xs | [] \<Rightarrow> [[c]])"

definition parseOrigins :: "string option \<Rightarrow> string list" where
  "parseOrigins raw =
     (case raw of
        None \<Rightarrow> []
      | Some t \<Rightarrow> if t = [] then [] else filter (\<lambda>origin. origin \<noteq> []) (map js_trim (splitComma t)))"

definition DEV_ORIGINS :: "string list" where
  "DEV_ORIGINS = [''http://localhost:3000'', ''http://localhost:3001'', ''http://localhost:5173'',
     ''http://127.0.0.1:3000'']"

definition isOriginAllowed :: "string option \<Rightarrow> string list \<Rightarrow> bool \<Rightarrow> bool" where
  "isOriginAllowed origin' allowlist isDev =
     (case origin' of
        None \<Rightarrow> True
      | Some o' \<Rightarrow>
          if o' \<in> set allowlist then True
          else if isDev \<and> o' \<in> set DEV_ORIGINS then True
          else False)"

record CorsOptions =
  co_origin :: "string option \<Rightarrow> bool"
  co_credentials :: bool
  co_methods :: "string list"
  co_allowedHeaders :: "string list"
  co_maxAge :: nat

definition corsOptions :: "processEnv \<Rightarrow> CorsOptions" where
  "corsOptions env =
     (let isDev = isDevelopment env; allowlist = parseOrigins (env ''CORS_ORIGINS'')
      in \<lparr>co_origin = (\<lambda>origin'. isOriginAllowed origin' allowlist isDev), co_credentials = False,
          co_methods = [''GET'', ''POST'', ''PATCH'', ''PUT'', ''DELETE'', ''OPTIONS''],
          co_allowedHeaders = [''Content-Type'', ''Authorization'', ''x-internal-api-key'',
            ''privy-id-token''], co_maxAge = 86400\<rparr>)"

section \<open>What a started process can rely on\<close>

lemma isMissing_valid: "v \<in> set VALID_NODE_ENVS \<Longrightarrow> \<not> isMissing (Some v)"
  by (auto simp: VALID_NODE_ENVS_def isMissing_def PLACEHOLDER_VALUES_def js_lower_def lower_char_def
      js_trim_def is_ws_def)

text \<open>The process starts exactly when the mode is one of the four known ones, the signing key is
  given, is no placeholder and has at least 32 characters, and, outside development and test, both a
  database and a Redis are configured; a mode that is misspelt or missing never starts.\<close>

theorem starts_iff:
  "validateEnvironment env = Inr () \<longleftrightarrow>
     (\<exists>mode. env ''NODE_ENV'' = Some mode \<and> mode \<in> set VALID_NODE_ENVS) \<and>
     (\<exists>key. env ''JWT_SECRET'' = Some key \<and> \<not> isMissing (Some key) \<and> 32 \<le> length key) \<and>
     (isDevLike env \<or>
       (\<not> isMissing (env ''DATABASE_URL'') \<or> \<not> isMissing (env ''DATABASE_HOST'')) \<and>
       (\<not> isMissing (env ''REDIS_URL'') \<or> \<not> isMissing (env ''REDIS_HOST'')))"
proof -
  have mode: "nodeEnvProblem env @ ruleProblem b env (RULES ! 0) = [] \<longleftrightarrow>
      (\<exists>mode. env ''NODE_ENV'' = Some mode \<and> mode \<in> set VALID_NODE_ENVS)" for b
    using isMissing_valid
    by (cases "env ''NODE_ENV''") (auto simp: nodeEnvProblem_def ruleProblem_def RULES_def isMissing_def)
  have key: "ruleProblem b env (RULES ! 1) = [] \<longleftrightarrow>
      (\<exists>key. env ''JWT_SECRET'' = Some key \<and> \<not> isMissing (Some key) \<and> 32 \<le> length key)" for b
    by (cases "env ''JWT_SECRET''") (auto simp: ruleProblem_def RULES_def MIN_SECRET_LENGTH_def Let_def
        isMissing_def [of None] split: if_splits)
  have "concat (map (ruleProblem b env) RULES) =
      ruleProblem b env (RULES ! 0) @ ruleProblem b env (RULES ! 1)" for b
    by (simp add: RULES_def)
  then show ?thesis
    using mode key
    by (auto simp: validateEnvironment_def collectEnvProblems_def Let_def isDevLike_def
        isDevelopment_def isTest_def split: if_splits)
qed

text \<open>Outside development a browser origin is answered exactly when the operator listed it: neither
  a wildcard nor a local address gets in by default, and no request carries credentials.\<close>

theorem cors_allowlist_only:
  "(co_origin (corsOptions env) (Some o') \<longleftrightarrow>
     o' \<in> set (parseOrigins (env ''CORS_ORIGINS'')) \<or>
     env ''NODE_ENV'' = Some ''development'' \<and> o' \<in> set DEV_ORIGINS) \<and>
   \<not> co_credentials (corsOptions env) \<and> co_origin (corsOptions env) None"
  by (auto simp: corsOptions_def isOriginAllowed_def isDevelopment_def Let_def)

end
