(* ===== verification/Operations.thy ===== *)
theory Operations
  imports Configuration BookingChannels Emergency
begin

text \<open>
  What runs beside the requests: the promotion of administrators at boot
  (\<open>src/users/admin-bootstrap.service.ts\<close>), the signing key (\<open>src/config/jwt.config.ts\<close>) and the two
  queue workers (\<open>src/common/processors/email.processor.ts\<close>,
  \<open>src/common/processors/emergency-webhook.processor.ts\<close>).

  SendGrid, \<open>fetch\<close> and BullMQ are not part of the program. Sending a mail and posting to a target are
  arguments that say whether the call fails; a queue that calls a worker again after a failure, at
  most as often as the job's \<open>attempts\<close> say, is written out as \<open>attempted\<close>. Of a mail's HTML the model
  keeps the values it shows, in the order of the template.
\<close>

section \<open>Administrators\<close>

definition parseAdminEmails :: "string option \<Rightarrow> string list" where
  "parseAdminEmails raw =
     (case raw of
        None \<Rightarrow> []
      | Some t \<Rightarrow>
          if t = [] then []
          else filter (\<lambda>e. e \<noteq> [] \<and> js_includes e ''@'') (map (\<lambda>e. js_lower (js_trim e)) (splitComma t)))"

definition promote :: "string list \<Rightarrow> sys \<Rightarrow> sys" where
  "promote emails s =
     (let found = filter (\<lambda>u. u_email u \<in> set emails) (users s);
          toPromote = filter (\<lambda>u. u_role u \<noteq> ADMIN) found
      in if toPromote = [] then s
         else s\<lparr>users := tbl_update (\<lambda>u. u_id u \<in> u_id ` set toPromote) (u_role_update (\<lambda>_. ADMIN))
                (users s)\<rparr>)"

definition adminBootstrap :: "processEnv \<Rightarrow> sys \<Rightarrow> sys" where
  "adminBootstrap env s =
     (let emails = parseAdminEmails (env ''ADMIN_EMAILS'') in if emails = [] then s else promote emails s)"

definition requireJwtSecret :: "processEnv \<Rightarrow> string + string" where
  "requireJwtSecret env =
     (case env ''JWT_SECRET'' of
        None \<Rightarrow> Inl ''JWT_SECRET is not set.''
      | Some secret \<Rightarrow> if js_trim secret = [] then Inl ''JWT_SECRET is not set.'' else Inr secret)"

section \<open>Queue workers\<close>

text \<open>A job is run until it succeeds, at most \<open>attempts\<close> times; \<open>run k\<close> is its \<open>k\<close>th run.\<close>

fun attempted :: "(nat \<Rightarrow> 'e + 'a) \<Rightarrow> nat \<Rightarrow> nat \<Rightarrow> ('e + 'a) list" where
  "attempted run k 0 = []"
| "attempted run k (Suc left) =
     (case run k of Inr x \<Rightarrow> [Inr x] | Inl e \<Rightarrow> Inl e # attempted run (Suc k) left)"

record mail =
  ml_to :: string
  ml_fromEmail :: string
  ml_fromName :: string
  ml_subject :: string
  ml_shows :: "string list"

datatype mailResult = Skipped | Sent mail

definition mailConfigured :: "processEnv \<Rightarrow> bool" where
  "mailConfigured env \<longleftrightarrow>
     env ''SENDGRID_API_KEY'' \<notin> {None, Some []} \<and> env ''SENDGRID_FROM_EMAIL'' \<notin> {None, Some []}"

definition envOr :: "processEnv \<Rightarrow> string \<Rightarrow> string \<Rightarrow> string" where
  "envOr env key fallback = (case env key of None \<Rightarrow> fallback | Some v \<Rightarrow> if v = [] then fallback else v)"

definition appName :: "processEnv \<Rightarrow> string" where
  "appName env = envOr env ''APP_NAME'' ''KEKE Rides''"

definition otpMail :: "processEnv \<Rightarrow> string \<Rightarrow> string \<Rightarrow> string \<Rightarrow> mail" where
  "otpMail env to otp name =
     \<lparr>ml_to = to, ml_fromEmail = envOr env ''SENDGRID_FROM_EMAIL'' [], ml_fromName = appName env,
      ml_subject = ''Verify Your Account - OTP Code'', ml_shows = [appName env, name, appName env, otp]\<rparr>"

definition welcomeMail :: "processEnv \<Rightarrow> string \<Rightarrow> string \<Rightarrow> mail" where
  "welcomeMail env to name =
     \<lparr>ml_to = to, ml_fromEmail = envOr env ''SENDGRID_FROM_EMAIL'' [], ml_fromName = appName env,
      ml_subject = ''Welcome to '' @ appName env @ ''!'',
      ml_shows = [appName env, name, envOr env ''KEKE_WEBSITE_URL'' ''http://localhost:3000'' @ ''/login'']\<rparr>"

definition forgotMail :: "processEnv \<Rightarrow> string \<Rightarrow> string \<Rightarrow> string \<Rightarrow> mail" where
  "forgotMail env to otp name =
     \<lparr>ml_to = to, ml_fromEmail = envOr env ''SENDGRID_FROM_EMAIL'' [], ml_fromName = appName env,
      ml_subject = ''Reset Your Password - OTP Code'', ml_shows = [name, otp]\<rparr>"

definition processEmail :: "processEnv \<Rightarrow> (mail \<Rightarrow> string option) \<Rightarrow> job \<Rightarrow> string + mailResult" where
  "processEmail env send j =
     (if \<not> mailConfigured env then Inr Skipped
      else let deliver = (\<lambda>m. case send m of Some e \<Rightarrow> Inl e | None \<Rightarrow> Inr (Sent m))
      in case j of
           SendOtp to otp name \<Rightarrow> deliver (otpMail env to otp name)
         | SendWelcome to name \<Rightarrow> deliver (welcomeMail env to name)
         | SendForgotPassword to otp name \<Rightarrow> deliver (forgotMail env to otp name)
         | _ \<Rightarrow> Inl ''Unknown job name'')"

text \<open>A response has a status, \<open>ok\<close> between 200 and 299; a call that fails has a reason.\<close>

type_synonym fetch = "string \<Rightarrow> string + nat"

definition webhookTargets :: "processEnv \<Rightarrow> string list" where
  "webhookTargets env = filter (\<lambda>url. url \<noteq> [])
     (map js_trim (splitComma (envOr env ''EMERGENCY_WEBHOOK_URLS'' [])))"

definition postOne :: "fetch \<Rightarrow> string \<Rightarrow> string + string" where
  "postOne fetch url =
     (case fetch url of
        Inl reason \<Rightarrow> Inl reason
      | Inr status \<Rightarrow>
          if status < 200 \<or> 299 < status then Inl (url @ '' responded '' @ js_of_nat status) else Inr url)"

datatype webhookResult = NothingToNotify | Delivered nat

text \<open>The outcome, and the targets that were called.\<close>

definition postToTargets :: "fetch \<Rightarrow> string list \<Rightarrow> (string + webhookResult) \<times> string list" where
  "postToTargets fetch targets =
     (if targets = [] then (Inr NothingToNotify, [])
      else let results = map (postOne fetch) targets;
               failures = filter isl results
           in (if failures \<noteq> []
               then Inl (js_of_nat (length failures) @ ''/'' @ js_of_nat (length targets) @
                 '' target(s) failed: '' @ joinWith ''; '' (map projl failures))
               else Inr (Delivered (length targets)), targets))"

definition processWebhook :: "processEnv \<Rightarrow> fetch \<Rightarrow> job \<Rightarrow> (string + webhookResult) \<times> string list" where
  "processWebhook env fetch j =
     (case j of
        TriggerEmergencyProtocol _ _ _ \<Rightarrow> postToTargets fetch (webhookTargets env)
      | BroadcastLocation _ _ _ \<Rightarrow> postToTargets fetch (webhookTargets env)
      | _ \<Rightarrow> (Inl ''Unknown job name'', []))"

section \<open>What the workers guarantee\<close>

lemma attempted_success:
  "run (k + i) = Inr x \<Longrightarrow> i < n \<Longrightarrow> \<exists>xs y. attempted run k n = xs @ [Inr y] \<and> length xs \<le> i"
proof (induction n arbitrary: k i)
  case (Suc n)
  show ?case
  proof (cases "run k")
    case (Inl e)
    have "i \<noteq> 0" using Suc.prems(1) Inl by (cases i) auto
    then obtain j where j: "i = Suc j" by (cases i) auto
    have "run (Suc k + j) = Inr x" "j < n" using Suc.prems j by simp_all
    from Suc.IH [OF this] obtain xs y where "attempted run (Suc k) n = xs @ [Inr y]" "length xs \<le> j"
      by blast
    then show ?thesis using Inl j by (intro exI [of _ "Inl e # xs"]) simp
  qed (auto intro!: exI [of _ "[]"])
qed simp

text \<open>A target answers well in a run when its response is in the 200s.\<close>

definition answers :: "fetch \<Rightarrow> string \<Rightarrow> bool" where
  "answers fetch url \<longleftrightarrow> (\<exists>n. fetch url = Inr n \<and> 200 \<le> n \<and> n \<le> 299)"

lemma postOne_ok: "isl (postOne fetch url) \<longleftrightarrow> \<not> answers fetch url"
  by (auto simp: postOne_def answers_def split: sum.split)

text \<open>An emergency job calls every configured target in every run, whatever the others do, and a run
  succeeds exactly when all of them answered with a 2xx, so a failure at one is retried for all; a
  run without targets succeeds and calls nobody. When all targets answer in some run among the
  five of the job, the job ends with a success.\<close>

theorem webhook_reaches_all:
  "snd (processWebhook env fetch (TriggerEmergencyProtocol p a b)) = webhookTargets env \<and>
   (isl (fst (processWebhook env fetch (TriggerEmergencyProtocol p a b))) \<longleftrightarrow>
      (\<exists>url\<in>set (webhookTargets env). \<not> answers fetch url)) \<and>
   processWebhook env fetch (BroadcastLocation p a b) =
     processWebhook env fetch (TriggerEmergencyProtocol p a b) \<and>
   (i < 5 \<and> (\<forall>url\<in>set (webhookTargets env). answers (fetchAt i) url) \<longrightarrow>
      (\<exists>failed result. attempted (\<lambda>k. fst (processWebhook env (fetchAt k)
         (TriggerEmergencyProtocol p a b))) 0 5 = failed @ [Inr result] \<and> length failed \<le> i))"
proof -
  have none: "filter isl (map (postOne f) ts) = [] \<longleftrightarrow> (\<forall>url\<in>set ts. answers f url)" for f ts
    by (auto simp: filter_empty_conv postOne_ok)
  have ok: "isl (fst (postToTargets f ts)) \<longleftrightarrow> (\<exists>url\<in>set ts. \<not> answers f url)" for f ts
    using none [of f ts] by (auto simp: postToTargets_def Let_def)
  have "snd (postToTargets f ts) = ts" for f ts by (simp add: postToTargets_def Let_def)
  moreover have "\<exists>failed result. attempted (\<lambda>k. fst (postToTargets (fetchAt k) (webhookTargets env))) 0 5 =
      failed @ [Inr result] \<and> length failed \<le> i"
    if "i < 5" "\<forall>url\<in>set (webhookTargets env). answers (fetchAt i) url"
  proof -
    have "\<not> isl (fst (postToTargets (fetchAt (0 + i)) (webhookTargets env)))" using ok that by simp
    then obtain x where x: "fst (postToTargets (fetchAt (0 + i)) (webhookTargets env)) = Inr x"
      by (cases "fst (postToTargets (fetchAt (0 + i)) (webhookTargets env))") auto
    show ?thesis
      using attempted_success [of "\<lambda>k. fst (postToTargets (fetchAt k) (webhookTargets env))" 0 i x 5]
        x that by auto
  qed
  ultimately show ?thesis using ok by (simp add: processWebhook_def)
qed

text \<open>Two targets, the second of which is down in the first run.\<close>

definition demoTargets :: processEnv where
  "demoTargets = (\<lambda>_. None)(''EMERGENCY_WEBHOOK_URLS'' := Some ''https://a, https://b'')"

definition flaky :: "nat \<Rightarrow> fetch" where
  "flaky k url = (if k = 0 \<and> url = ''https://b'' then Inl ''timeout'' else Inr 200)"

theorem webhook_reaches_all_witness:
  "\<forall>p a b. \<exists>failed result. attempted (\<lambda>k. fst (processWebhook demoTargets (flaky k)
     (TriggerEmergencyProtocol p a b))) 0 5 = failed @ [Inr result] \<and> length failed \<le> 1"
proof (intro allI)
  fix p a b
  have "(1 :: nat) < 5 \<and> (\<forall>url\<in>set (webhookTargets demoTargets). answers (flaky 1) url)"
    by (simp add: flaky_def answers_def)
  then show "\<exists>failed result. attempted (\<lambda>k. fst (processWebhook demoTargets (flaky k)
     (TriggerEmergencyProtocol p a b))) 0 5 = failed @ [Inr result] \<and> length failed \<le> 1"
    using webhook_reaches_all [of demoTargets "flaky 0" p a b 1 flaky] by blast
qed

text \<open>The promotion at boot changes nothing but roles: no account appears or disappears, an account
  becomes an administrator only if its address is listed, every account so listed is one
  afterwards, nobody loses a role, and a second boot changes nothing more.\<close>

theorem bootstrap_only_promotes:
  "length (users (adminBootstrap env s)) = length (users s) \<and>
   adminBootstrap env s = s\<lparr>users := users (adminBootstrap env s)\<rparr> \<and>
   (\<forall>i < length (users s).
      let u = users s ! i; v = users (adminBootstrap env s) ! i
      in v = u \<or> v = u\<lparr>u_role := ADMIN\<rparr> \<and>
        (\<exists>w\<in>set (users s). u_id w = u_id u \<and> u_email w \<in> set (parseAdminEmails (env ''ADMIN_EMAILS'')))) \<and>
   (\<forall>v\<in>set (users (adminBootstrap env s)).
      u_email v \<in> set (parseAdminEmails (env ''ADMIN_EMAILS'')) \<longrightarrow> u_role v = ADMIN) \<and>
   adminBootstrap env (adminBootstrap env s) = adminBootstrap env s"
proof -
  let ?E = "parseAdminEmails (env ''ADMIN_EMAILS'')"
  let ?P = "\<lambda>u. u_id u \<in> u_id ` {x \<in> set (users s). u_email x \<in> set ?E \<and> u_role x \<noteq> ADMIN}"
  have eq: "users (adminBootstrap env s) = map (\<lambda>u. if ?P u then u\<lparr>u_role := ADMIN\<rparr> else u) (users s)"
  proof (cases "{x \<in> set (users s). u_email x \<in> set ?E \<and> u_role x \<noteq> ADMIN} = {}")
    case True
    then have "filter (\<lambda>u. u_role u \<noteq> ADMIN) (filter (\<lambda>u. u_email u \<in> set ?E) (users s)) = []"
      by (auto simp: filter_empty_conv)
    then have "adminBootstrap env s = s" by (simp add: adminBootstrap_def promote_def Let_def)
    moreover have "map (\<lambda>u. if ?P u then u\<lparr>u_role := ADMIN\<rparr> else u) (users s) = users s"
      unfolding True by (intro map_idI) simp
    ultimately show ?thesis by simp
  next
    case False
    then have "filter (\<lambda>u. u_role u \<noteq> ADMIN) (filter (\<lambda>u. u_email u \<in> set ?E) (users s)) \<noteq> []" "?E \<noteq> []"
      by (auto simp: filter_empty_conv)
    moreover have "set (filter (\<lambda>u. u_role u \<noteq> ADMIN) (filter (\<lambda>u. u_email u \<in> set ?E) (users s))) =
        {x \<in> set (users s). u_email x \<in> set ?E \<and> u_role x \<noteq> ADMIN}" by auto
    ultimately show ?thesis
      by (simp add: adminBootstrap_def promote_def Let_def tbl_update_def)
  qed
  have frame: "adminBootstrap env t = t\<lparr>users := users (adminBootstrap env t)\<rparr>" for t
    by (simp add: adminBootstrap_def promote_def Let_def)
  have admin: "u_role v = ADMIN" if "v \<in> set (users (adminBootstrap env s))" "u_email v \<in> set ?E" for v
    using that unfolding eq by (auto split: if_splits)
  have again: "adminBootstrap env (adminBootstrap env s) = adminBootstrap env s"
  proof -
    have "filter (\<lambda>u. u_role u \<noteq> ADMIN) (filter (\<lambda>u. u_email u \<in> set ?E)
        (users (adminBootstrap env s))) = []"
      using admin by (auto simp: filter_empty_conv)
    then show ?thesis by (simp add: adminBootstrap_def [of env "adminBootstrap env s"] promote_def Let_def)
  qed
  have each: "v = u \<or> v = u\<lparr>u_role := ADMIN\<rparr> \<and>
        (\<exists>w\<in>set (users s). u_id w = u_id u \<and> u_email w \<in> set ?E)"
    if "i < length (users s)" "u = users s ! i" "v = users (adminBootstrap env s) ! i" for i u v
    using that unfolding eq by auto
  have "length (users (adminBootstrap env s)) = length (users s)" unfolding eq by simp
  moreover have "\<forall>i < length (users s).
      let u = users s ! i; v = users (adminBootstrap env s) ! i
      in v = u \<or> v = u\<lparr>u_role := ADMIN\<rparr> \<and> (\<exists>w\<in>set (users s). u_id w = u_id u \<and> u_email w \<in> set ?E)"
    unfolding Let_def using each by blast
  moreover have "\<forall>v\<in>set (users (adminBootstrap env s)). u_email v \<in> set ?E \<longrightarrow> u_role v = ADMIN"
    using admin by blast
  ultimately show ?thesis using frame [of s] again by (intro conjI)
qed

theorem bootstrap_only_promotes_witness:
  "u_role (hd (users (adminBootstrap ((\<lambda>_. None)(''ADMIN_EMAILS'' := Some '' Ada@x.ng '')) (demo REQUESTED)))) =
     ADMIN"
proof -
  let ?env = "(\<lambda>_. None)(''ADMIN_EMAILS'' := Some '' Ada@x.ng '') :: processEnv"
  have "''ada@x.ng'' \<in> set (parseAdminEmails (?env ''ADMIN_EMAILS''))" by code_simp
  moreover have "u_email (demoUser) = ''ada@x.ng''" by (simp add: demoUser_def)
  moreover note bootstrap_only_promotes [of ?env "demo REQUESTED"]
  ultimately show ?thesis
    by (cases "users (adminBootstrap ?env (demo REQUESTED))") (auto simp: Let_def)
qed

text \<open>A finding: the list is lower-cased and the column is not, so an account that registered with a
  capital letter is never promoted.\<close>

theorem capital_letter_is_not_promoted:
  "adminBootstrap ((\<lambda>_. None)(''ADMIN_EMAILS'' := Some ''Ada@x.ng''))
     ((demo REQUESTED)\<lparr>users := [demoUser\<lparr>u_email := ''Ada@x.ng''\<rparr>]\<rparr>) =
   (demo REQUESTED)\<lparr>users := [demoUser\<lparr>u_email := ''Ada@x.ng''\<rparr>]\<rparr>"
proof -
  have "parseAdminEmails (Some ''Ada@x.ng'') = [''ada@x.ng'']" by code_simp
  then show ?thesis by (simp add: adminBootstrap_def promote_def)
qed

text \<open>A finding: a placeholder key is reported as missing, with the message that the ingress fails
  closed, and yet opens it.\<close>

theorem placeholder_key_opens_ingress:
  "internalKeyWarning \<in> set (collectEnvWarnings ((\<lambda>_. None)(''INTERNAL_API_KEY'' := Some ''change-me''))) \<and>
   internalApiKeyGuard (Some ''change-me'') (Some ''change-me'') = Inr ()"
proof -
  have "isMissing (Some ''change-me'')" by code_simp
  then show ?thesis by (simp add: collectEnvWarnings_def internalApiKeyGuard_def)
qed

text \<open>A mail goes to the address of the job, from the configured sender, and shows its code and no
  other; without configuration nothing is sent, nothing fails, and so nothing is retried.\<close>

theorem mail_shows_its_code:
  "(mailConfigured env \<longrightarrow>
     processEmail env send (SendForgotPassword to otp name) =
       (case send (forgotMail env to otp name) of
          Some e \<Rightarrow> Inl e | None \<Rightarrow> Inr (Sent (forgotMail env to otp name))) \<and>
     ml_to (forgotMail env to otp name) = to \<and> ml_shows (forgotMail env to otp name) = [name, otp] \<and>
     Some (ml_fromEmail (forgotMail env to otp name)) = env ''SENDGRID_FROM_EMAIL'') \<and>
   (\<not> mailConfigured env \<longrightarrow> attempted (\<lambda>k. processEmail env send j) 0 3 = [Inr Skipped])"
proof (intro conjI impI)
  assume "mailConfigured env"
  then show "Some (ml_fromEmail (forgotMail env to otp name)) = env ''SENDGRID_FROM_EMAIL''"
    by (auto simp: forgotMail_def envOr_def mailConfigured_def)
qed (simp_all add: processEmail_def numeral_3_eq_3, simp_all add: forgotMail_def)

end
