(* ===== verification/Endpoints.thy ===== *)
theory Endpoints
  imports Envelope Operations AuthFlows PrivySignIn Ratings Stats Vehicles Wallet
begin

text \<open>
  The HTTP surface: the handlers of the controllers, each behind its guards (\<open>@UseGuards\<close>,
  \<open>@Roles\<close>, \<open>@Public\<close>) and with the checks it makes before it calls its service. A handler is named
  \<open><controller>_<method>\<close>. The bodies of requests are the DTOs past the validation pipe, whose
  decorators are class-validator's; rate limits (\<open>@Throttle\<close>) are the throttler's.
\<close>

type_synonym jwtVerify = "string option \<Rightarrow> string + JwtPayload"

section \<open>Routes\<close>

text \<open>\<open>@UseGuards(JwtAuthGuard, RolesGuard) @Roles(...)\<close> in front of a handler that reads
  \<open>@CurrentUser()\<close>.\<close>

definition route ::
  "jwtVerify \<Rightarrow> Role list \<Rightarrow> string option \<Rightarrow> (Principal \<Rightarrow> (sys, 'a) handler) \<Rightarrow> (sys, 'a) handler" where
  "route verify roles authorization k s =
     (case authorize verify False (Some roles) authorization s of
        Inl e \<Rightarrow> (Inl e, s)
      | Inr None \<Rightarrow> (Inl (UnauthorizedException ''Unauthorized''), s)
      | Inr (Some u) \<Rightarrow> k (principalOf u) s)"

definition reads :: "(sys \<Rightarrow> 'a outcome) \<Rightarrow> (sys, 'a) handler" where
  "reads f s = (f s, s)"

definition mapOut :: "('a \<Rightarrow> 'b) \<Rightarrow> (sys, 'a) handler \<Rightarrow> (sys, 'b) handler" where
  "mapOut f m s = (case m s of (r, s') \<Rightarrow> (map_sum id f r, s'))"

text \<open>\<open>assert...; rest\<close>\<close>

definition checked :: "(sys \<Rightarrow> unit outcome) \<Rightarrow> (sys, 'a) handler \<Rightarrow> (sys, 'a) handler" where
  "checked c k s = (case c s of Inl e \<Rightarrow> (Inl e, s) | Inr _ \<Rightarrow> k s)"

definition saying :: "string \<Rightarrow> (sys, 'a) handler \<Rightarrow> (sys, 'a Enveloped) handler" where
  "saying message = mapOut (\<lambda>x. enveloped x (Some message) None)"

definition listed :: "string option \<Rightarrow> (sys, 'a list) handler \<Rightarrow> (sys, 'a list Enveloped) handler" where
  "listed message = mapOut (\<lambda>xs. enveloped xs message (Some (listMeta xs)))"

lemmas endpoint_defs = route_def reads_def mapOut_def checked_def saying_def listed_def

text \<open>\<open>@Query('limit') limit = '50'\<close>: the default of a missing parameter.\<close>

definition queryOr :: "string \<Rightarrow> rawParam \<Rightarrow> rawParam" where
  "queryOr fallback raw = (if raw = Absent then RawText fallback else raw)"

definition limitOf :: "rawParam \<Rightarrow> nat" where
  "limitOf raw = nat (clampLimit (queryOr ''50'' raw) DEFAULT_PAGE_LIMIT MAX_PAGE_LIMIT)"

definition offsetOf :: "rawParam \<Rightarrow> nat" where
  "offsetOf raw = nat (clampOffset (queryOr ''0'' raw))"

section \<open>\<open>src/rides/rides.controller.ts\<close>\<close>

record CreateRideBody =
  bd_userId :: "uuid option"
  bd_pickup :: Location
  bd_dropoff :: Location
  bd_category :: RideCategory
  bd_originChannel :: "RideOriginChannel option"

definition rides_estimateRide ::
  "jsMath \<Rightarrow> jwtVerify \<Rightarrow> Location \<Rightarrow> Location \<Rightarrow> string option \<Rightarrow> (sys, RideOptionDto list Enveloped) handler"
  where
  "rides_estimateRide m verify pickup dropoff hdr = route verify [USER] hdr (\<lambda>_.
     saying ''Estimates calculated successfully'' (reads (\<lambda>_. Inr (estimateRide m pickup dropoff))))"

definition rides_createRide ::
  "jsMath \<Rightarrow> jwtVerify \<Rightarrow> CreateRideBody \<Rightarrow> string option \<Rightarrow> (sys, Ride Enveloped) handler" where
  "rides_createRide m verify body hdr = route verify [USER] hdr (\<lambda>p.
     checked (\<lambda>_. if bd_userId body \<noteq> None \<and> bd_userId body \<noteq> Some (p_id p)
         then Inl (ForbiddenException ''You cannot request a ride for another user.'') else Inr ())
       (saying ''Ride requested successfully'' (createRide m
          \<lparr>cr_userId = p_id p, cr_pickup = bd_pickup body, cr_dropoff = bd_dropoff body,
           cr_category = bd_category body, cr_originChannel = bd_originChannel body\<rparr>)))"

definition rides_getUserRides ::
  "jwtVerify \<Rightarrow> uuid \<Rightarrow> string option \<Rightarrow> (sys, Ride list Enveloped) handler" where
  "rides_getUserRides verify userId hdr = route verify [USER, ADMIN] hdr (\<lambda>p.
     checked (\<lambda>_. assertOwnership (Some p) (Some userId) ''view your own ride history'')
       (listed None (reads (\<lambda>s. Inr (findByUserId userId s)))))"

definition rides_cancelRideByUser ::
  "jwtVerify \<Rightarrow> uuid \<Rightarrow> string option \<Rightarrow> string option \<Rightarrow> (sys, Ride Enveloped) handler" where
  "rides_cancelRideByUser verify i reason hdr = route verify [USER] hdr (\<lambda>p.
     saying ''Ride cancelled successfully'' (cancelRide i reason (Some (p_id p)) None))"

definition rides_getAvailableRides ::
  "jwtVerify \<Rightarrow> string option \<Rightarrow> (sys, Ride list Enveloped) handler" where
  "rides_getAvailableRides verify hdr = route verify [DRIVER] hdr (\<lambda>p.
     listed None (reads (\<lambda>s. Inr (findAvailableRides (p_id p) s))))"

definition rides_getDriverRides ::
  "jwtVerify \<Rightarrow> uuid \<Rightarrow> string option \<Rightarrow> (sys, Ride list Enveloped) handler" where
  "rides_getDriverRides verify driverId hdr = route verify [DRIVER, ADMIN] hdr (\<lambda>p.
     checked (\<lambda>_. assertOwnership (Some p) (Some driverId) ''view your own ride history'')
       (listed None (reads (\<lambda>s. Inr (findByDriverId driverId s)))))"

definition rides_acceptRide ::
  "jwtVerify \<Rightarrow> uuid \<Rightarrow> uuid option \<Rightarrow> string option \<Rightarrow> (sys, Ride Enveloped) handler" where
  "rides_acceptRide verify i vehicleId hdr = route verify [DRIVER] hdr (\<lambda>p.
     saying ''Ride accepted successfully'' (acceptRide i (p_id p) vehicleId))"

definition rides_markArrived ::
  "jwtVerify \<Rightarrow> uuid \<Rightarrow> string option \<Rightarrow> (sys, Ride Enveloped) handler" where
  "rides_markArrived verify i hdr = route verify [DRIVER] hdr (\<lambda>p.
     saying ''Marked as arrived at pickup location'' (markArrived i (p_id p)))"

definition rides_startRide ::
  "jwtVerify \<Rightarrow> uuid \<Rightarrow> string option \<Rightarrow> (sys, Ride Enveloped) handler" where
  "rides_startRide verify i hdr = route verify [DRIVER] hdr (\<lambda>p.
     saying ''Ride started successfully'' (startRide i (p_id p)))"

definition rides_completeRide ::
  "jwtVerify \<Rightarrow> uuid \<Rightarrow> string option \<Rightarrow> (sys, Ride Enveloped) handler" where
  "rides_completeRide verify i hdr = route verify [DRIVER] hdr (\<lambda>p.
     saying ''Ride completed successfully'' (completeRide i (p_id p)))"

definition rides_cancelRideByDriver ::
  "jwtVerify \<Rightarrow> uuid \<Rightarrow> string option \<Rightarrow> string option \<Rightarrow> (sys, Ride Enveloped) handler" where
  "rides_cancelRideByDriver verify i reason hdr = route verify [DRIVER] hdr (\<lambda>p.
     saying ''Ride cancelled successfully'' (cancelRide i reason None (Some (p_id p))))"

definition rides_getAllRides :: "jwtVerify \<Rightarrow> string option \<Rightarrow> (sys, Ride list Enveloped) handler" where
  "rides_getAllRides verify hdr = route verify [ADMIN] hdr (\<lambda>_. listed None (reads (\<lambda>s. Inr (findAll s))))"

definition rides_getFareBreakdown ::
  "jwtVerify \<Rightarrow> uuid \<Rightarrow> string option \<Rightarrow> (sys, FareBreakdown) handler" where
  "rides_getFareBreakdown verify i hdr = route verify [USER, DRIVER, ADMIN] hdr (\<lambda>p.
     reads (getFareBreakdown i (p_id p) (p_role p = ADMIN)))"

definition rides_getRide :: "jwtVerify \<Rightarrow> uuid \<Rightarrow> string option \<Rightarrow> (sys, Ride) handler" where
  "rides_getRide verify i hdr = route verify [USER, DRIVER, ADMIN] hdr (\<lambda>p.
     andThen (reads (findOne i)) (\<lambda>ride.
       checked (\<lambda>_. assertPartyToRide (Some p) (Some (rideParties ride)) ''view details'') (returns ride)))"

section \<open>\<open>src/rides/ratings.controller.ts\<close>\<close>

definition ratings_create ::
  "jwtVerify \<Rightarrow> CreateRatingDto \<Rightarrow> string option \<Rightarrow> (sys, Rating) handler" where
  "ratings_create verify dto hdr = route verify [USER, DRIVER] hdr (\<lambda>p. createRating (p_id p) dto)"

definition ratings_findByRide ::
  "jwtVerify \<Rightarrow> uuid \<Rightarrow> string option \<Rightarrow> (sys, Rating list) handler" where
  "ratings_findByRide verify rideId hdr = route verify [USER, DRIVER, ADMIN] hdr (\<lambda>p s.
     case findRideForAuthorization rideId s of
       None \<Rightarrow> (Inl (NotFoundException ''Ride not found''), s)
     | Some ride \<Rightarrow>
         checked (\<lambda>_. assertPartyToRide (Some p) (Some ride) ''view ratings'')
           (reads (\<lambda>s. Inr (findRatingsByRide rideId s))) s)"

section \<open>\<open>src/wallet/wallet.controller.ts\<close>\<close>

definition wallet_getBalance ::
  "walletConfig \<Rightarrow> jwtVerify \<Rightarrow> string option \<Rightarrow> (sys, WalletBalance) handler" where
  "wallet_getBalance cfg verify hdr = route verify [DRIVER] hdr (\<lambda>p. reads (getBalance cfg (p_id p)))"

definition wallet_getFuelSupportLimit ::
  "walletConfig \<Rightarrow> jwtVerify \<Rightarrow> string option \<Rightarrow> (sys, FuelSupportLimit) handler" where
  "wallet_getFuelSupportLimit cfg verify hdr = route verify [DRIVER] hdr (\<lambda>p.
     reads (\<lambda>s. Inr (getFuelSupportLimit cfg (p_id p) s)))"

definition wallet_requestFuelSupport ::
  "walletConfig \<Rightarrow> FuelSupportProvider \<Rightarrow> jwtVerify \<Rightarrow> num \<Rightarrow> string option \<Rightarrow> (sys, WalletResponse) handler"
  where
  "wallet_requestFuelSupport cfg disburse verify amount hdr = route verify [DRIVER] hdr (\<lambda>p.
     requestFuelSupport cfg disburse (p_id p) amount)"

definition wallet_requestPayout ::
  "walletConfig \<Rightarrow> PayoutProvider \<Rightarrow> jwtVerify \<Rightarrow> num \<Rightarrow> BankAccountDto \<Rightarrow> string option \<Rightarrow>
   (sys, WalletResponse) handler" where
  "wallet_requestPayout cfg initiate verify amount bank hdr = route verify [DRIVER] hdr (\<lambda>p.
     requestPayout cfg initiate (p_id p) amount bank)"

definition wallet_getTransactions ::
  "jwtVerify \<Rightarrow> rawParam \<Rightarrow> rawParam \<Rightarrow> string option \<Rightarrow> (sys, nat \<times> nat \<times> LedgerEntry list) handler" where
  "wallet_getTransactions verify limit offset hdr = route verify [DRIVER] hdr (\<lambda>p.
     reads (\<lambda>s. Inr (getTransactions (p_id p) (limitOf limit) (offsetOf offset) s)))"

section \<open>\<open>src/ledger/ledger.controller.ts\<close>\<close>

record Statement =
  sm_stakeholderType :: "StakeholderType option"
  sm_balance :: nat
  sm_entries :: "LedgerEntry list"

definition statementOf ::
  "bool \<Rightarrow> StakeholderType \<Rightarrow> uuid \<Rightarrow> rawParam \<Rightarrow> rawParam \<Rightarrow> sys \<Rightarrow> Statement Enveloped" where
  "statementOf named st i limit offset s =
     (case findByStakeholder st i (limitOf limit) (offsetOf offset) s of
        (entries, count) \<Rightarrow>
          enveloped \<lparr>sm_stakeholderType = (if named then Some st else None), sm_balance = count,
            sm_entries = entries\<rparr> (Some ''Ledger entries fetched'') (Some (listMeta entries)))"

definition ledger_getMyStatement ::
  "jwtVerify \<Rightarrow> rawParam \<Rightarrow> rawParam \<Rightarrow> string option \<Rightarrow> (sys, Statement Enveloped) handler" where
  "ledger_getMyStatement verify limit offset hdr = route verify [USER, DRIVER, ADMIN] hdr (\<lambda>p.
     reads (\<lambda>s. Inr (statementOf True (if p_role p = DRIVER then S_DRIVER else S_RIDER) (p_id p)
       limit offset s)))"

definition ledger_getDriverStatement ::
  "jwtVerify \<Rightarrow> uuid \<Rightarrow> rawParam \<Rightarrow> rawParam \<Rightarrow> string option \<Rightarrow> (sys, Statement Enveloped) handler" where
  "ledger_getDriverStatement verify driverId limit offset hdr = route verify [DRIVER, ADMIN] hdr (\<lambda>p.
     checked (\<lambda>_. if p_role p \<noteq> ADMIN \<and> p_id p \<noteq> driverId
         then Inl (ForbiddenException ''You can only view your own statement'') else Inr ())
       (reads (\<lambda>s. Inr (statementOf False S_DRIVER driverId limit offset s))))"

definition ledger_getRideEntries ::
  "jwtVerify \<Rightarrow> uuid \<Rightarrow> string option \<Rightarrow> (sys, LedgerEntry list Enveloped) handler" where
  "ledger_getRideEntries verify rideId hdr = route verify [ADMIN] hdr (\<lambda>_.
     listed None (reads (\<lambda>s. Inr (Ledger.findByRideId rideId s))))"

definition ledger_getSummary :: "jwtVerify \<Rightarrow> string option \<Rightarrow> (sys, LedgerSummary) handler" where
  "ledger_getSummary verify hdr = route verify [ADMIN] hdr (\<lambda>_. reads (\<lambda>s. Inr (getSummary s)))"

section \<open>\<open>src/emergency/emergency.controller.ts\<close>\<close>

definition emergency_trigger ::
  "geoEnv \<Rightarrow> bool \<Rightarrow> jwtVerify \<Rightarrow> TriggerEmergencyDto \<Rightarrow> string option \<Rightarrow>
   (sys, EmergencyIncident Enveloped) handler" where
  "emergency_trigger G queueUp verify dto hdr = route verify [USER, DRIVER] hdr (\<lambda>p.
     saying ''Emergency protocol triggered. Help is being notified.''
       (triggerEmergency G queueUp dto (p_id p) (p_role p)))"

definition emergency_findAll ::
  "jwtVerify \<Rightarrow> EmergencyStatus option \<Rightarrow> string option \<Rightarrow> (sys, EmergencyIncident list Enveloped) handler"
  where
  "emergency_findAll verify status hdr = route verify [ADMIN] hdr (\<lambda>_.
     listed None (reads (\<lambda>s. Inr (findAllIncidents status s))))"

definition emergency_findByRide ::
  "jwtVerify \<Rightarrow> uuid \<Rightarrow> string option \<Rightarrow> (sys, EmergencyIncident list Enveloped) handler" where
  "emergency_findByRide verify rideId hdr = route verify [USER, DRIVER, ADMIN] hdr (\<lambda>p.
     listed None (reads (incidentsOfRide rideId (Some p))))"

definition emergency_resolve ::
  "jwtVerify \<Rightarrow> uuid \<Rightarrow> ResolveEmergencyDto \<Rightarrow> string option \<Rightarrow> (sys, EmergencyIncident Enveloped) handler"
  where
  "emergency_resolve verify i dto hdr = route verify [ADMIN] hdr (\<lambda>_.
     saying ''Incident updated'' (resolveEmergency i dto))"

section \<open>\<open>src/drivers/drivers.controller.ts\<close>\<close>

definition drivers_create :: "authEnv \<Rightarrow> CreateDriverDto \<Rightarrow> (sys, Driver AuthResult Enveloped) handler" where
  "drivers_create env dto =
     saying ''Driver registration successful. You can now start using the app.'' (createDriver env dto)"

definition drivers_login :: "authEnv \<Rightarrow> string \<Rightarrow> string \<Rightarrow> (sys, Driver AuthResult) handler" where
  "drivers_login env email password = loginDriver env email password"

definition drivers_findAll :: "jwtVerify \<Rightarrow> string option \<Rightarrow> (sys, Driver list Enveloped) handler" where
  "drivers_findAll verify hdr = route verify [ADMIN] hdr (\<lambda>_.
     listed None (reads (\<lambda>s. Inr (findAllDrivers s))))"

definition drivers_findOne :: "jwtVerify \<Rightarrow> uuid \<Rightarrow> string option \<Rightarrow> (sys, Driver) handler" where
  "drivers_findOne verify i hdr = route verify [DRIVER, ADMIN] hdr (\<lambda>p.
     checked (\<lambda>_. assertOwnership (Some p) (Some i) ''view your own driver profile'')
       (reads (findOneDriver i)))"

definition drivers_update ::
  "jwtVerify \<Rightarrow> uuid \<Rightarrow> UpdateDriverDto \<Rightarrow> string option \<Rightarrow> (sys, Driver Enveloped) handler" where
  "drivers_update verify i dto hdr = route verify [DRIVER, ADMIN] hdr (\<lambda>p.
     checked (\<lambda>_. assertOwnership (Some p) (Some i) ''update your own driver profile'')
       (saying ''Driver updated successfully'' (updateDriver i dto)))"

definition drivers_updateOnlineStatus ::
  "jwtVerify \<Rightarrow> uuid \<Rightarrow> bool \<Rightarrow> string option \<Rightarrow> (sys, Driver Enveloped) handler" where
  "drivers_updateOnlineStatus verify i isOnline hdr = route verify [DRIVER] hdr (\<lambda>p.
     checked (\<lambda>_. assertOwnership (Some p) (Some i) ''update your own online status'')
       (saying (''Driver is now '' @ (if isOnline then ''online'' else ''offline''))
         (updateOnlineStatus i isOnline)))"

definition drivers_updateVerificationStatus ::
  "jwtVerify \<Rightarrow> uuid \<Rightarrow> VerificationStatus \<Rightarrow> string option \<Rightarrow> (sys, Driver Enveloped) handler" where
  "drivers_updateVerificationStatus verify i status hdr = route verify [ADMIN] hdr (\<lambda>_.
     saying ''Verification status updated successfully'' (updateVerificationStatus i status))"

definition drivers_updateActiveStatus ::
  "jwtVerify \<Rightarrow> uuid \<Rightarrow> bool \<Rightarrow> string option \<Rightarrow> (sys, Driver Enveloped) handler" where
  "drivers_updateActiveStatus verify i isActive hdr = route verify [ADMIN] hdr (\<lambda>_.
     saying (''Driver '' @ (if isActive then ''reinstated'' else ''suspended'') @ '' successfully'')
       (updateActiveStatus i isActive))"

definition drivers_forgotPassword :: "authEnv \<Rightarrow> string \<Rightarrow> (sys, string) handler" where
  "drivers_forgotPassword env email = driverForgotPassword env email"

definition drivers_resetPassword ::
  "authEnv \<Rightarrow> string \<Rightarrow> string \<Rightarrow> string \<Rightarrow> (sys, string) handler" where
  "drivers_resetPassword env email otp newPassword = driverResetPassword env email otp newPassword"

definition drivers_remove :: "jwtVerify \<Rightarrow> uuid \<Rightarrow> string option \<Rightarrow> (sys, unit) handler" where
  "drivers_remove verify i hdr = route verify [ADMIN] hdr (\<lambda>_. removeDriver i)"

section \<open>\<open>src/vehicles/vehicles.controller.ts\<close>\<close>

text \<open>The body with its optional \<open>driverId\<close>; the other fields are the DTO's.\<close>

definition vehicles_create ::
  "jwtVerify \<Rightarrow> uuid option \<Rightarrow> CreateVehicleDto \<Rightarrow> string option \<Rightarrow> (sys, VehicleView Enveloped) handler" where
  "vehicles_create verify driverId dto hdr = route verify [DRIVER, ADMIN] hdr (\<lambda>p.
     checked (\<lambda>_.
         if \<not> isAdmin (Some p) \<and> driverId \<noteq> None
         then Inl (ForbiddenException ''You cannot register a vehicle for another driver.'')
         else if isAdmin (Some p) \<and> driverId = None
         then Inl (BadRequestException ''An admin must specify which driver this vehicle belongs to.'')
         else Inr ())
       (let ownerId = (case driverId of Some d \<Rightarrow> if isAdmin (Some p) then d else p_id p | None \<Rightarrow> p_id p)
        in saying ''Vehicle created successfully'' (createVehicle (dto\<lparr>cv_driverId := ownerId\<rparr>))))"

definition vehicles_findAll :: "jwtVerify \<Rightarrow> string option \<Rightarrow> (sys, VehicleView list Enveloped) handler" where
  "vehicles_findAll verify hdr = route verify [ADMIN] hdr (\<lambda>_.
     listed None (reads (\<lambda>s. Inr (findAllVehicles s))))"

definition vehicles_findByDriverId ::
  "jwtVerify \<Rightarrow> uuid \<Rightarrow> string option \<Rightarrow> (sys, VehicleView list Enveloped) handler" where
  "vehicles_findByDriverId verify driverId hdr = route verify [DRIVER, ADMIN] hdr (\<lambda>p.
     checked (\<lambda>_. assertOwnership (Some p) (Some driverId) ''view your own vehicles'')
       (listed None (reads (findVehiclesByDriverId driverId))))"

text \<open>\<open>assertOwnsVehicle\<close>\<close>

definition assertOwnsVehicle :: "Principal \<Rightarrow> uuid \<Rightarrow> string \<Rightarrow> sys \<Rightarrow> unit outcome" where
  "assertOwnsVehicle p vehicleId action s =
     (case findOneVehicle vehicleId s of
        Inl e \<Rightarrow> Inl e
      | Inr vehicle \<Rightarrow> assertOwnership (Some p) (Some (v_driverId (vw_vehicle vehicle))) action)"

definition vehicles_findOne :: "jwtVerify \<Rightarrow> uuid \<Rightarrow> string option \<Rightarrow> (sys, VehicleView) handler" where
  "vehicles_findOne verify i hdr = route verify [DRIVER, ADMIN] hdr (\<lambda>p.
     andThen (reads (findOneVehicle i)) (\<lambda>vehicle.
       checked (\<lambda>_. assertOwnership (Some p) (Some (v_driverId (vw_vehicle vehicle)))
         ''view your own vehicles'') (returns vehicle)))"

definition vehicles_deactivate ::
  "jwtVerify \<Rightarrow> uuid \<Rightarrow> string option \<Rightarrow> (sys, VehicleView Enveloped) handler" where
  "vehicles_deactivate verify i hdr = route verify [DRIVER, ADMIN] hdr (\<lambda>p.
     checked (assertOwnsVehicle p i ''deactivate your own vehicles'')
       (saying ''Vehicle deactivated successfully'' (deactivateVehicle i)))"

definition vehicles_activate ::
  "jwtVerify \<Rightarrow> uuid \<Rightarrow> string option \<Rightarrow> (sys, VehicleView Enveloped) handler" where
  "vehicles_activate verify i hdr = route verify [DRIVER, ADMIN] hdr (\<lambda>p.
     checked (assertOwnsVehicle p i ''activate your own vehicles'')
       (saying ''Vehicle activated successfully'' (activateVehicle i)))"

definition vehicles_update ::
  "jwtVerify \<Rightarrow> uuid \<Rightarrow> UpdateVehicleDto \<Rightarrow> string option \<Rightarrow> (sys, VehicleView Enveloped) handler" where
  "vehicles_update verify i dto hdr = route verify [DRIVER, ADMIN] hdr (\<lambda>p.
     checked (assertOwnsVehicle p i ''update your own vehicles'')
       (saying ''Vehicle updated successfully'' (updateVehicle i dto)))"

definition vehicles_remove :: "jwtVerify \<Rightarrow> uuid \<Rightarrow> string option \<Rightarrow> (sys, unit) handler" where
  "vehicles_remove verify i hdr = route verify [DRIVER, ADMIN] hdr (\<lambda>p.
     checked (assertOwnsVehicle p i ''delete your own vehicles'') (removeVehicle i))"

section \<open>\<open>src/driver-locations/driver-locations.controller.ts\<close>\<close>

definition locations_update ::
  "jwtVerify \<Rightarrow> UpdateLocationDto \<Rightarrow> string option \<Rightarrow> (sys, LocationUpdate Enveloped) handler" where
  "locations_update verify dto hdr = route verify [DRIVER] hdr (\<lambda>p.
     saying ''Location updated successfully'' (updateLocation (p_id p) dto))"

definition locations_getDriverLocation ::
  "geoEnv \<Rightarrow> jwtVerify \<Rightarrow> uuid \<Rightarrow> string option \<Rightarrow> (sys, DriverLocationView) handler" where
  "locations_getDriverLocation G verify driverId hdr = route verify [USER, DRIVER, ADMIN] hdr (\<lambda>p.
     reads (getDriverLocation G driverId (Some p)))"

definition locations_findNearby ::
  "geoEnv \<Rightarrow> jwtVerify \<Rightarrow> num \<Rightarrow> num \<Rightarrow> string option \<Rightarrow> string option \<Rightarrow> (sys, NearbySearch Enveloped) handler"
  where
  "locations_findNearby G verify lat lng radius hdr = route verify [USER, DRIVER, ADMIN] hdr (\<lambda>_.
     reads (\<lambda>s. let r = nearbyEndpoint G lat lng radius s
       in Inr (enveloped r (Some ''Nearby drivers fetched'') (Some (listMeta (ns_drivers r))))))"

section \<open>\<open>src/auth/auth.controller.ts\<close>\<close>

text \<open>The request beside the body: its headers and the caller's address.\<close>

record httpRequest =
  hq_identityToken :: "string option"
  hq_userAgent :: "string option"
  hq_ip :: "string option"

definition auth_register :: "authEnv \<Rightarrow> RegisterDto \<Rightarrow> (sys, User AuthResult) handler" where
  "auth_register env dto = register env dto"

definition auth_verifyOtp :: "authEnv \<Rightarrow> string \<Rightarrow> string \<Rightarrow> (sys, User AuthResult) handler" where
  "auth_verifyOtp env email otp = verifyOtp env email otp"

definition auth_resendOtp :: "authEnv \<Rightarrow> string \<Rightarrow> (sys, string \<times> string) handler" where
  "auth_resendOtp env email = resendOtp env email"

definition auth_login :: "authEnv \<Rightarrow> string \<Rightarrow> string \<Rightarrow> (sys, User AuthResult) handler" where
  "auth_login env email password = login env email password"

definition auth_forgotPassword :: "authEnv \<Rightarrow> string \<Rightarrow> (sys, string) handler" where
  "auth_forgotPassword env email = forgotPassword env email"

definition auth_resetPassword ::
  "authEnv \<Rightarrow> string \<Rightarrow> string \<Rightarrow> string \<Rightarrow> (sys, string) handler" where
  "auth_resetPassword env email otp newPassword = resetPassword env email otp newPassword"

definition auth_privySignIn ::
  "PrivyService \<Rightarrow> authEnv \<Rightarrow> string \<Rightarrow> string option \<Rightarrow> PrivyAudience \<Rightarrow> string option \<Rightarrow> httpRequest \<Rightarrow>
   (sys, PrivySignInResult) handler" where
  "auth_privySignIn privy env accessToken identityToken audience name req =
     signIn privy env \<lparr>px_accessToken = accessToken,
       px_identityToken = orElse identityToken (hq_identityToken req), px_audience = audience,
       px_name = name, px_userAgent = hq_userAgent req, px_ipAddress = hq_ip req\<rparr>"

definition auth_privyDriverRegister ::
  "PrivyService \<Rightarrow> authEnv \<Rightarrow> string \<Rightarrow> string option \<Rightarrow> DriverDetails \<Rightarrow> httpRequest \<Rightarrow>
   (sys, PrivySignInResult) handler" where
  "auth_privyDriverRegister privy env accessToken identityToken details req =
     registerDriver privy env \<lparr>px_accessToken = accessToken,
       px_identityToken = orElse identityToken (hq_identityToken req), px_audience = AudDriver,
       px_name = None, px_userAgent = hq_userAgent req, px_ipAddress = hq_ip req\<rparr> details"

definition auth_refresh :: "authEnv \<Rightarrow> string \<Rightarrow> httpRequest \<Rightarrow> (sys, SessionTokens) handler" where
  "auth_refresh env refreshToken req = refreshSession env refreshToken
     \<lparr>sc_userAgent = hq_userAgent req, sc_ipAddress = hq_ip req\<rparr>"

definition auth_logout :: "authEnv \<Rightarrow> string \<Rightarrow> (sys, unit) handler" where
  "auth_logout env refreshToken s = (Inr (), logout env refreshToken s)"

section \<open>\<open>src/stats/stats.controller.ts\<close>, \<open>src/booking-channels/booking-channels.controller.ts\<close>\<close>

definition stats_getPublicStats :: "(sys, PublicStats) handler" where
  "stats_getPublicStats = reads (\<lambda>s. Inr (getPublicStats s))"

definition stats_getDashboard :: "statsConfig \<Rightarrow> jwtVerify \<Rightarrow> string option \<Rightarrow> (sys, Dashboard) handler" where
  "stats_getDashboard cfg verify hdr = route verify [ADMIN] hdr (\<lambda>_. reads (\<lambda>s. Inr (getDashboard cfg s)))"

definition stats_getRideStats :: "statsConfig \<Rightarrow> jwtVerify \<Rightarrow> string option \<Rightarrow> (sys, RideStats) handler" where
  "stats_getRideStats cfg verify hdr = route verify [ADMIN] hdr (\<lambda>_. reads (\<lambda>s. Inr (getRideStats cfg s)))"

definition stats_getRevenueStats ::
  "statsConfig \<Rightarrow> jwtVerify \<Rightarrow> string option \<Rightarrow> (sys, RevenueStats) handler" where
  "stats_getRevenueStats cfg verify hdr = route verify [ADMIN] hdr (\<lambda>_.
     reads (\<lambda>s. Inr (getRevenueStats cfg s)))"

definition stats_getDriverStats :: "jwtVerify \<Rightarrow> string option \<Rightarrow> (sys, DriverStats) handler" where
  "stats_getDriverStats verify hdr = route verify [ADMIN] hdr (\<lambda>_. reads (\<lambda>s. Inr (getDriverStats s)))"

definition channels_parseAndBook ::
  "jsMath \<Rightarrow> string option \<Rightarrow> ParseAndBookDto \<Rightarrow> string option \<Rightarrow> (sys, BookingReply) handler" where
  "channels_parseAndBook m configuredKey dto apiKey =
     checked (\<lambda>_. internalApiKeyGuard configuredKey apiKey) (parseAndBook m dto)"

end
