(* ===== verification/Standing.thy ===== *)
theory Standing
  imports GatewayRules PrivySignIn Ratings Vehicles Emergency
begin

text \<open>
  What the account, vehicle, rating, location and emergency services leave alone: rides, ledger,
  and in the rows of riders and drivers the balance, the role and the block. \<open>related\<close> is that
  relation between the states before and after a call, as a preorder with one rule per kind of
  write; every method of those services is shown to stay within it.
\<close>

section \<open>Effects\<close>

text \<open>A handler that stays, on every path, within a relation between states.\<close>

definition stays :: "('s \<Rightarrow> 's \<Rightarrow> bool) \<Rightarrow> ('s, 'a) handler \<Rightarrow> bool" where
  "stays R m \<longleftrightarrow> (\<forall>s. R s (snd (m s)))"

lemma staysI: "(\<And>s res s'. m s = (res, s') \<Longrightarrow> R s s') \<Longrightarrow> stays R m"
  unfolding stays_def by (metis prod.collapse)

lemma staysD: "stays R m \<Longrightarrow> m s = (res, s') \<Longrightarrow> R s s'"
  unfolding stays_def by (metis snd_conv)

lemma stays_mono: "stays R m \<Longrightarrow> (\<And>s s'. R s s' \<Longrightarrow> Q s s') \<Longrightarrow> stays Q m"
  by (simp add: stays_def)

text \<open>What holds of a relation that lets a call do nothing, and of one that also lets calls follow
  each other.\<close>

locale frame_rule =
  fixes R :: "'s \<Rightarrow> 's \<Rightarrow> bool"
  assumes unchanged: "R s s"
begin

lemma stays_returns: "stays R (returns x)"
  by (simp add: stays_def returns_def unchanged)

lemma stays_throws: "stays R (throws e)"
  by (simp add: stays_def throws_def unchanged)

lemma stays_throwIf: "(\<not> c \<Longrightarrow> stays R k) \<Longrightarrow> stays R (throwIf c e k)"
  by (auto simp: stays_def throwIf_def unchanged)

lemma stays_transaction: "stays R m \<Longrightarrow> stays R (transaction m)"
  by (auto simp: stays_def transaction_def unchanged split: prod.splits sum.splits) (metis snd_conv)

lemma keeps_stays: "stays R m \<Longrightarrow> (\<And>s s'. R s s' \<Longrightarrow> I s \<Longrightarrow> I s') \<Longrightarrow> keeps I m"
  by (auto simp: stays_def keeps_def)

end

locale effect = frame_rule R for R :: "'s \<Rightarrow> 's \<Rightarrow> bool" +
  assumes composed: "R s t \<Longrightarrow> R t u \<Longrightarrow> R s u"
begin

lemma stays_andThen:
  assumes "stays R m" "\<And>x. stays R (k x)"
  shows "stays R (andThen m k)"
proof (rule staysI)
  fix s res s' assume run: "andThen m k s = (res, s')"
  show "R s s'"
  proof (cases "m s")
    case (Pair r t)
    then have "R s t" using staysD [OF assms(1)] by blast
    then show ?thesis
      using run Pair staysD [OF assms(2)] composed by (cases r) (auto simp: andThen_def)
  qed
qed

end

section \<open>The relation\<close>

definition userCore :: "User \<Rightarrow> uuid \<times> dec2 \<times> Role \<times> bool" where
  "userCore u = (u_id u, u_cashbackBalance u, u_role u, u_isBlocked u)"

definition driverCore :: "Driver \<Rightarrow> uuid \<times> dec2 \<times> Role" where
  "driverCore d = (d_id d, d_walletBalance d, d_role d)"

text \<open>What an administrator decides about a driver.\<close>

definition decided :: "Driver \<Rightarrow> (VerificationStatus \<times> bool) option" where
  "decided d = Some (d_verificationStatus d, d_isActive d)"

definition undecided :: "Driver \<Rightarrow> (VerificationStatus \<times> bool) option" where
  "undecided d = None"

text \<open>A row is an old one with the same core, or a new account with an unused key and no money.\<close>

definition user_from :: "sys \<Rightarrow> User \<Rightarrow> bool" where
  "user_from s u \<longleftrightarrow> (\<exists>v\<in>set (users s). userCore v = userCore u) \<or>
     nextId s \<le> u_id u \<and> u_cashbackBalance u = 0 \<and> u_role u = USER"

definition driver_from :: "(Driver \<Rightarrow> 'k) \<Rightarrow> sys \<Rightarrow> Driver \<Rightarrow> bool" where
  "driver_from K s d \<longleftrightarrow> (\<exists>e\<in>set (drivers s). driverCore e = driverCore d \<and> K e = K d) \<or>
     nextId s \<le> d_id d \<and> d_walletBalance d = 0 \<and> d_role d = DRIVER"

definition related :: "(Driver \<Rightarrow> 'k) \<Rightarrow> sys \<Rightarrow> sys \<Rightarrow> bool" where
  "related K s s' \<longleftrightarrow> rides s' = rides s \<and> ledger s' = ledger s \<and> nextId s \<le> nextId s' \<and>
     (wf_people s \<longrightarrow> wf_people s') \<and> (\<forall>u\<in>set (users s'). user_from s u) \<and>
     (\<forall>d\<in>set (drivers s'). driver_from K s d)"

lemma user_from_self: "u \<in> set (users s) \<Longrightarrow> user_from s u"
  by (auto simp: user_from_def)

lemma driver_from_self: "d \<in> set (drivers s) \<Longrightarrow> driver_from K s d"
  by (auto simp: driver_from_def)

lemma related_refl: "related K s s"
  by (simp add: related_def user_from_self driver_from_self)

lemma user_from_trans:
  assumes "user_from t u" "\<forall>v\<in>set (users t). user_from s v" "nextId s \<le> nextId t"
  shows "user_from s u"
  using assms(1) unfolding user_from_def [of t]
proof (elim disjE bexE conjE)
  fix v assume v: "v \<in> set (users t)" "userCore v = userCore u"
  then have "user_from s v" using assms(2) by blast
  then show ?thesis using v(2) by (auto simp: user_from_def userCore_def)
qed (use assms(3) in \<open>auto simp: user_from_def\<close>)

lemma driver_from_trans:
  assumes "driver_from K t d" "\<forall>e\<in>set (drivers t). driver_from K s e" "nextId s \<le> nextId t"
  shows "driver_from K s d"
  using assms(1) unfolding driver_from_def [of K t]
proof (elim disjE bexE conjE)
  fix e assume e: "e \<in> set (drivers t)" "driverCore e = driverCore d" "K e = K d"
  then have "driver_from K s e" using assms(2) by blast
  then show ?thesis using e(2,3) by (auto simp: driver_from_def driverCore_def)
qed (use assms(3) in \<open>auto simp: driver_from_def\<close>)

lemma related_trans: "related K s t \<Longrightarrow> related K t u \<Longrightarrow> related K s u"
  unfolding related_def using user_from_trans [of t _ s] driver_from_trans [of K t _ s] by force

interpretation accountRel: effect "related K" for K
  by unfold_locales (rule related_refl, rule related_trans)

lemma related_undecided: "related decided s s' \<Longrightarrow> related undecided s s'"
  by (fastforce simp: related_def driver_from_def decided_def undecided_def)

section \<open>The writes\<close>

named_theorems effects \<open>which relation a write or a method stays within\<close>

lemma related_frame:
  assumes "users s' = users s" "drivers s' = drivers s" "rides s' = rides s" "ledger s' = ledger s"
    "nextId s \<le> nextId s'"
  shows "related K s s'"
proof -
  have "wf_people s'" if "wf_people s" using that assms by (auto simp: wf_people_def intro: less_le_trans)
  then show ?thesis using assms by (simp add: related_def user_from_self driver_from_self)
qed

lemma related_users:
  assumes "drivers s' = drivers s" "rides s' = rides s" "ledger s' = ledger s" "nextId s' = nextId s"
    and "distinct (map u_id (users s)) \<longrightarrow> distinct (map u_id (users s'))"
    and "\<forall>u\<in>set (users s'). \<exists>v\<in>set (users s). userCore v = userCore u"
  shows "related K s s'"
proof -
  have "u_id u < nextId s \<and> fits_decimal 12 (u_cashbackBalance u)"
    if "wf_people s" "u \<in> set (users s')" for u
    using assms(6) that by (fastforce simp: wf_people_def userCore_def)
  then have "wf_people s'" if "wf_people s"
    using that assms(1,4,5) unfolding wf_people_def by simp
  then show ?thesis
    using assms by (simp add: related_def user_from_def driver_from_self)
qed

lemma related_updateUser:
  assumes "\<And>u. userCore (f u) = userCore u"
  shows "related K s (updateUser i f s)"
proof (rule related_users)
  have "u_id (f u) = u_id u" for u using assms by (simp add: userCore_def)
  then have "map u_id (users (updateUser i f s)) = map u_id (users s)"
    by (simp add: updateUser_def tbl_update_def)
  then show "distinct (map u_id (users s)) \<longrightarrow> distinct (map u_id (users (updateUser i f s)))"
    by simp
  show "\<forall>u\<in>set (users (updateUser i f s)). \<exists>v\<in>set (users s). userCore v = userCore u"
    using assms by (auto simp: updateUser_def tbl_update_def)
qed (simp_all add: updateUser_def)

lemma related_saveUser:
  assumes "v \<in> set (users s)" "userCore x = userCore v"
  shows "related K s (saveUser x s)"
proof (rule related_users)
  show "distinct (map u_id (users s)) \<longrightarrow> distinct (map u_id (users (saveUser x s)))"
    using userRepo.rows_save_distinct by blast
  show "\<forall>u\<in>set (users (saveUser x s)). \<exists>w\<in>set (users s). userCore w = userCore u"
    using assms userRepo.in_rows_save by fastforce
qed simp_all

lemma related_drivers:
  assumes "users s' = users s" "rides s' = rides s" "ledger s' = ledger s" "nextId s' = nextId s"
    and "distinct (map d_id (drivers s)) \<longrightarrow> distinct (map d_id (drivers s'))"
    and "\<forall>d\<in>set (drivers s'). \<exists>e\<in>set (drivers s). driverCore e = driverCore d \<and> K e = K d"
  shows "related K s s'"
proof -
  have "d_id d < nextId s \<and> fits_decimal 10 (d_walletBalance d)"
    if "wf_people s" "d \<in> set (drivers s')" for d
    using assms(6) that by (fastforce simp: wf_people_def driverCore_def)
  then have "wf_people s'" if "wf_people s"
    using that assms(1,4,5) unfolding wf_people_def by simp
  then show ?thesis
    using assms by (simp add: related_def driver_from_def user_from_self)
qed

lemma related_updateDriverRow:
  assumes "\<And>d. driverCore (f d) = driverCore d \<and> K (f d) = K d"
  shows "related K s (updateDriverRow i f s)"
proof (rule related_drivers)
  have "d_id (f d) = d_id d" for d using assms by (simp add: driverCore_def)
  then have "map d_id (drivers (updateDriverRow i f s)) = map d_id (drivers s)"
    by (simp add: updateDriverRow_def tbl_update_def)
  then show "distinct (map d_id (drivers s)) \<longrightarrow> distinct (map d_id (drivers (updateDriverRow i f s)))"
    by simp
  show "\<forall>d\<in>set (drivers (updateDriverRow i f s)).
      \<exists>e\<in>set (drivers s). driverCore e = driverCore d \<and> K e = K d"
    using assms by (auto simp: updateDriverRow_def tbl_update_def)
qed (simp_all add: updateDriverRow_def)

lemma related_saveDriver:
  assumes "e \<in> set (drivers s)" "driverCore x = driverCore e" "K x = K e"
  shows "related K s (saveDriver x s)"
proof (rule related_drivers)
  show "distinct (map d_id (drivers s)) \<longrightarrow> distinct (map d_id (drivers (saveDriver x s)))"
    using driverRepo.rows_save_distinct by blast
  show "\<forall>d\<in>set (drivers (saveDriver x s)). \<exists>e\<in>set (drivers s). driverCore e = driverCore d \<and> K e = K d"
    using assms driverRepo.in_rows_save by fastforce
qed simp_all

text \<open>A new account, under the key just drawn.\<close>

lemma related_newUser:
  assumes "u_id x = nextId s" "u_cashbackBalance x = 0" "u_role x = USER"
  shows "related K s (saveUser x (snd (freshId s)))"
proof -
  let ?t = "saveUser x (snd (freshId s))"
  have from': "user_from s u" if "u \<in> set (users ?t)" for u
    using userRepo.in_rows_save [OF that] assms by (auto simp: user_from_def)
  have "u_id u < Suc (nextId s) \<and> fits_decimal 12 (u_cashbackBalance u)"
    if "wf_people s" "u \<in> set (users ?t)" for u
    using userRepo.in_rows_save [OF that(2)] assms that(1)
    by (auto simp: wf_people_def fits_decimal_def intro: less_SucI)
  moreover have "distinct (map u_id (users ?t))" if "wf_people s"
    using that userRepo.rows_save_distinct by (simp add: wf_people_def)
  ultimately have "wf_people ?t" if "wf_people s" using that by (auto simp: wf_people_def less_SucI)
  then show ?thesis using from' by (simp add: related_def driver_from_self)
qed

lemma related_newDriver:
  assumes "d_id x = nextId s" "d_walletBalance x = 0" "d_role x = DRIVER"
  shows "related K s (saveDriver x (snd (freshId s)))"
proof -
  let ?t = "saveDriver x (snd (freshId s))"
  have from': "driver_from K s d" if "d \<in> set (drivers ?t)" for d
    using driverRepo.in_rows_save [OF that] assms by (auto simp: driver_from_def)
  have "d_id d < Suc (nextId s) \<and> fits_decimal 10 (d_walletBalance d)"
    if "wf_people s" "d \<in> set (drivers ?t)" for d
    using driverRepo.in_rows_save [OF that(2)] assms that(1)
    by (auto simp: wf_people_def fits_decimal_def intro: less_SucI)
  moreover have "distinct (map d_id (drivers ?t))" if "wf_people s"
    using that driverRepo.rows_save_distinct by (simp add: wf_people_def)
  ultimately have "wf_people ?t" if "wf_people s" using that by (auto simp: wf_people_def less_SucI)
  then show ?thesis using from' by (simp add: related_def user_from_self)
qed

lemmas related_then = related_trans [OF _ related_frame] related_trans [OF _ related_updateUser]
  related_trans [OF _ related_updateDriverRow] related_trans [OF _ related_saveUser]
  related_trans [OF _ related_saveDriver]

section \<open>Sessions\<close>

lemma related_mint: "mint env sub fam ctx s = (res, s') \<Longrightarrow> related K s s'"
  by (rule related_frame) (auto simp: mint_def Let_def freshId_def split: if_splits)

lemma related_issueSession: "Tokens.issueSession env sub ctx s = (res, s') \<Longrightarrow> related K s s'"
  unfolding Tokens.issueSession_def Let_def split_beta
  by (rule related_trans [OF related_frame related_mint]) simp_all

lemma related_updateTokens: "related K s (updateTokens P f s)"
  by (rule related_frame) (simp_all add: updateTokens_def)

lemma related_revokeFamily: "related K s (revokeFamily fam reason s)"
  by (rule related_frame) (simp_all add: revokeFamily_def updateTokens_def Let_def)

lemma related_revokeAll: "related K s (revokeAllForSubject i ty s)"
  by (simp add: revokeAllForSubject_def related_updateTokens)

lemma related_mintAndVerify: "mintAndVerify env sub fam ctx s = (res, s') \<Longrightarrow> related K s s'"
  by (auto simp: mintAndVerify_def split: prod.splits sum.splits if_splits intro: related_mint)

lemma related_finishRotation: "finishRotation env rs ctx st s = (res, s') \<Longrightarrow> related K s s'"
  by (auto simp: finishRotation_def transaction_def split: option.splits prod.splits sum.splits if_splits
      intro: related_revokeFamily related_mintAndVerify related_refl)

lemma related_rotate:
  assumes "rotate env tok rs ctx s = (res, s')"
  shows "related K s s'"
proof (cases "findByHash (te_hash env tok) s")
  case (Some st)
  have "related K s (snd (claimToken (t_id st) s))"
    by (simp add: claimToken_def related_updateTokens)
  then show ?thesis
    using assms Some related_trans [OF _ related_revokeFamily] related_trans [OF _ related_finishRotation]
    by (auto simp: rotate_def related_refl related_revokeFamily split: if_splits prod.splits bool.splits)
qed (use assms in \<open>simp add: rotate_def related_refl\<close>)

lemma related_logout: "related K s (logout env tok s)"
  by (simp add: logout_def revokeByToken_def related_refl related_revokeFamily split: option.split)

lemma related_issueUser: "issueUserSession env msg u a s = (res, s') \<Longrightarrow> related K s s'"
  by (auto simp: issueUserSession_def split: prod.splits sum.splits intro: related_issueSession)

lemma related_issueDriver: "issueDriverSession env msg d a s = (res, s') \<Longrightarrow> related K s s'"
  by (auto simp: issueDriverSession_def split: prod.splits sum.splits intro: related_issueSession)

section \<open>Riders\<close>

lemma related_hash: "related K s (snd (hashPassword env p s))"
  by (rule related_frame) (simp_all add: hashPassword_def freshId_def)

lemma related_otp: "related K s (snd (generateOtp env s))"
  by (rule related_frame) (simp_all add: generateOtp_def freshId_def)

lemma related_enqueue: "related K s (enqueue j s)"
  by (rule related_frame) (simp_all add: enqueue_def)

lemma related_createUser:
  assumes "createUser u s = (res, s')" "u_cashbackBalance u = 0" "u_role u = USER"
  shows "related K s s'"
proof -
  let ?x = "u\<lparr>u_id := nextId s, u_createdAt := now s\<rparr>"
  have "s' = snd (freshId s) \<or> s' = saveUser ?x (snd (freshId s))"
    using assms(1) by (auto simp: createUser_def freshId_def storeUser_def split: if_splits)
  then show ?thesis using related_frame [of "snd (freshId s)" s] related_newUser [of ?x s] assms(2,3) by auto
qed

lemma related_register:
  assumes "register env dto s = (res, s')"
  shows "related K s s'"
proof -
  let ?s2 = "snd (generateOtp env (snd (hashPassword env (rg_password dto) s)))"
  let ?u = "blankUser\<lparr>u_name := rg_name dto, u_email := rg_email dto, u_phone := Some (rg_phone dto),
    u_password := Some (fst (hashPassword env (rg_password dto) s)), u_provider := Some ''local'',
    u_isVerified := True\<rparr>"
  have c: "related K ?s2 (snd (createUser ?u ?s2))"
    by (rule related_createUser [OF prod.collapse [symmetric]]) (simp_all add: blankUser_def)
  then have c: "related K s (snd (createUser ?u ?s2))"
    by (rule related_trans [OF related_trans [OF related_hash related_otp]])
  show ?thesis
  proof (cases "createUser ?u ?s2")
    case (Pair r s3)
    show ?thesis
      using assms Pair c related_trans [OF related_trans [OF c related_enqueue] related_issueUser]
      by (cases r) (auto simp: register_def andThen_def checkIfEmailExists_def checkIfPhoneExists_def
          throwIf_def returns_def Let_def split_beta related_refl split: if_splits prod.splits)
  qed
qed

lemma related_verifyUser: "related K s (verifyUser i s)"
  by (simp add: verifyUser_def related_updateUser userCore_def)

lemma related_userOtp: "related K s (updateUserOtp i c t s)"
  by (simp add: updateUserOtp_def related_updateUser userCore_def)

lemma related_userPassword: "related K s (updateUserPassword i h s)"
  by (simp add: updateUserPassword_def related_updateUser userCore_def)

lemma related_verifyOtp: "verifyOtp env email otp s = (res, s') \<Longrightarrow> related K s s'"
  by (auto simp: verifyOtp_def related_refl split: option.splits if_splits
      intro: related_trans [OF related_trans [OF related_verifyUser related_enqueue] related_issueUser])

lemma related_resendOtp: "resendOtp env email s = (res, s') \<Longrightarrow> related K s s'"
  by (auto simp: resendOtp_def Let_def split_beta related_refl split: option.splits if_splits
      intro: related_trans [OF related_trans [OF related_otp related_userOtp] related_enqueue])

lemma related_login: "login env email pw s = (res, s') \<Longrightarrow> related K s s'"
  by (auto simp: login_def related_refl split: option.splits if_splits intro: related_issueUser)

lemma related_forgotPassword: "forgotPassword env email s = (res, s') \<Longrightarrow> related K s s'"
  by (auto simp: forgotPassword_def Let_def split_beta related_refl split: option.splits if_splits
      intro: related_trans [OF related_trans [OF related_otp related_userOtp] related_enqueue])

lemma related_resetPassword: "resetPassword env email otp pw s = (res, s') \<Longrightarrow> related K s s'"
  by (auto simp: resetPassword_def Let_def split_beta related_refl split: option.splits if_splits
      intro: related_trans [OF related_hash related_userPassword])

section \<open>Drivers\<close>

lemma driver_in: "findDriver i s = Some d \<Longrightarrow> d \<in> set (drivers s)"
  using driverRepo.findById_SomeD by blast

lemma related_storeDriver:
  assumes "storeDriver x s = (res, s')" "e \<in> set (drivers s)" "driverCore x = driverCore e" "K x = K e"
  shows "related K s s'"
  using assms related_saveDriver by (auto simp: storeDriver_def related_refl split: if_splits)

lemma related_saveNewDriver:
  assumes "saveNewDriver email pw did wallet status d s = (res, s')"
  shows "related K s s'"
proof (cases "dt_licenseExpiry d")
  case (Some expiry)
  let ?x = "newDriver (nextId s) email pw did wallet status d expiry (now s)"
  have fresh: "snd (freshId s) = s\<lparr>nextId := Suc (nextId s)\<rparr>" by (simp add: freshId_def)
  have new: "related K s (saveDriver ?x (s\<lparr>nextId := Suc (nextId s)\<rparr>))"
    using related_newDriver [of ?x s K] by (simp add: newDriver_def fresh)
  have "s' = snd (freshId s) \<or> (let t = saveDriver ?x (s\<lparr>nextId := Suc (nextId s)\<rparr>) in
      users s' = users t \<and> drivers s' = drivers t \<and> rides s' = rides t \<and> ledger s' = ledger t \<and>
      nextId t \<le> nextId s')"
    using assms Some
    by (auto simp: saveNewDriver_def storeDriver_def storeVehicle_def freshId_def Let_def
        split: if_splits option.splits)
  then show ?thesis
    using related_frame [of "snd (freshId s)" s K] related_trans [OF new related_frame]
    by (auto simp: Let_def)
qed (use assms in \<open>simp add: saveNewDriver_def related_refl\<close>)

lemma related_createDriver:
  assumes "createDriver env dto s = (res, s')"
  shows "related K s s'"
proof (cases "registrationProblem (cd_email dto) (cd_details dto) s")
  case None
  let ?h = "fst (hashPassword env (cd_password dto) s)" and ?s1 = "snd (hashPassword env (cd_password dto) s)"
  show ?thesis
  proof (cases "saveNewDriver (cd_email dto) (Some ?h) None None VS_PENDING (cd_details dto) ?s1")
    case (Pair r s2)
    from related_trans [OF related_hash related_saveNewDriver [OF Pair]] have "related K s s2" .
    then show ?thesis
      using assms None Pair related_trans [OF _ related_issueDriver]
      by (cases r) (auto simp: createDriver_def split_beta Let_def)
  qed
qed (use assms in \<open>simp add: createDriver_def related_refl\<close>)

lemma related_createFromPrivy: "createFromPrivy did email wallet d s = (res, s') \<Longrightarrow> related K s s'"
  by (auto simp: createFromPrivy_def related_refl split: option.splits intro: related_saveNewDriver)

lemma related_loginDriver: "loginDriver env email pw s = (res, s') \<Longrightarrow> related K s s'"
  by (auto simp: loginDriver_def related_refl split: option.splits if_splits intro: related_issueDriver)

lemma related_updateDriver: "updateDriver i dto s = (res, s') \<Longrightarrow> related decided s s'"
  by (auto simp: updateDriver_def related_refl assignDriver_def driverCore_def decided_def
      split: option.splits prod.splits sum.splits dest: driver_in intro: related_storeDriver)

lemma related_online: "updateOnlineStatus i b s = (res, s') \<Longrightarrow> related decided s s'"
  by (auto simp: updateOnlineStatus_def related_refl Let_def driverCore_def decided_def
      split: option.splits if_splits dest: driver_in intro: related_saveDriver)

lemma related_verification: "updateVerificationStatus i v s = (res, s') \<Longrightarrow> related undecided s s'"
  by (auto simp: updateVerificationStatus_def related_refl Let_def driverCore_def undecided_def
      split: option.splits if_splits dest: driver_in
      intro: related_saveDriver related_trans [OF related_saveDriver related_revokeAll])

lemma related_active: "updateActiveStatus i b s = (res, s') \<Longrightarrow> related undecided s s'"
  by (auto simp: updateActiveStatus_def related_refl Let_def driverCore_def undecided_def
      split: option.splits if_splits dest: driver_in
      intro: related_saveDriver related_trans [OF related_saveDriver related_revokeAll])

lemma related_driverOtp: "related decided s (updateDriverOtp i c t s)"
  by (simp add: updateDriverOtp_def related_updateDriverRow driverCore_def decided_def)

lemma related_driverPassword: "related decided s (updateDriverPassword i h s)"
  by (simp add: updateDriverPassword_def related_updateDriverRow driverCore_def decided_def)

lemma related_driverForgot: "driverForgotPassword env email s = (res, s') \<Longrightarrow> related decided s s'"
  by (auto simp: driverForgotPassword_def Let_def split_beta related_refl split: option.splits if_splits
      intro: related_trans [OF related_trans [OF related_otp related_driverOtp] related_enqueue])

lemma related_driverReset: "driverResetPassword env email otp pw s = (res, s') \<Longrightarrow> related decided s s'"
  by (auto simp: driverResetPassword_def Let_def split_beta related_refl split: option.splits if_splits
      intro: related_trans [OF related_hash related_driverPassword])

section \<open>Privy\<close>

lemma related_storeUser:
  assumes "storeUser x s = (res, s')" "v \<in> set (users s)" "userCore x = userCore v"
  shows "related K s s'"
  using assms related_saveUser by (auto simp: storeUser_def related_refl split: if_splits)

lemma linkRider_known:
  assumes "linkRider did identity s = Inr (Some u)"
  shows "\<exists>v\<in>set (users s). userCore u = userCore v"
  using assms
  by (auto simp: linkRider_def findUserByDid_def findUserByEmail_def userCore_def
      split: option.splits if_splits dest!: find_SomeD)

lemma related_signInRider:
  assumes "signInRider env did identity input s = (res, s')"
  shows "related K s s'"
proof (cases "linkRider did identity s")
  case (Inr found)
  let ?u = "case found of Some u \<Rightarrow> u | None \<Rightarrow> newRider did identity input"
  let ?x = "?u\<lparr>u_walletAddressEvm := syncedWallet identity (u_walletAddressEvm ?u)\<rparr>"
  show ?thesis
  proof (cases "saveRider (found = None) ?x s")
    case (Pair r s1)
    have "related K s s1"
    proof (cases found)
      case None
      then have "createUser ?x s = (r, s1)" using Pair by (simp add: saveRider_def)
      then show ?thesis by (rule related_createUser) (simp_all add: None newRider_def blankUser_def)
    next
      case (Some u)
      then obtain v where "v \<in> set (users s)" "userCore ?x = userCore v"
        using linkRider_known Inr by (fastforce simp: userCore_def)
      then show ?thesis using Pair Some by (auto simp: saveRider_def intro: related_storeUser)
    qed
    then show ?thesis
      using assms Inr Pair related_trans [OF _ related_issueSession]
      by (cases r) (auto simp: signInRider_def Let_def related_refl split: if_splits prod.splits sum.splits)
  qed
qed (use assms in \<open>simp add: signInRider_def related_refl\<close>)

lemma findLinkedDriver_known:
  assumes "findLinkedDriver did identity s = Inr (Some d)"
  shows "\<exists>e\<in>set (drivers s). driverCore d = driverCore e \<and> decided d = decided e"
  using assms
  by (auto simp: findLinkedDriver_def findDriverByDid_def findDriverByEmail_def driverCore_def decided_def
      split: option.splits if_splits dest!: find_SomeD)

lemma related_privyDriver:
  assumes "issuePrivyDriverSession env d did identity input b s = (res, s')"
    and "e \<in> set (drivers s)" "driverCore d = driverCore e" "decided d = decided e"
  shows "related decided s s'"
proof (cases "d_isActive d")
  case True
  let ?x = "d\<lparr>d_walletAddressEvm := syncedWallet identity (d_walletAddressEvm d)\<rparr>"
  show ?thesis
  proof (cases "storeDriver ?x s")
    case (Pair r s1)
    have "related decided s s1"
      by (rule related_storeDriver [OF Pair assms(2)])
        (use assms(3,4) in \<open>simp_all add: driverCore_def decided_def\<close>)
    then show ?thesis
      using assms(1) True Pair related_trans [OF _ related_issueSession]
      by (cases r) (auto simp: issuePrivyDriverSession_def split: prod.splits sum.splits)
  qed
qed (use assms(1) in \<open>simp add: issuePrivyDriverSession_def related_refl\<close>)

lemma related_signIn:
  assumes "signIn privy env input s = (res, s')"
  shows "related decided s s'"
proof -
  have "related decided s s'" if run: "signInDriver env did identity input s = (res, s')" for did identity
  proof (cases "findLinkedDriver did identity s")
    case (Inr found)
    then show ?thesis
      using run findLinkedDriver_known [of did identity s] related_privyDriver
      by (cases found) (auto simp: signInDriver_def related_refl)
  qed (use run in \<open>simp add: signInDriver_def related_refl\<close>)
  then show ?thesis
    using assms related_signInRider
    by (auto simp: signIn_def related_refl Let_def split: if_splits option.splits PrivyAudience.splits)
qed

lemma createFromPrivy_stored:
  assumes "createFromPrivy did email wallet d s = (Inr x, s')"
  shows "x \<in> set (drivers s')"
proof -
  have stored: "y \<in> set (drivers (saveDriver y t))" for y t
    using driverRepo.findById_save_same driverRepo.findById_SomeD by blast
  show ?thesis
    using assms stored
    by (auto simp: createFromPrivy_def saveNewDriver_def storeDriver_def storeVehicle_def freshId_def
        Let_def split: option.splits if_splits)
qed

lemma related_registerDriver:
  assumes "registerDriver privy env input details s = (res, s')"
  shows "related decided s s'"
proof -
  have "s' = s \<or> (\<exists>did identity. (case findLinkedDriver did identity s of
                Inl e \<Rightarrow> (Inl e, s)
              | Inr (Some existing) \<Rightarrow> issuePrivyDriverSession env existing did identity input False s
              | Inr None \<Rightarrow>
                  (case createFromPrivy did (pi_email identity) (pi_wallet identity) details s of
                     (Inl e, s1) \<Rightarrow> (Inl e, s1)
                   | (Inr created, s1) \<Rightarrow> issuePrivyDriverSession env created did identity input True s1)) = (res, s'))"
    using assms by (auto simp: registerDriver_def Let_def split: if_splits option.splits)
  then show ?thesis
  proof (elim disjE exE)
    fix did identity
    assume run: "(case findLinkedDriver did identity s of
                Inl e \<Rightarrow> (Inl e, s)
              | Inr (Some existing) \<Rightarrow> issuePrivyDriverSession env existing did identity input False s
              | Inr None \<Rightarrow>
                  (case createFromPrivy did (pi_email identity) (pi_wallet identity) details s of
                     (Inl e, s1) \<Rightarrow> (Inl e, s1)
                   | (Inr created, s1) \<Rightarrow> issuePrivyDriverSession env created did identity input True s1)) = (res, s')"
    consider (fail) e where "findLinkedDriver did identity s = Inl e"
      | (known) d where "findLinkedDriver did identity s = Inr (Some d)"
      | (fresh) "findLinkedDriver did identity s = Inr None"
      by (cases "findLinkedDriver did identity s") (metis option.exhaust)+
    then show ?thesis
    proof cases
      case known
      then show ?thesis using run findLinkedDriver_known [OF known] related_privyDriver by auto
    next
      case fresh
      show ?thesis
      proof (cases "createFromPrivy did (pi_email identity) (pi_wallet identity) details s")
        case (Pair r s1)
        show ?thesis
        proof (cases r)
          case (Inr x)
          have "related decided s s1" by (rule related_createFromPrivy [OF Pair])
          moreover have "issuePrivyDriverSession env x did identity input True s1 = (res, s')"
            using run fresh Pair Inr by simp
          moreover have "x \<in> set (drivers s1)" using createFromPrivy_stored Pair Inr by blast
          ultimately show ?thesis using related_trans related_privyDriver by blast
        qed (use run fresh Pair related_createFromPrivy in auto)
      qed
    qed (use run related_refl in auto)
  qed (simp add: related_refl)
qed

section \<open>Vehicles, ratings, locations, emergencies\<close>

lemma related_createVehicle: "createVehicle dto s = (res, s') \<Longrightarrow> related K s s'"
  by (rule related_frame)
    (auto simp: createVehicle_def storeVehicle_def freshId_def Let_def
      split: option.splits if_splits)

lemma related_updateVehicle: "updateVehicle i dto s = (res, s') \<Longrightarrow> related K s s'"
  by (rule related_frame)
    (auto simp: updateVehicle_def storeVehicle_def split: option.splits if_splits)

lemma related_setVehicleActive: "setVehicleActive b i s = (res, s') \<Longrightarrow> related K s s'"
  by (rule related_frame) (auto simp: setVehicleActive_def Let_def split: option.splits)

lemma related_updateLocation: "updateLocation i dto s = (res, s') \<Longrightarrow> related K s s'"
  by (rule related_frame)
    (auto simp: updateLocation_def geoadd_def Let_def split: option.splits if_splits rval.splits)

lemma related_triggerEmergency: "triggerEmergency G up dto i role s = (res, s') \<Longrightarrow> related K s s'"
  by (rule related_frame)
    (auto simp: triggerEmergency_def dispatchEmergency_def enqueue_def emit_def saveIncident_def Let_def
      freshId_def split: option.splits if_splits)

lemma related_resolveEmergency: "resolveEmergency i dto s = (res, s') \<Longrightarrow> related K s s'"
  by (rule related_frame) (auto simp: resolveEmergency_def saveIncident_def Let_def split: option.splits)

lemma related_updateRating:
  "updateDriverRating i s = (res, s') \<Longrightarrow> related decided s s'"
  "updateUserRating i s = (res, s') \<Longrightarrow> related decided s s'"
  by (auto simp: updateDriverRating_def updateUserRating_def related_refl driverCore_def decided_def
      userCore_def split: sum.splits intro!: related_updateDriverRow related_updateUser)

lemma related_createRating:
  assumes "createRating i dto s = (res, s')"
  shows "related decided s s'"
proof -
  have first: "related decided s (s\<lparr>nextId := Suc (nextId s), ratings := rs\<rparr>)" for rs
    by (rule related_frame) simp_all
  show ?thesis
    using assms related_trans [OF first related_updateRating(1)] related_trans [OF first related_updateRating(2)]
    by (auto simp: createRating_def Let_def freshId_def related_refl
        split: sum.splits prod.splits if_splits)
qed

section \<open>The invariant of the rides is kept\<close>

lemma books_unused:
  assumes "wf_ledger s" "nextId s \<le> i"
  shows "driverBooks i s = 0" "riderBooks i s = 0"
proof -
  have none: "le_stakeholderId e \<noteq> Some i" if "e \<in> set (ledger s)" for e
    using assms that by (fastforce simp: wf_ledger_def)
  have "sumAmount P s = 0" if "\<And>e. P e \<Longrightarrow> le_stakeholderId e = Some i" for P
  proof -
    have "map (\<lambda>e. if P e then le_amount e else 0) (ledger s) = map (\<lambda>_. 0) (ledger s)"
      using that none by (intro map_cong) auto
    then show ?thesis unfolding sumAmount_def by (simp only: sum_list_0)
  qed
  note zero = this
  show "driverBooks i s = 0" unfolding driverBooks_def by (rule zero) simp
  show "riderBooks i s = 0" unfolding riderBooks_def by (rule zero) simp
qed

lemma books_related:
  assumes "related K s s'" "wf_ledger s" "books_balanced s"
  shows "books_balanced s'"
proof -
  have bk: "driverBooks i s' = driverBooks i s" "riderBooks i s' = riderBooks i s" for i
    using assms(1) books_frame [of s' s] by (simp_all add: related_def)
  have "d_walletBalance d = driverBooks (d_id d) s" if "d \<in> set (drivers s')" for d
  proof -
    have "driver_from K s d" using assms(1) that by (simp add: related_def)
    then show ?thesis
      using assms(3) books_unused(1) [OF assms(2)]
      by (auto simp: driver_from_def driverCore_def books_balanced_def)
  qed
  moreover have "u_cashbackBalance u = riderBooks (u_id u) s" if "u \<in> set (users s')" for u
  proof -
    have "user_from s u" using assms(1) that by (simp add: related_def)
    then show ?thesis
      using assms(3) books_unused(2) [OF assms(2)]
      by (auto simp: user_from_def userCore_def books_balanced_def)
  qed
  ultimately show ?thesis by (simp add: books_balanced_def bk)
qed

lemma wf_related:
  assumes "related K s s'" "wf_sys s"
  shows "wf_sys s'"
proof -
  have n: "nextId s \<le> nextId s'" and eq: "rides s' = rides s" "ledger s' = ledger s"
    and p: "wf_people s'"
    using assms by (simp_all add: related_def wf_sys_def)
  have "wf_rides s'" using assms(2) n eq by (auto simp: wf_sys_def wf_rides_def)
  moreover have "wf_ledger s'"
    using assms(2) n eq unfolding wf_sys_def wf_ledger_def by (metis (no_types, lifting) order_less_le_trans)
  ultimately show ?thesis using p by (simp add: wf_sys_def)
qed

lemma life_inv_related:
  assumes "related K s s'" "life_inv s"
  shows "life_inv s'"
proof -
  have w: "wf_sys s" and b: "books_balanced s" using assms(2) by (simp_all add: life_inv_def)
  have eq: "rides s' = rides s" "ledger s' = ledger s" using assms(1) by (simp_all add: related_def)
  have "wf_sys s'" by (rule wf_related [OF assms(1) w])
  moreover have "books_balanced s'"
    using books_related [OF assms(1) _ b] w by (simp add: wf_sys_def)
  ultimately show ?thesis
    using assms(2) eq by (simp add: life_inv_def activeCategories_def activeRides_def entriesOf_def)
qed

end
