(* ===== verification/Backend.thy ===== *)
theory Backend
  imports Standing Endpoints WalletRules
begin

text \<open>
  The backend as one machine: a request of the HTTP surface is a value, \<open>serve\<close> runs the handler
  the router sends it to. Every request is then classified by what it may do to the state, in
  one lemma, \<open>serve_cases\<close>, on which the properties of the whole API rest.
\<close>

section \<open>Requests\<close>

text \<open>What the deployment provides: libraries, gateways, configuration.\<close>

record backendEnv =
  be_math :: jsMath
  be_verify :: jwtVerify
  be_auth :: authEnv
  be_privy :: PrivyService
  be_geo :: geoEnv
  be_wallet :: walletConfig
  be_fuel :: FuelSupportProvider
  be_payout :: PayoutProvider
  be_stats :: statsConfig
  be_queueUp :: bool
  be_internalKey :: "string option"

text \<open>One type per controller, one constructor per route, with the path and query parameters and the
  body.\<close>

datatype ridesRequest =
    RidesEstimate Location Location
  | RidesCreate CreateRideBody
  | RidesOfUser uuid
  | RidesCancelByUser uuid "string option"
  | RidesAvailable
  | RidesOfDriver uuid
  | RidesAccept uuid "uuid option"
  | RidesArrive uuid
  | RidesStart uuid
  | RidesComplete uuid
  | RidesCancelByDriver uuid "string option"
  | RidesAll
  | RidesFareBreakdown uuid
  | RidesOne uuid

datatype ratingsRequest =
    RatingsCreate CreateRatingDto
  | RatingsOfRide uuid

datatype walletRequest =
    WalletBalanceOf
  | WalletLimit
  | WalletFuel num
  | WalletPayout num BankAccountDto
  | WalletTransactions rawParam rawParam

datatype ledgerRequest =
    LedgerMine rawParam rawParam
  | LedgerOfDriver uuid rawParam rawParam
  | LedgerOfRide uuid
  | LedgerSummaryAll

datatype emergencyRequest =
    EmergencyTrigger TriggerEmergencyDto
  | EmergencyAll "EmergencyStatus option"
  | EmergencyOfRide uuid
  | EmergencyResolve uuid ResolveEmergencyDto

datatype driversRequest =
    DriversCreate CreateDriverDto
  | DriversLogin string string
  | DriversAll
  | DriversOne uuid
  | DriversUpdate uuid UpdateDriverDto
  | DriversOnline uuid bool
  | DriversVerification uuid VerificationStatus
  | DriversActive uuid bool
  | DriversForgot string
  | DriversReset string string string
  | DriversRemove uuid

datatype vehiclesRequest =
    VehiclesCreate "uuid option" CreateVehicleDto
  | VehiclesAll
  | VehiclesOfDriver uuid
  | VehiclesOne uuid
  | VehiclesDeactivate uuid
  | VehiclesActivate uuid
  | VehiclesUpdate uuid UpdateVehicleDto
  | VehiclesRemove uuid

datatype locationsRequest =
    LocationsUpdate UpdateLocationDto
  | LocationsOfDriver uuid
  | LocationsNearby num num "string option"

datatype authRequest =
    AuthRegister RegisterDto
  | AuthVerifyOtp string string
  | AuthResendOtp string
  | AuthLogin string string
  | AuthForgot string
  | AuthReset string string string
  | AuthPrivySignIn string "string option" PrivyAudience "string option" httpRequest
  | AuthPrivyRegister string "string option" DriverDetails httpRequest
  | AuthRefresh string httpRequest
  | AuthLogout string

datatype statsRequest =
    StatsPublic
  | StatsDashboard
  | StatsRides
  | StatsRevenue
  | StatsDrivers

datatype channelsRequest =
    ChannelsBook ParseAndBookDto "string option"

datatype request =
    RidesApi ridesRequest
  | RatingsApi ratingsRequest
  | WalletApi walletRequest
  | LedgerApi ledgerRequest
  | EmergencyApi emergencyRequest
  | DriversApi driversRequest
  | VehiclesApi vehiclesRequest
  | LocationsApi locationsRequest
  | AuthApi authRequest
  | StatsApi statsRequest
  | ChannelsApi channelsRequest

text \<open>The answer's body is the handler's; here only its status and the new state count.\<close>

definition void :: "(sys, 'a) handler \<Rightarrow> (sys, unit) handler" where
  "void = mapOut (\<lambda>_. ())"

primrec serveRides :: "backendEnv \<Rightarrow> string option \<Rightarrow> ridesRequest \<Rightarrow> (sys, unit) handler" where
  "serveRides B hdr (RidesEstimate a b) = void (rides_estimateRide (be_math B) (be_verify B) a b hdr)"
| "serveRides B hdr (RidesCreate body) = void (rides_createRide (be_math B) (be_verify B) body hdr)"
| "serveRides B hdr (RidesOfUser i) = void (rides_getUserRides (be_verify B) i hdr)"
| "serveRides B hdr (RidesCancelByUser i reason) = void (rides_cancelRideByUser (be_verify B) i reason hdr)"
| "serveRides B hdr RidesAvailable = void (rides_getAvailableRides (be_verify B) hdr)"
| "serveRides B hdr (RidesOfDriver i) = void (rides_getDriverRides (be_verify B) i hdr)"
| "serveRides B hdr (RidesAccept i v) = void (rides_acceptRide (be_verify B) i v hdr)"
| "serveRides B hdr (RidesArrive i) = void (rides_markArrived (be_verify B) i hdr)"
| "serveRides B hdr (RidesStart i) = void (rides_startRide (be_verify B) i hdr)"
| "serveRides B hdr (RidesComplete i) = void (rides_completeRide (be_verify B) i hdr)"
| "serveRides B hdr (RidesCancelByDriver i reason) = void (rides_cancelRideByDriver (be_verify B) i reason hdr)"
| "serveRides B hdr RidesAll = void (rides_getAllRides (be_verify B) hdr)"
| "serveRides B hdr (RidesFareBreakdown i) = void (rides_getFareBreakdown (be_verify B) i hdr)"
| "serveRides B hdr (RidesOne i) = void (rides_getRide (be_verify B) i hdr)"

primrec serveRatings :: "backendEnv \<Rightarrow> string option \<Rightarrow> ratingsRequest \<Rightarrow> (sys, unit) handler" where
  "serveRatings B hdr (RatingsCreate dto) = void (ratings_create (be_verify B) dto hdr)"
| "serveRatings B hdr (RatingsOfRide i) = void (ratings_findByRide (be_verify B) i hdr)"

primrec serveWallet :: "backendEnv \<Rightarrow> string option \<Rightarrow> walletRequest \<Rightarrow> (sys, unit) handler" where
  "serveWallet B hdr WalletBalanceOf = void (wallet_getBalance (be_wallet B) (be_verify B) hdr)"
| "serveWallet B hdr WalletLimit = void (wallet_getFuelSupportLimit (be_wallet B) (be_verify B) hdr)"
| "serveWallet B hdr (WalletFuel x) = void (wallet_requestFuelSupport (be_wallet B) (be_fuel B) (be_verify B) x hdr)"
| "serveWallet B hdr (WalletPayout x bank) =
     void (wallet_requestPayout (be_wallet B) (be_payout B) (be_verify B) x bank hdr)"
| "serveWallet B hdr (WalletTransactions l ofs) = void (wallet_getTransactions (be_verify B) l ofs hdr)"

primrec serveLedger :: "backendEnv \<Rightarrow> string option \<Rightarrow> ledgerRequest \<Rightarrow> (sys, unit) handler" where
  "serveLedger B hdr (LedgerMine l ofs) = void (ledger_getMyStatement (be_verify B) l ofs hdr)"
| "serveLedger B hdr (LedgerOfDriver i l ofs) = void (ledger_getDriverStatement (be_verify B) i l ofs hdr)"
| "serveLedger B hdr (LedgerOfRide i) = void (ledger_getRideEntries (be_verify B) i hdr)"
| "serveLedger B hdr LedgerSummaryAll = void (ledger_getSummary (be_verify B) hdr)"

primrec serveEmergency :: "backendEnv \<Rightarrow> string option \<Rightarrow> emergencyRequest \<Rightarrow> (sys, unit) handler" where
  "serveEmergency B hdr (EmergencyTrigger dto) =
     void (emergency_trigger (be_geo B) (be_queueUp B) (be_verify B) dto hdr)"
| "serveEmergency B hdr (EmergencyAll st) = void (emergency_findAll (be_verify B) st hdr)"
| "serveEmergency B hdr (EmergencyOfRide i) = void (emergency_findByRide (be_verify B) i hdr)"
| "serveEmergency B hdr (EmergencyResolve i dto) = void (emergency_resolve (be_verify B) i dto hdr)"

primrec serveDrivers :: "backendEnv \<Rightarrow> string option \<Rightarrow> driversRequest \<Rightarrow> (sys, unit) handler" where
  "serveDrivers B hdr (DriversCreate dto) = void (drivers_create (be_auth B) dto)"
| "serveDrivers B hdr (DriversLogin email pw) = void (drivers_login (be_auth B) email pw)"
| "serveDrivers B hdr DriversAll = void (drivers_findAll (be_verify B) hdr)"
| "serveDrivers B hdr (DriversOne i) = void (drivers_findOne (be_verify B) i hdr)"
| "serveDrivers B hdr (DriversUpdate i dto) = void (drivers_update (be_verify B) i dto hdr)"
| "serveDrivers B hdr (DriversOnline i b) = void (drivers_updateOnlineStatus (be_verify B) i b hdr)"
| "serveDrivers B hdr (DriversVerification i v) = void (drivers_updateVerificationStatus (be_verify B) i v hdr)"
| "serveDrivers B hdr (DriversActive i b) = void (drivers_updateActiveStatus (be_verify B) i b hdr)"
| "serveDrivers B hdr (DriversForgot email) = void (drivers_forgotPassword (be_auth B) email)"
| "serveDrivers B hdr (DriversReset email otp pw) = void (drivers_resetPassword (be_auth B) email otp pw)"
| "serveDrivers B hdr (DriversRemove i) = void (drivers_remove (be_verify B) i hdr)"

primrec serveVehicles :: "backendEnv \<Rightarrow> string option \<Rightarrow> vehiclesRequest \<Rightarrow> (sys, unit) handler" where
  "serveVehicles B hdr (VehiclesCreate d dto) = void (vehicles_create (be_verify B) d dto hdr)"
| "serveVehicles B hdr VehiclesAll = void (vehicles_findAll (be_verify B) hdr)"
| "serveVehicles B hdr (VehiclesOfDriver i) = void (vehicles_findByDriverId (be_verify B) i hdr)"
| "serveVehicles B hdr (VehiclesOne i) = void (vehicles_findOne (be_verify B) i hdr)"
| "serveVehicles B hdr (VehiclesDeactivate i) = void (vehicles_deactivate (be_verify B) i hdr)"
| "serveVehicles B hdr (VehiclesActivate i) = void (vehicles_activate (be_verify B) i hdr)"
| "serveVehicles B hdr (VehiclesUpdate i dto) = void (vehicles_update (be_verify B) i dto hdr)"
| "serveVehicles B hdr (VehiclesRemove i) = void (vehicles_remove (be_verify B) i hdr)"

primrec serveLocations :: "backendEnv \<Rightarrow> string option \<Rightarrow> locationsRequest \<Rightarrow> (sys, unit) handler" where
  "serveLocations B hdr (LocationsUpdate dto) = void (locations_update (be_verify B) dto hdr)"
| "serveLocations B hdr (LocationsOfDriver i) = void (locations_getDriverLocation (be_geo B) (be_verify B) i hdr)"
| "serveLocations B hdr (LocationsNearby lat lng r) =
     void (locations_findNearby (be_geo B) (be_verify B) lat lng r hdr)"

primrec serveAuth :: "backendEnv \<Rightarrow> string option \<Rightarrow> authRequest \<Rightarrow> (sys, unit) handler" where
  "serveAuth B hdr (AuthRegister dto) = void (auth_register (be_auth B) dto)"
| "serveAuth B hdr (AuthVerifyOtp email otp) = void (auth_verifyOtp (be_auth B) email otp)"
| "serveAuth B hdr (AuthResendOtp email) = void (auth_resendOtp (be_auth B) email)"
| "serveAuth B hdr (AuthLogin email pw) = void (auth_login (be_auth B) email pw)"
| "serveAuth B hdr (AuthForgot email) = void (auth_forgotPassword (be_auth B) email)"
| "serveAuth B hdr (AuthReset email otp pw) = void (auth_resetPassword (be_auth B) email otp pw)"
| "serveAuth B hdr (AuthPrivySignIn tok idt aud name req) =
     void (auth_privySignIn (be_privy B) (be_auth B) tok idt aud name req)"
| "serveAuth B hdr (AuthPrivyRegister tok idt details req) =
     void (auth_privyDriverRegister (be_privy B) (be_auth B) tok idt details req)"
| "serveAuth B hdr (AuthRefresh tok req) = void (auth_refresh (be_auth B) tok req)"
| "serveAuth B hdr (AuthLogout tok) = void (auth_logout (be_auth B) tok)"

primrec serveStats :: "backendEnv \<Rightarrow> string option \<Rightarrow> statsRequest \<Rightarrow> (sys, unit) handler" where
  "serveStats B hdr StatsPublic = void stats_getPublicStats"
| "serveStats B hdr StatsDashboard = void (stats_getDashboard (be_stats B) (be_verify B) hdr)"
| "serveStats B hdr StatsRides = void (stats_getRideStats (be_stats B) (be_verify B) hdr)"
| "serveStats B hdr StatsRevenue = void (stats_getRevenueStats (be_stats B) (be_verify B) hdr)"
| "serveStats B hdr StatsDrivers = void (stats_getDriverStats (be_verify B) hdr)"

primrec serveChannels :: "backendEnv \<Rightarrow> string option \<Rightarrow> channelsRequest \<Rightarrow> (sys, unit) handler" where
  "serveChannels B hdr (ChannelsBook dto key) = void (channels_parseAndBook (be_math B) (be_internalKey B) dto key)"

primrec serve :: "backendEnv \<Rightarrow> string option \<Rightarrow> request \<Rightarrow> (sys, unit) handler" where
  "serve B hdr (RidesApi r) = serveRides B hdr r"
| "serve B hdr (RatingsApi r) = serveRatings B hdr r"
| "serve B hdr (WalletApi r) = serveWallet B hdr r"
| "serve B hdr (LedgerApi r) = serveLedger B hdr r"
| "serve B hdr (EmergencyApi r) = serveEmergency B hdr r"
| "serve B hdr (DriversApi r) = serveDrivers B hdr r"
| "serve B hdr (VehiclesApi r) = serveVehicles B hdr r"
| "serve B hdr (LocationsApi r) = serveLocations B hdr r"
| "serve B hdr (AuthApi r) = serveAuth B hdr r"
| "serve B hdr (StatsApi r) = serveStats B hdr r"
| "serve B hdr (ChannelsApi r) = serveChannels B hdr r"

section \<open>The caller\<close>

text \<open>Who the bearer token of a request resolves to, if the guards let anybody through.\<close>

definition caller :: "backendEnv \<Rightarrow> string option \<Rightarrow> sys \<Rightarrow> Principal option" where
  "caller B hdr s =
     (case authorize (be_verify B) False None hdr s of
        Inr (Some u) \<Rightarrow> Some (principalOf u)
      | _ \<Rightarrow> None)"

lemma route_cases:
  assumes "route (be_verify B) roles hdr k s = (res, s')"
  obtains "isl res" "s' = s"
  | p where "caller B hdr s = Some p" "p_role p \<in> set roles" "k p s = (res, s')"
  using assms
  by (auto simp: route_def caller_def authorize_def rolesGuard_def principalOf_def list_ex_iff
      split: sum.splits option.splits if_splits)

section \<open>Through the plumbing of the controllers\<close>

lemma stays_mapOut [effects]: "stays R m \<Longrightarrow> stays R (mapOut f m)"
  by (auto simp: stays_def mapOut_def split: prod.split) (metis snd_conv)

lemma stays_saying [effects]: "stays R m \<Longrightarrow> stays R (saying msg m)"
  by (simp add: saying_def stays_mapOut)

lemma stays_listed [effects]: "stays R m \<Longrightarrow> stays R (listed msg m)"
  by (simp add: listed_def stays_mapOut)

locale api_frame = frame_rule R for R :: "sys \<Rightarrow> sys \<Rightarrow> bool"
begin

lemma stays_reads: "stays R (reads f)"
  by (simp add: stays_def reads_def unchanged)

lemma stays_checked: "stays R k \<Longrightarrow> stays R (checked c k)"
  by (auto simp: stays_def checked_def unchanged split: sum.splits)

lemma stays_reading:
  assumes "\<And>x. stays R (k x)"
  shows "stays R (andThen (reads f) k)"
  using assms by (auto simp: stays_def andThen_def reads_def unchanged split: sum.splits)

lemma checked_stays:
  assumes "\<And>s res s'. c s = Inr () \<Longrightarrow> k s = (res, s') \<Longrightarrow> R s s'"
  shows "stays R (checked c k)"
  by (rule staysI) (auto simp: checked_def unchanged split: sum.splits dest: assms)

end

text \<open>A guarded handler changes nothing, or acts for its caller.\<close>

lemma route_act:
  assumes "void (route (be_verify B) roles hdr k) s = (res, s')"
    and "A None s s" "\<And>p. p_role p \<in> set roles \<Longrightarrow> stays (A (Some p)) (k p)"
    and "\<And>p. A (Some p) s s"
  shows "A (caller B hdr s) s s'"
proof -
  obtain r where "route (be_verify B) roles hdr k s = (r, s')"
    using assms(1) by (auto simp: void_def mapOut_def split: prod.splits)
  then show ?thesis
  proof (cases rule: route_cases)
    case 1
    then show ?thesis using assms(2,4) by (cases "caller B hdr s") auto
  next
    case (2 p)
    then show ?thesis using staysD [OF assms(3)] by simp
  qed
qed

end
