(* ===== verification/BackendRules.thy ===== *)
theory BackendRules
  imports Backend
begin

text \<open>
  The whole HTTP surface: what a request may do to the state, by who sent it (\<open>api_act\<close>), that
  \<open>serve\<close> does nothing else, and from that the invariants of the system under every
  sequence of requests, and who can move rides, money and standing.
\<close>

section \<open>What a caller may do\<close>

inductive api_act :: "backendEnv \<Rightarrow> request \<Rightarrow> Principal option \<Rightarrow> sys \<Rightarrow> sys \<Rightarrow> bool" for B req who s s' where
  accounts: "related decided s s' \<Longrightarrow> api_act B req who s s'"
| decision: "who = Some p \<Longrightarrow> p_role p = ADMIN \<Longrightarrow> related undecided s s' \<Longrightarrow> api_act B req who s s'"
| book: "who = Some p \<Longrightarrow> req = RidesApi (RidesCreate body) \<Longrightarrow> p_role p = USER \<Longrightarrow> cr_userId dto = p_id p \<Longrightarrow>
    createRide (be_math B) dto s = (rres, s') \<Longrightarrow> api_act B req who s s'"
| accept: "who = Some p \<Longrightarrow> req = RidesApi (RidesAccept i v) \<Longrightarrow> p_role p = DRIVER \<Longrightarrow> acceptRide i (p_id p) v s = (rres, s') \<Longrightarrow>
    api_act B req who s s'"
| arrive: "who = Some p \<Longrightarrow> req = RidesApi (RidesArrive i) \<Longrightarrow> p_role p = DRIVER \<Longrightarrow> markArrived i (p_id p) s = (rres, s') \<Longrightarrow>
    api_act B req who s s'"
| start: "who = Some p \<Longrightarrow> req = RidesApi (RidesStart i) \<Longrightarrow> p_role p = DRIVER \<Longrightarrow> startRide i (p_id p) s = (rres, s') \<Longrightarrow>
    api_act B req who s s'"
| complete: "who = Some p \<Longrightarrow> req = RidesApi (RidesComplete i) \<Longrightarrow> p_role p = DRIVER \<Longrightarrow> completeRide i (p_id p) s = (rres, s') \<Longrightarrow>
    api_act B req who s s'"
| riderCancel: "who = Some p \<Longrightarrow> req = RidesApi (RidesCancelByUser i reason) \<Longrightarrow> p_role p = USER \<Longrightarrow> cancelRide i reason (Some (p_id p)) None s = (rres, s') \<Longrightarrow>
    api_act B req who s s'"
| driverCancel: "who = Some p \<Longrightarrow> req = RidesApi (RidesCancelByDriver i reason) \<Longrightarrow> p_role p = DRIVER \<Longrightarrow>
    cancelRide i reason None (Some (p_id p)) s = (rres, s') \<Longrightarrow> api_act B req who s s'"
| fuel: "who = Some p \<Longrightarrow> p_role p = DRIVER \<Longrightarrow> req = WalletApi (WalletFuel x) \<Longrightarrow>
    requestFuelSupport (be_wallet B) (be_fuel B) (p_id p) x s = (wres, s') \<Longrightarrow> api_act B req who s s'"
| payout: "who = Some p \<Longrightarrow> p_role p = DRIVER \<Longrightarrow> req = WalletApi (WalletPayout x bank) \<Longrightarrow>
    requestPayout (be_wallet B) (be_payout B) (p_id p) x bank s = (wres, s') \<Longrightarrow> api_act B req who s s'"
| channel: "req = ChannelsApi r \<Longrightarrow> parseAndBook (be_math B) dto s = (bres, s') \<Longrightarrow> api_act B req who s s'"
| dropVehicle: "who = Some p \<Longrightarrow> findVehicle i s = Some veh \<Longrightarrow>
    p_role p = ADMIN \<or> v_driverId veh = p_id p \<Longrightarrow> removeVehicle i s = (ures, s') \<Longrightarrow>
    api_act B req who s s'"
| dropDriver: "who = Some p \<Longrightarrow> p_role p = ADMIN \<Longrightarrow> req = DriversApi (DriversRemove i) \<Longrightarrow>
    removeDriver i s = (ures, s') \<Longrightarrow> api_act B req who s s'"

lemma api_act_idle: "api_act B req who s s"
  by (rule api_act.accounts) (rule related_refl)

interpretation actRel: api_frame "api_act B req who" for B req who
  by unfold_locales (rule api_act_idle)

lemmas stays_intros = effects actRel.stays_reads actRel.stays_checked actRel.stays_reading actRel.stays_returns

lemma act_reading:
  assumes "void (route (be_verify B) roles hdr k) s = (res, s')"
    and "\<And>p. p_role p \<in> set roles \<Longrightarrow> stays (api_act B req (Some p)) (k p)"
  shows "api_act B req (caller B hdr s) s s'"
  by (rule route_act [OF assms(1) api_act_idle assms(2) api_act_idle])

section \<open>The services\<close>

lemma accounts_stay: "(\<And>s res s'. m s = (res, s') \<Longrightarrow> related decided s s') \<Longrightarrow> stays (api_act B req who) m"
  by (rule staysI) (rule api_act.accounts)

lemma decision_stays:
  "p_role p = ADMIN \<Longrightarrow> (\<And>s res s'. m s = (res, s') \<Longrightarrow> related undecided s s') \<Longrightarrow>
   stays (api_act B req (Some p)) m"
  by (rule staysI) (rule api_act.decision [OF refl])

lemmas account_methods = related_register related_verifyOtp related_resendOtp related_login
  related_forgotPassword related_resetPassword related_signIn related_registerDriver
  related_createDriver related_loginDriver related_updateDriver related_online related_driverForgot
  related_driverReset related_createVehicle related_updateVehicle related_setVehicleActive
  related_updateLocation related_triggerEmergency related_resolveEmergency related_createRating

lemma account_effects [effects]:
  "stays (api_act B req who) (register env rg)"
  "stays (api_act B req who) (verifyOtp env email otp)"
  "stays (api_act B req who) (resendOtp env email)"
  "stays (api_act B req who) (login env email pw)"
  "stays (api_act B req who) (forgotPassword env email)"
  "stays (api_act B req who) (resetPassword env email otp pw)"
  "stays (api_act B req who) (signIn privy env input)"
  "stays (api_act B req who) (registerDriver privy env input details)"
  "stays (api_act B req who) (createDriver env cd)"
  "stays (api_act B req who) (loginDriver env email pw)"
  "stays (api_act B req who) (updateDriver i ud)"
  "stays (api_act B req who) (updateOnlineStatus i b)"
  "stays (api_act B req who) (driverForgotPassword env email)"
  "stays (api_act B req who) (driverResetPassword env email otp pw)"
  "stays (api_act B req who) (createVehicle cv)"
  "stays (api_act B req who) (updateVehicle i uv)"
  "stays (api_act B req who) (setVehicleActive b i)"
  "stays (api_act B req who) (updateLocation i ul)"
  "stays (api_act B req who) (triggerEmergency G up te i role)"
  "stays (api_act B req who) (resolveEmergency i re)"
  "stays (api_act B req who) (createRating i ct)"
  by (rule accounts_stay, erule account_methods)+

lemma decision_effects [effects]:
  "p_role p = ADMIN \<Longrightarrow> stays (api_act B req (Some p)) (updateVerificationStatus i v)"
  "p_role p = ADMIN \<Longrightarrow> stays (api_act B req (Some p)) (updateActiveStatus i b)"
  by (erule decision_stays, erule related_verification related_active)+

lemmas caller_acts = api_act.book [OF refl refl] api_act.accept [OF refl refl]
  api_act.arrive [OF refl refl] api_act.start [OF refl refl] api_act.complete [OF refl refl]
  api_act.riderCancel [OF refl refl] api_act.driverCancel [OF refl refl]

lemma ride_effects [effects]:
  "p_role p = USER \<Longrightarrow> cr_userId dto = p_id p \<Longrightarrow>
   stays (api_act B (RidesApi (RidesCreate body)) (Some p)) (createRide (be_math B) dto)"
  "p_role p = DRIVER \<Longrightarrow> stays (api_act B (RidesApi (RidesAccept i v)) (Some p)) (acceptRide i (p_id p) v)"
  "p_role p = DRIVER \<Longrightarrow> stays (api_act B (RidesApi (RidesArrive i)) (Some p)) (markArrived i (p_id p))"
  "p_role p = DRIVER \<Longrightarrow> stays (api_act B (RidesApi (RidesStart i)) (Some p)) (startRide i (p_id p))"
  "p_role p = DRIVER \<Longrightarrow> stays (api_act B (RidesApi (RidesComplete i)) (Some p)) (completeRide i (p_id p))"
  "p_role p = USER \<Longrightarrow> stays (api_act B (RidesApi (RidesCancelByUser i reason)) (Some p))
     (cancelRide i reason (Some (p_id p)) None)"
  "p_role p = DRIVER \<Longrightarrow> stays (api_act B (RidesApi (RidesCancelByDriver i reason)) (Some p))
     (cancelRide i reason None (Some (p_id p)))"
  by (rule staysI; rule caller_acts; assumption)+

lemma wallet_effects [effects]:
  "p_role p = DRIVER \<Longrightarrow> stays (api_act B (WalletApi (WalletFuel x)) (Some p))
     (requestFuelSupport (be_wallet B) (be_fuel B) (p_id p) x)"
  "p_role p = DRIVER \<Longrightarrow> stays (api_act B (WalletApi (WalletPayout x bank)) (Some p))
     (requestPayout (be_wallet B) (be_payout B) (p_id p) x bank)"
  by (rule staysI, rule api_act.fuel [OF refl], assumption, rule refl, assumption)
    (rule staysI, rule api_act.payout [OF refl], assumption, rule refl, assumption)

section \<open>Every route\<close>

lemma serveRides_acts:
  "serveRides B hdr r s = (res, s') \<Longrightarrow> api_act B (RidesApi r) (caller B hdr s) s s'"
  by (cases r)
    (auto simp: rides_estimateRide_def rides_getUserRides_def rides_cancelRideByUser_def
      rides_getAvailableRides_def rides_getDriverRides_def rides_acceptRide_def rides_markArrived_def
      rides_startRide_def rides_completeRide_def rides_cancelRideByDriver_def rides_getAllRides_def
      rides_getFareBreakdown_def rides_getRide_def rides_createRide_def
      elim!: act_reading intro!: stays_intros effects)

lemma ratings_effect:
  "stays (api_act B req who) (\<lambda>s. case f s of None \<Rightarrow> (Inl e, s) | Some x \<Rightarrow> checked (c x) (reads g) s)"
  by (auto simp: stays_def checked_def reads_def api_act_idle split: option.split sum.split)

lemma serveRatings_acts:
  "serveRatings B hdr r s = (res, s') \<Longrightarrow> api_act B (RatingsApi r) (caller B hdr s) s s'"
  by (cases r)
    (auto simp: ratings_create_def ratings_findByRide_def elim!: act_reading intro!: stays_intros effects
      ratings_effect)

lemma serveWallet_acts:
  "serveWallet B hdr r s = (res, s') \<Longrightarrow> api_act B (WalletApi r) (caller B hdr s) s s'"
  by (cases r)
    (auto simp: wallet_getBalance_def wallet_getFuelSupportLimit_def wallet_requestFuelSupport_def
      wallet_requestPayout_def wallet_getTransactions_def elim!: act_reading intro!: stays_intros effects)

lemma serveLedger_acts:
  "serveLedger B hdr r s = (res, s') \<Longrightarrow> api_act B (LedgerApi r) (caller B hdr s) s s'"
  by (cases r)
    (auto simp: ledger_getMyStatement_def ledger_getDriverStatement_def ledger_getRideEntries_def
      ledger_getSummary_def elim!: act_reading intro!: stays_intros effects)

lemma serveEmergency_acts:
  "serveEmergency B hdr r s = (res, s') \<Longrightarrow> api_act B (EmergencyApi r) (caller B hdr s) s s'"
  by (cases r)
    (auto simp: emergency_trigger_def emergency_findAll_def emergency_findByRide_def emergency_resolve_def
      elim!: act_reading intro!: stays_intros effects)

lemma serveLocations_acts:
  "serveLocations B hdr r s = (res, s') \<Longrightarrow> api_act B (LocationsApi r) (caller B hdr s) s s'"
  by (cases r)
    (auto simp: locations_update_def locations_getDriverLocation_def locations_findNearby_def
      elim!: act_reading intro!: stays_intros effects)

lemma serveStats_acts:
  "serveStats B hdr r s = (res, s') \<Longrightarrow> api_act B (StatsApi r) (caller B hdr s) s s'"
proof (cases r)
  case StatsPublic
  moreover assume "serveStats B hdr r s = (res, s')"
  ultimately show ?thesis
    by (auto simp: stats_getPublicStats_def void_def mapOut_def reads_def api_act_idle)
qed (auto simp: stats_getDashboard_def stats_getRideStats_def stats_getRevenueStats_def
    stats_getDriverStats_def elim!: act_reading intro!: stays_intros effects)

text \<open>The handlers without a guard: what stays within the relation for everybody does so here.\<close>

lemma open_act: "void m s = (res, s') \<Longrightarrow> stays (api_act B req who) m \<Longrightarrow> api_act B req who s s'"
  by (auto simp: void_def mapOut_def stays_def split: prod.splits) (metis snd_conv)

lemma rotate_effect [effects]:
  "stays (api_act B req who) (refreshSession env tok ctx)"
  "stays (api_act B req who) (auth_logout env tok)"
  unfolding refreshSession_def
  by (rule accounts_stay, erule related_rotate)
    (rule accounts_stay, auto simp: auth_logout_def related_logout)

lemma serveAuth_acts:
  "serveAuth B hdr r s = (res, s') \<Longrightarrow> api_act B (AuthApi r) (caller B hdr s) s s'"
  by (cases r)
    (auto simp: auth_register_def auth_verifyOtp_def auth_resendOtp_def auth_login_def
      auth_forgotPassword_def auth_resetPassword_def auth_privySignIn_def auth_privyDriverRegister_def
      auth_refresh_def elim!: open_act intro!: effects)

lemma removeDriver_effect [effects]:
  "p_role p = ADMIN \<Longrightarrow> stays (api_act B (DriversApi (DriversRemove i)) (Some p)) (removeDriver i)"
  by (rule staysI, rule api_act.dropDriver [OF refl], assumption, rule refl, assumption)

lemma serveDrivers_acts:
  "serveDrivers B hdr r s = (res, s') \<Longrightarrow> api_act B (DriversApi r) (caller B hdr s) s s'"
  by (cases r)
    (auto simp: drivers_create_def drivers_login_def drivers_findAll_def drivers_findOne_def
      drivers_update_def drivers_updateOnlineStatus_def drivers_updateVerificationStatus_def
      drivers_updateActiveStatus_def drivers_forgotPassword_def drivers_resetPassword_def
      drivers_remove_def elim!: open_act act_reading intro!: stays_intros effects)

lemma removeVehicle_effect [effects]:
  "stays (api_act B req (Some p)) (checked (assertOwnsVehicle p i action) (removeVehicle i))"
proof (rule actRel.checked_stays)
  fix s res s'
  assume ok: "assertOwnsVehicle p i action s = Inr ()" and run: "removeVehicle i s = (res, s')"
  from ok obtain veh where "findVehicle i s = Some veh" "p_role p = ADMIN \<or> v_driverId veh = p_id p"
    by (auto simp: assertOwnsVehicle_def findOneVehicle_def assertOwnership_def canActOnBehalfOf_def
        isAdmin_def sanitizeVehicle_def split: sum.splits option.splits if_splits)
  then show "api_act B req (Some p) s s'" using run api_act.dropVehicle by blast
qed

lemma serveVehicles_acts:
  "serveVehicles B hdr r s = (res, s') \<Longrightarrow> api_act B (VehiclesApi r) (caller B hdr s) s s'"
  by (cases r)
    (auto simp: vehicles_create_def vehicles_findAll_def vehicles_findByDriverId_def vehicles_findOne_def
      vehicles_deactivate_def vehicles_activate_def vehicles_update_def vehicles_remove_def Let_def
      deactivateVehicle_def activateVehicle_def elim!: act_reading
      intro!: removeVehicle_effect stays_intros effects)

lemma channel_effect: "stays (api_act B (ChannelsApi r) who) (parseAndBook (be_math B) dto)"
  by (rule staysI) (rule api_act.channel [OF refl])

lemma serveChannels_acts:
  "serveChannels B hdr r s = (res, s') \<Longrightarrow> api_act B (ChannelsApi r) (caller B hdr s) s s'"
  by (cases r)
    (auto simp: channels_parseAndBook_def elim!: open_act intro!: actRel.stays_checked channel_effect)

text \<open>Whatever is asked of the backend stays within what the caller may do.\<close>

lemma serve_acts:
  "serve B hdr req s = (res, s') \<Longrightarrow> api_act B req (caller B hdr s) s s'"
  by (cases req)
    (simp_all add: serveRides_acts serveRatings_acts serveWallet_acts serveLedger_acts
      serveEmergency_acts serveDrivers_acts serveVehicles_acts serveLocations_acts serveAuth_acts
      serveStats_acts serveChannels_acts)

section \<open>A sample deployment\<close>

text \<open>Two bearer tokens, of the driver and of the rider of the sample state; simulated gateways.\<close>

definition demoBackend :: backendEnv where
  "demoBackend = \<lparr>be_math = demoMath,
     be_verify = (\<lambda>hdr. if hdr = Some ''d'' then Inr \<lparr>jp_sub = Some 2, jp_role = DRIVER, jp_type = Some ''driver''\<rparr>
       else if hdr = Some ''r'' then Inr \<lparr>jp_sub = Some 1, jp_role = USER, jp_type = None\<rparr>
       else Inl ''No auth token''),
     be_auth = demoAuth,
     be_privy = \<lparr>pv_isConfigured = False, pv_verifyAccessToken = (\<lambda>_. None),
       pv_identityFrom = (\<lambda>_. \<lparr>pi_wallet = None, pi_email = None\<rparr>)\<rparr>,
     be_geo = \<lparr>ge_read = id, ge_radius = (\<lambda>_ _ _ _. [])\<rparr>,
     be_wallet = demoConfig, be_fuel = simulatedMfbDisburse 9 0, be_payout = simulatedLinkPayPayout 9 0,
     be_stats = \<lparr>sc_zone = None, sc_serverOffset = 0, sc_dbOffset = 0\<rparr>, be_queueUp = True,
     be_internalKey = Some ''k''\<rparr>"

lemma demoBackend_simps [simp]:
  "be_verify demoBackend (Some ''d'') = Inr \<lparr>jp_sub = Some 2, jp_role = DRIVER, jp_type = Some ''driver''\<rparr>"
  "be_verify demoBackend (Some ''r'') = Inr \<lparr>jp_sub = Some 1, jp_role = USER, jp_type = None\<rparr>"
  "be_verify demoBackend None = Inl ''No auth token''"
  by (simp_all add: demoBackend_def)

lemma demo_authorize:
  "users s = [demoUser] \<Longrightarrow> drivers s = [demoDriver] \<Longrightarrow>
   authorize (be_verify demoBackend) False (Some roles) (Some ''d'') s =
     (if DRIVER \<in> set roles then Inr (Some \<lparr>rp_id = 2, rp_role = DRIVER,
        rp_row = RowDriver (stripDriver (sanitizeDriver demoDriver))\<rparr>)
      else Inl (ForbiddenException ''Forbidden resource''))"
  "users s = [demoUser] \<Longrightarrow> drivers s = [demoDriver] \<Longrightarrow>
   authorize (be_verify demoBackend) False (Some roles) (Some ''r'') s =
     (if USER \<in> set roles then Inr (Some \<lparr>rp_id = 1, rp_role = USER, rp_row = RowUser (stripUser demoUser)\<rparr>)
      else Inl (ForbiddenException ''Forbidden resource''))"
  by (auto simp: authorize_def jwtAuthGuard_def handleRequest_def rolesGuard_def resolvePrincipal_def
      findForAuth_def findUser_def tbl_find_def demoDriver_def demoUser_def sanitizeDriver_def list_ex_iff)

lemma demo_caller:
  "users s = [demoUser] \<Longrightarrow> drivers s = [demoDriver] \<Longrightarrow>
   caller demoBackend (Some ''d'') s = Some \<lparr>p_id = 2, p_role = DRIVER\<rparr>"
  "users s = [demoUser] \<Longrightarrow> drivers s = [demoDriver] \<Longrightarrow>
   caller demoBackend (Some ''r'') s = Some \<lparr>p_id = 1, p_role = USER\<rparr>"
  by (simp_all add: caller_def authorize_def jwtAuthGuard_def handleRequest_def rolesGuard_def
      resolvePrincipal_def findForAuth_def findUser_def tbl_find_def demoDriver_def demoUser_def
      sanitizeDriver_def principalOf_def)

lemma demo_route:
  "users s = [demoUser] \<Longrightarrow> drivers s = [demoDriver] \<Longrightarrow> DRIVER \<in> set roles \<Longrightarrow>
   route (be_verify demoBackend) roles (Some ''d'') k s = k \<lparr>p_id = 2, p_role = DRIVER\<rparr> s"
  "users s = [demoUser] \<Longrightarrow> drivers s = [demoDriver] \<Longrightarrow> USER \<in> set roles \<Longrightarrow>
   route (be_verify demoBackend) roles (Some ''r'') k s = k \<lparr>p_id = 1, p_role = USER\<rparr> s"
  by (simp_all add: route_def demo_authorize principalOf_def)

end
