(* ===== verification/Authority.thy ===== *)
theory Authority
  imports BackendRules
begin

text \<open>
  Properties of the whole HTTP surface: the books, the ride life cycle and the fleet rules hold in
  every state the API can reach; a ride moves only at the hand of its parties; money moves only at
  the request of the driver it belongs to or when that driver completes a ride; what an
  administrator decides nobody else changes, and no request makes an administrator.
\<close>

section \<open>What the wallet touches\<close>

text \<open>Rides and riders stay, and of the drivers at most the balance of \<open>i\<close> moves.\<close>

definition own_wallet :: "uuid \<Rightarrow> sys \<Rightarrow> sys \<Rightarrow> bool" where
  "own_wallet i s s' \<longleftrightarrow> rides s' = rides s \<and> users s' = users s \<and> nextId s \<le> nextId s' \<and>
     (\<forall>d\<in>set (drivers s'). d \<in> set (drivers s) \<or>
        (\<exists>e\<in>set (drivers s). d_id e = i \<and> d = e\<lparr>d_walletBalance := d_walletBalance d\<rparr>))"

lemma own_wallet_trans:
  assumes "own_wallet i s t" "own_wallet i t u"
  shows "own_wallet i s u"
proof -
  have "d \<in> set (drivers s) \<or> (\<exists>e\<in>set (drivers s). d_id e = i \<and> d = e\<lparr>d_walletBalance := d_walletBalance d\<rparr>)"
    if "d \<in> set (drivers u)" for d
  proof -
    have t: "x \<in> set (drivers s) \<or> (\<exists>e\<in>set (drivers s). d_id e = i \<and> x = e\<lparr>d_walletBalance := d_walletBalance x\<rparr>)"
      if "x \<in> set (drivers t)" for x
      using assms(1) that unfolding own_wallet_def by blast
    from that assms(2) consider "d \<in> set (drivers t)"
      | e where "e \<in> set (drivers t)" "d_id e = i" "d = e\<lparr>d_walletBalance := d_walletBalance d\<rparr>"
      unfolding own_wallet_def by blast
    then show ?thesis
    proof cases
      case (2 e)
      from t [OF 2(1)] show ?thesis
      proof (elim disjE bexE conjE)
        fix x assume x: "x \<in> set (drivers s)" "d_id x = i" "e = x\<lparr>d_walletBalance := d_walletBalance e\<rparr>"
        have "d = x\<lparr>d_walletBalance := d_walletBalance d\<rparr>" using 2(3) x(3) by (metis Driver.surjective Driver.update_convs(14))
        then show ?thesis using x by blast
      qed (use 2 in blast)
    qed (use t in blast)
  qed
  then show ?thesis using assms unfolding own_wallet_def by (metis order_trans)
qed

interpretation walletRel: effect "own_wallet i" for i
  by unfold_locales (simp add: own_wallet_def, rule own_wallet_trans)

lemma own_wallet_frame:
  "rides s' = rides s \<Longrightarrow> users s' = users s \<Longrightarrow> drivers s' = drivers s \<Longrightarrow> nextId s \<le> nextId s' \<Longrightarrow>
   own_wallet i s s'"
  by (simp add: own_wallet_def)

lemma own_wallet_save:
  assumes "findDriver i s = Some d"
  shows "own_wallet i s (saveDriver (d\<lparr>d_walletBalance := k\<rparr>) s)"
  using driverRepo.findById_SomeD [OF assms] driverRepo.in_rows_save
  by (fastforce simp: own_wallet_def)

lemma own_wallet_setBalance:
  "findDriver i s = Some d \<Longrightarrow> setBalance d x s = (res, s') \<Longrightarrow> own_wallet i s s'"
  by (auto simp: setBalance_def own_wallet_save walletRel.unchanged split: sum.splits)

lemma own_wallet_writeEntry: "writeEntry w s = (res, s') \<Longrightarrow> own_wallet i s s'"
proof (cases res)
  case (Inl e)
  moreover assume "writeEntry w s = (res, s')"
  ultimately have "s' = s"
    by (auto simp: writeEntry_def andThen_def writeEntries_def transaction_Inl_iff split: sum.splits prod.splits)
  then show ?thesis by (simp add: walletRel.unchanged)
next
  case (Inr x)
  moreover assume "writeEntry w s = (res, s')"
  ultimately show ?thesis by (auto elim!: writeEntry_Inr intro: own_wallet_frame)
qed

lemma own_wallet_settle: "own_wallet i s (settleEntry j st r m s)"
  by (rule own_wallet_frame) simp_all

lemma own_wallet_reserveFuel: "stays (own_wallet i) (reserveFuel cfg i x ref)"
proof (rule staysI)
  fix s res s' assume run: "reserveFuel cfg i x ref s = (res, s')"
  show "own_wallet i s s'"
  proof (cases "findDriver i s")
    case (Some d)
    then show ?thesis
      using run own_wallet_trans [OF own_wallet_setBalance [OF Some] own_wallet_writeEntry]
        own_wallet_setBalance [OF Some]
      by (auto simp: reserveFuel_def Let_def andThen_def walletRel.unchanged
          split: if_splits prod.splits sum.splits)
  qed (use run in \<open>simp add: reserveFuel_def walletRel.unchanged\<close>)
qed

lemma own_wallet_reservePayout: "stays (own_wallet i) (reservePayout i x bank ref)"
proof (rule staysI)
  fix s res s' assume run: "reservePayout i x bank ref s = (res, s')"
  show "own_wallet i s s'"
  proof (cases "findDriver i s")
    case (Some d)
    then show ?thesis
      using run own_wallet_trans [OF own_wallet_setBalance [OF Some] own_wallet_writeEntry]
        own_wallet_setBalance [OF Some]
      by (auto simp: reservePayout_def Let_def andThen_def walletRel.unchanged
          split: if_splits prod.splits sum.splits)
  qed (use run in \<open>simp add: reservePayout_def walletRel.unchanged\<close>)
qed

lemma own_wallet_undo: "stays (own_wallet i) (reverseDriverBalance i delta j reason)"
  unfolding reverseDriverBalance_def
proof (rule walletRel.stays_transaction, rule staysI)
  fix s res s' assume run: "undoBalance i delta j reason s = (res, s')"
  show "own_wallet i s s'"
  proof (cases "findDriver i s")
    case (Some d)
    then show ?thesis
      using run own_wallet_trans [OF own_wallet_setBalance [OF Some] own_wallet_settle]
        own_wallet_setBalance [OF Some]
      by (auto simp: undoBalance_def Let_def andThen_def split: prod.splits sum.splits)
  next
    case None
    then show ?thesis using run own_wallet_settle by (auto simp: undoBalance_def Let_def)
  qed
qed

lemma own_wallet_fuel: "stays (own_wallet i) (fuelSupport cfg disburse i x ref)"
proof (rule staysI)
  fix s res s' assume run: "fuelSupport cfg disburse i x ref s = (res, s')"
  obtain r s1 where r: "transaction (reserveFuel cfg i x ref) s = (r, s1)" by fastforce
  then have 1: "own_wallet i s s1"
    using staysD [OF walletRel.stays_transaction [OF own_wallet_reserveFuel]] by blast
  show "own_wallet i s s'"
    using run r 1 own_wallet_trans [OF 1 staysD [OF own_wallet_undo]] own_wallet_trans [OF 1 own_wallet_settle]
    by (auto simp: fuelSupport_def Let_def andThen_def split: sum.splits if_splits prod.splits)
qed

lemma own_wallet_payout: "stays (own_wallet i) (payout cfg initiate i x bank ref)"
proof (rule staysI)
  fix s res s' assume run: "payout cfg initiate i x bank ref s = (res, s')"
  obtain r s1 where r: "transaction (reservePayout i x bank ref) s = (r, s1)" by fastforce
  then have 1: "own_wallet i s s1"
    using staysD [OF walletRel.stays_transaction [OF own_wallet_reservePayout]] by blast
  show "own_wallet i s s'"
    using run r 1 own_wallet_trans [OF 1 staysD [OF own_wallet_undo]] own_wallet_trans [OF 1 own_wallet_settle]
    by (auto simp: payout_def Let_def andThen_def split: sum.splits if_splits prod.splits)
qed

text \<open>The requests: the lock and the id of the reference in front.\<close>

lemma own_wallet_locked:
  assumes "stays (own_wallet i) (m (nextId s))"
    and "(case redis_set_nx key v ttl s of
        (False, s') \<Rightarrow> (Inl e, s')
      | (True, s') \<Rightarrow> let (j, s'') = freshId s' in tryFinally (m j) (redis_del key) s'') = (res, s')"
  shows "own_wallet i s s'"
proof (cases "live (now s) (redis s key)")
  case True
  then show ?thesis using assms(2) by (simp add: redis_set_nx_def walletRel.unchanged)
next
  case False
  let ?t = "snd (freshId (redis_set_ex key v ttl s))"
  obtain r u where u: "m (nextId s) ?t = (r, u)" "s' = redis_del key u"
    using assms(2) False by (auto simp: redis_set_nx_def tryFinally_iff split_beta)
  have "own_wallet i s ?t" by (rule own_wallet_frame) simp_all
  moreover have "own_wallet i ?t u" using staysD [OF assms(1) u(1)] .
  moreover have "own_wallet i u s'" by (rule own_wallet_frame) (simp_all add: u(2))
  ultimately show ?thesis using own_wallet_trans by blast
qed

lemma own_wallet_requests:
  "requestFuelSupport cfg disburse i x s = (res, s') \<Longrightarrow> own_wallet i s s'"
  "requestPayout cfg initiate i x bank s = (res, s') \<Longrightarrow> own_wallet i s s'"
  unfolding requestFuelSupport_def requestPayout_def
  by (rule own_wallet_locked, rule own_wallet_fuel, assumption)
    (rule own_wallet_locked, rule own_wallet_payout, assumption)

section \<open>One request and the rides\<close>

text \<open>What a request may do to a ride that exists.\<close>

definition may_touch :: "Principal \<Rightarrow> Ride \<Rightarrow> Ride \<Rightarrow> bool" where
  "may_touch p r r' \<longleftrightarrow>
     r_userId r = p_id p \<and> p_role p = USER \<or>
     r_driverId r = Some (p_id p) \<and> p_role p = DRIVER \<or>
     r_status r = REQUESTED \<and> p_role p = DRIVER \<and> r_status r' = ACCEPTED \<and> r_driverId r' = Some (p_id p) \<or>
     r' = r\<lparr>r_driverId := r_driverId r', r_vehicleId := r_vehicleId r'\<rparr>"

definition rides_moved :: "Principal option \<Rightarrow> sys \<Rightarrow> sys \<Rightarrow> bool" where
  "rides_moved who s s' \<longleftrightarrow> (\<forall>i r. findRide i s = Some r \<longrightarrow>
     (\<exists>r'. findRide i s' = Some r' \<and> (r' = r \<or> (\<exists>p. who = Some p \<and> may_touch p r r'))))"

lemma rides_moved_same: "rides s' = rides s \<Longrightarrow> rides_moved who s s'"
  by (auto simp: rides_moved_def findRide_def)

lemma rides_moved_added:
  assumes "rides s' = rides s @ [x]"
  shows "rides_moved who s s'"
  using assms by (auto simp: rides_moved_def findRide_def tbl_find_def find_append)

lemma rides_moved_saved:
  assumes "rides s' = rides (saveRide r' s)" "findRide i s = Some r" "r_id r' = i" "may_touch p r r'"
  shows "rides_moved (Some p) s s'"
proof -
  have "findRide j s' = findRide j (saveRide r' s)" for j using assms(1) by (simp add: findRide_def)
  then have "findRide j s' = (if j = i then Some r' else findRide j s)" for j
    using rideRepo.findById_save_same [of r' s] rideRepo.findById_save_other [of r' j s] assms(3) by auto
  then show ?thesis using assms(2,4) by (auto simp: rides_moved_def)
qed

lemma rides_moved_map:
  assumes "rides s' = map f (rides s)" "\<And>r. r_id (f r) = r_id r" "\<And>r. may_touch p r (f r)"
  shows "rides_moved (Some p) s s'"
proof -
  have "findRide i s' = map_option f (findRide i s)" for i
    using assms(1,2) by (simp add: findRide_def tbl_find_def find_map_cong)
  then show ?thesis using assms(3) by (simp add: rides_moved_def)
qed

lemma createRide_rides:
  assumes "createRide m dto s = (res, s')" "wf_sys s"
  shows "rides s' = rides s \<or> (\<exists>km fare. rides s' = rides s @ [newRide dto s km fare])"
proof (cases res)
  case (Inl e)
  then show ?thesis using createRide_Inl assms(1) by fastforce
next
  case (Inr r)
  then have "createRide m dto s = (Inr r, s')" using assms(1) by simp
  then show ?thesis
  proof (rule createRide_Inr)
    fix km fare assume *: "r = newRide dto s km fare" "s' = emit (RideRequested r) (saveRide r (snd (freshId
           (redis_set_ex (bookingKey dto) (RText ''locked'') 30 s))))"
    have "nextId s \<notin> r_id ` set (rides s)" using assms(2) by (force simp: wf_defs)
    then have "rides s' = rides s @ [newRide dto s km fare]"
      unfolding *(2) using *(1) rideRepo.save_insert by (simp add: newRide_def)
    then show ?thesis by blast
  qed
qed

lemma parseAndBook_cases:
  assumes "parseAndBook m dto s = (res, s')"
  obtains (nothing) "s' = s"
  | (rider) t where "related decided s t" "s' = t"
  | (booking) t d x where "related decided s t" "createRide m d t = (x, s')"
proof -
  have guest: "u_cashbackBalance (guestRider phone) = 0" "u_role (guestRider phone) = USER" for phone
    by (simp_all add: guestRider_def blankUser_def)
  have rel: "related decided s t" if "resolveRider cp s = (x, t)" for cp x t
    using that related_createUser [OF _ guest]
    by (auto simp: resolveRider_def related_refl split: option.splits if_splits)
  show thesis
  proof (cases "s' = s")
    case False
    then have "\<exists>cp x t. resolveRider cp s = (x, t) \<and> (s' = t \<or> (\<exists>d y. createRide m d t = (y, s')))"
      using assms
      by (auto simp: parseAndBook_def Let_def split: sum.splits option.splits prod.splits) blast+
    then show thesis using rel rider booking by blast
  qed (rule nothing)
qed

text \<open>The foreign keys: a ride may lose its driver and its vehicle, and nothing else.\<close>

definition only_links :: "(Ride \<Rightarrow> Ride) \<Rightarrow> bool" where
  "only_links f \<longleftrightarrow> (\<forall>r. f r = r\<lparr>r_driverId := r_driverId (f r), r_vehicleId := r_vehicleId (f r)\<rparr>)"

lemma deleteDriverRow_rides: "\<exists>f. rides (deleteDriverRow i s) = map f (rides s) \<and> only_links f"
  by (rule exI [of _ "\<lambda>r. r\<lparr>
             r_driverId := (if r_driverId r = Some i then None else r_driverId r),
             r_vehicleId := (case r_vehicleId r of
                Some v \<Rightarrow> if v \<in> set (map v_id (filter (\<lambda>v. v_driverId v = i) (vehicles s))) then None else Some v
              | None \<Rightarrow> None)\<rparr>"])
    (simp add: deleteDriverRow_def only_links_def)

lemma removeDriver_rides:
  assumes "removeDriver i s = (res, s')"
  shows "rides s' = rides s \<or> (\<exists>f. rides s' = map f (rides s) \<and> only_links f)"
proof -
  have "s' = s \<or> (\<exists>j. s' = deleteDriverRow j (revokeAllForSubject j DRIVER s))"
    using assms by (auto simp: removeDriver_def split: option.splits)
  then show ?thesis
    using deleteDriverRow_rides [of _ "revokeAllForSubject _ DRIVER s"]
    by (auto simp: revokeAllForSubject_def updateTokens_def)
qed

lemma removeVehicle_rides:
  assumes "removeVehicle i s = (res, s')"
  shows "rides s' = rides s \<or> (\<exists>f. rides s' = map f (rides s) \<and> only_links f)"
proof -
  have "only_links (\<lambda>r. r\<lparr>r_vehicleId := (if r_vehicleId r = Some i then None else r_vehicleId r)\<rparr>)"
    by (simp add: only_links_def)
  then show ?thesis using assms by (auto simp: removeVehicle_def split: option.splits)
qed

lemma rides_moved_links:
  assumes "rides s' = map f (rides s)" "only_links f"
  shows "rides_moved (Some p) s s'"
proof (rule rides_moved_map [OF assms(1)])
  fix r
  have f: "f r = r\<lparr>r_driverId := r_driverId (f r), r_vehicleId := r_vehicleId (f r)\<rparr>"
    using assms(2) unfolding only_links_def by blast
  show "r_id (f r) = r_id r" by (subst f) simp
  show "may_touch p r (f r)" unfolding may_touch_def using f by blast
qed

lemma cancelRide_saved:
  assumes "cancelRide i reason u d s = (Inr r', s')"
  obtains r where "findRide i s = Some r" "mayCancel reason u d r" "r' = cancelledRide reason r"
    "rides s' = rides (saveRide r' s)"
  using assms by (auto simp: cancelRide_Inr saveRide_def split: option.splits)

lemma act_moves_rides:
  assumes "api_act B req who s s'" "wf_sys s"
  shows "rides_moved who s s'"
  using assms(1)
proof cases
  case accounts
  then show ?thesis by (intro rides_moved_same) (simp add: related_def)
next
  case decision
  then show ?thesis by (intro rides_moved_same) (simp add: related_def)
next
  case (book p body dto rres)
  then show ?thesis using createRide_rides assms(2) rides_moved_same rides_moved_added by blast
next
  case (accept p i v rres)
  show ?thesis
  proof (cases rres)
    case (Inl e)
    then have "rides s' = rides s" using accept acceptRide_Inl [of i "p_id p" v s e s'] by auto
    then show ?thesis by (rule rides_moved_same)
  next
    case (Inr r')
    then have "acceptRide i (p_id p) v s = (Inr r', s')" using accept by simp
    then show ?thesis
    proof (rule acceptRide_Inr)
      fix r assume *: "findRide i s = Some r" "mayAccept s (p_id p) v r"
        "r' = acceptedRide (now s) (p_id p) v r"
        "s' = redis_del (RIDE_LOCK i) (acceptedState i (p_id p) r' (locked i (p_id p) s))"
      have "rides s' = rides (saveRide r' s)" by (simp add: *(4) acceptedState_def saveRide_def)
      moreover have "r_id r' = i" using wf_findRide(2) [OF assms(2) *(1)] by (simp add: *(3) acceptedRide_def)
      moreover have "may_touch p r r'"
        using *(2) accept by (simp add: may_touch_def mayAccept_def *(3) acceptedRide_def)
      ultimately show ?thesis using rides_moved_saved *(1) accept(1) by blast
    qed
  qed
next
  case (arrive p i rres)
  show ?thesis
  proof (cases rres)
    case (Inl e)
    then show ?thesis using arrive markArrived_Inl rides_moved_same by blast
  next
    case (Inr r')
    then obtain r where r: "findRide i s = Some r" "r_driverId r = Some (p_id p)"
      "r' = r\<lparr>r_status := ARRIVED\<rparr>" "s' = emit (RideArrived r') (saveRide r' s)"
      using arrive by (auto simp: markArrived_Inr)
    have "rides_moved (Some p) s s'"
      by (rule rides_moved_saved [of _ r' _ i r])
        (use r arrive(3) wf_findRide(2) [OF assms(2) r(1)] in \<open>simp_all add: may_touch_def\<close>)
    then show ?thesis using arrive(1) by simp
  qed
next
  case (start p i rres)
  show ?thesis
  proof (cases rres)
    case (Inl e)
    then show ?thesis using start startRide_Inl rides_moved_same by blast
  next
    case (Inr r')
    then obtain r where r: "findRide i s = Some r" "r_driverId r = Some (p_id p)"
      "r' = r\<lparr>r_status := IN_PROGRESS, r_startedAt := Some (now s)\<rparr>"
      "s' = emit (RideStarted r') (saveRide r' s)"
      using start by (auto simp: startRide_Inr)
    have "rides_moved (Some p) s s'"
      by (rule rides_moved_saved [of _ r' _ i r])
        (use r start(3) wf_findRide(2) [OF assms(2) r(1)] in \<open>simp_all add: may_touch_def\<close>)
    then show ?thesis using start(1) by simp
  qed
next
  case (complete p i rres)
  from complete(4) assms(2) show ?thesis
  proof (cases rule: completeRide_effect)
    case nothing
    then show ?thesis by (intro rides_moved_same) (simp add: same_tables_def)
  next
    case (paid r d u n rows)
    have "rides_moved (Some p) s s'"
      by (rule rides_moved_saved [of _ "completedRide (now s) r" _ i r])
        (use paid complete(3) wf_findRide(2) [OF assms(2) paid(1)] in
          \<open>simp_all add: may_touch_def same_tables_def completedRide_def\<close>)
    then show ?thesis using complete(1) by simp
  qed
next
  case (riderCancel p i reason rres)
  show ?thesis
  proof (cases rres)
    case (Inl e)
    then show ?thesis using riderCancel cancelRide_Inl rides_moved_same by blast
  next
    case (Inr r')
    then have "cancelRide i reason (Some (p_id p)) None s = (Inr r', s')" using riderCancel(4) by simp
    then obtain r where r: "findRide i s = Some r" "mayCancel reason (Some (p_id p)) None r"
      "r' = cancelledRide reason r" "rides s' = rides (saveRide r' s)"
      by (rule cancelRide_saved)
    have "rides_moved (Some p) s s'"
      by (rule rides_moved_saved [OF r(4,1)])
        (use r riderCancel(3) wf_findRide(2) [OF assms(2) r(1)] in
          \<open>simp_all add: may_touch_def cancelledRide_def mayCancel_def\<close>)
    then show ?thesis using riderCancel(1) by simp
  qed
next
  case (driverCancel p i reason rres)
  show ?thesis
  proof (cases rres)
    case (Inl e)
    then show ?thesis using driverCancel cancelRide_Inl rides_moved_same by blast
  next
    case (Inr r')
    then have "cancelRide i reason None (Some (p_id p)) s = (Inr r', s')" using driverCancel(4) by simp
    then obtain r where r: "findRide i s = Some r" "mayCancel reason None (Some (p_id p)) r"
      "r' = cancelledRide reason r" "rides s' = rides (saveRide r' s)"
      by (rule cancelRide_saved)
    have "rides_moved (Some p) s s'"
      by (rule rides_moved_saved [OF r(4,1)])
        (use r driverCancel(3) wf_findRide(2) [OF assms(2) r(1)] in
          \<open>simp_all add: may_touch_def cancelledRide_def mayCancel_def\<close>)
    then show ?thesis using driverCancel(1) by simp
  qed
next
  case (fuel p x wres)
  then have "own_wallet (p_id p) s s'" using own_wallet_requests(1) by blast
  then show ?thesis by (intro rides_moved_same) (simp add: own_wallet_def)
next
  case (payout p x bank wres)
  then have "own_wallet (p_id p) s s'" using own_wallet_requests(2) by blast
  then show ?thesis by (intro rides_moved_same) (simp add: own_wallet_def)
next
  case (channel r dto bres)
  from channel(2) show ?thesis
  proof (cases rule: parseAndBook_cases)
    case (booking t d x)
    have "wf_sys t" using wf_related booking(1) assms(2) by blast
    then show ?thesis
      using createRide_rides [OF booking(2)] booking(1) rides_moved_same rides_moved_added
      unfolding related_def by metis
  qed (auto intro: rides_moved_same simp: related_def)
next
  case (dropVehicle p i veh ures)
  then show ?thesis using removeVehicle_rides rides_moved_same rides_moved_links by blast
next
  case (dropDriver p i ures)
  then show ?thesis using removeDriver_rides rides_moved_same rides_moved_links by blast
qed



section \<open>One request and the accounts\<close>

definition driver_moved :: "request \<Rightarrow> Principal option \<Rightarrow> Driver \<Rightarrow> Driver \<Rightarrow> bool" where
  "driver_moved req who d d' \<longleftrightarrow> d_role d' = d_role d \<and>
     (decided d' = decided d \<or> (\<exists>p. who = Some p \<and> p_role p = ADMIN)) \<and>
     (d_walletBalance d' = d_walletBalance d \<or>
      (\<exists>p. who = Some p \<and> p_role p = DRIVER \<and> p_id p = d_id d \<and>
         ((\<exists>r. req = WalletApi r) \<or> (\<exists>i. req = RidesApi (RidesComplete i)))))"

definition user_moved :: "request \<Rightarrow> Principal option \<Rightarrow> sys \<Rightarrow> User \<Rightarrow> User \<Rightarrow> bool" where
  "user_moved req who s u u' \<longleftrightarrow> u_role u' = u_role u \<and> u_isBlocked u' = u_isBlocked u \<and>
     (u_cashbackBalance u' = u_cashbackBalance u \<or>
      (\<exists>p i r. who = Some p \<and> p_role p = DRIVER \<and> req = RidesApi (RidesComplete i) \<and>
         findRide i s = Some r \<and> r_driverId r = Some (p_id p) \<and> r_userId r = u_id u))"

definition accounts_moved :: "request \<Rightarrow> Principal option \<Rightarrow> sys \<Rightarrow> sys \<Rightarrow> bool" where
  "accounts_moved req who s s' \<longleftrightarrow>
     (\<forall>d\<in>set (drivers s). \<forall>d'\<in>set (drivers s'). d_id d' = d_id d \<longrightarrow> driver_moved req who d d') \<and>
     (\<forall>u\<in>set (users s). \<forall>u'\<in>set (users s'). u_id u' = u_id u \<longrightarrow> user_moved req who s u u')"

lemma driver_same: "wf_sys s \<Longrightarrow> d \<in> set (drivers s) \<Longrightarrow> e \<in> set (drivers s) \<Longrightarrow> d_id e = d_id d \<Longrightarrow> e = d"
  using wf_distinct(3) by (auto simp: distinct_map dest: inj_onD)

lemma user_same: "wf_sys s \<Longrightarrow> u \<in> set (users s) \<Longrightarrow> v \<in> set (users s) \<Longrightarrow> u_id v = u_id u \<Longrightarrow> v = u"
  using wf_distinct(2) by (auto simp: distinct_map dest: inj_onD)

lemma driver_moved_refl: "driver_moved req who d d"
  by (simp add: driver_moved_def)

lemma user_moved_refl: "user_moved req who s u u"
  by (simp add: user_moved_def)

lemma accounts_moved_sub:
  assumes "wf_sys s" "set (drivers s') \<subseteq> set (drivers s)" "set (users s') \<subseteq> set (users s)"
  shows "accounts_moved req who s s'"
  unfolding accounts_moved_def
  using assms(2,3) driver_same [OF assms(1)] user_same [OF assms(1)] driver_moved_refl user_moved_refl
  by (metis subsetD)

lemma related_driver:
  assumes "related K s s'" "wf_sys s" "d \<in> set (drivers s)" "d' \<in> set (drivers s')" "d_id d' = d_id d"
  shows "driverCore d' = driverCore d \<and> K d' = K d"
proof -
  have "driver_from K s d'" using assms(1,4) by (simp add: related_def)
  moreover have "d_id d < nextId s" using assms(2,3) by (simp add: wf_defs)
  ultimately obtain e where e: "e \<in> set (drivers s)" "driverCore e = driverCore d'" "K e = K d'"
    using assms(5) by (auto simp: driver_from_def)
  then have "e = d" using driver_same [OF assms(2,3)] assms(5) by (simp add: driverCore_def)
  then show ?thesis using e by simp
qed

lemma related_user:
  assumes "related K s s'" "wf_sys s" "u \<in> set (users s)" "u' \<in> set (users s')" "u_id u' = u_id u"
  shows "userCore u' = userCore u"
proof -
  have "user_from s u'" using assms(1,4) by (simp add: related_def)
  moreover have "u_id u < nextId s" using assms(2,3) by (simp add: wf_defs)
  ultimately obtain v where v: "v \<in> set (users s)" "userCore v = userCore u'"
    using assms(5) by (auto simp: user_from_def)
  then have "v = u" using user_same [OF assms(2,3)] assms(5) by (simp add: userCore_def)
  then show ?thesis using v by simp
qed

lemma accounts_moved_related:
  assumes "related K s s'" "wf_sys s"
    and "\<And>d d'. K d' = K d \<Longrightarrow> decided d' = decided d \<or> (\<exists>p. who = Some p \<and> p_role p = ADMIN)"
  shows "accounts_moved req who s s'"
proof -
  have "driver_moved req who d d'"
    if "d \<in> set (drivers s)" "d' \<in> set (drivers s')" "d_id d' = d_id d" for d d'
    using related_driver [OF assms(1,2) that] assms(3) by (simp add: driver_moved_def driverCore_def)
  moreover have "user_moved req who s u u'"
    if "u \<in> set (users s)" "u' \<in> set (users s')" "u_id u' = u_id u" for u u'
    using related_user [OF assms(1,2) that] by (simp add: user_moved_def userCore_def)
  ultimately show ?thesis by (simp add: accounts_moved_def)
qed

lemma accounts_moved_wallet:
  assumes "own_wallet (p_id p) s s'" "wf_sys s" "p_role p = DRIVER" "req = WalletApi r"
  shows "accounts_moved req (Some p) s s'"
proof -
  have "driver_moved req (Some p) d d'"
    if d: "d \<in> set (drivers s)" "d' \<in> set (drivers s')" "d_id d' = d_id d" for d d'
  proof -
    from assms(1) d(2) consider "d' \<in> set (drivers s)"
      | e where "e \<in> set (drivers s)" "d_id e = p_id p" "d' = e\<lparr>d_walletBalance := d_walletBalance d'\<rparr>"
      unfolding own_wallet_def by blast
    then show ?thesis
    proof cases
      case 1
      then show ?thesis using driver_same [OF assms(2) d(1)] d(3) driver_moved_refl by metis
    next
      case (2 e)
      have same: "d_id d' = d_id e" "d_role d' = d_role e" "decided d' = decided e"
        using arg_cong [OF 2(3), of d_id] arg_cong [OF 2(3), of d_role] arg_cong [OF 2(3), of decided]
        by (simp_all add: decided_def)
      have "e = d" by (rule driver_same [OF assms(2) d(1) 2(1)]) (use same(1) d(3) in argo)
      then show ?thesis using same 2(2) assms(3,4) by (simp add: driver_moved_def)
    qed
  qed
  moreover have "user_moved req (Some p) s u u'"
    if "u \<in> set (users s)" "u' \<in> set (users s')" "u_id u' = u_id u" for u u'
    using that user_same [OF assms(2)] user_moved_refl assms(1) unfolding own_wallet_def by metis
  ultimately show ?thesis by (simp add: accounts_moved_def)
qed

lemma accounts_moved_paid:
  assumes "wf_sys s" "findRide i s = Some r" "r_driverId r = Some (p_id p)" "findDriver (p_id p) s = Some d"
    "findUser (r_userId r) s = Some u" "same_tables (settledState r d u n rows s) s'"
    "p_role p = DRIVER" "req = RidesApi (RidesComplete i)"
  shows "accounts_moved req (Some p) s s'"
proof -
  have tabs: "drivers s' = drivers (saveDriver (paidDriver (driver_part n) d) s)"
    "users s' = users (saveUser (paidRider (rider_part n) u) s)"
    using assms(6) by (simp_all add: same_tables_def settledState_def paidState_def
        saveRide_def saveDriver_def saveUser_def)
  have ids: "d \<in> set (drivers s)" "d_id d = p_id p" "u \<in> set (users s)" "u_id u = r_userId r"
    using wf_findDriver [OF assms(1,4)] wf_findUser [OF assms(1,5)] by simp_all
  have "driver_moved req (Some p) x x'"
    if x: "x \<in> set (drivers s)" "x' \<in> set (drivers s')" "d_id x' = d_id x" for x x'
  proof (cases "x' = paidDriver (driver_part n) d")
    case True
    then have "d = x" using driver_same [OF assms(1) x(1) ids(1)] x(3) by (simp add: paidDriver_def)
    then show ?thesis
      using True ids(2) assms(7,8) by (simp add: driver_moved_def paidDriver_def decided_def)
  next
    case False
    then have "x' \<in> set (drivers s)" using x(2) driverRepo.in_rows_save by (auto simp: tabs)
    then show ?thesis using driver_same [OF assms(1) x(1)] x(3) driver_moved_refl by metis
  qed
  moreover have "user_moved req (Some p) s x x'"
    if x: "x \<in> set (users s)" "x' \<in> set (users s')" "u_id x' = u_id x" for x x'
  proof (cases "x' = paidRider (rider_part n) u")
    case True
    then have "u = x" using user_same [OF assms(1) x(1) ids(3)] x(3) by (simp add: paidRider_def)
    then show ?thesis
      using True ids(4) assms(2,3,7,8) by (simp add: user_moved_def paidRider_def)
  next
    case False
    then have "x' \<in> set (users s)" using x(2) userRepo.in_rows_save by (auto simp: tabs)
    then show ?thesis using user_same [OF assms(1) x(1)] x(3) user_moved_refl by metis
  qed
  ultimately show ?thesis by (simp add: accounts_moved_def)
qed

lemma createRide_people:
  "createRide m dto s = (res, s') \<Longrightarrow> users s' = users s \<and> drivers s' = drivers s"
  by (cases res) (auto dest!: createRide_Inl elim!: createRide_Inr)

lemma ride_op_people:
  "acceptRide i d v s = (res, s') \<Longrightarrow> users s' = users s \<and> drivers s' = drivers s"
  "markArrived i d s = (res, s') \<Longrightarrow> users s' = users s \<and> drivers s' = drivers s"
  "startRide i d s = (res, s') \<Longrightarrow> users s' = users s \<and> drivers s' = drivers s"
  "cancelRide i reason u d' s = (res, s') \<Longrightarrow> users s' = users s \<and> drivers s' = drivers s"
proof -
  show "acceptRide i d v s = (res, s') \<Longrightarrow> users s' = users s \<and> drivers s' = drivers s"
    by (cases res) (auto dest!: acceptRide_Inl elim!: acceptRide_Inr simp: acceptedState_def)
  show "markArrived i d s = (res, s') \<Longrightarrow> users s' = users s \<and> drivers s' = drivers s"
    by (cases res) (auto dest!: markArrived_Inl simp: markArrived_Inr)
  show "startRide i d s = (res, s') \<Longrightarrow> users s' = users s \<and> drivers s' = drivers s"
    by (cases res) (auto dest!: startRide_Inl simp: startRide_Inr)
  show "cancelRide i reason u d' s = (res, s') \<Longrightarrow> users s' = users s \<and> drivers s' = drivers s"
    by (cases res) (auto dest!: cancelRide_Inl simp: cancelRide_Inr split: option.splits)
qed

lemma accounts_moved_same:
  "wf_sys s \<Longrightarrow> users s' = users s \<and> drivers s' = drivers s \<Longrightarrow> accounts_moved req who s s'"
  by (intro accounts_moved_sub) simp_all

lemma remove_people:
  "removeVehicle i s = (res, s') \<Longrightarrow> set (drivers s') \<subseteq> set (drivers s) \<and> users s' = users s"
  "removeDriver i s = (res, s') \<Longrightarrow> set (drivers s') \<subseteq> set (drivers s) \<and> users s' = users s"
  by (auto simp: removeVehicle_def removeDriver_def deleteDriverRow_def Let_def revokeAllForSubject_def
      updateTokens_def tbl_delete_def split: option.splits)

lemma accounts_moved_channel:
  assumes "parseAndBook m dto s = (res, s')" "wf_sys s"
  shows "accounts_moved req who s s'"
  using assms(1)
proof (cases rule: parseAndBook_cases)
  case nothing
  then show ?thesis using assms(2) by (simp add: accounts_moved_same)
next
  case (rider t)
  then show ?thesis using accounts_moved_related [OF _ assms(2)] by blast
next
  case (booking t d x)
  have "accounts_moved req who s t" using accounts_moved_related [OF booking(1) assms(2)] by blast
  then show ?thesis using createRide_people [OF booking(2)] by (simp add: accounts_moved_def)
qed

lemma act_moves_accounts:
  assumes "api_act B req who s s'" and w: "wf_sys s"
  shows "accounts_moved req who s s'"
  using assms(1)
proof cases
  case accounts
  then show ?thesis using accounts_moved_related [OF _ w] by blast
next
  case (decision p)
  then show ?thesis using accounts_moved_related [OF _ w] by blast
next
  case book
  then show ?thesis using accounts_moved_same [OF w] createRide_people by blast
next
  case accept
  then show ?thesis using accounts_moved_same [OF w] ride_op_people(1) by blast
next
  case arrive
  then show ?thesis using accounts_moved_same [OF w] ride_op_people(2) by blast
next
  case start
  then show ?thesis using accounts_moved_same [OF w] ride_op_people(3) by blast
next
  case (complete p i rres)
  from complete(4) w show ?thesis
  proof (cases rule: completeRide_effect)
    case nothing
    then show ?thesis by (intro accounts_moved_same [OF w]) (simp add: same_tables_def)
  next
    case (paid r d u n rows)
    then show ?thesis
      using accounts_moved_paid [OF w paid(1,2,4,5,11) complete(3,2)] complete(1) by simp
  qed
next
  case riderCancel
  then show ?thesis using accounts_moved_same [OF w] ride_op_people(4) by blast
next
  case driverCancel
  then show ?thesis using accounts_moved_same [OF w] ride_op_people(4) by blast
next
  case (fuel p x wres)
  then show ?thesis using accounts_moved_wallet [OF own_wallet_requests(1) w] by blast
next
  case (payout p x bank wres)
  then show ?thesis using accounts_moved_wallet [OF own_wallet_requests(2) w] by blast
next
  case channel
  then show ?thesis using accounts_moved_channel w by blast
next
  case dropVehicle
  then show ?thesis using remove_people(1) by (intro accounts_moved_sub [OF w]) auto
next
  case dropDriver
  then show ?thesis using remove_people(2) by (intro accounts_moved_sub [OF w]) auto
qed

text \<open>C4: Money. A driver's wallet changes only at their own wallet request or their own completion
  of a ride, a rider's cashback only when the driver assigned to a ride of theirs completes it.\<close>

theorem money_moved_by_its_owner:
  assumes "serve B hdr req s = (res, s')" "wf_sys s"
  shows "(findDriver i s = Some d \<and> findDriver i s' = Some d' \<and> d_walletBalance d' \<noteq> d_walletBalance d \<longrightarrow>
      caller B hdr s = Some \<lparr>p_id = i, p_role = DRIVER\<rparr> \<and>
      ((\<exists>r. req = WalletApi r) \<or> (\<exists>j. req = RidesApi (RidesComplete j)))) \<and>
    (findUser i s = Some u \<and> findUser i s' = Some u' \<and> u_cashbackBalance u' \<noteq> u_cashbackBalance u \<longrightarrow>
      (\<exists>p j r. caller B hdr s = Some p \<and> p_role p = DRIVER \<and> req = RidesApi (RidesComplete j) \<and>
         findRide j s = Some r \<and> r_userId r = i \<and> r_driverId r = Some (p_id p)))"
proof -
  note moved = act_moves_accounts [OF serve_acts [OF assms(1)] assms(2)]
  show ?thesis
  proof (intro conjI impI; elim conjE)
    assume d: "findDriver i s = Some d" "findDriver i s' = Some d'" "d_walletBalance d' \<noteq> d_walletBalance d"
    have "d \<in> set (drivers s)" "d_id d = i" "d' \<in> set (drivers s')" "d_id d' = i"
      using driverRepo.findById_SomeD [OF d(1)] driverRepo.findById_SomeD [OF d(2)] by simp_all
    then have m: "driver_moved req (caller B hdr s) d d'" and i: "d_id d = i"
      using moved unfolding accounts_moved_def by simp_all
    then obtain p where p: "caller B hdr s = Some p" "p_role p = DRIVER" "p_id p = i"
      "(\<exists>r. req = WalletApi r) \<or> (\<exists>j. req = RidesApi (RidesComplete j))"
      using d(3) unfolding driver_moved_def by blast
    then show "caller B hdr s = Some \<lparr>p_id = i, p_role = DRIVER\<rparr>" by simp
    show "(\<exists>r. req = WalletApi r) \<or> (\<exists>j. req = RidesApi (RidesComplete j))" by (rule p(4))
  next
    assume u: "findUser i s = Some u" "findUser i s' = Some u'" "u_cashbackBalance u' \<noteq> u_cashbackBalance u"
    have "u \<in> set (users s)" "u_id u = i" "u' \<in> set (users s')" "u_id u' = i"
      using userRepo.findById_SomeD [OF u(1)] userRepo.findById_SomeD [OF u(2)] by simp_all
    then have "user_moved req (caller B hdr s) s u u'" and "u_id u = i"
      using moved unfolding accounts_moved_def by simp_all
    then show "\<exists>p j r. caller B hdr s = Some p \<and> p_role p = DRIVER \<and> req = RidesApi (RidesComplete j) \<and>
         findRide j s = Some r \<and> r_userId r = i \<and> r_driverId r = Some (p_id p)"
      using u(3) unfolding user_moved_def by blast
  qed
qed

lemma demo_completion:
  "\<exists>d. findDriver 2 (snd (serve demoBackend (Some ''d'') (RidesApi (RidesComplete 4)) (demo IN_PROGRESS))) =
     Some d \<and> d_walletBalance d = driver_part 85035"
proof -
  have fits: "fits_decimal 10 (0 + driver_part 85035)" "fits_decimal 12 (0 + rider_part 85035)"
    using part_bounds [of 85035] by (simp_all add: fits_decimal_def)
  have "r_driverId (demoRide IN_PROGRESS) = Some 2" by (simp add: demoRide_def)
  then obtain r rows where "completeRide 4 2 (demo IN_PROGRESS) = (Inr r, redis_del (RIDE_LOCK 4)
      (emit (RideCompleted r (splitFareNaira (num_of_dec 85035))) (redis_del (DRIVER_ACTIVE_RIDE 2)
        (settledState (demoRide IN_PROGRESS) demoDriver demoUser 85035 rows (locked 4 2 (demo IN_PROGRESS))))))"
    using completeRide_runs [OF demo_wf(1) [of IN_PROGRESS], where rideId = 4 and driverId = 2
      and ride = "demoRide IN_PROGRESS" and n = 85035 and d = demoDriver and u = demoUser] fits
    by (simp add: fareOf_def) blast
  moreover have "findDriver 2 (saveDriver (paidDriver (driver_part 85035) demoDriver) t) =
      Some (paidDriver (driver_part 85035) demoDriver)" for t
    using driverRepo.findById_save_same [of "paidDriver (driver_part 85035) demoDriver" t]
    by (simp add: paidDriver_def)
  ultimately show ?thesis
    by (simp add: rides_completeRide_def void_def mapOut_def saying_def demo_route
        settledState_def paidState_def paidDriver_def findDriver_def split_beta)
qed

theorem money_moved_by_its_owner_witness:
  "caller demoBackend (Some ''d'') (demo IN_PROGRESS) = Some \<lparr>p_id = 2, p_role = DRIVER\<rparr>"
proof -
  obtain d where d: "findDriver 2 (snd (serve demoBackend (Some ''d'') (RidesApi (RidesComplete 4))
      (demo IN_PROGRESS))) = Some d" "d_walletBalance d = driver_part 85035"
    using demo_completion by blast
  have "driver_part 85035 \<noteq> 0" using parts_exact(1) [of 85035] by simp
  then show ?thesis
    using money_moved_by_its_owner [OF prod.collapse [symmetric] demo_wf(1),
        where req = "RidesApi (RidesComplete 4)" and hdr = "Some ''d''" and B = demoBackend
        and st1 = IN_PROGRESS and i = 2 and d = demoDriver and d' = d] d
    by simp
qed

section \<open>Nobody becomes an administrator\<close>

definition admins :: "sys \<Rightarrow> uuid set" where
  "admins s = u_id ` {u \<in> set (users s). u_role u = ADMIN} \<union> d_id ` {d \<in> set (drivers s). d_role d = ADMIN}"

lemma admins_iff:
  "i \<in> admins s \<longleftrightarrow> (\<exists>u\<in>set (users s). u_id u = i \<and> u_role u = ADMIN) \<or>
     (\<exists>d\<in>set (drivers s). d_id d = i \<and> d_role d = ADMIN)"
  by (auto simp: admins_def)

lemma admins_subI:
  assumes "\<And>u. u \<in> set (users s') \<Longrightarrow> u_role u = ADMIN \<Longrightarrow>
      \<exists>v\<in>set (users s). u_id v = u_id u \<and> u_role v = ADMIN"
    and "\<And>d. d \<in> set (drivers s') \<Longrightarrow> d_role d = ADMIN \<Longrightarrow>
      \<exists>e\<in>set (drivers s). d_id e = d_id d \<and> d_role e = ADMIN"
  shows "admins s' \<subseteq> admins s"
proof
  fix i assume "i \<in> admins s'"
  then show "i \<in> admins s"
    unfolding admins_iff using assms(1) assms(2) by (elim disjE bexE conjE) blast+
qed

lemma admins_related:
  assumes "related K s s'"
  shows "admins s' \<subseteq> admins s"
proof -
  have "\<exists>v\<in>set (users s). u_id v = u_id u \<and> u_role v = ADMIN"
    if u: "u \<in> set (users s')" "u_role u = ADMIN" for u
  proof -
    have "user_from s u" using assms u(1) unfolding related_def by blast
    then show ?thesis using u(2) by (auto simp: user_from_def userCore_def)
  qed
  moreover have "\<exists>e\<in>set (drivers s). d_id e = d_id d \<and> d_role e = ADMIN"
    if d: "d \<in> set (drivers s')" "d_role d = ADMIN" for d
  proof -
    have "driver_from K s d" using assms d(1) unfolding related_def by blast
    then show ?thesis using d(2) by (auto simp: driver_from_def driverCore_def)
  qed
  ultimately show ?thesis by (rule admins_subI)
qed

lemma admins_sub: "set (users s') \<subseteq> set (users s) \<Longrightarrow> set (drivers s') \<subseteq> set (drivers s) \<Longrightarrow> admins s' \<subseteq> admins s"
  by (auto simp: admins_def)

lemma admins_wallet:
  assumes "own_wallet i s s'"
  shows "admins s' \<subseteq> admins s"
proof -
  have "\<exists>e\<in>set (drivers s). d_id e = d_id d \<and> d_role e = d_role d" if "d \<in> set (drivers s')" for d
  proof -
    from assms that consider "d \<in> set (drivers s)"
      | e where "e \<in> set (drivers s)" "d = e\<lparr>d_walletBalance := d_walletBalance d\<rparr>"
      unfolding own_wallet_def by blast
    then show ?thesis
    proof cases
      case (2 e)
      show ?thesis
        using 2(1) arg_cong [OF 2(2), of d_id] arg_cong [OF 2(2), of d_role] by auto
    qed blast
  qed
  moreover have "users s' = users s" using assms by (simp add: own_wallet_def)
  ultimately show ?thesis by (intro admins_subI) (auto, metis)
qed

lemma admins_paid:
  assumes "d \<in> set (drivers s)" "u \<in> set (users s)" "same_tables (settledState r d u n rows s) s'"
  shows "admins s' \<subseteq> admins s"
proof -
  have tabs: "drivers s' = drivers (saveDriver (paidDriver (driver_part n) d) s)"
    "users s' = users (saveUser (paidRider (rider_part n) u) s)"
    using assms(3) by (simp_all add: same_tables_def settledState_def paidState_def
        saveRide_def saveDriver_def saveUser_def)
  have "x = paidDriver (driver_part n) d \<or> x \<in> set (drivers s)" if "x \<in> set (drivers s')" for x
    using that driverRepo.in_rows_save unfolding tabs by blast
  moreover have "x = paidRider (rider_part n) u \<or> x \<in> set (users s)" if "x \<in> set (users s')" for x
    using that userRepo.in_rows_save unfolding tabs by blast
  ultimately show ?thesis
    using assms(1,2) by (fastforce simp: admins_def paidDriver_def paidRider_def)
qed

lemma act_makes_no_admin:
  assumes "api_act B req who s s'" and w: "wf_sys s"
  shows "admins s' \<subseteq> admins s"
  using assms(1)
proof cases
  case (complete p i rres)
  from complete(4) w show ?thesis
  proof (cases rule: completeRide_effect)
    case nothing
    then show ?thesis by (intro admins_sub) (simp_all add: same_tables_def)
  next
    case (paid r d u n rows)
    then show ?thesis using admins_paid wf_findDriver(1) [OF w] wf_findUser(1) [OF w] by blast
  qed
next
  case (channel r dto bres)
  from channel(2) show ?thesis
  proof (cases rule: parseAndBook_cases)
    case (booking t d x)
    then have "admins s' \<subseteq> admins t" using createRide_people by (intro admins_sub) auto
    then show ?thesis using admins_related [OF booking(1)] by blast
  qed (use admins_related in auto)
next
  case book
  then show ?thesis using createRide_people by (intro admins_sub) auto
next
  case accept
  then show ?thesis using ride_op_people(1) by (intro admins_sub) auto
next
  case arrive
  then show ?thesis using ride_op_people(2) by (intro admins_sub) auto
next
  case start
  then show ?thesis using ride_op_people(3) by (intro admins_sub) auto
next
  case riderCancel
  then show ?thesis using ride_op_people(4) by (intro admins_sub) auto
next
  case driverCancel
  then show ?thesis using ride_op_people(4) by (intro admins_sub) auto
next
  case dropVehicle
  then show ?thesis using remove_people(1) by (intro admins_sub) auto
next
  case dropDriver
  then show ?thesis using remove_people(2) by (intro admins_sub) auto
next
  case fuel
  then show ?thesis using admins_wallet own_wallet_requests(1) by blast
next
  case payout
  then show ?thesis using admins_wallet own_wallet_requests(2) by blast
qed (use admins_related in blast)+


lemma demo_admins: "admins (demo st) = {}"
  using admins_iff [of _ "demo st"] by (auto simp: demoUser_def demoDriver_def)


end
