(* ===== verification/Api.thy ===== *)
theory Api
  imports Authority
begin

text \<open>
  The invariant of the system under the API: from any start, whatever sequence of requests comes
  in, the books balance, the rides follow their life cycle and the fleet rules hold. Two kinds of
  requests are left out, each with a theorem that shows why: an amount that is not a whole number
  of kobo, and the removal of a driver whose rides still need one.
\<close>

section \<open>Links that are dropped\<close>

text \<open>A ride loses its vehicle, or (cancelled) its driver.\<close>

definition loosened :: "Ride \<Rightarrow> Ride \<Rightarrow> bool" where
  "loosened r r' \<longleftrightarrow> r' = r\<lparr>r_driverId := r_driverId r', r_vehicleId := r_vehicleId r'\<rparr> \<and>
     (r_vehicleId r' = r_vehicleId r \<or> r_vehicleId r' = None) \<and>
     (r_driverId r' = r_driverId r \<or> r_status r = CANCELLED)"

lemma loosened_columns:
  assumes "loosened r r'"
  shows "r_id r' = r_id r" "r_userId r' = r_userId r" "r_category r' = r_category r"
    "r_status r' = r_status r" "r_estimatedFare r' = r_estimatedFare r" "r_finalFare r' = r_finalFare r"
    "r_acceptedAt r' = r_acceptedAt r" "r_startedAt r' = r_startedAt r"
    "r_completedAt r' = r_completedAt r" "r_cancellationReason r' = r_cancellationReason r"
proof -
  have eq: "r' = r\<lparr>r_driverId := r_driverId r', r_vehicleId := r_vehicleId r'\<rparr>"
    using assms by (simp add: loosened_def)
  show "r_id r' = r_id r" "r_userId r' = r_userId r" "r_category r' = r_category r"
    "r_status r' = r_status r" "r_estimatedFare r' = r_estimatedFare r" "r_finalFare r' = r_finalFare r"
    "r_acceptedAt r' = r_acceptedAt r" "r_startedAt r' = r_startedAt r"
    "r_completedAt r' = r_completedAt r" "r_cancellationReason r' = r_cancellationReason r"
    by (subst eq, simp)+
qed

lemma ride_ok_loosened:
  assumes "loosened r r'" "ride_ok r"
  shows "ride_ok r'"
  using assms(2) loosened_columns [OF assms(1)] assms(1)
  by (cases "r_status r") (auto simp: ride_ok_def loosened_def)

lemma paid_ok_loosened:
  assumes "loosened r r'" "paid_ok r es"
  shows "paid_ok r' es"
proof -
  note c = loosened_columns [OF assms(1)]
  have "fareRows t r' d n rows = fareRows t r d n rows" for t d n rows
    by (simp add: fareRows_def fareRow_def c)
  moreover have "r_status r = COMPLETED \<Longrightarrow> r_driverId r' = r_driverId r"
    using assms(1) by (auto simp: loosened_def)
  ultimately show ?thesis using assms(2) c by (simp add: paid_ok_def split: if_splits)
qed

lemma active_loosened:
  assumes "\<And>r. r \<in> set rs \<Longrightarrow> loosened r (f r)"
  shows "map r_category (filter (\<lambda>r. r_driverId r = Some d \<and> activeStatus (r_status r)) (map f rs)) =
    map r_category (filter (\<lambda>r. r_driverId r = Some d \<and> activeStatus (r_status r)) rs)"
  using assms
proof (induction rs)
  case (Cons r rs)
  have l: "loosened r (f r)" using Cons.prems by simp
  have "activeStatus (r_status r) \<Longrightarrow> r_driverId (f r) = r_driverId r"
    using l by (auto simp: loosened_def activeStatus_def)
  then show ?case using Cons loosened_columns [OF l] by auto
qed simp

lemma life_inv_loosened:
  assumes "life_inv s" "rides s' = map f (rides s)" "\<And>r. r \<in> set (rides s) \<Longrightarrow> loosened r (f r)"
    and "set (users s') \<subseteq> set (users s)" "set (drivers s') \<subseteq> set (drivers s)"
    and "distinct (map u_id (users s'))" "distinct (map d_id (drivers s'))"
    and "ledger s' = ledger s" "nextId s' = nextId s"
  shows "life_inv s'"
proof -
  have inv: "wf_sys s" "books_balanced s" "\<forall>r\<in>set (rides s). ride_ok r"
    "\<forall>d. load_ok (activeCategories d s)" "\<forall>r\<in>set (rides s). paid_ok r (entriesOf (r_id r) s)"
    using assms(1) by (simp_all add: life_inv_def)
  have ids: "map r_id (rides s') = map r_id (rides s)"
    using assms(2,3) loosened_columns(1) by simp
  have "fareColumnsOk (f r) = fareColumnsOk r" "r_id (f r) = r_id r" if "r \<in> set (rides s)" for r
    using loosened_columns [OF assms(3) [OF that]] by (simp_all add: fareColumnsOk_def)
  moreover have "distinct (map r_id (rides s'))" unfolding ids using wf_distinct(1) [OF inv(1)] .
  ultimately have "wf_rides s'"
    using inv(1) assms(2,9) unfolding wf_sys_def wf_rides_def by auto
  moreover have "wf_people s'"
    using inv(1) assms(4-7,9) unfolding wf_sys_def wf_people_def by (simp add: subset_iff)
  moreover have "wf_ledger s'" using inv(1) assms(8,9) by (simp add: wf_sys_def wf_ledger_def)
  moreover have "books_balanced s'"
    using inv(2) assms(4,5) books_frame [OF assms(8)] unfolding books_balanced_def by auto
  moreover have "activeCategories d s' = activeCategories d s" for d
    using active_loosened [OF assms(3)] by (simp add: activeCategories_def activeRides_def assms(2))
  moreover have "entriesOf i s' = entriesOf i s" for i by (simp add: entriesOf_def assms(8))
  moreover have "ride_ok (f r) \<and> paid_ok (f r) (entriesOf (r_id (f r)) s)" if "r \<in> set (rides s)" for r
    using that ride_ok_loosened [OF assms(3)] paid_ok_loosened [OF assms(3)] inv(3,5)
      loosened_columns(1) [OF assms(3)] by simp
  ultimately show ?thesis using inv(4) by (simp add: life_inv_def wf_sys_def assms(2))
qed

lemma life_inv_dropVehicle:
  assumes "life_inv s" "removeVehicle i s = (res, s')"
  shows "life_inv s'"
proof (cases "findVehicle i s")
  case (Some v)
  let ?f = "\<lambda>r. r\<lparr>r_vehicleId := (if r_vehicleId r = Some i then None else r_vehicleId r)\<rparr>"
  have w: "wf_sys s" using assms(1) by (simp add: life_inv_def)
  have s': "s' = s\<lparr>sys.vehicles := tbl_delete (\<lambda>v. v_id v = i) (vehicles s), rides := map ?f (rides s)\<rparr>"
    using assms(2) Some by (simp add: removeVehicle_def)
  show ?thesis
    by (rule life_inv_loosened [OF assms(1), of s' ?f])
      (simp_all add: s' loosened_def wf_distinct [OF w])
qed (use assms in \<open>simp add: removeVehicle_def\<close>)

text \<open>Removing a driver is harmless to the rides when the rides that are not cancelled are not theirs.\<close>

lemma life_inv_dropDriver:
  assumes "life_inv s" "removeDriver i s = (res, s')"
    and "\<forall>r\<in>set (rides s). r_driverId r = Some i \<longrightarrow> r_status r = CANCELLED"
  shows "life_inv s'"
proof (cases "findDriver i s")
  case (Some d)
  have w: "wf_sys s" using assms(1) by (simp add: life_inv_def)
  have id: "d_id d = i" using driverRepo.findById_SomeD [OF Some] by simp
  let ?gone = "map v_id (filter (\<lambda>v. v_driverId v = i) (vehicles s))"
  let ?f = "\<lambda>r. r\<lparr>r_driverId := (if r_driverId r = Some i then None else r_driverId r),
      r_vehicleId := (case r_vehicleId r of Some v \<Rightarrow> if v \<in> set ?gone then None else Some v
        | None \<Rightarrow> None)\<rparr>"
  have s': "rides s' = map ?f (rides s)" "drivers s' = filter (\<lambda>d. d_id d \<noteq> i) (drivers s)"
    "users s' = users s" "ledger s' = ledger s" "nextId s' = nextId s"
    using assms(2) Some id
    by (simp_all add: removeDriver_def deleteDriverRow_def revokeAllForSubject_def updateTokens_def
        tbl_delete_def Let_def)
      (auto split: option.split)
  show ?thesis
  proof (rule life_inv_loosened [OF assms(1) s'(1)])
    fix r assume "r \<in> set (rides s)"
    then show "loosened r (?f r)" using assms(3) by (auto simp: loosened_def split: option.split)
  qed (simp_all add: s' wf_distinct [OF w] distinct_map_filter)
qed (use assms in \<open>simp add: removeDriver_def\<close>)

section \<open>The wallet keeps the rides' entries\<close>

lemma life_inv_money:
  assumes "life_inv s" "wf_sys s'" "books_balanced s'" "rides s' = rides s"
    and "\<And>i. entriesOf i s' = entriesOf i s"
  shows "life_inv s'"
  using assms by (simp add: life_inv_def activeCategories_def activeRides_def)

lemma entriesOf_moved:
  assumes "wf_sys s" "pendingRow s i k ty e"
  shows "entriesOf j (movedState d k e s) = entriesOf j s"
    "entriesOf j (settleEntry (nextId s) st r m (movedState d k e s)) = entriesOf j s"
    "entriesOf j (settleEntry (nextId s) st r m (saveDriver d (movedState d k e s))) = entriesOf j s"
proof -
  have old: "map (\<lambda>x. if le_id x = nextId s then settled st r m x else x) (ledger s) = ledger s"
    using assms(1) by (intro map_idI) (auto simp: wf_defs)
  have new: "le_rideId e = None" "le_rideId (settled st r m e) = None"
    using assms(2) by (simp_all add: pendingRow_def settled_def)
  show "entriesOf j (movedState d k e s) = entriesOf j s" by (simp add: entriesOf_def new)
  show "entriesOf j (settleEntry (nextId s) st r m (movedState d k e s)) = entriesOf j s"
    "entriesOf j (settleEntry (nextId s) st r m (saveDriver d (movedState d k e s))) = entriesOf j s"
    by (simp_all add: entriesOf_def settleEntry_ledger old new)
qed

lemma entriesOf_frame: "ledger s' = ledger s \<Longrightarrow> entriesOf i s' = entriesOf i s"
  by (simp add: entriesOf_def)

lemma fuel_entries:
  assumes "wf_sys s" "\<bar>k\<bar> \<le> 10 ^ 12" "fuelSupport cfg disburse i (num_of_dec k) ref s = (res, s')"
  shows "entriesOf j s' = entriesOf j s"
  using assms
proof (cases rule: fuelSupport_cases)
  case (reserved d e)
  then show ?thesis
    using entriesOf_moved [OF assms(1) reserved(4)] by (auto split: sum.splits if_splits)
qed simp

lemma payout_entries:
  assumes "wf_sys s" "0 \<le> k" "k \<le> 10 ^ 12" "payout cfg initiate i (num_of_dec k) bank ref s = (res, s')"
  shows "entriesOf j s' = entriesOf j s"
  using assms
proof (cases rule: payout_cases)
  case (reserved d e)
  then show ?thesis
    using entriesOf_moved [OF assms(1) reserved(4)] by (auto split: sum.splits if_splits)
qed simp

lemma locked_entries:
  assumes "\<And>t u r. wf_sys t \<Longrightarrow> m (nextId s) t = (r, u) \<Longrightarrow> entriesOf j u = entriesOf j t" "wf_sys s"
    and "(case redis_set_nx key v ttl s of
        (False, s') \<Rightarrow> (Inl e, s')
      | (True, s') \<Rightarrow> let (i, s'') = freshId s' in tryFinally (m i) (redis_del key) s'') = (res, s')"
  shows "entriesOf j s' = entriesOf j s"
proof (cases "live (now s) (redis s key)")
  case True
  then show ?thesis using assms(3) by (simp add: redis_set_nx_def)
next
  case False
  let ?t = "snd (freshId (redis_set_ex key v ttl s))"
  obtain r u where u: "m (nextId s) ?t = (r, u)" "s' = redis_del key u"
    using assms(3) False by (auto simp: redis_set_nx_def tryFinally_iff split_beta)
  have "wf_sys ?t" using assms(2) by simp
  then have "entriesOf j u = entriesOf j ?t" using assms(1) u(1) by blast
  then show ?thesis by (simp add: u(2) entriesOf_def)
qed

lemma wallet_entries:
  "wf_sys s \<Longrightarrow> \<bar>k\<bar> \<le> 10 ^ 12 \<Longrightarrow> requestFuelSupport cfg disburse i (num_of_dec k) s = (res, s') \<Longrightarrow>
   entriesOf j s' = entriesOf j s"
  "wf_sys s \<Longrightarrow> 0 \<le> k \<Longrightarrow> k \<le> 10 ^ 12 \<Longrightarrow>
   requestPayout cfg initiate i (num_of_dec k) bank s = (res, s') \<Longrightarrow> entriesOf j s' = entriesOf j s"
  unfolding requestFuelSupport_def requestPayout_def
  by (rule locked_entries, erule (2) fuel_entries, assumption+)
    (rule locked_entries, erule (3) payout_entries, assumption+)

section \<open>Every request\<close>

text \<open>An amount of whole kobo, of at most ten billion naira.\<close>

definition whole_kobo :: "num \<Rightarrow> bool" where
  "whole_kobo x \<longleftrightarrow> (\<exists>k. 0 \<le> k \<and> k \<le> 10 ^ 12 \<and> x = num_of_dec k)"

fun orderly :: "request \<Rightarrow> sys \<Rightarrow> bool" where
  "orderly (WalletApi (WalletFuel x)) s = whole_kobo x"
| "orderly (WalletApi (WalletPayout x bank)) s = whole_kobo x"
| "orderly (DriversApi (DriversRemove i)) s =
     (\<forall>r\<in>set (rides s). r_driverId r = Some i \<longrightarrow> r_status r = CANCELLED)"
| "orderly req s = True"

lemma act_keeps_life:
  assumes "api_act B req who s s'" "life_inv s" "orderly req s"
  shows "life_inv s'"
proof -
  have w: "wf_sys s" and b: "books_balanced s" using assms(2) by (simp_all add: life_inv_def)
  note step = ride_step_life_inv [OF _ assms(2)]
  from assms(1) show ?thesis
  proof cases
    case accounts
    then show ?thesis using life_inv_related assms(2) by blast
  next
    case decision
    then show ?thesis using life_inv_related assms(2) by blast
  next
    case book
    then show ?thesis using step ride_step.create by blast
  next
    case accept
    then show ?thesis using step ride_step.accept by blast
  next
    case arrive
    then show ?thesis using step ride_step.arrive by blast
  next
    case start
    then show ?thesis using step ride_step.start by blast
  next
    case complete
    then show ?thesis using step ride_step.complete by blast
  next
    case riderCancel
    then show ?thesis using step ride_step.cancel by blast
  next
    case driverCancel
    then show ?thesis using step ride_step.cancel by blast
  next
    case (fuel p x wres)
    then obtain k where k: "0 \<le> k" "k \<le> 10 ^ 12" "x = num_of_dec k"
      using assms(3) by (auto simp: whole_kobo_def)
    have run: "requestFuelSupport (be_wallet B) (be_fuel B) (p_id p) (num_of_dec k) s = (wres, s')"
      using fuel(4) k(3) by simp
    have ab: "\<bar>k\<bar> \<le> 10 ^ 12" using k by simp
    have "rides s' = rides s" using own_wallet_requests(1) [OF run] by (simp add: own_wallet_def)
    then show ?thesis
      using life_inv_money [OF assms(2)] fuelRequest_keeps [OF w b ab run] wallet_entries(1) [OF w ab run]
      by blast
  next
    case (payout p x bank wres)
    then obtain k where k: "0 \<le> k" "k \<le> 10 ^ 12" "x = num_of_dec k"
      using assms(3) by (auto simp: whole_kobo_def)
    have run: "requestPayout (be_wallet B) (be_payout B) (p_id p) (num_of_dec k) bank s = (wres, s')"
      using payout(4) k(3) by simp
    have "rides s' = rides s" using own_wallet_requests(2) [OF run] by (simp add: own_wallet_def)
    then show ?thesis
      using life_inv_money [OF assms(2)] payoutRequest_keeps [OF w b k(1,2) run]
        wallet_entries(2) [OF w k(1,2) run]
      by blast
  next
    case (channel r dto bres)
    from channel(2) show ?thesis
    proof (cases rule: parseAndBook_cases)
      case (booking t d x)
      then have "life_inv t" using life_inv_related assms(2) by blast
      then show ?thesis using ride_step_life_inv ride_step.create booking(2) by blast
    qed (use life_inv_related assms(2) in auto)
  next
    case dropVehicle
    then show ?thesis using life_inv_dropVehicle [OF assms(2)] by blast
  next
    case (dropDriver p i ures)
    then show ?thesis using life_inv_dropDriver [OF assms(2)] assms(3) by simp
  qed
qed

text \<open>A run of the backend: requests in any order from anybody, and time passing.\<close>

inductive api_run :: "backendEnv \<Rightarrow> sys \<Rightarrow> sys \<Rightarrow> bool" for B s where
  init: "api_run B s s"
| request: "api_run B s t \<Longrightarrow> orderly req t \<Longrightarrow> serve B hdr req t = (res, u) \<Longrightarrow> api_run B s u"
| wait: "api_run B s t \<Longrightarrow> 0 \<le> ms \<Longrightarrow> api_run B s (tick ms t)"

lemma api_run_life: "api_run B s t \<Longrightarrow> life_inv s \<Longrightarrow> life_inv t"
proof (induction rule: api_run.induct)
  case (request t req hdr res u)
  then show ?case using act_keeps_life serve_acts by blast
next
  case (wait t ms)
  then show ?case using ride_step_life_inv ride_step.wait by blast
qed



end
