(* ===== verification/EndpointRules.thy ===== *)
theory EndpointRules
  imports BackendRules
begin

text \<open>
  What the reading routes of the controllers show and to whom, and a figure of the ledger statement
  that is not what it is called.
\<close>

section \<open>Who reads what\<close>

lemma checked_Inr: "checked c k s = (Inr x, s') \<longleftrightarrow> c s = Inr () \<and> k s = (Inr x, s')"
  by (auto simp: checked_def split: sum.splits)

lemma map_sum_Inr_iff: "map_sum f g z = Inr x \<longleftrightarrow> (\<exists>y. z = Inr y \<and> x = g y)"
  by (cases z) auto

lemma listed_Inr: "listed msg m s = (Inr x, s') \<Longrightarrow> \<exists>y. m s = (Inr y, s') \<and> en_data x = y"
  by (auto simp: listed_def mapOut_def enveloped_def map_sum_Inr_iff split: prod.splits)

lemma reading_Inr: "reads f s = (Inr x, s') \<longleftrightarrow> f s = Inr x \<and> s' = s"
  by (auto simp: reads_def)

lemma route_Inr:
  assumes "route (be_verify B) roles hdr k s = (Inr x, s')"
  obtains p where "caller B hdr s = Some p" "p_role p \<in> set roles" "k p s = (Inr x, s')"
  using assms by (cases rule: route_cases) auto

lemma owns: "assertOwnership (Some p) (Some i) action = Inr () \<Longrightarrow> p_role p = ADMIN \<or> p_id p = i"
  by (auto simp: assertOwnership_def canActOnBehalfOf_def isAdmin_def split: if_splits)

definition party :: "Principal \<Rightarrow> Ride \<Rightarrow> bool" where
  "party p r \<longleftrightarrow> p_role p = ADMIN \<or> r_userId r = p_id p \<or> r_driverId r = Some (p_id p)"

lemma is_party: "assertPartyToRide (Some p) (Some (Some (r_userId r), r_driverId r)) action = Inr () \<Longrightarrow> party p r"
  by (auto simp: assertPartyToRide_def isPartyToRide_def isAdmin_def party_def split: if_splits)

lemma getRide_party:
  assumes "rides_getRide (be_verify B) i hdr s = (Inr r, s')"
  shows "findRide i s = Some r \<and> (\<exists>p. caller B hdr s = Some p \<and> party p r)"
  using assms unfolding rides_getRide_def
  by (auto simp: andThen_Inr_iff reading_Inr checked_Inr returns_iff findOne_def rideParties_def
      split: option.splits elim!: route_Inr dest!: is_party)

lemma breakdown_party:
  assumes "rides_getFareBreakdown (be_verify B) i hdr s = (Inr x, s')"
  shows "\<exists>r p. findRide i s = Some r \<and> caller B hdr s = Some p \<and> party p r"
  using assms unfolding rides_getFareBreakdown_def
  by (auto simp: reading_Inr getFareBreakdown_def findOne_def party_def Let_def
      split: option.splits if_splits elim!: route_Inr)

lemma ratings_party:
  assumes "ratings_findByRide (be_verify B) i hdr s = (Inr x, s')"
  shows "\<exists>r p. findRide i s = Some r \<and> caller B hdr s = Some p \<and> party p r"
  using assms unfolding ratings_findByRide_def
  by (auto simp: findRideForAuthorization_def checked_Inr split: option.splits elim!: route_Inr
      dest!: is_party)

lemma incidents_party:
  assumes "emergency_findByRide (be_verify B) i hdr s = (Inr x, s')"
  shows "\<exists>r p. findRide i s = Some r \<and> caller B hdr s = Some p \<and> party p r"
  using assms unfolding emergency_findByRide_def
  by (fastforce simp: reading_Inr incidentsOfRide_def incidentRideParties_def
      split: option.splits sum.splits elim!: route_Inr dest!: is_party listed_Inr)

lemma owner_only:
  assumes "route (be_verify B) roles hdr (\<lambda>p. checked (\<lambda>_. assertOwnership (Some p) (Some i) action) (k p)) s = (Inr x, s')"
  shows "\<exists>p. caller B hdr s = Some p \<and> (p_role p = ADMIN \<or> p_id p = i)"
  using assms by (auto simp: checked_Inr elim!: route_Inr dest: owns)

lemma own_reads:
  "rides_getUserRides (be_verify B) i hdr s = (Inr us, s') \<Longrightarrow>
   \<exists>p. caller B hdr s = Some p \<and> (p_role p = ADMIN \<or> p_id p = i)"
  "rides_getDriverRides (be_verify B) i hdr s = (Inr ds, s') \<Longrightarrow>
   \<exists>p. caller B hdr s = Some p \<and> (p_role p = ADMIN \<or> p_id p = i)"
  "drivers_findOne (be_verify B) i hdr s = (Inr d, s') \<Longrightarrow>
   \<exists>p. caller B hdr s = Some p \<and> (p_role p = ADMIN \<or> p_id p = i)"
  "ledger_getDriverStatement (be_verify B) i limit offset hdr s = (Inr st, s') \<Longrightarrow>
   \<exists>p. caller B hdr s = Some p \<and> (p_role p = ADMIN \<or> p_id p = i)"
  unfolding rides_getUserRides_def rides_getDriverRides_def drivers_findOne_def
     apply (erule owner_only)+
  by (auto simp: ledger_getDriverStatement_def checked_Inr split: if_splits elim!: route_Inr)



section \<open>The statement\<close>

text \<open>The figure the controller calls the running balance of a statement is the number of its rows,
  whatever they amount to: a driver with one entry of 800 naira reads a balance of 1.\<close>

theorem statement_balance_is_a_count:
  "sm_balance (en_data (statementOf named st i limit offset s)) =
     length (filter (\<lambda>e. le_stakeholderType e = st \<and> le_stakeholderId e = Some i) (ledger s)) \<and>
   (\<exists>s'. sm_balance (en_data (statementOf named S_DRIVER 2 limit offset s')) = 1 \<and> driverBooks 2 s' = 80000)"
proof -
  have "sm_balance (en_data (statementOf named st i limit offset s)) =
      length (filter (\<lambda>e. le_stakeholderType e = st \<and> le_stakeholderId e = Some i) (ledger s))"
    for st i s
    by (simp add: statementOf_def findByStakeholder_def enveloped_def Let_def)
  note count = this
  let ?e = "\<lparr>le_id = 9, le_rideId = Some 4, le_type = RIDE_FARE_DRIVER, le_stakeholderType = S_DRIVER,
    le_stakeholderId = Some 2, le_amount = 80000, le_currency = ''NGN'', le_status = L_COMPLETED,
    le_providerReference = None, le_metadata = None, le_createdAt = 0\<rparr>"
  let ?s = "(demo COMPLETED)\<lparr>ledger := [?e]\<rparr>"
  have "sm_balance (en_data (statementOf named S_DRIVER 2 limit offset ?s)) = 1 \<and> driverBooks 2 ?s = 80000"
    by (simp add: count driverBooks_def sumAmount_def settledOrPending_def)
  then show ?thesis using count by blast
qed

end
