(* ===== verification/Schema.thy ===== *)
theory Schema
  imports Prelude "HOL-Library.AList"
begin

text \<open>
  A model of the part of PostgreSQL the migrations of \<open>src/migrations\<close> use: the catalog (extensions,
  enum types, tables with their columns and constraints, indexes) with the rows, and the statements
  as data. \<open>exec\<close> runs one statement and gives the new database or the error Postgres raises.
  Numbers, timestamps (milliseconds) and uuids (their 128 bits) are integers, \<open>None\<close> is \<open>NULL\<close>.
\<close>

datatype sqlType =
    SqlUuid | SqlText | SqlVarchar "nat option" | SqlNumeric nat nat | SqlInteger | SqlBoolean
  | SqlTimestamp | SqlDate | SqlJsonb | SqlEnum string

datatype sqlValue = VInt int | VText string | VBool bool

text \<open>A default is a literal or a call of a function (\<open>now()\<close>, \<open>uuid_generate_v4()\<close>).\<close>

datatype sqlDefault = Literal sqlValue | Volatile string

record columnDef =
  co_type :: sqlType
  co_notNull :: bool
  co_default :: "sqlDefault option"

datatype onDelete = NoAction | CascadeRows | SetNull

datatype tableConstraint =
    PrimaryKey "string list"
  | UniqueKey "string list"
  | ForeignKey "string list" string "string list" onDelete

type_synonym sqlRow = "string \<Rightarrow> sqlValue option"

record tableDef =
  tb_columns :: "(string \<times> columnDef) list"
  tb_constraints :: "(string \<times> tableConstraint) list"
  tb_rows :: "sqlRow list"

text \<open>An index; a partial one has the column of its \<open>WHERE (... IS NOT NULL)\<close>.\<close>

record indexDef =
  ix_table :: string
  ix_unique :: bool
  ix_columns :: "string list"
  ix_notNull :: "string option"

record database =
  db_extensions :: "string list"
  db_enums :: "(string \<times> string list) list"
  db_tables :: "(string \<times> tableDef) list"
  db_indexes :: "(string \<times> indexDef) list"

definition emptyDb :: database where
  "emptyDb = \<lparr>db_extensions = [], db_enums = [], db_tables = [], db_indexes = []\<rparr>"

datatype sqlError =
    UndefinedTable | UndefinedColumn | UndefinedObject | UndefinedFunction | DuplicateTable
  | DuplicateObject | UniqueViolation | ForeignKeyViolation | NotNullViolation | InvalidForeignKey
  | InvalidTableDefinition | DependentObjects | WrongObjectType | RaisedException

text \<open>
  The statements. \<open>CreateEnum\<close> is \<open>CREATE TYPE\<close> in a block that swallows \<open>duplicate_object\<close>,
  \<open>DeleteDuplicates\<close> the self-join \<open>DELETE ... USING\<close>, \<open>AddConstraint\<close> the block that adds a
  constraint when the catalog has none of that shape, \<open>AddEnumValue\<close> the block that looks the enum
  behind a column up; the others are guarded by \<open>IF [NOT] EXISTS\<close> where the guard exists in SQL.
\<close>

datatype statement =
    CreateExtension string
  | CreateEnum string "string list"
  | CreateTable string "(string \<times> columnDef) list" "(string \<times> tableConstraint) list"
  | AddColumn string string sqlType bool "sqlValue option"
  | DropNotNull string string
  | DeleteDuplicates string "string list" "string option"
  | AddConstraint string string tableConstraint
  | CreateIndex string indexDef
  | AddEnumValue string string string
  | DropTable string bool
  | DropColumn string string
  | DropIndex string
  | DropType string

section \<open>The catalog\<close>

definition tableNamed :: "string \<Rightarrow> database \<Rightarrow> tableDef option" where
  "tableNamed t db = map_of (db_tables db) t"

definition setTable :: "string \<Rightarrow> tableDef \<Rightarrow> database \<Rightarrow> database" where
  "setTable t tb db = db\<lparr>db_tables := AList.update t tb (db_tables db)\<rparr>"

fun indexedNames :: "(string \<times> tableConstraint) list \<Rightarrow> string list" where
  "indexedNames [] = []"
| "indexedNames ((n, ForeignKey _ _ _ _) # cs) = indexedNames cs"
| "indexedNames ((n, PrimaryKey _) # cs) = n # indexedNames cs"
| "indexedNames ((n, UniqueKey _) # cs) = n # indexedNames cs"

text \<open>Tables, indexes and the indexes of keys share one name space, enums and tables another.\<close>

definition relationNames :: "database \<Rightarrow> string list" where
  "relationNames db = map fst (db_tables db) @ map fst (db_indexes db) @
     concat (map (\<lambda>(_, tb). indexedNames (tb_constraints tb)) (db_tables db))"

definition typeNames :: "database \<Rightarrow> string list" where
  "typeNames db = map fst (db_enums db) @ map fst (db_tables db)"

definition hasColumn :: "tableDef \<Rightarrow> string \<Rightarrow> bool" where
  "hasColumn tb c \<longleftrightarrow> map_of (tb_columns tb) c \<noteq> None"

definition primaryColumns :: "tableDef \<Rightarrow> string list" where
  "primaryColumns tb =
     concat (map (\<lambda>(_, k). case k of PrimaryKey cols \<Rightarrow> cols | _ \<Rightarrow> []) (tb_constraints tb))"

fun knownType :: "database \<Rightarrow> sqlType \<Rightarrow> bool" where
  "knownType db (SqlEnum n) \<longleftrightarrow> n \<in> set (map fst (db_enums db))"
| "knownType db _ \<longleftrightarrow> True"

fun knownDefault :: "database \<Rightarrow> sqlDefault option \<Rightarrow> bool" where
  "knownDefault db (Some (Volatile f)) \<longleftrightarrow>
     f = ''uuid_generate_v4'' \<longrightarrow> ''uuid-ossp'' \<in> set (db_extensions db)"
| "knownDefault db _ \<longleftrightarrow> True"

section \<open>Rows\<close>

text \<open>Comparison in SQL: with \<open>NULL\<close> neither equality nor an order holds.\<close>

definition sqlEqual :: "sqlValue option \<Rightarrow> sqlValue option \<Rightarrow> bool" where
  "sqlEqual x y \<longleftrightarrow> x \<noteq> None \<and> x = y"

definition sqlGreater :: "sqlValue option \<Rightarrow> sqlValue option \<Rightarrow> bool" where
  "sqlGreater x y \<longleftrightarrow> (case (x, y) of (Some (VInt a), Some (VInt b)) \<Rightarrow> b < a | _ \<Rightarrow> False)"

definition sameKey :: "string list \<Rightarrow> sqlRow \<Rightarrow> sqlRow \<Rightarrow> bool" where
  "sameKey cols a b \<longleftrightarrow> list_all (\<lambda>c. sqlEqual (a c) (b c)) cols"

text \<open>No two different rows agree on the columns; a \<open>NULL\<close> differs from everything.\<close>

fun keyHolds :: "string list \<Rightarrow> sqlRow list \<Rightarrow> bool" where
  "keyHolds cols [] \<longleftrightarrow> True"
| "keyHolds cols (r # rs) \<longleftrightarrow> \<not> list_ex (sameKey cols r) rs \<and> keyHolds cols rs"

definition indexRows :: "indexDef \<Rightarrow> sqlRow list \<Rightarrow> sqlRow list" where
  "indexRows ix rs = (case ix_notNull ix of None \<Rightarrow> rs | Some c \<Rightarrow> filter (\<lambda>r. r c \<noteq> None) rs)"

text \<open>\<open>a."createdAt" > b."createdAt" OR (a."createdAt" = b."createdAt" AND a."id" > b."id")\<close>\<close>

definition laterThan :: "sqlRow \<Rightarrow> sqlRow \<Rightarrow> bool" where
  "laterThan a b \<longleftrightarrow> sqlGreater (a ''createdAt'') (b ''createdAt'') \<or>
     sqlEqual (a ''createdAt'') (b ''createdAt'') \<and> sqlGreater (a ''id'') (b ''id'')"

definition duplicateIn :: "string list \<Rightarrow> string option \<Rightarrow> sqlRow list \<Rightarrow> sqlRow \<Rightarrow> bool" where
  "duplicateIn cols notNull rs a \<longleftrightarrow>
     (case notNull of None \<Rightarrow> True | Some c \<Rightarrow> a c \<noteq> None) \<and>
     list_ex (\<lambda>b. sameKey cols a b \<and> laterThan a b) rs"

definition withoutDuplicates :: "string list \<Rightarrow> string option \<Rightarrow> sqlRow list \<Rightarrow> sqlRow list" where
  "withoutDuplicates cols notNull rs = filter (\<lambda>a. \<not> duplicateIn cols notNull rs a) rs"

section \<open>Statements\<close>

definition withTable :: "string \<Rightarrow> database \<Rightarrow> (tableDef \<Rightarrow> sqlError + database) \<Rightarrow> sqlError + database" where
  "withTable t db f = (case tableNamed t db of None \<Rightarrow> Inl UndefinedTable | Some tb \<Rightarrow> f tb)"

text \<open>Some table other than \<open>t\<close> refers to \<open>t\<close>, through the given columns of it if any are given.\<close>

definition referredTo :: "string \<Rightarrow> string option \<Rightarrow> database \<Rightarrow> bool" where
  "referredTo t column db \<longleftrightarrow>
     list_ex (\<lambda>(u, tb). u \<noteq> t \<and> list_ex (\<lambda>(_, k). case k of
        ForeignKey _ target cols _ \<Rightarrow> target = t \<and> (case column of None \<Rightarrow> True | Some c \<Rightarrow> c \<in> set cols)
      | _ \<Rightarrow> False) (tb_constraints tb)) (db_tables db)"

text \<open>\<open>ALTER TABLE ... ADD CONSTRAINT\<close>\<close>

definition parentKey :: "tableDef \<Rightarrow> string list \<Rightarrow> bool" where
  "parentKey tb cols \<longleftrightarrow>
     list_ex (\<lambda>(_, k). k = PrimaryKey cols \<or> k = UniqueKey cols) (tb_constraints tb)"

definition childrenHaveParents ::
  "string list \<Rightarrow> sqlRow list \<Rightarrow> string list \<Rightarrow> sqlRow list \<Rightarrow> bool" where
  "childrenHaveParents cols rs target_cols targets \<longleftrightarrow>
     list_all (\<lambda>r. list_ex (\<lambda>c. r c = None) cols \<or>
       list_ex (\<lambda>q. map r cols = map q target_cols) targets) rs"

definition markNotNull :: "string list \<Rightarrow> tableDef \<Rightarrow> tableDef" where
  "markNotNull cols tb = tb\<lparr>tb_columns :=
     map (\<lambda>(c, d). (c, if c \<in> set cols then d\<lparr>co_notNull := True\<rparr> else d)) (tb_columns tb)\<rparr>"

definition constraintColumns :: "tableConstraint \<Rightarrow> string list" where
  "constraintColumns k = (case k of PrimaryKey cols \<Rightarrow> cols | UniqueKey cols \<Rightarrow> cols | ForeignKey cols _ _ _ \<Rightarrow> cols)"

definition appendConstraint :: "string \<Rightarrow> tableConstraint \<Rightarrow> tableDef \<Rightarrow> tableDef" where
  "appendConstraint n k tb = tb\<lparr>tb_constraints := tb_constraints tb @ [(n, k)]\<rparr>"

definition addConstraint ::
  "string \<Rightarrow> string \<Rightarrow> tableConstraint \<Rightarrow> database \<Rightarrow> sqlError + database" where
  "addConstraint t n k db = withTable t db (\<lambda>tb.
     if \<not> list_all (hasColumn tb) (constraintColumns k) then Inl UndefinedColumn
     else if n \<in> set (map fst (tb_constraints tb)) then Inl DuplicateObject
     else case k of
       PrimaryKey cols \<Rightarrow>
         if list_ex (\<lambda>(_, k'). case k' of PrimaryKey _ \<Rightarrow> True | _ \<Rightarrow> False) (tb_constraints tb)
         then Inl InvalidTableDefinition
         else if n \<in> set (relationNames db) then Inl DuplicateTable
         else if list_ex (\<lambda>r. list_ex (\<lambda>c. r c = None) cols) (tb_rows tb) then Inl NotNullViolation
         else if \<not> keyHolds cols (tb_rows tb) then Inl UniqueViolation
         else Inr (setTable t (appendConstraint n k (markNotNull cols tb)) db)
     | UniqueKey cols \<Rightarrow>
         if n \<in> set (relationNames db) then Inl DuplicateTable
         else if \<not> keyHolds cols (tb_rows tb) then Inl UniqueViolation
         else Inr (setTable t (appendConstraint n k tb) db)
     | ForeignKey cols target target_cols _ \<Rightarrow>
         withTable target db (\<lambda>parent.
           if \<not> parentKey parent target_cols then Inl InvalidForeignKey
           else if \<not> childrenHaveParents cols (tb_rows tb) target_cols (tb_rows parent)
           then Inl ForeignKeyViolation
           else Inr (setTable t (appendConstraint n k tb) db)))"

fun addConstraints ::
  "string \<Rightarrow> (string \<times> tableConstraint) list \<Rightarrow> database \<Rightarrow> sqlError + database" where
  "addConstraints t [] db = Inr db"
| "addConstraints t ((n, k) # ks) db =
     (case addConstraint t n k db of Inl e \<Rightarrow> Inl e | Inr db' \<Rightarrow> addConstraints t ks db')"

text \<open>The test a guarded \<open>ADD CONSTRAINT\<close> makes in \<open>pg_constraint\<close>: any primary key, a unique
  key of exactly these columns, a foreign key from exactly these columns.\<close>

fun sameShape :: "tableConstraint \<Rightarrow> tableConstraint \<Rightarrow> bool" where
  "sameShape (PrimaryKey _) (PrimaryKey _) \<longleftrightarrow> True"
| "sameShape (UniqueKey a) (UniqueKey b) \<longleftrightarrow> a = b"
| "sameShape (ForeignKey a _ _ _) (ForeignKey b _ _ _) \<longleftrightarrow> a = b"
| "sameShape _ _ \<longleftrightarrow> False"

definition hasShape :: "tableConstraint \<Rightarrow> tableDef \<Rightarrow> bool" where
  "hasShape k tb \<longleftrightarrow> list_ex (\<lambda>(_, k'). sameShape k k') (tb_constraints tb)"

definition newColumn :: "sqlType \<Rightarrow> bool \<Rightarrow> sqlValue option \<Rightarrow> columnDef" where
  "newColumn ty notNull v = \<lparr>co_type = ty, co_notNull = notNull, co_default = map_option Literal v\<rparr>"

text \<open>\<open>ADD COLUMN\<close> on a table without the column.\<close>

definition extended :: "string \<Rightarrow> sqlType \<Rightarrow> bool \<Rightarrow> sqlValue option \<Rightarrow> tableDef \<Rightarrow> tableDef" where
  "extended c ty notNull v tb =
     tb\<lparr>tb_columns := tb_columns tb @ [(c, newColumn ty notNull v)],
        tb_rows := map (\<lambda>r. r(c := v)) (tb_rows tb)\<rparr>"

definition nullable :: "string \<Rightarrow> tableDef \<Rightarrow> tableDef" where
  "nullable c tb =
     (case map_of (tb_columns tb) c of
        None \<Rightarrow> tb
      | Some d \<Rightarrow> tb\<lparr>tb_columns := AList.update c (d\<lparr>co_notNull := False\<rparr>) (tb_columns tb)\<rparr>)"

definition withLabel :: "string \<Rightarrow> string \<Rightarrow> database \<Rightarrow> database" where
  "withLabel n label db = db\<lparr>db_enums := map (\<lambda>(m, labels).
     (m, if m = n \<and> label \<notin> set labels then labels @ [label] else labels)) (db_enums db)\<rparr>"

definition addIndex :: "string \<Rightarrow> indexDef \<Rightarrow> database \<Rightarrow> database" where
  "addIndex n ix db = db\<lparr>db_indexes := db_indexes db @ [(n, ix)]\<rparr>"

text \<open>Dropping a table takes its indexes along and, with \<open>CASCADE\<close>, the foreign keys to it.\<close>

definition refersTo :: "string \<Rightarrow> tableConstraint \<Rightarrow> bool" where
  "refersTo t k = (case k of ForeignKey _ target _ _ \<Rightarrow> target = t | _ \<Rightarrow> False)"

definition withoutTable :: "string \<Rightarrow> database \<Rightarrow> database" where
  "withoutTable t db = db\<lparr>
     db_tables := map (\<lambda>(u, tb). (u, tb\<lparr>tb_constraints := filter (\<lambda>(_, k). \<not> refersTo t k) (tb_constraints tb)\<rparr>))
       (AList.delete t (db_tables db)),
     db_indexes := filter (\<lambda>(_, ix). ix_table ix \<noteq> t) (db_indexes db)\<rparr>"

definition withoutColumn :: "string \<Rightarrow> tableDef \<Rightarrow> tableDef" where
  "withoutColumn c tb = tb\<lparr>tb_columns := AList.delete c (tb_columns tb),
     tb_constraints := filter (\<lambda>(_, k). c \<notin> set (constraintColumns k)) (tb_constraints tb),
     tb_rows := map (\<lambda>r. r(c := None)) (tb_rows tb)\<rparr>"

definition typeInUse :: "string \<Rightarrow> database \<Rightarrow> bool" where
  "typeInUse n db \<longleftrightarrow>
     list_ex (\<lambda>(_, tb). list_ex (\<lambda>(_, d). co_type d = SqlEnum n) (tb_columns tb)) (db_tables db)"

fun exec :: "statement \<Rightarrow> database \<Rightarrow> sqlError + database" where
  "exec (CreateExtension e) db =
     Inr (if e \<in> set (db_extensions db) then db else db\<lparr>db_extensions := db_extensions db @ [e]\<rparr>)"
| "exec (CreateEnum n labels) db =
     Inr (if n \<in> set (typeNames db) then db else db\<lparr>db_enums := db_enums db @ [(n, labels)]\<rparr>)"
| "exec (CreateTable t cols ks) db =
     (if t \<in> set (relationNames db) then Inr db
      else if t \<in> set (typeNames db) then Inl DuplicateObject
      else if \<not> list_all (\<lambda>(_, d). knownType db (co_type d)) cols then Inl UndefinedObject
      else if \<not> list_all (\<lambda>(_, d). knownDefault db (co_default d)) cols then Inl UndefinedFunction
      else addConstraints t ks
        (setTable t \<lparr>tb_columns = cols, tb_constraints = [], tb_rows = []\<rparr> db))"
| "exec (AddColumn t c ty notNull v) db = withTable t db (\<lambda>tb.
     if hasColumn tb c then Inr db
     else if \<not> knownType db ty then Inl UndefinedObject
     else if notNull \<and> v = None \<and> tb_rows tb \<noteq> [] then Inl NotNullViolation
     else Inr (setTable t (extended c ty notNull v tb) db))"
| "exec (DropNotNull t c) db = withTable t db (\<lambda>tb.
     if \<not> hasColumn tb c then Inl UndefinedColumn
     else if c \<in> set (primaryColumns tb) then Inl InvalidTableDefinition
     else Inr (setTable t (nullable c tb) db))"
| "exec (DeleteDuplicates t cols notNull) db = withTable t db (\<lambda>tb.
     if \<not> list_all (hasColumn tb) (cols @ [''createdAt'', ''id'']) then Inl UndefinedColumn
     else Inr (setTable t (tb\<lparr>tb_rows := withoutDuplicates cols notNull (tb_rows tb)\<rparr>) db))"
| "exec (AddConstraint t n k) db = withTable t db (\<lambda>tb.
     if hasShape k tb then Inr db else addConstraint t n k db)"
| "exec (CreateIndex n ix) db = withTable (ix_table ix) db (\<lambda>tb.
     if n \<in> set (relationNames db) then Inr db
     else if \<not> list_all (hasColumn tb) (ix_columns ix) then Inl UndefinedColumn
     else if ix_unique ix \<and> \<not> keyHolds (ix_columns ix) (indexRows ix (tb_rows tb)) then Inl UniqueViolation
     else Inr (addIndex n ix db))"
| "exec (AddEnumValue t c label) db =
     (case Option.bind (tableNamed t db) (\<lambda>tb. map_of (tb_columns tb) c) of
        None \<Rightarrow> Inl RaisedException
      | Some d \<Rightarrow>
          (case co_type d of
             SqlEnum n \<Rightarrow>
               if n \<in> set (map fst (db_enums db)) then Inr (withLabel n label db) else Inl UndefinedObject
           | _ \<Rightarrow> Inl WrongObjectType))"
| "exec (DropTable t cascade) db =
     (if tableNamed t db = None then Inr db
      else if \<not> cascade \<and> referredTo t None db then Inl DependentObjects
      else Inr (withoutTable t db))"
| "exec (DropColumn t c) db = withTable t db (\<lambda>tb.
     if \<not> hasColumn tb c then Inr db
     else if referredTo t (Some c) db then Inl DependentObjects
     else Inr ((setTable t (withoutColumn c tb) db)\<lparr>db_indexes :=
       filter (\<lambda>(_, ix). \<not> (ix_table ix = t \<and> (c \<in> set (ix_columns ix) \<or> ix_notNull ix = Some c)))
         (db_indexes db)\<rparr>))"
| "exec (DropIndex n) db =
     (if n \<in> set (map fst (db_indexes db)) then Inr (db\<lparr>db_indexes := AList.delete n (db_indexes db)\<rparr>)
      else if tableNamed n db \<noteq> None then Inl WrongObjectType
      else if n \<in> set (relationNames db) then Inl DependentObjects
      else Inr db)"
| "exec (DropType n) db =
     (if n \<notin> set (map fst (db_enums db)) then
        (if tableNamed n db \<noteq> None then Inl DependentObjects else Inr db)
      else if typeInUse n db then Inl DependentObjects
      else Inr (db\<lparr>db_enums := AList.delete n (db_enums db)\<rparr>))"

text \<open>A migration: its statements in order, until one fails.\<close>

fun run :: "statement list \<Rightarrow> database \<Rightarrow> sqlError + database" where
  "run [] db = Inr db"
| "run (st # sts) db = (case exec st db of Inl e \<Rightarrow> Inl e | Inr db' \<Rightarrow> run sts db')"

lemma run_append: "run (a @ b) db = (case run a db of Inl e \<Rightarrow> Inl e | Inr db' \<Rightarrow> run b db')"
  by (induction a arbitrary: db) (simp_all split: sum.split)

lemma run_append_Inr: "run (a @ b) db = Inr db' \<longleftrightarrow> (\<exists>mid. run a db = Inr mid \<and> run b mid = Inr db')"
  by (simp add: run_append split: sum.split)

end
