(* ===== verification/Migrations.thy ===== *)
theory Migrations
  imports Schema
begin

text \<open>
  The migrations of \<open>src/migrations\<close> in the order of their timestamps: the statements of each \<open>up\<close>
  and \<open>down\<close>, in the order they are queried.
\<close>

definition defaulted :: "string \<Rightarrow> sqlType \<Rightarrow> sqlDefault \<Rightarrow> string \<times> columnDef" where
  "defaulted c ty d = (c, \<lparr>co_type = ty, co_notNull = True, co_default = Some d\<rparr>)"

definition required :: "string \<Rightarrow> sqlType \<Rightarrow> string \<times> columnDef" where
  "required c ty = (c, \<lparr>co_type = ty, co_notNull = True, co_default = None\<rparr>)"

definition optional :: "string \<Rightarrow> sqlType \<Rightarrow> string \<times> columnDef" where
  "optional c ty = (c, \<lparr>co_type = ty, co_notNull = False, co_default = None\<rparr>)"

definition plainIndex :: "string \<Rightarrow> string list \<Rightarrow> indexDef" where
  "plainIndex t cols = \<lparr>ix_table = t, ix_unique = False, ix_columns = cols, ix_notNull = None\<rparr>"

definition uniqueIndex :: "string \<Rightarrow> string list \<Rightarrow> string option \<Rightarrow> indexDef" where
  "uniqueIndex t cols notNull = \<lparr>ix_table = t, ix_unique = True, ix_columns = cols, ix_notNull = notNull\<rparr>"

lemmas column_defs = defaulted_def required_def optional_def plainIndex_def uniqueIndex_def

section \<open>\<open>1700000000000-BaselineSchema.ts\<close>\<close>

definition baselineTypes :: "statement list" where
  "baselineTypes =
    [CreateEnum ''drivers_role_enum'' [''user'', ''driver'', ''admin''],
     CreateEnum ''drivers_verificationstatus_enum'' [''pending'', ''approved'', ''rejected''],
     CreateEnum ''emergency_incidents_status_enum'' [''active'', ''resolved'', ''false_alarm''],
     CreateEnum ''emergency_incidents_triggeredby_enum'' [''rider'', ''driver''],
     CreateEnum ''ledger_entries_stakeholdertype_enum'' [''driver'', ''rider'', ''platform''],
     CreateEnum ''ledger_entries_status_enum'' [''pending'', ''completed'', ''failed'', ''reversed''],
     CreateEnum ''ledger_entries_type_enum''
       [''ride_fare_driver'',
        ''ride_fare_platform'',
        ''ride_fare_rider_cashback'',
        ''driver_fuel_support_mfb'',
        ''driver_payout_linkpay''],
     CreateEnum ''refresh_tokens_subjecttype_enum'' [''user'', ''driver'', ''admin''],
     CreateEnum ''rides_category_enum'' [''private'', ''shared'', ''okada'', ''car''],
     CreateEnum ''rides_originchannel_enum'' [''app'', ''whatsapp'', ''voice''],
     CreateEnum ''rides_status_enum''
       [''requested'', ''accepted'', ''arrived'', ''in_progress'', ''completed'', ''cancelled''],
     CreateEnum ''users_role_enum'' [''user'', ''driver'', ''admin''],
     CreateEnum ''vehicles_type_enum'' [''keke'', ''bike'', ''car'', ''courier'']]"

definition baselineTables :: "statement list" where
  "baselineTables =
    [CreateTable ''driver_locations''
     [defaulted ''id'' SqlUuid (Volatile ''uuid_generate_v4''), required ''latitude'' (SqlNumeric 10 8),
      required ''longitude'' (SqlNumeric 11 8), defaulted ''updatedAt'' SqlTimestamp (Volatile ''now''),
      defaulted ''createdAt'' SqlTimestamp (Volatile ''now''), optional ''driver_id'' SqlUuid]
     [],
     CreateTable ''drivers''
     [defaulted ''id'' SqlUuid (Volatile ''uuid_generate_v4''), required ''name'' (SqlVarchar None),
      required ''phone'' (SqlVarchar None), required ''email'' (SqlVarchar None),
      optional ''password'' (SqlVarchar None), required ''licenseNumber'' (SqlVarchar None),
      required ''licenseExpiry'' SqlDate,
      defaulted ''role'' (SqlEnum ''drivers_role_enum'') (Literal (VText ''driver'')),
      defaulted ''verificationStatus'' (SqlEnum ''drivers_verificationstatus_enum'') (Literal (VText ''pending'')),
      defaulted ''isOnline'' SqlBoolean (Literal (VBool False)),
      defaulted ''isActive'' SqlBoolean (Literal (VBool True)),
      defaulted ''ratingAverage'' (SqlNumeric 3 2) (Literal (VInt 0)),
      defaulted ''totalCompletedRides'' SqlInteger (Literal (VInt 0)),
      defaulted ''walletBalance'' (SqlNumeric 10 2) (Literal (VInt 0)),
      optional ''privyDid'' (SqlVarchar None), optional ''walletAddressEvm'' (SqlVarchar None),
      optional ''otpCode'' (SqlVarchar None), optional ''otpExpiry'' SqlTimestamp,
      defaulted ''createdAt'' SqlTimestamp (Volatile ''now''),
      defaulted ''updatedAt'' SqlTimestamp (Volatile ''now'')]
     [],
     CreateTable ''emergency_incidents''
     [defaulted ''id'' SqlUuid (Volatile ''uuid_generate_v4''), required ''rideId'' SqlUuid,
      required ''triggeredBy'' (SqlEnum ''emergency_incidents_triggeredby_enum''),
      required ''triggeredById'' SqlUuid, optional ''location'' SqlJsonb, optional ''note'' SqlText,
      defaulted ''status'' (SqlEnum ''emergency_incidents_status_enum'') (Literal (VText ''active'')),
      optional ''resolutionNote'' SqlText, optional ''resolvedAt'' SqlTimestamp,
      defaulted ''createdAt'' SqlTimestamp (Volatile ''now''),
      defaulted ''updatedAt'' SqlTimestamp (Volatile ''now'')]
     [],
     CreateTable ''ledger_entries''
     [defaulted ''id'' SqlUuid (Volatile ''uuid_generate_v4''), optional ''rideId'' SqlUuid,
      required ''type'' (SqlEnum ''ledger_entries_type_enum''),
      required ''stakeholderType'' (SqlEnum ''ledger_entries_stakeholdertype_enum''),
      optional ''stakeholderId'' SqlUuid, required ''amount'' (SqlNumeric 12 2),
      defaulted ''currency'' (SqlVarchar (Some 3)) (Literal (VText ''NGN'')),
      defaulted ''status'' (SqlEnum ''ledger_entries_status_enum'') (Literal (VText ''completed'')),
      optional ''providerReference'' (SqlVarchar None), optional ''metadata'' SqlJsonb,
      defaulted ''createdAt'' SqlTimestamp (Volatile ''now'')]
     [],
     CreateTable ''ratings''
     [defaulted ''id'' SqlUuid (Volatile ''uuid_generate_v4''), required ''rideId'' SqlUuid,
      required ''raterId'' SqlUuid, required ''rateeId'' SqlUuid, required ''rateeType'' (SqlVarchar None),
      required ''rating'' SqlInteger, optional ''comment'' SqlText,
      defaulted ''createdAt'' SqlTimestamp (Volatile ''now''),
      defaulted ''updatedAt'' SqlTimestamp (Volatile ''now'')]
     [],
     CreateTable ''refresh_tokens''
     [defaulted ''id'' SqlUuid (Volatile ''uuid_generate_v4''),
      required ''tokenHash'' (SqlVarchar (Some 64)), required ''familyId'' SqlUuid,
      required ''subjectId'' SqlUuid,
      required ''subjectType'' (SqlEnum ''refresh_tokens_subjecttype_enum''),
      required ''expiresAt'' SqlTimestamp, optional ''revokedAt'' SqlTimestamp,
      optional ''revokedReason'' (SqlVarchar None), optional ''userAgent'' (SqlVarchar None),
      optional ''ipAddress'' (SqlVarchar None), defaulted ''createdAt'' SqlTimestamp (Volatile ''now'')]
     [],
     CreateTable ''rides''
     [defaulted ''id'' SqlUuid (Volatile ''uuid_generate_v4''), required ''userId'' SqlUuid,
      optional ''driverId'' SqlUuid, optional ''vehicleId'' SqlUuid, required ''pickup'' SqlJsonb,
      required ''dropoff'' SqlJsonb, optional ''distanceKm'' (SqlNumeric 10 2),
      defaulted ''category'' (SqlEnum ''rides_category_enum'') (Literal (VText ''private'')),
      optional ''estimatedFare'' (SqlNumeric 10 2), optional ''finalFare'' (SqlNumeric 10 2),
      defaulted ''status'' (SqlEnum ''rides_status_enum'') (Literal (VText ''requested'')),
      defaulted ''originChannel'' (SqlEnum ''rides_originchannel_enum'') (Literal (VText ''app'')),
      optional ''cancellationReason'' SqlText, defaulted ''requestedAt'' SqlTimestamp (Volatile ''now''),
      optional ''acceptedAt'' SqlTimestamp, optional ''startedAt'' SqlTimestamp,
      optional ''completedAt'' SqlTimestamp, defaulted ''createdAt'' SqlTimestamp (Volatile ''now''),
      defaulted ''updatedAt'' SqlTimestamp (Volatile ''now'')]
     [],
     CreateTable ''users''
     [defaulted ''id'' SqlUuid (Volatile ''uuid_generate_v4''), required ''name'' (SqlVarchar None),
      required ''email'' (SqlVarchar None), optional ''phone'' (SqlVarchar None),
      optional ''password'' (SqlVarchar None), optional ''provider'' (SqlVarchar None),
      optional ''providerId'' (SqlVarchar None), optional ''privyDid'' (SqlVarchar None),
      optional ''walletAddressEvm'' (SqlVarchar None), optional ''walletAddressSolana'' (SqlVarchar None),
      optional ''walletAddressTron'' (SqlVarchar None), optional ''otpCode'' (SqlVarchar None),
      optional ''otpExpiry'' SqlTimestamp, defaulted ''isVerified'' SqlBoolean (Literal (VBool False)),
      defaulted ''role'' (SqlEnum ''users_role_enum'') (Literal (VText ''user'')),
      defaulted ''ratingAverage'' (SqlNumeric 3 2) (Literal (VInt 0)),
      defaulted ''totalRides'' SqlInteger (Literal (VInt 0)),
      defaulted ''cashbackBalance'' (SqlNumeric 12 2) (Literal (VInt 0)),
      defaulted ''isBlocked'' SqlBoolean (Literal (VBool False)),
      defaulted ''createdAt'' SqlTimestamp (Volatile ''now''),
      defaulted ''updatedAt'' SqlTimestamp (Volatile ''now'')]
     [],
     CreateTable ''vehicles''
     [defaulted ''id'' SqlUuid (Volatile ''uuid_generate_v4''), required ''driverId'' SqlUuid,
      required ''type'' (SqlEnum ''vehicles_type_enum''), required ''plateNumber'' (SqlVarchar None),
      required ''color'' (SqlVarchar None), required ''model'' (SqlVarchar None),
      required ''year'' SqlInteger, defaulted ''isActive'' SqlBoolean (Literal (VBool True)),
      defaulted ''createdAt'' SqlTimestamp (Volatile ''now''),
      defaulted ''updatedAt'' SqlTimestamp (Volatile ''now'')]
     []]"

definition baselineReconcile :: "statement list" where
  "baselineReconcile =
    [AddColumn ''users'' ''privyDid'' (SqlVarchar None) False None,
     AddColumn ''drivers'' ''privyDid'' (SqlVarchar None) False None,
     AddColumn ''drivers'' ''walletAddressEvm'' (SqlVarchar None) False None,
     AddColumn ''users'' ''cashbackBalance'' (SqlNumeric 12 2) True (Some (VInt 0)),
     DropNotNull ''drivers'' ''password'']"

definition baselineDeduplicate :: "statement list" where
  "baselineDeduplicate =
    [DeleteDuplicates ''ratings'' [''rideId'', ''raterId''] None,
     DeleteDuplicates ''ledger_entries'' [''rideId'', ''type''] (Some ''rideId'')]"

definition baselineKeys :: "statement list" where
  "baselineKeys =
    [AddConstraint ''ratings'' ''PK_0f31425b073219379545ad68ed9'' (PrimaryKey [''id'']),
     AddConstraint ''vehicles'' ''PK_18d8646b59304dce4af3a9e35b6'' (PrimaryKey [''id'']),
     AddConstraint ''driver_locations'' ''PK_31aae5c417762bf01ec26a53f02'' (PrimaryKey [''id'']),
     AddConstraint ''ledger_entries'' ''PK_6efcb84411d3f08b08450ae75d5'' (PrimaryKey [''id'']),
     AddConstraint ''refresh_tokens'' ''PK_7d8bee0204106019488c4c50ffa'' (PrimaryKey [''id'']),
     AddConstraint ''drivers'' ''PK_92ab3fb69e566d3eb0cae896047'' (PrimaryKey [''id'']),
     AddConstraint ''users'' ''PK_a3ffb1c0c8416b9fc6f907b7433'' (PrimaryKey [''id'']),
     AddConstraint ''emergency_incidents'' ''PK_b0ed14bd0a0f7d7ca5f71d95df5'' (PrimaryKey [''id'']),
     AddConstraint ''rides'' ''PK_ca6f62fc1e999b139c7f28f07fd'' (PrimaryKey [''id'']),
     AddConstraint ''driver_locations'' ''REL_096de534e1c6301cf7f2a4bf03'' (UniqueKey [''driver_id'']),
     AddConstraint ''users'' ''UQ_27bc7580e0592d498a83041f70b'' (UniqueKey [''privyDid'']),
     AddConstraint ''vehicles'' ''UQ_66ea96381a7a7ceb35c72f36625'' (UniqueKey [''plateNumber'']),
     AddConstraint ''drivers'' ''UQ_754b3d50a8cc64f7ad5c24f62b4'' (UniqueKey [''licenseNumber'']),
     AddConstraint ''drivers'' ''UQ_788d5a89008be4ae891e9065677'' (UniqueKey [''privyDid'']),
     AddConstraint ''users'' ''UQ_97672ac88f789774dd47f7c8be3'' (UniqueKey [''email'']),
     AddConstraint ''users'' ''UQ_a000cca60bcf04454e727699490'' (UniqueKey [''phone'']),
     AddConstraint ''drivers'' ''UQ_b97a5a68c766d2d1ec25e6a85b2'' (UniqueKey [''phone'']),
     AddConstraint ''refresh_tokens'' ''UQ_c25bc63d248ca90e8dcc1d92d06'' (UniqueKey [''tokenHash'']),
     AddConstraint ''drivers'' ''UQ_d4cfc1aafe3a14622aee390edb2'' (UniqueKey [''email''])]"

definition baselineIndexes :: "statement list" where
  "baselineIndexes =
    [CreateIndex ''idx_emergency_ride'' (plainIndex ''emergency_incidents'' [''rideId'']),
     CreateIndex ''idx_emergency_status'' (plainIndex ''emergency_incidents'' [''status'']),
     CreateIndex ''idx_ledger_stakeholder'' (plainIndex ''ledger_entries'' [''stakeholderType'', ''stakeholderId'']),
     CreateIndex ''idx_rating_ratee'' (plainIndex ''ratings'' [''rateeId'', ''rateeType'']),
     CreateIndex ''idx_refresh_family'' (plainIndex ''refresh_tokens'' [''familyId'']),
     CreateIndex ''idx_refresh_subject'' (plainIndex ''refresh_tokens'' [''subjectId'', ''subjectType'']),
     CreateIndex ''uq_ledger_ride_type'' (uniqueIndex ''ledger_entries'' [''rideId'', ''type''] (Some ''rideId'')),
     CreateIndex ''uq_rating_ride_rater'' (uniqueIndex ''ratings'' [''rideId'', ''raterId''] None)]"

definition baselineForeignKeys :: "statement list" where
  "baselineForeignKeys =
    [AddConstraint ''rides'' ''FK_0023f8784105268f52413528568''
       (ForeignKey [''userId''] ''users'' [''id''] CascadeRows),
     AddConstraint ''driver_locations'' ''FK_096de534e1c6301cf7f2a4bf032''
       (ForeignKey [''driver_id''] ''drivers'' [''id''] CascadeRows),
     AddConstraint ''rides'' ''FK_0adda088d567495e71d21b6c691''
       (ForeignKey [''driverId''] ''drivers'' [''id''] SetNull),
     AddConstraint ''vehicles'' ''FK_28d7607488252336b22511e9e80''
       (ForeignKey [''driverId''] ''drivers'' [''id''] CascadeRows),
     AddConstraint ''ratings'' ''FK_5ea4e6b760b74bd49b9cdc58ca0''
       (ForeignKey [''rideId''] ''rides'' [''id''] NoAction),
     AddConstraint ''rides'' ''FK_75e480e353cb430ffbb664bbb07''
       (ForeignKey [''vehicleId''] ''vehicles'' [''id''] SetNull),
     AddConstraint ''emergency_incidents'' ''FK_e6d8cd8a5554daf4d2c24d5ea9a''
       (ForeignKey [''rideId''] ''rides'' [''id''] CascadeRows)]"

definition baseline :: "statement list" where
  "baseline = CreateExtension ''uuid-ossp'' # baselineTypes @ baselineTables @ baselineReconcile @
     baselineDeduplicate @ baselineKeys @ baselineIndexes @ baselineForeignKeys"

definition baselineDown :: "statement list" where
  "baselineDown =
    [DropTable ''ratings'' True,
     DropTable ''emergency_incidents'' True,
     DropTable ''ledger_entries'' True,
     DropTable ''refresh_tokens'' True,
     DropTable ''driver_locations'' True,
     DropTable ''rides'' True,
     DropTable ''vehicles'' True,
     DropTable ''drivers'' True,
     DropTable ''users'' True,
     DropType ''drivers_role_enum'',
     DropType ''drivers_verificationstatus_enum'',
     DropType ''emergency_incidents_status_enum'',
     DropType ''emergency_incidents_triggeredby_enum'',
     DropType ''ledger_entries_stakeholdertype_enum'',
     DropType ''ledger_entries_status_enum'',
     DropType ''ledger_entries_type_enum'',
     DropType ''refresh_tokens_subjecttype_enum'',
     DropType ''rides_category_enum'',
     DropType ''rides_originchannel_enum'',
     DropType ''rides_status_enum'',
     DropType ''users_role_enum'',
     DropType ''vehicles_type_enum'']"

section \<open>\<open>1704067200001-AddRoleToUsers.ts\<close>\<close>

definition addRoleToUsers :: "statement list" where
  "addRoleToUsers =
    [CreateEnum ''users_role_enum'' [''user'', ''driver'', ''admin''],
     AddColumn ''users'' ''role'' (SqlEnum ''users_role_enum'') True (Some (VText ''user''))]"

definition addRoleToUsersDown :: "statement list" where
  "addRoleToUsersDown =
    [DropColumn ''users'' ''role'',
     DropType ''users_role_enum'',
     DropType ''user_role_enum'']"

section \<open>\<open>1704067200002-AddRoleToDrivers.ts\<close>\<close>

definition addRoleToDrivers :: "statement list" where
  "addRoleToDrivers =
    [CreateEnum ''drivers_role_enum'' [''user'', ''driver'', ''admin''],
     AddColumn ''drivers'' ''role'' (SqlEnum ''drivers_role_enum'') True (Some (VText ''driver''))]"

definition addRoleToDriversDown :: "statement list" where
  "addRoleToDriversDown =
    [DropColumn ''drivers'' ''role'',
     DropType ''drivers_role_enum'',
     DropType ''driver_role_enum'']"

section \<open>\<open>1756600000001-AddCarCategoryToRides.ts\<close>\<close>

definition addCarCategory :: "statement list" where
  "addCarCategory =
    [AddEnumValue ''rides'' ''category'' ''car'']"

section \<open>\<open>1756600000002-CreateLedgerAndCashback.ts\<close>\<close>

definition createLedgerBody :: "statement list" where
  "createLedgerBody =
    [CreateEnum ''ledger_entry_type_enum''
       [''ride_fare_driver'',
        ''ride_fare_platform'',
        ''ride_fare_rider_cashback'',
        ''driver_fuel_support_mfb'',
        ''driver_payout_linkpay''],
     CreateEnum ''ledger_stakeholder_type_enum'' [''driver'', ''rider'', ''platform''],
     CreateEnum ''ledger_entry_status_enum'' [''pending'', ''completed'', ''failed'', ''reversed''],
     CreateTable ''ledger_entries''
     [defaulted ''id'' SqlUuid (Volatile ''gen_random_uuid''), optional ''rideId'' SqlUuid,
      required ''type'' (SqlEnum ''ledger_entry_type_enum''),
      required ''stakeholderType'' (SqlEnum ''ledger_stakeholder_type_enum''),
      optional ''stakeholderId'' SqlUuid, required ''amount'' (SqlNumeric 12 2),
      defaulted ''currency'' (SqlVarchar (Some 3)) (Literal (VText ''NGN'')),
      defaulted ''status'' (SqlEnum ''ledger_entry_status_enum'') (Literal (VText ''completed'')),
      optional ''providerReference'' (SqlVarchar None), optional ''metadata'' SqlJsonb,
      defaulted ''createdAt'' SqlTimestamp (Volatile ''now'')]
     [(''PK_ledger_entries'', PrimaryKey [''id''])],
     CreateIndex ''uq_ledger_ride_type'' (uniqueIndex ''ledger_entries'' [''rideId'', ''type''] (Some ''rideId'')),
     CreateIndex ''idx_ledger_stakeholder'' (plainIndex ''ledger_entries'' [''stakeholderType'', ''stakeholderId'']),
     AddColumn ''users'' ''cashbackBalance'' (SqlNumeric 12 2) True (Some (VInt 0))]"

definition createLedger :: "database \<Rightarrow> sqlError + database" where
  "createLedger db =
     (if tableNamed ''ledger_entries'' db \<noteq> None then Inr db else run createLedgerBody db)"

definition createLedgerDown :: "statement list" where
  "createLedgerDown =
    [DropColumn ''users'' ''cashbackBalance'',
     DropIndex ''idx_ledger_stakeholder'',
     DropIndex ''uq_ledger_ride_type'',
     DropTable ''ledger_entries'' False,
     DropType ''ledger_entry_status_enum'',
     DropType ''ledger_stakeholder_type_enum'',
     DropType ''ledger_entry_type_enum'']"

section \<open>\<open>1756600000003-AddOriginChannelToRides.ts\<close>\<close>

definition addOriginChannelBody :: "statement list" where
  "addOriginChannelBody =
    [CreateEnum ''ride_origin_channel_enum'' [''app'', ''whatsapp'', ''voice''],
     AddColumn ''rides'' ''originChannel'' (SqlEnum ''ride_origin_channel_enum'') True (Some (VText ''app''))]"

definition addOriginChannel :: "database \<Rightarrow> sqlError + database" where
  "addOriginChannel db =
     (case tableNamed ''rides'' db of
        Some tb \<Rightarrow> if hasColumn tb ''originChannel'' then Inr db else run addOriginChannelBody db
      | None \<Rightarrow> run addOriginChannelBody db)"

definition addOriginChannelDown :: "statement list" where
  "addOriginChannelDown =
    [DropColumn ''rides'' ''originChannel'',
     DropType ''ride_origin_channel_enum'']"

section \<open>\<open>1756600000004-CreateEmergencyIncidents.ts\<close>\<close>

definition createEmergencyBody :: "statement list" where
  "createEmergencyBody =
    [CreateEnum ''emergency_triggered_by_enum'' [''rider'', ''driver''],
     CreateEnum ''emergency_status_enum'' [''active'', ''resolved'', ''false_alarm''],
     CreateTable ''emergency_incidents''
     [defaulted ''id'' SqlUuid (Volatile ''gen_random_uuid''), required ''rideId'' SqlUuid,
      required ''triggeredBy'' (SqlEnum ''emergency_triggered_by_enum''),
      required ''triggeredById'' SqlUuid, optional ''location'' SqlJsonb, optional ''note'' SqlText,
      defaulted ''status'' (SqlEnum ''emergency_status_enum'') (Literal (VText ''active'')),
      optional ''resolutionNote'' SqlText, optional ''resolvedAt'' SqlTimestamp,
      defaulted ''createdAt'' SqlTimestamp (Volatile ''now''),
      defaulted ''updatedAt'' SqlTimestamp (Volatile ''now'')]
     [(''PK_emergency_incidents'', PrimaryKey [''id'']),
      (''FK_emergency_incidents_ride'', ForeignKey [''rideId''] ''rides'' [''id''] CascadeRows)],
     CreateIndex ''idx_emergency_ride'' (plainIndex ''emergency_incidents'' [''rideId'']),
     CreateIndex ''idx_emergency_status'' (plainIndex ''emergency_incidents'' [''status''])]"

definition createEmergency :: "database \<Rightarrow> sqlError + database" where
  "createEmergency db =
     (if tableNamed ''emergency_incidents'' db \<noteq> None then Inr db else run createEmergencyBody db)"

definition createEmergencyDown :: "statement list" where
  "createEmergencyDown =
    [DropIndex ''idx_emergency_status'',
     DropIndex ''idx_emergency_ride'',
     DropTable ''emergency_incidents'' False,
     DropType ''emergency_status_enum'',
     DropType ''emergency_triggered_by_enum'']"

section \<open>All of them\<close>

definition migrations :: "(database \<Rightarrow> sqlError + database) list" where
  "migrations = [run baseline, run addRoleToUsers, run addRoleToDrivers, run addCarCategory, createLedger,
     addOriginChannel, createEmergency]"

fun runAll :: "(database \<Rightarrow> sqlError + database) list \<Rightarrow> database \<Rightarrow> sqlError + database" where
  "runAll [] db = Inr db"
| "runAll (m # ms) db = (case m db of Inl e \<Rightarrow> Inl e | Inr db' \<Rightarrow> runAll ms db')"

end
