(* ===== verification/MigrationRules.thy ===== *)
theory MigrationRules
  imports Migrations
begin

text \<open>
  The claim of the baseline migration's header, that it is a no-op on a database that already has
  the schema and a build on one that does not. \<open>satisfied\<close> says of a statement that the database
  already has what it asks for; the statements of the baseline establish it, keep it for each other
  (\<open>grows\<close>), and do nothing where it holds.
\<close>

section \<open>Tables after a statement\<close>

lemma tableNamed_setTable [simp]:
  "tableNamed u (setTable t tb db) = (if u = t then Some tb else tableNamed u db)"
  by (simp add: tableNamed_def setTable_def update_conv')

lemma setTable_same: "tableNamed t db = Some tb \<Longrightarrow> setTable t tb db = db"
  by (simp add: tableNamed_def setTable_def update_triv)

lemma setTable_fields [simp]:
  "db_extensions (setTable t tb db) = db_extensions db" "db_enums (setTable t tb db) = db_enums db"
  "db_indexes (setTable t tb db) = db_indexes db"
  by (simp_all add: setTable_def)

lemma tableNamed_fields [simp]:
  "tableNamed t (db\<lparr>db_extensions := a\<rparr>) = tableNamed t db" "tableNamed t (db\<lparr>db_enums := b\<rparr>) = tableNamed t db"
  "tableNamed t (db\<lparr>db_indexes := c\<rparr>) = tableNamed t db"
  by (simp_all add: tableNamed_def)

lemma withTable_Inr:
  "withTable t db f = Inr db' \<longleftrightarrow> (\<exists>tb. tableNamed t db = Some tb \<and> f tb = Inr db')"
  by (simp add: withTable_def split: option.split)

lemma setTable_names:
  "set (map fst (db_tables (setTable t tb db))) = insert t (set (map fst (db_tables db)))"
  using dom_update [of t tb "db_tables db"] by (simp add: setTable_def)

lemma setTable_name [simp]: "t \<in> fst ` set (db_tables (setTable t tb db))"
  using setTable_names [of t tb db] by simp

lemma hasColumn_rows [simp]: "hasColumn (tb\<lparr>tb_rows := rs\<rparr>) = hasColumn tb"
  by (rule ext) (simp add: hasColumn_def)

definition keyNames :: "database \<Rightarrow> string set" where
  "keyNames db = (\<Union>(_, tb)\<in>set (db_tables db). set (indexedNames (tb_constraints tb)))"

lemma addIndex_simps [simp]:
  "tableNamed t (addIndex n ix db) = tableNamed t db" "db_tables (addIndex n ix db) = db_tables db"
  "db_indexes (addIndex n ix db) = db_indexes db @ [(n, ix)]" "keyNames (addIndex n ix db) = keyNames db"
  "db_extensions (addIndex n ix db) = db_extensions db" "db_enums (addIndex n ix db) = db_enums db"
  by (simp_all add: addIndex_def keyNames_def tableNamed_def)

lemma relationNames_set:
  "set (relationNames db) = set (map fst (db_tables db)) \<union> set (map fst (db_indexes db)) \<union> keyNames db"
  by (auto simp: relationNames_def keyNames_def)

text \<open>What a database has of a table, as the baseline leaves it: columns stay, a column that may be
  null stays so unless it becomes part of the primary key, constraints stay.\<close>

definition tableGrows :: "tableDef \<Rightarrow> tableDef \<Rightarrow> bool" where
  "tableGrows tb tb' \<longleftrightarrow>
     (\<forall>c d. map_of (tb_columns tb) c = Some d \<longrightarrow>
        (\<exists>d'. map_of (tb_columns tb') c = Some d' \<and> co_type d' = co_type d \<and>
          (\<not> co_notNull d \<longrightarrow> \<not> co_notNull d' \<or> c = ''id''))) \<and>
     set (tb_constraints tb) \<subseteq> set (tb_constraints tb') \<and>
     set (primaryColumns tb') \<subseteq> insert ''id'' (set (primaryColumns tb)) \<and>
     (\<forall>r'\<in>set (tb_rows tb'). \<exists>r\<in>set (tb_rows tb). \<forall>c. hasColumn tb c \<longrightarrow> r' c = r c)"

lemma tableGrows_refl [simp]: "tableGrows tb tb"
  by (auto simp: tableGrows_def)

lemma tableGrows_trans: "tableGrows a b \<Longrightarrow> tableGrows b c \<Longrightarrow> tableGrows a c"
proof -
  assume ab: "tableGrows a b" and bc: "tableGrows b c"
  have "hasColumn b k" if "hasColumn a k" for k
  proof -
    from that obtain d where "map_of (tb_columns a) k = Some d" by (auto simp: hasColumn_def)
    then obtain d' where "map_of (tb_columns b) k = Some d'" using ab unfolding tableGrows_def by blast
    then show ?thesis by (simp add: hasColumn_def)
  qed
  then have "\<exists>r\<in>set (tb_rows a). \<forall>k. hasColumn a k \<longrightarrow> r'' k = r k" if "r'' \<in> set (tb_rows c)" for r''
    using ab bc that unfolding tableGrows_def by metis
  moreover have "\<exists>d'. map_of (tb_columns c) k = Some d' \<and> co_type d' = co_type d \<and>
      (\<not> co_notNull d \<longrightarrow> \<not> co_notNull d' \<or> k = ''id'')"
    if k: "map_of (tb_columns a) k = Some d" for k d
  proof -
    obtain e where e: "map_of (tb_columns b) k = Some e" "co_type e = co_type d" "\<not> co_notNull d \<longrightarrow> \<not> co_notNull e \<or> k = ''id''"
      using ab k unfolding tableGrows_def by blast
    obtain f where "map_of (tb_columns c) k = Some f" "co_type f = co_type e" "\<not> co_notNull e \<longrightarrow> \<not> co_notNull f \<or> k = ''id''"
      using bc e(1) unfolding tableGrows_def by blast
    then show ?thesis using e(2,3) by auto
  qed
  ultimately show ?thesis using ab bc unfolding tableGrows_def by blast
qed

lemma withLabel_simps [simp]:
  "tableNamed t (withLabel n label db) = tableNamed t db" "db_tables (withLabel n label db) = db_tables db"
  "db_indexes (withLabel n label db) = db_indexes db" "keyNames (withLabel n label db) = keyNames db"
  "db_extensions (withLabel n label db) = db_extensions db" "typeNames (withLabel n label db) = typeNames db"
  by (auto simp: withLabel_def keyNames_def tableNamed_def typeNames_def)

lemma withLabel_names [simp]: "map fst (db_enums (withLabel n label db)) = map fst (db_enums db)"
  by (auto simp: withLabel_def)

lemma withLabel_enums:
  "(m, labels') \<in> set (db_enums (withLabel n label db)) \<longleftrightarrow>
     (\<exists>labels. (m, labels) \<in> set (db_enums db) \<and>
        labels' = (if m = n \<and> label \<notin> set labels then labels @ [label] else labels))"
  by (force simp: withLabel_def)

definition grows :: "database \<Rightarrow> database \<Rightarrow> bool" where
  "grows db db' \<longleftrightarrow> set (db_extensions db) \<subseteq> set (db_extensions db') \<and>
     set (typeNames db) \<subseteq> set (typeNames db') \<and>
     set (map fst (db_enums db)) \<subseteq> set (map fst (db_enums db')) \<and> set (relationNames db) \<subseteq> set (relationNames db') \<and>
     (\<forall>n labels'. (n, labels') \<in> set (db_enums db') \<longrightarrow> n \<in> set (typeNames db) \<longrightarrow>
        (\<exists>labels. (n, labels) \<in> set (db_enums db) \<and> set labels \<subseteq> set labels')) \<and>
     (\<forall>t tb. tableNamed t db = Some tb \<longrightarrow> (\<exists>tb'. tableNamed t db' = Some tb' \<and> tableGrows tb tb'))"

lemma grows_refl [simp]: "grows db db"
  using tableGrows_refl by (auto simp: grows_def)

lemma grows_trans:
  assumes ab: "grows a b" and bc: "grows b c"
  shows "grows a c"
proof -
  have "\<exists>labels. (n, labels) \<in> set (db_enums a) \<and> set labels \<subseteq> set labels'"
    if n: "(n, labels') \<in> set (db_enums c)" "n \<in> set (typeNames a)" for n labels'
  proof -
    obtain l where l: "(n, l) \<in> set (db_enums b)" "set l \<subseteq> set labels'"
      using bc n ab unfolding grows_def by blast
    then show ?thesis using ab n(2) unfolding grows_def by blast
  qed
  moreover have "\<exists>tb'. tableNamed t c = Some tb' \<and> tableGrows tb tb'" if "tableNamed t a = Some tb" for t tb
    using ab bc that tableGrows_trans unfolding grows_def by metis
  ultimately show ?thesis using ab bc unfolding grows_def by blast
qed

lemma growsE:
  assumes "grows db db'" "tableNamed t db = Some tb"
  obtains tb' where "tableNamed t db' = Some tb'" "tableGrows tb tb'"
  using assms unfolding grows_def by blast

lemma update_new: "t \<notin> fst ` set al \<Longrightarrow> AList.update t v al = al @ [(t, v)]"
  by (induction al) auto

lemma update_keeps: "x \<in> set al \<Longrightarrow> x \<in> set (AList.update k v al) \<or> Some (snd x) = map_of al k \<and> fst x = k"
  by (induction al) auto

lemma indexedNames_mono: "set ks \<subseteq> set ks' \<Longrightarrow> set (indexedNames ks) \<subseteq> set (indexedNames ks')"
proof -
  have iff: "n \<in> set (indexedNames ks) \<longleftrightarrow> (\<exists>k. (n, k) \<in> set ks \<and> (\<forall>a b c d. k \<noteq> ForeignKey a b c d))"
    for n ks by (induction ks rule: indexedNames.induct) auto
  show "set ks \<subseteq> set ks' \<Longrightarrow> ?thesis" using iff by blast
qed

lemma setTable_keeps_names:
  assumes tb: "tableNamed t db = Some tb" and cs: "set (tb_constraints tb) \<subseteq> set (tb_constraints tb')"
  shows "set (relationNames db) \<subseteq> set (relationNames (setTable t tb' db))"
    "set (typeNames db) \<subseteq> set (typeNames (setTable t tb' db))"
proof -
  have new: "(t, tb') \<in> set (db_tables (setTable t tb' db))"
    using map_of_SomeD [of "db_tables (setTable t tb' db)" t tb'] by (simp add: setTable_def update_conv')
  have keys: "keyNames db \<subseteq> keyNames (setTable t tb' db)"
  proof
    fix n assume "n \<in> keyNames db"
    then obtain u ub where u: "(u, ub) \<in> set (db_tables db)" "n \<in> set (indexedNames (tb_constraints ub))"
      by (auto simp: keyNames_def)
    show "n \<in> keyNames (setTable t tb' db)"
      using update_keeps [OF u(1), of t tb'] u(2) tb new indexedNames_mono [OF cs]
      unfolding keyNames_def by (auto simp: setTable_def tableNamed_def)
  qed
  have "set (map fst (db_tables db)) \<subseteq> set (map fst (db_tables (setTable t tb' db)))"
    unfolding setTable_names by blast
  then show "set (relationNames db) \<subseteq> set (relationNames (setTable t tb' db))"
    "set (typeNames db) \<subseteq> set (typeNames (setTable t tb' db))"
    using keys unfolding relationNames_set typeNames_def by auto
qed

lemma grows_setTable:
  assumes tb: "tableNamed t db = Some tb" and g: "tableGrows tb tb'"
  shows "grows db (setTable t tb' db)"
proof -
  have "set (tb_constraints tb) \<subseteq> set (tb_constraints tb')" using g by (simp add: tableGrows_def)
  from setTable_keeps_names [OF tb this] show ?thesis using assms by (auto simp: grows_def)
qed

lemma grows_newTable:
  assumes "t \<notin> set (relationNames db)"
  shows "grows db (setTable t tb db)"
proof -
  have t: "t \<notin> fst ` set (db_tables db)" using assms by (auto simp: relationNames_set)
  then have "tableNamed t db = None" by (force simp: tableNamed_def map_of_eq_None_iff)
  then show ?thesis
    using update_new [OF t, of tb]
    by (auto simp: grows_def setTable_def relationNames_set typeNames_def keyNames_def tableNamed_def)
qed

section \<open>Statements that only add\<close>

text \<open>The statements of the baseline: guarded, and none of them takes anything away but duplicates.\<close>

fun guardedOnly :: "statement \<Rightarrow> bool" where
  "guardedOnly (CreateTable _ _ ks) \<longleftrightarrow> ks = []"
| "guardedOnly (DropNotNull _ c) \<longleftrightarrow> c \<noteq> ''id''"
| "guardedOnly (DeleteDuplicates _ cols notNull) \<longleftrightarrow> (case notNull of None \<Rightarrow> True | Some c \<Rightarrow> c \<in> set cols)"
| "guardedOnly (AddConstraint _ _ k) \<longleftrightarrow> (case k of PrimaryKey cols \<Rightarrow> cols = [''id''] | _ \<Rightarrow> True)"
| "guardedOnly (DropTable _ _) \<longleftrightarrow> False"
| "guardedOnly (DropColumn _ _) \<longleftrightarrow> False"
| "guardedOnly (DropIndex _) \<longleftrightarrow> False"
| "guardedOnly (DropType _) \<longleftrightarrow> False"
| "guardedOnly _ \<longleftrightarrow> True"

lemma map_of_map_snd: "map_of (map (\<lambda>(c, d). (c, f c d)) xs) k = map_option (f k) (map_of xs k)"
  by (induction xs) auto

lemma grows_extended: "\<not> hasColumn tb c \<Longrightarrow> tableGrows tb (extended c ty notNull v tb)"
  by (auto simp: tableGrows_def extended_def primaryColumns_def hasColumn_def map_of_append map_add_def
      split: option.splits)

lemma grows_nullable: "tableGrows tb (nullable c tb)"
  by (auto simp: tableGrows_def nullable_def primaryColumns_def update_conv' split: option.split)

lemma grows_rows: "set rs \<subseteq> set (tb_rows tb) \<Longrightarrow> tableGrows tb (tb\<lparr>tb_rows := rs\<rparr>)"
  by (auto simp: tableGrows_def primaryColumns_def)

lemma grows_constraint:
  "case k of PrimaryKey cols \<Rightarrow> cols = [''id''] | _ \<Rightarrow> True \<Longrightarrow> tableGrows tb (appendConstraint n k tb)"
  by (auto simp: tableGrows_def appendConstraint_def primaryColumns_def split: tableConstraint.splits)

lemma grows_markNotNull: "tableGrows tb (markNotNull [''id''] tb)"
  by (auto simp: tableGrows_def markNotNull_def primaryColumns_def map_of_map_snd)

lemma addConstraint_Inr:
  assumes "addConstraint t n k db = Inr db'" "guardedOnly (AddConstraint t n k)"
  obtains tb tb' where "tableNamed t db = Some tb" "tableGrows tb tb'" "(n, k) \<in> set (tb_constraints tb')"
    "db' = setTable t tb' db"
proof -
  obtain tb where tb: "tableNamed t db = Some tb"
    using assms(1) by (auto simp: addConstraint_def withTable_Inr)
  have "db' = setTable t (appendConstraint n k (markNotNull [''id''] tb)) db \<or>
      db' = setTable t (appendConstraint n k tb) db"
    using assms tb by (cases k) (auto simp: addConstraint_def withTable_def Let_def
        split: if_splits option.splits)
  moreover have "(n, k) \<in> set (tb_constraints (appendConstraint n k x))" for x
    by (simp add: appendConstraint_def)
  moreover have "tableGrows x (appendConstraint n k x)" for x
    using assms(2) by (intro grows_constraint) simp
  ultimately show ?thesis using that tb tableGrows_trans grows_markNotNull by metis
qed

lemma grows_withLabel: "grows db (withLabel n label db)"
  unfolding grows_def withLabel_names
  by (auto simp: relationNames_set withLabel_enums intro: tableGrows_refl)

lemma grows_newEnum:
  assumes "n \<notin> set (typeNames db)"
  shows "grows db (db\<lparr>db_enums := db_enums db @ [(n, labels)]\<rparr>)"
proof -
  have "(m, l) \<in> set (db_enums db)" if "(m, l) \<in> set (db_enums db @ [(n, labels)])" "m \<in> set (typeNames db)" for m l
    using that assms by auto
  then have "\<exists>l0. (m, l0) \<in> set (db_enums db) \<and> set l0 \<subseteq> set l"
    if "(m, l) \<in> set (db_enums db @ [(n, labels)])" "m \<in> set (typeNames db)" for m l using that by blast
  moreover have "set (typeNames db) \<subseteq> set (typeNames (db\<lparr>db_enums := db_enums db @ [(n, labels)]\<rparr>))"
    by (auto simp: typeNames_def)
  ultimately show ?thesis by (auto simp: grows_def relationNames_def tableNamed_def intro: tableGrows_refl)
qed

lemma addEnumValue_Inr:
  assumes "exec (AddEnumValue t c label) db = Inr db'"
  obtains tb d n where "tableNamed t db = Some tb" "map_of (tb_columns tb) c = Some d" "co_type d = SqlEnum n"
    "n \<in> set (map fst (db_enums db))" "db' = withLabel n label db"
  using assms by (auto simp: bind_eq_Some_conv split: option.splits sqlType.splits if_splits)

lemma exec_grows:
  assumes "exec st db = Inr db'" "guardedOnly st"
  shows "grows db db'"
proof (cases st)
  case (CreateTable t cols ks)
  then show ?thesis using assms grows_newTable by (auto split: if_splits)
next
  case (AddColumn t c ty notNull v)
  then show ?thesis using assms grows_setTable grows_extended by (fastforce simp: withTable_Inr split: if_splits)
next
  case (DropNotNull t c)
  then show ?thesis using assms grows_setTable grows_nullable by (fastforce simp: withTable_Inr split: if_splits)
next
  case (DeleteDuplicates t cols notNull)
  have "tableGrows tb (tb\<lparr>tb_rows := withoutDuplicates cols notNull (tb_rows tb)\<rparr>)" for tb
    by (rule grows_rows) (auto simp: withoutDuplicates_def)
  then show ?thesis using DeleteDuplicates assms grows_setTable by (fastforce simp: withTable_Inr split: if_splits)
next
  case (AddConstraint t n k)
  then have "addConstraint t n k db = Inr db' \<or> db' = db"
    using assms by (auto simp: withTable_Inr split: if_splits)
  then show ?thesis using AddConstraint assms(2) grows_setTable addConstraint_Inr by (metis grows_refl)
next
  case (CreateEnum n labels)
  then show ?thesis using assms(1) grows_newEnum by (cases "n \<in> set (typeNames db)") auto
next
  case (AddEnumValue t c label)
  then show ?thesis using assms(1) grows_withLabel by (auto elim!: addEnumValue_Inr simp del: exec.simps)
next
  case (CreateIndex n ix)
  then show ?thesis using assms
    by (auto simp: withTable_Inr grows_def relationNames_set typeNames_def split: if_splits)
qed (use assms in \<open>auto simp: grows_def typeNames_def relationNames_def tableNamed_def split: if_splits\<close>)

section \<open>What a statement asks for\<close>

fun satisfied :: "database \<Rightarrow> statement \<Rightarrow> bool" where
  "satisfied db (CreateExtension e) \<longleftrightarrow> e \<in> set (db_extensions db)"
| "satisfied db (CreateEnum n _) \<longleftrightarrow> n \<in> set (typeNames db)"
| "satisfied db (CreateTable t _ _) \<longleftrightarrow> t \<in> set (relationNames db)"
| "satisfied db (AddColumn t c _ _ _) \<longleftrightarrow> (\<exists>tb. tableNamed t db = Some tb \<and> hasColumn tb c)"
| "satisfied db (DropNotNull t c) \<longleftrightarrow>
     (\<exists>tb d. tableNamed t db = Some tb \<and> map_of (tb_columns tb) c = Some d \<and> \<not> co_notNull d \<and>
        c \<notin> set (primaryColumns tb))"
| "satisfied db (DeleteDuplicates t cols notNull) \<longleftrightarrow>
     (\<exists>tb. tableNamed t db = Some tb \<and> list_all (hasColumn tb) (cols @ [''createdAt'', ''id'']) \<and>
        (\<forall>a\<in>set (tb_rows tb). \<not> duplicateIn cols notNull (tb_rows tb) a))"
| "satisfied db (AddConstraint t _ k) \<longleftrightarrow> (\<exists>tb. tableNamed t db = Some tb \<and> hasShape k tb)"
| "satisfied db (CreateIndex n ix) \<longleftrightarrow>
     (\<exists>tb. tableNamed (ix_table ix) db = Some tb) \<and> n \<in> set (relationNames db)"
| "satisfied db (AddEnumValue t c label) \<longleftrightarrow>
     (\<exists>tb d n. tableNamed t db = Some tb \<and> map_of (tb_columns tb) c = Some d \<and> co_type d = SqlEnum n \<and>
        n \<in> set (map fst (db_enums db)) \<and> (\<forall>labels. (n, labels) \<in> set (db_enums db) \<longrightarrow> label \<in> set labels))"
| "satisfied db _ \<longleftrightarrow> False"

lemma nullable_same:
  "map_of (tb_columns tb) c = Some d \<Longrightarrow> \<not> co_notNull d \<Longrightarrow> nullable c tb = tb"
  by (simp add: nullable_def update_triv)

lemma nullable_column:
  "map_of (tb_columns (nullable c tb)) c = map_option (\<lambda>d. d\<lparr>co_notNull := False\<rparr>) (map_of (tb_columns tb) c)"
  "primaryColumns (nullable c tb) = primaryColumns tb"
  by (simp_all add: nullable_def primaryColumns_def update_conv' split: option.split)

lemma duplicate_cong:
  assumes "duplicateIn cols notNull rs a" "case notNull of None \<Rightarrow> True | Some c \<Rightarrow> c \<in> set cols"
    and "\<And>c. c \<in> set (cols @ [''createdAt'', ''id'']) \<Longrightarrow> a' c = a c"
    and "\<And>b. b \<in> set rs \<Longrightarrow> \<exists>b'\<in>set rs'. \<forall>c\<in>set (cols @ [''createdAt'', ''id'']). b' c = b c"
  shows "duplicateIn cols notNull rs' a'"
proof -
  obtain b where b: "b \<in> set rs" "sameKey cols a b" "laterThan a b"
    using assms(1) by (auto simp: duplicateIn_def list_ex_iff)
  obtain b' where b': "b' \<in> set rs'" "\<And>c. c \<in> set (cols @ [''createdAt'', ''id'']) \<Longrightarrow> b' c = b c"
    using assms(4) [OF b(1)] by blast
  have "sameKey cols a' b'" "laterThan a' b'"
    using b(2,3) assms(3) b'(2) by (simp_all add: sameKey_def laterThan_def list_all_iff)
  moreover have "case notNull of None \<Rightarrow> True | Some c \<Rightarrow> a' c \<noteq> None"
    using assms(1,2,3) by (auto simp: duplicateIn_def split: option.splits)
  ultimately show ?thesis using b'(1) by (auto simp: duplicateIn_def list_ex_iff)
qed

text \<open>A statement establishes what it asks for ...\<close>

lemma exec_satisfies:
  assumes "exec st db = Inr db'" "guardedOnly st"
  shows "satisfied db' st"
proof (cases st)
  case (CreateTable t cols ks)
  then show ?thesis using assms by (auto simp: relationNames_set setTable_names split: if_splits)
next
  case (DropNotNull t c)
  then show ?thesis using assms
    by (auto simp: withTable_Inr nullable_column hasColumn_def split: if_splits)
next
  case (DeleteDuplicates t cols notNull)
  have "\<not> duplicateIn cols notNull (withoutDuplicates cols notNull rs) a"
    if "a \<in> set (withoutDuplicates cols notNull rs)" for rs a
    using that by (auto simp: withoutDuplicates_def duplicateIn_def list_ex_iff)
  then show ?thesis using DeleteDuplicates assms by (auto simp: withTable_Inr split: if_splits)
next
  case (AddConstraint t n k)
  have shape: "hasShape k tb" if "(n, k) \<in> set (tb_constraints tb)" for tb
  proof -
    have "sameShape k k" by (cases k) simp_all
    then show ?thesis using that by (force simp: hasShape_def list_ex_iff)
  qed
  have "addConstraint t n k db = Inr db' \<or> satisfied db' st"
    using AddConstraint assms by (auto simp: withTable_Inr split: if_splits)
  then show ?thesis
  proof
    assume "addConstraint t n k db = Inr db'"
    then show ?thesis using AddConstraint assms(2) shape by (auto elim!: addConstraint_Inr)
  qed
next
  case (CreateIndex n ix)
  then have "db' = db \<and> n \<in> set (relationNames db) \<or> db' = addIndex n ix db"
    using assms(1) by (auto simp: withTable_Inr split: if_splits)
  moreover have "n \<in> set (relationNames (addIndex n ix db))" by (simp add: relationNames_set)
  moreover have "\<exists>tb. tableNamed (ix_table ix) db = Some tb"
    using CreateIndex assms(1) by (auto simp: withTable_Inr)
  ultimately show ?thesis using CreateIndex by auto
next
  case (AddColumn t c ty notNull v)
  then obtain tb where tb: "tableNamed t db = Some tb"
      "db' = db \<and> hasColumn tb c \<or> db' = setTable t (extended c ty notNull v tb) db"
    using assms(1) by (auto simp: withTable_Inr split: if_splits)
  moreover have "hasColumn (extended c ty notNull v tb) c"
    by (auto simp: hasColumn_def extended_def map_of_append map_add_def split: option.splits)
  ultimately show ?thesis using AddColumn by auto
next
  case (AddEnumValue t c label)
  obtain tb d n where tb: "tableNamed t db = Some tb" "map_of (tb_columns tb) c = Some d" "co_type d = SqlEnum n"
      "n \<in> set (map fst (db_enums db))" "db' = withLabel n label db"
    using assms(1) unfolding AddEnumValue by (rule addEnumValue_Inr)
  have "label \<in> set labels" if "(n, labels) \<in> set (db_enums db')" for labels
    using that by (auto simp: tb(5) withLabel_enums)
  moreover have "n \<in> set (map fst (db_enums db'))" using tb(4) unfolding tb(5) withLabel_names .
  ultimately show ?thesis using tb(1-3) by (simp add: AddEnumValue tb(5))
qed (use assms in \<open>auto simp: typeNames_def split: if_splits\<close>)

text \<open>... which survives everything that only adds ...\<close>

lemma hasColumn_grows: "tableGrows tb tb' \<Longrightarrow> hasColumn tb c \<Longrightarrow> hasColumn tb' c"
  by (fastforce simp: tableGrows_def hasColumn_def)

lemma satisfied_grows:
  assumes "satisfied db st" "grows db db'" "guardedOnly st"
  shows "satisfied db' st"
proof (cases st)
  case (AddColumn t c ty notNull v)
  then show ?thesis using assms(1) hasColumn_grows by (auto elim!: growsE [OF assms(2)])
next
  case (DropNotNull t c)
  then obtain tb d where tb: "tableNamed t db = Some tb" "map_of (tb_columns tb) c = Some d"
      "\<not> co_notNull d" "c \<notin> set (primaryColumns tb)" using assms(1) by auto
  obtain tb' where tb': "tableNamed t db' = Some tb'" "tableGrows tb tb'" using growsE [OF assms(2) tb(1)] .
  then obtain d' where "map_of (tb_columns tb') c = Some d'" "\<not> co_notNull d'"
    using tb(2,3) assms(3) DropNotNull unfolding tableGrows_def by fastforce
  moreover have "c \<notin> set (primaryColumns tb')"
    using tb'(2) tb(4) assms(3) DropNotNull by (auto simp: tableGrows_def)
  ultimately show ?thesis using tb'(1) DropNotNull by simp
next
  case (DeleteDuplicates t cols notNull)
  let ?cs = "cols @ [''createdAt'', ''id'']"
  from DeleteDuplicates obtain tb where tb: "tableNamed t db = Some tb" "list_all (hasColumn tb) ?cs"
      "\<forall>a\<in>set (tb_rows tb). \<not> duplicateIn cols notNull (tb_rows tb) a" using assms(1) by auto
  obtain tb' where tb': "tableNamed t db' = Some tb'" "tableGrows tb tb'" using growsE [OF assms(2) tb(1)] .
  have old: "\<exists>r\<in>set (tb_rows tb). \<forall>c\<in>set ?cs. r' c = r c" if "r' \<in> set (tb_rows tb')" for r'
    using tb'(2) tb(2) that unfolding tableGrows_def list_all_iff by blast
  have "\<not> duplicateIn cols notNull (tb_rows tb') a'" if a': "a' \<in> set (tb_rows tb')" for a'
  proof
    assume dup: "duplicateIn cols notNull (tb_rows tb') a'"
    obtain a where a: "a \<in> set (tb_rows tb)" "\<forall>c\<in>set ?cs. a' c = a c" using old [OF a'] by blast
    have "duplicateIn cols notNull (tb_rows tb) a"
    proof (rule duplicate_cong [OF dup])
      show "case notNull of None \<Rightarrow> True | Some c \<Rightarrow> c \<in> set cols" using assms(3) DeleteDuplicates by simp
      show "a c = a' c" if "c \<in> set ?cs" for c using a(2) that by metis
      show "\<exists>b'\<in>set (tb_rows tb). \<forall>c\<in>set ?cs. b' c = b c" if "b \<in> set (tb_rows tb')" for b
        using old [OF that] by metis
    qed
    then show False using tb(3) a(1) by blast
  qed
  moreover have "list_all (hasColumn tb') ?cs"
    using tb(2) hasColumn_grows [OF tb'(2)] by (auto simp: list_all_iff)
  ultimately show ?thesis using tb'(1) DeleteDuplicates by auto
next
  case (AddConstraint t n k)
  then obtain tb where tb: "tableNamed t db = Some tb" "hasShape k tb" using assms(1) by auto
  obtain tb' where tb': "tableNamed t db' = Some tb'" "tableGrows tb tb'" using growsE [OF assms(2) tb(1)] .
  then have "hasShape k tb'" using tb(2) by (auto simp: hasShape_def list_ex_iff tableGrows_def)
  then show ?thesis using tb'(1) AddConstraint by simp
next
  case (CreateIndex n ix)
  then show ?thesis using assms(1,2) unfolding grows_def by fastforce
next
  case (AddEnumValue t c label)
  then obtain tb d n where tb: "tableNamed t db = Some tb" "map_of (tb_columns tb) c = Some d"
      "co_type d = SqlEnum n" "n \<in> set (map fst (db_enums db))"
      "\<forall>labels. (n, labels) \<in> set (db_enums db) \<longrightarrow> label \<in> set labels"
    using assms(1) unfolding AddEnumValue satisfied.simps by blast
  obtain tb' where tb': "tableNamed t db' = Some tb'" "tableGrows tb tb'" using growsE [OF assms(2) tb(1)] .
  then obtain d' where "map_of (tb_columns tb') c = Some d'" "co_type d' = SqlEnum n"
    using tb(2,3) unfolding tableGrows_def by metis
  moreover have "n \<in> set (map fst (db_enums db'))" using assms(2) tb(4) by (auto simp: grows_def)
  moreover have "label \<in> set labels" if "(n, labels) \<in> set (db_enums db')" for labels
    
  proof -
    have "n \<in> set (typeNames db)" using tb(4) by (simp add: typeNames_def)
    then obtain l where "(n, l) \<in> set (db_enums db)" "set l \<subseteq> set labels"
      using assms(2) \<open>(n, labels) \<in> set (db_enums db')\<close> unfolding grows_def by blast
    then show ?thesis using tb(5) by blast
  qed
  ultimately show ?thesis using tb'(1) unfolding AddEnumValue satisfied.simps by blast
qed (use assms in \<open>auto simp: grows_def\<close>)

text \<open>... and is then left alone.\<close>

lemma satisfied_noop:
  assumes "satisfied db st" "guardedOnly st"
  shows "exec st db = Inr db"
proof (cases st)
  case (DropNotNull t c)
  then show ?thesis using assms
    by (auto simp: withTable_def hasColumn_def nullable_same setTable_same)
next
  case (DeleteDuplicates t cols notNull)
  have "withoutDuplicates cols notNull rs = rs" if "\<forall>a\<in>set rs. \<not> duplicateIn cols notNull rs a" for rs
    using that by (simp add: withoutDuplicates_def)
  then show ?thesis using DeleteDuplicates assms by (auto simp: withTable_def setTable_same)
next
  case (AddEnumValue t c label)
  then obtain tb d n where tb: "tableNamed t db = Some tb" "map_of (tb_columns tb) c = Some d"
      "co_type d = SqlEnum n" "\<forall>labels. (n, labels) \<in> set (db_enums db) \<longrightarrow> label \<in> set labels"
      "n \<in> set (map fst (db_enums db))"
    using assms(1) unfolding AddEnumValue satisfied.simps by blast
  have "withLabel n label db = db"
    using tb(4) by (auto simp: withLabel_def intro!: database.equality map_idI)
  then show ?thesis using tb AddEnumValue by auto
qed (use assms in \<open>auto simp: withTable_def\<close>)

section \<open>Running the baseline\<close>

lemma run_grows: "run sts db = Inr db' \<Longrightarrow> list_all guardedOnly sts \<Longrightarrow> grows db db'"
  by (induction sts arbitrary: db) (auto split: sum.splits intro: grows_trans exec_grows)

lemma run_satisfies: "run sts db = Inr db' \<Longrightarrow> list_all guardedOnly sts \<Longrightarrow> list_all (satisfied db') sts"
proof (induction sts arbitrary: db)
  case (Cons st sts)
  from Cons.prems obtain mid where mid: "exec st db = Inr mid" "run sts mid = Inr db'"
    by (auto split: sum.splits)
  have "satisfied db' st"
    using satisfied_grows [OF exec_satisfies [OF mid(1)] run_grows [OF mid(2)]] Cons.prems(2) by simp
  then show ?case using Cons.IH [OF mid(2)] Cons.prems(2) by simp
qed simp

lemma run_noop: "list_all (satisfied db) sts \<Longrightarrow> list_all guardedOnly sts \<Longrightarrow> run sts db = Inr db"
  by (induction sts) (simp_all add: satisfied_noop)

lemmas baseline_parts = baselineTypes_def baselineTables_def baselineReconcile_def baselineDeduplicate_def
  baselineKeys_def baselineIndexes_def baselineForeignKeys_def

lemma guarded_baseline: "list_all guardedOnly baseline"
  by (simp add: baseline_def baseline_parts)

text \<open>The statements every run of the migrations goes through.\<close>

definition common :: "statement list" where
  "common = baseline @ addRoleToUsers @ addRoleToDrivers @ addCarCategory"

lemma guarded_common: "list_all guardedOnly common"
  using guarded_baseline
  by (simp add: common_def addRoleToUsers_def addRoleToDrivers_def addCarCategory_def)

lemma guarded_origin: "list_all guardedOnly addOriginChannelBody"
  by (simp add: addOriginChannelBody_def)

lemma common_tables:
  assumes "list_all (satisfied db) common"
  shows "\<exists>tb. tableNamed ''ledger_entries'' db = Some tb" "\<exists>tb. tableNamed ''rides'' db = Some tb"
    "\<exists>tb. tableNamed ''emergency_incidents'' db = Some tb"
proof -
  have mem: "satisfied db st" if "st \<in> set common" for st using assms that by (simp add: list_all_iff)
  show "\<exists>tb. tableNamed ''ledger_entries'' db = Some tb"
    using mem [of "DeleteDuplicates ''ledger_entries'' [''rideId'', ''type''] (Some ''rideId'')"]
    by (auto simp: common_def baseline_def baselineDeduplicate_def)
  show "\<exists>tb. tableNamed ''rides'' db = Some tb"
    using mem [of "AddEnumValue ''rides'' ''category'' ''car''"] by (auto simp: common_def addCarCategory_def)
  show "\<exists>tb. tableNamed ''emergency_incidents'' db = Some tb"
    using mem [of "CreateIndex ''idx_emergency_ride'' (plainIndex ''emergency_incidents'' [''rideId''])"]
    by (auto simp: common_def baseline_def baselineIndexes_def plainIndex_def)
qed

lemma runAll_common:
  assumes "list_all (satisfied db) common"
  shows "createLedger db = Inr db" "createEmergency db = Inr db"
  using common_tables [OF assms] by (auto simp: createLedger_def createEmergency_def)

lemma runAll_split:
  "runAll migrations db = (case run common db of Inl e \<Rightarrow> Inl e
     | Inr mid \<Rightarrow> runAll [createLedger, addOriginChannel, createEmergency] mid)"
  by (simp add: migrations_def common_def run_append split: sum.split)

lemma addOrigin_grows:
  assumes "addOriginChannel db = Inr db'"
  shows "grows db db'" "(\<exists>tb. tableNamed ''rides'' db = Some tb) \<longrightarrow> (\<exists>tb. tableNamed ''rides'' db' = Some tb \<and> hasColumn tb ''originChannel'')"
proof -
  show "grows db db'"
    using assms run_grows [OF _ guarded_origin] by (auto simp: addOriginChannel_def split: option.splits if_splits)
  have "satisfied db' (AddColumn ''rides'' ''originChannel'' (SqlEnum ''ride_origin_channel_enum'') True
      (Some (VText ''app'')))" if "run addOriginChannelBody db = Inr db'"
    using run_satisfies [OF that guarded_origin] by (simp add: addOriginChannelBody_def)
  then show "(\<exists>tb. tableNamed ''rides'' db = Some tb) \<longrightarrow> (\<exists>tb. tableNamed ''rides'' db' = Some tb \<and> hasColumn tb ''originChannel'')"
    using assms by (auto simp: addOriginChannel_def split: option.splits if_splits)
qed


end
