(* ===== verification/FreshSchema.thy ===== *)
theory FreshSchema
  imports MigrationRules
begin

text \<open>
  The migrations on an empty database: the schema they build, what their reversal leaves, and what
  reversing a migration that had nothing to do takes away.
\<close>

definition columnOf :: "string \<Rightarrow> string \<Rightarrow> database \<Rightarrow> columnDef option" where
  "columnOf t c db = Option.bind (tableNamed t db) (\<lambda>tb. map_of (tb_columns tb) c)"

definition afterwards :: "(database \<Rightarrow> bool) \<Rightarrow> sqlError + database \<Rightarrow> bool" where
  "afterwards P r = (case r of Inl _ \<Rightarrow> False | Inr db \<Rightarrow> P db)"

text \<open>One evaluation of the baseline for all the facts below.\<close>

definition revertedEmergency :: "database \<Rightarrow> bool" where
  "revertedEmergency db2 \<longleftrightarrow> columnOf ''emergency_incidents'' ''id'' db2 = None \<and>
     afterwards (\<lambda>db3. map_option co_type (columnOf ''emergency_incidents'' ''status'' db3) =
       Some (SqlEnum ''emergency_status_enum'')) (createEmergency db2)"

definition revertedLedger :: "database \<Rightarrow> bool" where
  "revertedLedger db2 \<longleftrightarrow> columnOf ''ledger_entries'' ''amount'' db2 = None \<and>
     columnOf ''users'' ''cashbackBalance'' db2 = None"

definition nothingLeft :: "database \<Rightarrow> bool" where
  "nothingLeft db2 \<longleftrightarrow> map fst (db_tables db2) = [] \<and> map fst (db_enums db2) = [] \<and>
     map fst (db_indexes db2) = []"

definition freshOk :: "database \<Rightarrow> bool" where
  "freshOk db \<longleftrightarrow>
     columnOf ''users'' ''role'' db \<noteq> None \<and> columnOf ''drivers'' ''role'' db \<noteq> None \<and>
     columnOf ''rides'' ''originChannel'' db \<noteq> None \<and>
     ''users_role_enum'' \<in> set (typeNames db) \<and> ''drivers_role_enum'' \<in> set (typeNames db) \<and>
     map_option co_type (columnOf ''rides'' ''category'' db) = Some (SqlEnum ''rides_category_enum'') \<and>
     ''rides_category_enum'' \<in> set (map fst (db_enums db)) \<and>
     list_all (\<lambda>(n, labels). n = ''rides_category_enum'' \<longrightarrow> ''car'' \<in> set labels) (db_enums db) \<and>
     afterwards revertedEmergency (run createEmergencyDown db) \<and>
     afterwards revertedLedger (run createLedgerDown db) \<and> afterwards nothingLeft (run baselineDown db)"

lemma fresh_facts: "afterwards freshOk (run baseline emptyDb)"
  by code_simp

lemma afterwardsE:
  assumes "afterwards P r"
  obtains db where "r = Inr db" "P db"
  using assms by (auto simp: afterwards_def split: sum.splits)

lemma columnOf_Some: "columnOf t c db \<noteq> None \<longleftrightarrow> (\<exists>tb. tableNamed t db = Some tb \<and> hasColumn tb c)"
  by (auto simp: columnOf_def hasColumn_def bind_eq_Some_conv split: bind_splits)

lemma fresh_database:
  obtains db where "run baseline emptyDb = Inr db" "runAll migrations emptyDb = Inr db"
    "createEmergency db = Inr db" "createLedger db = Inr db" "list_all (satisfied db) common" "freshOk db"
proof -
  from fresh_facts obtain db where db: "run baseline emptyDb = Inr db" and ok: "freshOk db"
    by (rule afterwardsE)
  note cols = ok [unfolded freshOk_def, THEN conjunct1]
    ok [unfolded freshOk_def, THEN conjunct2, THEN conjunct1]
    ok [unfolded freshOk_def, THEN conjunct2, THEN conjunct2, THEN conjunct1]
  have enums: "''users_role_enum'' \<in> set (typeNames db)" "''drivers_role_enum'' \<in> set (typeNames db)"
      "map_option co_type (columnOf ''rides'' ''category'' db) = Some (SqlEnum ''rides_category_enum'')"
      "''rides_category_enum'' \<in> set (map fst (db_enums db))"
      "list_all (\<lambda>(n, labels). n = ''rides_category_enum'' \<longrightarrow> ''car'' \<in> set labels) (db_enums db)"
    using ok unfolding freshOk_def by blast+
  obtain tb d where cat: "tableNamed ''rides'' db = Some tb" "map_of (tb_columns tb) ''category'' = Some d"
      "co_type d = SqlEnum ''rides_category_enum''"
    using enums(3) by (auto simp: columnOf_def bind_eq_Some_conv)
  have "satisfied db (AddEnumValue ''rides'' ''category'' ''car'')"
    unfolding satisfied.simps using cat enums(4,5) unfolding list_all_iff by blast
  then have sat: "list_all (satisfied db) common"
    using run_satisfies [OF db guarded_baseline] cols(1,2) [unfolded columnOf_Some] enums(1,2)
    by (simp add: common_def addRoleToUsers_def addRoleToDrivers_def addCarCategory_def
        del: satisfied.simps(9))
  then have parts: "run common db = Inr db" "createLedger db = Inr db" "createEmergency db = Inr db"
    using run_noop guarded_common runAll_common by blast+
  have "run (addRoleToUsers @ addRoleToDrivers @ addCarCategory) db = Inr db"
    using sat guarded_common by (intro run_noop) (simp_all add: common_def)
  then have "run common emptyDb = Inr db" using db by (simp add: common_def run_append)
  moreover have "addOriginChannel db = Inr db"
    using cols(3) unfolding columnOf_Some by (auto simp: addOriginChannel_def)
  ultimately have "runAll migrations emptyDb = Inr db" using parts(2,3) by (simp add: runAll_split)
  then show ?thesis using that db parts sat ok by blast
qed


text \<open>The baseline builds the schema from nothing and its reversal leaves nothing behind.\<close>

theorem baseline_down_leaves_nothing:
  "\<exists>db gone. run baseline emptyDb = Inr db \<and> run baselineDown db = Inr gone \<and>
     db_tables gone = [] \<and> db_enums gone = [] \<and> db_indexes gone = []"
proof -
  obtain db where db: "run baseline emptyDb = Inr db" "freshOk db" by (rule fresh_database)
  from db(2) have "afterwards nothingLeft (run baselineDown db)" unfolding freshOk_def by blast
  then obtain gone where "run baselineDown db = Inr gone" "nothingLeft gone" by (rule afterwardsE)
  then show ?thesis using db(1) by (simp add: nothingLeft_def)
qed

text \<open>A finding: on a database the baseline built, the two guarded migrations do nothing, but their
  reversal drops the tables of the baseline with everything in them (the incident log, the ledger
  and the cashback of the riders), and running the first one again builds its table with the other
  enum types.\<close>

theorem reverting_a_skipped_migration_destroys:
  "\<exists>db db2 db4. run baseline emptyDb = Inr db \<and> createEmergency db = Inr db \<and> createLedger db = Inr db \<and>
     run createEmergencyDown db = Inr db2 \<and> revertedEmergency db2 \<and>
     run createLedgerDown db = Inr db4 \<and> revertedLedger db4"
proof -
  obtain db where db: "run baseline emptyDb = Inr db" "createEmergency db = Inr db" "createLedger db = Inr db"
    "freshOk db" by (rule fresh_database)
  from db(4) have down: "afterwards revertedEmergency (run createEmergencyDown db)"
      "afterwards revertedLedger (run createLedgerDown db)" unfolding freshOk_def by blast+
  obtain db2 where "run createEmergencyDown db = Inr db2" "revertedEmergency db2"
    using down(1) by (rule afterwardsE)
  moreover obtain db4 where "run createLedgerDown db = Inr db4" "revertedLedger db4"
    using down(2) by (rule afterwardsE)
  ultimately show ?thesis using db(1-3) by blast
qed

end
