(* ===== verification/SchemaData.thy ===== *)
theory SchemaData
  imports FreshSchema Api "HOL-Library.Product_Lexorder"
begin

text \<open>
  The data under the schema: what the de-duplication of the baseline keeps, and that the values the
  services store fit the columns the baseline declares.
\<close>

section \<open>De-duplication\<close>

fun touches :: "string \<Rightarrow> statement \<Rightarrow> bool" where
  "touches t (AddColumn u _ _ _ _) \<longleftrightarrow> u = t"
| "touches t (DeleteDuplicates u _ _) \<longleftrightarrow> u = t"
| "touches t _ \<longleftrightarrow> False"

definition rowsOf :: "string \<Rightarrow> database \<Rightarrow> sqlRow list option" where
  "rowsOf t db = map_option tb_rows (tableNamed t db)"

lemma rowsOf_setTable [simp]:
  "rowsOf u (setTable t tb db) = (if u = t then Some (tb_rows tb) else rowsOf u db)"
  by (simp add: rowsOf_def)

lemma rows_nullable [simp]: "tb_rows (nullable c tb) = tb_rows tb"
  by (simp add: nullable_def split: option.split)

lemma rows_constraint [simp]:
  "tb_rows (appendConstraint n k tb) = tb_rows tb" "tb_rows (markNotNull cols tb) = tb_rows tb"
  by (simp_all add: appendConstraint_def markNotNull_def)

lemma addConstraint_rows: "addConstraint t n k db = Inr db' \<Longrightarrow> rowsOf u db' = rowsOf u db"
  by (cases k) (auto simp: addConstraint_def withTable_Inr rowsOf_def split: if_splits)

lemma exec_rows:
  assumes "exec st db = Inr db'" "guardedOnly st" "\<not> touches t st" "rowsOf t db = Some rs"
  shows "rowsOf t db' = Some rs"
proof (cases st)
  case (CreateTable u cols ks)
  have fresh: "u \<in> set (relationNames db)" if "u = t"
    using assms(4) map_of_SomeD that by (force simp: rowsOf_def tableNamed_def relationNames_set)
  from CreateTable show ?thesis using assms
    using fresh by (auto split: if_splits)
next
  case (AddEnumValue u c label)
  show ?thesis using assms(1) unfolding AddEnumValue
    by (rule addEnumValue_Inr) (use assms(4) in \<open>simp add: rowsOf_def\<close>)
next
  case (AddConstraint u n k)
  then show ?thesis using assms(1,4) addConstraint_rows by (auto simp: withTable_Inr split: if_splits)
next
  case (DropNotNull u c)
  then show ?thesis using assms(1,4) by (auto simp: withTable_Inr rowsOf_def split: if_splits)
next
  case (AddColumn u c ty notNull v)
  then show ?thesis using assms by (auto simp: withTable_Inr split: if_splits)
next
  case (DeleteDuplicates u cols notNull)
  then show ?thesis using assms by (auto simp: withTable_Inr split: if_splits)
next
  case (CreateIndex n ix)
  then show ?thesis using assms(1,4) by (auto simp: withTable_Inr rowsOf_def split: if_splits)
qed (use assms in \<open>auto simp: rowsOf_def split: if_splits\<close>)

lemma run_rows:
  "run sts db = Inr db' \<Longrightarrow> list_all guardedOnly sts \<Longrightarrow> list_all (\<lambda>st. \<not> touches t st) sts \<Longrightarrow>
   rowsOf t db = Some rs \<Longrightarrow> rowsOf t db' = Some rs"
  by (induction sts arbitrary: db) (auto split: sum.splits dest: exec_rows)

lemma run_deduplicates:
  assumes "run (before @ DeleteDuplicates t cols notNull # after) db = Inr db'"
    and "list_all guardedOnly (before @ after)" "list_all (\<lambda>st. \<not> touches t st) (before @ after)"
    and "rowsOf t db = Some rs"
  shows "rowsOf t db' = Some (withoutDuplicates cols notNull rs)"
proof -
  obtain m1 m2 where m: "run before db = Inr m1" "exec (DeleteDuplicates t cols notNull) m1 = Inr m2"
      "run after m2 = Inr db'"
    using assms(1) unfolding run_append_Inr run.simps by (metis (lifting) sum.case_eq_if sum.collapse(2) sum.disc(1) sum.sel(2) Inl_Inr_False)
  have "rowsOf t m1 = Some rs" using run_rows [OF m(1)] assms(2-4) by simp
  then have "rowsOf t m2 = Some (withoutDuplicates cols notNull rs)"
    using m(2) by (auto simp: withTable_Inr rowsOf_def split: if_splits)
  then show ?thesis using run_rows [OF m(3)] assms(2,3) by simp
qed

text \<open>Rows with a creation time and an id, no two with the same id.\<close>

definition datedRows :: "sqlRow list \<Rightarrow> bool" where
  "datedRows rs \<longleftrightarrow> (\<forall>r\<in>set rs. \<exists>c i. r ''createdAt'' = Some (VInt c) \<and> r ''id'' = Some (VInt i)) \<and>
     inj_on (\<lambda>r. r ''id'') (set rs)"

fun intOf :: "sqlValue option \<Rightarrow> int" where
  "intOf (Some (VInt i)) = i"
| "intOf _ = 0"

definition age :: "sqlRow \<Rightarrow> int \<times> int" where
  "age r = (intOf (r ''createdAt''), intOf (r ''id''))"

lemma dated_values:
  assumes "datedRows rs" "r \<in> set rs"
  obtains c i where "r ''createdAt'' = Some (VInt c)" "r ''id'' = Some (VInt i)" "age r = (c, i)"
  using assms by (auto simp: datedRows_def age_def)

lemma laterThan_age:
  assumes "datedRows rs" "a \<in> set rs" "b \<in> set rs"
  shows "laterThan a b \<longleftrightarrow> age b < age a"
  by (rule dated_values [OF assms(1,2)], rule dated_values [OF assms(1,3)])
    (auto simp: laterThan_def sqlGreater_def sqlEqual_def)

lemma age_inject:
  assumes "datedRows rs" "a \<in> set rs" "b \<in> set rs" "age a = age b"
  shows "a = b"
proof -
  have "a ''id'' = b ''id''"
    by (rule dated_values [OF assms(1,2)], rule dated_values [OF assms(1,3)]) (use assms(4) in simp)
  then show ?thesis using assms(1-3) by (simp add: datedRows_def inj_on_def)
qed

lemma sameKey_iff: "sameKey cols a b \<longleftrightarrow> (\<forall>c\<in>set cols. a c = b c \<and> b c \<noteq> None)"
  unfolding sameKey_def sqlEqual_def list_all_iff by metis

lemma sameKey_sym: "sameKey cols a b \<longleftrightarrow> sameKey cols b a"
  unfolding sameKey_iff by metis

lemma sameKey_trans: "sameKey cols a b \<Longrightarrow> sameKey cols b c \<Longrightarrow> sameKey cols a c"
  unfolding sameKey_iff by metis

lemma earliest_survives:
  assumes dated: "datedRows rs" and r: "r \<in> set rs" "\<forall>c\<in>set cols. r c \<noteq> None"
    and p: "case notNull of None \<Rightarrow> True | Some c \<Rightarrow> c \<in> set cols"
  obtains k where "k \<in> set (withoutDuplicates cols notNull rs)" "sameKey cols k r"
    "\<And>q. q \<in> set rs \<Longrightarrow> sameKey cols q r \<Longrightarrow> q = k \<or> laterThan q k"
    "\<And>q. q \<in> set (withoutDuplicates cols notNull rs) \<Longrightarrow> sameKey cols q r \<Longrightarrow> q = k"
proof -
  let ?G = "{q \<in> set rs. sameKey cols q r}"
  have self: "r \<in> ?G" using r by (simp add: sameKey_iff)
  define k where "k = arg_min_on age ?G"
  have k: "k \<in> ?G" "\<not> (\<exists>x\<in>?G. age x < age k)"
    using arg_min_if_finite [of ?G age] self unfolding k_def by auto
  have later: "q = k \<or> laterThan q k" if "q \<in> set rs" "sameKey cols q r" for q
    using k that age_inject [OF dated] laterThan_age [OF dated] by (metis (mono_tags, lifting) linorder_neqE mem_Collect_eq)
  have "k \<in> set (withoutDuplicates cols notNull rs)"
    using k laterThan_age [OF dated] sameKey_trans [of cols _ k r] sameKey_sym
    by (auto simp: withoutDuplicates_def duplicateIn_def list_ex_iff)
  moreover have "q = k" if q: "q \<in> set (withoutDuplicates cols notNull rs)" "sameKey cols q r" for q
  proof (rule ccontr)
    assume "q \<noteq> k"
    then have "laterThan q k" using later q by (auto simp: withoutDuplicates_def)
    moreover have "sameKey cols q k" using q(2) k(1) sameKey_trans sameKey_sym by blast
    moreover have "case notNull of None \<Rightarrow> True | Some c \<Rightarrow> q c \<noteq> None"
      using q(2) p unfolding sameKey_iff by (cases notNull) auto
    ultimately have "duplicateIn cols notNull rs q" using k(1) by (auto simp: duplicateIn_def list_ex_iff)
    then show False using q(1) by (simp add: withoutDuplicates_def)
  qed
  ultimately show ?thesis using that k(1) later by blast
qed

definition deduplicated :: "(string \<times> string list \<times> string option) list" where
  "deduplicated = [(''ratings'', [''rideId'', ''raterId''], None),
     (''ledger_entries'', [''rideId'', ''type''], Some ''rideId'')]"

lemma baseline_rows:
  assumes "run baseline db = Inr db'" "(t, cols, notNull) \<in> set deduplicated" "rowsOf t db = Some rs"
  shows "rowsOf t db' = Some (withoutDuplicates cols notNull rs)"
proof -
  let ?first = "CreateExtension ''uuid-ossp'' # baselineTypes @ baselineTables @ baselineReconcile"
  let ?last = "baselineKeys @ baselineIndexes @ baselineForeignKeys"
  let ?R = "DeleteDuplicates ''ratings'' [''rideId'', ''raterId''] None"
  let ?L = "DeleteDuplicates ''ledger_entries'' [''rideId'', ''type''] (Some ''rideId'')"
  have split: "baseline = ?first @ ?R # (?L # ?last)" "baseline = (?first @ [?R]) @ ?L # ?last"
    by (simp_all add: baseline_def baselineDeduplicate_def)
  have adds: "list_all guardedOnly (?first @ [?R, ?L] @ ?last)"
    using guarded_baseline unfolding split(1) by simp
  have calm: "list_all (\<lambda>st. \<not> touches ''ratings'' st \<and> \<not> touches ''ledger_entries'' st) (?first @ ?last)"
    by (simp add: baseline_parts)
  from assms(2) consider "t = ''ratings''" "cols = [''rideId'', ''raterId'']" "notNull = None"
    | "t = ''ledger_entries''" "cols = [''rideId'', ''type'']" "notNull = Some ''rideId''"
    by (auto simp: deduplicated_def)
  then show ?thesis
  proof cases
    case 1
    then show ?thesis using run_deduplicates [OF assms(1) [unfolded split(1)] _ _ assms(3) [unfolded 1]] adds calm
      by (simp add: list_all_iff)
  next
    case 2
    then show ?thesis using run_deduplicates [OF assms(1) [unfolded split(2)] _ _ assms(3) [unfolded 2]] adds calm
      by (simp add: list_all_iff)
  qed
qed


text \<open>A database of the finished schema without its unique indexes holding: two ratings of one ride by
  one rider, the later one stored first.\<close>

definition demoRating :: "int \<Rightarrow> int \<Rightarrow> sqlRow" where
  "demoRating i time = (\<lambda>_. None)(''id'' := Some (VInt i), ''createdAt'' := Some (VInt time),
     ''rideId'' := Some (VInt 7), ''raterId'' := Some (VInt 1))"

lemma satisfied_rows:
  assumes "satisfied db st" "\<not> touches t st" "tableNamed t db = Some tb"
  shows "satisfied (setTable t (tb\<lparr>tb_rows := rs\<rparr>) db) st"
proof -
  have names: "set (relationNames db) \<subseteq> set (relationNames (setTable t (tb\<lparr>tb_rows := rs\<rparr>) db))"
    "set (typeNames db) \<subseteq> set (typeNames (setTable t (tb\<lparr>tb_rows := rs\<rparr>) db))"
    using setTable_keeps_names [OF assms(3), of "tb\<lparr>tb_rows := rs\<rparr>"] by simp_all
  have "primaryColumns (tb\<lparr>tb_rows := rs\<rparr>) = primaryColumns tb" "hasShape k (tb\<lparr>tb_rows := rs\<rparr>) = hasShape k tb"
    for k by (simp_all add: primaryColumns_def hasShape_def)
  then show ?thesis using assms names by (cases st) (auto, force)
qed

lemma run_middle:
  "run first db = Inr db \<Longrightarrow> exec st db = Inr db' \<Longrightarrow> run rest db' = Inr db' \<Longrightarrow>
   run (first @ st # rest) db = Inr db'"
  by (simp add: run_append)

lemma run_with_duplicates:
  assumes base: "list_all (satisfied db) baseline"
  obtains db1 db2 where "run baseline db1 = Inr db2" "rowsOf ''ratings'' db1 = Some rs"
proof -
  let ?first = "CreateExtension ''uuid-ossp'' # baselineTypes @ baselineTables @ baselineReconcile"
  let ?R = "DeleteDuplicates ''ratings'' [''rideId'', ''raterId''] None"
  let ?L = "DeleteDuplicates ''ledger_entries'' [''rideId'', ''type''] (Some ''rideId'')"
  let ?rest = "?L # baselineKeys @ baselineIndexes @ baselineForeignKeys"
  have split: "baseline = ?first @ ?R # ?rest" by (simp add: baseline_def baselineDeduplicate_def)
  have adds: "list_all guardedOnly ?first" "guardedOnly ?R" "list_all guardedOnly ?rest"
    using guarded_baseline unfolding split by simp_all
  have calm: "list_all (\<lambda>st. \<not> touches ''ratings'' st) (?first @ ?rest)" by (simp add: baseline_parts)
  have "satisfied db ?R" using base unfolding split by simp
  then obtain tb where tb: "tableNamed ''ratings'' db = Some tb"
      "list_all (hasColumn tb) [''rideId'', ''raterId'', ''createdAt'', ''id'']" by auto
  define db1 where "db1 = setTable ''ratings'' (tb\<lparr>tb_rows := rs\<rparr>) db"
  have "list_all (satisfied db1) (?first @ ?rest)"
    using base calm satisfied_rows [OF _ _ tb(1)] unfolding split db1_def list_all_iff by auto
  then have sat: "list_all (satisfied db1) ?first" "list_all (satisfied db1) ?rest" by simp_all
  obtain db2 where db2: "exec ?R db1 = Inr db2" using tb(2) by (auto simp: db1_def withTable_def)
  have "list_all (satisfied db2) ?rest"
    using sat(2) satisfied_grows [OF _ exec_grows [OF db2 adds(2)]] adds(3) unfolding list_all_iff by blast
  from run_middle [OF run_noop [OF sat(1) adds(1)] db2 run_noop [OF this adds(3)]]
  have "run baseline db1 = Inr db2" unfolding split .
  then show ?thesis using that by (simp add: db1_def rowsOf_def)
qed


section \<open>Values in their columns\<close>

text \<open>The column a table is declared with by the baseline, and the amounts it can hold.\<close>

definition declaredColumns :: "string \<Rightarrow> (string \<times> columnDef) list" where
  "declaredColumns t =
     concat (map (\<lambda>st. case st of CreateTable u cols _ \<Rightarrow> if u = t then cols else [] | _ \<Rightarrow> []) baselineTables)"

fun holdsAmount :: "sqlType \<Rightarrow> dec2 \<Rightarrow> bool" where
  "holdsAmount (SqlNumeric precision scale) k \<longleftrightarrow> scale = 2 \<and> \<bar>k\<bar> < 10 ^ precision"
| "holdsAmount _ k \<longleftrightarrow> False"

definition fitsColumn :: "string \<Rightarrow> string \<Rightarrow> dec2 \<Rightarrow> bool" where
  "fitsColumn t c k \<longleftrightarrow>
     (case map_of (declaredColumns t) c of None \<Rightarrow> False | Some d \<Rightarrow> holdsAmount (co_type d) k)"

lemma declared_amounts:
  "fitsColumn ''users'' ''cashbackBalance'' k \<longleftrightarrow> fits_decimal 12 k"
  "fitsColumn ''drivers'' ''walletBalance'' k \<longleftrightarrow> fits_decimal 10 k"
  "fitsColumn ''rides'' ''estimatedFare'' k \<longleftrightarrow> fits_decimal 10 k"
  "fitsColumn ''rides'' ''finalFare'' k \<longleftrightarrow> fits_decimal 10 k"
  "fitsColumn ''ledger_entries'' ''amount'' k \<longleftrightarrow> fits_decimal 12 k"
  by (simp_all add: fitsColumn_def declaredColumns_def baselineTables_def column_defs fits_decimal_def)

definition idRows :: "nat list \<Rightarrow> sqlRow list" where
  "idRows ids = map (\<lambda>i. (\<lambda>_. None)(''id'' := Some (VInt (int i)))) ids"

lemma keyHolds_ids: "keyHolds [''id''] (idRows ids) \<longleftrightarrow> distinct ids"
  by (induction ids) (auto simp: idRows_def list_ex_iff sameKey_iff)



end
