(* ===== verification/JsValue.thy ===== *)
theory JsValue
  imports JsString
begin

text \<open>
  JavaScript values as they come out of \<open>JSON.parse\<close> or a verified token, for the code that looks into
  a value whose shape nobody has checked yet.
\<close>

text \<open>A JavaScript value; \<open>JsNothing\<close> is both \<open>null\<close> and \<open>undefined\<close>, which the code treats alike.\<close>

datatype js =
    JsNothing
  | JsBoolean bool
  | JsNumber num
  | JsText string
  | JsList "js list"
  | JsRecord "(string \<times> js) list"

definition field :: "js \<Rightarrow> string \<Rightarrow> js" where
  "field v name =
     (case v of JsRecord fs \<Rightarrow> (case map_of fs name of None \<Rightarrow> JsNothing | Some x \<Rightarrow> x) | _ \<Rightarrow> JsNothing)"

fun truthyValue :: "js \<Rightarrow> bool" where
  "truthyValue JsNothing \<longleftrightarrow> False"
| "truthyValue (JsBoolean b) \<longleftrightarrow> b"
| "truthyValue (JsNumber n) \<longleftrightarrow> n \<noteq> 0"
| "truthyValue (JsText t) \<longleftrightarrow> t \<noteq> []"
| "truthyValue _ \<longleftrightarrow> True"

text \<open>\<open>a ?? b\<close>\<close>

definition coalesce :: "js \<Rightarrow> js \<Rightarrow> js" where
  "coalesce a b = (if a = JsNothing then b else a)"

definition textOf :: "js \<Rightarrow> string option" where
  "textOf v = (case v of JsText t \<Rightarrow> Some t | _ \<Rightarrow> None)"

text \<open>An object by its properties, as in the body of a request.\<close>

type_synonym jsObject = "(string \<times> js) list"

definition lookup :: "jsObject \<Rightarrow> string \<Rightarrow> js" where
  "lookup fs name = field (JsRecord fs) name"

lemma size_lookup: "size (lookup fs name) < size (JsRecord fs)"
proof (cases "map_of fs name")
  case (Some v)
  then have "(name, v) \<in> set fs" by (rule map_of_SomeD)
  then have "size v < size (JsRecord fs)"
    by (induction fs) auto
  then show ?thesis using Some by (simp add: lookup_def field_def)
qed (simp add: lookup_def field_def)

end
