(* ===== verification/PrivyTokens.thy ===== *)
theory PrivyTokens
  imports PrivySignIn JsValue
begin

text \<open>
  \<open>src/auth/privy/privy.service.ts\<close>: what the server takes from Privy's tokens. The verification of
  a token is Privy's library (\<open>@privy-io/node\<close>): the argument \<open>sdk\<close> gives the claims of a token that
  verifies for an app and a key, and nothing for any other. \<open>parse\<close> is \<open>JSON.parse\<close>, \<open>None\<close> its
  \<open>SyntaxError\<close>.
\<close>

section \<open>Claims\<close>

text \<open>Privy hands the linked accounts over as an array or as its JSON text.\<close>

definition accountsOf :: "(string \<Rightarrow> js option) \<Rightarrow> js \<Rightarrow> js list option" where
  "accountsOf parse claim =
     (case claim of
        JsText t \<Rightarrow> (case parse t of Some (JsList xs) \<Rightarrow> Some xs | _ \<Rightarrow> None)
      | JsList xs \<Rightarrow> Some xs
      | _ \<Rightarrow> None)"

definition emailAccount :: "js \<Rightarrow> bool" where
  "emailAccount account \<longleftrightarrow> truthyValue account \<and> field account ''type'' = JsText ''email'' \<and>
     (case textOf (field account ''address'') of None \<Rightarrow> False | Some a \<Rightarrow> js_includes a ''@'')"

definition emailFromLinkedAccounts :: "(string \<Rightarrow> js option) \<Rightarrow> js \<Rightarrow> string option" where
  "emailFromLinkedAccounts parse claim =
     (case accountsOf parse claim of
        None \<Rightarrow> None
      | Some accounts \<Rightarrow>
          (case find emailAccount accounts of
             None \<Rightarrow> None
           | Some email \<Rightarrow>
               (case textOf (field email ''address'') of
                  None \<Rightarrow> None
                | Some a \<Rightarrow> if a \<noteq> [] then Some (js_lower (js_trim a)) else None)))"

text \<open>\<open>/^0x[a-fA-F0-9]{40}$/\<close>\<close>

definition hexDigit :: "char \<Rightarrow> bool" where
  "hexDigit c \<longleftrightarrow>
     (let n = of_char c :: nat in 48 \<le> n \<and> n \<le> 57 \<or> 65 \<le> n \<and> n \<le> 70 \<or> 97 \<le> n \<and> n \<le> 102)"

definition EVM_ADDRESS :: "string \<Rightarrow> bool" where
  "EVM_ADDRESS a \<longleftrightarrow> take 2 a = ''0x'' \<and> length a = 42 \<and> list_all hexDigit (drop 2 a)"

definition walletAccount :: "js \<Rightarrow> bool" where
  "walletAccount account \<longleftrightarrow> truthyValue account \<and> field account ''type'' = JsText ''wallet'' \<and>
     coalesce (field account ''chain_type'') (field account ''chainType'') = JsText ''ethereum'' \<and>
     (case textOf (field account ''address'') of None \<Rightarrow> False | Some a \<Rightarrow> EVM_ADDRESS a)"

definition embeddedWallet :: "js \<Rightarrow> bool" where
  "embeddedWallet account \<longleftrightarrow>
     coalesce (field account ''wallet_client_type'') (field account ''walletClientType'') = JsText ''privy''"

definition walletFromLinkedAccounts :: "(string \<Rightarrow> js option) \<Rightarrow> js \<Rightarrow> string option" where
  "walletFromLinkedAccounts parse claim =
     (case accountsOf parse claim of
        None \<Rightarrow> None
      | Some accounts \<Rightarrow>
          let wallets = filter walletAccount accounts;
              embedded = (case find embeddedWallet wallets of
                            Some w \<Rightarrow> Some w
                          | None \<Rightarrow> (case wallets of [] \<Rightarrow> None | w # _ \<Rightarrow> Some w))
          in (case embedded of
                None \<Rightarrow> None
              | Some w \<Rightarrow>
                  (case textOf (field w ''address'') of
                     None \<Rightarrow> None
                   | Some a \<Rightarrow> if a \<noteq> [] then Some (js_lower a) else None)))"

section \<open>The service\<close>

text \<open>Privy's library: the user id of an access token and the user of an identity token, for an app
  id and a key.\<close>

record privySdk =
  sdk_access :: "string \<Rightarrow> string \<Rightarrow> string \<Rightarrow> string option"
  sdk_identity :: "string \<Rightarrow> string \<Rightarrow> string \<Rightarrow> js option"

record privyConfig =
  pc_appId :: "string option"
  pc_verificationKey :: "string option"

text \<open>\<open>replace(/\\n/g, '\n')\<close>: a backslash and an \<open>n\<close> become a line break.\<close>

fun realNewlines :: "string \<Rightarrow> string" where
  "realNewlines (c # d # s) =
     (if c = CHR 0x5C \<and> d = CHR ''n'' then CHR 0x0A # realNewlines s else c # realNewlines (d # s))"
| "realNewlines s = s"

definition privyConfigOf :: "(string \<Rightarrow> string option) \<Rightarrow> privyConfig" where
  "privyConfigOf env = \<lparr>pc_appId = nonempty (map_option js_trim (env ''PRIVY_APP_ID'')),
     pc_verificationKey = nonempty (map_option realNewlines (env ''PRIVY_VERIFICATION_KEY''))\<rparr>"

definition isConfigured :: "privyConfig \<Rightarrow> bool" where
  "isConfigured cfg \<longleftrightarrow> nonempty (pc_appId cfg) \<noteq> None \<and> nonempty (pc_verificationKey cfg) \<noteq> None"

definition verifyAccessToken :: "privySdk \<Rightarrow> privyConfig \<Rightarrow> string \<Rightarrow> string option" where
  "verifyAccessToken sdk cfg token =
     (if \<not> isConfigured cfg \<or> token = [] then None
      else nonempty (sdk_access sdk (the (pc_appId cfg)) (the (pc_verificationKey cfg)) token))"

definition verifiedUser :: "privySdk \<Rightarrow> privyConfig \<Rightarrow> string option \<Rightarrow> js option" where
  "verifiedUser sdk cfg token =
     (if \<not> isConfigured cfg then None
      else case nonempty token of
        None \<Rightarrow> None
      | Some t \<Rightarrow> sdk_identity sdk (the (pc_appId cfg)) (the (pc_verificationKey cfg)) t)"

definition identityFrom ::
  "privySdk \<Rightarrow> (string \<Rightarrow> js option) \<Rightarrow> privyConfig \<Rightarrow> string option \<Rightarrow> PrivyIdentity" where
  "identityFrom sdk parse cfg token =
     (case verifiedUser sdk cfg token of
        None \<Rightarrow> \<lparr>pi_wallet = None, pi_email = None\<rparr>
      | Some user \<Rightarrow>
          let accounts = field user ''linked_accounts''
          in \<lparr>pi_wallet = walletFromLinkedAccounts parse accounts,
              pi_email = emailFromLinkedAccounts parse accounts\<rparr>)"

definition walletFromIdentityToken ::
  "privySdk \<Rightarrow> (string \<Rightarrow> js option) \<Rightarrow> privyConfig \<Rightarrow> string option \<Rightarrow> string option" where
  "walletFromIdentityToken sdk parse cfg token =
     (case verifiedUser sdk cfg token of
        None \<Rightarrow> None
      | Some user \<Rightarrow> walletFromLinkedAccounts parse (field user ''linked_accounts''))"

text \<open>The service as the sign-in uses it.\<close>

definition privyServiceOf ::
  "privySdk \<Rightarrow> (string \<Rightarrow> js option) \<Rightarrow> (string \<Rightarrow> string option) \<Rightarrow> PrivyService" where
  "privyServiceOf sdk parse env =
     (let cfg = privyConfigOf env
      in \<lparr>pv_isConfigured = isConfigured cfg, pv_verifyAccessToken = verifyAccessToken sdk cfg,
          pv_identityFrom = identityFrom sdk parse cfg\<rparr>)"

section \<open>Where an identity comes from\<close>

definition attests ::
  "privySdk \<Rightarrow> (string \<Rightarrow> js option) \<Rightarrow> privyConfig \<Rightarrow> string option \<Rightarrow> js list \<Rightarrow> bool" where
  "attests sdk parse cfg token accounts \<longleftrightarrow>
     (\<exists>user. verifiedUser sdk cfg token = Some user \<and>
        accountsOf parse (field user ''linked_accounts'') = Some accounts)"

lemma hexDigit_lower: "hexDigit c \<Longrightarrow> hexDigit (lower_char c)"
proof -
  assume h: "hexDigit c"
  let ?n = "of_char c :: nat"
  show ?thesis
  proof (cases "65 \<le> ?n \<and> ?n \<le> 90")
    case True
    then have "of_char (lower_char c) = ?n + 32" by (simp add: lower_char_def)
    then show ?thesis using h True by (auto simp: hexDigit_def Let_def)
  next
    case False
    then show ?thesis using h by (auto simp: lower_char_def Let_def)
  qed
qed

lemma EVM_lower: "EVM_ADDRESS a \<Longrightarrow> EVM_ADDRESS (js_lower a)"
proof -
  assume a: "EVM_ADDRESS a"
  then obtain rest where rest: "a = ''0x'' @ rest" by (metis EVM_ADDRESS_def append_take_drop_id)
  have low: "lower_char CHR ''0'' = CHR ''0''" "lower_char CHR ''x'' = CHR ''x''"
    by (simp_all add: lower_char_def)
  then have "js_lower a = ''0x'' @ map lower_char rest" by (simp add: rest js_lower_def)
  then show ?thesis using a rest hexDigit_lower by (simp add: EVM_ADDRESS_def list_all_iff)
qed

lemma lower_lower: "js_lower (js_lower a) = js_lower a"
proof -
  have "lower_char (lower_char c) = lower_char c" for c
  proof (cases "65 \<le> (of_char c :: nat) \<and> (of_char c :: nat) \<le> 90")
    case True
    then have "of_char (lower_char c) = (of_char c :: nat) + 32" by (simp add: lower_char_def)
    then show ?thesis using True by (subst lower_char_def) simp
  qed (auto simp: lower_char_def Let_def)
  then show ?thesis by (simp add: js_lower_def)
qed

lemma wallet_attested:
  assumes "pi_wallet (identityFrom sdk parse cfg token) = Some w"
  obtains accounts a address where "attests sdk parse cfg token accounts" "a \<in> set accounts" "walletAccount a"
    "field a ''address'' = JsText address" "w = js_lower address" "EVM_ADDRESS w"
    "embeddedWallet a \<or> \<not> (\<exists>b\<in>set accounts. walletAccount b \<and> embeddedWallet b)"
proof -
  obtain user accounts where u: "verifiedUser sdk cfg token = Some user"
      "accountsOf parse (field user ''linked_accounts'') = Some accounts"
      "walletFromLinkedAccounts parse (field user ''linked_accounts'') = Some w"
    using assms by (auto simp: identityFrom_def Let_def walletFromLinkedAccounts_def split: option.splits)
  let ?ws = "filter walletAccount accounts"
  obtain a address where a: "(find embeddedWallet ?ws = Some a \<or> find embeddedWallet ?ws = None \<and> (\<exists>rest. ?ws = a # rest))"
      "field a ''address'' = JsText address" "w = js_lower address"
    using u(2,3) by (auto simp: walletFromLinkedAccounts_def Let_def textOf_def
        split: option.splits list.splits js.splits if_splits)
  have mem: "a \<in> set ?ws" using a(1) find_SomeD by (metis list.set_intros(1))
  then have acc: "a \<in> set accounts" "walletAccount a" by auto
  have "EVM_ADDRESS address" using acc(2) a(2) by (simp add: walletAccount_def textOf_def)
  then have "EVM_ADDRESS w" using EVM_lower a(3) by simp
  moreover have "embeddedWallet a \<or> \<not> (\<exists>b\<in>set accounts. walletAccount b \<and> embeddedWallet b)"
    using a(1)
  proof
    assume "find embeddedWallet ?ws = Some a"
    then show ?thesis using find_SomeD by metis
  next
    assume "find embeddedWallet ?ws = None \<and> (\<exists>rest. ?ws = a # rest)"
    then show ?thesis by (auto simp: find_None_iff)
  qed
  ultimately show ?thesis using that u(1,2) acc a(2,3) by (auto simp: attests_def)
qed

lemma email_attested:
  assumes "pi_email (identityFrom sdk parse cfg token) = Some e"
  obtains accounts a address where "attests sdk parse cfg token accounts" "a \<in> set accounts" "emailAccount a"
    "field a ''address'' = JsText address" "e = js_lower (js_trim address)"
proof -
  obtain user accounts where u: "verifiedUser sdk cfg token = Some user"
      "accountsOf parse (field user ''linked_accounts'') = Some accounts"
      "emailFromLinkedAccounts parse (field user ''linked_accounts'') = Some e"
    using assms by (auto simp: identityFrom_def Let_def emailFromLinkedAccounts_def split: option.splits)
  obtain a address where a: "find emailAccount accounts = Some a" "field a ''address'' = JsText address"
      "e = js_lower (js_trim address)"
    using u(2,3) by (auto simp: emailFromLinkedAccounts_def textOf_def split: option.splits js.splits if_splits)
  then show ?thesis using that u(1,2) find_SomeD [OF a(1)] by (auto simp: attests_def)
qed

text \<open>What the server learns of an identity is in a signed token: a wallet is the address of a linked
  Ethereum wallet of a token that verified, in lower case and well formed, and of the embedded
  wallet when there is one; an email is the address of a linked email account of it. A server that
  is not configured, a missing token and one that does not verify attest nothing.\<close>

theorem identity_is_attested:
  "(case pi_wallet (identityFrom sdk parse cfg token) of
      None \<Rightarrow> True
    | Some w \<Rightarrow> \<exists>accounts a address. attests sdk parse cfg token accounts \<and> a \<in> set accounts \<and>
        walletAccount a \<and> field a ''address'' = JsText address \<and> w = js_lower address \<and> EVM_ADDRESS w \<and>
        (embeddedWallet a \<or> filter embeddedWallet (filter walletAccount accounts) = [])) \<and>
   (case pi_email (identityFrom sdk parse cfg token) of
      None \<Rightarrow> True
    | Some e \<Rightarrow> \<exists>accounts a address. attests sdk parse cfg token accounts \<and> a \<in> set accounts \<and>
        emailAccount a \<and> field a ''address'' = JsText address \<and> e = js_lower (js_trim address)) \<and>
   pi_wallet (identityFrom sdk parse cfg token) = walletFromIdentityToken sdk parse cfg token \<and>
   (if isConfigured cfg \<and> nonempty token \<noteq> None then True
    else identityFrom sdk parse cfg token = \<lparr>pi_wallet = None, pi_email = None\<rparr>)"
proof (intro conjI)
  show "case pi_wallet (identityFrom sdk parse cfg token) of
      None \<Rightarrow> True
    | Some w \<Rightarrow> \<exists>accounts a address. attests sdk parse cfg token accounts \<and> a \<in> set accounts \<and>
        walletAccount a \<and> field a ''address'' = JsText address \<and> w = js_lower address \<and> EVM_ADDRESS w \<and>
        (embeddedWallet a \<or> filter embeddedWallet (filter walletAccount accounts) = [])"
  proof (cases "pi_wallet (identityFrom sdk parse cfg token)")
    case (Some w)
    from wallet_attested [OF Some] show ?thesis unfolding Some option.case filter_filter filter_empty_conv by metis
  qed simp
next
  show "case pi_email (identityFrom sdk parse cfg token) of
      None \<Rightarrow> True
    | Some e \<Rightarrow> \<exists>accounts a address. attests sdk parse cfg token accounts \<and> a \<in> set accounts \<and>
        emailAccount a \<and> field a ''address'' = JsText address \<and> e = js_lower (js_trim address)"
  proof (cases "pi_email (identityFrom sdk parse cfg token)")
    case (Some e)
    from email_attested [OF Some] show ?thesis unfolding Some option.case by metis
  qed simp
qed (auto simp: identityFrom_def walletFromIdentityToken_def verifiedUser_def Let_def split: option.split)

text \<open>Signing in again with the same wallet leaves the stored one as it is: the comparison with the
  stored address is case-insensitive and the attested one is in lower case.\<close>

lemma synced_wallet_is_stable:
  "syncedWallet (identityFrom sdk parse cfg token) (syncedWallet (identityFrom sdk parse cfg token) stored) =
   syncedWallet (identityFrom sdk parse cfg token) stored"
proof (cases "nonempty (pi_wallet (identityFrom sdk parse cfg token))")
  case (Some w)
  then have "pi_wallet (identityFrom sdk parse cfg token) = Some w" by (simp add: nonempty_Some)
  from wallet_attested [OF this] have "js_lower w = w" using lower_lower by metis
  then show ?thesis using Some by (auto simp: syncedWallet_def)
qed (simp add: syncedWallet_def)

text \<open>C29: A rider session that a Privy sign-in opens on an existing account belongs to whom Privy says:
  the access token verified for this app, and the account is linked to the user id in it, or it was
  linked to nobody and its address is the one of an email account in the verified identity token.\<close>

theorem privy_account_is_attested:
  assumes "signIn (privyServiceOf sdk parse env) aenv input s = (Inr ok, s')"
    and "px_audience input = AudRider" "\<not> ps_isNewAccount ok"
  shows "\<exists>did x. did \<noteq> [] \<and> isConfigured (privyConfigOf env) \<and>
     verifyAccessToken sdk (privyConfigOf env) (px_accessToken input) = Some did \<and>
     x \<in> set (users s) \<and> pp_id (ps_profile ok) = u_id x \<and> \<not> u_isBlocked x \<and>
     (u_privyDid x = Some did \<or>
      nonempty (u_privyDid x) = None \<and>
      (\<exists>accounts a address. attests sdk parse (privyConfigOf env) (px_identityToken input) accounts \<and>
         a \<in> set accounts \<and> emailAccount a \<and> field a ''address'' = JsText address \<and>
         u_email x = js_lower (js_trim address)))"
proof -
  let ?cfg = "privyConfigOf env"
  obtain did where did: "verifyAccessToken sdk ?cfg (px_accessToken input) = Some did"
      "signInRider aenv did (identityFrom sdk parse ?cfg (px_identityToken input)) input s = (Inr ok, s')"
      and cfg: "isConfigured ?cfg"
    using assms(1,2) by (auto simp: signIn_def privyServiceOf_def Let_def split: if_splits option.splits)
  have "did \<noteq> []" using did(1) by (auto simp: verifyAccessToken_def nonempty_Some split: if_splits)
  moreover obtain x where x: "x \<in> set (users s)" "pp_id (ps_profile ok) = u_id x" "\<not> u_isBlocked x"
      "u_privyDid x = Some did \<or> nonempty (u_privyDid x) = None \<and>
        pi_email (identityFrom sdk parse ?cfg (px_identityToken input)) = Some (u_email x)"
    using signInRider_known [OF did(2) assms(3)] by blast
  moreover have "\<exists>accounts a address. attests sdk parse ?cfg (px_identityToken input) accounts \<and>
      a \<in> set accounts \<and> emailAccount a \<and> field a ''address'' = JsText address \<and>
      u_email x = js_lower (js_trim address)"
    if "pi_email (identityFrom sdk parse ?cfg (px_identityToken input)) = Some (u_email x)"
    using email_attested [OF that] by metis
  ultimately show ?thesis using did(1) cfg by blast
qed

section \<open>Two tokens of two people\<close>

text \<open>Mallory signs in with an access token of their own and an identity token of Ada's.\<close>

definition demoSdk :: privySdk where
  "demoSdk = \<lparr>sdk_access = (\<lambda>_ _ t. if t = ''access of mallory'' then Some ''did:privy:mallory'' else None),
     sdk_identity = (\<lambda>_ _ t. if t = ''identity of ada'' then Some (JsRecord [(''id'', JsText ''did:privy:ada''),
       (''linked_accounts'', JsList [JsRecord [(''type'', JsText ''email''), (''address'', JsText ''ada@x.ng'')]])])
       else None)\<rparr>"

definition demoPrivyEnv :: "string \<Rightarrow> string option" where
  "demoPrivyEnv = (\<lambda>_. None)(''PRIVY_APP_ID'' := Some ''app'', ''PRIVY_VERIFICATION_KEY'' := Some ''key'')"

definition demoPrivyInput :: PrivySignInInput where
  "demoPrivyInput = \<lparr>px_accessToken = ''access of mallory'', px_identityToken = Some ''identity of ada'',
     px_audience = AudRider, px_name = None, px_userAgent = None, px_ipAddress = None\<rparr>"

lemma demo_config:
  "privyConfigOf demoPrivyEnv = \<lparr>pc_appId = Some ''app'', pc_verificationKey = Some ''key''\<rparr>"
  by code_simp

lemma demo_mixed:
  "verifyAccessToken demoSdk (privyConfigOf demoPrivyEnv) ''access of mallory'' = Some ''did:privy:mallory''"
  "pi_email (identityFrom demoSdk parse (privyConfigOf demoPrivyEnv) (Some ''identity of ada'')) = Some ''ada@x.ng''"
proof -
  show "verifyAccessToken demoSdk (privyConfigOf demoPrivyEnv) ''access of mallory'' = Some ''did:privy:mallory''"
    by (simp add: demo_config verifyAccessToken_def isConfigured_def nonempty_def demoSdk_def)
  have "js_lower (js_trim ''ada@x.ng'') = ''ada@x.ng''" by code_simp
  then show "pi_email (identityFrom demoSdk parse (privyConfigOf demoPrivyEnv) (Some ''identity of ada'')) = Some ''ada@x.ng''"
    by (simp add: demo_config identityFrom_def verifiedUser_def isConfigured_def nonempty_def demoSdk_def
        field_def emailFromLinkedAccounts_def accountsOf_def emailAccount_def textOf_def)
qed

lemma demo_linked:
  assumes "pi_email identity = Some ''ada@x.ng''"
  shows "linkRider ''did:privy:mallory'' identity (demo REQUESTED) =
    Inr (Some (demoUser\<lparr>u_privyDid := Some ''did:privy:mallory''\<rparr>))"
  using assms by (simp add: linkRider_def findUserByDid_def findUserByEmail_def nonempty_def demoUser_def)

lemma demo_open: "\<not> u_isBlocked demoUser"
  by (simp add: demoUser_def)

lemma demo_mixed_session:
  assumes "pi_email identity = Some ''ada@x.ng''"
  shows "\<exists>ok s'. signInRider demoAuth ''did:privy:mallory'' identity demoPrivyInput (demo REQUESTED) = (Inr ok, s') \<and>
    pp_id (ps_profile ok) = u_id demoUser \<and> \<not> ps_isNewAccount ok \<and>
    map u_privyDid (users s') = [Some ''did:privy:mallory'']"
  using demo_linked [OF assms] demo_open
  by (simp add: signInRider_def Let_def saveRider_def storeUser_def userClash_def saveUser_def tbl_save_def
      Tokens.issueSession_def mint_def freshId_def saveToken_def)

text \<open>A finding: the server never compares the user of the identity token with the user of the access
  token. Whoever holds an identity token of somebody else, which is sent as an ordinary header, signs
  in to that person's account with an access token of their own, and the account is linked to them.\<close>

theorem identity_token_of_another_opens_account:
  "\<exists>ok s'. signIn (privyServiceOf demoSdk parse demoPrivyEnv) demoAuth demoPrivyInput (demo REQUESTED) =
      (Inr ok, s') \<and> pp_id (ps_profile ok) = u_id demoUser \<and> \<not> ps_isNewAccount ok \<and>
      map u_privyDid (users s') = [Some ''did:privy:mallory'']"
proof -
  have rider: "px_audience demoPrivyInput = AudRider" "px_accessToken demoPrivyInput = ''access of mallory''"
    "px_identityToken demoPrivyInput = Some ''identity of ada''" by (simp_all add: demoPrivyInput_def)
  have "isConfigured (privyConfigOf demoPrivyEnv)" by (simp add: demo_config isConfigured_def nonempty_def)
  then show ?thesis
    using demo_mixed_session [OF demo_mixed(2), of parse] demo_mixed(1)
    by (simp add: signIn_def privyServiceOf_def Let_def rider)
qed

theorem privy_account_is_attested_witness:
  "\<exists>did x accounts a. did \<noteq> [] \<and> x \<in> set (users (demo REQUESTED)) \<and> u_privyDid x = None \<and>
     attests demoSdk (\<lambda>_. None) (privyConfigOf demoPrivyEnv) (Some ''identity of ada'') accounts \<and>
     a \<in> set accounts \<and> emailAccount a"
proof -
  obtain ok s' where run: "signIn (privyServiceOf demoSdk (\<lambda>_. None) demoPrivyEnv) demoAuth demoPrivyInput (demo REQUESTED) =
      (Inr ok, s')" "\<not> ps_isNewAccount ok"
    using identity_token_of_another_opens_account by blast
  have rider: "px_audience demoPrivyInput = AudRider" "px_identityToken demoPrivyInput = Some ''identity of ada''"
    by (simp_all add: demoPrivyInput_def)
  show ?thesis
    using privy_account_is_attested [OF run(1) rider(1) run(2)] by (auto simp: rider demoUser_def)
qed

end
