(* ===== verification/OpenApi.thy ===== *)
theory OpenApi
  imports EnvelopeRules
begin

text \<open>
  \<open>src/common/swagger/document-envelope.ts\<close>: the pass over the finished OpenAPI document that puts
  every declared response into the envelope and attaches the failures an operation can answer with.
  A document is its paths with their operations; the schema of a payload is whatever the handler
  declared (type \<open>'s\<close>). Objects are association lists; the order of their keys means nothing.
\<close>

section \<open>Documents\<close>

datatype 's schemaDoc = DeclaredSchema 's | AnyData | SuccessEnvelopeOf "'s schemaDoc" | FailureEnvelopeRef

record 's ResponseLike =
  rl_description :: "string option"
  rl_content :: "(string \<times> 's schemaDoc option) list option"

record 's OperationLike =
  ol_security :: nat
  ol_requestBody :: bool
  ol_parameters :: nat
  ol_responses :: "(string \<times> 's ResponseLike) list option"

text \<open>An entry of a path item: an operation, or something else (\<open>parameters\<close>, \<open>summary\<close>).\<close>

record 's PathItem =
  pt_parameters :: nat
  pt_operations :: "(string \<times> 's OperationLike) list"

type_synonym 's OpenAPIObject = "(string \<times> 's PathItem) list"

section \<open>Constants\<close>

definition AUTH_ERRORS :: "(string \<times> string) list" where
  "AUTH_ERRORS = [(''401'', ''No access token, or the token is invalid or expired.''),
     (''403'', ''Authenticated, but not allowed to act on this resource.'')]"

definition UNIVERSAL_ERRORS :: "(string \<times> string) list" where
  "UNIVERSAL_ERRORS = [(''429'', ''Rate limit exceeded.''),
     (''500'', ''Unexpected server error. The body carries a `requestId` to quote when reporting it; no internal detail is exposed.'')]"

definition VALIDATION_ERROR :: "(string \<times> string) list" where
  "VALIDATION_ERROR = [(''400'', ''The request failed validation. `errors` lists the offending fields.'')]"

definition NOT_FOUND_ERROR :: "(string \<times> string) list" where
  "NOT_FOUND_ERROR = [(''404'', ''No such resource.'')]"

definition HTTP_METHODS :: "string list" where
  "HTTP_METHODS = [''get'', ''post'', ''put'', ''patch'', ''delete'', ''options'', ''head'']"

text \<open>The codes the failure schema lists for clients to branch on.\<close>

definition documentedCodes :: "string list" where
  "documentedCodes = [''VALIDATION_FAILED'', ''UNAUTHENTICATED'', ''FORBIDDEN'', ''NOT_FOUND'', ''CONFLICT'',
     ''DUPLICATE_VALUE'', ''INVALID_REFERENCE'', ''MALFORMED_IDENTIFIER'', ''RATE_LIMITED'',
     ''DATABASE_ERROR'', ''INTERNAL_ERROR'']"

section \<open>The pass\<close>

text \<open>\<open>/^2\d\d$/\<close> and \<open>/\{[^}]+\}/\<close>\<close>

definition successStatus :: "string \<Rightarrow> bool" where
  "successStatus status \<longleftrightarrow> length status = 3 \<and> hd status = CHR ''2'' \<and> list_all is_digit (tl status)"

fun bracedName :: "string \<Rightarrow> bool" where
  "bracedName [] \<longleftrightarrow> False"
| "bracedName (c # s) \<longleftrightarrow>
     c = CHR 0x7B \<and> s \<noteq> [] \<and> hd s \<noteq> CHR 0x7D \<and> CHR 0x7D \<in> set s \<or> bracedName s"

definition wrapResponse :: "string \<times> 's ResponseLike \<Rightarrow> string \<times> 's ResponseLike" where
  "wrapResponse = (\<lambda>(status, response).
     if \<not> successStatus status then (status, response)
     else if status = ''204'' then
       (status, response\<lparr>rl_content := None,
          rl_description := (case rl_description response of None \<Rightarrow> Some ''No content.'' | d \<Rightarrow> d)\<rparr>)
     else
       let declared = Option.bind (Option.bind (rl_content response) (\<lambda>c. map_of c ''application/json'')) id
       in (status, response\<lparr>rl_content := Some [(''application/json'', Some (SuccessEnvelopeOf
             (case declared of None \<Rightarrow> AnyData | Some d \<Rightarrow> d)))]\<rparr>))"

definition applicableFailures :: "'s OperationLike \<Rightarrow> string \<Rightarrow> bool \<Rightarrow> (string \<times> string) list" where
  "applicableFailures op path pathHasParameters =
     UNIVERSAL_ERRORS @
     (if ol_requestBody op then VALIDATION_ERROR else []) @
     (if pathHasParameters \<or> 0 < ol_parameters op then VALIDATION_ERROR @ NOT_FOUND_ERROR else []) @
     (if 0 < ol_security op then AUTH_ERRORS else []) @
     (if bracedName path then NOT_FOUND_ERROR else [])"

definition failureResponse :: "string \<Rightarrow> 's ResponseLike" where
  "failureResponse description = \<lparr>rl_description = Some description,
     rl_content = Some [(''application/json'', Some FailureEnvelopeRef)]\<rparr>"

definition attachFailure ::
  "string \<times> string \<Rightarrow> (string \<times> 's ResponseLike) list \<Rightarrow> (string \<times> 's ResponseLike) list" where
  "attachFailure = (\<lambda>(status, description) responses.
     if map_of responses status \<noteq> None then responses
     else responses @ [(status, failureResponse description)])"

definition decorateOperation :: "'s OperationLike \<Rightarrow> string \<Rightarrow> bool \<Rightarrow> 's OperationLike" where
  "decorateOperation op path pathHasParameters =
     (let responses = (case ol_responses op of None \<Rightarrow> [] | Some rs \<Rightarrow> rs)
      in op\<lparr>ol_responses := Some (fold attachFailure (applicableFailures op path pathHasParameters)
            (map wrapResponse responses))\<rparr>)"

definition applyEnvelopeToDocument :: "'s OpenAPIObject \<Rightarrow> 's OpenAPIObject" where
  "applyEnvelopeToDocument document = map (\<lambda>(path, item).
     (path, item\<lparr>pt_operations := map (\<lambda>(name, op).
        (name, if name \<in> set HTTP_METHODS then decorateOperation op path (0 < pt_parameters item) else op))
        (pt_operations item)\<rparr>)) document"

section \<open>What a reader of the document can rely on\<close>

lemma wrapResponse_pair: "wrapResponse (st, r) = (st, snd (wrapResponse (st, r)))"
  by (simp add: wrapResponse_def Let_def)

lemma wrapped_response:
  "snd (wrapResponse (status, r)) =
    (if \<not> successStatus status then r
     else if status = ''204'' then
       r\<lparr>rl_content := None, rl_description := (case rl_description r of None \<Rightarrow> Some ''No content.'' | d \<Rightarrow> d)\<rparr>
     else r\<lparr>rl_content := Some [(''application/json'', Some (SuccessEnvelopeOf
       (case Option.bind (Option.bind (rl_content r) (\<lambda>c. map_of c ''application/json'')) id of
          None \<Rightarrow> AnyData | Some d \<Rightarrow> d)))]\<rparr>)"
  unfolding wrapResponse_def Let_def prod.case by (simp only: if_distrib [of snd] snd_conv)

lemma map_of_wrapped:
  "map_of (map wrapResponse rs) status = map_option (\<lambda>r. snd (wrapResponse (status, r))) (map_of rs status)"
proof (induction rs)
  case (Cons p rs)
  obtain st r where p: "p = (st, r)" by (cases p)
  have "map_of (map wrapResponse (p # rs)) status =
      map_of ((st, snd (wrapResponse (st, r))) # map wrapResponse rs) status"
    unfolding p list.map using wrapResponse_pair [of st r] by simp
  also have "\<dots> = (if st = status then Some (snd (wrapResponse (st, r)))
      else map_option (\<lambda>r. snd (wrapResponse (status, r))) (map_of rs status))"
    using Cons.IH by simp
  finally show ?case by (simp add: p)
qed simp

lemma map_of_attached:
  "map_of (fold attachFailure fs rs) status =
     (case map_of rs status of Some r \<Rightarrow> Some r | None \<Rightarrow> map_option failureResponse (map_of fs status))"
proof (induction fs arbitrary: rs)
  case (Cons f fs)
  obtain st d where f: "f = (st, d)" by (cases f)
  show ?case using Cons.IH [of "attachFailure f rs"]
    by (auto simp: f attachFailure_def map_of_append map_add_def split: option.splits if_splits)
qed (simp split: option.split)

lemma failure_sets:
  "insert u (insert v ((if body then {x} else {}) \<union> ((if item \<or> own then {x, y} else {}) \<union>
      ((if secured then {w, z} else {}) \<union> (if named then {y} else {}))))) =
    {u, v} \<union> (if secured then {w, z} else {}) \<union> (if body \<or> item \<or> own then {x} else {}) \<union>
      (if item \<or> own \<or> named then {y} else {})"
  by auto

definition documented :: "'s OperationLike \<Rightarrow> (string \<times> 's ResponseLike) list" where
  "documented op = (case ol_responses op of None \<Rightarrow> [] | Some rs \<Rightarrow> rs)"

text \<open>Every operation, whatever its handler declared: a success that carries a body is documented in
  the envelope with the declared schema as its data, a 204 without a body, any other response the
  handler wrote stays as it is; 429 and 500 are always documented, 401 and 403 when the operation is
  protected, 400 when it takes a body or parameters and 404 when it takes parameters or names one in
  its path.\<close>

theorem document_describes_the_envelope:
  "map_of (documented (decorateOperation op path inPath)) status =
    (case map_of (documented op) status of
       Some r \<Rightarrow>
         Some (if \<not> successStatus status then r
           else if status = ''204'' then
             r\<lparr>rl_content := None, rl_description := (case rl_description r of None \<Rightarrow> Some ''No content.'' | d \<Rightarrow> d)\<rparr>
           else r\<lparr>rl_content := Some [(''application/json'', Some (SuccessEnvelopeOf
             (case Option.bind (Option.bind (rl_content r) (\<lambda>c. map_of c ''application/json'')) id of
                None \<Rightarrow> AnyData | Some d \<Rightarrow> d)))]\<rparr>)
     | None \<Rightarrow> map_option failureResponse (map_of (applicableFailures op path inPath) status)) \<and>
    {st. map_of (applicableFailures op path inPath) st \<noteq> None} =
      {''429'', ''500''} \<union> (if 0 < ol_security op then {''401'', ''403''} else {}) \<union>
      (if ol_requestBody op \<or> inPath \<or> 0 < ol_parameters op then {''400''} else {}) \<union>
      (if inPath \<or> 0 < ol_parameters op \<or> bracedName path then {''404''} else {})"
proof
  show "map_of (documented (decorateOperation op path inPath)) status =
    (case map_of (documented op) status of
       Some r \<Rightarrow>
         Some (if \<not> successStatus status then r
           else if status = ''204'' then
             r\<lparr>rl_content := None, rl_description := (case rl_description r of None \<Rightarrow> Some ''No content.'' | d \<Rightarrow> d)\<rparr>
           else r\<lparr>rl_content := Some [(''application/json'', Some (SuccessEnvelopeOf
             (case Option.bind (Option.bind (rl_content r) (\<lambda>c. map_of c ''application/json'')) id of
                None \<Rightarrow> AnyData | Some d \<Rightarrow> d)))]\<rparr>)
     | None \<Rightarrow> map_option failureResponse (map_of (applicableFailures op path inPath) status))"
    (is "?lhs = ?rhs")
  proof -
    have decorated: "?lhs = (case map_option (\<lambda>r. snd (wrapResponse (status, r))) (map_of (documented op) status) of
        Some r \<Rightarrow> Some r
      | None \<Rightarrow> map_option failureResponse (map_of (applicableFailures op path inPath) status))"
      by (simp add: documented_def decorateOperation_def Let_def map_of_attached map_of_wrapped)
    show ?thesis
      unfolding decorated
      by (cases "map_of (documented op) status") (simp_all only: option.map option.case wrapped_response)
  qed
  have dom: "{st. map_of fs st \<noteq> None} = fst ` set fs" for fs :: "(string \<times> string) list"
    using dom_map_of_conv_image_fst [of fs] by (simp add: dom_def)
  show "{st. map_of (applicableFailures op path inPath) st \<noteq> None} =
      {''429'', ''500''} \<union> (if 0 < ol_security op then {''401'', ''403''} else {}) \<union>
      (if ol_requestBody op \<or> inPath \<or> 0 < ol_parameters op then {''400''} else {}) \<union>
      (if inPath \<or> 0 < ol_parameters op \<or> bracedName path then {''404''} else {})"
    unfolding dom applicableFailures_def set_append image_Un if_distrib [of set] if_distrib [of "image fst"]
      UNIVERSAL_ERRORS_def VALIDATION_ERROR_def NOT_FOUND_ERROR_def AUTH_ERRORS_def append.simps
      list.set image_insert image_empty fst_conv
    by (rule failure_sets)
qed

text \<open>A finding: the list of codes is documented for clients to branch on, and the code of every
  plain bad request is not in it.\<close>

theorem bad_request_code_is_undocumented:
  "codeFor 400 \<notin> set documentedCodes \<and> codeFor 422 \<notin> set documentedCodes \<and>
   map_option ds_code (describe (thrownOf (BadRequestException m))) = Some (codeFor 400)"
proof -
  have "codeFor 400 = ''BAD_REQUEST''" "codeFor 422 = ''UNPROCESSABLE''" by (simp_all add: codeFor_def)
  moreover have "map_option ds_code (describe (thrownOf (BadRequestException m))) = Some (codeFor 400)"
    by (simp add: describe_def describeHttpException_def extractArray_def)
  ultimately show ?thesis by (simp add: documentedCodes_def)
qed

end
