(* ===== verification/Validation.thy ===== *)
theory Validation
  imports JsValue Envelope
begin

text \<open>
  The global \<open>ValidationPipe\<close> (\<open>src/app-setup.ts\<close>): a request body, an object whose values nobody has
  checked, against the decorators of its DTO class. A class is the list of its properties with their
  decorators, in the order of the source. What a decorator demands of a value, that decorators run
  from the lowest to the highest, that \<open>IsOptional\<close> lets \<open>null\<close> and \<open>undefined\<close> pass, that a nested
  array is checked element by element and that unknown properties are refused is the documented
  behaviour of class-validator and of the options the pipe is given. The formats of e-mail
  addresses, dates and UUIDs and the default texts are the parameter \<open>V\<close>.
\<close>

section \<open>Decorators\<close>

type_synonym message = "string option"

datatype decorator =
    IsOptional
  | IsNotEmpty message
  | IsString message
  | IsNumber message
  | IsInt message
  | IsBoolean message
  | IsEmail message
  | IsDateString message
  | IsUUID "nat option" message
  | IsEnum "string list" message
  | MinValue num message
  | MaxValue num message
  | MinLength nat message
  | MaxLength nat message
  | Length nat nat message
  | Matches "string \<Rightarrow> bool" message
  | ValidateNested "(string \<times> decorator list) list"

type_synonym dto = "(string \<times> decorator list) list"

record validators =
  vd_email :: "string \<Rightarrow> bool"
  vd_date :: "string \<Rightarrow> bool"
  vd_uuid :: "nat option \<Rightarrow> string \<Rightarrow> bool"
  vd_message :: "string \<Rightarrow> decorator \<Rightarrow> string"

text \<open>\<open>typeof value === 'string' && p(value)\<close>, and the same of a number.\<close>

definition textWith :: "(string \<Rightarrow> bool) \<Rightarrow> js \<Rightarrow> bool" where
  "textWith p v = (case v of JsText t \<Rightarrow> p t | _ \<Rightarrow> False)"

definition numberWith :: "(num \<Rightarrow> bool) \<Rightarrow> js \<Rightarrow> bool" where
  "numberWith p v = (case v of JsNumber n \<Rightarrow> p n | _ \<Rightarrow> False)"

fun passes :: "validators \<Rightarrow> decorator \<Rightarrow> js \<Rightarrow> bool" where
  "passes V IsOptional v \<longleftrightarrow> True"
| "passes V (IsNotEmpty _) v \<longleftrightarrow> v \<noteq> JsNothing \<and> v \<noteq> JsText []"
| "passes V (IsString _) v \<longleftrightarrow> textWith (\<lambda>_. True) v"
| "passes V (IsNumber _) v \<longleftrightarrow> numberWith (\<lambda>_. True) v"
| "passes V (IsInt _) v \<longleftrightarrow> numberWith (\<lambda>n. of_int \<lfloor>n\<rfloor> = n) v"
| "passes V (IsBoolean _) v \<longleftrightarrow> (case v of JsBoolean _ \<Rightarrow> True | _ \<Rightarrow> False)"
| "passes V (IsEmail _) v \<longleftrightarrow> textWith (vd_email V) v"
| "passes V (IsDateString _) v \<longleftrightarrow> textWith (vd_date V) v"
| "passes V (IsUUID version _) v \<longleftrightarrow> textWith (vd_uuid V version) v"
| "passes V (IsEnum values _) v \<longleftrightarrow> textWith (\<lambda>t. t \<in> set values) v"
| "passes V (MinValue low _) v \<longleftrightarrow> numberWith (\<lambda>n. low \<le> n) v"
| "passes V (MaxValue high _) v \<longleftrightarrow> numberWith (\<lambda>n. n \<le> high) v"
| "passes V (MinLength low _) v \<longleftrightarrow> textWith (\<lambda>t. low \<le> length t) v"
| "passes V (MaxLength high _) v \<longleftrightarrow> textWith (\<lambda>t. length t \<le> high) v"
| "passes V (Length low high _) v \<longleftrightarrow> textWith (\<lambda>t. low \<le> length t \<and> length t \<le> high) v"
| "passes V (Matches p _) v \<longleftrightarrow> textWith p v"
| "passes V (ValidateNested _) v \<longleftrightarrow>
     (case v of JsBoolean _ \<Rightarrow> False | JsNumber _ \<Rightarrow> False | JsText _ \<Rightarrow> False | _ \<Rightarrow> True)"

fun constraintOf :: "decorator \<Rightarrow> string \<times> message" where
  "constraintOf IsOptional = (''conditionalValidation'', None)"
| "constraintOf (IsNotEmpty m) = (''isNotEmpty'', m)"
| "constraintOf (IsString m) = (''isString'', m)"
| "constraintOf (IsNumber m) = (''isNumber'', m)"
| "constraintOf (IsInt m) = (''isInt'', m)"
| "constraintOf (IsBoolean m) = (''isBoolean'', m)"
| "constraintOf (IsEmail m) = (''isEmail'', m)"
| "constraintOf (IsDateString m) = (''isDateString'', m)"
| "constraintOf (IsUUID _ m) = (''isUuid'', m)"
| "constraintOf (IsEnum _ m) = (''isEnum'', m)"
| "constraintOf (MinValue _ m) = (''min'', m)"
| "constraintOf (MaxValue _ m) = (''max'', m)"
| "constraintOf (MinLength _ m) = (''minLength'', m)"
| "constraintOf (MaxLength _ m) = (''maxLength'', m)"
| "constraintOf (Length _ _ m) = (''isLength'', m)"
| "constraintOf (Matches _ m) = (''matches'', m)"
| "constraintOf (ValidateNested _) = (''nestedValidation'', None)"

fun nestedDtos :: "decorator list \<Rightarrow> dto list" where
  "nestedDtos [] = []"
| "nestedDtos (ValidateNested inner # ds) = inner # nestedDtos ds"
| "nestedDtos (_ # ds) = nestedDtos ds"

definition nestedDecorator :: "decorator \<Rightarrow> bool" where
  "nestedDecorator d = (case d of ValidateNested _ \<Rightarrow> True | _ \<Rightarrow> False)"

definition violation :: "validators \<Rightarrow> string \<Rightarrow> decorator \<Rightarrow> string \<times> string" where
  "violation V property d = (fst (constraintOf d),
     case snd (constraintOf d) of Some m \<Rightarrow> m | None \<Rightarrow> vd_message V property d)"

text \<open>An optional property without a value is not looked at.\<close>

definition skipped :: "decorator list \<Rightarrow> js \<Rightarrow> bool" where
  "skipped decorators v \<longleftrightarrow> list_ex (\<lambda>d. case d of IsOptional \<Rightarrow> True | _ \<Rightarrow> False) decorators \<and> v = JsNothing"

definition failed :: "validators \<Rightarrow> string \<Rightarrow> decorator list \<Rightarrow> js \<Rightarrow> (string \<times> string) list" where
  "failed V property decorators v =
     (if skipped decorators v then []
      else map (violation V property) (filter (\<lambda>d. \<not> passes V d v)
        (filter (Not \<circ> nestedDecorator) (rev decorators) @ filter nestedDecorator decorators)))"

definition report :: "string \<Rightarrow> (string \<times> string) list \<Rightarrow> ValidationError list \<Rightarrow> ValidationError list" where
  "report property constraints children =
     (if constraints = [] \<and> children = [] then []
      else [ValidationError property (if constraints = [] then None else Some constraints) (Some children)])"

definition forbidden :: "string \<Rightarrow> ValidationError" where
  "forbidden property = ValidationError property
     (Some [(''whitelistValidation'', ''property '' @ property @ '' should not exist'')]) None"

section \<open>The pipe\<close>

lemma size_element: "(i, w) \<in> set (enumerate n ws) \<Longrightarrow> size w < size (JsList ws)"
proof (induction ws arbitrary: n)
  case (Cons a ws)
  then consider "w = a" | "size w < size (JsList ws)" using Cons.IH [of "Suc n"] by auto
  then show ?case by cases simp_all
qed simp

text \<open>\<open>problems\<close> is what is wrong with an object, \<open>nestedProblems\<close> with the value of a nested property.\<close>

function problems :: "validators \<Rightarrow> dto \<Rightarrow> jsObject \<Rightarrow> ValidationError list"
  and nestedProblems :: "validators \<Rightarrow> dto \<Rightarrow> js \<Rightarrow> ValidationError list" where
  "problems V dto fs =
     map forbidden (filter (\<lambda>k. k \<notin> fst ` set dto) (map fst fs)) @
     concat (map (\<lambda>(name, decorators).
       report name (failed V name decorators (lookup fs name))
         (if skipped decorators (lookup fs name) then []
          else concat (map (\<lambda>inner. nestedProblems V inner (lookup fs name)) (nestedDtos decorators)))) dto)"
| "nestedProblems V dto v =
     (case v of
        JsList ws \<Rightarrow> concat (map (\<lambda>(i, w).
          report (js_of_nat i) (failed V (js_of_nat i) [ValidateNested dto] w) (nestedProblems V dto w))
          (enumerate 0 ws))
      | JsRecord fs \<Rightarrow> problems V dto fs
      | _ \<Rightarrow> [])"
  by pat_completeness auto

termination
proof (relation "measure (\<lambda>x. case x of
    Inl (_, _, fs) \<Rightarrow> 2 * size (JsRecord fs) | Inr (_, _, v) \<Rightarrow> Suc (2 * size v))", goal_cases)
  case (2 V dto fs p name decorators inner)
  show ?case using size_lookup [of fs name] by (simp del: js.size)
next
  case (3 V dto v ws p i w)
  then show ?case using size_element [of i w 0 ws] by (simp del: js.size)
qed simp_all

declare problems.simps [simp del] nestedProblems.simps [simp del]

text \<open>\<open>whitelist\<close>, \<open>forbidNonWhitelisted\<close> and the exception factory: the body goes on as it is, or the
  request ends here.\<close>

definition validationPipe :: "validators \<Rightarrow> dto \<Rightarrow> jsObject \<Rightarrow> thrown + jsObject" where
  "validationPipe V dto body =
     (case problems V dto body of
        [] \<Rightarrow> Inr body
      | errors \<Rightarrow> Inl (HttpEx 400 (createValidationException errors) ''Bad Request Exception''))"

end
