(* ===== verification/RequestSchemas.thy ===== *)
theory RequestSchemas
  imports Validation Credentials
begin

text \<open>
  The DTO classes of the request bodies (\<open>src/**/dto/*.ts\<close>), each as the list of its properties with
  their decorators. \<open>ApiProperty\<close> only documents and \<open>Type\<close> only says what a nested object is.
  The texts are the source's, the Naira sign written \<open>N\<close>.
\<close>

section \<open>Patterns\<close>

text \<open>\<open>/^[0-9]+$/\<close>, \<open>/^[0-9]{10,15}$/\<close>, \<open>/^\d{10}$/\<close>\<close>

definition onlyDigits :: "string \<Rightarrow> bool" where
  "onlyDigits t \<longleftrightarrow> t \<noteq> [] \<and> list_all is_digit t"

definition riderPhone :: "string \<Rightarrow> bool" where
  "riderPhone t \<longleftrightarrow> list_all is_digit t \<and> 10 \<le> length t \<and> length t \<le> 15"

definition tenDigits :: "string \<Rightarrow> bool" where
  "tenDigits t \<longleftrightarrow> list_all is_digit t \<and> length t = 10"

text \<open>\<open>/^\+?[0-9]{7,15}$/\<close>\<close>

definition callerNumber :: "string \<Rightarrow> bool" where
  "callerNumber t \<longleftrightarrow>
     (let u = (if take 1 t = ''+'' then tl t else t) in list_all is_digit u \<and> 7 \<le> length u \<and> length u \<le> 15)"

text \<open>What follows \<open>(\+234|0)\<close> at the start of a number.\<close>

definition afterNigerianPrefix :: "string \<Rightarrow> string option" where
  "afterNigerianPrefix t =
     (if take 4 t = ''+234'' then Some (drop 4 t) else if take 1 t = ''0'' then Some (tl t) else None)"

text \<open>\<open>/^(\+234|0)[789]\d{9}$/\<close> and \<open>/^(\+234|0)[789][01]\d{8}$/\<close>\<close>

definition driverPhone :: "string \<Rightarrow> bool" where
  "driverPhone t =
     (case afterNigerianPrefix t of
        Some (a # ds) \<Rightarrow> a \<in> set ''789'' \<and> list_all is_digit ds \<and> length ds = 9
      | _ \<Rightarrow> False)"

definition mobilePhone :: "string \<Rightarrow> bool" where
  "mobilePhone t =
     (case afterNigerianPrefix t of
        Some (a # b # ds) \<Rightarrow> a \<in> set ''789'' \<and> b \<in> set ''01'' \<and> list_all is_digit ds \<and> length ds = 8
      | _ \<Rightarrow> False)"

text \<open>\<open>/^[A-Z0-9-]+$/\<close>\<close>

definition plateChar :: "char \<Rightarrow> bool" where
  "plateChar c \<longleftrightarrow> (let n = of_char c :: nat in 65 \<le> n \<and> n \<le> 90 \<or> 48 \<le> n \<and> n \<le> 57 \<or> n = 45)"

definition plate :: "string \<Rightarrow> bool" where
  "plate t \<longleftrightarrow> t \<noteq> [] \<and> list_all plateChar t"

section \<open>Enumerations\<close>

definition rideCategoryValues :: "string list" where
  "rideCategoryValues = [''private'', ''shared'', ''okada'', ''car'']"

definition rideStatusValues :: "string list" where
  "rideStatusValues = [''requested'', ''accepted'', ''arrived'', ''in_progress'', ''completed'', ''cancelled'']"

definition originChannelValues :: "string list" where
  "originChannelValues = [''app'', ''whatsapp'', ''voice'']"

definition vehicleTypeValues :: "string list" where
  "vehicleTypeValues = [''keke'', ''bike'', ''car'', ''courier'']"

definition verificationStatusValues :: "string list" where
  "verificationStatusValues = [''pending'', ''approved'', ''rejected'']"

definition emergencyStatusValues :: "string list" where
  "emergencyStatusValues = [''active'', ''resolved'', ''false_alarm'']"

section \<open>Rides\<close>

definition LocationDto_rules :: dto where
  "LocationDto_rules = [
     (''address'', [IsNotEmpty (Some ''Address is required''), IsString None]),
     (''lat'', [IsNotEmpty (Some ''Latitude is required''), IsNumber None,
        MinValue (-90) (Some ''Latitude must be between -90 and 90''),
        MaxValue 90 (Some ''Latitude must be between -90 and 90'')]),
     (''lng'', [IsNotEmpty (Some ''Longitude is required''), IsNumber None,
        MinValue (-180) (Some ''Longitude must be between -180 and 180''),
        MaxValue 180 (Some ''Longitude must be between -180 and 180'')])]"

definition CreateRideDto_rules :: dto where
  "CreateRideDto_rules = [
     (''userId'', [IsOptional, IsUUID (Some 4) (Some ''User ID must be a valid UUID'')]),
     (''pickup'', [IsNotEmpty (Some ''Pickup location is required''), ValidateNested LocationDto_rules]),
     (''dropoff'', [IsNotEmpty (Some ''Dropoff location is required''), ValidateNested LocationDto_rules]),
     (''category'', [IsNotEmpty (Some ''Ride category is required''),
        IsEnum rideCategoryValues (Some ''Category must be one of: private, shared, okada, car'')]),
     (''originChannel'', [IsOptional,
        IsEnum originChannelValues (Some ''Origin channel must be one of: app, whatsapp, voice'')])]"

definition EstimateRideDto_rules :: dto where
  "EstimateRideDto_rules = [
     (''pickup'', [IsNotEmpty (Some ''Pickup location is required''), ValidateNested LocationDto_rules]),
     (''dropoff'', [IsNotEmpty (Some ''Dropoff location is required''), ValidateNested LocationDto_rules])]"

definition UpdateRideStatusDto_rules :: dto where
  "UpdateRideStatusDto_rules = [
     (''status'', [IsNotEmpty (Some ''Status is required''), IsEnum rideStatusValues
        (Some ''Status must be one of: requested, accepted, arrived, in_progress, completed, cancelled'')]),
     (''vehicleId'', [IsUUID (Some 4) (Some ''Vehicle ID must be a valid UUID'')])]"

definition CancelRideDto_rules :: dto where
  "CancelRideDto_rules = [(''cancellationReason'', [IsOptional, IsString None])]"

definition CreateRatingDto_rules :: dto where
  "CreateRatingDto_rules = [
     (''rideId'', [IsUUID None None]),
     (''rateeId'', [IsUUID None None]),
     (''rateeType'', [IsEnum [''user'', ''driver''] None]),
     (''rating'', [IsInt None, MinValue 1 None, MaxValue 5 None]),
     (''comment'', [IsString None, IsOptional])]"

section \<open>Wallet, emergencies, positions\<close>

definition RequestFuelSupportDto_rules :: dto where
  "RequestFuelSupportDto_rules = [
     (''amount'', [IsNotEmpty (Some ''Amount is required''), IsNumber (Some ''Amount must be a number''),
        MinValue 100 (Some ''Minimum fuel support request is N100'')])]"

definition BankAccountDto_rules :: dto where
  "BankAccountDto_rules = [
     (''accountNumber'', [IsNotEmpty (Some ''Account number is required''),
        Matches tenDigits (Some ''Account number must be 10 digits'')]),
     (''bankCode'', [IsNotEmpty (Some ''Bank code is required''), IsString None]),
     (''accountName'', [IsOptional, IsString None])]"

definition RequestPayoutDto_rules :: dto where
  "RequestPayoutDto_rules = [
     (''amount'', [IsNotEmpty (Some ''Amount is required''), IsNumber (Some ''Amount must be a number''),
        MinValue 500 (Some ''Minimum payout is N500'')]),
     (''bankAccount'', [IsNotEmpty (Some ''Bank account is required''), ValidateNested BankAccountDto_rules])]"

definition TriggerEmergencyDto_rules :: dto where
  "TriggerEmergencyDto_rules = [
     (''rideId'', [IsNotEmpty (Some ''Ride ID is required''), IsUUID (Some 4) (Some ''Ride ID must be a valid UUID'')]),
     (''lat'', [IsOptional, IsNumber None, MinValue (-90) None, MaxValue 90 None]),
     (''lng'', [IsOptional, IsNumber None, MinValue (-180) None, MaxValue 180 None]),
     (''note'', [IsOptional, IsString None])]"

definition ResolveEmergencyDto_rules :: dto where
  "ResolveEmergencyDto_rules = [
     (''status'', [IsOptional, IsEnum emergencyStatusValues (Some ''Status must be one of: resolved, false_alarm'')]),
     (''resolutionNote'', [IsOptional, IsString None])]"

definition UpdateLocationDto_rules :: dto where
  "UpdateLocationDto_rules = [
     (''latitude'', [IsNumber None, MinValue (-90) (Some ''Latitude must be between -90 and 90''),
        MaxValue 90 (Some ''Latitude must be between -90 and 90'')]),
     (''longitude'', [IsNumber None, MinValue (-180) (Some ''Longitude must be between -180 and 180''),
        MaxValue 180 (Some ''Longitude must be between -180 and 180'')])]"

section \<open>Drivers\<close>

definition UpdateVerificationStatusDto_rules :: dto where
  "UpdateVerificationStatusDto_rules = [
     (''status'', [IsEnum verificationStatusValues (Some ''status must be one of: pending, approved, rejected'')]),
     (''reason'', [IsOptional, IsString None, MaxLength 500 None])]"

definition UpdateDriverActiveStatusDto_rules :: dto where
  "UpdateDriverActiveStatusDto_rules = [
     (''isActive'', [IsBoolean None]),
     (''reason'', [IsOptional, IsString None, MaxLength 500 None])]"

definition CreateDriverDto_rules :: dto where
  "CreateDriverDto_rules = [
     (''name'', [IsNotEmpty None, IsString None]),
     (''phone'', [IsNotEmpty None, IsString None,
        Matches driverPhone (Some ''Phone number must be a valid Nigerian phone number'')]),
     (''email'', [IsNotEmpty None, IsEmail None]),
     (''password'', [IsNotEmpty None, IsString None,
        MinLength 8 (Some ''Password must be at least 8 characters long'')]),
     (''licenseNumber'', [IsNotEmpty None, IsString None]),
     (''licenseExpiry'', [IsNotEmpty None, IsDateString None]),
     (''vehicleType'', [IsNotEmpty None, IsString None]),
     (''plateNumber'', [IsNotEmpty None, IsString None]),
     (''vehicleColor'', [IsNotEmpty None, IsString None]),
     (''vehicleModel'', [IsNotEmpty None, IsString None]),
     (''vehicleYear'', [IsNotEmpty None])]"

definition DriverLoginDto_rules :: dto where
  "DriverLoginDto_rules = [
     (''email'', [IsNotEmpty None, IsEmail None]),
     (''password'', [IsNotEmpty None, IsString None])]"

definition DriverForgotPasswordDto_rules :: dto where
  "DriverForgotPasswordDto_rules = [(''email'', [IsEmail None])]"

text \<open>The decorators of a code, the same in all three DTOs that carry one.\<close>

definition otpDecorators :: "decorator list" where
  "otpDecorators = [IsString None,
     Length OTP_LENGTH OTP_LENGTH (Some (''OTP must be exactly '' @ js_of_nat OTP_LENGTH @ '' digits'')),
     Matches onlyDigits (Some ''OTP must contain only digits'')]"

definition DriverResetPasswordDto_rules :: dto where
  "DriverResetPasswordDto_rules = [(''email'', [IsEmail None]), (''otp'', otpDecorators),
     (''newPassword'', [IsString None])]"

definition UpdateDriverOnlineStatusDto_rules :: dto where
  "UpdateDriverOnlineStatusDto_rules = [(''isOnline'', [IsBoolean (Some ''isOnline must be true or false'')])]"

definition UpdateDriverDto_rules :: dto where
  "UpdateDriverDto_rules = [
     (''name'', [IsOptional, IsString None, MinLength 2 (Some ''Name must be at least 2 characters'')]),
     (''phone'', [IsOptional, IsString None, Matches mobilePhone
        (Some ''Phone number must be a Nigerian mobile number, e.g. 08012345678 or +2348012345678'')]),
     (''licenseNumber'', [IsOptional, IsString None]),
     (''licenseExpiry'', [IsOptional, IsString None])]"

section \<open>Accounts\<close>

definition ForgotPasswordDto_rules :: dto where
  "ForgotPasswordDto_rules = [(''email'', [IsEmail None])]"

definition GoogleAuthDto_rules :: dto where
  "GoogleAuthDto_rules = [(''name'', [IsString None]), (''email'', [IsEmail None]), (''providerId'', [IsString None])]"

definition LoginDto_rules :: dto where
  "LoginDto_rules = [(''email'', [IsEmail None]), (''password'', [IsString None])]"

definition RegisterDto_rules :: dto where
  "RegisterDto_rules = [(''name'', [IsString None]), (''email'', [IsEmail None]),
     (''phone'', [IsString None, Matches riderPhone (Some ''Phone number must be 10-15 digits'')]),
     (''password'', [IsString None]), (''confirmPassword'', [IsString None]), (''acceptTerms'', [IsBoolean None])]"

definition ResendOtpDto_rules :: dto where
  "ResendOtpDto_rules = [(''email'', [IsEmail None])]"

definition ResetPasswordDto_rules :: dto where
  "ResetPasswordDto_rules = [(''email'', [IsEmail None]), (''otp'', otpDecorators),
     (''newPassword'', [IsString None])]"

definition VerifyOtpDto_rules :: dto where
  "VerifyOtpDto_rules = [(''email'', [IsEmail None]), (''otp'', otpDecorators)]"

definition PrivySignInDto_rules :: dto where
  "PrivySignInDto_rules = [
     (''accessToken'', [IsNotEmpty (Some ''A Privy access token is required''), IsString None]),
     (''identityToken'', [IsOptional, IsString None]),
     (''audience'', [IsEnum [''rider'', ''driver''] (Some ''audience must be rider or driver'')]),
     (''name'', [IsOptional, IsString None, MaxLength 120 None])]"

definition PrivyDriverRegisterDto_rules :: dto where
  "PrivyDriverRegisterDto_rules = [
     (''accessToken'', [IsNotEmpty (Some ''A Privy access token is required''), IsString None]),
     (''identityToken'', [IsOptional, IsString None]),
     (''name'', [IsNotEmpty None, IsString None, MaxLength 120 None]),
     (''phone'', [IsNotEmpty None, IsString None,
        Matches driverPhone (Some ''Phone number must be a valid Nigerian phone number'')]),
     (''licenseNumber'', [IsNotEmpty None, IsString None]),
     (''licenseExpiry'', [IsNotEmpty None, IsDateString None]),
     (''vehicleType'', [IsNotEmpty None, IsString None]),
     (''plateNumber'', [IsNotEmpty None, IsString None]),
     (''vehicleColor'', [IsNotEmpty None, IsString None]),
     (''vehicleModel'', [IsNotEmpty None, IsString None]),
     (''vehicleYear'', [IsNotEmpty None, IsString None])]"

definition RefreshSessionDto_rules :: dto where
  "RefreshSessionDto_rules =
     [(''refreshToken'', [IsNotEmpty (Some ''A refresh token is required''), IsString None])]"

section \<open>Vehicles and booking channels\<close>

text \<open>\<open>new Date().getFullYear() + 1\<close> is evaluated when the class is loaded: the year the process
  started is an argument.\<close>

definition CreateVehicleDto_rules :: "nat \<Rightarrow> dto" where
  "CreateVehicleDto_rules startYear = [
     (''driverId'', [IsOptional, IsUUID None None]),
     (''type'', [IsNotEmpty None,
        IsEnum vehicleTypeValues (Some ''Vehicle type must be one of: keke, bike, car, courier'')]),
     (''plateNumber'', [IsNotEmpty None, IsString None, Matches plate
        (Some ''Plate number must contain only uppercase letters, numbers, and hyphens'')]),
     (''color'', [IsNotEmpty None, IsString None]),
     (''model'', [IsNotEmpty None, IsString None]),
     (''year'', [IsNotEmpty None, IsInt None, MinValue 1990 (Some ''Year must be 1990 or later''),
        MaxValue (of_nat (startYear + 1)) (Some ''Year cannot be more than next year'')])]"

definition UpdateVehicleDto_rules :: "nat \<Rightarrow> dto" where
  "UpdateVehicleDto_rules startYear = [
     (''type'', [IsOptional,
        IsEnum vehicleTypeValues (Some ''Vehicle type must be one of: keke, bike, car, courier'')]),
     (''plateNumber'', [IsOptional, IsString None, Matches plate
        (Some ''Plate number must contain only uppercase letters, numbers, and hyphens'')]),
     (''color'', [IsOptional, IsString None]),
     (''model'', [IsOptional, IsString None]),
     (''year'', [IsOptional, IsInt None, MinValue 1990 (Some ''Year must be 1990 or later''),
        MaxValue (of_nat (startYear + 1)) (Some ''Year cannot be more than next year'')]),
     (''isActive'', [IsOptional, IsBoolean None])]"

definition ParseAndBookDto_rules :: dto where
  "ParseAndBookDto_rules = [
     (''rawText'', [IsNotEmpty (Some ''Message text is required''), IsString None, MaxLength 500 None]),
     (''channel'', [IsNotEmpty (Some ''Channel is required''),
        IsEnum originChannelValues (Some ''Channel must be one of: app, whatsapp, voice'')]),
     (''callerPhone'', [IsOptional, Matches callerNumber (Some ''Caller phone must be a valid phone number'')]),
     (''pickup'', [IsOptional, ValidateNested LocationDto_rules]),
     (''dropoff'', [IsOptional, ValidateNested LocationDto_rules])]"

end
