(* ===== verification/ValidationRules.thy ===== *)
theory ValidationRules
  imports RequestSchemas EnvelopeRules Samples
begin

text \<open>
  What the validation of a body is worth to the code behind it: an accepted body carries nothing its
  DTO does not name and every value it names within its bounds; a genuine one-time code is accepted
  and nothing else of its field is; and what a refused client is told. The gaps follow.
\<close>

section \<open>Accepted bodies\<close>

lemma failed_Nil: "failed V name ds v = [] \<longleftrightarrow> skipped ds v \<or> list_all (\<lambda>d. passes V d v) ds"
  by (auto simp: failed_def filter_empty_conv list_all_iff)

lemma report_Nil: "report name c e = [] \<longleftrightarrow> c = [] \<and> e = []"
  by (simp add: report_def)

text \<open>The tree of problems is empty exactly when every key is known and every property is in order.\<close>

lemma problems_Nil:
  "problems V dto fs = [] \<longleftrightarrow>
     list_all (\<lambda>k. k \<in> fst ` set dto) (map fst fs) \<and>
     list_all (\<lambda>(name, ds). skipped ds (lookup fs name) \<or> list_all (\<lambda>d. passes V d (lookup fs name)) ds \<and>
       list_all (\<lambda>inner. nestedProblems V inner (lookup fs name) = []) (nestedDtos ds)) dto"
  by (auto simp: problems.simps report_Nil failed_Nil list_all_iff filter_empty_conv)

lemma nested_record: "nestedProblems V dto (JsRecord fs) = problems V dto fs"
  by (simp add: nestedProblems.simps)

lemma nested_empty: "nestedProblems V dto (JsList []) = []"
  by (simp add: nestedProblems.simps)

lemma textWith_iff: "textWith p v \<longleftrightarrow> (\<exists>t. v = JsText t \<and> p t)"
  by (cases v) (simp_all add: textWith_def)

lemma numberWith_iff: "numberWith p v \<longleftrightarrow> (\<exists>n. v = JsNumber n \<and> p n)"
  by (cases v) (simp_all add: numberWith_def)

lemmas accepted_simps = problems_Nil skipped_def textWith_iff numberWith_iff

text \<open>A location that is an object.\<close>

lemma accepted_location:
  "problems V LocationDto_rules fs = [] \<Longrightarrow> \<exists>address lat lng. lookup fs ''address'' = JsText address \<and>
     address \<noteq> [] \<and> lookup fs ''lat'' = JsNumber lat \<and> \<bar>lat\<bar> \<le> 90 \<and>
     lookup fs ''lng'' = JsNumber lng \<and> \<bar>lng\<bar> \<le> 180 \<and> set (map fst fs) \<subseteq> {''address'', ''lat'', ''lng''}"
  by (auto simp: LocationDto_rules_def accepted_simps list_all_iff abs_le_iff)


text \<open>A request for money names an amount above its minimum, and an account of ten digits.\<close>

theorem accepted_payout_in_range:
  assumes "validationPipe V RequestPayoutDto_rules body = Inr dto"
    and "lookup body ''bankAccount'' = JsRecord account"
  shows "(\<exists>amount. lookup body ''amount'' = JsNumber amount \<and> 500 \<le> amount) \<and>
    (\<exists>number code. lookup account ''accountNumber'' = JsText number \<and> tenDigits number \<and>
      lookup account ''bankCode'' = JsText code \<and> code \<noteq> [])"
proof -
  have ok: "problems V RequestPayoutDto_rules body = []"
    using assms(1) by (auto simp: validationPipe_def split: list.splits)
  then have "problems V BankAccountDto_rules account = []"
    using assms(2) by (auto simp: RequestPayoutDto_rules_def accepted_simps nested_record)
  then show ?thesis using ok
    by (auto simp: RequestPayoutDto_rules_def BankAccountDto_rules_def accepted_simps)
qed

theorem accepted_rating_in_range:
  assumes "validationPipe V CreateRatingDto_rules body = Inr dto"
  shows "\<exists>n. lookup body ''rating'' = JsNumber (of_int n) \<and> n \<in> {1..5}"
proof -
  have "problems V CreateRatingDto_rules body = []"
    using assms by (auto simp: validationPipe_def split: list.splits)
  then obtain x where x: "lookup body ''rating'' = JsNumber x" "of_int \<lfloor>x\<rfloor> = x" "1 \<le> x" "x \<le> 5"
    by (auto simp: CreateRatingDto_rules_def accepted_simps)
  then have "1 \<le> \<lfloor>x\<rfloor>" "\<lfloor>x\<rfloor> \<le> 5" by (simp_all add: le_floor_iff floor_le_iff)
  then show ?thesis using x by (metis atLeastAtMost_iff)
qed

section \<open>One-time codes\<close>

text \<open>C23: The generator and the validators of one-time codes agree: every code the server draws passes
  the decorators of the code in all three DTOs that take one, and what passes is exactly six
  decimal digits, so that the comparison of fixed 64-byte buffers sees the whole of it.\<close>

theorem genuine_code_passes:
  assumes "env_ok env" and "generateOtp env s = (code, s')"
  shows "failed V ''otp'' otpDecorators (JsText code) = [] \<and>
    (\<forall>v. (failed V ''otp'' otpDecorators v = []) = (\<exists>t. v = JsText t \<and> length t = 6 \<and> list_all is_digit t)) \<and>
    map_of VerifyOtpDto_rules ''otp'' = Some otpDecorators \<and>
    map_of ResetPasswordDto_rules ''otp'' = Some otpDecorators \<and>
    map_of DriverResetPasswordDto_rules ''otp'' = Some otpDecorators"
proof -
  have digits: "(failed V ''otp'' otpDecorators v = []) = (\<exists>t. v = JsText t \<and> length t = 6 \<and> list_all is_digit t)"
    for v
  proof (cases v)
    case (JsText t)
    have "(6 \<le> length t \<and> length t \<le> 6 \<and> t \<noteq> [] \<and> list_all is_digit t) = (length t = 6 \<and> list_all is_digit t)"
      by (cases t) auto
    then show ?thesis
      by (simp add: JsText failed_Nil otpDecorators_def skipped_def textWith_def onlyDigits_def OTP_LENGTH_def)
  qed (simp_all add: failed_Nil otpDecorators_def skipped_def textWith_def)
  show ?thesis using digits generateOtp_digits [OF assms]
    by (simp add: VerifyOtpDto_rules_def ResetPasswordDto_rules_def DriverResetPasswordDto_rules_def)
qed

section \<open>Refused bodies\<close>

text \<open>C21: A property the class does not name is refused, and the client is told which: nobody approves
  themselves through the profile update or names an e-mail address to the Privy sign-in.\<close>

theorem unknown_property_refused:
  assumes "k \<in> set (map fst body)" and "k \<notin> fst ` set dto"
  shows "(\<exists>e answer log. validationPipe V dto body = Inl e \<and>
      catch_http requestId time path e = Some (answer, log) \<and> af_statusCode answer = 400 \<and>
      af_code answer = ''VALIDATION_FAILED'' \<and>
      (\<exists>errors. af_errors answer = Some errors \<and>
        \<lparr>fe_field = k, fe_messages = [''property '' @ k @ '' should not exist'']\<rparr> \<in> set errors)) \<and>
    {''email'', ''password'', ''verificationStatus'', ''isActive'', ''isOnline'', ''walletBalance''} \<inter>
      fst ` set UpdateDriverDto_rules = {} \<and>
    ''email'' \<notin> fst ` set PrivySignInDto_rules"
proof -
  have mem: "forbidden k \<in> set (problems V dto body)"
    using assms by (auto simp: problems.simps)
  then obtain e where e: "validationPipe V dto body = Inl e"
      "e = HttpEx 400 (createValidationException (problems V dto body)) ''Bad Request Exception''"
    by (cases "problems V dto body") (auto simp: validationPipe_def)
  let ?found = "concat (map (flatEntry []) (map validationEntry (problems V dto body)))"
  have "flatEntry [] (validationEntry (forbidden k)) =
      [\<lparr>fe_field = k, fe_messages = [''property '' @ k @ '' should not exist'']\<rparr>]"
    by (simp add: forbidden_def validationEntry_def fieldOf_def)
  then have "\<lparr>fe_field = k, fe_messages = [''property '' @ k @ '' should not exist'']\<rparr> \<in> set ?found"
    using mem by (auto simp: image_iff intro!: bexI [of _ "forbidden k"])
  moreover have "describe e = Some \<lparr>ds_statusCode = 400, ds_message = summarise ?found,
      ds_code = ''VALIDATION_FAILED'', ds_errors = Some ?found\<rparr>"
    by (simp add: e(2) describe_def describeHttpException_def createValidationException_def
        extractArray_def toFieldErrors_flat del: map_map)
  ultimately have "\<exists>answer log. catch_http requestId time path e = Some (answer, log) \<and>
      af_statusCode answer = 400 \<and> af_code answer = ''VALIDATION_FAILED'' \<and>
      (\<exists>errors. af_errors answer = Some errors \<and>
        \<lparr>fe_field = k, fe_messages = [''property '' @ k @ '' should not exist'']\<rparr> \<in> set errors)"
    by (simp add: catch_http_def SERVER_ERROR_THRESHOLD_def)
  then show ?thesis using e(1) by (simp add: UpdateDriverDto_rules_def PrivySignInDto_rules_def)
qed

text \<open>A body whose nested values are objects at most one level down is answered with everything that
  is wrong with it.\<close>

definition flatDto :: "dto \<Rightarrow> bool" where
  "flatDto dto \<longleftrightarrow> list_all (\<lambda>(_, ds). nestedDtos ds = []) dto"

lemma leaf_report: "e \<in> set (report name c []) \<Longrightarrow> leaf e"
  by (auto simp: report_def leaf_def split: if_splits)

lemma leaf_flat: "flatDto dto \<Longrightarrow> list_all leaf (problems V dto fs)"
  by (auto simp: problems.simps list_all_iff flatDto_def forbidden_def leaf_def [of "ValidationError _ _ None"]
      dest!: leaf_report)

lemma shallow_report: "list_all leaf children \<Longrightarrow> e \<in> set (report name c children) \<Longrightarrow> shallow e"
  by (auto simp: report_def shallow_def split: if_splits)

theorem refused_body_is_explained:
  assumes "list_all (\<lambda>(name, ds). list_all flatDto (nestedDtos ds)) dto"
    and "list_all (\<lambda>(name, v). case v of JsList _ \<Rightarrow> False | _ \<Rightarrow> True) body"
    and "validationPipe V dto body = Inl e"
  shows "map_option ds_errors (describe e) = Some (Some (concat (map (findings []) (problems V dto body))))"
proof -
  have e: "e = HttpEx 400 (createValidationException (problems V dto body)) ''Bad Request Exception''"
    using assms(3) by (auto simp: validationPipe_def split: list.splits)
  have nested: "list_all leaf (nestedProblems V inner (lookup body name))"
    if "(name, ds) \<in> set dto" "inner \<in> set (nestedDtos ds)" for name ds inner
  proof -
    have flat: "flatDto inner" using assms(1) that by (auto simp: list_all_iff)
    have "\<not> (\<exists>ws. lookup body name = JsList ws)"
      using assms(2) by (auto simp: lookup_def field_def list_all_iff split: option.splits dest!: map_of_SomeD)
    then show ?thesis using leaf_flat [OF flat] by (cases "lookup body name") (simp_all add: nestedProblems.simps)
  qed
  have "list_all shallow (problems V dto body)"
    unfolding list_all_iff
  proof
    fix p assume "p \<in> set (problems V dto body)"
    then consider k where "p = forbidden k"
      | name ds where "(name, ds) \<in> set dto" "p \<in> set (report name (failed V name ds (lookup body name))
          (if skipped ds (lookup body name) then []
           else concat (map (\<lambda>inner. nestedProblems V inner (lookup body name)) (nestedDtos ds))))"
      by (auto simp: problems.simps)
    then show "shallow p"
    proof cases
      case 1
      then show ?thesis by (simp add: forbidden_def shallow_def)
    next
      case (2 name ds)
      then show ?thesis using nested [OF 2(1)] by (auto simp: list_all_iff intro!: shallow_report [OF _ 2(2)])
    qed
  qed
  from validation_errors_reported [OF this, of "''Bad Request Exception''"] show ?thesis
    by (cases "describe e") (auto simp: e)
qed

section \<open>Gaps\<close>

text \<open>A finding: \<open>ValidateNested\<close> checks an array element by element, and an empty array has none. A
  booking between two empty lists and a payout to an empty list are accepted; the services then
  read a latitude and an account number that are not there.\<close>

theorem empty_list_is_a_location:
  "validationPipe V CreateRideDto_rules
     [(''pickup'', JsList []), (''dropoff'', JsList []), (''category'', JsText ''car'')] =
   Inr [(''pickup'', JsList []), (''dropoff'', JsList []), (''category'', JsText ''car'')] \<and>
   validationPipe V RequestPayoutDto_rules [(''amount'', JsNumber 500), (''bankAccount'', JsList [])] =
   Inr [(''amount'', JsNumber 500), (''bankAccount'', JsList [])]"
  by (simp add: validationPipe_def problems_Nil [THEN iffD2] CreateRideDto_rules_def RequestPayoutDto_rules_def
      skipped_def lookup_def field_def nested_empty textWith_def numberWith_def rideCategoryValues_def)

text \<open>A finding: a driver registers with any number \<open>0[789]\<close> and nine digits, and cannot send the same
  number in a profile update, whose pattern also wants a 0 or 1 in third place.\<close>

theorem registered_phone_is_refused:
  "driverPhone ''08212345678'' \<and> \<not> mobilePhone ''08212345678'' \<and>
   driverPhone ''+2348212345678'' \<and> \<not> riderPhone ''+2348212345678''"
  by code_simp

text \<open>A finding: the vehicle of an acceptance is optional for its type, its comment and the document,
  and required by its decorators.\<close>

theorem vehicle_is_required_to_accept:
  assumes "lookup body ''vehicleId'' = JsNothing"
  shows "\<exists>e. validationPipe V UpdateRideStatusDto_rules body = Inl e"
proof -
  have "problems V UpdateRideStatusDto_rules body \<noteq> []"
    using assms by (simp add: UpdateRideStatusDto_rules_def problems_Nil skipped_def textWith_def)
  then show ?thesis by (cases "problems V UpdateRideStatusDto_rules body") (simp_all add: validationPipe_def)
qed

section \<open>Instances\<close>

definition demoValidators :: validators where
  "demoValidators = \<lparr>vd_email = (\<lambda>t. js_includes t ''@''), vd_date = (\<lambda>t. t \<noteq> []),
     vd_uuid = (\<lambda>_ t. length t = 36), vd_message = (\<lambda>p _. p @ '' is invalid'')\<rparr>"

definition demoPlace :: jsObject where
  "demoPlace = [(''address'', JsText ''Ikeja''), (''lat'', JsNumber (66 / 10)), (''lng'', JsNumber (335 / 100))]"

definition demoBody :: jsObject where
  "demoBody = [(''pickup'', JsRecord demoPlace), (''dropoff'', JsRecord demoPlace), (''category'', JsText ''car'')]"

lemma demoBody_passes: "validationPipe demoValidators CreateRideDto_rules demoBody = Inr demoBody"
  by code_simp


theorem genuine_code_passes_witness:
  "failed demoValidators ''otp'' otpDecorators (JsText (fst (generateOtp demoAuth (demo REQUESTED)))) = []"
  using genuine_code_passes [OF demoAuth_ok, of "demo REQUESTED"]
  by (cases "generateOtp demoAuth (demo REQUESTED)") auto

theorem unknown_property_refused_witness:
  "\<exists>e. validationPipe demoValidators UpdateDriverDto_rules [(''verificationStatus'', JsText ''approved'')] = Inl e"
proof -
  have "''verificationStatus'' \<in> set (map fst [(''verificationStatus'', JsText ''approved'')])"
    "''verificationStatus'' \<notin> fst ` set UpdateDriverDto_rules" by (simp_all add: UpdateDriverDto_rules_def)
  from unknown_property_refused [where V = demoValidators and requestId = 0 and time = 0 and path = "[]", OF this,
      THEN conjunct1]
  show ?thesis by (elim exE conjE) (rule exI)
qed

text \<open>A location in a list is checked, and what is wrong with it never reaches the client: the list of
  errors the answer carries is empty.\<close>

theorem list_element_errors_are_dropped:
  "(case validationPipe demoValidators EstimateRideDto_rules
       [(''pickup'', JsList [JsRecord []]), (''dropoff'', JsRecord demoPlace)] of
      Inl e \<Rightarrow> map_option (\<lambda>d. (ds_statusCode d, ds_errors d)) (describe e)
    | Inr _ \<Rightarrow> None) = Some (400, Some [])"
proof -
  have "problems demoValidators EstimateRideDto_rules
       [(''pickup'', JsList [JsRecord []]), (''dropoff'', JsRecord demoPlace)] =
     [ValidationError ''pickup'' None
       (Some [ValidationError ''0'' None (Some (problems demoValidators LocationDto_rules []))])]"
    by code_simp
  then show ?thesis
    by (auto simp: validationPipe_def describe_def describeHttpException_def createValidationException_def
        extractArray_def toFieldErrors_flat validationEntry_def childEntry_def)
qed

end
