(* ===== verification/RedisConnection.thy ===== *)
theory RedisConnection
  imports Configuration
begin

text \<open>
  \<open>src/config/redis.config.ts\<close> and the options \<open>src/redis/redis.module.ts\<close> builds from it: where the
  process looks for Redis. \<open>urlOf\<close> is the constructor of the platform's \<open>URL\<close>, \<open>None\<close> its
  \<open>TypeError\<close>. Escapes of bytes from 128 on stand for characters outside the strings of this
  development; they count as malformed.
\<close>

record urlParts =
  url_protocol :: string
  url_hostname :: string
  url_port :: string
  url_username :: string
  url_password :: string

section \<open>Library functions\<close>

text \<open>\<open>parseInt(text, 10)\<close>, \<open>None\<close> for \<open>NaN\<close>, and a number inside a template.\<close>

definition js_parseInt :: "string \<Rightarrow> int option" where
  "js_parseInt t =
     (case after_sign (dropWhile is_ws t) of (neg, u) \<Rightarrow>
        let ds = takeWhile is_digit u
        in if ds = [] then None
           else Some (if neg then - int (digits_value ds) else int (digits_value ds)))"

definition portText :: "int option \<Rightarrow> string" where
  "portText p =
     (case p of
        None \<Rightarrow> ''NaN''
      | Some n \<Rightarrow> if n < 0 then ''-'' @ js_of_nat (nat (- n)) else js_of_nat (nat n))"

definition unreserved :: "char \<Rightarrow> bool" where
  "unreserved c \<longleftrightarrow> is_digit c \<or> (let n = of_char (lower_char c) :: nat in 97 \<le> n \<and> n \<le> 122) \<or>
     c \<in> set ''-_.!~*()'' \<or> c = CHR 0x27"

definition hexChar :: "nat \<Rightarrow> char" where
  "hexChar d = (if d < 10 then char_of (48 + d) else char_of (55 + d))"

definition hexValue :: "char \<Rightarrow> nat option" where
  "hexValue c =
     (let n = of_char c :: nat
      in if 48 \<le> n \<and> n \<le> 57 then Some (n - 48)
         else if 65 \<le> n \<and> n \<le> 70 then Some (n - 55)
         else if 97 \<le> n \<and> n \<le> 102 then Some (n - 87) else None)"

definition encodeChar :: "char \<Rightarrow> string" where
  "encodeChar c =
     (if unreserved c then [c]
      else [CHR 0x25, hexChar (of_char c div 16), hexChar (of_char c mod 16)])"

definition encodeURIComponent :: "string \<Rightarrow> string" where
  "encodeURIComponent t = concat (map encodeChar t)"

fun decodeURIComponent :: "string \<Rightarrow> string option" where
  "decodeURIComponent [] = Some []"
| "decodeURIComponent (c # t) =
     (if c \<noteq> CHR 0x25 then map_option ((#) c) (decodeURIComponent t)
      else case t of
        h # l # r \<Rightarrow>
          (case (hexValue h, hexValue l) of
             (Some a, Some b) \<Rightarrow>
               if 16 * a + b < 128 then map_option ((#) (char_of (16 * a + b))) (decodeURIComponent r) else None
           | _ \<Rightarrow> None)
      | _ \<Rightarrow> None)"

section \<open>The connection\<close>

record RedisConnection =
  rc_host :: string
  rc_port :: "int option"
  rc_password :: "string option"
  rc_username :: "string option"
  rc_tls :: bool

definition DEFAULT_PORT :: int where
  "DEFAULT_PORT = 6379"

text \<open>\<open>text ? decodeURIComponent(text) : undefined\<close>; the outer \<open>None\<close> is a \<open>URIError\<close>.\<close>

definition decodedPart :: "string \<Rightarrow> string option option" where
  "decodedPart t = (if t = [] then Some None else map_option Some (decodeURIComponent t))"

definition parseRedisUrl :: "(string \<Rightarrow> urlParts option) \<Rightarrow> string option \<Rightarrow> RedisConnection option" where
  "parseRedisUrl urlOf raw =
     (case raw of
        None \<Rightarrow> None
      | Some [] \<Rightarrow> None
      | Some text \<Rightarrow>
          (case urlOf text of
             None \<Rightarrow> None
           | Some url \<Rightarrow>
               if url_protocol url \<noteq> ''redis:'' \<and> url_protocol url \<noteq> ''rediss:'' then None
               else case (decodedPart (url_password url), decodedPart (url_username url)) of
                 (Some password, Some username) \<Rightarrow> Some \<lparr>rc_host = url_hostname url,
                   rc_port = (if url_port url \<noteq> [] then js_parseInt (url_port url) else Some DEFAULT_PORT),
                   rc_password = password, rc_username = username,
                   rc_tls = (url_protocol url = ''rediss:'')\<rparr>
               | _ \<Rightarrow> None))"

definition filledOr :: "string option \<Rightarrow> string option" where
  "filledOr v = (case v of Some (c # t) \<Rightarrow> Some (c # t) | _ \<Rightarrow> None)"

definition redisConnection :: "(string \<Rightarrow> urlParts option) \<Rightarrow> processEnv \<Rightarrow> RedisConnection" where
  "redisConnection urlOf env =
     (case parseRedisUrl urlOf (env ''REDIS_URL'') of
        Some fromUrl \<Rightarrow> fromUrl
      | None \<Rightarrow> \<lparr>rc_host = (case filledOr (env ''REDIS_HOST'') of Some h \<Rightarrow> h | None \<Rightarrow> ''localhost''),
          rc_port = js_parseInt (case env ''REDIS_PORT'' of Some p \<Rightarrow> p | None \<Rightarrow> portText (Some DEFAULT_PORT)),
          rc_password = filledOr (env ''REDIS_PASSWORD''), rc_username = None, rc_tls = False\<rparr>)"

definition redisConnectionUrl :: "(string \<Rightarrow> urlParts option) \<Rightarrow> processEnv \<Rightarrow> string" where
  "redisConnectionUrl urlOf env =
     (case parseRedisUrl urlOf (env ''REDIS_URL'') of
        Some _ \<Rightarrow> the (env ''REDIS_URL'')
      | None \<Rightarrow>
          let c = redisConnection urlOf env;
              scheme = (if rc_tls c then ''rediss'' else ''redis'');
              auth = (case filledOr (rc_password c) of
                        None \<Rightarrow> [] | Some p \<Rightarrow> '':'' @ encodeURIComponent p @ ''@'')
          in scheme @ ''://'' @ auth @ rc_host c @ '':'' @ portText (rc_port c))"

text \<open>The options of the queue and of the shared client: the keys that are set.\<close>

record redisOptions =
  ro_host :: string
  ro_port :: "int option"
  ro_password :: "string option"
  ro_username :: "string option"
  ro_tls :: bool
  ro_maxRetries :: "int option option"

definition queueOptions :: "(string \<Rightarrow> urlParts option) \<Rightarrow> processEnv \<Rightarrow> redisOptions" where
  "queueOptions urlOf env =
     (let c = redisConnection urlOf env
      in \<lparr>ro_host = rc_host c, ro_port = rc_port c, ro_password = filledOr (rc_password c),
          ro_username = filledOr (rc_username c), ro_tls = rc_tls c, ro_maxRetries = None\<rparr>)"

definition clientOptions :: "(string \<Rightarrow> urlParts option) \<Rightarrow> processEnv \<Rightarrow> redisOptions" where
  "clientOptions urlOf env = (queueOptions urlOf env)\<lparr>ro_maxRetries := Some None\<rparr>"

section \<open>One Redis for all\<close>

lemma hexValue_hexChar: "d < 16 \<Longrightarrow> hexValue (hexChar d) = Some d"
  by (auto simp: hexValue_def hexChar_def Let_def)

lemma percent_reserved: "\<not> unreserved CHR 0x25"
  by code_simp

lemma decode_encoded:
  "list_all (\<lambda>c. of_char c < (128 :: nat)) t \<Longrightarrow> decodeURIComponent (encodeURIComponent t) = Some t"
proof (induction t)
  case (Cons c t)
  then have rest: "decodeURIComponent (concat (map encodeChar t)) = Some t" "of_char c < (128 :: nat)"
    by (simp_all add: encodeURIComponent_def)
  show ?case
  proof (cases "unreserved c")
    case True
    then have "c \<noteq> CHR 0x25" using percent_reserved by blast
    then show ?thesis using True rest(1) by (simp add: encodeURIComponent_def encodeChar_def)
  next
    case False
    have "of_char c div 16 < (16 :: nat)" "of_char c mod 16 < (16 :: nat)" using rest(2) by simp_all
    then show ?thesis using False rest
      by (simp add: encodeURIComponent_def encodeChar_def hexValue_hexChar)
  qed
qed (simp add: encodeURIComponent_def)

text \<open>Encoding escapes every character that would end the password inside a URL.\<close>

lemma encoded_is_safe: "c \<in> set (encodeURIComponent t) \<Longrightarrow> c \<notin> set ''@:/?#[]''"
proof -
  assume "c \<in> set (encodeURIComponent t)"
  then obtain d where d: "c \<in> set (encodeChar d)" by (auto simp: encodeURIComponent_def)
  have delimiters: "\<not> list_ex (\<lambda>c. unreserved c \<or> c = CHR 0x25 \<or> hexValue c \<noteq> None) ''@:/?#[]''" by code_simp
  have byte: "(of_char d :: nat) < 256" using of_char_mod_256 [of d] by (metis mod_less_divisor zero_less_numeral)
  have "unreserved c \<or> c = CHR 0x25 \<or> hexValue c \<noteq> None"
    using d byte hexValue_hexChar by (auto simp: encodeChar_def less_mult_imp_div_less split: if_splits)
  then show ?thesis using delimiters by (auto simp: list_ex_iff)
qed

text \<open>The cache is given a URL, the queue and the client the parts. Where Redis is configured by its
  parts, a URL constructor that splits that URL at its delimiters gives the cache the host, the port and the password the
  other two use; where a URL is configured all three use it.\<close>

theorem one_redis_for_all:
  assumes "parseRedisUrl urlOf (env ''REDIS_URL'') = None \<Longrightarrow>
      urlOf (redisConnectionUrl urlOf env) = Some \<lparr>url_protocol = ''redis:'',
        url_hostname = rc_host (redisConnection urlOf env),
        url_port = portText (rc_port (redisConnection urlOf env)), url_username = [],
        url_password = (case rc_password (redisConnection urlOf env) of
                          None \<Rightarrow> [] | Some p \<Rightarrow> encodeURIComponent p)\<rparr>"
    and "list_all (\<lambda>c. of_char c < (128 :: nat)) (case env ''REDIS_PASSWORD'' of Some p \<Rightarrow> p | None \<Rightarrow> [])"
    and "case rc_port (redisConnection urlOf env) of Some p \<Rightarrow> 0 \<le> p | None \<Rightarrow> False"
  shows "parseRedisUrl urlOf (Some (redisConnectionUrl urlOf env)) = Some (redisConnection urlOf env)"
proof (cases "parseRedisUrl urlOf (env ''REDIS_URL'')")
  case (Some c)
  then obtain u where "env ''REDIS_URL'' = Some u"
    by (cases "env ''REDIS_URL''") (auto simp: parseRedisUrl_def)
  then show ?thesis using Some by (simp add: redisConnectionUrl_def redisConnection_def)
next
  case None
  let ?c = "redisConnection urlOf env"
  obtain p where p: "rc_port ?c = Some p" "0 \<le> p" using assms(3) by (cases "rc_port ?c") auto
  obtain d ds where d: "js_of_nat (nat p) = d # ds" "is_digit d" "list_all is_digit ds"
    using js_of_nat_not_Nil [of "nat p"] js_of_nat_digits [of "nat p"] by (cases "js_of_nat (nat p)") auto
  then have tw: "takeWhile is_digit ds = ds" by (simp add: list_all_iff takeWhile_eq_all_conv)
  have port: "js_parseInt (portText (Some p)) = Some p" "portText (Some p) \<noteq> []"
    using p(2) is_digit_not [OF d(2)] digits_value_js_of_nat [of "nat p"]
    by (simp_all add: js_parseInt_def portText_def after_sign_def d(1,2) tw)
  have c: "rc_username ?c = None" "\<not> rc_tls ?c" "rc_password ?c = filledOr (env ''REDIS_PASSWORD'')"
    using None by (simp_all add: redisConnection_def)
  have password: "decodedPart (case rc_password ?c of None \<Rightarrow> [] | Some p \<Rightarrow> encodeURIComponent p) = Some (rc_password ?c)"
  proof (cases "rc_password ?c")
    case (Some w)
    then have w: "env ''REDIS_PASSWORD'' = Some w" "w \<noteq> []"
      using c(3) by (auto simp: filledOr_def split: option.splits list.splits)
    have "encodeURIComponent w \<noteq> []" using w(2) by (cases w) (simp_all add: encodeURIComponent_def encodeChar_def)
    then show ?thesis using Some w decode_encoded [of w] assms(2) by (simp add: decodedPart_def)
  qed (simp add: decodedPart_def)
  have "redisConnectionUrl urlOf env \<noteq> []" using None by (simp add: redisConnectionUrl_def Let_def)
  then show ?thesis
    using assms(1) [OF None] password port c(1,2) p(1)
    by (cases "redisConnectionUrl urlOf env") (simp_all add: parseRedisUrl_def decodedPart_def [of "[]"])
qed

text \<open>A finding: an empty host or password falls back, an empty port does not and is no number.\<close>

theorem empty_port_is_not_a_number:
  "redisConnection urlOf ((\<lambda>_. None)(''REDIS_HOST'' := Some [], ''REDIS_PORT'' := Some [])) =
   \<lparr>rc_host = ''localhost'', rc_port = None, rc_password = None, rc_username = None, rc_tls = False\<rparr>"
  by (simp add: redisConnection_def parseRedisUrl_def filledOr_def js_parseInt_def after_sign_def)

end
