(* ===== verification/Spec2Isabelle.thy ===== *)
theory Spec2Isabelle
  imports Prelude JsNumber JsString Money Domain Repository RedisStore Samples FleetMatching Ledger
    Books Rides RideMoney RideLifecycle RideRules Wallet WalletMoney WalletRules
    Tokens TokenRules TokenRaces Credentials Users Drivers DriverRules Vehicles Principals
    AuthFlows PrivySignIn Ratings DriverLocations Emergency
    Stats StatsRules Gateway GatewayRules RequestParser BookingChannels
    Envelope EnvelopeRules Configuration Operations Endpoints Standing Backend BackendRules
    Authority Api EndpointRules Schema Migrations MigrationRules FreshSchema SchemaData
    JsValue PrivyTokens OpenApi Validation RequestSchemas ValidationRules
    RedisConnection
begin

text \<open>
  A verification of the Ark Rides backend, a NestJS service that books rides on tricycles,
  motorcycles and cars, pays its drivers from a ledger, lends them fuel money and reports
  emergencies. Paths are those of the repository; \<open>src/\<close> is its source directory.

  \<^bold>\<open>How the program is modelled.\<close> The world of a process is one record, \<open>Domain.sys\<close>: a list of rows for
  every table of the database (users, drivers, vehicles, rides, ratings, ledger, incidents, refresh
  tokens), the Redis keys, the clock, the supply of fresh ids and the events emitted. The row types
  carry every column but \<open>updatedAt\<close> and the relations. A method of a service is a handler
  \<open>sys \<Rightarrow> (exn + 'a) \<times> sys\<close> (\<open>Prelude\<close>): a throw keeps the writes made before it, \<open>transaction\<close> takes
  them back, \<open>tryFinally\<close> releases a lock either way. Numbers are IEEE doubles: a rational after every
  operation rounded to the nearest double (\<open>JsNumber\<close>); a \<open>decimal(p,2)\<close> column is its hundredths as
  an integer with an overflow check at its precision. Strings are ASCII (\<open>JsString\<close>).
  Concurrency is explicit where it matters: \<open>TokenRaces\<close> interleaves the database statements of
  concurrent refreshes, \<open>WalletRules\<close> the two phases of a fuel advance with a payout, \<open>Gateway\<close> runs
  sockets and events beside requests; elsewhere a request is one step, as its locks make it.

  \<^bold>\<open>Parts, and the theories that model them.\<close>
  \<^item> Foundations: \<open>Prelude\<close>, \<open>JsNumber\<close>, \<open>JsString\<close>, \<open>JsValue\<close>; \<open>Domain\<close> (\<open>src/**/entities\<close>); \<open>Repository\<close>
    (TypeORM) and \<open>RedisStore\<close> (the Redis commands of the services), with the locales below; \<open>Samples\<close>.
  \<^item> Money and fleet rules: \<open>Money\<close> (\<open>common/utils/money.util.ts\<close>), \<open>FleetMatching\<close>
    (\<open>rides/utils/category-matching.util.ts\<close>), \<open>Ledger\<close> (\<open>ledger/ledger.service.ts\<close>), \<open>Books\<close> (keys,
    and balances as sums of entries).
  \<^item> Rides: \<open>Rides\<close> (\<open>rides/rides.service.ts\<close>), \<open>RideMoney\<close> (completion), \<open>RideLifecycle\<close> (the step
    relation and its invariants), \<open>RideRules\<close> (when each operation succeeds); \<open>Ratings\<close>
    (\<open>rides/ratings.service.ts\<close>).
  \<^item> Wallet: \<open>Wallet\<close> (\<open>wallet/wallet.service.ts\<close> and its providers), \<open>WalletMoney\<close>, \<open>WalletRules\<close>.
  \<^item> Identity: \<open>Tokens\<close>, \<open>TokenRules\<close>, \<open>TokenRaces\<close> (\<open>auth/services/token*.ts\<close>), \<open>Credentials\<close>
    (\<open>common/utils/otp.util.ts\<close>), \<open>Users\<close>, \<open>Drivers\<close>, \<open>DriverRules\<close>, \<open>Vehicles\<close> (their services),
    \<open>Principals\<close> (guards, ownership, resolver), \<open>AuthFlows\<close> (\<open>auth/auth.service.ts\<close>), \<open>PrivySignIn\<close> and
    \<open>PrivyTokens\<close> (\<open>auth/privy\<close>).
  \<^item> Positions and emergencies: \<open>DriverLocations\<close>, \<open>Emergency\<close>, with \<open>Operations\<close> (mail and webhook
    workers, \<open>users/admin-bootstrap.service.ts\<close>, \<open>config/jwt.config.ts\<close>).
  \<^item> Realtime: \<open>Gateway\<close>, \<open>GatewayRules\<close> (\<open>websocket/gateways/rides.gateway.ts\<close>).
  \<^item> Booking by message: \<open>RequestParser\<close>, \<open>BookingChannels\<close> (\<open>booking-channels\<close>).
  \<^item> Figures: \<open>Stats\<close>, \<open>StatsRules\<close> (\<open>stats/stats.service.ts\<close>).
  \<^item> The HTTP surface: \<open>Validation\<close> (the pipe of \<open>app-setup.ts\<close>), \<open>RequestSchemas\<close> (\<open>src/**/dto\<close>) and
    \<open>ValidationRules\<close>; \<open>Envelope\<close> and \<open>EnvelopeRules\<close> (interceptor, filter, validation errors);
    \<open>OpenApi\<close> (\<open>common/swagger/document-envelope.ts\<close>); \<open>Configuration\<close> (environment checks, CORS), \<open>RedisConnection\<close> (\<open>config/redis.config.ts\<close>);
    \<open>Endpoints\<close> (every controller, with guards, roles and ownership checks).
  \<^item> The backend as a machine: \<open>Backend\<close> (a \<open>request\<close> is a value, \<open>serve\<close> the router), \<open>Standing\<close> and
    \<open>BackendRules\<close> (what each request may touch), \<open>Authority\<close>, \<open>Api\<close> and \<open>EndpointRules\<close> (what holds
    of any sequence of requests by anybody).
  \<^item> The database: \<open>Schema\<close> (a model of the statements), \<open>Migrations\<close> (all seven, up and down),
    \<open>MigrationRules\<close>, \<open>FreshSchema\<close>, \<open>SchemaData\<close> (the types of the columns against the stored values).

  \<^bold>\<open>Interfaces.\<close> \<open>repository\<close> (find after save, save elsewhere, ids) is interpreted on seven tables;
  \<open>lock_service\<close> on the Redis locks; \<open>frame_rule\<close> states that what a handler does is within a relation,
  closed under the control structures of \<open>Prelude\<close>, \<open>effect\<close> extends it with the writes of accounts,
  and \<open>api_frame\<close> carries it over the router. They are interpreted on \<open>related\<close> (what the account
  services leave alone), \<open>own_wallet\<close> (what wallet requests leave alone) and \<open>api_act\<close> (what a request of a
  given caller may do), and the properties of the whole surface rest on these.

  \<^bold>\<open>What the lemmas show.\<close> Money: the split 95/4/1 in doubles equals integer arithmetic on the whole
  range of fares; a completion pays once, all or nothing; every balance is the sum of its entries,
  whatever is called. Rides: the life cycle, the load of drivers, when an acceptance succeeds. Wallet:
  the daily allowance, no overdraft, the reversal of a declined advance. Sessions: one exchange of a
  token under every interleaving, a replay ends the family, the atomic rotation is refined by its
  statements. Authority: who can move a ride, a wallet, the standing of a driver, and who can read what;
  what a socket may hear. Inputs: an accepted body is within its bounds, an unknown property is
  refused, every exception is answered and a fault tells nothing. Database: the migrations reach the
  full schema and are idempotent, and the values stored fit the columns. Each property that needs a
  hypothesis is followed by a witness on a concrete state; theorems marked as findings show places
  where the code does not do what it or its documentation says.

  \<^bold>\<open>Bounds and fuel.\<close> Nothing uses fuel. \<open>walk\<close>, the recursive flattening of the error filter, is a
  \<open>partial_function\<close> proved to return on every input; \<open>problems\<close> terminates by the size of the value;
  the searches of the parsers recurse on their input. The money lemmas assume fares up to ten billion
  Naira, beyond what the column \<open>decimal(10,2)\<close> holds, and amounts of whole kobo: theorem
  \<open>subkobo_amount_drifts\<close> shows why. \<open>Api\<close> calls a request \<open>orderly\<close> if it has such an amount and does
  not remove a driver whose rides are not finished.

  \<^bold>\<open>Parameters.\<close> Code outside the repository is an argument: the JWT verification of Passport and
  signing, hashing and random draws (\<open>tokenEnv\<close>, \<open>authEnv\<close>), the library of Privy and \<open>JSON.parse\<close>, the
  formats and default texts of class-validator, the gateways of the wallet, the geometry of Redis
  (\<open>geoEnv\<close>), trigonometry, the time zones of Intl, of Postgres and of the server (\<open>statsConfig\<close>),
  SendGrid, \<open>fetch\<close> and whether the job queue is up. TypeORM, the Redis commands, the retries of BullMQ, socket.io
  rooms and the decorators of class-validator are written out as documented: \<open>save\<close> overwrites or
  inserts a row, a unique index refuses a duplicate with a \<open>QueryFailedError\<close>.

  \<^bold>\<open>Conventions.\<close> Ids and random texts come from a counter; error messages keep their fixed part; an
  absent property and \<open>null\<close> are one value; mails are the values they show; the averages of Postgres
  are exact; a day of the revenue page is its number; the two windows of a day use a fixed offset
  from UTC; a malformed UUID in a path is not representable; foreign-key actions are written out in
  \<open>deleteDriverRow\<close> and \<open>removeVehicle\<close>; regular expressions are the ordered search they denote;
  \<open>NaN\<close> and antipodal distances are excluded. In the migrations numbers, dates and ids are integers,
  \<open>NULL\<close> is \<open>None\<close>, a constraint guard compares shapes and \<open>IF NOT EXISTS\<close> names. The typed requests of \<open>Endpoints\<close>
  are bodies that have passed the pipe; \<open>ValidationRules\<close> says what that gives.

  \<^bold>\<open>Not modelled.\<close> An adapter of the sockets between several servers, Nest modules, the throttler and \<open>main.ts\<close> (declarations for the framework),
  the timers of the token sweep (the sweep is), failures of the database or Redis themselves, log
  lines, and the scripts and tests that drive a running server from outside.
\<close>

end
